(* ===== verification/Prelude.thy ===== *)
theory Prelude
  imports Main "HOL-Library.Word" "HOL-Library.List_Lexorder" "HOL-Library.Char_ord"
    "HOL-Library.Multiset"
begin

text \<open>
  What every component shares.

  \<^item> Fallible stateful computations: a Rust method \<open>fn f(&mut self, ..) -> Result<T, E>\<close> is a
    function from the state to a result and the state it leaves behind. The state survives an
    error, as \<open>self\<close> does. \<open>bind\<close> is the \<open>?\<close> operator.
  \<^item> A weakest-precondition calculus for them: one rule per combinator, collected in \<open>wp_rules\<close>.
  \<^item> \<open>str::trim\<close> on UTF-8 byte strings, \<open>i64\<close> arithmetic with its bounds written out, and
    generic lemmas on keyed lists (tables with a primary key).
\<close>

section \<open>Collections\<close>

named_theorems wp_rules "weakest-precondition rules, applied backwards"
named_theorems run_simps "running a computation on a state"
named_theorems key_simps "rewriting of lookups in keyed lists"

section \<open>Fallible stateful computations\<close>

type_synonym ('s, 'e, 'a) fallible = "'s \<Rightarrow> ('e + 'a) \<times> 's"

definition ok :: "'a \<Rightarrow> ('s, 'e, 'a) fallible" where
  "ok x = (\<lambda>s. (Inr x, s))"

definition err :: "'e \<Rightarrow> ('s, 'e, 'a) fallible" where
  "err e = (\<lambda>s. (Inl e, s))"

definition bind :: "('s, 'e, 'a) fallible \<Rightarrow> ('a \<Rightarrow> ('s, 'e, 'b) fallible) \<Rightarrow> ('s, 'e, 'b) fallible" where
  "bind m f = (\<lambda>s. case m s of (Inl e, s') \<Rightarrow> (Inl e, s') | (Inr x, s') \<Rightarrow> f x s')"

text \<open>\<open>Result::map_err\<close>.\<close>

definition map_error :: "('e \<Rightarrow> 'f) \<Rightarrow> ('w, 'e, 'a) fallible \<Rightarrow> ('w, 'f, 'a) fallible" where
  "map_error f m w = (case m w of (Inl e, w') \<Rightarrow> (Inl (f e), w') | (Inr x, w') \<Rightarrow> (Inr x, w'))"

text \<open>\<open>Option::ok_or\<close> followed by \<open>?\<close>, and a pure \<open>Result\<close> followed by \<open>?\<close>.\<close>

definition ok_or :: "'a option \<Rightarrow> 'e \<Rightarrow> ('s, 'e, 'a) fallible" where
  "ok_or v e = (case v of None \<Rightarrow> err e | Some x \<Rightarrow> ok x)"

definition of_result :: "'e + 'a \<Rightarrow> ('s, 'e, 'a) fallible" where
  "of_result r = (\<lambda>s. (r, s))"

text \<open>A \<open>for\<close> loop whose body may return early with an error, and one that carries a value.\<close>

fun for_each :: "'x list \<Rightarrow> ('x \<Rightarrow> ('s, 'e, unit) fallible) \<Rightarrow> ('s, 'e, unit) fallible" where
  "for_each [] f = ok ()"
| "for_each (x # xs) f = bind (f x) (\<lambda>_. for_each xs f)"

fun for_fold :: "'x list \<Rightarrow> 'a \<Rightarrow> ('a \<Rightarrow> 'x \<Rightarrow> ('s, 'e, 'a) fallible) \<Rightarrow> ('s, 'e, 'a) fallible" where
  "for_fold [] a f = ok a"
| "for_fold (x # xs) a f = bind (f a x) (\<lambda>a'. for_fold xs a' f)"

lemma ok_apply [run_simps]: "ok x s = (Inr x, s)"
  by (simp add: ok_def)

lemma err_apply [run_simps]: "err e s = (Inl e, s)"
  by (simp add: err_def)

lemma of_result_apply [run_simps]: "of_result r s = (r, s)"
  by (simp add: of_result_def)

lemma ok_or_simps [simp]: "ok_or None e = err e" "ok_or (Some x) e = ok x"
  by (simp_all add: ok_or_def)

lemma bind_apply [run_simps]:
  "bind m f s = (case m s of (Inl e, s') \<Rightarrow> (Inl e, s') | (Inr x, s') \<Rightarrow> f x s')"
  by (simp add: bind_def)

lemma bind_ok [simp]: "bind (ok x) f = f x"
  by (simp add: run_simps fun_eq_iff)

lemma bind_err [simp]: "bind (err e) f = err e"
  by (simp add: run_simps fun_eq_iff)

lemma bind_eval:
  "m s = (Inr x, s') \<Longrightarrow> bind m f s = f x s'"
  "m s = (Inl e, s') \<Longrightarrow> bind m f s = (Inl e, s')"
  by (simp_all add: bind_def)

text \<open>When a computation succeeds, and when it fails.\<close>

lemma map_error_Inr: "map_error g m w = (Inr x, w') \<longleftrightarrow> m w = (Inr x, w')"
  by (auto simp: map_error_def split: prod.splits sum.splits)

lemma map_error_Inl: "map_error g m w = (Inl e, w') \<longleftrightarrow> (\<exists>e'. m w = (Inl e', w') \<and> e = g e')"
  by (auto simp: map_error_def split: prod.splits sum.splits)

lemma bind_Inr: "bind m f w = (Inr y, w'') \<longleftrightarrow> (\<exists>x w'. m w = (Inr x, w') \<and> f x w' = (Inr y, w''))"
  by (auto simp: bind_def split: prod.splits sum.splits)

lemma bind_Inl: "bind m f w = (Inl e, w'') \<longleftrightarrow>
    m w = (Inl e, w'') \<or> (\<exists>x w'. m w = (Inr x, w') \<and> f x w' = (Inl e, w''))"
  by (auto simp: bind_def split: prod.splits sum.splits)

lemmas outcome = map_error_Inr map_error_Inl bind_Inr bind_Inl

lemma bind_InrE:
  assumes "bind m f w = (Inr y, w'')"
  obtains x w' where "m w = (Inr x, w')" "f x w' = (Inr y, w'')"
  using assms by (auto simp: bind_Inr)

subsection \<open>Weakest preconditions\<close>

text \<open>
  \<open>wp m Q E s\<close>: run from \<open>s\<close>, a successful \<open>m\<close> establishes \<open>Q\<close> of its value and the final
  state, a failing one \<open>E\<close> of its error and the final state. Every computation returns.
\<close>

definition wp :: "('s, 'e, 'a) fallible \<Rightarrow> ('a \<Rightarrow> 's \<Rightarrow> bool) \<Rightarrow> ('e \<Rightarrow> 's \<Rightarrow> bool) \<Rightarrow> 's \<Rightarrow> bool" where
  "wp m Q E s = (case m s of (Inl e, s') \<Rightarrow> E e s' | (Inr x, s') \<Rightarrow> Q x s')"

lemma wpI:
  assumes "\<And>x s'. m s = (Inr x, s') \<Longrightarrow> Q x s'" "\<And>e s'. m s = (Inl e, s') \<Longrightarrow> E e s'"
  shows "wp m Q E s"
  using assms by (auto simp: wp_def split: prod.splits sum.splits)

lemma wp_okD: "wp m Q E s \<Longrightarrow> m s = (Inr x, s') \<Longrightarrow> Q x s'"
  by (simp add: wp_def)

lemma wp_errD: "wp m Q E s \<Longrightarrow> m s = (Inl e, s') \<Longrightarrow> E e s'"
  by (simp add: wp_def)

lemma wp_state: "wp m (\<lambda>_. P) (\<lambda>_. P) s \<longleftrightarrow> P (snd (m s))"
  by (auto simp: wp_def split: prod.splits sum.splits)

lemma wp_stateD: "wp m (\<lambda>_. P) (\<lambda>_. P) s \<Longrightarrow> m s = (r, s') \<Longrightarrow> P s'"
  using wp_state [of m P s] by simp

lemma wp_mono:
  assumes "wp m Q E s" "\<And>x s'. Q x s' \<Longrightarrow> Q' x s'" "\<And>e s'. E e s' \<Longrightarrow> E' e s'"
  shows "wp m Q' E' s"
  using assms by (auto simp: wp_def split: prod.splits sum.splits)

lemma wp_bind [wp_rules]: "wp m (\<lambda>x. wp (f x) Q E) E s \<Longrightarrow> wp (bind m f) Q E s"
  by (auto simp: wp_def bind_def split: prod.splits sum.splits)

lemma wp_ok [wp_rules]: "Q x s \<Longrightarrow> wp (ok x) Q E s"
  by (simp add: wp_def run_simps)

lemma wp_err [wp_rules]: "E e s \<Longrightarrow> wp (err e) Q E s"
  by (simp add: wp_def run_simps)

lemma wp_if [wp_rules]:
  assumes "b \<Longrightarrow> wp m Q E s" "\<not> b \<Longrightarrow> wp m' Q E s"
  shows "wp (if b then m else m') Q E s"
  using assms by simp

lemma wp_ok_or [wp_rules]:
  assumes "\<And>x. v = Some x \<Longrightarrow> Q x s" "v = None \<Longrightarrow> E e s"
  shows "wp (ok_or v e) Q E s"
  using assms by (cases v) (simp_all add: wp_def run_simps)

lemma wp_of_result [wp_rules]:
  assumes "\<And>x. r = Inr x \<Longrightarrow> Q x s" "\<And>e. r = Inl e \<Longrightarrow> E e s"
  shows "wp (of_result r) Q E s"
  using assms by (cases r) (simp_all add: wp_def run_simps)

lemma wp_option [wp_rules]:
  assumes "v = None \<Longrightarrow> wp m Q E s" "\<And>x. v = Some x \<Longrightarrow> wp (f x) Q E s"
  shows "wp (case v of None \<Rightarrow> m | Some x \<Rightarrow> f x) Q E s"
  using assms by (cases v) simp_all

lemma wp_prod [wp_rules]:
  assumes "\<And>a b. v = (a, b) \<Longrightarrow> wp (f a b) Q E s"
  shows "wp (case v of (a, b) \<Rightarrow> f a b) Q E s"
  using assms by (cases v) simp

lemma wp_let: "wp (f x) Q E s \<Longrightarrow> wp (let y = x in f y) Q E s"
  by simp

text \<open>The loop rule carries an invariant indexed by the elements still to come.\<close>

lemma wp_for_each:
  assumes "\<And>x xs s. I (x # xs) s \<Longrightarrow> wp (f x) (\<lambda>_. I xs) E s"
  shows "I xs s \<Longrightarrow> wp (for_each xs f) (\<lambda>_. I []) E s"
proof (induction xs arbitrary: s)
  case Nil
  then show ?case by (simp add: wp_ok)
next
  case (Cons x xs)
  have "wp (f x) (\<lambda>_. wp (for_each xs f) (\<lambda>_. I []) E) E s"
    by (rule wp_mono [OF assms [OF Cons.prems] Cons.IH])
  then show ?case by (simp add: wp_bind)
qed

lemma wp_for_fold:
  assumes "\<And>a x xs s. I a (x # xs) s \<Longrightarrow> wp (f a x) (\<lambda>a'. I a' xs) E s"
  shows "I a xs s \<Longrightarrow> wp (for_fold xs a f) (\<lambda>a'. I a' []) E s"
proof (induction xs arbitrary: a s)
  case Nil
  then show ?case by (simp add: wp_ok)
next
  case (Cons x xs)
  have "wp (f a x) (\<lambda>a'. wp (for_fold xs a' f) (\<lambda>a'. I a' []) E) E s"
    by (rule wp_mono [OF assms [OF Cons.prems] Cons.IH])
  then show ?case by (simp add: wp_bind)
qed

section \<open>Tables with a key\<close>

text \<open>A table is the list of its rows; \<open>key\<close> reads the column a primary key or a unique index is on.\<close>

definition lookup_by :: "('r \<Rightarrow> 'k) \<Rightarrow> 'k \<Rightarrow> 'r list \<Rightarrow> 'r option" where
  "lookup_by key k rows = find (\<lambda>r. key r = k) rows"

definition update_by :: "('r \<Rightarrow> 'k) \<Rightarrow> 'k \<Rightarrow> ('r \<Rightarrow> 'r) \<Rightarrow> 'r list \<Rightarrow> 'r list" where
  "update_by key k f rows = map (\<lambda>r. if key r = k then f r else r) rows"

definition has_key :: "('r \<Rightarrow> 'k) \<Rightarrow> 'k \<Rightarrow> 'r list \<Rightarrow> bool" where
  "has_key key k rows = list_ex (\<lambda>r. key r = k) rows"

lemma has_key_iff: "has_key key k rows \<longleftrightarrow> k \<in> key ` set rows"
  by (auto simp: has_key_def list_ex_iff)

lemma lookup_by_Nil [simp]: "lookup_by key k [] = None"
  by (simp add: lookup_by_def)

lemma lookup_by_Cons [simp]:
  "lookup_by key k (r # rows) = (if key r = k then Some r else lookup_by key k rows)"
  by (simp add: lookup_by_def)

lemma lookup_by_None [key_simps]: "lookup_by key k rows = None \<longleftrightarrow> k \<notin> key ` set rows"
  by (induction rows) auto

lemma lookup_by_SomeD: "lookup_by key k rows = Some r \<Longrightarrow> r \<in> set rows \<and> key r = k"
  by (induction rows) (auto split: if_splits)

lemma lookup_by_Some_iff [key_simps]:
  "distinct (map key rows) \<Longrightarrow> lookup_by key k rows = Some r \<longleftrightarrow> r \<in> set rows \<and> key r = k"
  by (induction rows) (auto simp: image_iff)

lemma lookup_by_append [key_simps]:
  "lookup_by key k (xs @ ys) = (case lookup_by key k xs of None \<Rightarrow> lookup_by key k ys | Some r \<Rightarrow> Some r)"
  by (induction xs) auto

lemma lookup_by_update [key_simps]:
  assumes "\<And>r. key (f r) = key r"
  shows "lookup_by key k' (update_by key k f rows) =
    (if k' = k then map_option f (lookup_by key k rows) else lookup_by key k' rows)"
  using assms by (induction rows) (auto simp: update_by_def)

lemma map_update_by [key_simps]:
  assumes "\<And>r. r \<in> set rows \<Longrightarrow> key r = k \<Longrightarrow> g (f r) = g r"
  shows "map g (update_by key k f rows) = map g rows"
  using assms by (auto simp: update_by_def)

lemma update_by_missing: "k \<notin> key ` set rows \<Longrightarrow> update_by key k f rows = rows"
  by (induction rows) (auto simp: update_by_def)

lemma set_update_byD: "r \<in> set (update_by key k f rows) \<Longrightarrow>
    (r \<in> set rows \<and> key r \<noteq> k) \<or> (\<exists>r0 \<in> set rows. key r0 = k \<and> r = f r0)"
  by (auto simp: update_by_def split: if_splits)

lemma distinct_map_same: "distinct (map key rows) \<Longrightarrow> x \<in> set rows \<Longrightarrow> y \<in> set rows \<Longrightarrow>
    key x = key y \<Longrightarrow> x = y"
  by (simp add: distinct_map inj_on_def)

section \<open>Machine integers\<close>

text \<open>
  A signed 64-bit value is an \<open>int\<close> with its bounds written out; an unsigned one is a
  \<open>64 word\<close>. \<open>checked_add\<close>, \<open>saturating_sub\<close> and \<open>i64::try_from\<close> as in the standard library;
  plain \<open>+\<close> wraps, as a release build does.
\<close>

type_synonym u32 = "32 word"
type_synonym u64 = "64 word"

definition i64_MIN :: int where "i64_MIN = - (2 ^ 63)"
definition i64_MAX :: int where "i64_MAX = 2 ^ 63 - 1"

definition is_i64 :: "int \<Rightarrow> bool" where
  "is_i64 x \<longleftrightarrow> i64_MIN \<le> x \<and> x \<le> i64_MAX"

definition i64_checked_add :: "int \<Rightarrow> int \<Rightarrow> int option" where
  "i64_checked_add a b = (if is_i64 (a + b) then Some (a + b) else None)"

definition i64_saturating_sub :: "int \<Rightarrow> int \<Rightarrow> int" where
  "i64_saturating_sub a b = max i64_MIN (min i64_MAX (a - b))"

definition i64_wrapping_add :: "int \<Rightarrow> int \<Rightarrow> int" where
  "i64_wrapping_add a b = (a + b + 2 ^ 63) mod 2 ^ 64 - 2 ^ 63"

definition u64_checked_mul :: "u64 \<Rightarrow> u64 \<Rightarrow> u64 option" where
  "u64_checked_mul a b = (if uint a * uint b < 2 ^ 64 then Some (a * b) else None)"

definition i64_try_from_u64 :: "u64 \<Rightarrow> int option" where
  "i64_try_from_u64 a = (if uint a \<le> i64_MAX then Some (uint a) else None)"

lemma u64_checked_mul_Some: "u64_checked_mul a b = Some c \<Longrightarrow> uint c = uint a * uint b"
  by (auto simp: u64_checked_mul_def uint_word_ariths split: if_splits)

lemma i64_checked_add_Some: "i64_checked_add a b = Some c \<Longrightarrow> c = a + b \<and> is_i64 c"
  by (auto simp: i64_checked_add_def split: if_splits)

lemma is_i64_saturating_sub: "is_i64 (i64_saturating_sub a b)"
  by (auto simp: is_i64_def i64_saturating_sub_def i64_MIN_def i64_MAX_def)

lemma is_i64_wrapping_add: "is_i64 (i64_wrapping_add a b)"
proof -
  have "0 \<le> (a + b + 2 ^ 63) mod 2 ^ 64" "(a + b + 2 ^ 63) mod 2 ^ 64 < (2 ^ 64 :: int)"
    by simp_all
  then show ?thesis by (auto simp: is_i64_def i64_wrapping_add_def i64_MIN_def i64_MAX_def)
qed

lemma i64_wrapping_add_exact:
  assumes "is_i64 (a + b)" shows "i64_wrapping_add a b = a + b"
proof -
  have "0 \<le> a + b + 2 ^ 63" "a + b + 2 ^ 63 < 2 ^ 64"
    using assms by (simp_all add: is_i64_def i64_MIN_def i64_MAX_def)
  then show ?thesis by (simp add: i64_wrapping_add_def)
qed

text \<open>\<open>Display\<close> of an unsigned integer.\<close>

fun decimal :: "nat \<Rightarrow> string" where
  "decimal n = (if n < 10 then [char_of (48 + n)] else decimal (n div 10) @ [char_of (48 + n mod 10)])"

lemma decimal_nonempty: "decimal n \<noteq> []"
  by (subst decimal.simps) simp

definition u32_to_string :: "u32 \<Rightarrow> string" where
  "u32_to_string v = decimal (unat v)"

definition u64_to_string :: "u64 \<Rightarrow> string" where
  "u64_to_string v = decimal (unat v)"

section \<open>Trimming strings\<close>

text \<open>
  A Rust \<open>String\<close> is its UTF-8 bytes. \<open>str::trim\<close> removes the characters with the Unicode
  property White\_Space at both ends: six one-byte, two two-byte and seventeen three-byte encodings.
\<close>

definition ws1 :: "char \<Rightarrow> bool" where
  "ws1 a \<longleftrightarrow> a \<in> {CHR 0x09, CHR 0x0A, CHR 0x0B, CHR 0x0C, CHR 0x0D, CHR 0x20}"

definition ws2 :: "char \<Rightarrow> char \<Rightarrow> bool" where
  "ws2 a b \<longleftrightarrow> a = CHR 0xC2 \<and> b \<in> {CHR 0x85, CHR 0xA0}"

definition ws3 :: "char \<Rightarrow> char \<Rightarrow> char \<Rightarrow> bool" where
  "ws3 a b c \<longleftrightarrow>
     (a = CHR 0xE1 \<and> b = CHR 0x9A \<and> c = CHR 0x80) \<or>
     (a = CHR 0xE2 \<and> b = CHR 0x80 \<and>
       c \<in> {CHR 0x80, CHR 0x81, CHR 0x82, CHR 0x83, CHR 0x84, CHR 0x85, CHR 0x86, CHR 0x87,
            CHR 0x88, CHR 0x89, CHR 0x8A, CHR 0xA8, CHR 0xA9, CHR 0xAF}) \<or>
     (a = CHR 0xE2 \<and> b = CHR 0x81 \<and> c = CHR 0x9F) \<or>
     (a = CHR 0xE3 \<and> b = CHR 0x80 \<and> c = CHR 0x80)"

text \<open>The number of leading bytes that encode one white-space character, 0 when there is none.\<close>

definition ws_len :: "(char \<Rightarrow> char \<Rightarrow> bool) \<Rightarrow> (char \<Rightarrow> char \<Rightarrow> char \<Rightarrow> bool) \<Rightarrow> string \<Rightarrow> nat" where
  "ws_len w2 w3 cs =
     (case cs of [] \<Rightarrow> 0 | a # as \<Rightarrow>
        if ws1 a then 1 else
        (case as of [] \<Rightarrow> 0 | b # bs \<Rightarrow>
           if w2 a b then 2 else
           (case bs of [] \<Rightarrow> 0 | c # _ \<Rightarrow> if w3 a b c then 3 else 0)))"

function strip_ws :: "(char \<Rightarrow> char \<Rightarrow> bool) \<Rightarrow> (char \<Rightarrow> char \<Rightarrow> char \<Rightarrow> bool) \<Rightarrow> string \<Rightarrow> string" where
  "strip_ws w2 w3 cs =
     (if ws_len w2 w3 cs = 0 then cs else strip_ws w2 w3 (drop (ws_len w2 w3 cs) cs))"
  by pat_completeness auto
termination
  by (relation "measure (\<lambda>(w2, w3, cs). length cs)") (auto simp: ws_len_def split: list.splits)

declare strip_ws.simps [simp del]

definition trim_start :: "string \<Rightarrow> string" where
  "trim_start = strip_ws ws2 ws3"

definition trim_end :: "string \<Rightarrow> string" where
  "trim_end s = rev (strip_ws (\<lambda>a b. ws2 b a) (\<lambda>a b c. ws3 c b a) (rev s))"

definition trim :: "string \<Rightarrow> string" where
  "trim s = trim_end (trim_start s)"

definition to_ascii_lowercase :: "string \<Rightarrow> string" where
  "to_ascii_lowercase s =
     map (\<lambda>c. if 65 \<le> (of_char c :: nat) \<and> (of_char c :: nat) \<le> 90 then char_of (of_char c + 32 :: nat) else c) s"

definition nonblank :: "string \<Rightarrow> bool" where
  "nonblank s \<longleftrightarrow> trim s \<noteq> []"

lemma ws_len_strip_ws [simp]: "ws_len w2 w3 (strip_ws w2 w3 cs) = 0"
proof (induction w2 w3 cs rule: strip_ws.induct)
  case (1 w2 w3 cs)
  then show ?case by (cases "ws_len w2 w3 cs = 0") (simp_all add: strip_ws.simps [of w2 w3 cs])
qed

lemma strip_ws_fixed: "ws_len w2 w3 cs = 0 \<Longrightarrow> strip_ws w2 w3 cs = cs"
  by (simp add: strip_ws.simps)

lemma strip_ws_suffix: "\<exists>ds. cs = ds @ strip_ws w2 w3 cs"
proof (induction w2 w3 cs rule: strip_ws.induct)
  case (1 w2 w3 cs)
  show ?case
  proof (cases "ws_len w2 w3 cs = 0")
    case True
    then show ?thesis by (simp add: strip_ws_fixed)
  next
    case False
    with 1 obtain ds where "drop (ws_len w2 w3 cs) cs = ds @ strip_ws w2 w3 (drop (ws_len w2 w3 cs) cs)"
      by blast
    then have "cs = (take (ws_len w2 w3 cs) cs @ ds) @ strip_ws w2 w3 cs"
      using False by (metis append.assoc append_take_drop_id strip_ws.simps)
    then show ?thesis by blast
  qed
qed

lemma ws_len_append: "ws_len w2 w3 cs \<noteq> 0 \<Longrightarrow> ws_len w2 w3 (cs @ ds) = ws_len w2 w3 cs"
  by (auto simp: ws_len_def split: list.splits if_splits)

lemma trim_idem [simp]: "trim (trim s) = trim s"
proof -
  let ?t = "trim_start s" and ?e2 = "\<lambda>a b. ws2 b a" and ?e3 = "\<lambda>a b c. ws3 c b a"
  obtain ds where "rev ?t = ds @ strip_ws ?e2 ?e3 (rev ?t)"
    using strip_ws_suffix by blast
  then have t: "?t = trim s @ rev ds"
    by (metis rev_append rev_rev_ident trim_def trim_end_def)
  have "ws_len ws2 ws3 ?t = 0" by (simp add: trim_start_def)
  then have "ws_len ws2 ws3 (trim s) = 0" using ws_len_append t by metis
  then have "trim_start (trim s) = trim s" by (simp add: trim_start_def strip_ws_fixed)
  moreover have "trim_end (trim s) = trim s"
    by (simp add: trim_def trim_end_def strip_ws_fixed)
  ultimately show ?thesis by (simp add: trim_def)
qed

lemma nonblank_trim [simp]: "nonblank (trim s) \<longleftrightarrow> nonblank s"
  by (simp add: nonblank_def)

text \<open>A string that starts and ends with a byte below 0x80 other than white space is untouched.\<close>

definition plain_ends :: "string \<Rightarrow> bool" where
  "plain_ends s \<longleftrightarrow> s \<noteq> [] \<and> ws_len ws2 ws3 s = 0 \<and> ws_len (\<lambda>a b. ws2 b a) (\<lambda>a b c. ws3 c b a) (rev s) = 0"

lemma trim_plain: "plain_ends s \<Longrightarrow> trim s = s"
  by (simp add: plain_ends_def trim_def trim_start_def trim_end_def strip_ws_fixed)

lemma nonblank_plain: "plain_ends s \<Longrightarrow> nonblank s"
  by (simp add: nonblank_def trim_plain) (simp add: plain_ends_def)

text \<open>A printable ASCII character is never part of white space.\<close>

definition visible :: "char \<Rightarrow> bool" where
  "visible a \<longleftrightarrow> 0x20 < (of_char a :: nat) \<and> (of_char a :: nat) < 0x7F"

lemma visible_not_ws: "visible a \<Longrightarrow> \<not> ws1 a" "visible a \<Longrightarrow> \<not> ws2 a b" "visible a \<Longrightarrow> \<not> ws2 b a"
  "visible a \<Longrightarrow> \<not> ws3 a b c" "visible a \<Longrightarrow> \<not> ws3 c b a"
  by (auto simp: visible_def ws1_def ws2_def ws3_def)

lemma ws_len_visible: "visible a \<Longrightarrow> ws_len ws2 ws3 (a # s) = 0"
  "visible a \<Longrightarrow> ws_len (\<lambda>a b. ws2 b a) (\<lambda>a b c. ws3 c b a) (a # s) = 0"
  by (auto simp: ws_len_def visible_not_ws split: list.splits)

lemma visible_ends: "s \<noteq> [] \<Longrightarrow> visible (hd s) \<Longrightarrow> visible (last s) \<Longrightarrow> plain_ends s"
  using ws_len_visible(1) [of "hd s" "tl s"] ws_len_visible(2) [of "last s" "rev (butlast s)"]
  by (simp add: plain_ends_def)
    (metis append_Cons append_Nil append_butlast_last_id rev.simps(2) rev_append rev_rev_ident rev_singleton_conv)

end
