(* ===== verification/Wallet_Types.thy ===== *)
theory Wallet_Types
  imports Prelude
begin

text \<open>
  The data of crate \<open>starmask-types\<close>: identifiers and their validation (\<open>ids.rs\<close>), time
  (\<open>time.rs\<close>), the request lifecycle enums (\<open>lifecycle.rs\<close>), the shared error vocabulary
  (\<open>errors.rs\<close>), payloads and results (\<open>payload.rs\<close>) and the persisted records (\<open>records.rs\<close>).
  The identifier newtypes are strings; what their constructor checks is \<open>nonblank\<close>.
\<close>

section \<open>Identifiers\<close>

type_synonym ClientRequestId = string
type_synonym DeliveryLeaseId = string
type_synonym PayloadHash = string
type_synonym PresentationId = string
type_synonym RequestId = string
type_synonym WalletInstanceId = string

datatype IdValidationError = Empty (kind_name: string)

text \<open>\<open>TryFrom<String>\<close> of each newtype; \<open>name\<close> is the \<open>stringify!($name)\<close> of the macro.\<close>

definition id_try_from :: "string \<Rightarrow> string \<Rightarrow> IdValidationError + string" where
  "id_try_from name value = (if trim value = [] then Inl (Empty name) else Inr value)"

definition IdValidationError_to_string :: "IdValidationError \<Rightarrow> string" where
  "IdValidationError_to_string e = kind_name e @ '' cannot be empty''"

lemma id_try_from_Inr [simp]: "id_try_from name v = Inr w \<longleftrightarrow> w = v \<and> nonblank v"
  by (auto simp: id_try_from_def nonblank_def)

lemma id_try_from_nonblank: "nonblank v \<Longrightarrow> id_try_from name v = Inr v"
  by simp

section \<open>Time\<close>

type_synonym DurationSeconds = u64
type_synonym TimestampMs = int

definition checked_add_seconds :: "TimestampMs \<Rightarrow> DurationSeconds \<Rightarrow> TimestampMs option" where
  "checked_add_seconds t duration =
     (case u64_checked_mul duration 1000 of None \<Rightarrow> None
      | Some millis \<Rightarrow>
          (case i64_try_from_u64 millis of None \<Rightarrow> None
           | Some millis' \<Rightarrow> i64_checked_add t millis'))"

lemma checked_add_seconds_Some:
  assumes "checked_add_seconds t d = Some t'"
  shows "t' = t + 1000 * uint d" "is_i64 t'"
  using assms
  by (auto simp: checked_add_seconds_def i64_try_from_u64_def dest!: u64_checked_mul_Some i64_checked_add_Some
      split: option.splits if_splits)

lemma checked_add_seconds_later: "checked_add_seconds t d = Some t' \<Longrightarrow> t \<le> t'"
  by (drule checked_add_seconds_Some(1)) simp

lemma checked_add_seconds_iff:
  assumes "is_i64 t"
  shows "checked_add_seconds t d = Some t' \<longleftrightarrow>
    t' = t + 1000 * uint d \<and> 1000 * uint d < 2 ^ 63 \<and> t' \<le> i64_MAX"
proof
  assume h: "checked_add_seconds t d = Some t'"
  then have "uint d * 1000 < 2 ^ 63"
    by (auto simp: checked_add_seconds_def i64_try_from_u64_def i64_MAX_def dest!: u64_checked_mul_Some
        split: option.splits if_splits)
  with checked_add_seconds_Some [OF h]
  show "t' = t + 1000 * uint d \<and> 1000 * uint d < 2 ^ 63 \<and> t' \<le> i64_MAX"
    by (simp add: is_i64_def mult.commute)
next
  assume h: "t' = t + 1000 * uint d \<and> 1000 * uint d < 2 ^ 63 \<and> t' \<le> i64_MAX"
  then have m: "u64_checked_mul d 1000 = Some (d * 1000)"
    by (simp add: u64_checked_mul_def)
  have "i64_MIN \<le> t + uint d * 1000"
    using assms by (simp add: is_i64_def add_increasing2)
  with m u64_checked_mul_Some [OF m] h show "checked_add_seconds t d = Some t'"
    by (simp add: checked_add_seconds_def i64_try_from_u64_def i64_checked_add_def is_i64_def i64_MAX_def
        mult.commute)
qed

section \<open>Request lifecycle\<close>

datatype RequestKind = SignTransaction | SignMessage | CreateAccount | ExportAccount | ImportAccount

datatype RequestStatus =
  Created | Dispatched | PendingUserApproval | Approved | Rejected | Expired | Cancelled | Failed

definition is_terminal :: "RequestStatus \<Rightarrow> bool" where
  "is_terminal s \<longleftrightarrow> s \<in> {Approved, Rejected, Expired, Cancelled, Failed}"

fun can_transition_to :: "RequestStatus \<Rightarrow> RequestStatus \<Rightarrow> bool" where
  "can_transition_to Created Dispatched = True"
| "can_transition_to Created Cancelled = True"
| "can_transition_to Created Expired = True"
| "can_transition_to Created Failed = True"
| "can_transition_to Dispatched Created = True"
| "can_transition_to Dispatched PendingUserApproval = True"
| "can_transition_to Dispatched Cancelled = True"
| "can_transition_to Dispatched Expired = True"
| "can_transition_to Dispatched Failed = True"
| "can_transition_to PendingUserApproval Created = True"
| "can_transition_to PendingUserApproval Approved = True"
| "can_transition_to PendingUserApproval Rejected = True"
| "can_transition_to PendingUserApproval Cancelled = True"
| "can_transition_to PendingUserApproval Expired = True"
| "can_transition_to PendingUserApproval Failed = True"
| "can_transition_to _ _ = False"

datatype ResultKind =
  SignedTransaction | SignedMessage | CreatedAccount | ExportedAccount | ImportedAccount | NoResult

datatype LockState = Locked | Unlocked | Unknown

datatype BackendKind = StarmaskExtension | LocalAccountDir | PrivateKeyDev

datatype TransportKind = NativeMessaging | LocalSocket

datatype ApprovalSurface = BrowserUi | TtyPrompt | DesktopPrompt | NoSurface

datatype WalletCapability =
  UnlockCap | GetPublicKeyCap | SignMessageCap | SignTransactionCap | CreateAccountCap | ExportAccountCap | ImportAccountCap

datatype Channel = Development | Staging | Production

datatype RejectReasonCode =
  RRequestRejected | RWalletLocked | RRequestExpired | RUnsupportedOperation | RInvalidTransactionPayload
  | RInvalidMessagePayload | RBackendUnavailable | RBackendPolicyBlocked | RInternalError

datatype Curve = Ed25519

datatype MessageFormat = Utf8 | Hex

fun expected_result_kind :: "RequestKind \<Rightarrow> ResultKind" where
  "expected_result_kind SignTransaction = SignedTransaction"
| "expected_result_kind SignMessage = SignedMessage"
| "expected_result_kind CreateAccount = CreatedAccount"
| "expected_result_kind ExportAccount = ExportedAccount"
| "expected_result_kind ImportAccount = ImportedAccount"

lemma terminal_stuck: "is_terminal s \<Longrightarrow> \<not> can_transition_to s t"
  by (cases s; cases t) (simp_all add: is_terminal_def)

lemma can_transition_irrefl [simp]: "\<not> can_transition_to s s"
  by (cases s) simp_all

lemma is_terminal_simps [simp]:
  "\<not> is_terminal Created" "\<not> is_terminal Dispatched" "\<not> is_terminal PendingUserApproval"
  "is_terminal Approved" "is_terminal Rejected" "is_terminal Expired" "is_terminal Cancelled" "is_terminal Failed"
  by (simp_all add: is_terminal_def)

lemma nonterminal_cases:
  assumes "\<not> is_terminal s"
  obtains "s = Created" | "s = Dispatched" | "s = PendingUserApproval"
  using assms by (cases s) simp_all

text \<open>The derived \<open>Ord\<close> of \<open>WalletCapability\<close> is the declaration order.\<close>

primrec cap_rank :: "WalletCapability \<Rightarrow> nat" where
  "cap_rank UnlockCap = 0"
| "cap_rank GetPublicKeyCap = 1"
| "cap_rank SignMessageCap = 2"
| "cap_rank SignTransactionCap = 3"
| "cap_rank CreateAccountCap = 4"
| "cap_rank ExportAccountCap = 5"
| "cap_rank ImportAccountCap = 6"

lemma cap_rank_inj: "cap_rank a = cap_rank b \<Longrightarrow> a = b"
  by (cases a; cases b) simp_all

instantiation WalletCapability :: linorder
begin

definition less_eq_WalletCapability :: "WalletCapability \<Rightarrow> WalletCapability \<Rightarrow> bool" where
  "less_eq_WalletCapability a b \<longleftrightarrow> cap_rank a \<le> cap_rank b"

definition less_WalletCapability :: "WalletCapability \<Rightarrow> WalletCapability \<Rightarrow> bool" where
  "less_WalletCapability a b \<longleftrightarrow> cap_rank a < cap_rank b"

instance
  by standard (auto simp: less_eq_WalletCapability_def less_WalletCapability_def dest: cap_rank_inj)

end

section \<open>Shared errors\<close>

datatype SharedErrorCode =
  WalletUnavailable | WalletLocked | WalletSelectionRequired | WalletInstanceNotFound | RequestNotOwned
  | LeaseMismatch | ExtensionNotConnected | BackendNotAllowed | InvalidBackendRegistration
  | BackendUnavailable | BackendPolicyBlocked | InvalidAccount | RequestNotFound | RequestExpired
  | RequestRejected | RequestCancelled | InvalidTransactionPayload | InvalidMessagePayload
  | UnsupportedChain | InvalidRequest | InternalBridgeError | ResultUnavailable | IdempotencyKeyConflict
  | ProtocolVersionMismatch | NodeUnavailable | RpcUnavailable | InvalidChainContext | SimulationFailed
  | SubmissionFailed | PermissionDenied | ApprovalRequired | RateLimited | UnsupportedOperation

definition retryable_by_default :: "SharedErrorCode \<Rightarrow> bool" where
  "retryable_by_default c \<longleftrightarrow>
     c \<in> {WalletUnavailable, WalletSelectionRequired, ExtensionNotConnected, BackendUnavailable,
          InternalBridgeError, NodeUnavailable, RpcUnavailable, RateLimited}"

text \<open>JSON values, as far as the daemon builds or stores them; a number is its literal.\<close>

datatype Value =
  VNull | VBool bool | VNumber string | VString string | VArray "Value list" | VObject "(string \<times> Value) list"

record SharedError =
  code :: SharedErrorCode
  message :: string
  retryable :: "bool option"
  details :: "Value option"

definition SharedError_new :: "SharedErrorCode \<Rightarrow> string \<Rightarrow> SharedError" where
  "SharedError_new c m = \<lparr>code = c, message = m, retryable = Some (retryable_by_default c), details = None\<rparr>"

definition with_retryable :: "SharedError \<Rightarrow> bool \<Rightarrow> SharedError" where
  "with_retryable e b = e\<lparr>retryable := Some b\<rparr>"

definition with_details :: "SharedError \<Rightarrow> Value \<Rightarrow> SharedError" where
  "with_details e v = e\<lparr>details := Some v\<rparr>"

section \<open>Payloads and results\<close>

record TransactionPayload =
  tp_chain_id :: u64
  tp_raw_txn_bcs_hex :: string
  tp_tx_kind :: string
  tp_display_hint :: "string option"
  tp_client_context :: "string option"

record MessagePayload =
  mp_message :: string
  mp_format :: MessageFormat
  mp_display_hint :: "string option"
  mp_client_context :: "string option"

record CreateAccountPayload =
  cap_display_hint :: "string option"
  cap_client_context :: "string option"

record ExportAccountPayload =
  eap_output_file :: string
  eap_force :: bool
  eap_display_hint :: "string option"
  eap_client_context :: "string option"

record ImportAccountPayload =
  iap_private_key_file :: string
  iap_display_hint :: "string option"
  iap_client_context :: "string option"

datatype RequestPayload =
  PSignTransaction TransactionPayload
  | PSignMessage MessagePayload
  | PCreateAccount CreateAccountPayload
  | PExportAccount ExportAccountPayload
  | PImportAccount ImportAccountPayload

fun payload_result_kind :: "RequestPayload \<Rightarrow> ResultKind" where
  "payload_result_kind (PSignTransaction _) = SignedTransaction"
| "payload_result_kind (PSignMessage _) = SignedMessage"
| "payload_result_kind (PCreateAccount _) = CreatedAccount"
| "payload_result_kind (PExportAccount _) = ExportedAccount"
| "payload_result_kind (PImportAccount _) = ImportedAccount"

datatype RequestResult =
  RSignedTransaction (signed_txn_bcs_hex: string)
  | RSignedMessage (signature: string)
  | RCreatedAccount (ca_address: string) (ca_public_key: string) (ca_curve: Curve) (ca_is_default: bool) (ca_is_locked: bool)
  | RExportedAccount (ea_address: string) (ea_output_file: string)
  | RImportedAccount (ia_address: string) (ia_public_key: string) (ia_curve: Curve) (ia_is_default: bool) (ia_is_locked: bool)

fun result_kind :: "RequestResult \<Rightarrow> ResultKind" where
  "result_kind (RSignedTransaction _) = SignedTransaction"
| "result_kind (RSignedMessage _) = SignedMessage"
| "result_kind (RCreatedAccount _ _ _ _ _) = CreatedAccount"
| "result_kind (RExportedAccount _ _) = ExportedAccount"
| "result_kind (RImportedAccount _ _ _ _ _) = ImportedAccount"

section \<open>Records\<close>

record DeliveryLease =
  delivery_lease_id :: DeliveryLeaseId
  delivery_lease_expires_at :: TimestampMs

record PresentationLease =
  presentation_id :: PresentationId
  presentation_expires_at :: TimestampMs

record RequestRecord =
  request_id :: RequestId
  client_request_id :: ClientRequestId
  kind :: RequestKind
  status :: RequestStatus
  wallet_instance_id :: WalletInstanceId
  account_address :: string
  payload_hash :: PayloadHash
  payload :: RequestPayload
  result :: "RequestResult option"
  created_at :: TimestampMs
  expires_at :: TimestampMs
  updated_at :: TimestampMs
  approved_at :: "TimestampMs option"
  rejected_at :: "TimestampMs option"
  cancelled_at :: "TimestampMs option"
  failed_at :: "TimestampMs option"
  result_expires_at :: "TimestampMs option"
  last_error_code :: "SharedErrorCode option"
  last_error_message :: "string option"
  reject_reason_code :: "RejectReasonCode option"
  delivery_lease :: "DeliveryLease option"
  presentation :: "PresentationLease option"

record WalletInstanceRecord =
  wi_wallet_instance_id :: WalletInstanceId
  wi_backend_kind :: BackendKind
  wi_transport_kind :: TransportKind
  wi_approval_surface :: ApprovalSurface
  wi_instance_label :: string
  wi_extension_id :: string
  wi_extension_version :: string
  wi_protocol_version :: u32
  wi_capabilities :: "WalletCapability list"
  wi_backend_metadata :: Value
  wi_profile_hint :: "string option"
  wi_lock_state :: LockState
  wi_connected :: bool
  wi_last_seen_at :: TimestampMs

record WalletAccountRecord =
  wa_wallet_instance_id :: WalletInstanceId
  wa_address :: string
  wa_label :: "string option"
  wa_public_key :: "string option"
  wa_is_default :: bool
  wa_is_read_only :: bool
  wa_is_locked :: bool
  wa_last_seen_at :: TimestampMs

end
