(* ===== verification/Wire_Names.thy ===== *)
theory Wire_Names
  imports Wallet_Types
begin

text \<open>
  The texts of the string enums. Every enum of \<open>starmask-types\<close> that reaches the database or the wire
  derives \<open>Serialize\<close> and \<open>Deserialize\<close> with \<open>rename_all = "snake_case"\<close>: a variant is written as
  its name in snake case and read back by comparing with the names. The locale \<open>string_enum\<close> is that
  contract; it is interpreted for each of the enums.
\<close>

section \<open>Names\<close>

primrec RequestKind_name :: "RequestKind \<Rightarrow> string" where
  "RequestKind_name SignTransaction = ''sign_transaction''"
| "RequestKind_name SignMessage = ''sign_message''"
| "RequestKind_name CreateAccount = ''create_account''"
| "RequestKind_name ExportAccount = ''export_account''"
| "RequestKind_name ImportAccount = ''import_account''"

primrec RequestStatus_name :: "RequestStatus \<Rightarrow> string" where
  "RequestStatus_name Created = ''created''"
| "RequestStatus_name Dispatched = ''dispatched''"
| "RequestStatus_name PendingUserApproval = ''pending_user_approval''"
| "RequestStatus_name Approved = ''approved''"
| "RequestStatus_name Rejected = ''rejected''"
| "RequestStatus_name Expired = ''expired''"
| "RequestStatus_name Cancelled = ''cancelled''"
| "RequestStatus_name Failed = ''failed''"

primrec LockState_name :: "LockState \<Rightarrow> string" where
  "LockState_name Locked = ''locked''"
| "LockState_name Unlocked = ''unlocked''"
| "LockState_name Unknown = ''unknown''"

primrec BackendKind_name :: "BackendKind \<Rightarrow> string" where
  "BackendKind_name StarmaskExtension = ''starmask_extension''"
| "BackendKind_name LocalAccountDir = ''local_account_dir''"
| "BackendKind_name PrivateKeyDev = ''private_key_dev''"

primrec TransportKind_name :: "TransportKind \<Rightarrow> string" where
  "TransportKind_name NativeMessaging = ''native_messaging''"
| "TransportKind_name LocalSocket = ''local_socket''"

primrec ApprovalSurface_name :: "ApprovalSurface \<Rightarrow> string" where
  "ApprovalSurface_name BrowserUi = ''browser_ui''"
| "ApprovalSurface_name TtyPrompt = ''tty_prompt''"
| "ApprovalSurface_name DesktopPrompt = ''desktop_prompt''"
| "ApprovalSurface_name NoSurface = ''none''"

primrec RejectReasonCode_name :: "RejectReasonCode \<Rightarrow> string" where
  "RejectReasonCode_name RRequestRejected = ''request_rejected''"
| "RejectReasonCode_name RWalletLocked = ''wallet_locked''"
| "RejectReasonCode_name RRequestExpired = ''request_expired''"
| "RejectReasonCode_name RUnsupportedOperation = ''unsupported_operation''"
| "RejectReasonCode_name RInvalidTransactionPayload = ''invalid_transaction_payload''"
| "RejectReasonCode_name RInvalidMessagePayload = ''invalid_message_payload''"
| "RejectReasonCode_name RBackendUnavailable = ''backend_unavailable''"
| "RejectReasonCode_name RBackendPolicyBlocked = ''backend_policy_blocked''"
| "RejectReasonCode_name RInternalError = ''internal_error''"

primrec SharedErrorCode_name :: "SharedErrorCode \<Rightarrow> string" where
  "SharedErrorCode_name WalletUnavailable = ''wallet_unavailable''"
| "SharedErrorCode_name WalletLocked = ''wallet_locked''"
| "SharedErrorCode_name WalletSelectionRequired = ''wallet_selection_required''"
| "SharedErrorCode_name WalletInstanceNotFound = ''wallet_instance_not_found''"
| "SharedErrorCode_name RequestNotOwned = ''request_not_owned''"
| "SharedErrorCode_name LeaseMismatch = ''lease_mismatch''"
| "SharedErrorCode_name ExtensionNotConnected = ''extension_not_connected''"
| "SharedErrorCode_name BackendNotAllowed = ''backend_not_allowed''"
| "SharedErrorCode_name InvalidBackendRegistration = ''invalid_backend_registration''"
| "SharedErrorCode_name BackendUnavailable = ''backend_unavailable''"
| "SharedErrorCode_name BackendPolicyBlocked = ''backend_policy_blocked''"
| "SharedErrorCode_name InvalidAccount = ''invalid_account''"
| "SharedErrorCode_name RequestNotFound = ''request_not_found''"
| "SharedErrorCode_name RequestExpired = ''request_expired''"
| "SharedErrorCode_name RequestRejected = ''request_rejected''"
| "SharedErrorCode_name RequestCancelled = ''request_cancelled''"
| "SharedErrorCode_name InvalidTransactionPayload = ''invalid_transaction_payload''"
| "SharedErrorCode_name InvalidMessagePayload = ''invalid_message_payload''"
| "SharedErrorCode_name UnsupportedChain = ''unsupported_chain''"
| "SharedErrorCode_name InvalidRequest = ''invalid_request''"
| "SharedErrorCode_name InternalBridgeError = ''internal_bridge_error''"
| "SharedErrorCode_name ResultUnavailable = ''result_unavailable''"
| "SharedErrorCode_name IdempotencyKeyConflict = ''idempotency_key_conflict''"
| "SharedErrorCode_name ProtocolVersionMismatch = ''protocol_version_mismatch''"
| "SharedErrorCode_name NodeUnavailable = ''node_unavailable''"
| "SharedErrorCode_name RpcUnavailable = ''rpc_unavailable''"
| "SharedErrorCode_name InvalidChainContext = ''invalid_chain_context''"
| "SharedErrorCode_name SimulationFailed = ''simulation_failed''"
| "SharedErrorCode_name SubmissionFailed = ''submission_failed''"
| "SharedErrorCode_name PermissionDenied = ''permission_denied''"
| "SharedErrorCode_name ApprovalRequired = ''approval_required''"
| "SharedErrorCode_name RateLimited = ''rate_limited''"
| "SharedErrorCode_name UnsupportedOperation = ''unsupported_operation''"

section \<open>Reading a name\<close>

definition decode_string_enum :: "('a \<Rightarrow> string) \<Rightarrow> 'a list \<Rightarrow> string \<Rightarrow> 'a option" where
  "decode_string_enum name variants s = find (\<lambda>x. name x = s) variants"

definition RequestKind_variants :: "RequestKind list" where
  "RequestKind_variants = [SignTransaction, SignMessage, CreateAccount, ExportAccount, ImportAccount]"

definition RequestStatus_variants :: "RequestStatus list" where
  "RequestStatus_variants =
     [Created, Dispatched, PendingUserApproval, Approved, Rejected, Expired, Cancelled, Failed]"

definition LockState_variants :: "LockState list" where
  "LockState_variants = [Locked, Unlocked, Unknown]"

definition BackendKind_variants :: "BackendKind list" where
  "BackendKind_variants = [StarmaskExtension, LocalAccountDir, PrivateKeyDev]"

definition TransportKind_variants :: "TransportKind list" where
  "TransportKind_variants = [NativeMessaging, LocalSocket]"

definition ApprovalSurface_variants :: "ApprovalSurface list" where
  "ApprovalSurface_variants = [BrowserUi, TtyPrompt, DesktopPrompt, NoSurface]"

definition RejectReasonCode_variants :: "RejectReasonCode list" where
  "RejectReasonCode_variants =
     [RRequestRejected, RWalletLocked, RRequestExpired, RUnsupportedOperation, RInvalidTransactionPayload,
      RInvalidMessagePayload, RBackendUnavailable, RBackendPolicyBlocked, RInternalError]"

definition SharedErrorCode_variants :: "SharedErrorCode list" where
  "SharedErrorCode_variants =
     [WalletUnavailable, WalletLocked, WalletSelectionRequired, WalletInstanceNotFound, RequestNotOwned,
      LeaseMismatch, ExtensionNotConnected, BackendNotAllowed, InvalidBackendRegistration,
      BackendUnavailable, BackendPolicyBlocked, InvalidAccount, RequestNotFound, RequestExpired,
      RequestRejected, RequestCancelled, InvalidTransactionPayload, InvalidMessagePayload,
      UnsupportedChain, InvalidRequest, InternalBridgeError, ResultUnavailable, IdempotencyKeyConflict,
      ProtocolVersionMismatch, NodeUnavailable, RpcUnavailable, InvalidChainContext, SimulationFailed,
      SubmissionFailed, PermissionDenied, ApprovalRequired, RateLimited, UnsupportedOperation]"

section \<open>The contract\<close>

locale string_enum =
  fixes name :: "'a \<Rightarrow> string" and variants :: "'a list"
  assumes distinct_names: "distinct (map name variants)"
    and every_variant: "x \<in> set variants"
begin

lemma decode_name: "decode_string_enum name variants (name x) = Some x"
proof (cases "decode_string_enum name variants (name x)")
  case None
  with every_variant [of x] show ?thesis by (auto simp: decode_string_enum_def find_None_iff)
next
  case (Some y)
  then have "name y = name x" "y \<in> set variants"
    by (auto simp: decode_string_enum_def find_Some_iff)
  with distinct_map_same [OF distinct_names, of y x] every_variant Some show ?thesis by simp
qed

lemma decode_Some: "decode_string_enum name variants s = Some x \<longleftrightarrow> s = name x"
proof
  assume "decode_string_enum name variants s = Some x"
  then have "\<exists>i < length variants. name (variants ! i) = s \<and> x = variants ! i"
    unfolding decode_string_enum_def find_Some_iff by blast
  then show "s = name x" by blast
qed (simp only: decode_name)

lemma name_inj: "name x = name y \<Longrightarrow> x = y"
  by (metis decode_name option.inject)

end

interpretation request_kind: string_enum RequestKind_name RequestKind_variants
  by unfold_locales (simp_all add: RequestKind_variants_def, case_tac x, simp_all)

interpretation request_status: string_enum RequestStatus_name RequestStatus_variants
  by unfold_locales (simp_all add: RequestStatus_variants_def, case_tac x, simp_all)

interpretation lock_state: string_enum LockState_name LockState_variants
  by unfold_locales (simp_all add: LockState_variants_def, case_tac x, simp_all)

interpretation backend_kind: string_enum BackendKind_name BackendKind_variants
  by unfold_locales (simp_all add: BackendKind_variants_def, case_tac x, simp_all)

interpretation transport_kind: string_enum TransportKind_name TransportKind_variants
  by unfold_locales (simp_all add: TransportKind_variants_def, case_tac x, simp_all)

interpretation approval_surface: string_enum ApprovalSurface_name ApprovalSurface_variants
  by unfold_locales (simp_all add: ApprovalSurface_variants_def, case_tac x, simp_all)

interpretation reject_reason: string_enum RejectReasonCode_name RejectReasonCode_variants
  by unfold_locales (simp_all add: RejectReasonCode_variants_def, case_tac x, simp_all)

interpretation shared_error_code: string_enum SharedErrorCode_name SharedErrorCode_variants
  by unfold_locales (simp_all add: SharedErrorCode_variants_def, case_tac x, simp_all)

lemmas decode_names [simp] =
  request_kind.decode_name request_status.decode_name lock_state.decode_name backend_kind.decode_name
  transport_kind.decode_name approval_surface.decode_name reject_reason.decode_name
  shared_error_code.decode_name

end
