(* ===== verification/Coordinator_Types.thy ===== *)
theory Coordinator_Types
  imports Wallet_Types
begin

text \<open>
  The vocabulary of crate \<open>starmask-core\<close>: errors (\<open>error.rs\<close>, \<open>repo.rs\<close>), commands
  (\<open>commands.rs\<close>), the results the daemon protocol returns (\<open>starmask-types/src/daemon.rs\<close>), and
  the coordinator's configuration and responses (\<open>service.rs\<close>). A field name that occurs in
  several structs carries a prefix for its struct.
\<close>

section \<open>Errors\<close>

datatype RepositoryError = Storage string

datatype CoreError =
  Shared SharedError
  | Repository RepositoryError
  | InvalidStateTransition (from_status: RequestStatus) (to_status: RequestStatus)
  | Validation string
  | Invariant string

definition shared :: "SharedErrorCode \<Rightarrow> string \<Rightarrow> CoreError" where
  "shared c m = Shared (SharedError_new c m)"

text \<open>The shared error code of a core error, when it is one.\<close>

fun error_code_of :: "CoreError \<Rightarrow> SharedErrorCode option" where
  "error_code_of (Shared e) = Some (code e)"
| "error_code_of _ = None"

lemma error_code_of_shared [simp]: "error_code_of (shared c m) = Some c"
  by (simp add: shared_def SharedError_new_def)

section \<open>Commands\<close>

record CreateSignTransactionCommand =
  cst_client_request_id :: ClientRequestId
  cst_account_address :: string
  cst_wallet_instance_id :: "WalletInstanceId option"
  cst_chain_id :: u64
  cst_raw_txn_bcs_hex :: string
  cst_tx_kind :: string
  cst_display_hint :: "string option"
  cst_client_context :: "string option"
  cst_ttl_seconds :: "DurationSeconds option"

record CreateSignMessageCommand =
  csm_client_request_id :: ClientRequestId
  csm_account_address :: string
  csm_wallet_instance_id :: "WalletInstanceId option"
  csm_message :: string
  csm_format :: MessageFormat
  csm_display_hint :: "string option"
  csm_client_context :: "string option"
  csm_ttl_seconds :: "DurationSeconds option"

record CreateAccountCommand =
  cac_client_request_id :: ClientRequestId
  cac_wallet_instance_id :: WalletInstanceId
  cac_display_hint :: "string option"
  cac_client_context :: "string option"
  cac_ttl_seconds :: "DurationSeconds option"

record CreateExportAccountCommand =
  cea_client_request_id :: ClientRequestId
  cea_account_address :: string
  cea_wallet_instance_id :: "WalletInstanceId option"
  cea_output_file :: string
  cea_force :: bool
  cea_display_hint :: "string option"
  cea_client_context :: "string option"
  cea_ttl_seconds :: "DurationSeconds option"

record CreateImportAccountCommand =
  cia_client_request_id :: ClientRequestId
  cia_account_address :: string
  cia_wallet_instance_id :: WalletInstanceId
  cia_private_key_file :: string
  cia_display_hint :: "string option"
  cia_client_context :: "string option"
  cia_ttl_seconds :: "DurationSeconds option"

record SetAccountLabelCommand =
  sal_wallet_instance_id :: WalletInstanceId
  sal_address :: string
  sal_label :: string

record RegisterExtensionCommand =
  rec_wallet_instance_id :: WalletInstanceId
  rec_extension_id :: string
  rec_extension_version :: string
  rec_protocol_version :: u32
  rec_profile_hint :: "string option"
  rec_lock_state :: LockState
  rec_accounts :: "WalletAccountRecord list"

record RegisterBackendCommand =
  rbc_wallet_instance_id :: WalletInstanceId
  rbc_backend_kind :: BackendKind
  rbc_transport_kind :: TransportKind
  rbc_approval_surface :: ApprovalSurface
  rbc_instance_label :: string
  rbc_extension_id :: string
  rbc_extension_version :: string
  rbc_protocol_version :: u32
  rbc_capabilities :: "WalletCapability list"
  rbc_backend_metadata :: Value
  rbc_profile_hint :: "string option"
  rbc_lock_state :: LockState
  rbc_accounts :: "WalletAccountRecord list"

record HeartbeatExtensionCommand =
  hec_wallet_instance_id :: WalletInstanceId
  hec_presented_request_ids :: "RequestId list"

record HeartbeatBackendCommand =
  hbc_wallet_instance_id :: WalletInstanceId
  hbc_presented_request_ids :: "RequestId list"
  hbc_lock_state :: "LockState option"

record UpdateExtensionAccountsCommand =
  uea_wallet_instance_id :: WalletInstanceId
  uea_lock_state :: LockState
  uea_accounts :: "WalletAccountRecord list"

record UpdateBackendAccountsCommand =
  uba_wallet_instance_id :: WalletInstanceId
  uba_lock_state :: LockState
  uba_capabilities :: "WalletCapability list"
  uba_accounts :: "WalletAccountRecord list"

record MarkRequestPresentedCommand =
  mrp_request_id :: RequestId
  mrp_wallet_instance_id :: WalletInstanceId
  mrp_delivery_lease_id :: "DeliveryLeaseId option"
  mrp_presentation_id :: PresentationId

record ResolveRequestCommand =
  res_request_id :: RequestId
  res_wallet_instance_id :: WalletInstanceId
  res_presentation_id :: PresentationId
  res_result :: RequestResult

record RejectRequestCommand =
  rej_request_id :: RequestId
  rej_wallet_instance_id :: WalletInstanceId
  rej_presentation_id :: "PresentationId option"
  rej_reason_code :: RejectReasonCode
  rej_message :: "string option"

datatype CoordinatorCommand =
  CmdSystemPing
  | CmdSystemGetInfo
  | CmdWalletStatus
  | CmdWalletListInstances bool
  | CmdWalletListAccounts "WalletInstanceId option" bool
  | CmdWalletGetPublicKey string "WalletInstanceId option"
  | CmdWalletSetAccountLabel SetAccountLabelCommand
  | CmdCreateAccount CreateAccountCommand
  | CmdCreateExportAccount CreateExportAccountCommand
  | CmdCreateImportAccount CreateImportAccountCommand
  | CmdCreateSignTransaction CreateSignTransactionCommand
  | CmdCreateSignMessage CreateSignMessageCommand
  | CmdGetRequestStatus RequestId
  | CmdRequestHasAvailable WalletInstanceId
  | CmdCancelRequest RequestId
  | CmdRegisterExtension RegisterExtensionCommand
  | CmdRegisterBackend RegisterBackendCommand
  | CmdHeartbeatExtension HeartbeatExtensionCommand
  | CmdHeartbeatBackend HeartbeatBackendCommand
  | CmdUpdateExtensionAccounts UpdateExtensionAccountsCommand
  | CmdUpdateBackendAccounts UpdateBackendAccountsCommand
  | CmdPullNextRequest WalletInstanceId
  | CmdMarkRequestPresented MarkRequestPresentedCommand
  | CmdResolveRequest ResolveRequestCommand
  | CmdRejectRequest RejectRequestCommand
  | CmdTickMaintenance

section \<open>Results\<close>

definition DAEMON_PROTOCOL_VERSION :: u32 where "DAEMON_PROTOCOL_VERSION = 2"
definition GENERIC_BACKEND_PROTOCOL_VERSION :: u32 where "GENERIC_BACKEND_PROTOCOL_VERSION = 3"
definition STARMASKD_DB_SCHEMA_VERSION :: u32 where "STARMASKD_DB_SCHEMA_VERSION = 2"

record SystemPingResult =
  spr_ok :: bool
  spr_daemon_protocol_version :: u32
  spr_daemon_version :: string

record SystemGetInfoResult =
  sgi_daemon_protocol_version :: u32
  sgi_daemon_version :: string
  sgi_socket_scope :: string
  sgi_db_schema_version :: u32
  sgi_result_retention_seconds :: u64
  sgi_default_request_ttl_seconds :: u64

record WalletInstanceSummary =
  wis_wallet_instance_id :: WalletInstanceId
  wis_extension_connected :: bool
  wis_lock_state :: LockState
  wis_profile_hint :: "string option"
  wis_last_seen_at :: TimestampMs

definition WalletInstanceSummary_from :: "WalletInstanceRecord \<Rightarrow> WalletInstanceSummary" where
  "WalletInstanceSummary_from v =
     \<lparr>wis_wallet_instance_id = wi_wallet_instance_id v, wis_extension_connected = wi_connected v,
      wis_lock_state = wi_lock_state v, wis_profile_hint = wi_profile_hint v,
      wis_last_seen_at = wi_last_seen_at v\<rparr>"

record WalletAccountSummary =
  was_address :: string
  was_label :: "string option"
  was_public_key :: "string option"
  was_is_default :: bool
  was_is_read_only :: bool
  was_is_locked :: bool

definition WalletAccountSummary_from :: "WalletAccountRecord \<Rightarrow> WalletAccountSummary" where
  "WalletAccountSummary_from v =
     \<lparr>was_address = wa_address v, was_label = wa_label v, was_public_key = wa_public_key v,
      was_is_default = wa_is_default v, was_is_read_only = wa_is_read_only v, was_is_locked = wa_is_locked v\<rparr>"

record WalletAccountGroup =
  wag_wallet_instance_id :: WalletInstanceId
  wag_instance_label :: string
  wag_extension_connected :: bool
  wag_lock_state :: LockState
  wag_accounts :: "WalletAccountSummary list"

record WalletStatusResult =
  wsr_wallet_available :: bool
  wsr_wallet_online :: bool
  wsr_default_wallet_instance_id :: "WalletInstanceId option"
  wsr_wallet_instances :: "WalletInstanceSummary list"

record WalletGetPublicKeyResult =
  gpk_wallet_instance_id :: WalletInstanceId
  gpk_address :: string
  gpk_public_key :: string
  gpk_curve :: Curve

record WalletSetAccountLabelResult =
  slr_wallet_instance_id :: WalletInstanceId
  slr_account :: WalletAccountSummary

record CreateRequestResult =
  crr_request_id :: RequestId
  crr_client_request_id :: ClientRequestId
  crr_kind :: RequestKind
  crr_status :: RequestStatus
  crr_wallet_instance_id :: WalletInstanceId
  crr_created_at :: TimestampMs
  crr_expires_at :: TimestampMs

record GetRequestStatusResult =
  grs_request_id :: RequestId
  grs_client_request_id :: ClientRequestId
  grs_kind :: RequestKind
  grs_status :: RequestStatus
  grs_wallet_instance_id :: WalletInstanceId
  grs_created_at :: TimestampMs
  grs_expires_at :: TimestampMs
  grs_result_kind :: ResultKind
  grs_result_available :: bool
  grs_result_expires_at :: "TimestampMs option"
  grs_error_code :: "SharedErrorCode option"
  grs_error_message :: "string option"
  grs_result :: "RequestResult option"

record RequestHasAvailableResult =
  rha_wallet_instance_id :: WalletInstanceId
  rha_available :: bool

record CancelRequestResult =
  crq_request_id :: RequestId
  crq_status :: RequestStatus
  crq_error_code :: "SharedErrorCode option"

record PulledRequest =
  pr_request_id :: RequestId
  pr_client_request_id :: ClientRequestId
  pr_kind :: RequestKind
  pr_account_address :: string
  pr_payload_hash :: PayloadHash
  pr_display_hint :: "string option"
  pr_client_context :: "string option"
  pr_resume_required :: bool
  pr_delivery_lease_id :: "DeliveryLeaseId option"
  pr_lease_expires_at :: "TimestampMs option"
  pr_presentation_id :: "PresentationId option"
  pr_presentation_expires_at :: "TimestampMs option"
  pr_raw_txn_bcs_hex :: "string option"
  pr_message :: "string option"
  pr_message_format :: "MessageFormat option"
  pr_output_file :: "string option"
  pr_force :: bool
  pr_private_key_file :: "string option"

record PullNextRequestResult =
  pnr_wallet_instance_id :: WalletInstanceId
  pnr_request :: "PulledRequest option"

record RequestPresentedResult =
  rpr_request_id :: RequestId
  rpr_status :: RequestStatus

record RequestResolvedResult =
  rrr_request_id :: RequestId
  rrr_status :: RequestStatus
  rrr_result_kind :: ResultKind
  rrr_result_expires_at :: "TimestampMs option"

record RequestRejectedResult =
  rjr_request_id :: RequestId
  rjr_status :: RequestStatus
  rjr_error_code :: SharedErrorCode

record TickMaintenanceResult =
  tmr_expired_requests :: nat
  tmr_released_delivery_leases :: nat
  tmr_evicted_results :: nat

datatype CoordinatorResponse =
  RespSystemPing SystemPingResult
  | RespSystemInfo SystemGetInfoResult
  | RespWalletStatus WalletStatusResult
  | RespWalletInstances "WalletInstanceSummary list"
  | RespWalletAccounts "WalletAccountGroup list"
  | RespWalletPublicKey WalletGetPublicKeyResult
  | RespWalletAccountLabelSet WalletSetAccountLabelResult
  | RespRequestCreated CreateRequestResult
  | RespRequestStatus GetRequestStatusResult
  | RespRequestHasAvailable RequestHasAvailableResult
  | RespRequestCancelled CancelRequestResult
  | RespPullNextRequest PullNextRequestResult
  | RespRequestPresented RequestPresentedResult
  | RespRequestResolved RequestResolvedResult
  | RespRequestRejected RequestRejectedResult
  | RespTickMaintenance TickMaintenanceResult
  | RespAck

section \<open>Configuration\<close>

record CoordinatorConfig =
  cfg_daemon_version :: string
  cfg_socket_scope :: string
  cfg_db_schema_version :: u32
  cfg_default_request_ttl :: DurationSeconds
  cfg_min_request_ttl :: DurationSeconds
  cfg_max_request_ttl :: DurationSeconds
  cfg_delivery_lease_ttl :: DurationSeconds
  cfg_presentation_lease_ttl :: DurationSeconds
  cfg_wallet_offline_after :: DurationSeconds
  cfg_result_retention :: DurationSeconds

text \<open>\<open>CoordinatorConfig::default\<close>; the crate version is the build's \<open>CARGO_PKG_VERSION\<close>.\<close>

definition CoordinatorConfig_default :: "string \<Rightarrow> CoordinatorConfig" where
  "CoordinatorConfig_default cargo_pkg_version =
     \<lparr>cfg_daemon_version = cargo_pkg_version, cfg_socket_scope = ''local-user'',
      cfg_db_schema_version = STARMASKD_DB_SCHEMA_VERSION,
      cfg_default_request_ttl = 300, cfg_min_request_ttl = 30, cfg_max_request_ttl = 3600,
      cfg_delivery_lease_ttl = 30, cfg_presentation_lease_ttl = 45, cfg_wallet_offline_after = 25,
      cfg_result_retention = 600\<rparr>"

end
