(* ===== verification/Sqlite_Db.thy ===== *)
theory Sqlite_Db
  imports Wire_Names Coordinator_Types
begin

text \<open>
  The database of \<open>starmaskd\<close>: the four tables of \<open>schema.sql\<close> as lists of rows with the columns of the
  schema, statements that may fail, transactions that roll the tables back, and the constraints the
  schema declares (primary keys, the unique index on \<open>client_request_id\<close>, foreign keys).

  JSON columns hold texts of a type \<open>'j\<close>: the codec of \<open>serde_json\<close> is an argument (\<open>Env\<close>), as is the
  text of an error of \<open>rusqlite\<close> and the order in which SQLite scans a table.
\<close>

named_theorems db_rules "operations on a connection whose tables are those of a given one"

section \<open>Pure results\<close>

text \<open>The \<open>?\<close> operator between pure results, and \<open>Option<Result<..>>::transpose\<close>.\<close>

definition and_then :: "'e + 'a \<Rightarrow> ('a \<Rightarrow> 'e + 'b) \<Rightarrow> 'e + 'b" where
  "and_then r f = (case r of Inl e \<Rightarrow> Inl e | Inr x \<Rightarrow> f x)"

definition transpose_opt :: "('a \<Rightarrow> 'e + 'b) \<Rightarrow> 'a option \<Rightarrow> 'e + 'b option" where
  "transpose_opt f v = (case v of None \<Rightarrow> Inr None | Some x \<Rightarrow> and_then (f x) (\<lambda>y. Inr (Some y)))"

lemma and_then_Inr [simp]: "and_then (Inr x) f = f x" "and_then (Inl e) f = Inl e"
  by (simp_all add: and_then_def)

lemma and_then_eq_Inr: "and_then r f = Inr y \<longleftrightarrow> (\<exists>x. r = Inr x \<and> f x = Inr y)"
  by (cases r) simp_all

lemma transpose_opt_simps [simp]: "transpose_opt f None = Inr None"
  "transpose_opt f (Some x) = and_then (f x) (\<lambda>y. Inr (Some y))"
  by (simp_all add: transpose_opt_def)

lemma transpose_opt_eq_Inr: "transpose_opt f v = Inr w \<longleftrightarrow>
    (case v of None \<Rightarrow> w = None | Some x \<Rightarrow> \<exists>y. f x = Inr y \<and> w = Some y)"
  by (auto simp: and_then_eq_Inr split: option.splits)

section \<open>Upserts\<close>

text \<open>\<open>INSERT .. ON CONFLICT(key) DO UPDATE SET\<close> of every other column.\<close>

definition upsert_by :: "('r \<Rightarrow> 'k) \<Rightarrow> 'r \<Rightarrow> 'r list \<Rightarrow> 'r list" where
  "upsert_by key r rows = (if has_key key (key r) rows then update_by key (key r) (\<lambda>_. r) rows else rows @ [r])"

lemma lookup_by_const: "key r = k \<Longrightarrow> lookup_by key k' (update_by key k (\<lambda>_. r) rows) =
    (if k' = k then map_option (\<lambda>_. r) (lookup_by key k rows) else lookup_by key k' rows)"
  by (induction rows) (auto simp: update_by_def)

lemma lookup_upsert_by:
  "lookup_by key k (upsert_by key r rows) = (if k = key r then Some r else lookup_by key k rows)"
proof (cases "key r \<in> key ` set rows")
  case True
  then have "lookup_by key (key r) rows \<noteq> None" by (simp add: lookup_by_None)
  with True show ?thesis by (auto simp: upsert_by_def has_key_iff lookup_by_const)
next
  case False
  then have "lookup_by key (key r) rows = None" by (simp add: lookup_by_None)
  with False show ?thesis by (auto simp: upsert_by_def has_key_iff lookup_by_append split: option.splits)
qed

lemma distinct_upsert_by: "distinct (map key rows) \<Longrightarrow> distinct (map key (upsert_by key r rows))"
  by (auto simp: upsert_by_def has_key_iff key_simps)

lemma set_upsert_by: "x \<in> set (upsert_by key r rows) \<Longrightarrow> x = r \<or> (x \<in> set rows \<and> key x \<noteq> key r)"
  by (auto simp: upsert_by_def has_key_iff update_by_def image_iff split: if_splits)

lemma keys_upsert_by: "key ` set (upsert_by key r rows) = insert (key r) (key ` set rows)"
proof -
  have "k \<in> key ` set (upsert_by key r rows) \<longleftrightarrow> k = key r \<or> k \<in> key ` set rows" for k
    using lookup_upsert_by [of key k r rows] lookup_by_None [of key k] by (metis option.distinct(1))
  then show ?thesis by blast
qed

section \<open>Rows\<close>

record 'j RequestRow =
  rq_request_id :: string
  rq_client_request_id :: string
  rq_kind :: string
  rq_status :: string
  rq_wallet_instance_id :: string
  rq_account_address :: string
  rq_payload_hash :: string
  rq_payload_json :: 'j
  rq_result_json :: "'j option"
  rq_created_at :: int
  rq_expires_at :: int
  rq_updated_at :: int
  rq_approved_at :: "int option"
  rq_rejected_at :: "int option"
  rq_cancelled_at :: "int option"
  rq_failed_at :: "int option"
  rq_result_expires_at :: "int option"
  rq_last_error_code :: "string option"
  rq_last_error_message :: "string option"
  rq_reject_reason_code :: "string option"
  rq_delivery_lease_id :: "string option"
  rq_delivery_lease_expires_at :: "int option"
  rq_presentation_id :: "string option"
  rq_presentation_expires_at :: "int option"

record 'j InstanceRow =
  iw_wallet_instance_id :: string
  iw_backend_kind :: string
  iw_transport_kind :: string
  iw_approval_surface :: string
  iw_instance_label :: string
  iw_extension_id :: string
  iw_extension_version :: string
  iw_protocol_version :: int
  iw_capabilities_json :: 'j
  iw_backend_metadata_json :: 'j
  iw_profile_hint :: "string option"
  iw_lock_state :: string
  iw_connected :: int
  iw_last_seen_at :: int

record AccountRow =
  aw_wallet_instance_id :: string
  aw_address :: string
  aw_label :: "string option"
  aw_public_key :: "string option"
  aw_is_default :: int
  aw_is_read_only :: int
  aw_is_locked :: int
  aw_last_seen_at :: int

record LabelRow =
  lb_wallet_instance_id :: string
  lb_address :: string
  lb_label :: string
  lb_account_order :: int
  lb_updated_at :: int

definition account_key :: "AccountRow \<Rightarrow> string \<times> string" where
  "account_key r = (aw_wallet_instance_id r, aw_address r)"

definition label_key :: "LabelRow \<Rightarrow> string \<times> string" where
  "label_key r = (lb_wallet_instance_id r, lb_address r)"

section \<open>The environment\<close>

text \<open>What \<open>rusqlite\<close> reports; its text is an argument of the model.\<close>

datatype SqlFailure =
  ConstraintViolation string
  | ConversionFailure string
  | UnknownVariant string
  | IntegralValueOutOfRange int
  | QueryReturnedNoRows
  | StatementFailed string

record 'j Env =
  payload_to_json :: "RequestPayload \<Rightarrow> string + 'j"
  payload_from_json :: "'j \<Rightarrow> string + RequestPayload"
  result_to_json :: "RequestResult \<Rightarrow> string + 'j"
  result_from_json :: "'j \<Rightarrow> string + RequestResult"
  capabilities_to_json :: "WalletCapability list \<Rightarrow> string + 'j"
  capabilities_from_json :: "'j \<Rightarrow> string + WalletCapability list"
  metadata_to_json :: "Value \<Rightarrow> string + 'j"
  metadata_from_json :: "'j \<Rightarrow> string + Value"
  sql_text :: "SqlFailure \<Rightarrow> string"
  scan_requests :: "'j RequestRow list \<Rightarrow> 'j RequestRow list"
  scan_instances :: "'j InstanceRow list \<Rightarrow> 'j InstanceRow list"

text \<open>
  What the code relies on: a text that \<open>serde_json\<close> wrote is read back as the value it was written
  from, and a scan visits every row of the table once.
\<close>

definition env_ok :: "'j Env \<Rightarrow> bool" where
  "env_ok env \<longleftrightarrow>
     (\<forall>x j. payload_to_json env x = Inr j \<longrightarrow> payload_from_json env j = Inr x) \<and>
     (\<forall>x j. result_to_json env x = Inr j \<longrightarrow> result_from_json env j = Inr x) \<and>
     (\<forall>x j. capabilities_to_json env x = Inr j \<longrightarrow> capabilities_from_json env j = Inr x) \<and>
     (\<forall>x j. metadata_to_json env x = Inr j \<longrightarrow> metadata_from_json env j = Inr x) \<and>
     (\<forall>rows. mset (scan_requests env rows) = mset rows) \<and>
     (\<forall>rows. mset (scan_instances env rows) = mset rows)"

section \<open>Connections\<close>

text \<open>
  An open connection: the tables, which statement fails for a reason of its own (a full disk, a lock
  held too long), and the readings of the system clock, in milliseconds since the epoch.
\<close>

record 'j Connection =
  requests :: "'j RequestRow list"
  wallet_instances :: "'j InstanceRow list"
  wallet_accounts :: "AccountRow list"
  wallet_account_labels :: "LabelRow list"
  faults :: "nat \<Rightarrow> string option"
  statements :: nat
  system_time :: "nat \<Rightarrow> int"
  time_reads :: nat

type_synonym ('j, 'a) db = "('j Connection, RepositoryError, 'a) fallible"

definition sql_error :: "'j Env \<Rightarrow> SqlFailure \<Rightarrow> RepositoryError" where
  "sql_error env f = Storage (sql_text env f)"

text \<open>One statement: it fails on its own account, or runs and may report a failure.\<close>

definition statement :: "'j Env \<Rightarrow> ('j Connection \<Rightarrow> (SqlFailure + 'a) \<times> 'j Connection) \<Rightarrow> ('j, 'a) db" where
  "statement env f c =
     (let c1 = c\<lparr>statements := Suc (statements c)\<rparr> in
      case faults c (statements c) of
        Some msg \<Rightarrow> (Inl (sql_error env (StatementFailed msg)), c1)
      | None \<Rightarrow> (case f c1 of (Inl e, _) \<Rightarrow> (Inl (sql_error env e), c1) | (Inr x, c2) \<Rightarrow> (Inr x, c2)))"

definition query :: "'j Env \<Rightarrow> ('j Connection \<Rightarrow> SqlFailure + 'a) \<Rightarrow> ('j, 'a) db" where
  "query env f = statement env (\<lambda>c. (f c, c))"

definition same_tables :: "'j Connection \<Rightarrow> 'j Connection \<Rightarrow> bool" where
  "same_tables c c' \<longleftrightarrow>
     requests c' = requests c \<and> wallet_instances c' = wallet_instances c \<and>
     wallet_accounts c' = wallet_accounts c \<and> wallet_account_labels c' = wallet_account_labels c"

definition rollback :: "'j Connection \<Rightarrow> 'j Connection \<Rightarrow> 'j Connection" where
  "rollback c c' =
     c'\<lparr>requests := requests c, wallet_instances := wallet_instances c, wallet_accounts := wallet_accounts c,
        wallet_account_labels := wallet_account_labels c\<rparr>"

text \<open>
  \<open>connection.transaction()?\<close>, the body, \<open>transaction.commit()?\<close>. A \<open>Transaction\<close> that is dropped before
  its commit, because the body or the commit returned an error, rolls back.
\<close>

definition in_transaction :: "'j Env \<Rightarrow> ('j, 'a) db \<Rightarrow> ('j, 'a) db" where
  "in_transaction env body =
     bind (query env (\<lambda>_. Inr ())) (\<lambda>_ c.
       case bind body (\<lambda>x. bind (query env (\<lambda>_. Inr ())) (\<lambda>_. ok x)) c of
         (Inl e, c') \<Rightarrow> (Inl e, rollback c c')
       | (Inr x, c') \<Rightarrow> (Inr x, c'))"

text \<open>\<open>rows.collect::<Result<Vec<_>, _>>()\<close>: the first row that cannot be read is the error.\<close>

fun collect_rows :: "('r \<Rightarrow> SqlFailure + 'a) \<Rightarrow> 'r list \<Rightarrow> SqlFailure + 'a list" where
  "collect_rows f [] = Inr []"
| "collect_rows f (r # rs) = and_then (f r) (\<lambda>x. and_then (collect_rows f rs) (\<lambda>xs. Inr (x # xs)))"

section \<open>Rules\<close>

lemma same_tables_refl [simp]: "same_tables c c"
  by (simp add: same_tables_def)

lemma same_tables_trans: "same_tables c c' \<Longrightarrow> same_tables c' c'' \<Longrightarrow> same_tables c c''"
  by (simp add: same_tables_def)

lemma same_tables_rollback [simp]: "same_tables c (rollback c c')"
  by (simp add: same_tables_def rollback_def)

lemma wp_statement:
  assumes "\<And>c1 x c2. same_tables c c1 \<Longrightarrow> f c1 = (Inr x, c2) \<Longrightarrow> Q x c2"
    and "\<And>e c'. same_tables c c' \<Longrightarrow> E e c'"
  shows "wp (statement env f) Q E c"
proof -
  let ?c1 = "c\<lparr>statements := Suc (statements c)\<rparr>"
  have "same_tables c ?c1" by (simp add: same_tables_def)
  with assms(1) [OF this] assms(2) [OF this] show ?thesis
    by (auto simp: wp_def statement_def Let_def split: option.splits prod.splits sum.splits)
qed

lemma wp_query:
  assumes "\<And>x c'. same_tables c c' \<Longrightarrow> f c' = Inr x \<Longrightarrow> Q x c'"
    and "\<And>e c'. same_tables c c' \<Longrightarrow> E e c'"
  shows "wp (query env f) Q E c"
  unfolding query_def using assms by (intro wp_statement) auto

lemma db_query [db_rules]:
  assumes "same_tables c0 c" "\<And>x c'. same_tables c0 c' \<Longrightarrow> f c' = Inr x \<Longrightarrow> Q x c'"
    and "\<And>e c'. same_tables c0 c' \<Longrightarrow> E e c'"
  shows "wp (query env f) Q E c"
  by (rule wp_query) (blast intro: assms(2,3) same_tables_trans [OF assms(1)])+

lemma wp_in_transaction:
  assumes body: "\<And>c1. same_tables c c1 \<Longrightarrow> wp body (\<lambda>x c2. \<forall>c'. same_tables c2 c' \<longrightarrow> Q x c') (\<lambda>_ _. True) c1"
    and e: "\<And>e c'. same_tables c c' \<Longrightarrow> E e c'"
  shows "wp (in_transaction env body) Q E c"
  unfolding in_transaction_def
proof (intro wp_bind wp_query)
  fix x c1 assume c1: "same_tables c c1"
  have "wp (bind body (\<lambda>x. bind (query env (\<lambda>_. Inr ())) (\<lambda>_. ok x))) Q (\<lambda>_ _. True) c1"
    by (rule wp_bind, rule wp_mono [OF body [OF c1]]) (auto intro!: wp_bind wp_query wp_ok)
  moreover have "E e (rollback c1 c')" for e c'
    by (rule e) (rule same_tables_trans [OF c1 same_tables_rollback])
  ultimately show "wp (\<lambda>c. case bind body (\<lambda>x. bind (query env (\<lambda>_. Inr ())) (\<lambda>_. ok x)) c of
      (Inl e, c') \<Rightarrow> (Inl e, rollback c c') | (Inr x, c') \<Rightarrow> (Inr x, c')) Q E c1"
    by (auto simp: wp_def split: prod.splits sum.splits)
qed (rule e)

lemma distinct_map_sort_key [simp]: "distinct (map f (sort_key g xs)) = distinct (map f xs)"
  by (rule mset_eq_imp_distinct_iff) simp

lemma collect_rows_map:
  assumes "\<And>row x. f row = Inr x \<Longrightarrow> g x = h row"
  shows "collect_rows f rows = Inr xs \<Longrightarrow> map g xs = map h rows"
  using assms by (induction rows arbitrary: xs) (auto simp: and_then_eq_Inr)

lemma collect_rows_set: "collect_rows f rows = Inr xs \<Longrightarrow> set xs = {x. \<exists>row \<in> set rows. f row = Inr x}"
  by (induction rows arbitrary: xs) (auto simp: and_then_eq_Inr)

end
