(* ===== verification/Account_Labels.thy ===== *)
theory Account_Labels
  imports Sqlite_Db
begin

text \<open>
  The daemon-managed labels of local accounts (\<open>starmaskd/src/account_labels.rs\<close>): which wallets have
  them, how a newly discovered account gets a label and a position, and how a label is stored.
\<close>

section \<open>Operations\<close>

definition is_local_account_wallet :: "'j Env \<Rightarrow> WalletInstanceId \<Rightarrow> ('j, bool) db" where
  "is_local_account_wallet env w =
     bind (query env (\<lambda>c. Inr (map_option iw_backend_kind (lookup_by iw_wallet_instance_id w (wallet_instances c))))) (\<lambda>found.
     bind (ok_or found (Storage (''wallet instance '' @ w @ '' was not found''))) (\<lambda>backend_kind.
     case decode_string_enum BackendKind_name BackendKind_variants backend_kind of
       None \<Rightarrow> err (sql_error env (UnknownVariant backend_kind))
     | Some b \<Rightarrow> ok (b = LocalAccountDir)))"

text \<open>\<open>MAX\<close> over no rows is \<open>NULL\<close>; \<open>max_order + 1\<close> is an \<open>i64\<close> addition.\<close>

definition max_account_order :: "WalletInstanceId \<Rightarrow> LabelRow list \<Rightarrow> int option" where
  "max_account_order w rows =
     (case map lb_account_order (filter (\<lambda>r. lb_wallet_instance_id r = w) rows) of
        [] \<Rightarrow> None | x # xs \<Rightarrow> Some (fold max xs x))"

definition next_account_order :: "'j Env \<Rightarrow> WalletInstanceId \<Rightarrow> ('j, int) db" where
  "next_account_order env w =
     bind (query env (\<lambda>c. Inr (max_account_order w (wallet_account_labels c)))) (\<lambda>max_order.
     ok (i64_wrapping_add (case max_order of None \<Rightarrow> 0 | Some m \<Rightarrow> m) 1))"

definition existing_account_order :: "'j Env \<Rightarrow> WalletInstanceId \<Rightarrow> string \<Rightarrow> ('j, int option) db" where
  "existing_account_order env w address =
     query env (\<lambda>c. Inr (map_option lb_account_order (lookup_by label_key (w, address) (wallet_account_labels c))))"

definition upsert_wallet_account_label ::
  "'j Env \<Rightarrow> WalletInstanceId \<Rightarrow> string \<Rightarrow> string \<Rightarrow> int \<Rightarrow> int \<Rightarrow> ('j, unit) db" where
  "upsert_wallet_account_label env w address label order stamp =
     statement env (\<lambda>c.
       if \<not> has_key iw_wallet_instance_id w (wallet_instances c)
       then (Inl (ConstraintViolation ''FOREIGN KEY constraint failed''), c)
       else (Inr (), c\<lparr>wallet_account_labels := upsert_by label_key
          \<lparr>lb_wallet_instance_id = w, lb_address = address, lb_label = label, lb_account_order = order,
           lb_updated_at = stamp\<rparr> (wallet_account_labels c)\<rparr>))"

definition normalize_account_label :: "string \<Rightarrow> RepositoryError + string" where
  "normalize_account_label label =
     (let normalized = trim label in
      if normalized = [] then Inl (Storage ''account label cannot be empty'') else Inr normalized)"

definition current_timestamp_ms :: "('j, int) db" where
  "current_timestamp_ms c =
     (let millis = max 0 (system_time c (time_reads c)) in
      (Inr (if millis \<le> i64_MAX then millis else i64_MAX), c\<lparr>time_reads := Suc (time_reads c)\<rparr>))"

text \<open>The \<open>HashMap\<close> of the known labels; its keys are what the caller reads.\<close>

definition list_wallet_account_labels :: "'j Env \<Rightarrow> WalletInstanceId \<Rightarrow> ('j, string \<Rightarrow> string option) db" where
  "list_wallet_account_labels env w =
     bind (query env (\<lambda>c. Inr (map (\<lambda>r. (lb_address r, lb_label r))
        (filter (\<lambda>r. lb_wallet_instance_id r = w) (wallet_account_labels c))))) (\<lambda>rows.
     ok (map_of (rev rows)))"

text \<open>\<open>Display\<close> of an \<open>i64\<close>.\<close>

definition i64_to_string :: "int \<Rightarrow> string" where
  "i64_to_string i = (if i < 0 then ''-'' @ decimal (nat (- i)) else decimal (nat i))"

definition discovered_account_label :: "string option \<Rightarrow> int \<Rightarrow> RepositoryError + string" where
  "discovered_account_label label next_order =
     (case (case map_option trim label of Some v \<Rightarrow> if v = [] then None else Some v | None \<Rightarrow> None) of
        Some v \<Rightarrow> normalize_account_label v
      | None \<Rightarrow> Inr (''account-'' @ i64_to_string next_order))"

text \<open>One iteration of the loop of \<open>ensure_local_account_labels\<close>; the value carried is \<open>next_order\<close>.\<close>

definition label_account ::
  "'j Env \<Rightarrow> WalletInstanceId \<Rightarrow> (string \<Rightarrow> string option) \<Rightarrow> int \<Rightarrow> int \<Rightarrow> WalletAccountRecord \<Rightarrow> ('j, int) db" where
  "label_account env w known stamp next_order account =
     (if known (wa_address account) \<noteq> None then ok next_order
      else
        bind (of_result (discovered_account_label (wa_label account) next_order)) (\<lambda>label.
        bind (upsert_wallet_account_label env w (wa_address account) label next_order stamp) (\<lambda>_.
        ok (i64_wrapping_add next_order 1))))"

definition ensure_local_account_labels ::
  "'j Env \<Rightarrow> WalletInstanceId \<Rightarrow> WalletAccountRecord list \<Rightarrow> ('j, unit) db" where
  "ensure_local_account_labels env w accounts =
     bind (list_wallet_account_labels env w) (\<lambda>known_labels.
     bind (next_account_order env w) (\<lambda>next_order.
     bind current_timestamp_ms (\<lambda>updated_at.
     bind (for_fold accounts next_order (label_account env w known_labels updated_at)) (\<lambda>_.
     ok ()))))"

section \<open>Labels\<close>

lemma normalize_account_label_Inr:
  "normalize_account_label l = Inr s \<longleftrightarrow> s = trim l \<and> nonblank l"
  by (auto simp: normalize_account_label_def Let_def nonblank_def)

text \<open>Every discovered account gets a label: its own, trimmed, or its position.\<close>

lemma discovered_account_label_Inr:
  "discovered_account_label l n =
     Inr (case l of Some v \<Rightarrow> if nonblank v then trim v else ''account-'' @ i64_to_string n
          | None \<Rightarrow> ''account-'' @ i64_to_string n)"
  by (auto simp: discovered_account_label_def normalize_account_label_def Let_def nonblank_def trim_idem
      split: option.splits)

section \<open>The label table\<close>

lemma label_key_simps [simp]: "label_key \<lparr>lb_wallet_instance_id = w, lb_address = a, lb_label = l, lb_account_order = n,
    lb_updated_at = u\<rparr> = (w, a)"
  by (simp add: label_key_def)

section \<open>Rules\<close>

lemma db_is_local [db_rules]:
  assumes t: "same_tables c0 c"
    and q: "\<And>b c'. same_tables c0 c' \<Longrightarrow> has_key iw_wallet_instance_id w (wallet_instances c0) \<Longrightarrow> Q b c'"
    and e: "\<And>e c'. same_tables c0 c' \<Longrightarrow> E e c'"
  shows "wp (is_local_account_wallet env w) Q E c"
  unfolding is_local_account_wallet_def
proof (intro wp_bind db_query [OF t] wp_ok_or wp_option)
  fix found c' bk b assume c': "same_tables c0 c'" and "found = Some bk"
    "Inr (map_option iw_backend_kind (lookup_by iw_wallet_instance_id w (wallet_instances c'))) = Inr found"
  then have "has_key iw_wallet_instance_id w (wallet_instances c0)"
    by (auto simp: same_tables_def has_key_iff dest!: lookup_by_SomeD)
  with c' show "wp (ok (b = LocalAccountDir)) Q E c'" by (intro wp_ok q)
qed (auto intro!: wp_err e)

lemma db_next_order [db_rules]:
  assumes "same_tables c0 c" "\<And>c'. same_tables c0 c' \<Longrightarrow>
      Q (i64_wrapping_add (case max_account_order w (wallet_account_labels c0) of None \<Rightarrow> 0 | Some m \<Rightarrow> m) 1) c'"
    and "\<And>e c'. same_tables c0 c' \<Longrightarrow> E e c'"
  shows "wp (next_account_order env w) Q E c"
  unfolding next_account_order_def
  using assms by (auto intro!: wp_bind db_query [OF assms(1)] wp_ok simp: same_tables_def)

lemma db_existing_order [db_rules]:
  assumes "same_tables c0 c" "\<And>c'. same_tables c0 c' \<Longrightarrow>
      Q (map_option lb_account_order (lookup_by label_key (w, address) (wallet_account_labels c0))) c'"
    and "\<And>e c'. same_tables c0 c' \<Longrightarrow> E e c'"
  shows "wp (existing_account_order env w address) Q E c"
  unfolding existing_account_order_def
  using assms by (auto intro!: db_query [OF assms(1)] simp: same_tables_def)

lemma db_timestamp [db_rules]:
  assumes "same_tables c0 c" "\<And>t c'. same_tables c0 c' \<Longrightarrow> Q t c'"
  shows "wp current_timestamp_ms Q E c"
  using assms by (simp add: wp_def current_timestamp_ms_def Let_def same_tables_def)

lemma db_known_labels [db_rules]:
  assumes "same_tables c0 c" "\<And>known c'. same_tables c0 c' \<Longrightarrow>
      \<forall>a. known a = None \<longleftrightarrow> \<not> has_key label_key (w, a) (wallet_account_labels c0) \<Longrightarrow> Q known c'"
    and "\<And>e c'. same_tables c0 c' \<Longrightarrow> E e c'"
  shows "wp (list_wallet_account_labels env w) Q E c"
  unfolding list_wallet_account_labels_def
proof (intro wp_bind db_query [OF assms(1)] wp_ok assms(2))
  fix rows c' a assume "same_tables c0 c'" and "Inr (map (\<lambda>r. (lb_address r, lb_label r))
      (filter (\<lambda>r. lb_wallet_instance_id r = w) (wallet_account_labels c'))) = Inr rows"
  then have "rows = map (\<lambda>r. (lb_address r, lb_label r)) (filter (\<lambda>r. lb_wallet_instance_id r = w) (wallet_account_labels c0))"
    by (simp add: same_tables_def)
  then show "\<forall>a. map_of (rev rows) a = None \<longleftrightarrow> \<not> has_key label_key (w, a) (wallet_account_labels c0)"
    by (auto simp: map_of_eq_None_iff has_key_iff label_key_def image_iff)
qed (auto intro: assms(3))

lemma db_upsert_label [db_rules]:
  assumes "same_tables c0 c"
    and "\<And>c1 c'. same_tables c0 c1 \<Longrightarrow> c' = c1\<lparr>wallet_account_labels := upsert_by label_key
      \<lparr>lb_wallet_instance_id = w, lb_address = address, lb_label = label, lb_account_order = n, lb_updated_at = t\<rparr>
      (wallet_account_labels c1)\<rparr> \<Longrightarrow> Q () c'"
    and "\<And>e c'. same_tables c0 c' \<Longrightarrow> E e c'"
  shows "wp (upsert_wallet_account_label env w address label n t) Q E c"
  unfolding upsert_wallet_account_label_def
  by (rule wp_statement)
    (auto split: if_splits intro: assms(2) same_tables_trans [OF assms(1)], blast intro: assms(3) same_tables_trans [OF assms(1)])

end
