(* ===== verification/Lifecycle.thy ===== *)
theory Lifecycle
  imports Coordinator_Types
begin

text \<open>
  The abstract specification of the request lifecycle: a step relation on one request
  (\<open>request_step\<close>), one rule per thing that can happen to it, and a step relation on the table
  of requests (\<open>table_step\<close>), which either accepts a fresh request or moves one stored request.
  What a request record must satisfy (\<open>request_wf\<close>) and what never changes about it
  (\<open>same_identity\<close>) are proved of these relations by rule induction, once; the coordinator is
  later shown to move the store along \<open>table_step\<close> only.
\<close>

section \<open>One request\<close>

inductive request_step :: "RequestRecord \<Rightarrow> RequestRecord \<Rightarrow> bool" where
  claim: "status r = Created \<Longrightarrow>
    request_step r (r\<lparr>status := Dispatched, updated_at := t, delivery_lease := Some l\<rparr>)"
| present: "status r = Dispatched \<Longrightarrow> delivery_lease r = Some l \<Longrightarrow> t < delivery_lease_expires_at l \<Longrightarrow>
    request_step r (r\<lparr>status := PendingUserApproval, updated_at := t, presentation := Some p,
      delivery_lease := None\<rparr>)"
| refresh: "status r = PendingUserApproval \<Longrightarrow> presentation r = Some p \<Longrightarrow>
    request_step r (r\<lparr>presentation := Some (p\<lparr>presentation_expires_at := e\<rparr>), updated_at := t\<rparr>)"
| resolve: "status r = PendingUserApproval \<Longrightarrow> presentation r = Some p \<Longrightarrow> t < presentation_expires_at p \<Longrightarrow>
    result_kind x = expected_result_kind (kind r) \<Longrightarrow>
    request_step r (r\<lparr>status := Approved, updated_at := t, approved_at := Some t, result_expires_at := e,
      result := Some x, last_error_code := None, last_error_message := None, reject_reason_code := None,
      delivery_lease := None, presentation := None\<rparr>)"
| reject: "status r \<in> {Dispatched, PendingUserApproval} \<Longrightarrow> s \<in> {Rejected, Expired, Failed} \<Longrightarrow>
    can_transition_to (status r) s \<Longrightarrow>
    (status r = PendingUserApproval \<Longrightarrow> \<exists>p. presentation r = Some p \<and> t < presentation_expires_at p) \<Longrightarrow>
    request_step r (r\<lparr>status := s, updated_at := t, approved_at := None,
      rejected_at := (if s = Rejected then Some t else None), failed_at := (if s = Failed then Some t else None),
      reject_reason_code := Some reason, last_error_code := Some c, last_error_message := Some m,
      delivery_lease := None, presentation := None\<rparr>)"
| cancel: "\<not> is_terminal (status r) \<Longrightarrow>
    request_step r (r\<lparr>status := Cancelled, updated_at := t, cancelled_at := Some t', last_error_code := Some c,
      last_error_message := Some m, delivery_lease := None, presentation := None\<rparr>)"
| expire: "\<not> is_terminal (status r) \<Longrightarrow> expires_at r \<le> t \<Longrightarrow>
    request_step r (r\<lparr>status := Expired, updated_at := t, last_error_code := Some c, last_error_message := Some m,
      delivery_lease := None, presentation := None\<rparr>)"
| release_delivery: "status r = Dispatched \<Longrightarrow> delivery_lease r = Some l \<Longrightarrow> delivery_lease_expires_at l \<le> t \<Longrightarrow>
    request_step r (r\<lparr>status := Created, updated_at := t, delivery_lease := None, presentation := None\<rparr>)"
| release_presentation: "status r = PendingUserApproval \<Longrightarrow> presentation r = Some p \<Longrightarrow>
    presentation_expires_at p \<le> t \<Longrightarrow>
    request_step r (r\<lparr>status := Created, updated_at := t, delivery_lease := None, presentation := None\<rparr>)"
| evict: "result r = Some x \<Longrightarrow> result_expires_at r = Some e \<Longrightarrow> e \<le> t \<Longrightarrow>
    request_step r (r\<lparr>result := None, result_expires_at := None\<rparr>)"

text \<open>What identifies a request and what was asked: never changed by any step.\<close>

definition same_identity :: "RequestRecord \<Rightarrow> RequestRecord \<Rightarrow> bool" where
  "same_identity r r' \<longleftrightarrow>
     request_id r' = request_id r \<and> client_request_id r' = client_request_id r \<and> kind r' = kind r \<and>
     wallet_instance_id r' = wallet_instance_id r \<and> account_address r' = account_address r \<and>
     payload_hash r' = payload_hash r \<and> payload r' = payload r \<and>
     created_at r' = created_at r \<and> expires_at r' = expires_at r"

text \<open>The well-formedness of a record, in four parts.\<close>

definition leases_match :: "RequestRecord \<Rightarrow> bool" where
  "leases_match r \<longleftrightarrow>
     (delivery_lease r \<noteq> None \<longleftrightarrow> status r = Dispatched) \<and>
     (presentation r \<noteq> None \<longleftrightarrow> status r = PendingUserApproval)"

definition result_match :: "RequestRecord \<Rightarrow> bool" where
  "result_match r \<longleftrightarrow>
     (case result r of None \<Rightarrow> result_expires_at r = None
      | Some x \<Rightarrow> status r = Approved \<and> result_kind x = expected_result_kind (kind r))"

definition stamps_match :: "RequestRecord \<Rightarrow> bool" where
  "stamps_match r \<longleftrightarrow>
     (approved_at r \<noteq> None \<longleftrightarrow> status r = Approved) \<and> (rejected_at r \<noteq> None \<longleftrightarrow> status r = Rejected) \<and>
     (cancelled_at r \<noteq> None \<longleftrightarrow> status r = Cancelled) \<and> (failed_at r \<noteq> None \<longleftrightarrow> status r = Failed) \<and>
     (last_error_code r \<noteq> None \<longleftrightarrow> status r \<in> {Rejected, Expired, Cancelled, Failed}) \<and>
     (last_error_message r \<noteq> None \<longleftrightarrow> status r \<in> {Rejected, Expired, Cancelled, Failed})"

definition request_wf :: "RequestRecord \<Rightarrow> bool" where
  "request_wf r \<longleftrightarrow> leases_match r \<and> result_match r \<and> stamps_match r \<and>
     payload_result_kind (payload r) = expected_result_kind (kind r) \<and> created_at r \<le> expires_at r"

definition fresh_request :: "RequestRecord \<Rightarrow> bool" where
  "fresh_request r \<longleftrightarrow>
     status r = Created \<and> result r = None \<and> created_at r \<le> expires_at r \<and> updated_at r = created_at r \<and>
     payload_result_kind (payload r) = expected_result_kind (kind r) \<and>
     approved_at r = None \<and> rejected_at r = None \<and> cancelled_at r = None \<and> failed_at r = None \<and>
     result_expires_at r = None \<and> last_error_code r = None \<and> last_error_message r = None \<and>
     reject_reason_code r = None \<and> delivery_lease r = None \<and> presentation r = None"

lemmas wf_defs = request_wf_def leases_match_def result_match_def stamps_match_def

lemma fresh_request_wf: "fresh_request r \<Longrightarrow> request_wf r"
  by (simp add: fresh_request_def wf_defs)

lemma request_step_identity: "request_step r r' \<Longrightarrow> same_identity r r'"
  by (induction rule: request_step.induct) (simp_all add: same_identity_def)

lemma request_step_status:
  "request_step r r' \<Longrightarrow> status r' = status r \<or> can_transition_to (status r) (status r')"
  by (induction rule: request_step.induct) (auto elim: nonterminal_cases)

lemma nonterminal_result: "request_wf r \<Longrightarrow> status r \<noteq> Approved \<Longrightarrow> result r = None \<and> result_expires_at r = None"
  by (auto simp: wf_defs split: option.splits)

lemma request_step_leases: "request_step r r' \<Longrightarrow> request_wf r \<Longrightarrow> leases_match r'"
  by (induction rule: request_step.induct) (auto simp: wf_defs)

lemma request_step_result: "request_step r r' \<Longrightarrow> request_wf r \<Longrightarrow> result_match r'"
  by (induction rule: request_step.induct) (auto simp: wf_defs split: option.splits)

lemma request_step_stamps:
  assumes "request_step r r'" "request_wf r" shows "stamps_match r'"
  using assms
  by (cases rule: request_step.cases; cases "status r")
    (simp_all add: request_wf_def stamps_match_def, auto)

lemma request_step_wf: "request_step r r' \<Longrightarrow> request_wf r \<Longrightarrow> request_wf r'"
  using request_step_leases [of r r'] request_step_result [of r r'] request_step_stamps [of r r']
    request_step_identity [of r r']
  by (simp add: request_wf_def same_identity_def)

text \<open>A terminal record only ever loses its retained result.\<close>

definition evicted :: "RequestRecord \<Rightarrow> RequestRecord" where
  "evicted r = r\<lparr>result := None, result_expires_at := None\<rparr>"

lemma request_step_live: "request_step r r' \<Longrightarrow> \<not> is_terminal (status r) \<or> r' = evicted r"
  by (induction rule: request_step.induct) ((rule disjI1, force)+, simp only: evicted_def simp_thms)

lemma request_step_terminal: "request_step r r' \<Longrightarrow> is_terminal (status r) \<Longrightarrow> r' = evicted r"
  using request_step_live by blast

text \<open>An approval happens only from a live presentation and stores the result.\<close>

inductive_cases request_stepE: "request_step r r'"

lemma approval_step:
  assumes "request_step r r'" "status r' = Approved" "status r \<noteq> Approved"
  obtains p x t where "status r = PendingUserApproval" "presentation r = Some p"
    "approved_at r' = Some t" "t < presentation_expires_at p" "result r' = Some x"
    "result_kind x = expected_result_kind (kind r)"
  using assms by (auto elim!: request_stepE)

section \<open>Reachability of one request\<close>

abbreviation request_steps :: "RequestRecord \<Rightarrow> RequestRecord \<Rightarrow> bool" where
  "request_steps \<equiv> request_step\<^sup>*\<^sup>*"

lemma request_steps_identity: "request_steps r r' \<Longrightarrow> same_identity r r'"
proof (induction rule: rtranclp_induct)
  case base
  show ?case by (simp add: same_identity_def)
next
  case (step r' r'')
  then show ?case using request_step_identity [of r' r''] by (simp add: same_identity_def)
qed

lemma request_steps_wf: "request_steps r r' \<Longrightarrow> request_wf r \<Longrightarrow> request_wf r'"
  by (induction rule: rtranclp_induct) (auto dest: request_step_wf)

lemma request_steps_status: "request_steps r r' \<Longrightarrow> can_transition_to\<^sup>*\<^sup>* (status r) (status r')"
proof (induction rule: rtranclp_induct)
  case base
  show ?case by simp
next
  case (step r' r'')
  from request_step_status [OF step.hyps(2)] step.IH show ?case
    by (auto intro: rtranclp.rtrancl_into_rtrancl)
qed

lemma request_steps_terminal:
  "request_steps r r' \<Longrightarrow> is_terminal (status r) \<Longrightarrow> r' = r \<or> r' = evicted r"
proof (induction rule: rtranclp_induct)
  case base
  show ?case by simp
next
  case (step r' r'')
  then have "r' = r \<or> r' = evicted r" "is_terminal (status r')"
    by (auto simp: evicted_def)
  with request_step_terminal [OF step.hyps(2)] show ?case by (auto simp: evicted_def)
qed

section \<open>The table of requests\<close>

type_synonym request_table = "RequestId \<Rightarrow> RequestRecord option"

inductive table_step :: "request_table \<Rightarrow> request_table \<Rightarrow> bool" where
  insert_fresh: "m (request_id r) = None \<Longrightarrow> fresh_request r \<Longrightarrow>
    (\<And>k r'. m k = Some r' \<Longrightarrow> client_request_id r' \<noteq> client_request_id r) \<Longrightarrow>
    table_step m (m(request_id r \<mapsto> r))"
| move: "m k = Some r \<Longrightarrow> request_step r r' \<Longrightarrow> table_step m (m(k \<mapsto> r'))"

abbreviation table_steps :: "request_table \<Rightarrow> request_table \<Rightarrow> bool" where
  "table_steps \<equiv> table_step\<^sup>*\<^sup>*"

definition table_ok :: "request_table \<Rightarrow> bool" where
  "table_ok m \<longleftrightarrow>
     (\<forall>k r. m k = Some r \<longrightarrow> request_id r = k \<and> request_wf r) \<and>
     (\<forall>k k' r r'. m k = Some r \<longrightarrow> m k' = Some r' \<longrightarrow> client_request_id r = client_request_id r' \<longrightarrow> k = k')"

lemma table_okD:
  assumes "table_ok m" "m k = Some r" shows "request_id r = k" "request_wf r"
  using assms by (auto simp: table_ok_def)

lemma table_step_ok: "table_step m m' \<Longrightarrow> table_ok m \<Longrightarrow> table_ok m'"
proof (induction rule: table_step.induct)
  case (insert_fresh m r)
  then show ?case by (fastforce simp: table_ok_def fresh_request_wf split: if_splits)
next
  case (move m k r r')
  then have "request_wf r'" "same_identity r r'"
    by (auto intro: request_step_wf request_step_identity dest: table_okD)
  with move show ?case unfolding table_ok_def same_identity_def by (auto split: if_splits)
qed

lemma table_steps_ok: "table_steps m m' \<Longrightarrow> table_ok m \<Longrightarrow> table_ok m'"
  by (induction rule: rtranclp_induct) (auto dest: table_step_ok)

lemma table_step_entry: "table_step m m' \<Longrightarrow> m k = Some r \<Longrightarrow> \<exists>r'. m' k = Some r' \<and> request_steps r r'"
  by (induction rule: table_step.induct) auto

lemma table_steps_entry: "table_steps m m' \<Longrightarrow> m k = Some r \<Longrightarrow> \<exists>r'. m' k = Some r' \<and> request_steps r r'"
proof (induction rule: rtranclp_induct)
  case base
  then show ?case by simp
next
  case (step m' m'')
  then obtain r' where r': "m' k = Some r'" "request_steps r r'" by blast
  with table_step_entry [OF step.hyps(2) r'(1)] show ?case
    by (auto intro: rtranclp_trans)
qed

lemma table_step_new: "table_step m m' \<Longrightarrow> m k = None \<Longrightarrow> m' k = Some r \<Longrightarrow> fresh_request r"
  by (induction rule: table_step.induct) (auto split: if_splits)

lemma table_ok_empty [simp]: "table_ok Map.empty"
  by (simp add: table_ok_def)

section \<open>Quiet steps\<close>

text \<open>
  The steps that approve nothing. Every handler but one is shown to take quiet steps only, so that
  an approval can be traced to that one.
\<close>

definition quiet_step :: "RequestRecord \<Rightarrow> RequestRecord \<Rightarrow> bool" where
  "quiet_step r r' \<longleftrightarrow> request_step r r' \<and> (status r' = Approved \<longrightarrow> status r = Approved)"

inductive quiet_table_step :: "request_table \<Rightarrow> request_table \<Rightarrow> bool" where
  quiet_insert: "m (request_id r) = None \<Longrightarrow> fresh_request r \<Longrightarrow>
    (\<And>k r'. m k = Some r' \<Longrightarrow> client_request_id r' \<noteq> client_request_id r) \<Longrightarrow>
    quiet_table_step m (m(request_id r \<mapsto> r))"
| quiet_move: "m k = Some r \<Longrightarrow> quiet_step r r' \<Longrightarrow> quiet_table_step m (m(k \<mapsto> r'))"

abbreviation quiet_table_steps :: "request_table \<Rightarrow> request_table \<Rightarrow> bool" where
  "quiet_table_steps \<equiv> quiet_table_step\<^sup>*\<^sup>*"

lemma quiet_table_step_table: "quiet_table_step m m' \<Longrightarrow> table_step m m'"
  by (induction rule: quiet_table_step.induct) (simp_all add: quiet_step_def table_step.intros del: fun_upd_apply)

lemma quiet_table_steps_table: "quiet_table_steps m m' \<Longrightarrow> table_steps m m'"
  by (induction rule: rtranclp_induct) (auto intro: rtranclp.rtrancl_into_rtrancl quiet_table_step_table)

lemma quiet_table_step_approved:
  "quiet_table_step m m' \<Longrightarrow> m' k = Some r' \<Longrightarrow> status r' = Approved \<Longrightarrow> \<exists>r. m k = Some r \<and> status r = Approved"
  by (induction rule: quiet_table_step.induct) (auto simp: quiet_step_def fresh_request_def split: if_splits)

lemma quiet_table_steps_approved:
  "quiet_table_steps m m' \<Longrightarrow> m' k = Some r' \<Longrightarrow> status r' = Approved \<Longrightarrow> \<exists>r. m k = Some r \<and> status r = Approved"
proof (induction arbitrary: r' rule: rtranclp_induct)
  case (step m' m'')
  with quiet_table_step_approved [OF step.hyps(2)] show ?case by blast
qed simp

end
