(* ===== verification/Store_Interface.thy ===== *)
theory Store_Interface
  imports Lifecycle
begin

text \<open>
  The repository traits of \<open>starmask-core/src/repo.rs\<close>. A trait is the record of its methods
  (\<open>Store\<close>), so the coordinator takes an implementation as an argument, as the Rust type
  parameter \<open>S: Store\<close>. What an implementation promises is stated as locales over an abstract
  view of its state: the table of requests, the wallet instances and their accounts. Every law
  allows a method to fail; a failed method leaves the view as it was.
\<close>

section \<open>The traits\<close>

type_synonym ('s, 'a) repo = "('s, RepositoryError, 'a) fallible"

record 's Store =
  get_request :: "RequestId \<Rightarrow> ('s, RequestRecord option) repo"
  get_request_by_client_request_id :: "ClientRequestId \<Rightarrow> ('s, RequestRecord option) repo"
  insert_request :: "RequestRecord \<Rightarrow> ('s, RequestRecord) repo"
  update_request :: "RequestRecord \<Rightarrow> ('s, RequestRecord) repo"
  claim_next_request_for_wallet ::
    "WalletInstanceId \<Rightarrow> DeliveryLease \<Rightarrow> TimestampMs \<Rightarrow> ('s, RequestRecord option) repo"
  list_non_terminal_requests :: "('s, RequestRecord list) repo"
  list_terminal_requests_with_expired_results :: "TimestampMs \<Rightarrow> ('s, RequestRecord list) repo"
  get_wallet_instance :: "WalletInstanceId \<Rightarrow> ('s, WalletInstanceRecord option) repo"
  upsert_wallet_instance :: "WalletInstanceRecord \<Rightarrow> ('s, unit) repo"
  list_wallet_instances :: "bool \<Rightarrow> ('s, WalletInstanceRecord list) repo"
  replace_wallet_accounts :: "WalletInstanceId \<Rightarrow> WalletAccountRecord list \<Rightarrow> ('s, unit) repo"
  list_wallet_accounts :: "WalletInstanceId option \<Rightarrow> ('s, WalletAccountRecord list) repo"
  get_wallet_account :: "WalletInstanceId \<Rightarrow> string \<Rightarrow> ('s, WalletAccountRecord option) repo"
  set_wallet_account_label :: "WalletInstanceId \<Rightarrow> string \<Rightarrow> string \<Rightarrow> ('s, WalletAccountRecord) repo"

section \<open>The abstract view\<close>

record 's StoreView =
  v_inv :: "'s \<Rightarrow> bool"
  v_reqs :: "'s \<Rightarrow> request_table"
  v_insts :: "'s \<Rightarrow> WalletInstanceId \<Rightarrow> WalletInstanceRecord option"
  v_accts :: "'s \<Rightarrow> WalletInstanceId \<Rightarrow> string \<Rightarrow> WalletAccountRecord option"

definition wallets_kept :: "'s StoreView \<Rightarrow> 's \<Rightarrow> 's \<Rightarrow> bool" where
  "wallets_kept V s s' \<longleftrightarrow> v_insts V s' = v_insts V s \<and> v_accts V s' = v_accts V s"

definition unchanged :: "'s StoreView \<Rightarrow> 's \<Rightarrow> 's \<Rightarrow> bool" where
  "unchanged V s s' \<longleftrightarrow> v_inv V s' \<and> v_reqs V s' = v_reqs V s \<and> wallets_kept V s s'"

text \<open>The identifiers of a record are valid, as their newtypes guarantee.\<close>

definition ids_ok :: "RequestRecord \<Rightarrow> bool" where
  "ids_ok r \<longleftrightarrow>
     nonblank (request_id r) \<and> nonblank (client_request_id r) \<and> nonblank (wallet_instance_id r) \<and>
     nonblank (payload_hash r) \<and>
     (case delivery_lease r of None \<Rightarrow> True | Some l \<Rightarrow> nonblank (delivery_lease_id l)) \<and>
     (case presentation r of None \<Rightarrow> True | Some p \<Rightarrow> nonblank (presentation_id p))"

section \<open>The contracts\<close>

locale request_repository =
  fixes S :: "'s Store" and V :: "'s StoreView"
  assumes stored_request: "v_inv V s \<Longrightarrow> v_reqs V s k = Some r \<Longrightarrow> request_id r = k \<and> ids_ok r"
    and stored_client_unique: "v_inv V s \<Longrightarrow> v_reqs V s k = Some r \<Longrightarrow> v_reqs V s k' = Some r' \<Longrightarrow>
      client_request_id r = client_request_id r' \<Longrightarrow> k = k'"
    and get_request_law: "v_inv V s \<Longrightarrow> get_request S k s = (res1, s') \<Longrightarrow>
      unchanged V s s' \<and> (\<forall>x. res1 = Inr x \<longrightarrow> x = v_reqs V s k)"
    and get_by_client_law: "v_inv V s \<Longrightarrow> get_request_by_client_request_id S c s = (res2, s') \<Longrightarrow>
      unchanged V s s' \<and>
      (\<forall>r. res2 = Inr (Some r) \<longrightarrow> v_reqs V s (request_id r) = Some r \<and> client_request_id r = c) \<and>
      (res2 = Inr None \<longrightarrow> (\<forall>k r. v_reqs V s k = Some r \<longrightarrow> client_request_id r \<noteq> c))"
    and insert_law: "v_inv V s \<Longrightarrow> ids_ok r \<Longrightarrow> insert_request S r s = (res3, s') \<Longrightarrow>
      (case res3 of Inl _ \<Rightarrow> unchanged V s s'
       | Inr r' \<Rightarrow> r' = r \<and> v_inv V s' \<and> v_reqs V s (request_id r) = None \<and>
           (\<forall>k r'. v_reqs V s k = Some r' \<longrightarrow> client_request_id r' \<noteq> client_request_id r) \<and>
           v_reqs V s' = (v_reqs V s)(request_id r \<mapsto> r) \<and> wallets_kept V s s')"
    and update_law: "v_inv V s \<Longrightarrow> ids_ok r \<Longrightarrow> v_reqs V s (request_id r) = Some r0 \<Longrightarrow>
      client_request_id r = client_request_id r0 \<Longrightarrow> update_request S r s = (res4, s') \<Longrightarrow>
      (case res4 of Inl _ \<Rightarrow> unchanged V s s'
       | Inr r' \<Rightarrow> r' = r \<and> v_inv V s' \<and> v_reqs V s' = (v_reqs V s)(request_id r \<mapsto> r) \<and>
           wallets_kept V s s')"
    and claim_law: "v_inv V s \<Longrightarrow> nonblank (delivery_lease_id l) \<Longrightarrow>
      claim_next_request_for_wallet S w l t s = (res5, s') \<Longrightarrow>
      (case res5 of Inl _ \<Rightarrow> unchanged V s s'
       | Inr None \<Rightarrow> unchanged V s s' \<and>
           (\<forall>k r. v_reqs V s k = Some r \<longrightarrow> wallet_instance_id r = w \<longrightarrow> status r \<noteq> Created)
       | Inr (Some r') \<Rightarrow> v_inv V s' \<and> wallets_kept V s s' \<and>
           v_reqs V s' = (v_reqs V s)(request_id r' \<mapsto> r') \<and>
           (\<exists>r. v_reqs V s (request_id r') = Some r \<and> wallet_instance_id r = w \<and> status r = Created \<and>
              (\<forall>k r2. v_reqs V s k = Some r2 \<longrightarrow> wallet_instance_id r2 = w \<longrightarrow> status r2 = Created \<longrightarrow>
                 created_at r \<le> created_at r2) \<and>
              r' = r\<lparr>status := Dispatched, updated_at := t, delivery_lease := Some l\<rparr>))"
    and list_non_terminal_law: "v_inv V s \<Longrightarrow> list_non_terminal_requests S s = (res6, s') \<Longrightarrow>
      unchanged V s s' \<and>
      (\<forall>xs. res6 = Inr xs \<longrightarrow> distinct (map request_id xs) \<and> sorted (map created_at xs) \<and>
         set xs = {r. v_reqs V s (request_id r) = Some r \<and> \<not> is_terminal (status r)})"
    and list_expired_results_law: "v_inv V s \<Longrightarrow>
      list_terminal_requests_with_expired_results S t s = (res7, s') \<Longrightarrow>
      unchanged V s s' \<and>
      (\<forall>xs. res7 = Inr xs \<longrightarrow> distinct (map request_id xs) \<and>
         set xs = {r. v_reqs V s (request_id r) = Some r \<and> (\<exists>e. result_expires_at r = Some e \<and> e \<le> t)})"

locale wallet_repository =
  fixes S :: "'s Store" and V :: "'s StoreView"
  assumes stored_instance: "v_inv V s \<Longrightarrow> v_insts V s w = Some i \<Longrightarrow> wi_wallet_instance_id i = w \<and> nonblank w"
    and stored_account: "v_inv V s \<Longrightarrow> v_accts V s w a = Some acc \<Longrightarrow>
      wa_wallet_instance_id acc = w \<and> wa_address acc = a \<and> v_insts V s w \<noteq> None"
    and get_instance_law: "v_inv V s \<Longrightarrow> get_wallet_instance S w s = (res8, s') \<Longrightarrow>
      unchanged V s s' \<and> (\<forall>x. res8 = Inr x \<longrightarrow> x = v_insts V s w)"
    and upsert_law: "v_inv V s \<Longrightarrow> nonblank (wi_wallet_instance_id i) \<Longrightarrow> upsert_wallet_instance S i s = (res9, s') \<Longrightarrow>
      (case res9 of Inl _ \<Rightarrow> unchanged V s s'
       | Inr _ \<Rightarrow> v_inv V s' \<and> v_reqs V s' = v_reqs V s \<and> v_accts V s' = v_accts V s \<and>
           v_insts V s' = (v_insts V s)(wi_wallet_instance_id i \<mapsto> i))"
    and list_instances_law: "v_inv V s \<Longrightarrow> list_wallet_instances S c s = (res10, s') \<Longrightarrow>
      unchanged V s s' \<and>
      (\<forall>xs. res10 = Inr xs \<longrightarrow> distinct (map wi_wallet_instance_id xs) \<and>
         sorted (rev (map wi_last_seen_at xs)) \<and>
         set xs = {i. v_insts V s (wi_wallet_instance_id i) = Some i \<and> (c \<longrightarrow> wi_connected i)})"
    and replace_accounts_law: "v_inv V s \<Longrightarrow> replace_wallet_accounts S w as s = (resRa, s') \<Longrightarrow>
      (case resRa of Inl _ \<Rightarrow> unchanged V s s'
       | Inr _ \<Rightarrow> v_inv V s' \<and> v_reqs V s' = v_reqs V s \<and> v_insts V s' = v_insts V s)"
    and replace_accounts_effect: "v_inv V s \<Longrightarrow> (\<forall>acc \<in> set as. wa_wallet_instance_id acc = w) \<Longrightarrow>
      replace_wallet_accounts S w as s = (Inr (), s') \<Longrightarrow>
      (\<forall>w'. w' \<noteq> w \<longrightarrow> v_accts V s' w' = v_accts V s w') \<and>
      (\<forall>a. v_accts V s' w a = None \<longleftrightarrow> a \<notin> wa_address ` set as) \<and>
      (\<forall>acc \<in> set as. \<exists>l. v_accts V s' w (wa_address acc) = Some (acc\<lparr>wa_label := l\<rparr>))"
    and list_accounts_law: "v_inv V s \<Longrightarrow> list_wallet_accounts S wo s = (res12, s') \<Longrightarrow>
      unchanged V s s' \<and>
      (\<forall>xs. res12 = Inr xs \<longrightarrow>
         set xs = {acc. v_accts V s (wa_wallet_instance_id acc) (wa_address acc) = Some acc \<and>
                        (wo = None \<or> wo = Some (wa_wallet_instance_id acc))})"
    and get_account_law: "v_inv V s \<Longrightarrow> get_wallet_account S w a s = (res13, s') \<Longrightarrow>
      unchanged V s s' \<and> (\<forall>x. res13 = Inr x \<longrightarrow> x = v_accts V s w a)"
    and set_label_law: "v_inv V s \<Longrightarrow> set_wallet_account_label S w a l s = (res14, s') \<Longrightarrow>
      (case res14 of Inl _ \<Rightarrow> unchanged V s s'
       | Inr acc \<Rightarrow> v_inv V s' \<and> v_reqs V s' = v_reqs V s \<and> v_insts V s' = v_insts V s \<and>
           (\<exists>acc0. v_accts V s w a = Some acc0 \<and> acc = acc0\<lparr>wa_label := Some (trim l)\<rparr>) \<and>
           v_accts V s' = (v_accts V s)(w := (v_accts V s w)(a \<mapsto> acc)))"

text \<open>\<open>trait Store: RequestRepository + WalletRepository\<close>.\<close>

locale store_contract = request_repository S V + wallet_repository S V
  for S :: "'s Store" and V :: "'s StoreView"

end
