(* ===== verification/Sqlite_Store.thy ===== *)
theory Sqlite_Store
  imports Account_Labels Store_Interface
begin

text \<open>
  The SQLite implementation of the repository traits (\<open>starmaskd/src/sqlite_store.rs\<close>): reading and
  writing rows, one definition per trait method, and the trait record \<open>SqliteStore\<close> the coordinator
  is given.
\<close>

section \<open>Reading rows\<close>

definition read_id :: "string \<Rightarrow> string \<Rightarrow> SqlFailure + string" where
  "read_id name value =
     (case id_try_from name value of
        Inl e \<Rightarrow> Inl (ConversionFailure (IdValidationError_to_string e)) | Inr v \<Rightarrow> Inr v)"

definition read_enum :: "('a \<Rightarrow> string) \<Rightarrow> 'a list \<Rightarrow> string \<Rightarrow> SqlFailure + 'a" where
  "read_enum name variants s =
     (case decode_string_enum name variants s of None \<Rightarrow> Inl (UnknownVariant s) | Some x \<Rightarrow> Inr x)"

definition decode_json :: "('j \<Rightarrow> string + 'a) \<Rightarrow> 'j \<Rightarrow> SqlFailure + 'a" where
  "decode_json from_json j = (case from_json j of Inl e \<Rightarrow> Inl (ConversionFailure e) | Inr x \<Rightarrow> Inr x)"

definition read_lease :: "string option \<Rightarrow> int option \<Rightarrow> SqlFailure + DeliveryLease option" where
  "read_lease lid expires =
     (case (lid, expires) of
        (Some l, Some e) \<Rightarrow> and_then (read_id ''DeliveryLeaseId'' l) (\<lambda>l'.
          Inr (Some \<lparr>delivery_lease_id = l', delivery_lease_expires_at = e\<rparr>))
      | _ \<Rightarrow> Inr None)"

definition read_presentation :: "string option \<Rightarrow> int option \<Rightarrow> SqlFailure + PresentationLease option" where
  "read_presentation pid expires =
     (case (pid, expires) of
        (Some p, Some e) \<Rightarrow> and_then (read_id ''PresentationId'' p) (\<lambda>p'.
          Inr (Some \<lparr>presentation_id = p', presentation_expires_at = e\<rparr>))
      | _ \<Rightarrow> Inr None)"

definition read_request :: "'j Env \<Rightarrow> 'j RequestRow \<Rightarrow> SqlFailure + RequestRecord" where
  "read_request env row =
     and_then (read_id ''RequestId'' (rq_request_id row)) (\<lambda>rid.
     and_then (read_id ''ClientRequestId'' (rq_client_request_id row)) (\<lambda>cid.
     and_then (read_enum RequestKind_name RequestKind_variants (rq_kind row)) (\<lambda>k.
     and_then (read_enum RequestStatus_name RequestStatus_variants (rq_status row)) (\<lambda>s.
     and_then (read_id ''WalletInstanceId'' (rq_wallet_instance_id row)) (\<lambda>w.
     and_then (read_id ''PayloadHash'' (rq_payload_hash row)) (\<lambda>h.
     and_then (decode_json (payload_from_json env) (rq_payload_json row)) (\<lambda>p.
     and_then (transpose_opt (decode_json (result_from_json env)) (rq_result_json row)) (\<lambda>res.
     and_then (transpose_opt (read_enum SharedErrorCode_name SharedErrorCode_variants) (rq_last_error_code row)) (\<lambda>ec.
     and_then (transpose_opt (read_enum RejectReasonCode_name RejectReasonCode_variants) (rq_reject_reason_code row)) (\<lambda>rc.
     and_then (read_lease (rq_delivery_lease_id row) (rq_delivery_lease_expires_at row)) (\<lambda>l.
     and_then (read_presentation (rq_presentation_id row) (rq_presentation_expires_at row)) (\<lambda>pr.
     Inr \<lparr>request_id = rid, client_request_id = cid, kind = k, status = s, wallet_instance_id = w,
          account_address = rq_account_address row, payload_hash = h, payload = p, result = res,
          created_at = rq_created_at row, expires_at = rq_expires_at row, updated_at = rq_updated_at row,
          approved_at = rq_approved_at row, rejected_at = rq_rejected_at row,
          cancelled_at = rq_cancelled_at row, failed_at = rq_failed_at row,
          result_expires_at = rq_result_expires_at row, last_error_code = ec,
          last_error_message = rq_last_error_message row, reject_reason_code = rc,
          delivery_lease = l, presentation = pr\<rparr>))))))))))))"

text \<open>\<open>row.get\<close> of a \<open>u32\<close> checks the range of the stored integer.\<close>

definition read_u32 :: "int \<Rightarrow> SqlFailure + u32" where
  "read_u32 v = (if 0 \<le> v \<and> v < 2 ^ 32 then Inr (word_of_int v) else Inl (IntegralValueOutOfRange v))"

definition read_wallet_instance :: "'j Env \<Rightarrow> 'j InstanceRow \<Rightarrow> SqlFailure + WalletInstanceRecord" where
  "read_wallet_instance env row =
     and_then (read_id ''WalletInstanceId'' (iw_wallet_instance_id row)) (\<lambda>w.
     and_then (read_enum BackendKind_name BackendKind_variants (iw_backend_kind row)) (\<lambda>b.
     and_then (read_enum TransportKind_name TransportKind_variants (iw_transport_kind row)) (\<lambda>t.
     and_then (read_enum ApprovalSurface_name ApprovalSurface_variants (iw_approval_surface row)) (\<lambda>s.
     and_then (read_u32 (iw_protocol_version row)) (\<lambda>v.
     and_then (decode_json (capabilities_from_json env) (iw_capabilities_json row)) (\<lambda>cs.
     and_then (decode_json (metadata_from_json env) (iw_backend_metadata_json row)) (\<lambda>md.
     and_then (read_enum LockState_name LockState_variants (iw_lock_state row)) (\<lambda>l.
     Inr \<lparr>wi_wallet_instance_id = w, wi_backend_kind = b, wi_transport_kind = t, wi_approval_surface = s,
          wi_instance_label = iw_instance_label row, wi_extension_id = iw_extension_id row,
          wi_extension_version = iw_extension_version row, wi_protocol_version = v, wi_capabilities = cs,
          wi_backend_metadata = md, wi_profile_hint = iw_profile_hint row, wi_lock_state = l,
          wi_connected = (iw_connected row \<noteq> 0), wi_last_seen_at = iw_last_seen_at row\<rparr>))))))))"

text \<open>The row is one of the joined query: its label is the stored label's, where there is one.\<close>

definition read_wallet_account :: "AccountRow \<Rightarrow> SqlFailure + WalletAccountRecord" where
  "read_wallet_account row =
     and_then (read_id ''WalletInstanceId'' (aw_wallet_instance_id row)) (\<lambda>w.
     Inr \<lparr>wa_wallet_instance_id = w, wa_address = aw_address row, wa_label = aw_label row,
          wa_public_key = aw_public_key row, wa_is_default = (aw_is_default row \<noteq> 0),
          wa_is_read_only = (aw_is_read_only row \<noteq> 0), wa_is_locked = (aw_is_locked row \<noteq> 0),
          wa_last_seen_at = aw_last_seen_at row\<rparr>)"

section \<open>Writing rows\<close>

definition bool_to_int :: "bool \<Rightarrow> int" where
  "bool_to_int b = (if b then 1 else 0)"

definition encode_json :: "('a \<Rightarrow> string + 'j) \<Rightarrow> 'a \<Rightarrow> RepositoryError + 'j" where
  "encode_json to_json x = (case to_json x of Inl e \<Rightarrow> Inl (Storage e) | Inr j \<Rightarrow> Inr j)"

text \<open>The parameters of \<open>write_request\<close>: the row that an insert adds and an update writes.\<close>

definition request_row :: "'j Env \<Rightarrow> RequestRecord \<Rightarrow> RepositoryError + 'j RequestRow" where
  "request_row env r =
     and_then (encode_json (payload_to_json env) (payload r)) (\<lambda>p.
     and_then (transpose_opt (encode_json (result_to_json env)) (result r)) (\<lambda>res.
     Inr \<lparr>rq_request_id = request_id r, rq_client_request_id = client_request_id r,
          rq_kind = RequestKind_name (kind r), rq_status = RequestStatus_name (status r),
          rq_wallet_instance_id = wallet_instance_id r, rq_account_address = account_address r,
          rq_payload_hash = payload_hash r, rq_payload_json = p, rq_result_json = res,
          rq_created_at = created_at r, rq_expires_at = expires_at r, rq_updated_at = updated_at r,
          rq_approved_at = approved_at r, rq_rejected_at = rejected_at r, rq_cancelled_at = cancelled_at r,
          rq_failed_at = failed_at r, rq_result_expires_at = result_expires_at r,
          rq_last_error_code = map_option SharedErrorCode_name (last_error_code r),
          rq_last_error_message = last_error_message r,
          rq_reject_reason_code = map_option RejectReasonCode_name (reject_reason_code r),
          rq_delivery_lease_id = map_option delivery_lease_id (delivery_lease r),
          rq_delivery_lease_expires_at = map_option delivery_lease_expires_at (delivery_lease r),
          rq_presentation_id = map_option presentation_id (presentation r),
          rq_presentation_expires_at = map_option presentation_expires_at (presentation r)\<rparr>))"

definition instance_row :: "'j Env \<Rightarrow> WalletInstanceRecord \<Rightarrow> RepositoryError + 'j InstanceRow" where
  "instance_row env i =
     and_then (encode_json (capabilities_to_json env) (wi_capabilities i)) (\<lambda>cs.
     and_then (encode_json (metadata_to_json env) (wi_backend_metadata i)) (\<lambda>md.
     Inr \<lparr>iw_wallet_instance_id = wi_wallet_instance_id i, iw_backend_kind = BackendKind_name (wi_backend_kind i),
          iw_transport_kind = TransportKind_name (wi_transport_kind i),
          iw_approval_surface = ApprovalSurface_name (wi_approval_surface i),
          iw_instance_label = wi_instance_label i, iw_extension_id = wi_extension_id i,
          iw_extension_version = wi_extension_version i, iw_protocol_version = uint (wi_protocol_version i),
          iw_capabilities_json = cs, iw_backend_metadata_json = md, iw_profile_hint = wi_profile_hint i,
          iw_lock_state = LockState_name (wi_lock_state i), iw_connected = bool_to_int (wi_connected i),
          iw_last_seen_at = wi_last_seen_at i\<rparr>))"

definition account_row :: "WalletAccountRecord \<Rightarrow> AccountRow" where
  "account_row a =
     \<lparr>aw_wallet_instance_id = wa_wallet_instance_id a, aw_address = wa_address a, aw_label = wa_label a,
      aw_public_key = wa_public_key a, aw_is_default = bool_to_int (wa_is_default a),
      aw_is_read_only = bool_to_int (wa_is_read_only a), aw_is_locked = bool_to_int (wa_is_locked a),
      aw_last_seen_at = wa_last_seen_at a\<rparr>"

text \<open>The insert checks the primary key and the unique index; the update the unique index among other rows.\<close>

definition write_request :: "'j Env \<Rightarrow> RequestRecord \<Rightarrow> bool \<Rightarrow> ('j, unit) db" where
  "write_request env r inserting =
     bind (of_result (request_row env r)) (\<lambda>row.
     statement env (\<lambda>c.
       if inserting then
         (if has_key rq_request_id (rq_request_id row) (requests c)
          then (Inl (ConstraintViolation ''UNIQUE constraint failed: requests.request_id''), c)
          else if has_key rq_client_request_id (rq_client_request_id row) (requests c)
          then (Inl (ConstraintViolation ''UNIQUE constraint failed: requests.client_request_id''), c)
          else (Inr (), c\<lparr>requests := requests c @ [row]\<rparr>))
       else
         (if has_key rq_request_id (rq_request_id row) (requests c) \<and>
             list_ex (\<lambda>x. rq_request_id x \<noteq> rq_request_id row \<and> rq_client_request_id x = rq_client_request_id row) (requests c)
          then (Inl (ConstraintViolation ''UNIQUE constraint failed: requests.client_request_id''), c)
          else (Inr (), c\<lparr>requests := update_by rq_request_id (rq_request_id row) (\<lambda>_. row) (requests c)\<rparr>))))"

section \<open>Requests\<close>

definition sqlite_get_request :: "'j Env \<Rightarrow> RequestId \<Rightarrow> ('j, RequestRecord option) db" where
  "sqlite_get_request env k =
     query env (\<lambda>c. transpose_opt (read_request env) (lookup_by rq_request_id k (requests c)))"

definition sqlite_get_request_by_client_request_id ::
  "'j Env \<Rightarrow> ClientRequestId \<Rightarrow> ('j, RequestRecord option) db" where
  "sqlite_get_request_by_client_request_id env cid =
     query env (\<lambda>c. transpose_opt (read_request env) (lookup_by rq_client_request_id cid (requests c)))"

definition sqlite_insert_request :: "'j Env \<Rightarrow> RequestRecord \<Rightarrow> ('j, RequestRecord) db" where
  "sqlite_insert_request env r = bind (write_request env r True) (\<lambda>_. ok r)"

definition sqlite_update_request :: "'j Env \<Rightarrow> RequestRecord \<Rightarrow> ('j, RequestRecord) db" where
  "sqlite_update_request env r = bind (write_request env r False) (\<lambda>_. ok r)"

text \<open>\<open>ORDER BY created_at ASC LIMIT 1\<close> over the scanned rows, then the update and the row read back.\<close>

definition next_created :: "'j Env \<Rightarrow> WalletInstanceId \<Rightarrow> 'j RequestRow list \<Rightarrow> string option" where
  "next_created env w rows =
     (case sort_key rq_created_at (filter (\<lambda>r. rq_wallet_instance_id r = w \<and> rq_status r = ''created'')
             (scan_requests env rows)) of
        [] \<Rightarrow> None | r # _ \<Rightarrow> Some (rq_request_id r))"

definition sqlite_claim_next_request_for_wallet ::
  "'j Env \<Rightarrow> WalletInstanceId \<Rightarrow> DeliveryLease \<Rightarrow> TimestampMs \<Rightarrow> ('j, RequestRecord option) db" where
  "sqlite_claim_next_request_for_wallet env w lease t =
     in_transaction env
       (bind (query env (\<lambda>c. Inr (next_created env w (requests c)))) (\<lambda>found.
        case found of
          None \<Rightarrow> ok None
        | Some k \<Rightarrow>
            bind (statement env (\<lambda>c. (Inr (), c\<lparr>requests := update_by rq_request_id k
                (\<lambda>r. r\<lparr>rq_status := ''dispatched'', rq_updated_at := t,
                       rq_delivery_lease_id := Some (delivery_lease_id lease),
                       rq_delivery_lease_expires_at := Some (delivery_lease_expires_at lease)\<rparr>) (requests c)\<rparr>))) (\<lambda>_.
            bind (query env (\<lambda>c. case lookup_by rq_request_id k (requests c) of
                None \<Rightarrow> Inl QueryReturnedNoRows | Some row \<Rightarrow> read_request env row)) (\<lambda>r.
            ok (Some r)))))"

definition sqlite_list_non_terminal_requests :: "'j Env \<Rightarrow> ('j, RequestRecord list) db" where
  "sqlite_list_non_terminal_requests env =
     query env (\<lambda>c. collect_rows (read_request env)
       (sort_key rq_created_at
         (filter (\<lambda>r. rq_status r \<in> {''created'', ''dispatched'', ''pending_user_approval''})
           (scan_requests env (requests c)))))"

definition sqlite_list_terminal_requests_with_expired_results ::
  "'j Env \<Rightarrow> TimestampMs \<Rightarrow> ('j, RequestRecord list) db" where
  "sqlite_list_terminal_requests_with_expired_results env t =
     query env (\<lambda>c. collect_rows (read_request env)
       (filter (\<lambda>r. case rq_result_expires_at r of None \<Rightarrow> False | Some e \<Rightarrow> e \<le> t)
         (scan_requests env (requests c))))"

section \<open>Wallet instances\<close>

definition sqlite_get_wallet_instance :: "'j Env \<Rightarrow> WalletInstanceId \<Rightarrow> ('j, WalletInstanceRecord option) db" where
  "sqlite_get_wallet_instance env w =
     query env (\<lambda>c. transpose_opt (read_wallet_instance env) (lookup_by iw_wallet_instance_id w (wallet_instances c)))"

definition sqlite_upsert_wallet_instance :: "'j Env \<Rightarrow> WalletInstanceRecord \<Rightarrow> ('j, unit) db" where
  "sqlite_upsert_wallet_instance env i =
     bind (of_result (instance_row env i)) (\<lambda>row.
     statement env (\<lambda>c. (Inr (), c\<lparr>wallet_instances := upsert_by iw_wallet_instance_id row (wallet_instances c)\<rparr>)))"

text \<open>\<open>ORDER BY last_seen_at DESC\<close>.\<close>

definition sqlite_list_wallet_instances :: "'j Env \<Rightarrow> bool \<Rightarrow> ('j, WalletInstanceRecord list) db" where
  "sqlite_list_wallet_instances env connected_only =
     query env (\<lambda>c. collect_rows (read_wallet_instance env)
       (sort_key (\<lambda>r. - iw_last_seen_at r)
         (filter (\<lambda>r. connected_only \<longrightarrow> iw_connected r = 1) (scan_instances env (wallet_instances c)))))"

section \<open>Wallet accounts\<close>

text \<open>The joined rows of \<open>wallet_account_query\<close>, in the order of the accounts table.\<close>

definition label_of :: "LabelRow list \<Rightarrow> AccountRow \<Rightarrow> LabelRow option" where
  "label_of labels a = lookup_by label_key (account_key a) labels"

definition wallet_account_query :: "AccountRow list \<Rightarrow> LabelRow list \<Rightarrow> AccountRow list" where
  "wallet_account_query accounts labels =
     map (\<lambda>a. a\<lparr>aw_label := (case label_of labels a of Some l \<Rightarrow> Some (lb_label l) | None \<Rightarrow> aw_label a)\<rparr>) accounts"

definition account_position :: "LabelRow list \<Rightarrow> AccountRow \<Rightarrow> int" where
  "account_position labels a = (case label_of labels a of Some l \<Rightarrow> lb_account_order l | None \<Rightarrow> i64_MAX)"

text \<open>\<open>ORDER BY [wallet_instance_id,] COALESCE(account_order, MAX), address\<close>: stable sorts from the last key.\<close>

definition sqlite_list_wallet_accounts :: "'j Env \<Rightarrow> WalletInstanceId option \<Rightarrow> ('j, WalletAccountRecord list) db" where
  "sqlite_list_wallet_accounts env wid =
     query env (\<lambda>c.
       let labels = wallet_account_labels c;
           rows = wallet_account_query (wallet_accounts c) labels
       in collect_rows read_wallet_account
            (case wid of
               Some w \<Rightarrow> sort_key (account_position labels) (sort_key aw_address
                           (filter (\<lambda>a. aw_wallet_instance_id a = w) rows))
             | None \<Rightarrow> sort_key aw_wallet_instance_id (sort_key (account_position labels) (sort_key aw_address rows))))"

definition query_wallet_account :: "'j Env \<Rightarrow> WalletInstanceId \<Rightarrow> string \<Rightarrow> ('j, WalletAccountRecord option) db" where
  "query_wallet_account env w address =
     query env (\<lambda>c. transpose_opt read_wallet_account
       (lookup_by account_key (w, address) (wallet_account_query (wallet_accounts c) (wallet_account_labels c))))"

definition sqlite_get_wallet_account ::
  "'j Env \<Rightarrow> WalletInstanceId \<Rightarrow> string \<Rightarrow> ('j, WalletAccountRecord option) db" where
  "sqlite_get_wallet_account env w address = query_wallet_account env w address"

definition insert_account :: "'j Env \<Rightarrow> WalletAccountRecord \<Rightarrow> ('j, unit) db" where
  "insert_account env a =
     statement env (\<lambda>c.
       if has_key account_key (account_key (account_row a)) (wallet_accounts c)
       then (Inl (ConstraintViolation ''UNIQUE constraint failed: wallet_accounts.wallet_instance_id, wallet_accounts.address''), c)
       else if \<not> has_key iw_wallet_instance_id (wa_wallet_instance_id a) (wallet_instances c)
       then (Inl (ConstraintViolation ''FOREIGN KEY constraint failed''), c)
       else (Inr (), c\<lparr>wallet_accounts := wallet_accounts c @ [account_row a]\<rparr>))"

definition sqlite_replace_wallet_accounts ::
  "'j Env \<Rightarrow> WalletInstanceId \<Rightarrow> WalletAccountRecord list \<Rightarrow> ('j, unit) db" where
  "sqlite_replace_wallet_accounts env w accounts =
     in_transaction env
       (bind (is_local_account_wallet env w) (\<lambda>local.
        bind (if local then ensure_local_account_labels env w accounts else ok ()) (\<lambda>_.
        bind (statement env (\<lambda>c. (Inr (), c\<lparr>wallet_accounts :=
                filter (\<lambda>a. aw_wallet_instance_id a \<noteq> w) (wallet_accounts c)\<rparr>))) (\<lambda>_.
        for_each accounts (insert_account env)))))"

definition sqlite_set_wallet_account_label ::
  "'j Env \<Rightarrow> WalletInstanceId \<Rightarrow> string \<Rightarrow> string \<Rightarrow> ('j, WalletAccountRecord) db" where
  "sqlite_set_wallet_account_label env w address label =
     in_transaction env
       (bind (is_local_account_wallet env w) (\<lambda>local.
        if \<not> local
        then err (Storage (''wallet instance '' @ w @ '' does not support daemon-managed account labels''))
        else
          bind (query_wallet_account env w address) (\<lambda>found.
          bind (ok_or found (Storage (''wallet account '' @ w @ '':'' @ address @ '' was not found''))) (\<lambda>account.
          bind (of_result (normalize_account_label label)) (\<lambda>normalized_label.
          bind (existing_account_order env w address) (\<lambda>existing.
          bind (case existing of Some n \<Rightarrow> ok n | None \<Rightarrow> next_account_order env w) (\<lambda>n.
          bind current_timestamp_ms (\<lambda>t.
          bind (upsert_wallet_account_label env w address normalized_label n t) (\<lambda>_.
          ok (account\<lparr>wa_label := Some normalized_label\<rparr>))))))))))"

section \<open>The store\<close>

definition SqliteStore :: "'j Env \<Rightarrow> 'j Connection Store" where
  "SqliteStore env =
     \<lparr>get_request = sqlite_get_request env,
      get_request_by_client_request_id = sqlite_get_request_by_client_request_id env,
      insert_request = sqlite_insert_request env,
      update_request = sqlite_update_request env,
      claim_next_request_for_wallet = sqlite_claim_next_request_for_wallet env,
      list_non_terminal_requests = sqlite_list_non_terminal_requests env,
      list_terminal_requests_with_expired_results = sqlite_list_terminal_requests_with_expired_results env,
      get_wallet_instance = sqlite_get_wallet_instance env,
      upsert_wallet_instance = sqlite_upsert_wallet_instance env,
      list_wallet_instances = sqlite_list_wallet_instances env,
      replace_wallet_accounts = sqlite_replace_wallet_accounts env,
      list_wallet_accounts = sqlite_list_wallet_accounts env,
      get_wallet_account = sqlite_get_wallet_account env,
      set_wallet_account_label = sqlite_set_wallet_account_label env\<rparr>"

end
