(* ===== verification/Sqlite_Requests.thy ===== *)
theory Sqlite_Requests
  imports Sqlite_Store
begin

text \<open>
  The requests table keeps the request half of the store contract: what a connection holds is seen
  through \<open>db_reqs\<close>, a row written from a record reads back as that record, and every trait method
  on requests does to that view what \<open>request_repository\<close> promises.
\<close>

section \<open>The view\<close>

definition decoded :: "'e + 'a \<Rightarrow> 'a option" where
  "decoded r = (case r of Inl _ \<Rightarrow> None | Inr x \<Rightarrow> Some x)"

lemma decoded_simps [simp]: "decoded (Inr x) = Some x" "decoded (Inl e) = None"
  by (simp_all add: decoded_def)

lemma decoded_Some [simp]: "decoded r = Some x \<longleftrightarrow> r = Inr x"
  by (cases r) simp_all

definition db_reqs :: "'j Env \<Rightarrow> 'j Connection \<Rightarrow> request_table" where
  "db_reqs env c k = Option.bind (lookup_by rq_request_id k (requests c)) (\<lambda>row. decoded (read_request env row))"

definition db_insts :: "'j Env \<Rightarrow> 'j Connection \<Rightarrow> WalletInstanceId \<Rightarrow> WalletInstanceRecord option" where
  "db_insts env c w =
     Option.bind (lookup_by iw_wallet_instance_id w (wallet_instances c)) (\<lambda>row. decoded (read_wallet_instance env row))"

definition db_accts :: "'j Env \<Rightarrow> 'j Connection \<Rightarrow> WalletInstanceId \<Rightarrow> string \<Rightarrow> WalletAccountRecord option" where
  "db_accts env c w address =
     Option.bind (lookup_by account_key (w, address) (wallet_account_query (wallet_accounts c) (wallet_account_labels c)))
       (\<lambda>row. decoded (read_wallet_account row))"

text \<open>The invariant of an open database: the declared constraints, and rows that can be read.\<close>

definition requests_ok :: "'j Env \<Rightarrow> 'j RequestRow list \<Rightarrow> bool" where
  "requests_ok env rows \<longleftrightarrow>
     distinct (map rq_request_id rows) \<and> distinct (map rq_client_request_id rows) \<and>
     (\<forall>row \<in> set rows. \<exists>r. read_request env row = Inr r)"

definition instances_ok :: "'j Env \<Rightarrow> 'j InstanceRow list \<Rightarrow> bool" where
  "instances_ok env rows \<longleftrightarrow>
     distinct (map iw_wallet_instance_id rows) \<and>
     (\<forall>row \<in> set rows. (\<exists>i. read_wallet_instance env row = Inr i) \<and> iw_connected row \<in> {0, 1})"

definition accounts_ok :: "'j InstanceRow list \<Rightarrow> AccountRow list \<Rightarrow> bool" where
  "accounts_ok insts rows \<longleftrightarrow>
     distinct (map account_key rows) \<and> aw_wallet_instance_id ` set rows \<subseteq> iw_wallet_instance_id ` set insts"

definition db_inv :: "'j Env \<Rightarrow> 'j Connection \<Rightarrow> bool" where
  "db_inv env c \<longleftrightarrow>
     requests_ok env (requests c) \<and> instances_ok env (wallet_instances c) \<and>
     accounts_ok (wallet_instances c) (wallet_accounts c) \<and> distinct (map label_key (wallet_account_labels c))"

definition sqlite_view :: "'j Env \<Rightarrow> 'j Connection StoreView" where
  "sqlite_view env = \<lparr>v_inv = db_inv env, v_reqs = db_reqs env, v_insts = db_insts env, v_accts = db_accts env\<rparr>"

lemma sqlite_view_simps [simp]:
  "v_inv (sqlite_view env) = db_inv env" "v_reqs (sqlite_view env) = db_reqs env"
  "v_insts (sqlite_view env) = db_insts env" "v_accts (sqlite_view env) = db_accts env"
  by (simp_all add: sqlite_view_def)

lemma same_tables_view:
  assumes "same_tables c c'"
  shows "db_inv env c' = db_inv env c" "db_reqs env c' = db_reqs env c" "db_insts env c' = db_insts env c"
    "db_accts env c' = db_accts env c"
  using assms by (simp_all add: same_tables_def db_inv_def db_reqs_def db_insts_def db_accts_def fun_eq_iff)

lemma same_tables_unchanged: "same_tables c c' \<Longrightarrow> db_inv env c \<Longrightarrow> unchanged (sqlite_view env) c c'"
  by (simp add: unchanged_def wallets_kept_def same_tables_view)

section \<open>Reading back\<close>

lemma read_id_Inr [simp]: "read_id name v = Inr w \<longleftrightarrow> w = v \<and> nonblank v"
  by (auto simp: read_id_def id_try_from_def nonblank_def split: sum.splits)

lemma read_enum_Inr: "read_enum name variants s = Inr x \<longleftrightarrow> decode_string_enum name variants s = Some x"
  by (auto simp: read_enum_def split: option.splits)

lemma decode_json_Inr [simp]: "decode_json f j = Inr x \<longleftrightarrow> f j = Inr x"
  by (auto simp: decode_json_def split: sum.splits)

lemma encode_json_Inr [simp]: "encode_json f x = Inr j \<longleftrightarrow> f x = Inr j"
  by (auto simp: encode_json_def split: sum.splits)

lemma read_lease_Inr: "read_lease lid e = Inr l \<Longrightarrow> (case l of None \<Rightarrow> True | Some x \<Rightarrow> nonblank (delivery_lease_id x))"
  by (auto simp: read_lease_def and_then_eq_Inr split: option.splits)

lemma read_presentation_Inr: "read_presentation pid e = Inr l \<Longrightarrow>
    (case l of None \<Rightarrow> True | Some x \<Rightarrow> nonblank (presentation_id x))"
  by (auto simp: read_presentation_def and_then_eq_Inr split: option.splits)

lemmas enum_reads = read_enum_Inr request_kind.decode_Some request_status.decode_Some lock_state.decode_Some
  backend_kind.decode_Some transport_kind.decode_Some approval_surface.decode_Some reject_reason.decode_Some
  shared_error_code.decode_Some

lemma read_request_fields:
  assumes "read_request env row = Inr r"
  shows "request_id r = rq_request_id row" "client_request_id r = rq_client_request_id row"
    "wallet_instance_id r = rq_wallet_instance_id row" "RequestStatus_name (status r) = rq_status row"
    "created_at r = rq_created_at row" "result_expires_at r = rq_result_expires_at row" "ids_ok r"
  using assms
  by (auto simp: read_request_def and_then_eq_Inr enum_reads ids_ok_def dest: read_lease_Inr read_presentation_Inr)

lemma read_written_request:
  assumes env: "env_ok env" and ids: "ids_ok r" and row: "request_row env r = Inr row"
  shows "read_request env row = Inr r"
proof -
  from row obtain p res where p: "payload_to_json env (payload r) = Inr p"
    and res: "transpose_opt (encode_json (result_to_json env)) (result r) = Inr res"
    and row': "row = \<lparr>rq_request_id = request_id r, rq_client_request_id = client_request_id r,
          rq_kind = RequestKind_name (kind r), rq_status = RequestStatus_name (status r),
          rq_wallet_instance_id = wallet_instance_id r, rq_account_address = account_address r,
          rq_payload_hash = payload_hash r, rq_payload_json = p, rq_result_json = res,
          rq_created_at = created_at r, rq_expires_at = expires_at r, rq_updated_at = updated_at r,
          rq_approved_at = approved_at r, rq_rejected_at = rejected_at r, rq_cancelled_at = cancelled_at r,
          rq_failed_at = failed_at r, rq_result_expires_at = result_expires_at r,
          rq_last_error_code = map_option SharedErrorCode_name (last_error_code r),
          rq_last_error_message = last_error_message r,
          rq_reject_reason_code = map_option RejectReasonCode_name (reject_reason_code r),
          rq_delivery_lease_id = map_option delivery_lease_id (delivery_lease r),
          rq_delivery_lease_expires_at = map_option delivery_lease_expires_at (delivery_lease r),
          rq_presentation_id = map_option presentation_id (presentation r),
          rq_presentation_expires_at = map_option presentation_expires_at (presentation r)\<rparr>"
    by (auto simp: request_row_def and_then_eq_Inr)
  have P: "decode_json (payload_from_json env) p = Inr (payload r)"
    using env p by (simp add: env_ok_def)
  have R: "transpose_opt (decode_json (result_from_json env)) res = Inr (result r)"
    using env res by (auto simp: env_ok_def transpose_opt_eq_Inr split: option.splits)
  have L: "read_lease (map_option delivery_lease_id (delivery_lease r)) (map_option delivery_lease_expires_at (delivery_lease r))
      = Inr (delivery_lease r)"
    using ids by (cases "delivery_lease r") (auto simp: read_lease_def and_then_eq_Inr ids_ok_def)
  have Pr: "read_presentation (map_option presentation_id (presentation r)) (map_option presentation_expires_at (presentation r))
      = Inr (presentation r)"
    using ids by (cases "presentation r") (auto simp: read_presentation_def and_then_eq_Inr ids_ok_def)
  have E: "transpose_opt (read_enum SharedErrorCode_name SharedErrorCode_variants) (map_option SharedErrorCode_name ec) = Inr ec"
      "transpose_opt (read_enum RejectReasonCode_name RejectReasonCode_variants) (map_option RejectReasonCode_name rc) = Inr rc"
    for ec rc by (cases ec; cases rc; simp add: read_enum_def)+
  have I: "read_id n v = Inr v" if "nonblank v" for n v using that by simp
  show ?thesis
    using ids unfolding row' read_request_def ids_ok_def
    by (simp add: P R L Pr E I read_enum_def)
qed

lemma read_claimed_request:
  assumes "read_request env row = Inr r" "nonblank (delivery_lease_id l)"
  shows "read_request env (row\<lparr>rq_status := ''dispatched'', rq_updated_at := t,
      rq_delivery_lease_id := Some (delivery_lease_id l),
      rq_delivery_lease_expires_at := Some (delivery_lease_expires_at l)\<rparr>) =
    Inr (r\<lparr>status := Dispatched, updated_at := t, delivery_lease := Some l\<rparr>)"
proof -
  have "read_enum RequestStatus_name RequestStatus_variants ''dispatched'' = Inr Dispatched"
    using request_status.decode_name [of Dispatched] by (simp add: read_enum_def)
  moreover have "read_lease (Some (delivery_lease_id l)) (Some (delivery_lease_expires_at l)) = Inr (Some l)"
    using assms(2) by (auto simp: read_lease_def and_then_eq_Inr)
  ultimately show ?thesis
    using assms(1) by (auto simp: read_request_def and_then_eq_Inr)
qed

section \<open>Stored requests\<close>

lemma db_invD:
  assumes "db_inv env c"
  shows "requests_ok env (requests c)" "instances_ok env (wallet_instances c)"
    "accounts_ok (wallet_instances c) (wallet_accounts c)" "distinct (map label_key (wallet_account_labels c))"
  using assms by (simp_all add: db_inv_def)

lemma db_reqs_Some:
  assumes "requests_ok env (requests c)"
  shows "db_reqs env c k = Some r \<longleftrightarrow> (\<exists>row \<in> set (requests c). rq_request_id row = k \<and> read_request env row = Inr r)"
  using assms by (auto simp: db_reqs_def requests_ok_def bind_eq_Some_conv lookup_by_Some_iff)

lemma db_reqs_None:
  assumes "requests_ok env (requests c)"
  shows "db_reqs env c k = None \<longleftrightarrow> k \<notin> rq_request_id ` set (requests c)"
proof -
  have "db_reqs env c k = None \<longleftrightarrow> (\<forall>r. db_reqs env c k \<noteq> Some r)" by auto
  also have "\<dots> \<longleftrightarrow> k \<notin> rq_request_id ` set (requests c)"
    using assms by (auto simp: db_reqs_Some requests_ok_def)
  finally show ?thesis .
qed

lemma db_reqs_lookup:
  assumes "requests_ok env (requests c)"
  shows "transpose_opt (read_request env) (lookup_by rq_request_id k (requests c)) = Inr (db_reqs env c k)"
proof (cases "lookup_by rq_request_id k (requests c)")
  case (Some row)
  with assms obtain r where "read_request env row = Inr r"
    using lookup_by_SomeD [OF Some] by (auto simp: requests_ok_def)
  with Some show ?thesis by (simp add: db_reqs_def)
qed (simp add: db_reqs_def)

lemma db_reqs_stored:
  assumes "requests_ok env (requests c)" "db_reqs env c k = Some r"
  shows "request_id r = k" "ids_ok r"
  using assms by (auto simp: db_reqs_Some read_request_fields)

lemma db_reqs_own_key:
  assumes "requests_ok env (requests c)" "row \<in> set (requests c)" "read_request env row = Inr r"
  shows "db_reqs env c (request_id r) = Some r"
  using assms by (auto simp: db_reqs_Some read_request_fields)

text \<open>The rows a query picks by columns are the records the view shows.\<close>

lemma collect_requests:
  assumes ok: "requests_ok env (requests c)" and xs: "collect_rows (read_request env) rows = Inr xs"
    and rows: "set rows = {row \<in> set (requests c). P row}" "distinct (map rq_request_id rows)"
    and P: "\<And>row r. read_request env row = Inr r \<Longrightarrow> P row \<longleftrightarrow> P' r"
  shows "distinct (map request_id xs)" "map created_at xs = map rq_created_at rows"
    "set xs = {r. db_reqs env c (request_id r) = Some r \<and> P' r}"
proof -
  have "map request_id xs = map rq_request_id rows"
    by (rule collect_rows_map [OF _ xs]) (rule read_request_fields)
  with rows(2) show "distinct (map request_id xs)" by simp
  show "map created_at xs = map rq_created_at rows"
    by (rule collect_rows_map [OF _ xs]) (rule read_request_fields)
  show "set xs = {r. db_reqs env c (request_id r) = Some r \<and> P' r}"
    using P by (auto simp: collect_rows_set [OF xs] rows(1) db_reqs_Some [OF ok] read_request_fields)
qed

lemma scan_requests_facts:
  assumes "env_ok env"
  shows "set (scan_requests env rows) = set rows"
    "distinct (map rq_request_id (scan_requests env rows)) = distinct (map rq_request_id rows)"
proof -
  from assms have m: "mset (scan_requests env rows) = mset rows" by (simp add: env_ok_def)
  then show "set (scan_requests env rows) = set rows" by (rule mset_eq_setD)
  from m have "mset (map rq_request_id (scan_requests env rows)) = mset (map rq_request_id rows)" by simp
  then show "distinct (map rq_request_id (scan_requests env rows)) = distinct (map rq_request_id rows)"
    by (rule mset_eq_imp_distinct_iff)
qed

section \<open>The methods on requests\<close>

text \<open>From a weakest precondition to the form of the laws.\<close>

lemma read_lawI:
  assumes "wp m (\<lambda>x c'. unchanged V c c' \<and> P x) (\<lambda>_ c'. unchanged V c c') c" "m c = (res, c')"
  shows "unchanged V c c' \<and> (\<forall>x. res = Inr x \<longrightarrow> P x)"
  using assms by (cases res) (auto simp: wp_def)

lemma write_lawI:
  assumes "wp m Q (\<lambda>_ c'. unchanged V c c') c" "m c = (res, c')"
  shows "case res of Inl _ \<Rightarrow> unchanged V c c' | Inr x \<Rightarrow> Q x c'"
  using assms by (cases res) (auto simp: wp_def)

lemma wp_read_query:
  assumes "db_inv env c" "\<And>x c'. same_tables c c' \<Longrightarrow> f c' = Inr x \<Longrightarrow> P x"
  shows "wp (query env f) (\<lambda>x c'. unchanged (sqlite_view env) c c' \<and> P x) (\<lambda>_ c'. unchanged (sqlite_view env) c c') c"
  using assms by (intro wp_query) (auto intro: same_tables_unchanged)

lemma get_request_law:
  assumes "db_inv env c"
  shows "wp (sqlite_get_request env k) (\<lambda>x c'. unchanged (sqlite_view env) c c' \<and> x = db_reqs env c k)
    (\<lambda>_ c'. unchanged (sqlite_view env) c c') c"
  unfolding sqlite_get_request_def
proof (rule wp_read_query [OF assms])
  fix x c' assume "same_tables c c'"
    and "transpose_opt (read_request env) (lookup_by rq_request_id k (requests c')) = Inr x"
  then show "x = db_reqs env c k"
    using db_reqs_lookup [OF db_invD(1) [OF assms], of k] by (simp add: same_tables_def)
qed

lemma get_by_client_law:
  assumes inv: "db_inv env c"
  shows "wp (sqlite_get_request_by_client_request_id env cid) (\<lambda>x c'. unchanged (sqlite_view env) c c' \<and>
      (\<forall>r. x = Some r \<longrightarrow> db_reqs env c (request_id r) = Some r \<and> client_request_id r = cid) \<and>
      (x = None \<longrightarrow> (\<forall>k r. db_reqs env c k = Some r \<longrightarrow> client_request_id r \<noteq> cid)))
    (\<lambda>_ c'. unchanged (sqlite_view env) c c') c"
  unfolding sqlite_get_request_by_client_request_id_def
proof (rule wp_read_query [OF inv])
  note ok = db_invD(1) [OF inv]
  fix x c' assume "same_tables c c'"
    and x: "transpose_opt (read_request env) (lookup_by rq_client_request_id cid (requests c')) = Inr x"
  then have rows: "requests c' = requests c" by (simp add: same_tables_def)
  show "(\<forall>r. x = Some r \<longrightarrow> db_reqs env c (request_id r) = Some r \<and> client_request_id r = cid) \<and>
      (x = None \<longrightarrow> (\<forall>k r. db_reqs env c k = Some r \<longrightarrow> client_request_id r \<noteq> cid))"
  proof (cases "lookup_by rq_client_request_id cid (requests c)")
    case None
    with x rows show ?thesis
      by (auto simp: lookup_by_None db_reqs_Some [OF ok] read_request_fields)
  next
    case (Some row)
    with x rows obtain r where "read_request env row = Inr r" "x = Some r" by (auto simp: and_then_eq_Inr)
    with lookup_by_SomeD [OF Some] db_reqs_own_key [OF ok, of row r] show ?thesis
      by (auto simp: read_request_fields)
  qed
qed

lemma list_non_terminal_law:
  assumes env: "env_ok env" and inv: "db_inv env c"
  shows "wp (sqlite_list_non_terminal_requests env) (\<lambda>xs c'. unchanged (sqlite_view env) c c' \<and>
      distinct (map request_id xs) \<and> sorted (map created_at xs) \<and>
      set xs = {r. db_reqs env c (request_id r) = Some r \<and> \<not> is_terminal (status r)})
    (\<lambda>_ c'. unchanged (sqlite_view env) c c') c"
  unfolding sqlite_list_non_terminal_requests_def
proof (rule wp_read_query [OF inv])
  note ok = db_invD(1) [OF inv]
  let ?P = "\<lambda>r. rq_status r \<in> {''created'', ''dispatched'', ''pending_user_approval''}"
  let ?rows = "sort_key rq_created_at (filter ?P (scan_requests env (requests c)))"
  fix xs c' assume "same_tables c c'"
    and "collect_rows (read_request env) (sort_key rq_created_at (filter ?P (scan_requests env (requests c')))) = Inr xs"
  then have xs: "collect_rows (read_request env) ?rows = Inr xs" by (simp add: same_tables_def)
  have scan: "set (scan_requests env (requests c)) = set (requests c)"
    "distinct (map rq_request_id (scan_requests env (requests c)))"
    using env ok by (simp_all add: scan_requests_facts requests_ok_def)
  have P: "?P row \<longleftrightarrow> \<not> is_terminal (status r)" if "read_request env row = Inr r" for row r
    using read_request_fields(4) [OF that] by (cases "status r") auto
  have "distinct (map rq_request_id ?rows)" using scan(2) by (simp add: distinct_map_filter distinct_map_sort_key)
  note facts = collect_requests [OF ok xs _ this P]
  have "sorted (map rq_created_at ?rows)" by simp
  with facts scan show "distinct (map request_id xs) \<and> sorted (map created_at xs) \<and>
      set xs = {r. db_reqs env c (request_id r) = Some r \<and> \<not> is_terminal (status r)}" by auto
qed

lemma list_expired_law:
  assumes env: "env_ok env" and inv: "db_inv env c"
  shows "wp (sqlite_list_terminal_requests_with_expired_results env t) (\<lambda>xs c'. unchanged (sqlite_view env) c c' \<and>
      distinct (map request_id xs) \<and>
      set xs = {r. db_reqs env c (request_id r) = Some r \<and> (\<exists>e. result_expires_at r = Some e \<and> e \<le> t)})
    (\<lambda>_ c'. unchanged (sqlite_view env) c c') c"
  unfolding sqlite_list_terminal_requests_with_expired_results_def
proof (rule wp_read_query [OF inv])
  note ok = db_invD(1) [OF inv]
  let ?P = "\<lambda>r. case rq_result_expires_at r of None \<Rightarrow> False | Some e \<Rightarrow> e \<le> t"
  let ?rows = "filter ?P (scan_requests env (requests c))"
  fix xs c' assume "same_tables c c'"
    and "collect_rows (read_request env) (filter ?P (scan_requests env (requests c'))) = Inr xs"
  then have xs: "collect_rows (read_request env) ?rows = Inr xs" by (simp add: same_tables_def)
  have scan: "set (scan_requests env (requests c)) = set (requests c)"
    "distinct (map rq_request_id (scan_requests env (requests c)))"
    using env ok by (simp_all add: scan_requests_facts requests_ok_def)
  have P: "?P row \<longleftrightarrow> (\<exists>e. result_expires_at r = Some e \<and> e \<le> t)" if "read_request env row = Inr r" for row r
    using read_request_fields(6) [OF that] by (auto split: option.splits)
  have "distinct (map rq_request_id ?rows)" using scan(2) by (simp add: distinct_map_filter)
  from collect_requests [OF ok xs _ this P] scan show "distinct (map request_id xs) \<and>
      set xs = {r. db_reqs env c (request_id r) = Some r \<and> (\<exists>e. result_expires_at r = Some e \<and> e \<le> t)}" by auto
qed

text \<open>Writing: what an added and a rewritten row do to the view.\<close>

lemma request_row_ids: "request_row env r = Inr row \<Longrightarrow>
    rq_request_id row = request_id r \<and> rq_client_request_id row = client_request_id r"
  by (auto simp: request_row_def and_then_eq_Inr)

lemma db_inv_requests:
  assumes "db_inv env c" "requests_ok env rows"
  shows "db_inv env (c\<lparr>requests := rows\<rparr>)"
    "wallets_kept (sqlite_view env) c (c\<lparr>requests := rows\<rparr>)"
  using assms by (simp_all add: db_inv_def wallets_kept_def db_insts_def db_accts_def fun_eq_iff)

lemma requests_ok_append:
  assumes "requests_ok env rows" "read_request env row = Inr r"
    "rq_request_id row \<notin> rq_request_id ` set rows" "rq_client_request_id row \<notin> rq_client_request_id ` set rows"
  shows "requests_ok env (rows @ [row])"
  using assms by (auto simp: requests_ok_def)

lemma db_reqs_append:
  assumes "rq_request_id row \<notin> rq_request_id ` set (requests c)" "read_request env row = Inr r"
  shows "db_reqs env (c\<lparr>requests := requests c @ [row]\<rparr>) = (db_reqs env c)(rq_request_id row \<mapsto> r)"
proof
  fix k
  have "lookup_by rq_request_id (rq_request_id row) (requests c) = None" using assms(1) by (simp add: lookup_by_None)
  with assms(2) show "db_reqs env (c\<lparr>requests := requests c @ [row]\<rparr>) k = ((db_reqs env c)(rq_request_id row \<mapsto> r)) k"
    by (auto simp: db_reqs_def lookup_by_append split: option.splits)
qed

text \<open>A row that changes in place and keeps both its keys.\<close>

lemma requests_ok_update:
  assumes "requests_ok env rows"
    "\<And>row. row \<in> set rows \<Longrightarrow> rq_request_id row = k \<Longrightarrow>
      rq_request_id (f row) = k \<and> rq_client_request_id (f row) = rq_client_request_id row \<and> (\<exists>r. read_request env (f row) = Inr r)"
  shows "requests_ok env (update_by rq_request_id k f rows)"
proof -
  have "map rq_request_id (update_by rq_request_id k f rows) = map rq_request_id rows"
    "map rq_client_request_id (update_by rq_request_id k f rows) = map rq_client_request_id rows"
    using assms(2) by (auto intro!: map_update_by)
  with assms show ?thesis by (auto simp: requests_ok_def dest: set_update_byD)
qed

lemma db_reqs_update:
  assumes "requests_ok env (requests c)" "row \<in> set (requests c)" "rq_request_id row = k"
    "rq_request_id (f row) = k" "read_request env (f row) = Inr r"
  shows "db_reqs env (c\<lparr>requests := update_by rq_request_id k f (requests c)\<rparr>) = (db_reqs env c)(k \<mapsto> r)"
proof
  fix k'
  have "update_by rq_request_id k f (requests c) = update_by rq_request_id k (\<lambda>_. f row) (requests c)"
    using assms(1-3) by (auto simp: update_by_def requests_ok_def dest: distinct_map_same)
  moreover have "lookup_by rq_request_id k (requests c) = Some row"
    using assms(1-3) by (simp add: requests_ok_def lookup_by_Some_iff)
  ultimately show "db_reqs env (c\<lparr>requests := update_by rq_request_id k f (requests c)\<rparr>) k' = ((db_reqs env c)(k \<mapsto> r)) k'"
    using assms(4,5) by (auto simp: db_reqs_def lookup_by_const)
qed

lemma insert_request_law:
  assumes env: "env_ok env" and inv: "db_inv env c" and ids: "ids_ok r"
  shows "wp (sqlite_insert_request env r) (\<lambda>r' c'. r' = r \<and> db_inv env c' \<and> db_reqs env c (request_id r) = None \<and>
      (\<forall>k r'. db_reqs env c k = Some r' \<longrightarrow> client_request_id r' \<noteq> client_request_id r) \<and>
      db_reqs env c' = (db_reqs env c)(request_id r \<mapsto> r) \<and> wallets_kept (sqlite_view env) c c')
    (\<lambda>_ c'. unchanged (sqlite_view env) c c') c"
proof -
  note ok = db_invD(1) [OF inv]
  have "r = r \<and> db_inv env c2 \<and> db_reqs env c (request_id r) = None \<and>
      (\<forall>k r'. db_reqs env c k = Some r' \<longrightarrow> client_request_id r' \<noteq> client_request_id r) \<and>
      db_reqs env c2 = (db_reqs env c)(request_id r \<mapsto> r) \<and> wallets_kept (sqlite_view env) c c2"
    if "request_row env r = Inr row" "same_tables c c1" "c2 = c1\<lparr>requests := requests c1 @ [row]\<rparr>"
      "\<not> has_key rq_request_id (rq_request_id row) (requests c1)"
      "\<not> has_key rq_client_request_id (rq_client_request_id row) (requests c1)" for row c1 c2
  proof -
    note ids' = request_row_ids [OF that(1)] and read = read_written_request [OF env ids that(1)]
    have inv1: "db_inv env c1" "requests c1 = requests c" and view: "db_reqs env c1 = db_reqs env c"
      "wallets_kept (sqlite_view env) c c1"
      using inv that(2) by (simp_all add: same_tables_view wallets_kept_def) (simp add: same_tables_def)
    have new: "request_id r \<notin> rq_request_id ` set (requests c)"
      "client_request_id r \<notin> rq_client_request_id ` set (requests c)"
      using that(4,5) ids' inv1(2) by (simp_all add: has_key_iff)
    have "requests_ok env (requests c1 @ [row])"
      by (rule requests_ok_append [OF _ read]) (use ok new ids' inv1(2) in simp_all)
    note inv2 = db_inv_requests [OF inv1(1) this]
    have "db_reqs env c2 = (db_reqs env c)(request_id r \<mapsto> r)"
      using db_reqs_append [of row c1 env r, OF _ read] new ids' inv1(2) view(1) that(3) by simp
    moreover have "\<forall>k r'. db_reqs env c k = Some r' \<longrightarrow> client_request_id r' \<noteq> client_request_id r"
      using new(2) by (force simp: db_reqs_Some [OF ok] read_request_fields)
    ultimately show ?thesis
      using new inv2 view(2) that(3) by (simp add: db_reqs_None [OF ok] wallets_kept_def)
  qed
  with same_tables_unchanged [OF _ inv] show ?thesis
    unfolding sqlite_insert_request_def write_request_def
    by (auto intro!: wp_rules wp_statement split: if_splits)
qed

lemma update_request_law:
  assumes env: "env_ok env" and inv: "db_inv env c" and ids: "ids_ok r"
    and old: "db_reqs env c (request_id r) = Some r0" "client_request_id r = client_request_id r0"
  shows "wp (sqlite_update_request env r) (\<lambda>r' c'. r' = r \<and> db_inv env c' \<and>
      db_reqs env c' = (db_reqs env c)(request_id r \<mapsto> r) \<and> wallets_kept (sqlite_view env) c c')
    (\<lambda>_ c'. unchanged (sqlite_view env) c c') c"
proof -
  note ok = db_invD(1) [OF inv]
  from old(1) obtain row0 where row0: "row0 \<in> set (requests c)" "rq_request_id row0 = request_id r"
    "read_request env row0 = Inr r0" by (auto simp: db_reqs_Some [OF ok])
  have "db_inv env c2 \<and> db_reqs env c2 = (db_reqs env c)(request_id r \<mapsto> r) \<and> wallets_kept (sqlite_view env) c c2"
    if "request_row env r = Inr row" "same_tables c c1"
      "c2 = c1\<lparr>requests := update_by rq_request_id (rq_request_id row) (\<lambda>_. row) (requests c1)\<rparr>" for row c1 c2
  proof -
    note ids' = request_row_ids [OF that(1)] and read = read_written_request [OF env ids that(1)]
    have inv1: "db_inv env c1" "requests c1 = requests c" and view: "db_reqs env c1 = db_reqs env c"
      "wallets_kept (sqlite_view env) c c1"
      using inv that(2) by (simp_all add: same_tables_view wallets_kept_def) (simp add: same_tables_def)
    have "rq_client_request_id row0 = rq_client_request_id row"
      using old(2) ids' read_request_fields(2) [OF row0(3)] by simp
    then have "rq_client_request_id x = rq_client_request_id row"
      if "x \<in> set (requests c)" "rq_request_id x = request_id r" for x
      using distinct_map_same [of rq_request_id "requests c" x row0] that row0 ok by (simp add: requests_ok_def)
    then have "requests_ok env (update_by rq_request_id (rq_request_id row) (\<lambda>_. row) (requests c1))"
      using ok ids' inv1(2) read by (intro requests_ok_update) auto
    note inv2 = db_inv_requests [OF inv1(1) this]
    have "db_reqs env c2 = (db_reqs env c1)(rq_request_id row \<mapsto> r)"
      unfolding that(3) by (rule db_reqs_update [of _ _ row0]) (use ok row0 inv1(2) ids' read in simp_all)
    with inv2 view ids' that(3) show ?thesis by (simp add: wallets_kept_def)
  qed
  with same_tables_unchanged [OF _ inv] show ?thesis
    unfolding sqlite_update_request_def write_request_def
    by (auto intro!: wp_rules wp_statement split: if_splits)
qed

text \<open>The row a claim picks is the oldest undelivered one of the wallet.\<close>

lemma read_request_created: "read_request env row = Inr r \<Longrightarrow> status r = Created \<longleftrightarrow> rq_status row = ''created''"
  by (drule read_request_fields(4)) (cases "status r"; auto)

lemma next_created_None:
  assumes "env_ok env" "requests_ok env (requests c)" "next_created env w (requests c) = None"
    "db_reqs env c k = Some r" "wallet_instance_id r = w"
  shows "status r \<noteq> Created"
proof -
  have "filter (\<lambda>r. rq_wallet_instance_id r = w \<and> rq_status r = ''created'') (scan_requests env (requests c)) = []"
    using assms(3) by (auto simp: next_created_def split: list.splits dest: arg_cong [where f = length])
  then have "\<forall>row \<in> set (requests c). \<not> (rq_wallet_instance_id row = w \<and> rq_status row = ''created'')"
    using scan_requests_facts(1) [OF assms(1)] by (simp add: filter_empty_conv)
  moreover from assms(4) obtain row where "row \<in> set (requests c)" "read_request env row = Inr r"
    by (auto simp: db_reqs_Some [OF assms(2)])
  ultimately show ?thesis using assms(5) by (auto simp: read_request_created read_request_fields(3))
qed

lemma next_created_Some:
  assumes "env_ok env" "requests_ok env (requests c)" "next_created env w (requests c) = Some k"
  obtains row r where "row \<in> set (requests c)" "rq_request_id row = k" "read_request env row = Inr r"
    "wallet_instance_id r = w" "status r = Created"
    "\<And>k2 r2. db_reqs env c k2 = Some r2 \<Longrightarrow> wallet_instance_id r2 = w \<Longrightarrow> status r2 = Created \<Longrightarrow> created_at r \<le> created_at r2"
proof -
  let ?P = "\<lambda>r. rq_wallet_instance_id r = w \<and> rq_status r = ''created''"
  let ?rows = "sort_key rq_created_at (filter ?P (scan_requests env (requests c)))"
  from assms(3) obtain row rest where rows: "?rows = row # rest" "rq_request_id row = k"
    by (auto simp: next_created_def split: list.splits)
  have rows_set: "set ?rows = {x \<in> set (requests c). ?P x}" using scan_requests_facts(1) [OF assms(1)] by auto
  with rows(1) have row: "row \<in> set (requests c)" "?P row" by auto
  with assms(2) obtain r where r: "read_request env row = Inr r" by (auto simp: requests_ok_def)
  have first: "rq_created_at row \<le> rq_created_at x" if "x \<in> set (requests c)" "?P x" for x
  proof -
    from that rows_set rows(1) have "x = row \<or> x \<in> set rest" by auto
    moreover have "sorted (map rq_created_at ?rows)" by (rule sorted_sort_key)
    then have "\<forall>y \<in> set rest. rq_created_at row \<le> rq_created_at y" unfolding rows(1) by simp
    ultimately show ?thesis by blast
  qed
  show thesis
  proof (rule that [OF row(1) rows(2) r])
    fix k2 r2 assume "db_reqs env c k2 = Some r2" and r2: "wallet_instance_id r2 = w" "status r2 = Created"
    then obtain x where x: "x \<in> set (requests c)" "read_request env x = Inr r2" by (auto simp: db_reqs_Some [OF assms(2)])
    with r2 have "?P x" using read_request_created [OF x(2)] by (simp add: read_request_fields)
    with first [OF x(1)] show "created_at r \<le> created_at r2" using x(2) r by (simp add: read_request_fields)
  qed (use row r read_request_created [OF r] in \<open>simp_all add: read_request_fields\<close>)
qed

definition claim_effect ::
  "'j Env \<Rightarrow> WalletInstanceId \<Rightarrow> DeliveryLease \<Rightarrow> TimestampMs \<Rightarrow> 'j Connection \<Rightarrow> RequestRecord option \<Rightarrow> 'j Connection \<Rightarrow> bool" where
  "claim_effect env w l t c x c' \<longleftrightarrow>
     (case x of
        None \<Rightarrow> unchanged (sqlite_view env) c c' \<and>
          (\<forall>k r. db_reqs env c k = Some r \<longrightarrow> wallet_instance_id r = w \<longrightarrow> status r \<noteq> Created)
      | Some r' \<Rightarrow> db_inv env c' \<and> wallets_kept (sqlite_view env) c c' \<and>
          db_reqs env c' = (db_reqs env c)(request_id r' \<mapsto> r') \<and>
          (\<exists>r. db_reqs env c (request_id r') = Some r \<and> wallet_instance_id r = w \<and> status r = Created \<and>
             (\<forall>k r2. db_reqs env c k = Some r2 \<longrightarrow> wallet_instance_id r2 = w \<longrightarrow> status r2 = Created \<longrightarrow>
                created_at r \<le> created_at r2) \<and>
             r' = r\<lparr>status := Dispatched, updated_at := t, delivery_lease := Some l\<rparr>))"

lemma claim_effect_same:
  assumes "claim_effect env w l t c x c'" "same_tables c0 c" "same_tables c' c''"
  shows "claim_effect env w l t c0 x c''"
  using assms by (simp add: claim_effect_def unchanged_def wallets_kept_def same_tables_view split: option.splits)

lemma claim_row_effect:
  fixes t :: TimestampMs and l :: DeliveryLease
  defines "f \<equiv> \<lambda>r. r\<lparr>rq_status := ''dispatched'', rq_updated_at := t,
      rq_delivery_lease_id := Some (delivery_lease_id l),
      rq_delivery_lease_expires_at := Some (delivery_lease_expires_at l)\<rparr>"
  assumes env: "env_ok env" and inv: "db_inv env c" and l: "nonblank (delivery_lease_id l)"
    and k: "next_created env w (requests c) = Some k"
    and c2: "c2 = c\<lparr>requests := update_by rq_request_id k f (requests c)\<rparr>"
    and row': "lookup_by rq_request_id k (requests c2) = Some row'" "read_request env row' = Inr r'"
  shows "claim_effect env w l t c (Some r') c2"
proof -
  note ok = db_invD(1) [OF inv]
  from next_created_Some [OF env ok k] obtain row r where row: "row \<in> set (requests c)" "rq_request_id row = k"
    "read_request env row = Inr r" and r: "wallet_instance_id r = w" "status r = Created"
    "\<And>k2 r2. db_reqs env c k2 = Some r2 \<Longrightarrow> wallet_instance_id r2 = w \<Longrightarrow> status r2 = Created \<Longrightarrow> created_at r \<le> created_at r2"
    by blast
  have read: "read_request env (f x) = Inr (y\<lparr>status := Dispatched, updated_at := t, delivery_lease := Some l\<rparr>)"
    if "read_request env x = Inr y" for x y
    using read_claimed_request [OF that l] by (simp add: f_def)
  have "requests_ok env (update_by rq_request_id k f (requests c))"
  proof (rule requests_ok_update [OF ok])
    fix x assume x: "x \<in> set (requests c)" "rq_request_id x = k"
    with ok obtain y where "read_request env x = Inr y" by (auto simp: requests_ok_def)
    with read x show "rq_request_id (f x) = k \<and> rq_client_request_id (f x) = rq_client_request_id x \<and>
        (\<exists>r. read_request env (f x) = Inr r)" by (auto simp: f_def)
  qed
  note inv2 = db_inv_requests [OF inv this]
  have eff: "db_reqs env c2 = (db_reqs env c)(k \<mapsto> r\<lparr>status := Dispatched, updated_at := t, delivery_lease := Some l\<rparr>)"
    unfolding c2 by (rule db_reqs_update [where row = row and f = f, OF ok row(1,2) _ read [OF row(3)]]) (simp add: f_def row(2))
  moreover have "db_reqs env c2 k = Some r'" using row' by (simp add: db_reqs_def)
  ultimately have r': "r' = r\<lparr>status := Dispatched, updated_at := t, delivery_lease := Some l\<rparr>" by simp
  then have "request_id r' = k" using read_request_fields(1) [OF row(3)] row(2) by simp
  moreover have "db_reqs env c k = Some r" using row by (auto simp: db_reqs_Some [OF ok])
  ultimately show ?thesis
    using inv2 eff r r' c2 by (auto simp: claim_effect_def)
qed

lemma claim_request_law:
  assumes env: "env_ok env" and inv: "db_inv env c" and l: "nonblank (delivery_lease_id l)"
  shows "wp (sqlite_claim_next_request_for_wallet env w l t) (claim_effect env w l t c)
    (\<lambda>_ c'. unchanged (sqlite_view env) c c') c"
  unfolding sqlite_claim_next_request_for_wallet_def
proof (rule wp_in_transaction, intro wp_bind wp_query wp_option wp_statement wp_ok allI impI)
  fix c1 x c2 c' assume "same_tables c c1" "same_tables c1 c2" "Inr (next_created env w (requests c2)) = Inr x"
    "x = None" "same_tables c2 c'"
  then have "next_created env w (requests c) = None" and c': "same_tables c c'"
    by (auto simp: same_tables_def)
  with next_created_None [OF env db_invD(1) [OF inv]] show "claim_effect env w l t c None c'"
    by (auto simp: claim_effect_def intro: same_tables_unchanged [OF _ inv])
next
  fix c1 found c2 k c3 u c4 r c5 c' assume "same_tables c c1" "same_tables c1 c2" "same_tables c2 c3"
    and k: "Inr (next_created env w (requests c2)) = Inr found" "found = Some k"
    and u: "(Inr (), c3\<lparr>requests := update_by rq_request_id k (\<lambda>r. r\<lparr>rq_status := ''dispatched'', rq_updated_at := t,
        rq_delivery_lease_id := Some (delivery_lease_id l),
        rq_delivery_lease_expires_at := Some (delivery_lease_expires_at l)\<rparr>) (requests c3)\<rparr>) = (Inr u, c4)"
    and c5: "same_tables c4 c5" "same_tables c5 c'"
    and r: "(case lookup_by rq_request_id k (requests c5) of None \<Rightarrow> Inl QueryReturnedNoRows | Some row \<Rightarrow> read_request env row) = Inr r"
  then have c3: "same_tables c c3" and k': "next_created env w (requests c3) = Some k"
    by (auto simp: same_tables_def)
  have rows: "requests c5 = requests c4" using c5(1) by (simp add: same_tables_def)
  from c3 inv have "db_inv env c3" by (simp add: same_tables_view)
  moreover from r obtain row where "lookup_by rq_request_id k (requests c4) = Some row" "read_request env row = Inr r"
    by (auto simp: rows split: option.splits)
  ultimately have "claim_effect env w l t c3 (Some r) c4"
    using u by (intro claim_row_effect [OF env _ l k']) auto
  with c3 c5 show "claim_effect env w l t c (Some r) c'"
    by (blast intro: claim_effect_same same_tables_trans)
qed (auto intro: same_tables_unchanged [OF _ inv])

end
