(* ===== verification/Sqlite_Wallets.thy ===== *)
theory Sqlite_Wallets
  imports Sqlite_Requests
begin

text \<open>
  The wallet half of the store contract: wallet instances, their accounts joined with the stored
  labels, the replacement of a wallet's accounts and the labelling of one account.
\<close>

section \<open>Wallet instances\<close>

lemma read_u32_Inr [simp]: "read_u32 (uint v) = Inr v"
  using uint_lt2p [of v] by (simp add: read_u32_def)

lemma read_instance_fields:
  assumes "read_wallet_instance env row = Inr i"
  shows "wi_wallet_instance_id i = iw_wallet_instance_id row" "nonblank (iw_wallet_instance_id row)"
    "BackendKind_name (wi_backend_kind i) = iw_backend_kind row"
    "wi_connected i \<longleftrightarrow> iw_connected row \<noteq> 0" "wi_last_seen_at i = iw_last_seen_at row"
  using assms by (auto simp: read_wallet_instance_def and_then_eq_Inr enum_reads)

lemma read_written_instance:
  assumes env: "env_ok env" and ids: "nonblank (wi_wallet_instance_id i)" and row: "instance_row env i = Inr row"
  shows "read_wallet_instance env row = Inr i" "iw_connected row \<in> {0, 1}"
    "iw_wallet_instance_id row = wi_wallet_instance_id i"
proof -
  have I: "read_id n v = Inr v" if "nonblank v" for n v using that by simp
  from row env have "decode_json (capabilities_from_json env) (iw_capabilities_json row) = Inr (wi_capabilities i)"
    "decode_json (metadata_from_json env) (iw_backend_metadata_json row) = Inr (wi_backend_metadata i)"
    by (auto simp: instance_row_def and_then_eq_Inr env_ok_def)
  with row ids show "read_wallet_instance env row = Inr i"
    by (auto simp: instance_row_def and_then_eq_Inr read_wallet_instance_def I read_enum_def bool_to_int_def)
  from row show "iw_connected row \<in> {0, 1}" "iw_wallet_instance_id row = wi_wallet_instance_id i"
    by (auto simp: instance_row_def and_then_eq_Inr bool_to_int_def)
qed

lemma db_insts_Some:
  assumes "instances_ok env (wallet_instances c)"
  shows "db_insts env c w = Some i \<longleftrightarrow>
    (\<exists>row \<in> set (wallet_instances c). iw_wallet_instance_id row = w \<and> read_wallet_instance env row = Inr i)"
  using assms by (auto simp: db_insts_def instances_ok_def bind_eq_Some_conv lookup_by_Some_iff)

lemma db_insts_known:
  assumes "instances_ok env (wallet_instances c)" "w \<in> iw_wallet_instance_id ` set (wallet_instances c)"
  shows "nonblank w" "db_insts env c w \<noteq> None"
proof -
  from assms(2) obtain row where row: "row \<in> set (wallet_instances c)" "w = iw_wallet_instance_id row" by blast
  with assms(1) obtain i where i: "read_wallet_instance env row = Inr i" by (auto simp: instances_ok_def)
  with row show "nonblank w" by (simp add: read_instance_fields)
  from row i have "db_insts env c w = Some i" by (auto simp: db_insts_Some [OF assms(1)])
  then show "db_insts env c w \<noteq> None" by simp
qed

lemma db_insts_lookup:
  assumes "instances_ok env (wallet_instances c)"
  shows "transpose_opt (read_wallet_instance env) (lookup_by iw_wallet_instance_id w (wallet_instances c)) =
    Inr (db_insts env c w)"
proof (cases "lookup_by iw_wallet_instance_id w (wallet_instances c)")
  case (Some row)
  with assms obtain r where "read_wallet_instance env row = Inr r"
    using lookup_by_SomeD [OF Some] by (auto simp: instances_ok_def)
  with Some show ?thesis by (simp add: db_insts_def)
qed (simp add: db_insts_def)

lemma get_instance_law:
  assumes "db_inv env c"
  shows "wp (sqlite_get_wallet_instance env w) (\<lambda>x c'. unchanged (sqlite_view env) c c' \<and> x = db_insts env c w)
    (\<lambda>_ c'. unchanged (sqlite_view env) c c') c"
  unfolding sqlite_get_wallet_instance_def
proof (rule wp_read_query [OF assms])
  fix x c' assume "same_tables c c'"
    and "transpose_opt (read_wallet_instance env) (lookup_by iw_wallet_instance_id w (wallet_instances c')) = Inr x"
  then show "x = db_insts env c w"
    using db_insts_lookup [OF db_invD(2) [OF assms], of w] by (simp add: same_tables_def)
qed

lemma scan_instances_facts:
  assumes "env_ok env"
  shows "set (scan_instances env rows) = set rows"
    "distinct (map iw_wallet_instance_id (scan_instances env rows)) = distinct (map iw_wallet_instance_id rows)"
proof -
  from assms have m: "mset (scan_instances env rows) = mset rows" by (simp add: env_ok_def)
  then show "set (scan_instances env rows) = set rows" by (rule mset_eq_setD)
  from m have "mset (map iw_wallet_instance_id (scan_instances env rows)) = mset (map iw_wallet_instance_id rows)" by simp
  then show "distinct (map iw_wallet_instance_id (scan_instances env rows)) = distinct (map iw_wallet_instance_id rows)"
    by (rule mset_eq_imp_distinct_iff)
qed

lemma list_instances_law:
  assumes env: "env_ok env" and inv: "db_inv env c"
  shows "wp (sqlite_list_wallet_instances env b) (\<lambda>xs c'. unchanged (sqlite_view env) c c' \<and>
      distinct (map wi_wallet_instance_id xs) \<and> sorted (rev (map wi_last_seen_at xs)) \<and>
      set xs = {i. db_insts env c (wi_wallet_instance_id i) = Some i \<and> (b \<longrightarrow> wi_connected i)})
    (\<lambda>_ c'. unchanged (sqlite_view env) c c') c"
  unfolding sqlite_list_wallet_instances_def
proof (rule wp_read_query [OF inv])
  note ok = db_invD(2) [OF inv]
  let ?rows = "sort_key (\<lambda>r. - iw_last_seen_at r) (filter (\<lambda>r. b \<longrightarrow> iw_connected r = 1) (scan_instances env (wallet_instances c)))"
  fix xs c' assume "same_tables c c'"
    and "collect_rows (read_wallet_instance env) (sort_key (\<lambda>r. - iw_last_seen_at r)
      (filter (\<lambda>r. b \<longrightarrow> iw_connected r = 1) (scan_instances env (wallet_instances c')))) = Inr xs"
  then have xs: "collect_rows (read_wallet_instance env) ?rows = Inr xs" by (simp add: same_tables_def)
  have "map wi_wallet_instance_id xs = map iw_wallet_instance_id ?rows"
    by (rule collect_rows_map [OF _ xs]) (rule read_instance_fields)
  moreover have "distinct (map iw_wallet_instance_id ?rows)"
    using env ok by (simp add: distinct_map_filter scan_instances_facts instances_ok_def)
  ultimately have d: "distinct (map wi_wallet_instance_id xs)" by simp
  have "map (\<lambda>i. - wi_last_seen_at i) xs = map (\<lambda>r. - iw_last_seen_at r) ?rows"
    by (rule collect_rows_map [OF _ xs]) (simp add: read_instance_fields)
  then have "sorted (map (\<lambda>i. - wi_last_seen_at i) xs)" by (simp only: sorted_sort_key)
  then have s: "sorted (rev (map wi_last_seen_at xs))"
    by (simp add: sorted_wrt_rev sorted_wrt_map)
  have "iw_connected row = 1 \<longleftrightarrow> wi_connected i"
    if "row \<in> set (wallet_instances c)" "read_wallet_instance env row = Inr i" for row i
    using that ok by (auto simp: instances_ok_def read_instance_fields(4) [OF that(2)])
  then have "set xs = {i. db_insts env c (wi_wallet_instance_id i) = Some i \<and> (b \<longrightarrow> wi_connected i)}"
    using env by (auto simp: collect_rows_set [OF xs] scan_instances_facts db_insts_Some [OF ok] read_instance_fields(1))
  with d s show "distinct (map wi_wallet_instance_id xs) \<and> sorted (rev (map wi_last_seen_at xs)) \<and>
      set xs = {i. db_insts env c (wi_wallet_instance_id i) = Some i \<and> (b \<longrightarrow> wi_connected i)}" by simp
qed

lemma upsert_instance_law:
  assumes env: "env_ok env" and inv: "db_inv env c" and ids: "nonblank (wi_wallet_instance_id i)"
  shows "wp (sqlite_upsert_wallet_instance env i) (\<lambda>_ c'. db_inv env c' \<and> db_reqs env c' = db_reqs env c \<and>
      db_accts env c' = db_accts env c \<and> db_insts env c' = (db_insts env c)(wi_wallet_instance_id i \<mapsto> i))
    (\<lambda>_ c'. unchanged (sqlite_view env) c c') c"
proof -
  have "db_inv env c2 \<and> db_reqs env c2 = db_reqs env c \<and> db_accts env c2 = db_accts env c \<and>
      db_insts env c2 = (db_insts env c)(wi_wallet_instance_id i \<mapsto> i)"
    if row: "instance_row env i = Inr row" and c1: "same_tables c c1"
      and c2: "c2 = c1\<lparr>wallet_instances := upsert_by iw_wallet_instance_id row (wallet_instances c1)\<rparr>" for row c1 c2
  proof -
    note read = read_written_instance [OF env ids row]
    have inv1: "db_inv env c1" using inv c1 by (simp add: same_tables_view)
    have "instances_ok env (wallet_instances c2)"
      using db_invD(2) [OF inv1] read unfolding c2
      by (auto simp: instances_ok_def distinct_upsert_by dest!: set_upsert_by)
    moreover have "accounts_ok (wallet_instances c2) (wallet_accounts c2)"
      using db_invD(3) [OF inv1] unfolding c2 by (auto simp: accounts_ok_def keys_upsert_by)
    ultimately have "db_inv env c2" using inv1 c2 by (simp add: db_inv_def)
    moreover have "db_insts env c2 = (db_insts env c1)(wi_wallet_instance_id i \<mapsto> i)"
      using read c2 by (auto simp: db_insts_def fun_eq_iff lookup_upsert_by)
    moreover have "db_reqs env c2 = db_reqs env c1" "db_accts env c2 = db_accts env c1"
      using c2 by (auto simp: db_reqs_def db_accts_def fun_eq_iff)
    ultimately show ?thesis using c1 by (simp add: same_tables_view)
  qed
  with same_tables_unchanged [OF _ inv] show ?thesis
    unfolding sqlite_upsert_wallet_instance_def
    by (auto intro!: wp_rules wp_statement split: if_splits)
qed

section \<open>Accounts and their labels\<close>

definition joined :: "LabelRow list \<Rightarrow> AccountRow \<Rightarrow> AccountRow" where
  "joined labels a = a\<lparr>aw_label := (case label_of labels a of Some l \<Rightarrow> Some (lb_label l) | None \<Rightarrow> aw_label a)\<rparr>"

lemma wallet_account_query_joined: "wallet_account_query accounts labels = map (joined labels) accounts"
  by (simp add: wallet_account_query_def joined_def)

lemma joined_key [simp]: "account_key (joined labels a) = account_key a"
  "aw_wallet_instance_id (joined labels a) = aw_wallet_instance_id a" "aw_address (joined labels a) = aw_address a"
  by (simp_all add: joined_def account_key_def)

lemma lookup_joined: "lookup_by account_key k (map (joined labels) accounts) =
    map_option (joined labels) (lookup_by account_key k accounts)"
  by (induction accounts) auto

lemma read_account_Inr: "read_wallet_account row = Inr a \<longleftrightarrow> nonblank (aw_wallet_instance_id row) \<and>
    a = \<lparr>wa_wallet_instance_id = aw_wallet_instance_id row, wa_address = aw_address row, wa_label = aw_label row,
         wa_public_key = aw_public_key row, wa_is_default = (aw_is_default row \<noteq> 0),
         wa_is_read_only = (aw_is_read_only row \<noteq> 0), wa_is_locked = (aw_is_locked row \<noteq> 0),
         wa_last_seen_at = aw_last_seen_at row\<rparr>"
  by (auto simp: read_wallet_account_def and_then_eq_Inr)

lemma decoded_account: "decoded (read_wallet_account row) =
    (if nonblank (aw_wallet_instance_id row)
     then Some \<lparr>wa_wallet_instance_id = aw_wallet_instance_id row, wa_address = aw_address row, wa_label = aw_label row,
         wa_public_key = aw_public_key row, wa_is_default = (aw_is_default row \<noteq> 0),
         wa_is_read_only = (aw_is_read_only row \<noteq> 0), wa_is_locked = (aw_is_locked row \<noteq> 0),
         wa_last_seen_at = aw_last_seen_at row\<rparr> else None)"
  using read_account_Inr [of row] by (cases "read_wallet_account row") auto

lemma read_account_fields: "read_wallet_account row = Inr a \<Longrightarrow>
    (wa_wallet_instance_id a, wa_address a) = account_key row \<and> nonblank (aw_wallet_instance_id row)"
  by (simp add: read_account_Inr account_key_def)

lemma read_account_row: "nonblank (wa_wallet_instance_id a) \<Longrightarrow>
    read_wallet_account (joined labels (account_row a)) =
      Inr (a\<lparr>wa_label := aw_label (joined labels (account_row a))\<rparr>)"
  by (simp add: read_account_Inr joined_def account_row_def bool_to_int_def)

text \<open>Every stored account can be read, because its wallet instance can.\<close>

lemma stored_account_reads:
  assumes "db_inv env c" "row \<in> set (wallet_accounts c)"
  shows "\<exists>a. read_wallet_account (joined labels row) = Inr a" "db_insts env c (aw_wallet_instance_id row) \<noteq> None"
proof -
  from assms have "aw_wallet_instance_id row \<in> iw_wallet_instance_id ` set (wallet_instances c)"
    by (auto simp: db_inv_def accounts_ok_def)
  from db_insts_known [OF db_invD(2) [OF assms(1)] this] show
    "\<exists>a. read_wallet_account (joined labels row) = Inr a" "db_insts env c (aw_wallet_instance_id row) \<noteq> None"
    by (simp_all add: read_account_Inr)
qed

lemma db_accts_eq: "db_accts env c w address =
    Option.bind (lookup_by account_key (w, address) (wallet_accounts c))
      (\<lambda>row. decoded (read_wallet_account (joined (wallet_account_labels c) row)))"
  by (cases "lookup_by account_key (w, address) (wallet_accounts c)")
    (simp_all add: db_accts_def wallet_account_query_joined lookup_joined)

lemma db_accts_Some:
  assumes "accounts_ok insts (wallet_accounts c)"
  shows "db_accts env c w address = Some a \<longleftrightarrow>
    (\<exists>row \<in> set (wallet_accounts c). account_key row = (w, address) \<and>
       read_wallet_account (joined (wallet_account_labels c) row) = Inr a)"
  using assms by (auto simp: db_accts_eq accounts_ok_def bind_eq_Some_conv lookup_by_Some_iff)

lemma db_accts_stored:
  assumes "db_inv env c" "db_accts env c w address = Some a"
  shows "wa_wallet_instance_id a = w" "wa_address a = address" "db_insts env c w \<noteq> None"
proof -
  from assms(2) obtain row where row: "row \<in> set (wallet_accounts c)" "account_key row = (w, address)"
    "read_wallet_account (joined (wallet_account_labels c) row) = Inr a"
    by (auto simp: db_accts_Some [OF db_invD(3) [OF assms(1)]])
  from read_account_fields [OF row(3)] row(2) show "wa_wallet_instance_id a = w" "wa_address a = address" by simp_all
  from stored_account_reads(2) [OF assms(1) row(1)] row(2) show "db_insts env c w \<noteq> None"
    by (simp add: account_key_def)
qed

text \<open>A stored label is the one the account shows.\<close>

lemma stored_label_shown:
  assumes "db_accts env c w address = Some a" "lookup_by label_key (w, address) (wallet_account_labels c) = Some lb"
  shows "wa_label a = Some (lb_label lb)"
proof -
  from assms(1) obtain row where row: "lookup_by account_key (w, address) (wallet_accounts c) = Some row"
    "read_wallet_account (joined (wallet_account_labels c) row) = Inr a"
    by (auto simp: db_accts_eq bind_eq_Some_conv)
  from lookup_by_SomeD [OF row(1)] assms(2) row(2) show ?thesis
    by (simp add: read_account_Inr joined_def label_of_def)
qed

lemma query_account_law:
  assumes "db_inv env c"
  shows "wp (query_wallet_account env w address) (\<lambda>x c'. same_tables c c' \<and> x = db_accts env c w address)
    (\<lambda>_ c'. same_tables c c') c"
  unfolding query_wallet_account_def
proof (rule wp_query)
  fix x c' assume c': "same_tables c c'" and x: "transpose_opt read_wallet_account
      (lookup_by account_key (w, address) (wallet_account_query (wallet_accounts c') (wallet_account_labels c'))) = Inr x"
  then show "same_tables c c' \<and> x = db_accts env c w address"
    by (auto simp: same_tables_def db_accts_def transpose_opt_eq_Inr split: option.splits)
qed

lemma db_query_account:
  assumes "db_inv env c0" "same_tables c0 c" "\<And>c'. same_tables c0 c' \<Longrightarrow> Q (db_accts env c0 w address) c'"
    and "\<And>e c'. same_tables c0 c' \<Longrightarrow> E e c'"
  shows "wp (query_wallet_account env w address) Q E c"
  using assms query_account_law [of env c w address]
  by (auto simp: same_tables_view elim!: wp_mono intro: same_tables_trans)

lemma get_account_law:
  assumes "db_inv env c"
  shows "wp (sqlite_get_wallet_account env w address)
    (\<lambda>x c'. unchanged (sqlite_view env) c c' \<and> x = db_accts env c w address) (\<lambda>_ c'. unchanged (sqlite_view env) c c') c"
  unfolding sqlite_get_wallet_account_def
  by (rule wp_mono [OF query_account_law [OF assms]]) (auto intro: same_tables_unchanged [OF _ assms])

lemma list_accounts_law:
  assumes inv: "db_inv env c"
  shows "wp (sqlite_list_wallet_accounts env wo) (\<lambda>xs c'. unchanged (sqlite_view env) c c' \<and>
      set xs = {a. db_accts env c (wa_wallet_instance_id a) (wa_address a) = Some a \<and>
                   (wo = None \<or> wo = Some (wa_wallet_instance_id a))})
    (\<lambda>_ c'. unchanged (sqlite_view env) c c') c"
  unfolding sqlite_list_wallet_accounts_def Let_def
proof (rule wp_read_query [OF inv])
  let ?rows = "\<lambda>c. case wo of
      Some w \<Rightarrow> sort_key (account_position (wallet_account_labels c)) (sort_key aw_address
        (filter (\<lambda>a. aw_wallet_instance_id a = w) (wallet_account_query (wallet_accounts c) (wallet_account_labels c))))
    | None \<Rightarrow> sort_key aw_wallet_instance_id (sort_key (account_position (wallet_account_labels c))
        (sort_key aw_address (wallet_account_query (wallet_accounts c) (wallet_account_labels c))))"
  fix xs c' assume "same_tables c c'" and "collect_rows read_wallet_account (?rows c') = Inr xs"
  then have xs: "collect_rows read_wallet_account (?rows c) = Inr xs" by (cases wo) (simp_all add: same_tables_def)
  have rows: "set (?rows c) = {joined (wallet_account_labels c) row | row. row \<in> set (wallet_accounts c) \<and>
      (wo = None \<or> wo = Some (aw_wallet_instance_id row))}"
    by (cases wo) (auto simp: wallet_account_query_joined)
  show "set xs = {a. db_accts env c (wa_wallet_instance_id a) (wa_address a) = Some a \<and>
      (wo = None \<or> wo = Some (wa_wallet_instance_id a))}"
  proof (intro set_eqI iffI)
    fix a assume "a \<in> set xs"
    then obtain row where row: "row \<in> set (wallet_accounts c)" "wo = None \<or> wo = Some (aw_wallet_instance_id row)"
      "read_wallet_account (joined (wallet_account_labels c) row) = Inr a"
      unfolding collect_rows_set [OF xs] rows by blast
    from read_account_fields [OF row(3)] have "account_key row = (wa_wallet_instance_id a, wa_address a)" by simp
    with row show "a \<in> {a. db_accts env c (wa_wallet_instance_id a) (wa_address a) = Some a \<and>
        (wo = None \<or> wo = Some (wa_wallet_instance_id a))}"
      by (auto simp: db_accts_Some [OF db_invD(3) [OF inv]] account_key_def)
  next
    fix a assume a: "a \<in> {a. db_accts env c (wa_wallet_instance_id a) (wa_address a) = Some a \<and>
        (wo = None \<or> wo = Some (wa_wallet_instance_id a))}"
    then obtain row where row: "row \<in> set (wallet_accounts c)" "account_key row = (wa_wallet_instance_id a, wa_address a)"
      "read_wallet_account (joined (wallet_account_labels c) row) = Inr a"
      by (auto simp: db_accts_Some [OF db_invD(3) [OF inv]])
    moreover have "wo = None \<or> wo = Some (aw_wallet_instance_id row)" using a row(2) by (simp add: account_key_def)
    ultimately show "a \<in> set xs" unfolding collect_rows_set [OF xs] rows by blast
  qed
qed

section \<open>Labelling an account\<close>

text \<open>Only the label table differs.\<close>

definition relabelled :: "'j Connection \<Rightarrow> 'j Connection \<Rightarrow> bool" where
  "relabelled c c' \<longleftrightarrow> requests c' = requests c \<and> wallet_instances c' = wallet_instances c \<and>
     wallet_accounts c' = wallet_accounts c \<and>
     (distinct (map label_key (wallet_account_labels c)) \<longrightarrow> distinct (map label_key (wallet_account_labels c')))"

lemma relabelled_refl: "same_tables c c' \<Longrightarrow> relabelled c c'"
  by (simp add: relabelled_def same_tables_def)

lemma relabelled_trans: "relabelled c c' \<Longrightarrow> relabelled c' c'' \<Longrightarrow> relabelled c c''"
  by (simp add: relabelled_def)

lemma relabelled_view:
  assumes "relabelled c c'"
  shows "db_inv env c \<Longrightarrow> db_inv env c'" "db_reqs env c' = db_reqs env c" "db_insts env c' = db_insts env c"
  using assms by (simp_all add: relabelled_def db_inv_def db_reqs_def db_insts_def fun_eq_iff)

lemma relabelled_upsert: "relabelled c (c\<lparr>wallet_account_labels := upsert_by label_key r (wallet_account_labels c)\<rparr>)"
  by (simp add: relabelled_def distinct_upsert_by)

lemma db_accts_upsert_label:
  assumes "label_key r = (w, address)"
  shows "db_accts env (c\<lparr>wallet_account_labels := upsert_by label_key r (wallet_account_labels c)\<rparr>) w' address' =
    (if w' = w \<and> address' = address
     then map_option (\<lambda>a. a\<lparr>wa_label := Some (lb_label r)\<rparr>) (db_accts env c w' address') else db_accts env c w' address')"
proof (cases "lookup_by account_key (w', address') (wallet_accounts c)")
  case (Some row)
  have "account_key row = (w', address')" using lookup_by_SomeD [OF Some] by simp
  then have "joined (upsert_by label_key r (wallet_account_labels c)) row =
      (if w' = w \<and> address' = address then (joined (wallet_account_labels c) row)\<lparr>aw_label := Some (lb_label r)\<rparr>
       else joined (wallet_account_labels c) row)"
    using assms by (auto simp: joined_def label_of_def lookup_upsert_by)
  with Some show ?thesis
    by (auto simp: db_accts_eq decoded_account)
qed (auto simp: db_accts_eq)

lemma set_label_law:
  assumes inv: "db_inv env c"
  shows "wp (sqlite_set_wallet_account_label env w address label) (\<lambda>a c'. db_inv env c' \<and>
      db_reqs env c' = db_reqs env c \<and> db_insts env c' = db_insts env c \<and>
      (\<exists>a0. db_accts env c w address = Some a0 \<and> a = a0\<lparr>wa_label := Some (trim label)\<rparr>) \<and>
      db_accts env c' = (db_accts env c)(w := (db_accts env c w)(address \<mapsto> a)))
    (\<lambda>_ c'. unchanged (sqlite_view env) c c') c"
  unfolding sqlite_set_wallet_account_label_def
proof (rule wp_in_transaction)
  fix c1 assume c1: "same_tables c c1"
  let ?Q = "\<lambda>a c'. db_inv env c' \<and> db_reqs env c' = db_reqs env c \<and> db_insts env c' = db_insts env c \<and>
      (\<exists>a0. db_accts env c w address = Some a0 \<and> a = a0\<lparr>wa_label := Some (trim label)\<rparr>) \<and>
      db_accts env c' = (db_accts env c)(w := (db_accts env c w)(address \<mapsto> a))"
  have final: "?Q (a0\<lparr>wa_label := Some l\<rparr>) c'"
    if "same_tables c c2" "same_tables c3 c'" "l = trim label" "db_accts env c w address = Some a0"
      "c3 = c2\<lparr>wallet_account_labels := upsert_by label_key
        \<lparr>lb_wallet_instance_id = w, lb_address = address, lb_label = l, lb_account_order = n, lb_updated_at = t\<rparr>
        (wallet_account_labels c2)\<rparr>" for c2 c3 c' a0 l n t
  proof -
    have "relabelled c c3"
      using that(1,5) relabelled_upsert by (blast intro: relabelled_trans relabelled_refl)
    note view = relabelled_view [OF this]
    have "db_accts env c3 = (db_accts env c)(w := (db_accts env c w)(address \<mapsto> a0\<lparr>wa_label := Some l\<rparr>))"
      using that(4) unfolding that(5) by (auto simp: fun_eq_iff db_accts_upsert_label [where w = w and address = address] same_tables_view [OF that(1)])
    with view inv that(2-4) show ?thesis by (simp add: same_tables_view)
  qed
  from c1 show "wp (bind (is_local_account_wallet env w) (\<lambda>local.
        if \<not> local
        then err (Storage (''wallet instance '' @ w @ '' does not support daemon-managed account labels''))
        else
          bind (query_wallet_account env w address) (\<lambda>found.
          bind (ok_or found (Storage (''wallet account '' @ w @ '':'' @ address @ '' was not found''))) (\<lambda>account.
          bind (of_result (normalize_account_label label)) (\<lambda>normalized_label.
          bind (existing_account_order env w address) (\<lambda>existing.
          bind (case existing of Some n \<Rightarrow> ok n | None \<Rightarrow> next_account_order env w) (\<lambda>n.
          bind current_timestamp_ms (\<lambda>t.
          bind (upsert_wallet_account_label env w address normalized_label n t) (\<lambda>_.
          ok (account\<lparr>wa_label := Some normalized_label\<rparr>))))))))))
      (\<lambda>x c2. \<forall>c'. same_tables c2 c' \<longrightarrow> ?Q x c') (\<lambda>_ _. True) c1"
    by (intro wp_bind) (erule db_rules | rule wp_rules allI impI final TrueI | assumption
        | erule db_query_account [OF inv] | simp add: normalize_account_label_Inr)+
qed (rule same_tables_unchanged [OF _ inv])

section \<open>Replacing the accounts of a wallet\<close>

text \<open>
  Labelling newly discovered accounts touches only the labels of that wallet, and only those that
  were not known: a label that was set before survives every later discovery.
\<close>

definition labels_kept :: "WalletInstanceId \<Rightarrow> LabelRow list \<Rightarrow> LabelRow list \<Rightarrow> bool" where
  "labels_kept w rows rows' \<longleftrightarrow>
     (\<forall>k. fst k \<noteq> w \<or> has_key label_key k rows \<longrightarrow> lookup_by label_key k rows' = lookup_by label_key k rows)"

lemma labels_kept_upsert:
  assumes "labels_kept w rows0 rows" "label_key r = (w, a)" "\<not> has_key label_key (w, a) rows0"
  shows "labels_kept w rows0 (upsert_by label_key r rows)"
  using assms by (auto simp: labels_kept_def lookup_upsert_by)

lemma label_loop:
  assumes known: "\<forall>a. known a = None \<longleftrightarrow> \<not> has_key label_key (w, a) (wallet_account_labels c0)"
  shows "relabelled c0 c \<Longrightarrow> labels_kept w (wallet_account_labels c0) (wallet_account_labels c) \<Longrightarrow>
    (\<And>n' c'. relabelled c0 c' \<Longrightarrow> labels_kept w (wallet_account_labels c0) (wallet_account_labels c') \<Longrightarrow> Q n' c') \<Longrightarrow>
    wp (for_fold as n (label_account env w known t)) Q (\<lambda>_ _. True) c"
proof (induction as arbitrary: c n)
  case Nil
  then show ?case by (simp add: wp_ok)
next
  case (Cons x as)
  have step: "wp (label_account env w known t n x)
      (\<lambda>_ c'. relabelled c0 c' \<and> labels_kept w (wallet_account_labels c0) (wallet_account_labels c')) (\<lambda>_ _. True) c"
    unfolding label_account_def
  proof (intro wp_if wp_ok wp_bind wp_of_result db_upsert_label [OF same_tables_refl])
    fix l c1 c' assume unknown: "\<not> known (wa_address x) \<noteq> None" and c1: "same_tables c c1"
      and c': "c' = c1\<lparr>wallet_account_labels := upsert_by label_key
        \<lparr>lb_wallet_instance_id = w, lb_address = wa_address x, lb_label = l, lb_account_order = n, lb_updated_at = t\<rparr>
        (wallet_account_labels c1)\<rparr>"
    have "relabelled c0 c1" "labels_kept w (wallet_account_labels c0) (wallet_account_labels c1)"
      using c1 Cons.prems(1,2) by (auto simp: same_tables_def relabelled_def)
    with unknown known c' show "relabelled c0 c' \<and> labels_kept w (wallet_account_labels c0) (wallet_account_labels c')"
      using relabelled_upsert by (auto intro: relabelled_trans labels_kept_upsert)
  qed (use Cons.prems in simp_all)
  show ?case
    by (simp only: for_fold.simps, rule wp_bind, rule wp_mono [OF step])
      (auto intro: Cons.IH Cons.prems(3))
qed

lemma insert_loop:
  "wp (for_each as (insert_account env))
     (\<lambda>_ c'. requests c' = requests c \<and> wallet_instances c' = wallet_instances c \<and>
        wallet_account_labels c' = wallet_account_labels c \<and>
        wallet_accounts c' = wallet_accounts c @ map account_row as \<and>
        (accounts_ok (wallet_instances c) (wallet_accounts c) \<longrightarrow> accounts_ok (wallet_instances c) (wallet_accounts c')))
     (\<lambda>_ _. True) c"
proof (induction as arbitrary: c)
  case Nil
  then show ?case by (simp add: wp_ok)
next
  case (Cons a as)
  have "wp (insert_account env a) (\<lambda>_ c'. requests c' = requests c \<and> wallet_instances c' = wallet_instances c \<and>
        wallet_account_labels c' = wallet_account_labels c \<and>
        wallet_accounts c' = wallet_accounts c @ [account_row a] \<and>
        (accounts_ok (wallet_instances c) (wallet_accounts c) \<longrightarrow> accounts_ok (wallet_instances c) (wallet_accounts c')))
      (\<lambda>_ _. True) c"
    unfolding insert_account_def
    by (rule wp_statement) (auto simp: same_tables_def has_key_iff accounts_ok_def account_row_def image_subset_iff split: if_splits)
  then show ?case
    by (simp only: for_each.simps, intro wp_bind, elim wp_mono) (rule wp_mono [OF Cons.IH], auto)
qed

lemma ensure_labels_wp:
  assumes "same_tables c0 c"
    and "\<And>c'. relabelled c0 c' \<Longrightarrow> labels_kept w (wallet_account_labels c0) (wallet_account_labels c') \<Longrightarrow> Q () c'"
  shows "wp (ensure_local_account_labels env w as) Q (\<lambda>_ _. True) c"
  unfolding ensure_local_account_labels_def
proof (intro wp_bind db_known_labels [OF assms(1)], erule db_next_order, intro wp_bind, erule db_timestamp)
  fix known :: "string \<Rightarrow> string option" and t c' assume known: "\<forall>a. known a = None \<longleftrightarrow> \<not> has_key label_key (w, a) (wallet_account_labels c0)"
    and c': "same_tables c0 c'"
  then have "labels_kept w (wallet_account_labels c0) (wallet_account_labels c')"
    by (simp add: labels_kept_def same_tables_def)
  then show "wp (bind (for_fold as (i64_wrapping_add (case max_account_order w (wallet_account_labels c0) of
      None \<Rightarrow> 0 | Some m \<Rightarrow> m) 1) (label_account env w known t)) (\<lambda>_. ok ())) Q (\<lambda>_ _. True) c'"
    by (intro wp_bind label_loop [OF known relabelled_refl [OF c']] wp_ok assms(2))
qed auto

lemma lookup_by_filter: "(\<And>r. key r = k \<Longrightarrow> P r) \<Longrightarrow> lookup_by key k (filter P rows) = lookup_by key k rows"
  by (induction rows) auto

lemma replaced_accounts:
  assumes inv: "db_inv env c" and own: "\<forall>acc \<in> set as. wa_wallet_instance_id acc = w"
    and w: "has_key iw_wallet_instance_id w (wallet_instances c)"
    and kept: "labels_kept w (wallet_account_labels c) (wallet_account_labels c')"
    and accounts: "wallet_accounts c' = filter (\<lambda>a. aw_wallet_instance_id a \<noteq> w) (wallet_accounts c) @ map account_row as"
      "accounts_ok (wallet_instances c) (wallet_accounts c')"
  shows "w' \<noteq> w \<Longrightarrow> db_accts env c' w' = db_accts env c w'"
    and "db_accts env c' w a = None \<longleftrightarrow> a \<notin> wa_address ` set as"
    and "acc \<in> set as \<Longrightarrow> \<exists>l. db_accts env c' w (wa_address acc) = Some (acc\<lparr>wa_label := l\<rparr>)"
proof -
  have key: "account_key (account_row x) = (wa_wallet_instance_id x, wa_address x)" for x
    by (simp add: account_key_def account_row_def)
  show "db_accts env c' w' = db_accts env c w'" if "w' \<noteq> w"
  proof
    fix a
    have "lookup_by account_key (w', a) (map account_row as) = None"
      using own that by (auto simp: lookup_by_None key)
    moreover have "lookup_by account_key (w', a) (filter (\<lambda>a. aw_wallet_instance_id a \<noteq> w) (wallet_accounts c)) =
        lookup_by account_key (w', a) (wallet_accounts c)"
      using that by (intro lookup_by_filter) (auto simp: account_key_def)
    ultimately have l: "lookup_by account_key (w', a) (wallet_accounts c') = lookup_by account_key (w', a) (wallet_accounts c)"
      by (simp add: accounts(1) lookup_by_append split: option.splits)
    have "joined (wallet_account_labels c') row = joined (wallet_account_labels c) row"
      if "account_key row = (w', a)" for row
      using kept \<open>w' \<noteq> w\<close> that by (simp add: joined_def label_of_def labels_kept_def)
    then show "db_accts env c' w' a = db_accts env c w' a"
      using l by (cases "lookup_by account_key (w', a) (wallet_accounts c)")
        (auto simp: db_accts_eq dest: lookup_by_SomeD)
  qed
  have nb: "nonblank w" using db_insts_known(1) [OF db_invD(2) [OF inv]] w by (simp add: has_key_iff)
  show some: "\<exists>l. db_accts env c' w (wa_address acc) = Some (acc\<lparr>wa_label := l\<rparr>)" if "acc \<in> set as" for acc
  proof -
    have "account_row acc \<in> set (wallet_accounts c')" "account_key (account_row acc) = (w, wa_address acc)"
      using that own by (auto simp: accounts(1) key)
    then have "lookup_by account_key (w, wa_address acc) (wallet_accounts c') = Some (account_row acc)"
      using accounts(2) by (simp add: accounts_ok_def lookup_by_Some_iff)
    with own that nb show ?thesis by (auto simp: db_accts_eq read_account_row)
  qed
  show "db_accts env c' w a = None \<longleftrightarrow> a \<notin> wa_address ` set as"
  proof
    assume "db_accts env c' w a = None"
    with some show "a \<notin> wa_address ` set as" by fastforce
  next
    assume "a \<notin> wa_address ` set as"
    then have "(w, a) \<notin> account_key ` set (wallet_accounts c')"
      by (auto simp: accounts(1) key image_iff account_key_def account_row_def)
    then show "db_accts env c' w a = None" by (simp add: db_accts_eq lookup_by_None [THEN iffD2])
  qed
qed

lemma replace_accounts_law:
  assumes inv: "db_inv env c"
  shows "wp (sqlite_replace_wallet_accounts env w as)
    (\<lambda>_ c'. db_inv env c' \<and> db_reqs env c' = db_reqs env c \<and> db_insts env c' = db_insts env c \<and>
      labels_kept w (wallet_account_labels c) (wallet_account_labels c') \<and>
      ((\<forall>acc \<in> set as. wa_wallet_instance_id acc = w) \<longrightarrow>
        (\<forall>w'. w' \<noteq> w \<longrightarrow> db_accts env c' w' = db_accts env c w') \<and>
        (\<forall>a. db_accts env c' w a = None \<longleftrightarrow> a \<notin> wa_address ` set as) \<and>
        (\<forall>acc \<in> set as. \<exists>l. db_accts env c' w (wa_address acc) = Some (acc\<lparr>wa_label := l\<rparr>))))
    (\<lambda>_ c'. unchanged (sqlite_view env) c c') c"
  unfolding sqlite_replace_wallet_accounts_def
proof (rule wp_in_transaction)
  fix c1 assume c1: "same_tables c c1"
  let ?Q = "\<lambda>c'. db_inv env c' \<and> db_reqs env c' = db_reqs env c \<and> db_insts env c' = db_insts env c \<and>
      labels_kept w (wallet_account_labels c) (wallet_account_labels c') \<and>
      ((\<forall>acc \<in> set as. wa_wallet_instance_id acc = w) \<longrightarrow>
        (\<forall>w'. w' \<noteq> w \<longrightarrow> db_accts env c' w' = db_accts env c w') \<and>
        (\<forall>a. db_accts env c' w a = None \<longleftrightarrow> a \<notin> wa_address ` set as) \<and>
        (\<forall>acc \<in> set as. \<exists>l. db_accts env c' w (wa_address acc) = Some (acc\<lparr>wa_label := l\<rparr>)))"
  have rest: "wp (bind (statement env (\<lambda>c. (Inr (), c\<lparr>wallet_accounts :=
        filter (\<lambda>a. aw_wallet_instance_id a \<noteq> w) (wallet_accounts c)\<rparr>))) (\<lambda>_. for_each as (insert_account env)))
      (\<lambda>_ c3. \<forall>c'. same_tables c3 c' \<longrightarrow> ?Q c') (\<lambda>_ _. True) c2"
    if c2: "relabelled c c2" "labels_kept w (wallet_account_labels c) (wallet_account_labels c2)"
      and w: "has_key iw_wallet_instance_id w (wallet_instances c)" for c2
  proof (intro wp_bind wp_statement wp_mono [OF insert_loop] allI impI, goal_cases)
    case (1 c3 u c4 x c5 c')
    have same: "requests c' = requests c" "wallet_instances c' = wallet_instances c"
      "wallet_account_labels c' = wallet_account_labels c2"
      "wallet_accounts c' = filter (\<lambda>a. aw_wallet_instance_id a \<noteq> w) (wallet_accounts c) @ map account_row as"
      using 1 c2(1) by (auto simp: same_tables_def relabelled_def)
    have "accounts_ok (wallet_instances c) (filter (\<lambda>a. aw_wallet_instance_id a \<noteq> w) (wallet_accounts c))"
      using db_invD(3) [OF inv] by (auto simp: accounts_ok_def distinct_map_filter)
    then have acc: "accounts_ok (wallet_instances c) (wallet_accounts c')"
      using 1 c2(1) by (auto simp: same_tables_def relabelled_def)
    have inv': "db_inv env c'" using inv c2 same acc by (simp add: db_inv_def relabelled_def)
    have kept: "labels_kept w (wallet_account_labels c) (wallet_account_labels c')" using c2(2) same(3) by simp
    have view: "db_reqs env c' = db_reqs env c" "db_insts env c' = db_insts env c"
      using same by (simp_all add: db_reqs_def db_insts_def fun_eq_iff)
    show ?case
    proof (intro conjI impI)
      assume own: "\<forall>acc \<in> set as. wa_wallet_instance_id acc = w"
      note eff = replaced_accounts [OF inv own w kept same(4) acc]
      show "\<forall>w'. w' \<noteq> w \<longrightarrow> db_accts env c' w' = db_accts env c w'"
        "\<forall>a. db_accts env c' w a = None \<longleftrightarrow> a \<notin> wa_address ` set as"
        "\<forall>acc \<in> set as. \<exists>l. db_accts env c' w (wa_address acc) = Some (acc\<lparr>wa_label := l\<rparr>)"
        using eff by blast+
    qed (use inv' view kept in simp_all)
  qed simp_all
  show "wp (bind (is_local_account_wallet env w) (\<lambda>local.
        bind (if local then ensure_local_account_labels env w as else ok ()) (\<lambda>_.
        bind (statement env (\<lambda>c. (Inr (), c\<lparr>wallet_accounts :=
                filter (\<lambda>a. aw_wallet_instance_id a \<noteq> w) (wallet_accounts c)\<rparr>))) (\<lambda>_.
        for_each as (insert_account env)))))
      (\<lambda>_ c3. \<forall>c'. same_tables c3 c' \<longrightarrow> ?Q c') (\<lambda>_ _. True) c1"
  proof (rule wp_bind, rule db_is_local [OF c1], rule wp_bind, intro wp_if wp_ok)
    fix c2 assume c2: "same_tables c c2" and w: "has_key iw_wallet_instance_id w (wallet_instances c)"
    show "wp (ensure_local_account_labels env w as) (\<lambda>_. wp (bind (statement env (\<lambda>c. (Inr (), c\<lparr>wallet_accounts :=
                filter (\<lambda>a. aw_wallet_instance_id a \<noteq> w) (wallet_accounts c)\<rparr>))) (\<lambda>_.
        for_each as (insert_account env))) (\<lambda>_ c3. \<forall>c'. same_tables c3 c' \<longrightarrow> ?Q c') (\<lambda>_ _. True)) (\<lambda>_ _. True) c2"
      by (rule ensure_labels_wp [OF c2]) (rule rest [OF _ _ w])
    have "labels_kept w (wallet_account_labels c) (wallet_account_labels c2)"
      using c2 by (simp add: labels_kept_def same_tables_def)
    with c2 w show "wp (bind (statement env (\<lambda>c. (Inr (), c\<lparr>wallet_accounts :=
                filter (\<lambda>a. aw_wallet_instance_id a \<noteq> w) (wallet_accounts c)\<rparr>))) (\<lambda>_.
        for_each as (insert_account env))) (\<lambda>_ c3. \<forall>c'. same_tables c3 c' \<longrightarrow> ?Q c') (\<lambda>_ _. True) c2"
      by (intro rest) (auto intro: relabelled_refl)
  qed simp_all
qed (rule same_tables_unchanged [OF _ inv])

end
