(* ===== verification/Coordinator.thy ===== *)
theory Coordinator
  imports Store_Interface
begin

text \<open>
  The coordinator of \<open>starmask-core/src/service.rs\<close>: the state of \<open>Coordinator<S, P, C, G>\<close>, one
  definition per method and helper function, and \<open>dispatch\<close>. The trait implementations are
  arguments (\<open>Traits\<close>). A clock reading, a new identifier and a store call each change the state:
  the clock and the identifier generators are read one after the other from their sources.
\<close>

section \<open>Policy, clock, identifiers\<close>

record PolicyEngine =
  check_account_listing :: "CoreError + unit"
  check_public_key_lookup :: "string \<Rightarrow> CoreError + unit"
  check_create_sign_transaction :: "CreateSignTransactionCommand \<Rightarrow> CoreError + unit"
  check_create_sign_message :: "CreateSignMessageCommand \<Rightarrow> CoreError + unit"
  check_create_account :: "CreateAccountCommand \<Rightarrow> CoreError + unit"
  check_create_export_account :: "CreateExportAccountCommand \<Rightarrow> CoreError + unit"
  check_create_import_account :: "CreateImportAccountCommand \<Rightarrow> CoreError + unit"

definition AllowAllPolicy :: PolicyEngine where
  "AllowAllPolicy =
     \<lparr>check_account_listing = Inr (), check_public_key_lookup = (\<lambda>_. Inr ()),
      check_create_sign_transaction = (\<lambda>_. Inr ()), check_create_sign_message = (\<lambda>_. Inr ()),
      check_create_account = (\<lambda>_. Inr ()), check_create_export_account = (\<lambda>_. Inr ()),
      check_create_import_account = (\<lambda>_. Inr ())\<rparr>"

text \<open>
  \<open>json_to_vec\<close> is \<open>serde_json::to_vec\<close> on a payload (its error as text) and \<open>sha256_hex\<close> is
  \<open>hex::encode(Sha256::digest(..))\<close>: code of other crates, arguments of the model.
\<close>

record 's Traits =
  store_impl :: "'s Store"
  policy_impl :: PolicyEngine
  json_to_vec :: "RequestPayload \<Rightarrow> string + nat list"
  sha256_hex :: "nat list \<Rightarrow> string"

record 's Coordinator =
  store :: 's
  clock :: "nat \<Rightarrow> TimestampMs"
  clock_reads :: nat
  request_id_source :: "nat \<Rightarrow> CoreError + RequestId"
  request_ids_drawn :: nat
  lease_id_source :: "nat \<Rightarrow> CoreError + DeliveryLeaseId"
  lease_ids_drawn :: nat
  config :: CoordinatorConfig

type_synonym ('s, 'a) core = "('s Coordinator, CoreError, 'a) fallible"

definition Coordinator_new ::
  "'s \<Rightarrow> (nat \<Rightarrow> TimestampMs) \<Rightarrow> (nat \<Rightarrow> CoreError + RequestId) \<Rightarrow> (nat \<Rightarrow> CoreError + DeliveryLeaseId) \<Rightarrow>
   CoordinatorConfig \<Rightarrow> 's Coordinator" where
  "Coordinator_new st clk rids lids cfg =
     \<lparr>store = st, clock = clk, clock_reads = 0, request_id_source = rids, request_ids_drawn = 0,
      lease_id_source = lids, lease_ids_drawn = 0, config = cfg\<rparr>"

definition now :: "('s, TimestampMs) core" where
  "now c = (Inr (clock c (clock_reads c)), c\<lparr>clock_reads := Suc (clock_reads c)\<rparr>)"

definition new_request_id :: "('s, RequestId) core" where
  "new_request_id c = (request_id_source c (request_ids_drawn c), c\<lparr>request_ids_drawn := Suc (request_ids_drawn c)\<rparr>)"

definition new_delivery_lease_id :: "('s, DeliveryLeaseId) core" where
  "new_delivery_lease_id c = (lease_id_source c (lease_ids_drawn c), c\<lparr>lease_ids_drawn := Suc (lease_ids_drawn c)\<rparr>)"

definition the_config :: "('s, CoordinatorConfig) core" where
  "the_config c = (Inr (config c), c)"

text \<open>A store call followed by \<open>?\<close>, which converts the repository error.\<close>

definition on_store :: "('s, 'a) repo \<Rightarrow> ('s, 'a) core" where
  "on_store m c =
     (case m (store c) of
        (Inl e, s') \<Rightarrow> (Inl (Repository e), c\<lparr>store := s'\<rparr>)
      | (Inr x, s') \<Rightarrow> (Inr x, c\<lparr>store := s'\<rparr>))"

section \<open>Helper functions\<close>

definition calculate_payload_hash :: "'s Traits \<Rightarrow> RequestPayload \<Rightarrow> CoreError + PayloadHash" where
  "calculate_payload_hash T p =
     (case json_to_vec T p of
        Inl error \<Rightarrow> Inl (Invariant (''payload serialization failed: '' @ error))
      | Inr encoded \<Rightarrow>
          (case id_try_from ''PayloadHash'' (sha256_hex T encoded) of
             Inl error \<Rightarrow> Inl (Invariant (''payload hash generation produced an invalid id: ''
                            @ IdValidationError_to_string error))
           | Inr h \<Rightarrow> Inr h))"

definition is_wallet_stale :: "TimestampMs \<Rightarrow> TimestampMs \<Rightarrow> DurationSeconds \<Rightarrow> bool" where
  "is_wallet_stale last_seen_at t stale_after =
     (let threshold_millis =
        (case (case u64_checked_mul stale_after 1000 of None \<Rightarrow> None | Some v \<Rightarrow> i64_try_from_u64 v) of
           None \<Rightarrow> i64_MAX | Some v \<Rightarrow> v)
      in threshold_millis \<le> i64_saturating_sub t last_seen_at)"

fun capability_for_request :: "RequestKind \<Rightarrow> WalletCapability" where
  "capability_for_request SignTransaction = SignTransactionCap"
| "capability_for_request SignMessage = SignMessageCap"
| "capability_for_request CreateAccount = CreateAccountCap"
| "capability_for_request ExportAccount = ExportAccountCap"
| "capability_for_request ImportAccount = ImportAccountCap"

definition canonical_capabilities :: "WalletCapability list \<Rightarrow> WalletCapability list" where
  "canonical_capabilities cs = remdups_adj (sort cs)"

text \<open>The derived \<open>Debug\<close> texts that reach error messages.\<close>

fun debug_capability :: "WalletCapability \<Rightarrow> string" where
  "debug_capability UnlockCap = ''Unlock''"
| "debug_capability GetPublicKeyCap = ''GetPublicKey''"
| "debug_capability SignMessageCap = ''SignMessage''"
| "debug_capability SignTransactionCap = ''SignTransaction''"
| "debug_capability CreateAccountCap = ''CreateAccount''"
| "debug_capability ExportAccountCap = ''ExportAccount''"
| "debug_capability ImportAccountCap = ''ImportAccount''"

fun debug_result_kind :: "ResultKind \<Rightarrow> string" where
  "debug_result_kind SignedTransaction = ''SignedTransaction''"
| "debug_result_kind SignedMessage = ''SignedMessage''"
| "debug_result_kind CreatedAccount = ''CreatedAccount''"
| "debug_result_kind ExportedAccount = ''ExportedAccount''"
| "debug_result_kind ImportedAccount = ''ImportedAccount''"
| "debug_result_kind NoResult = ''None''"

definition project_request_summary :: "RequestRecord \<Rightarrow> CreateRequestResult" where
  "project_request_summary r =
     \<lparr>crr_request_id = request_id r, crr_client_request_id = client_request_id r, crr_kind = kind r,
      crr_status = status r, crr_wallet_instance_id = wallet_instance_id r,
      crr_created_at = created_at r, crr_expires_at = expires_at r\<rparr>"

definition project_request_status :: "RequestRecord \<Rightarrow> GetRequestStatusResult" where
  "project_request_status r =
     \<lparr>grs_request_id = request_id r, grs_client_request_id = client_request_id r, grs_kind = kind r,
      grs_status = status r, grs_wallet_instance_id = wallet_instance_id r,
      grs_created_at = created_at r, grs_expires_at = expires_at r,
      grs_result_kind = (case result r of Some x \<Rightarrow> result_kind x | None \<Rightarrow> expected_result_kind (kind r)),
      grs_result_available = (result r \<noteq> None), grs_result_expires_at = result_expires_at r,
      grs_error_code = last_error_code r, grs_error_message = last_error_message r, grs_result = result r\<rparr>"

text \<open>The payload's part of a pulled request: hint, context, transaction, message, format, file, force, key file.\<close>

fun pulled_payload :: "RequestPayload \<Rightarrow> string option \<times> string option \<times> string option \<times> string option \<times>
    MessageFormat option \<times> string option \<times> bool \<times> string option" where
  "pulled_payload (PSignTransaction p) =
     (tp_display_hint p, tp_client_context p, Some (tp_raw_txn_bcs_hex p), None, None, None, False, None)"
| "pulled_payload (PSignMessage p) =
     (mp_display_hint p, mp_client_context p, None, Some (mp_message p), Some (mp_format p), None, False, None)"
| "pulled_payload (PCreateAccount p) =
     (cap_display_hint p, cap_client_context p, None, None, None, None, False, None)"
| "pulled_payload (PExportAccount p) =
     (eap_display_hint p, eap_client_context p, None, None, None, Some (eap_output_file p), eap_force p, None)"
| "pulled_payload (PImportAccount p) =
     (iap_display_hint p, iap_client_context p, None, None, None, None, False, Some (iap_private_key_file p))"

definition project_pulled_request :: "RequestRecord \<Rightarrow> bool \<Rightarrow> PulledRequest" where
  "project_pulled_request r resume_required =
     (let (hint, ctx, raw, msg, fmt, file, frc, key) = pulled_payload (payload r) in
      \<lparr>pr_request_id = request_id r, pr_client_request_id = client_request_id r, pr_kind = kind r,
       pr_account_address = account_address r, pr_payload_hash = payload_hash r,
       pr_display_hint = hint, pr_client_context = ctx, pr_resume_required = resume_required,
       pr_delivery_lease_id = (if \<not> resume_required then map_option delivery_lease_id (delivery_lease r) else None),
       pr_lease_expires_at = (if \<not> resume_required then map_option delivery_lease_expires_at (delivery_lease r) else None),
       pr_presentation_id = (if resume_required then map_option presentation_id (presentation r) else None),
       pr_presentation_expires_at = (if resume_required then map_option presentation_expires_at (presentation r) else None),
       pr_raw_txn_bcs_hex = raw, pr_message = msg, pr_message_format = fmt, pr_output_file = file,
       pr_force = frc, pr_private_key_file = key\<rparr>)"

definition validate_delivery_lease :: "RequestRecord \<Rightarrow> DeliveryLeaseId \<Rightarrow> TimestampMs \<Rightarrow> CoreError + unit" where
  "validate_delivery_lease r lid t =
     (case delivery_lease r of
        None \<Rightarrow> Inl (shared LeaseMismatch ''request does not have an active delivery lease'')
      | Some lease \<Rightarrow>
          if delivery_lease_id lease \<noteq> lid
          then Inl (shared LeaseMismatch ''delivery lease does not match the active claim'')
          else if delivery_lease_expires_at lease \<le> t
          then Inl (shared LeaseMismatch ''delivery lease already expired'')
          else Inr ())"

definition validate_presentation :: "RequestRecord \<Rightarrow> PresentationId \<Rightarrow> TimestampMs \<Rightarrow> CoreError + unit" where
  "validate_presentation r pid t =
     (if status r \<noteq> PendingUserApproval then Inl (InvalidStateTransition (status r) Approved)
      else (case presentation r of
        None \<Rightarrow> Inl (shared LeaseMismatch ''request does not have an active presentation lease'')
      | Some p \<Rightarrow>
          if presentation_id p \<noteq> pid
          then Inl (shared LeaseMismatch ''presentation id does not match the active request presentation'')
          else if presentation_expires_at p \<le> t
          then Inl (shared LeaseMismatch ''presentation lease already expired'')
          else Inr ()))"

definition validate_request_result :: "RequestRecord \<Rightarrow> RequestResult \<Rightarrow> CoreError + unit" where
  "validate_request_result r x =
     (let expected = expected_result_kind (kind r); actual = result_kind x in
      if expected \<noteq> actual
      then Inl (Validation (''request expects result kind '' @ debug_result_kind expected
                  @ '' but received '' @ debug_result_kind actual))
      else Inr ())"

fun map_reject_reason :: "RejectReasonCode \<Rightarrow> RequestStatus \<times> SharedErrorCode \<times> string" where
  "map_reject_reason RRequestRejected = (Rejected, RequestRejected, ''Request rejected by user'')"
| "map_reject_reason RRequestExpired = (Expired, RequestExpired, ''Request expired before approval completed'')"
| "map_reject_reason RWalletLocked = (Failed, WalletLocked, ''Wallet became locked before signing completed'')"
| "map_reject_reason RUnsupportedOperation =
     (Failed, UnsupportedOperation, ''Wallet cannot safely approve this operation'')"
| "map_reject_reason RInvalidTransactionPayload =
     (Failed, InvalidTransactionPayload, ''Wallet rejected an invalid transaction payload'')"
| "map_reject_reason RInvalidMessagePayload =
     (Failed, InvalidMessagePayload, ''Wallet rejected an invalid message payload'')"
| "map_reject_reason RBackendUnavailable =
     (Failed, BackendUnavailable, ''Backend became unavailable before signing completed'')"
| "map_reject_reason RBackendPolicyBlocked =
     (Failed, BackendPolicyBlocked, ''Backend policy blocked the request'')"
| "map_reject_reason RInternalError =
     (Failed, InternalBridgeError, ''Wallet failed to complete the request'')"

definition transition_request :: "RequestRecord \<Rightarrow> RequestStatus \<Rightarrow> TimestampMs \<Rightarrow> CoreError + RequestRecord" where
  "transition_request r next t =
     (if status r = next then Inr r
      else if \<not> can_transition_to (status r) next then Inl (InvalidStateTransition (status r) next)
      else Inr (r\<lparr>status := next, updated_at := t\<rparr>))"

section \<open>Queries\<close>

definition system_ping :: "CoordinatorConfig \<Rightarrow> SystemPingResult" where
  "system_ping cfg =
     \<lparr>spr_ok = True, spr_daemon_protocol_version = DAEMON_PROTOCOL_VERSION,
      spr_daemon_version = cfg_daemon_version cfg\<rparr>"

definition system_get_info :: "CoordinatorConfig \<Rightarrow> SystemGetInfoResult" where
  "system_get_info cfg =
     \<lparr>sgi_daemon_protocol_version = DAEMON_PROTOCOL_VERSION, sgi_daemon_version = cfg_daemon_version cfg,
      sgi_socket_scope = cfg_socket_scope cfg, sgi_db_schema_version = cfg_db_schema_version cfg,
      sgi_result_retention_seconds = cfg_result_retention cfg,
      sgi_default_request_ttl_seconds = cfg_default_request_ttl cfg\<rparr>"

definition require_wallet_instance :: "'s Traits \<Rightarrow> WalletInstanceId \<Rightarrow> ('s, WalletInstanceRecord) core" where
  "require_wallet_instance T w =
     bind (on_store (get_wallet_instance (store_impl T) w)) (\<lambda>found.
     ok_or found (shared WalletInstanceNotFound ''Wallet instance was not found''))"

definition require_owned_request :: "'s Traits \<Rightarrow> RequestId \<Rightarrow> WalletInstanceId \<Rightarrow> ('s, RequestRecord) core" where
  "require_owned_request T rid w =
     bind (on_store (get_request (store_impl T) rid)) (\<lambda>found.
     bind (ok_or found (shared RequestNotFound ''Request not found'')) (\<lambda>r.
     if wallet_instance_id r \<noteq> w
     then err (shared RequestNotOwned ''wallet instance does not own this request'')
     else ok r))"

text \<open>\<open>matches.sort(); matches.dedup()\<close>, then the count decides.\<close>

definition resolve_wallet_instance_for_account ::
  "'s Traits \<Rightarrow> string \<Rightarrow> WalletInstanceId option \<Rightarrow> ('s, WalletInstanceId) core" where
  "resolve_wallet_instance_for_account T address wid =
     (case wid of
        Some w \<Rightarrow>
          bind (on_store (get_wallet_account (store_impl T) w address)) (\<lambda>account.
          if account = None
          then err (shared InvalidAccount ''Account is not exposed by the selected wallet instance'')
          else ok w)
      | None \<Rightarrow>
          bind (on_store (list_wallet_accounts (store_impl T) None)) (\<lambda>accounts.
          case remdups_adj (sort (map wa_wallet_instance_id (filter (\<lambda>a. wa_address a = address) accounts))) of
            [] \<Rightarrow> err (shared InvalidAccount ''Account is not exposed by any known wallet instance'')
          | [w] \<Rightarrow> ok w
          | _ \<Rightarrow> err (shared WalletSelectionRequired ''Multiple wallet instances expose the requested account'')))"

definition wallet_status :: "'s Traits \<Rightarrow> ('s, WalletStatusResult) core" where
  "wallet_status T =
     bind (on_store (list_wallet_instances (store_impl T) False)) (\<lambda>instances.
     ok \<lparr>wsr_wallet_available = (instances \<noteq> []),
         wsr_wallet_online = list_ex wi_connected instances,
         wsr_default_wallet_instance_id =
           (case find (\<lambda>i. wi_connected i \<and> wi_lock_state i = Unlocked) instances of
              Some i \<Rightarrow> Some (wi_wallet_instance_id i)
            | None \<Rightarrow> map_option wi_wallet_instance_id (find wi_connected instances)),
         wsr_wallet_instances = map WalletInstanceSummary_from instances\<rparr>)"

definition wallet_list_instances :: "'s Traits \<Rightarrow> bool \<Rightarrow> ('s, WalletInstanceSummary list) core" where
  "wallet_list_instances T connected_only =
     bind (on_store (list_wallet_instances (store_impl T) connected_only)) (\<lambda>instances.
     ok (map WalletInstanceSummary_from instances))"

text \<open>The three loops of \<open>wallet_list_accounts\<close>; the \<open>BTreeMap\<close> is a map.\<close>

definition empty_group :: "WalletInstanceRecord \<Rightarrow> WalletAccountGroup" where
  "empty_group i =
     \<lparr>wag_wallet_instance_id = wi_wallet_instance_id i, wag_instance_label = wi_instance_label i,
      wag_extension_connected = wi_connected i, wag_lock_state = wi_lock_state i, wag_accounts = []\<rparr>"

fun add_account :: "bool \<Rightarrow> WalletAccountRecord \<Rightarrow> (WalletInstanceId \<Rightarrow> WalletAccountGroup option) \<Rightarrow>
    WalletInstanceId \<Rightarrow> WalletAccountGroup option" where
  "add_account include_public_key a grouped =
     (case grouped (wa_wallet_instance_id a) of
        None \<Rightarrow> grouped
      | Some g \<Rightarrow> grouped(wa_wallet_instance_id a \<mapsto> g\<lparr>wag_accounts := wag_accounts g @
          [\<lparr>was_address = wa_address a, was_label = wa_label a,
            was_public_key = (if include_public_key then wa_public_key a else None),
            was_is_default = wa_is_default a, was_is_read_only = wa_is_read_only a,
            was_is_locked = wa_is_locked a\<rparr>]\<rparr>))"

fun take_groups :: "WalletInstanceId list \<Rightarrow> (WalletInstanceId \<Rightarrow> WalletAccountGroup option) \<Rightarrow> WalletAccountGroup list" where
  "take_groups [] grouped = []"
| "take_groups (w # ws) grouped =
     (case grouped w of
        None \<Rightarrow> take_groups ws (grouped(w := None))
      | Some g \<Rightarrow> g # take_groups ws (grouped(w := None)))"

definition wallet_list_accounts ::
  "'s Traits \<Rightarrow> WalletInstanceId option \<Rightarrow> bool \<Rightarrow> ('s, WalletAccountGroup list) core" where
  "wallet_list_accounts T wid include_public_key =
     bind (of_result (check_account_listing (policy_impl T))) (\<lambda>_.
     bind (on_store (list_wallet_instances (store_impl T) False)) (\<lambda>instances.
     bind (on_store (list_wallet_accounts (store_impl T) wid)) (\<lambda>accounts.
     let targets = filter (\<lambda>i. case wid of Some t \<Rightarrow> wi_wallet_instance_id i = t | None \<Rightarrow> True) instances;
         grouped = fold (\<lambda>i g. g(wi_wallet_instance_id i \<mapsto> empty_group i)) targets Map.empty
     in ok (take_groups (map wi_wallet_instance_id targets)
              (fold (add_account include_public_key) accounts grouped)))))"

definition wallet_get_public_key ::
  "'s Traits \<Rightarrow> string \<Rightarrow> WalletInstanceId option \<Rightarrow> ('s, WalletGetPublicKeyResult) core" where
  "wallet_get_public_key T address wid =
     bind (of_result (check_public_key_lookup (policy_impl T) address)) (\<lambda>_.
     bind (resolve_wallet_instance_for_account T address wid) (\<lambda>selected.
     bind (require_wallet_instance T selected) (\<lambda>inst.
     bind (on_store (get_wallet_account (store_impl T) selected address)) (\<lambda>found.
     bind (ok_or found (shared InvalidAccount ''Account not found'')) (\<lambda>account.
     case wa_public_key account of
       Some public_key \<Rightarrow>
         ok \<lparr>gpk_wallet_instance_id = selected, gpk_address = address, gpk_public_key = public_key,
             gpk_curve = Ed25519\<rparr>
     | None \<Rightarrow>
         if wi_lock_state inst = Locked
         then err (shared WalletLocked ''Wallet is locked and no cached public key is available'')
         else err (shared ResultUnavailable ''Public key is not cached for this account''))))))"

definition wallet_set_account_label ::
  "'s Traits \<Rightarrow> SetAccountLabelCommand \<Rightarrow> ('s, WalletSetAccountLabelResult) core" where
  "wallet_set_account_label T cmd =
     bind (on_store (get_wallet_instance (store_impl T) (sal_wallet_instance_id cmd))) (\<lambda>found.
     bind (ok_or found (shared WalletInstanceNotFound
             (''wallet instance '' @ sal_wallet_instance_id cmd @ '' was not found''))) (\<lambda>inst.
     if wi_backend_kind inst \<noteq> LocalAccountDir
     then err (shared UnsupportedOperation
            (''wallet instance '' @ sal_wallet_instance_id cmd @ '' does not support daemon-managed account labels''))
     else let label = trim (sal_label cmd) in
       if label = [] then err (shared InvalidAccount ''account label cannot be empty'')
       else
         bind (on_store (get_wallet_account (store_impl T) (sal_wallet_instance_id cmd) (sal_address cmd))) (\<lambda>account.
         if account = None
         then err (shared InvalidAccount (''account '' @ sal_address cmd @ '' was not found''))
         else
           bind (on_store (set_wallet_account_label (store_impl T) (sal_wallet_instance_id cmd) (sal_address cmd) label)) (\<lambda>account.
           ok \<lparr>slr_wallet_instance_id = sal_wallet_instance_id cmd,
               slr_account = WalletAccountSummary_from account\<rparr>))))"

section \<open>Creating requests\<close>

definition resolve_wallet_for_signing ::
  "'s Traits \<Rightarrow> RequestKind \<Rightarrow> string \<Rightarrow> WalletInstanceId option \<Rightarrow> ('s, WalletInstanceId) core" where
  "resolve_wallet_for_signing T k address wid =
     bind (resolve_wallet_instance_for_account T address wid) (\<lambda>selected.
     bind (require_wallet_instance T selected) (\<lambda>wallet.
     let capability = capability_for_request k in
     if capability \<notin> set (wi_capabilities wallet)
     then err (shared UnsupportedOperation
            (''Selected wallet instance does not support '' @ debug_capability capability))
     else if \<not> wi_connected wallet
     then err (shared WalletUnavailable ''Selected wallet instance is not connected'')
     else if wi_lock_state wallet \<noteq> Unlocked \<and> UnlockCap \<notin> set (wi_capabilities wallet)
     then err (shared WalletLocked ''Selected wallet instance is locked'')
     else
       bind (on_store (get_wallet_account (store_impl T) selected address)) (\<lambda>found.
       bind (ok_or found (shared InvalidAccount ''Account is not exposed by the selected wallet instance'')) (\<lambda>account.
       if wa_is_read_only account
       then err (shared UnsupportedOperation ''Selected account is read-only and cannot sign'')
       else ok selected))))"

definition resolve_wallet_for_request ::
  "'s Traits \<Rightarrow> RequestKind \<Rightarrow> string \<Rightarrow> WalletInstanceId option \<Rightarrow> ('s, WalletInstanceId) core" where
  "resolve_wallet_for_request T k address wid =
     (if k = CreateAccount \<or> k = ImportAccount then
        bind (ok_or wid (shared WalletSelectionRequired
                ''wallet_instance_id is required for wallet mutation requests'')) (\<lambda>w.
        bind (require_wallet_instance T w) (\<lambda>wallet.
        let capability = capability_for_request k in
        if capability \<notin> set (wi_capabilities wallet)
        then err (shared UnsupportedOperation
               (''Selected wallet instance does not support '' @ debug_capability capability))
        else if \<not> wi_connected wallet
        then err (shared WalletUnavailable ''Selected wallet instance is not connected'')
        else ok w))
      else resolve_wallet_for_signing T k address wid)"

definition clamp_ttl :: "CoordinatorConfig \<Rightarrow> DurationSeconds option \<Rightarrow> DurationSeconds" where
  "clamp_ttl cfg ttl_seconds =
     (let ttl = (case ttl_seconds of Some t \<Rightarrow> t | None \<Rightarrow> cfg_default_request_ttl cfg)
      in min (max ttl (cfg_min_request_ttl cfg)) (cfg_max_request_ttl cfg))"

definition new_request_record ::
  "RequestId \<Rightarrow> ClientRequestId \<Rightarrow> RequestKind \<Rightarrow> WalletInstanceId \<Rightarrow> string \<Rightarrow> PayloadHash \<Rightarrow> RequestPayload \<Rightarrow>
   TimestampMs \<Rightarrow> TimestampMs \<Rightarrow> RequestRecord" where
  "new_request_record rid cid k w address h p created expires =
     \<lparr>request_id = rid, client_request_id = cid, kind = k, status = Created, wallet_instance_id = w,
      account_address = address, payload_hash = h, payload = p, result = None, created_at = created,
      expires_at = expires, updated_at = created, approved_at = None, rejected_at = None,
      cancelled_at = None, failed_at = None, result_expires_at = None, last_error_code = None,
      last_error_message = None, reject_reason_code = None, delivery_lease = None, presentation = None\<rparr>"

definition create_request ::
  "'s Traits \<Rightarrow> ClientRequestId \<Rightarrow> string \<Rightarrow> WalletInstanceId option \<Rightarrow> RequestKind \<Rightarrow> RequestPayload \<Rightarrow>
   DurationSeconds option \<Rightarrow> ('s, CreateRequestResult) core" where
  "create_request T cid address wid k p ttl_seconds =
     bind (of_result (calculate_payload_hash T p)) (\<lambda>h.
     bind (on_store (get_request_by_client_request_id (store_impl T) cid)) (\<lambda>found.
     case found of
       Some existing \<Rightarrow>
         (let signing_target_matches = account_address existing = address \<and>
                (case wid of Some requested \<Rightarrow> requested = wallet_instance_id existing | None \<Rightarrow> True)
          in if payload_hash existing = h \<and> signing_target_matches
             then ok (project_request_summary existing)
             else err (shared IdempotencyKeyConflict
                    ''client_request_id already exists with a different payload or signing target''))
     | None \<Rightarrow>
         bind (resolve_wallet_for_request T k address wid) (\<lambda>selected.
         bind now (\<lambda>t.
         bind the_config (\<lambda>cfg.
         bind (ok_or (checked_add_seconds t (clamp_ttl cfg ttl_seconds))
                 (Invariant ''request expiration overflowed timestamp range'')) (\<lambda>expires.
         bind new_request_id (\<lambda>rid.
         bind (on_store (insert_request (store_impl T)
                 (new_request_record rid cid k selected address h p t expires))) (\<lambda>r.
         ok (project_request_summary r)))))))))"

definition create_sign_transaction_request ::
  "'s Traits \<Rightarrow> CreateSignTransactionCommand \<Rightarrow> ('s, CreateRequestResult) core" where
  "create_sign_transaction_request T cmd =
     bind (of_result (check_create_sign_transaction (policy_impl T) cmd)) (\<lambda>_.
     create_request T (cst_client_request_id cmd) (cst_account_address cmd) (cst_wallet_instance_id cmd)
       SignTransaction
       (PSignTransaction \<lparr>tp_chain_id = cst_chain_id cmd, tp_raw_txn_bcs_hex = cst_raw_txn_bcs_hex cmd,
          tp_tx_kind = cst_tx_kind cmd, tp_display_hint = cst_display_hint cmd,
          tp_client_context = cst_client_context cmd\<rparr>)
       (cst_ttl_seconds cmd))"

definition create_account_request :: "'s Traits \<Rightarrow> CreateAccountCommand \<Rightarrow> ('s, CreateRequestResult) core" where
  "create_account_request T cmd =
     bind (of_result (check_create_account (policy_impl T) cmd)) (\<lambda>_.
     create_request T (cac_client_request_id cmd) [] (Some (cac_wallet_instance_id cmd)) CreateAccount
       (PCreateAccount \<lparr>cap_display_hint = cac_display_hint cmd, cap_client_context = cac_client_context cmd\<rparr>)
       (cac_ttl_seconds cmd))"

definition create_export_account_request ::
  "'s Traits \<Rightarrow> CreateExportAccountCommand \<Rightarrow> ('s, CreateRequestResult) core" where
  "create_export_account_request T cmd =
     bind (of_result (check_create_export_account (policy_impl T) cmd)) (\<lambda>_.
     create_request T (cea_client_request_id cmd) (cea_account_address cmd) (cea_wallet_instance_id cmd)
       ExportAccount
       (PExportAccount \<lparr>eap_output_file = cea_output_file cmd, eap_force = cea_force cmd,
          eap_display_hint = cea_display_hint cmd, eap_client_context = cea_client_context cmd\<rparr>)
       (cea_ttl_seconds cmd))"

definition create_import_account_request ::
  "'s Traits \<Rightarrow> CreateImportAccountCommand \<Rightarrow> ('s, CreateRequestResult) core" where
  "create_import_account_request T cmd =
     bind (of_result (check_create_import_account (policy_impl T) cmd)) (\<lambda>_.
     if trim (cia_account_address cmd) = []
     then err (shared InvalidAccount ''account_address is required for import requests'')
     else
       create_request T (cia_client_request_id cmd) (cia_account_address cmd) (Some (cia_wallet_instance_id cmd))
         ImportAccount
         (PImportAccount \<lparr>iap_private_key_file = cia_private_key_file cmd,
            iap_display_hint = cia_display_hint cmd, iap_client_context = cia_client_context cmd\<rparr>)
         (cia_ttl_seconds cmd))"

definition create_sign_message_request ::
  "'s Traits \<Rightarrow> CreateSignMessageCommand \<Rightarrow> ('s, CreateRequestResult) core" where
  "create_sign_message_request T cmd =
     bind (of_result (check_create_sign_message (policy_impl T) cmd)) (\<lambda>_.
     create_request T (csm_client_request_id cmd) (csm_account_address cmd) (csm_wallet_instance_id cmd)
       SignMessage
       (PSignMessage \<lparr>mp_message = csm_message cmd, mp_format = csm_format cmd,
          mp_display_hint = csm_display_hint cmd, mp_client_context = csm_client_context cmd\<rparr>)
       (csm_ttl_seconds cmd))"

section \<open>Following a request\<close>

definition get_request_status :: "'s Traits \<Rightarrow> RequestId \<Rightarrow> ('s, GetRequestStatusResult) core" where
  "get_request_status T rid =
     bind (on_store (get_request (store_impl T) rid)) (\<lambda>found.
     bind (ok_or found (shared RequestNotFound ''Request not found'')) (\<lambda>r.
     ok (project_request_status r)))"

definition request_has_available :: "'s Traits \<Rightarrow> WalletInstanceId \<Rightarrow> ('s, RequestHasAvailableResult) core" where
  "request_has_available T w =
     bind (on_store (list_non_terminal_requests (store_impl T))) (\<lambda>rs.
     ok \<lparr>rha_wallet_instance_id = w,
         rha_available = list_ex (\<lambda>r. wallet_instance_id r = w \<and> status r \<in> {Created, PendingUserApproval}) rs\<rparr>)"

definition cancel_request :: "'s Traits \<Rightarrow> RequestId \<Rightarrow> ('s, CancelRequestResult) core" where
  "cancel_request T rid =
     bind (on_store (get_request (store_impl T) rid)) (\<lambda>found.
     bind (ok_or found (shared RequestNotFound ''Request not found'')) (\<lambda>r.
     bind (if \<not> is_terminal (status r) then
             bind now (\<lambda>t.
             bind (of_result (transition_request r Cancelled t)) (\<lambda>r1.
             bind now (\<lambda>t'.
             let r2 = r1\<lparr>cancelled_at := Some t', last_error_code := Some RequestCancelled,
                         last_error_message := Some ''Request cancelled by caller'',
                         delivery_lease := None, presentation := None\<rparr>
             in bind (on_store (update_request (store_impl T) r2)) (\<lambda>_. ok r2))))
           else ok r) (\<lambda>r'.
     ok \<lparr>crq_request_id = request_id r', crq_status = status r', crq_error_code = last_error_code r'\<rparr>)))"

section \<open>Wallet backends\<close>

definition stamp_account :: "TimestampMs \<Rightarrow> WalletAccountRecord \<Rightarrow> WalletAccountRecord" where
  "stamp_account t a = a\<lparr>wa_last_seen_at := t\<rparr>"

definition register_backend :: "'s Traits \<Rightarrow> RegisterBackendCommand \<Rightarrow> ('s, unit) core" where
  "register_backend T cmd =
     bind (on_store (get_wallet_instance (store_impl T) (rbc_wallet_instance_id cmd))) (\<lambda>existing.
     if (case existing of Some i \<Rightarrow> wi_backend_kind i \<noteq> rbc_backend_kind cmd | None \<Rightarrow> False)
     then err (shared InvalidBackendRegistration
            ''wallet_instance_id is already registered for a different backend kind'')
     else
       bind now (\<lambda>t.
       bind (on_store (upsert_wallet_instance (store_impl T)
               \<lparr>wi_wallet_instance_id = rbc_wallet_instance_id cmd, wi_backend_kind = rbc_backend_kind cmd,
                wi_transport_kind = rbc_transport_kind cmd, wi_approval_surface = rbc_approval_surface cmd,
                wi_instance_label = rbc_instance_label cmd, wi_extension_id = rbc_extension_id cmd,
                wi_extension_version = rbc_extension_version cmd, wi_protocol_version = rbc_protocol_version cmd,
                wi_capabilities = canonical_capabilities (rbc_capabilities cmd),
                wi_backend_metadata = rbc_backend_metadata cmd, wi_profile_hint = rbc_profile_hint cmd,
                wi_lock_state = rbc_lock_state cmd, wi_connected = True, wi_last_seen_at = t\<rparr>)) (\<lambda>_.
       on_store (replace_wallet_accounts (store_impl T) (rbc_wallet_instance_id cmd)
         (map (stamp_account t) (rbc_accounts cmd))))))"

definition extension_capabilities :: "WalletCapability list" where
  "extension_capabilities = [GetPublicKeyCap, SignMessageCap, SignTransactionCap]"

definition register_extension :: "'s Traits \<Rightarrow> RegisterExtensionCommand \<Rightarrow> ('s, unit) core" where
  "register_extension T cmd =
     register_backend T
       \<lparr>rbc_wallet_instance_id = rec_wallet_instance_id cmd, rbc_backend_kind = StarmaskExtension,
        rbc_transport_kind = NativeMessaging, rbc_approval_surface = BrowserUi,
        rbc_instance_label = (case rec_profile_hint cmd of Some h \<Rightarrow> h | None \<Rightarrow> rec_wallet_instance_id cmd),
        rbc_extension_id = rec_extension_id cmd, rbc_extension_version = rec_extension_version cmd,
        rbc_protocol_version = rec_protocol_version cmd, rbc_capabilities = extension_capabilities,
        rbc_backend_metadata = VObject
          ([(''extension_id'', VString (rec_extension_id cmd)),
            (''extension_version'', VString (rec_extension_version cmd))] @
           (case rec_profile_hint cmd of Some h \<Rightarrow> [(''profile_hint'', VString h)] | None \<Rightarrow> [])),
        rbc_profile_hint = rec_profile_hint cmd, rbc_lock_state = rec_lock_state cmd,
        rbc_accounts = rec_accounts cmd\<rparr>"

text \<open>The body of the loop of \<open>heartbeat_backend\<close>: three \<open>continue\<close>s, then the refreshed lease.\<close>

definition refresh_presented ::
  "'s Traits \<Rightarrow> WalletInstanceId \<Rightarrow> TimestampMs \<Rightarrow> TimestampMs \<Rightarrow> RequestId \<Rightarrow> ('s, unit) core" where
  "refresh_presented T w t presentation_until rid =
     bind (on_store (get_request (store_impl T) rid)) (\<lambda>found.
     case found of
       None \<Rightarrow> ok ()
     | Some r \<Rightarrow>
         if wallet_instance_id r \<noteq> w \<or> status r \<noteq> PendingUserApproval then ok ()
         else (case presentation r of
           None \<Rightarrow> ok ()
         | Some p \<Rightarrow>
             bind (on_store (update_request (store_impl T)
               (r\<lparr>presentation := Some (p\<lparr>presentation_expires_at := presentation_until\<rparr>), updated_at := t\<rparr>))) (\<lambda>_.
             ok ())))"

definition heartbeat_backend :: "'s Traits \<Rightarrow> HeartbeatBackendCommand \<Rightarrow> ('s, unit) core" where
  "heartbeat_backend T cmd =
     bind (require_wallet_instance T (hbc_wallet_instance_id cmd)) (\<lambda>inst.
     bind now (\<lambda>t.
     bind (on_store (upsert_wallet_instance (store_impl T)
             (inst\<lparr>wi_connected := True, wi_last_seen_at := t,
                   wi_lock_state := (case hbc_lock_state cmd of Some l \<Rightarrow> l | None \<Rightarrow> wi_lock_state inst)\<rparr>))) (\<lambda>_.
     if hbc_presented_request_ids cmd = [] then ok ()
     else
       bind the_config (\<lambda>cfg.
       bind (ok_or (checked_add_seconds t (cfg_presentation_lease_ttl cfg))
               (Invariant ''presentation lease timestamp overflow'')) (\<lambda>presentation_until.
       for_each (hbc_presented_request_ids cmd)
         (refresh_presented T (hbc_wallet_instance_id cmd) t presentation_until))))))"

definition heartbeat_extension :: "'s Traits \<Rightarrow> HeartbeatExtensionCommand \<Rightarrow> ('s, unit) core" where
  "heartbeat_extension T cmd =
     heartbeat_backend T
       \<lparr>hbc_wallet_instance_id = hec_wallet_instance_id cmd,
        hbc_presented_request_ids = hec_presented_request_ids cmd, hbc_lock_state = None\<rparr>"

definition update_backend_accounts :: "'s Traits \<Rightarrow> UpdateBackendAccountsCommand \<Rightarrow> ('s, unit) core" where
  "update_backend_accounts T cmd =
     bind now (\<lambda>t.
     bind (require_wallet_instance T (uba_wallet_instance_id cmd)) (\<lambda>inst.
     bind (on_store (upsert_wallet_instance (store_impl T)
             (inst\<lparr>wi_connected := True, wi_lock_state := uba_lock_state cmd,
                   wi_capabilities := canonical_capabilities (uba_capabilities cmd), wi_last_seen_at := t\<rparr>))) (\<lambda>_.
     on_store (replace_wallet_accounts (store_impl T) (uba_wallet_instance_id cmd)
       (map (stamp_account t) (uba_accounts cmd))))))"

definition update_extension_accounts :: "'s Traits \<Rightarrow> UpdateExtensionAccountsCommand \<Rightarrow> ('s, unit) core" where
  "update_extension_accounts T cmd =
     update_backend_accounts T
       \<lparr>uba_wallet_instance_id = uea_wallet_instance_id cmd, uba_lock_state = uea_lock_state cmd,
        uba_capabilities = extension_capabilities, uba_accounts = uea_accounts cmd\<rparr>"

section \<open>Delivering requests\<close>

text \<open>\<open>Iterator::min_by_key\<close>: the first of the elements with the least key.\<close>

fun min_by_key :: "('a \<Rightarrow> 'k::linorder) \<Rightarrow> 'a list \<Rightarrow> 'a option" where
  "min_by_key f [] = None"
| "min_by_key f (x # xs) =
     (case min_by_key f xs of None \<Rightarrow> Some x | Some y \<Rightarrow> if f x \<le> f y then Some x else Some y)"

lemma min_by_key_None: "min_by_key f xs = None \<longleftrightarrow> xs = []"
  by (cases xs) (auto split: option.splits)

lemma min_by_key_Some: "min_by_key f xs = Some y \<Longrightarrow> y \<in> set xs \<and> (\<forall>x \<in> set xs. f y \<le> f x)"
  by (induction xs arbitrary: y) (fastforce simp: min_by_key_None split: option.splits if_splits)+

definition resumable :: "WalletInstanceId \<Rightarrow> TimestampMs \<Rightarrow> RequestRecord \<Rightarrow> bool" where
  "resumable w t r \<longleftrightarrow>
     wallet_instance_id r = w \<and> status r = PendingUserApproval \<and>
     (case presentation r of None \<Rightarrow> False | Some p \<Rightarrow> t < presentation_expires_at p)"

definition find_resumable_request :: "'s Traits \<Rightarrow> WalletInstanceId \<Rightarrow> ('s, RequestRecord option) core" where
  "find_resumable_request T w =
     bind now (\<lambda>t.
     bind (on_store (list_non_terminal_requests (store_impl T))) (\<lambda>rs.
     ok (min_by_key created_at (filter (resumable w t) rs))))"

text \<open>The lease extension that three handlers write out: it leaves a request without a presentation alone.\<close>

definition extend_presentation :: "CoordinatorConfig \<Rightarrow> TimestampMs \<Rightarrow> RequestRecord \<Rightarrow> CoreError + RequestRecord" where
  "extend_presentation cfg t r =
     (case presentation r of
        None \<Rightarrow> Inr r
      | Some p \<Rightarrow>
          (case checked_add_seconds t (cfg_presentation_lease_ttl cfg) of
             None \<Rightarrow> Inl (Invariant ''presentation lease timestamp overflow'')
           | Some e \<Rightarrow> Inr (r\<lparr>presentation := Some (p\<lparr>presentation_expires_at := e\<rparr>)\<rparr>)))"

definition pull_next_request :: "'s Traits \<Rightarrow> WalletInstanceId \<Rightarrow> ('s, PullNextRequestResult) core" where
  "pull_next_request T w =
     bind (require_wallet_instance T w) (\<lambda>_.
     bind now (\<lambda>t.
     bind (find_resumable_request T w) (\<lambda>found.
     bind the_config (\<lambda>cfg.
     case found of
       Some r \<Rightarrow>
         bind (of_result (extend_presentation cfg t r)) (\<lambda>r1.
         bind (on_store (update_request (store_impl T) (r1\<lparr>updated_at := t\<rparr>))) (\<lambda>r2.
         ok \<lparr>pnr_wallet_instance_id = w, pnr_request = Some (project_pulled_request r2 True)\<rparr>))
     | None \<Rightarrow>
         bind new_delivery_lease_id (\<lambda>lid.
         bind now (\<lambda>t2.
         bind (ok_or (checked_add_seconds t2 (cfg_delivery_lease_ttl cfg))
                 (Invariant ''delivery lease timestamp overflow'')) (\<lambda>expires.
         bind (on_store (claim_next_request_for_wallet (store_impl T) w
                 \<lparr>delivery_lease_id = lid, delivery_lease_expires_at = expires\<rparr> t)) (\<lambda>claimed.
         ok \<lparr>pnr_wallet_instance_id = w,
             pnr_request = map_option (\<lambda>r. project_pulled_request r False) claimed\<rparr>))))))))"

definition mark_request_presented ::
  "'s Traits \<Rightarrow> MarkRequestPresentedCommand \<Rightarrow> ('s, RequestPresentedResult) core" where
  "mark_request_presented T cmd =
     bind now (\<lambda>t.
     bind (require_owned_request T (mrp_request_id cmd) (mrp_wallet_instance_id cmd)) (\<lambda>r.
     bind the_config (\<lambda>cfg.
     bind (if status r = Dispatched then
             bind (ok_or (mrp_delivery_lease_id cmd) (shared LeaseMismatch
                     ''delivery_lease_id is required for the first presentation'')) (\<lambda>lid.
             bind (of_result (validate_delivery_lease r lid t)) (\<lambda>_.
             bind (of_result (transition_request r PendingUserApproval t)) (\<lambda>r1.
             bind (ok_or (checked_add_seconds t (cfg_presentation_lease_ttl cfg))
                     (Invariant ''presentation lease timestamp overflow'')) (\<lambda>e.
             ok (r1\<lparr>presentation := Some \<lparr>presentation_id = mrp_presentation_id cmd, presentation_expires_at = e\<rparr>,
                    delivery_lease := None\<rparr>)))))
           else if status r = PendingUserApproval then
             (if mrp_delivery_lease_id cmd \<noteq> None
              then err (shared LeaseMismatch
                     ''delivery_lease_id is not valid when resuming an existing presentation'')
              else
                bind (of_result (validate_presentation r (mrp_presentation_id cmd) t)) (\<lambda>_.
                bind (of_result (extend_presentation cfg t r)) (\<lambda>r1.
                ok (r1\<lparr>updated_at := t\<rparr>))))
           else err (InvalidStateTransition (status r) PendingUserApproval)) (\<lambda>r'.
     bind (on_store (update_request (store_impl T) r')) (\<lambda>r''.
     ok \<lparr>rpr_request_id = request_id r'', rpr_status = status r''\<rparr>)))))"

definition resolve_request :: "'s Traits \<Rightarrow> ResolveRequestCommand \<Rightarrow> ('s, RequestResolvedResult) core" where
  "resolve_request T cmd =
     bind now (\<lambda>t.
     bind (require_owned_request T (res_request_id cmd) (res_wallet_instance_id cmd)) (\<lambda>r.
     bind (of_result (validate_request_result r (res_result cmd))) (\<lambda>_.
     bind (of_result (validate_presentation r (res_presentation_id cmd) t)) (\<lambda>_.
     bind (of_result (transition_request r Approved t)) (\<lambda>r1.
     bind the_config (\<lambda>cfg.
     bind (on_store (update_request (store_impl T)
             (r1\<lparr>approved_at := Some t, result_expires_at := checked_add_seconds t (cfg_result_retention cfg),
                 result := Some (res_result cmd), last_error_code := None, last_error_message := None,
                 reject_reason_code := None, delivery_lease := None, presentation := None\<rparr>))) (\<lambda>r'.
     ok \<lparr>rrr_request_id = request_id r', rrr_status = status r', rrr_result_kind = result_kind (res_result cmd),
         rrr_result_expires_at = result_expires_at r'\<rparr>)))))))"

definition reject_request :: "'s Traits \<Rightarrow> RejectRequestCommand \<Rightarrow> ('s, RequestRejectedResult) core" where
  "reject_request T cmd =
     bind now (\<lambda>t.
     bind (require_owned_request T (rej_request_id cmd) (rej_wallet_instance_id cmd)) (\<lambda>r.
     bind (if status r = PendingUserApproval then
             bind (ok_or (rej_presentation_id cmd) (shared LeaseMismatch
                     ''presentation_id is required after request presentation'')) (\<lambda>pid.
             of_result (validate_presentation r pid t))
           else if status r = Dispatched then
             (if rej_presentation_id cmd \<noteq> None
              then err (shared LeaseMismatch ''presentation_id is not valid before request presentation'')
              else ok ())
           else err (InvalidStateTransition (status r) (fst (map_reject_reason (rej_reason_code cmd))))) (\<lambda>_.
     case map_reject_reason (rej_reason_code cmd) of (next, error_code, default_message) \<Rightarrow>
     bind (of_result (transition_request r next t)) (\<lambda>r1.
     bind (on_store (update_request (store_impl T)
             (r1\<lparr>approved_at := None,
                 rejected_at := (if next = Rejected then Some t else None),
                 failed_at := (if next = Failed then Some t else None),
                 reject_reason_code := Some (rej_reason_code cmd), last_error_code := Some error_code,
                 last_error_message := Some (case rej_message cmd of Some m \<Rightarrow> m | None \<Rightarrow> default_message),
                 delivery_lease := None, presentation := None\<rparr>))) (\<lambda>r'.
     ok \<lparr>rjr_request_id = request_id r', rjr_status = status r', rjr_error_code = error_code\<rparr>)))))"

section \<open>Maintenance\<close>

text \<open>One iteration of the first loop of \<open>tick_maintenance\<close>: the counters are expired and released requests.\<close>

definition tick_request :: "'s Traits \<Rightarrow> TimestampMs \<Rightarrow> nat \<times> nat \<Rightarrow> RequestRecord \<Rightarrow> ('s, nat \<times> nat) core" where
  "tick_request T t counts r =
     (if expires_at r \<le> t then
        bind (of_result (transition_request r Expired t)) (\<lambda>r1.
        bind (on_store (update_request (store_impl T)
                (r1\<lparr>last_error_code := Some RequestExpired, last_error_message := Some ''Request reached its TTL'',
                    delivery_lease := None, presentation := None\<rparr>))) (\<lambda>_.
        ok (fst counts + 1, snd counts)))
      else if status r = Dispatched \<and>
          (case delivery_lease r of None \<Rightarrow> False | Some l \<Rightarrow> delivery_lease_expires_at l \<le> t) then
        bind (of_result (transition_request r Created t)) (\<lambda>r1.
        bind (on_store (update_request (store_impl T) (r1\<lparr>delivery_lease := None, presentation := None\<rparr>))) (\<lambda>_.
        ok (fst counts, snd counts + 1)))
      else if status r = PendingUserApproval \<and>
          (case presentation r of None \<Rightarrow> False | Some p \<Rightarrow> presentation_expires_at p \<le> t) then
        bind (of_result (transition_request r Created t)) (\<lambda>r1.
        bind (on_store (update_request (store_impl T) (r1\<lparr>delivery_lease := None, presentation := None\<rparr>))) (\<lambda>_.
        ok counts))
      else ok counts)"

definition tick_wallet :: "'s Traits \<Rightarrow> CoordinatorConfig \<Rightarrow> TimestampMs \<Rightarrow> WalletInstanceRecord \<Rightarrow> ('s, unit) core" where
  "tick_wallet T cfg t i =
     (if is_wallet_stale (wi_last_seen_at i) t (cfg_wallet_offline_after cfg)
      then on_store (upsert_wallet_instance (store_impl T) (i\<lparr>wi_connected := False\<rparr>))
      else ok ())"

definition tick_result :: "'s Traits \<Rightarrow> nat \<Rightarrow> RequestRecord \<Rightarrow> ('s, nat) core" where
  "tick_result T evicted_results r =
     (if result r \<noteq> None then
        bind (on_store (update_request (store_impl T) (r\<lparr>result := None, result_expires_at := None\<rparr>))) (\<lambda>_.
        ok (evicted_results + 1))
      else ok evicted_results)"

definition tick_maintenance :: "'s Traits \<Rightarrow> ('s, TickMaintenanceResult) core" where
  "tick_maintenance T =
     bind now (\<lambda>t.
     bind (on_store (list_non_terminal_requests (store_impl T))) (\<lambda>rs.
     bind (for_fold rs (0, 0) (tick_request T t)) (\<lambda>counts.
     bind (on_store (list_wallet_instances (store_impl T) True)) (\<lambda>instances.
     bind the_config (\<lambda>cfg.
     bind (for_each instances (tick_wallet T cfg t)) (\<lambda>_.
     bind (on_store (list_terminal_requests_with_expired_results (store_impl T) t)) (\<lambda>expired.
     bind (for_fold expired 0 (tick_result T)) (\<lambda>evicted_results.
     ok \<lparr>tmr_expired_requests = fst counts, tmr_released_delivery_leases = snd counts,
         tmr_evicted_results = evicted_results\<rparr>))))))))"

section \<open>Dispatch\<close>

definition respond :: "('a \<Rightarrow> CoordinatorResponse) \<Rightarrow> ('s, 'a) core \<Rightarrow> ('s, CoordinatorResponse) core" where
  "respond f m = bind m (\<lambda>x. ok (f x))"

fun dispatch :: "'s Traits \<Rightarrow> CoordinatorCommand \<Rightarrow> ('s, CoordinatorResponse) core" where
  "dispatch T CmdSystemPing = respond (\<lambda>cfg. RespSystemPing (system_ping cfg)) the_config"
| "dispatch T CmdSystemGetInfo = respond (\<lambda>cfg. RespSystemInfo (system_get_info cfg)) the_config"
| "dispatch T CmdWalletStatus = respond RespWalletStatus (wallet_status T)"
| "dispatch T (CmdWalletListInstances connected_only) =
     respond RespWalletInstances (wallet_list_instances T connected_only)"
| "dispatch T (CmdWalletListAccounts w include_public_key) =
     respond RespWalletAccounts (wallet_list_accounts T w include_public_key)"
| "dispatch T (CmdWalletGetPublicKey address w) = respond RespWalletPublicKey (wallet_get_public_key T address w)"
| "dispatch T (CmdWalletSetAccountLabel cmd) = respond RespWalletAccountLabelSet (wallet_set_account_label T cmd)"
| "dispatch T (CmdCreateAccount cmd) = respond RespRequestCreated (create_account_request T cmd)"
| "dispatch T (CmdCreateExportAccount cmd) = respond RespRequestCreated (create_export_account_request T cmd)"
| "dispatch T (CmdCreateImportAccount cmd) = respond RespRequestCreated (create_import_account_request T cmd)"
| "dispatch T (CmdCreateSignTransaction cmd) = respond RespRequestCreated (create_sign_transaction_request T cmd)"
| "dispatch T (CmdCreateSignMessage cmd) = respond RespRequestCreated (create_sign_message_request T cmd)"
| "dispatch T (CmdGetRequestStatus rid) = respond RespRequestStatus (get_request_status T rid)"
| "dispatch T (CmdRequestHasAvailable w) = respond RespRequestHasAvailable (request_has_available T w)"
| "dispatch T (CmdCancelRequest rid) = respond RespRequestCancelled (cancel_request T rid)"
| "dispatch T (CmdRegisterExtension cmd) = respond (\<lambda>_. RespAck) (register_extension T cmd)"
| "dispatch T (CmdRegisterBackend cmd) = respond (\<lambda>_. RespAck) (register_backend T cmd)"
| "dispatch T (CmdHeartbeatExtension cmd) = respond (\<lambda>_. RespAck) (heartbeat_extension T cmd)"
| "dispatch T (CmdHeartbeatBackend cmd) = respond (\<lambda>_. RespAck) (heartbeat_backend T cmd)"
| "dispatch T (CmdUpdateExtensionAccounts cmd) = respond (\<lambda>_. RespAck) (update_extension_accounts T cmd)"
| "dispatch T (CmdUpdateBackendAccounts cmd) = respond (\<lambda>_. RespAck) (update_backend_accounts T cmd)"
| "dispatch T (CmdPullNextRequest w) = respond RespPullNextRequest (pull_next_request T w)"
| "dispatch T (CmdMarkRequestPresented cmd) = respond RespRequestPresented (mark_request_presented T cmd)"
| "dispatch T (CmdResolveRequest cmd) = respond RespRequestResolved (resolve_request T cmd)"
| "dispatch T (CmdRejectRequest cmd) = respond RespRequestRejected (reject_request T cmd)"
| "dispatch T CmdTickMaintenance = respond RespTickMaintenance (tick_maintenance T)"

text \<open>
  The coordinator thread (\<open>spawn_coordinator\<close> in \<open>starmaskd/src/coordinator_runtime.rs\<close>): it takes the
  envelopes from the channel one at a time and answers each; an error is an answer, not an end.
\<close>

fun run_coordinator :: "'s Traits \<Rightarrow> CoordinatorCommand list \<Rightarrow> 's Coordinator \<Rightarrow>
    (CoreError + CoordinatorResponse) list \<times> 's Coordinator" where
  "run_coordinator T [] c = ([], c)"
| "run_coordinator T (cmd # cmds) c =
     (let (reply, c1) = dispatch T cmd c; (replies, c2) = run_coordinator T cmds c1 in (reply # replies, c2))"

end
