(* ===== verification/Coordinator_Rules.thy ===== *)
theory Coordinator_Rules
  imports Coordinator
begin

text \<open>
  The coordinator over any store that keeps the contracts of \<open>Store_Interface\<close>. The predicate
  \<open>tracks\<close> says where the coordinator stands relative to the state a handler started from: the
  abstract view of its store and how often it has read the clock. One rule per primitive operation
  (\<open>track_rules\<close>) then lets the proofs follow the code of each handler.
\<close>

named_theorems track_rules "primitive operations of the coordinator, by what they do to the tracked state"

definition tracks ::
  "'s StoreView \<Rightarrow> 's Coordinator \<Rightarrow> nat \<Rightarrow> request_table \<Rightarrow> (WalletInstanceId \<Rightarrow> WalletInstanceRecord option) \<Rightarrow>
   (WalletInstanceId \<Rightarrow> string \<Rightarrow> WalletAccountRecord option) \<Rightarrow> 's Coordinator \<Rightarrow> bool" where
  "tracks V c0 n m i a c \<longleftrightarrow>
     v_inv V (store c) \<and> v_reqs V (store c) = m \<and> v_insts V (store c) = i \<and> v_accts V (store c) = a \<and>
     clock c = clock c0 \<and> clock_reads c = clock_reads c0 + n \<and> config c = config c0 \<and>
     request_id_source c = request_id_source c0 \<and> lease_id_source c = lease_id_source c0"

text \<open>The \<open>n\<close>th clock reading from a state on.\<close>

definition reading :: "'s Coordinator \<Rightarrow> nat \<Rightarrow> TimestampMs" where
  "reading c n = clock c (clock_reads c + n)"

lemma tracks_refl: "v_inv V (store c) \<Longrightarrow>
    tracks V c 0 (v_reqs V (store c)) (v_insts V (store c)) (v_accts V (store c)) c"
  by (simp add: tracks_def)

text \<open>The identifier generators only produce valid identifiers, as \<open>RequestId::new\<close> checks.\<close>

definition sources_ok :: "'s Coordinator \<Rightarrow> bool" where
  "sources_ok c \<longleftrightarrow> (\<forall>n x. request_id_source c n = Inr x \<longrightarrow> nonblank x) \<and>
     (\<forall>n x. lease_id_source c n = Inr x \<longrightarrow> nonblank x)"

text \<open>What the identifier newtypes guarantee of a command's fields.\<close>

fun cmd_ok :: "CoordinatorCommand \<Rightarrow> bool" where
  "cmd_ok (CmdCreateAccount cmd) = nonblank (cac_client_request_id cmd)"
| "cmd_ok (CmdCreateExportAccount cmd) = nonblank (cea_client_request_id cmd)"
| "cmd_ok (CmdCreateImportAccount cmd) = nonblank (cia_client_request_id cmd)"
| "cmd_ok (CmdCreateSignTransaction cmd) = nonblank (cst_client_request_id cmd)"
| "cmd_ok (CmdCreateSignMessage cmd) = nonblank (csm_client_request_id cmd)"
| "cmd_ok (CmdRegisterExtension cmd) = nonblank (rec_wallet_instance_id cmd)"
| "cmd_ok (CmdRegisterBackend cmd) = nonblank (rbc_wallet_instance_id cmd)"
| "cmd_ok (CmdMarkRequestPresented cmd) = nonblank (mrp_presentation_id cmd)"
| "cmd_ok _ = True"

definition coord_inv :: "'s StoreView \<Rightarrow> 's Coordinator \<Rightarrow> bool" where
  "coord_inv V c \<longleftrightarrow> v_inv V (store c) \<and> table_ok (v_reqs V (store c)) \<and> sources_ok c"

lemma wp_now [track_rules]:
  "tracks V c0 n m i a c \<Longrightarrow>
   (\<And>c'. tracks V c0 (Suc n) m i a c' \<Longrightarrow> Q (reading c0 n) c') \<Longrightarrow> wp now Q E c"
  by (simp add: wp_def now_def tracks_def reading_def)

lemma wp_config [track_rules]:
  "tracks V c0 n m i a c \<Longrightarrow> (tracks V c0 n m i a c \<Longrightarrow> Q (config c0) c) \<Longrightarrow> wp the_config Q E c"
  by (simp add: wp_def the_config_def tracks_def)

lemma wp_new_request_id [track_rules]:
  "tracks V c0 n m i a c \<Longrightarrow>
   (\<And>k x c'. request_id_source c0 k = Inr x \<Longrightarrow> tracks V c0 n m i a c' \<Longrightarrow> Q x c') \<Longrightarrow>
   (\<And>e c'. tracks V c0 n m i a c' \<Longrightarrow> E e c') \<Longrightarrow> wp new_request_id Q E c"
  by (rule wpI) (auto simp: new_request_id_def tracks_def)

lemma wp_new_lease_id [track_rules]:
  "tracks V c0 n m i a c \<Longrightarrow>
   (\<And>k x c'. lease_id_source c0 k = Inr x \<Longrightarrow> tracks V c0 n m i a c' \<Longrightarrow> Q x c') \<Longrightarrow>
   (\<And>e c'. tracks V c0 n m i a c' \<Longrightarrow> E e c') \<Longrightarrow> wp new_delivery_lease_id Q E c"
  by (rule wpI) (auto simp: new_delivery_lease_id_def tracks_def)

lemma on_store_cases:
  assumes "on_store m c = (r, c')"
  obtains e s' where "m (store c) = (Inl e, s')" "r = Inl (Repository e)" "c' = c\<lparr>store := s'\<rparr>"
  | x s' where "m (store c) = (Inr x, s')" "r = Inr x" "c' = c\<lparr>store := s'\<rparr>"
  using assms by (auto simp: on_store_def split: prod.splits sum.splits)

lemma wp_on_store:
  assumes "tracks V c0 n m i a c"
    and "\<And>x s'. f (store c) = (Inr x, s') \<Longrightarrow> Q x (c\<lparr>store := s'\<rparr>)"
    and "\<And>e s'. f (store c) = (Inl e, s') \<Longrightarrow> unchanged V (store c) s'"
    and "\<And>e c'. tracks V c0 n m i a c' \<Longrightarrow> E (Repository e) c'"
  shows "wp (on_store f) Q E c"
proof (rule wpI)
  fix x c' assume "on_store f c = (Inr x, c')"
  then show "Q x c'" using assms(2) by (auto elim: on_store_cases)
next
  fix e c' assume "on_store f c = (Inl e, c')"
  then obtain e' s' where "f (store c) = (Inl e', s')" "c' = c\<lparr>store := s'\<rparr>" "e = Repository e'"
    by (auto elim: on_store_cases)
  with assms(3) have "unchanged V (store c) s'" "c' = c\<lparr>store := s'\<rparr>" "e = Repository e'" by blast+
  with assms(1) have "tracks V c0 n m i a c'"
    by (simp add: tracks_def unchanged_def wallets_kept_def)
  with \<open>e = Repository e'\<close> show "E e c'" by (simp add: assms(4))
qed

section \<open>What the validators accept\<close>

lemma validate_request_result_Inr [simp]:
  "validate_request_result r x = Inr u \<longleftrightarrow> expected_result_kind (kind r) = result_kind x"
  by (auto simp: validate_request_result_def Let_def)

lemma validate_presentation_Inr [simp]:
  "validate_presentation r pid t = Inr u \<longleftrightarrow> status r = PendingUserApproval \<and>
     (\<exists>p. presentation r = Some p \<and> presentation_id p = pid \<and> t < presentation_expires_at p)"
  by (auto simp: validate_presentation_def split: option.splits)

lemma validate_delivery_lease_Inr [simp]:
  "validate_delivery_lease r lid t = Inr u \<longleftrightarrow>
     (\<exists>l. delivery_lease r = Some l \<and> delivery_lease_id l = lid \<and> t < delivery_lease_expires_at l)"
  by (auto simp: validate_delivery_lease_def split: option.splits)

lemma transition_request_Inr [simp]:
  "transition_request r s t = Inr r' \<longleftrightarrow>
     (status r = s \<and> r' = r) \<or> (can_transition_to (status r) s \<and> r' = r\<lparr>status := s, updated_at := t\<rparr>)"
  by (auto simp: transition_request_def)

lemma transition_request_Inl [simp]:
  "transition_request r s t = Inl e \<longleftrightarrow>
     status r \<noteq> s \<and> \<not> can_transition_to (status r) s \<and> e = InvalidStateTransition (status r) s"
  by (auto simp: transition_request_def)

lemma extend_presentation_Inr [simp]:
  "extend_presentation cfg t r = Inr r' \<longleftrightarrow>
     (case presentation r of None \<Rightarrow> r' = r
      | Some p \<Rightarrow> \<exists>e. checked_add_seconds t (cfg_presentation_lease_ttl cfg) = Some e \<and>
          r' = r\<lparr>presentation := Some (p\<lparr>presentation_expires_at := e\<rparr>)\<rparr>)"
  by (auto simp: extend_presentation_def split: option.splits)

lemma map_reject_reason_status: "map_reject_reason reason = (s, c, msg) \<Longrightarrow> s \<in> {Rejected, Expired, Failed}"
  by (cases reason) auto

section \<open>The tracked state\<close>

text \<open>A read-only store method: the view stays, the value is what the law says of it.\<close>

lemma wp_on_store_read:
  assumes t: "tracks V c0 n m i a c"
    and law: "\<And>r s'. f (store c) = (r, s') \<Longrightarrow> unchanged V (store c) s' \<and> (\<forall>x. r = Inr x \<longrightarrow> P x)"
    and q: "\<And>x c'. P x \<Longrightarrow> tracks V c0 n m i a c' \<Longrightarrow> Q x c'"
    and e: "\<And>e c'. tracks V c0 n m i a c' \<Longrightarrow> E (Repository e) c'"
  shows "wp (on_store f) Q E c"
proof (rule wp_on_store [where E = E, OF t _ _ e])
  fix x s' assume "f (store c) = (Inr x, s')"
  with law have "unchanged V (store c) s'" "P x" by blast+
  then show "Q x (c\<lparr>store := s'\<rparr>)"
    using t by (intro q) (simp_all add: tracks_def unchanged_def wallets_kept_def)
qed (use law in blast)

text \<open>The accounts of \<open>w\<close> are those of the list, up to the labels the store keeps; no other wallet's changed.\<close>

definition accounts_replaced :: "WalletInstanceId \<Rightarrow> WalletAccountRecord list \<Rightarrow>
    (WalletInstanceId \<Rightarrow> string \<Rightarrow> WalletAccountRecord option) \<Rightarrow>
    (WalletInstanceId \<Rightarrow> string \<Rightarrow> WalletAccountRecord option) \<Rightarrow> bool" where
  "accounts_replaced w as a a' \<longleftrightarrow>
     (\<forall>w'. w' \<noteq> w \<longrightarrow> a' w' = a w') \<and> (\<forall>adr. a' w adr = None \<longleftrightarrow> adr \<notin> wa_address ` set as) \<and>
     (\<forall>acc \<in> set as. \<exists>l. a' w (wa_address acc) = Some (acc\<lparr>wa_label := l\<rparr>))"

locale coordinator_store = store_contract "store_impl T" V
  for T :: "'s Traits" and V :: "'s StoreView"
begin

lemma tracked_request:
  assumes "tracks V c0 n m i a c" "m k = Some r"
  shows "request_id r = k" "ids_ok r"
  using assms stored_request [of "store c" k r] by (simp_all add: tracks_def)

lemma tracked_requests:
  "tracks V c0 n m i a c \<Longrightarrow> set xs = {r. m (request_id r) = Some r \<and> P r} \<Longrightarrow> \<forall>r \<in> set xs. ids_ok r"
  by (auto dest: tracked_request)

lemma wp_get_request [track_rules]:
  assumes "tracks V c0 n m i a c"
    and "\<And>c'. tracks V c0 n m i a c' \<Longrightarrow> \<forall>r. m k = Some r \<longrightarrow> request_id r = k \<and> ids_ok r \<Longrightarrow> Q (m k) c'"
    and "\<And>e c'. tracks V c0 n m i a c' \<Longrightarrow> E (Repository e) c'"
  shows "wp (on_store (get_request (store_impl T) k)) Q E c"
  by (rule wp_on_store_read [where E = E and P = "\<lambda>x. x = m k", OF assms(1) _ _ assms(3)])
    (use assms get_request_law [of "store c" k] stored_request [of "store c" k] in \<open>auto simp: tracks_def\<close>)

lemma wp_get_by_client [track_rules]:
  assumes "tracks V c0 n m i a c"
    and "\<And>r c'. tracks V c0 n m i a c' \<Longrightarrow> m (request_id r) = Some r \<Longrightarrow> client_request_id r = cid \<Longrightarrow> Q (Some r) c'"
    and "\<And>c'. tracks V c0 n m i a c' \<Longrightarrow> (\<And>k r. m k = Some r \<Longrightarrow> client_request_id r \<noteq> cid) \<Longrightarrow> Q None c'"
    and "\<And>e c'. tracks V c0 n m i a c' \<Longrightarrow> E (Repository e) c'"
  shows "wp (on_store (get_request_by_client_request_id (store_impl T) cid)) Q E c"
proof (rule wp_on_store_read [where E = E and P = "\<lambda>x. (\<forall>r. x = Some r \<longrightarrow> m (request_id r) = Some r \<and> client_request_id r = cid) \<and>
     (x = None \<longrightarrow> (\<forall>k r. m k = Some r \<longrightarrow> client_request_id r \<noteq> cid))", OF assms(1) _ _ assms(4)])
  fix r s' assume "get_request_by_client_request_id (store_impl T) cid (store c) = (r, s')"
  with assms(1) show "unchanged V (store c) s' \<and> (\<forall>x. r = Inr x \<longrightarrow>
      (\<forall>r. x = Some r \<longrightarrow> m (request_id r) = Some r \<and> client_request_id r = cid) \<and>
      (x = None \<longrightarrow> (\<forall>k r. m k = Some r \<longrightarrow> client_request_id r \<noteq> cid)))"
    using get_by_client_law [of "store c" cid r s'] by (auto simp: tracks_def)
next
  fix x c' assume "(\<forall>r. x = Some r \<longrightarrow> m (request_id r) = Some r \<and> client_request_id r = cid) \<and>
      (x = None \<longrightarrow> (\<forall>k r. m k = Some r \<longrightarrow> client_request_id r \<noteq> cid))" "tracks V c0 n m i a c'"
  then show "Q x c'" using assms(2,3) by (cases x) auto
qed

lemma wp_list_non_terminal [track_rules]:
  assumes "tracks V c0 n m i a c"
    and "\<And>xs c'. tracks V c0 n m i a c' \<Longrightarrow> distinct (map request_id xs) \<Longrightarrow> sorted (map created_at xs) \<Longrightarrow>
      set xs = {r. m (request_id r) = Some r \<and> \<not> is_terminal (status r)} \<Longrightarrow> \<forall>r \<in> set xs. ids_ok r \<Longrightarrow> Q xs c'"
    and "\<And>e c'. tracks V c0 n m i a c' \<Longrightarrow> E (Repository e) c'"
  shows "wp (on_store (list_non_terminal_requests (store_impl T))) Q E c"
proof (rule wp_on_store_read [where E = E and P = "\<lambda>xs. distinct (map request_id xs) \<and> sorted (map created_at xs) \<and>
      set xs = {r. m (request_id r) = Some r \<and> \<not> is_terminal (status r)}", OF assms(1)])
  fix xs c' assume "distinct (map request_id xs) \<and> sorted (map created_at xs) \<and>
      set xs = {r. m (request_id r) = Some r \<and> \<not> is_terminal (status r)}" and t': "tracks V c0 n m i a c'"
  then show "Q xs c'" by (intro assms(2) [OF t'] tracked_requests [OF t']) auto
qed (use assms(1,3) list_non_terminal_law [of "store c"] in \<open>auto simp: tracks_def\<close>)

lemma wp_list_expired [track_rules]:
  assumes "tracks V c0 n m i a c"
    and "\<And>xs c'. tracks V c0 n m i a c' \<Longrightarrow> distinct (map request_id xs) \<Longrightarrow>
      set xs = {r. m (request_id r) = Some r \<and> (\<exists>e. result_expires_at r = Some e \<and> e \<le> t)} \<Longrightarrow> \<forall>r \<in> set xs. ids_ok r \<Longrightarrow> Q xs c'"
    and "\<And>e c'. tracks V c0 n m i a c' \<Longrightarrow> E (Repository e) c'"
  shows "wp (on_store (list_terminal_requests_with_expired_results (store_impl T) t)) Q E c"
proof (rule wp_on_store_read [where E = E and P = "\<lambda>xs. distinct (map request_id xs) \<and>
      set xs = {r. m (request_id r) = Some r \<and> (\<exists>e. result_expires_at r = Some e \<and> e \<le> t)}", OF assms(1)])
  fix xs c' assume "distinct (map request_id xs) \<and>
      set xs = {r. m (request_id r) = Some r \<and> (\<exists>e. result_expires_at r = Some e \<and> e \<le> t)}" and t': "tracks V c0 n m i a c'"
  then show "Q xs c'" by (intro assms(2) [OF t'] tracked_requests [OF t']) auto
qed (use assms(1,3) list_expired_results_law [of "store c" t] in \<open>auto simp: tracks_def\<close>)

lemma wp_get_instance [track_rules]:
  assumes "tracks V c0 n m i a c" "\<And>c'. tracks V c0 n m i a c' \<Longrightarrow> Q (i w) c'"
    "\<And>e c'. tracks V c0 n m i a c' \<Longrightarrow> E (Repository e) c'"
  shows "wp (on_store (get_wallet_instance (store_impl T) w)) Q E c"
  by (rule wp_on_store_read [where E = E and P = "\<lambda>x. x = i w", OF assms(1) _ _ assms(3)])
    (use assms get_instance_law [of "store c" w] in \<open>auto simp: tracks_def\<close>)

lemma wp_list_instances [track_rules]:
  assumes "tracks V c0 n m i a c"
    and "\<And>xs c'. tracks V c0 n m i a c' \<Longrightarrow> distinct (map wi_wallet_instance_id xs) \<Longrightarrow>
      sorted (rev (map wi_last_seen_at xs)) \<Longrightarrow>
      set xs = {x. i (wi_wallet_instance_id x) = Some x \<and> (b \<longrightarrow> wi_connected x)} \<Longrightarrow> Q xs c'"
    and "\<And>e c'. tracks V c0 n m i a c' \<Longrightarrow> E (Repository e) c'"
  shows "wp (on_store (list_wallet_instances (store_impl T) b)) Q E c"
  by (rule wp_on_store_read [where E = E and P = "\<lambda>xs. distinct (map wi_wallet_instance_id xs) \<and>
      sorted (rev (map wi_last_seen_at xs)) \<and>
      set xs = {x. i (wi_wallet_instance_id x) = Some x \<and> (b \<longrightarrow> wi_connected x)}", OF assms(1) _ _ assms(3)])
    (use assms list_instances_law [of "store c" b] in \<open>auto simp: tracks_def\<close>)

lemma wp_list_accounts [track_rules]:
  assumes "tracks V c0 n m i a c"
    and "\<And>xs c'. tracks V c0 n m i a c' \<Longrightarrow>
      set xs = {x. a (wa_wallet_instance_id x) (wa_address x) = Some x \<and> (wo = None \<or> wo = Some (wa_wallet_instance_id x))} \<Longrightarrow>
      Q xs c'"
    and "\<And>e c'. tracks V c0 n m i a c' \<Longrightarrow> E (Repository e) c'"
  shows "wp (on_store (list_wallet_accounts (store_impl T) wo)) Q E c"
  by (rule wp_on_store_read [where E = E and P = "\<lambda>xs. set xs = {x. a (wa_wallet_instance_id x) (wa_address x) = Some x \<and>
      (wo = None \<or> wo = Some (wa_wallet_instance_id x))}", OF assms(1) _ _ assms(3)])
    (use assms list_accounts_law [of "store c" wo] in \<open>auto simp: tracks_def\<close>)

lemma wp_get_account [track_rules]:
  assumes "tracks V c0 n m i a c" "\<And>c'. tracks V c0 n m i a c' \<Longrightarrow> Q (a w adr) c'"
    "\<And>e c'. tracks V c0 n m i a c' \<Longrightarrow> E (Repository e) c'"
  shows "wp (on_store (get_wallet_account (store_impl T) w adr)) Q E c"
  by (rule wp_on_store_read [where E = E and P = "\<lambda>x. x = a w adr", OF assms(1) _ _ assms(3)])
    (use assms get_account_law [of "store c" w adr] in \<open>auto simp: tracks_def\<close>)

lemma wp_insert [track_rules]:
  assumes t: "tracks V c0 n m i a c" and ids: "ids_ok r"
    and q: "\<And>c'. tracks V c0 n (m(request_id r \<mapsto> r)) i a c' \<Longrightarrow> m (request_id r) = None \<Longrightarrow>
      (\<And>k r'. m k = Some r' \<Longrightarrow> client_request_id r' \<noteq> client_request_id r) \<Longrightarrow> Q r c'"
    and e: "\<And>e c'. tracks V c0 n m i a c' \<Longrightarrow> E (Repository e) c'"
  shows "wp (on_store (insert_request (store_impl T) r)) Q E c"
proof (rule wp_on_store [where E = E, OF t _ _ e])
  fix x s' assume h: "insert_request (store_impl T) r (store c) = (Inr x, s')"
  with t ids insert_law [of "store c" r "Inr x" s'] show "Q x (c\<lparr>store := s'\<rparr>)"
    by (auto simp: tracks_def wallets_kept_def intro!: q)
next
  fix e' s' assume "insert_request (store_impl T) r (store c) = (Inl e', s')"
  with t ids insert_law [of "store c" r "Inl e'" s'] show "unchanged V (store c) s'"
    by (auto simp: tracks_def)
qed

lemma wp_update [track_rules]:
  assumes t: "tracks V c0 n m i a c" and ids: "ids_ok r"
    and ex: "\<exists>r0. m (request_id r) = Some r0 \<and> client_request_id r = client_request_id r0"
    and q: "\<And>c'. tracks V c0 n (m(request_id r \<mapsto> r)) i a c' \<Longrightarrow> Q r c'"
    and e: "\<And>e c'. tracks V c0 n m i a c' \<Longrightarrow> E (Repository e) c'"
  shows "wp (on_store (update_request (store_impl T) r)) Q E c"
proof -
  from ex obtain r0 where r0: "m (request_id r) = Some r0" and cid: "client_request_id r = client_request_id r0"
    by blast
  show ?thesis
  proof (rule wp_on_store [where E = E, OF t _ _ e])
    fix x s' assume h: "update_request (store_impl T) r (store c) = (Inr x, s')"
    with t ids r0 cid update_law [of "store c" r r0 "Inr x" s'] show "Q x (c\<lparr>store := s'\<rparr>)"
      by (auto simp: tracks_def wallets_kept_def intro!: q)
  next
    fix e' s' assume "update_request (store_impl T) r (store c) = (Inl e', s')"
    with t ids r0 cid update_law [of "store c" r r0 "Inl e'" s'] show "unchanged V (store c) s'"
      by (auto simp: tracks_def)
  qed
qed

lemma wp_claim [track_rules]:
  assumes t: "tracks V c0 n m i a c" and ids: "nonblank (delivery_lease_id l)"
    and none: "\<And>c'. tracks V c0 n m i a c' \<Longrightarrow>
      (\<And>k r. m k = Some r \<Longrightarrow> wallet_instance_id r = w \<Longrightarrow> status r \<noteq> Created) \<Longrightarrow> Q None c'"
    and some: "\<And>r c'. m (request_id r) = Some r \<Longrightarrow> wallet_instance_id r = w \<Longrightarrow> status r = Created \<Longrightarrow>
      (\<And>k r2. m k = Some r2 \<Longrightarrow> wallet_instance_id r2 = w \<Longrightarrow> status r2 = Created \<Longrightarrow> created_at r \<le> created_at r2) \<Longrightarrow>
      tracks V c0 n (m(request_id r \<mapsto> r\<lparr>status := Dispatched, updated_at := tm, delivery_lease := Some l\<rparr>)) i a c' \<Longrightarrow>
      Q (Some (r\<lparr>status := Dispatched, updated_at := tm, delivery_lease := Some l\<rparr>)) c'"
    and e: "\<And>e c'. tracks V c0 n m i a c' \<Longrightarrow> E (Repository e) c'"
  shows "wp (on_store (claim_next_request_for_wallet (store_impl T) w l tm)) Q E c"
proof (rule wp_on_store [where E = E, OF t _ _ e])
  fix x s' assume h: "claim_next_request_for_wallet (store_impl T) w l tm (store c) = (Inr x, s')"
  note law = claim_law [of "store c" l w tm "Inr x" s', OF _ ids h]
  show "Q x (c\<lparr>store := s'\<rparr>)"
  proof (cases x)
    case None
    with t law show ?thesis
      by (auto simp: tracks_def unchanged_def wallets_kept_def intro!: none)
  next
    case (Some r')
    with t law obtain r where "m (request_id r) = Some r" "wallet_instance_id r = w" "status r = Created"
      "\<And>k r2. m k = Some r2 \<Longrightarrow> wallet_instance_id r2 = w \<Longrightarrow> status r2 = Created \<Longrightarrow> created_at r \<le> created_at r2"
      "r' = r\<lparr>status := Dispatched, updated_at := tm, delivery_lease := Some l\<rparr>"
      "v_inv V s'" "wallets_kept V (store c) s'" "v_reqs V s' = m(request_id r' \<mapsto> r')"
      by (auto simp: tracks_def)
    with t Some show ?thesis by (auto simp: tracks_def wallets_kept_def intro!: some)
  qed
next
  fix e' s' assume "claim_next_request_for_wallet (store_impl T) w l tm (store c) = (Inl e', s')"
  with t ids claim_law [of "store c" l w tm "Inl e'" s'] show "unchanged V (store c) s'"
    by (auto simp: tracks_def)
qed

lemma wp_upsert [track_rules]:
  assumes t: "tracks V c0 n m i a c" and ids: "nonblank (wi_wallet_instance_id x)"
    and q: "\<And>c'. tracks V c0 n m (i(wi_wallet_instance_id x \<mapsto> x)) a c' \<Longrightarrow> Q () c'"
    and e: "\<And>e c'. tracks V c0 n m i a c' \<Longrightarrow> E (Repository e) c'"
  shows "wp (on_store (upsert_wallet_instance (store_impl T) x)) Q E c"
proof (rule wp_on_store [where E = E, OF t _ _ e])
  fix u s' assume h: "upsert_wallet_instance (store_impl T) x (store c) = (Inr u, s')"
  with t ids upsert_law [of "store c" x "Inr u" s'] show "Q u (c\<lparr>store := s'\<rparr>)"
    by (auto simp: tracks_def intro!: q)
next
  fix e' s' assume "upsert_wallet_instance (store_impl T) x (store c) = (Inl e', s')"
  with t ids upsert_law [of "store c" x "Inl e'" s'] show "unchanged V (store c) s'"
    by (auto simp: tracks_def)
qed

text \<open>For the request table alone, replacing accounts is a change of the account view only.\<close>

lemma wp_replace_accounts [track_rules]:
  assumes t: "tracks V c0 n m i a c"
    and q: "\<And>a' c'. tracks V c0 n m i a' c' \<Longrightarrow>
      ((\<forall>acc \<in> set as. wa_wallet_instance_id acc = w) \<longrightarrow> accounts_replaced w as a a') \<Longrightarrow> Q () c'"
    and e: "\<And>e c'. tracks V c0 n m i a c' \<Longrightarrow> E (Repository e) c'"
  shows "wp (on_store (replace_wallet_accounts (store_impl T) w as)) Q E c"
proof (rule wp_on_store [where E = E, OF t _ _ e])
  fix u s' assume h: "replace_wallet_accounts (store_impl T) w as (store c) = (Inr u, s')"
  have inv: "v_inv V (store c)" using t by (simp add: tracks_def)
  from h have h': "replace_wallet_accounts (store_impl T) w as (store c) = (Inr (), s')" by simp
  from t inv h replace_accounts_law [of "store c" w as "Inr u" s']
  have "tracks V c0 n m i (v_accts V s') (c\<lparr>store := s'\<rparr>)" by (simp add: tracks_def)
  then have "Q () (c\<lparr>store := s'\<rparr>)"
    by (rule q) (use t replace_accounts_effect [OF inv _ h'] in \<open>auto simp: tracks_def accounts_replaced_def\<close>)
  then show "Q u (c\<lparr>store := s'\<rparr>)" by simp
next
  fix e' s' assume "replace_wallet_accounts (store_impl T) w as (store c) = (Inl e', s')"
  with t replace_accounts_law [of "store c" w as "Inl e'" s'] show "unchanged V (store c) s'"
    by (auto simp: tracks_def)
qed

lemma wp_set_label [track_rules]:
  assumes t: "tracks V c0 n m i a c"
    and q: "\<And>acc0 c'. a w adr = Some acc0 \<Longrightarrow>
      tracks V c0 n m i (a(w := (a w)(adr \<mapsto> acc0\<lparr>wa_label := Some (trim l)\<rparr>))) c' \<Longrightarrow>
      Q (acc0\<lparr>wa_label := Some (trim l)\<rparr>) c'"
    and e: "\<And>e c'. tracks V c0 n m i a c' \<Longrightarrow> E (Repository e) c'"
  shows "wp (on_store (set_wallet_account_label (store_impl T) w adr l)) Q E c"
proof (rule wp_on_store [where E = E, OF t _ _ e])
  fix x s' assume h: "set_wallet_account_label (store_impl T) w adr l (store c) = (Inr x, s')"
  with t set_label_law [of "store c" w adr l "Inr x" s'] show "Q x (c\<lparr>store := s'\<rparr>)"
    by (auto simp: tracks_def intro!: q)
next
  fix e' s' assume "set_wallet_account_label (store_impl T) w adr l (store c) = (Inl e', s')"
  with t set_label_law [of "store c" w adr l "Inl e'" s'] show "unchanged V (store c) s'"
    by (auto simp: tracks_def)
qed

lemma tracked_account:
  assumes "tracks V c0 n m i a c" "a w adr = Some x"
  shows "wa_wallet_instance_id x = w" "wa_address x = adr" "i w \<noteq> None"
  using assms stored_account [of "store c" w adr x] by (simp_all add: tracks_def)

lemma tracked_instance:
  assumes "tracks V c0 n m i a c" "i w = Some x"
  shows "wi_wallet_instance_id x = w" "nonblank w"
  using assms stored_instance [of "store c" w x] by (simp_all add: tracks_def)

end

section \<open>Where a handler leaves the coordinator\<close>

definition keeps :: "'s StoreView \<Rightarrow> 's Coordinator \<Rightarrow> request_table \<Rightarrow> 's Coordinator \<Rightarrow> bool" where
  "keeps V c0 m c \<longleftrightarrow> (\<exists>n i a. tracks V c0 n m i a c)"

definition reaches :: "'s StoreView \<Rightarrow> 's Coordinator \<Rightarrow> request_table \<Rightarrow> 's Coordinator \<Rightarrow> bool" where
  "reaches V c0 m c \<longleftrightarrow> (\<exists>m'. keeps V c0 m' c \<and> quiet_table_steps m m')"

lemma keepsI: "tracks V c0 n m i a c \<Longrightarrow> keeps V c0 m c"
  by (auto simp: keeps_def)

lemma reachesI0: "tracks V c0 n m i a c \<Longrightarrow> reaches V c0 m c"
  by (auto simp: reaches_def keeps_def)

lemma reachesI: "tracks V c0 n m' i a c \<Longrightarrow> quiet_table_steps m m' \<Longrightarrow> reaches V c0 m c"
  by (auto simp: reaches_def keeps_def)

lemma reaches_move:
  "tracks V c0 n (m(k \<mapsto> r')) i a c \<Longrightarrow> m k = Some r \<Longrightarrow> request_step r r' \<Longrightarrow> status r' \<noteq> Approved \<Longrightarrow> reaches V c0 m c"
  using quiet_step_def [of r r'] by (blast intro: reachesI quiet_table_step.quiet_move)

lemma reaches_keeps: "keeps V c0 m' c \<Longrightarrow> quiet_table_steps m m' \<Longrightarrow> reaches V c0 m c"
  by (auto simp: reaches_def)

lemma reaches_steps: "reaches V c0 m' c \<Longrightarrow> quiet_table_steps m m' \<Longrightarrow> reaches V c0 m c"
  by (auto simp: reaches_def intro: rtranclp_trans)

text \<open>The same with the step that approves.\<close>

definition moves :: "'s StoreView \<Rightarrow> 's Coordinator \<Rightarrow> request_table \<Rightarrow> 's Coordinator \<Rightarrow> bool" where
  "moves V c0 m c \<longleftrightarrow> (\<exists>m'. keeps V c0 m' c \<and> table_steps m m')"

lemma reaches_moves: "reaches V c0 m c \<Longrightarrow> moves V c0 m c"
  by (auto simp: reaches_def moves_def dest: quiet_table_steps_table)

lemma movesI: "tracks V c0 n (m(k \<mapsto> r')) i a c \<Longrightarrow> m k = Some r \<Longrightarrow> request_step r r' \<Longrightarrow> moves V c0 m c"
  unfolding moves_def by (blast intro: keepsI table_step.move)

lemma reaches_trans:
  assumes "reaches V c0 m c"
    and "\<And>n m' i a. tracks V c0 n m' i a c \<Longrightarrow> wp f (\<lambda>_. reaches V c0 m') (\<lambda>_. reaches V c0 m') c"
  shows "wp f (\<lambda>_. reaches V c0 m) (\<lambda>_. reaches V c0 m) c"
proof -
  from assms(1) obtain n m' i a where t: "tracks V c0 n m' i a c" and m': "quiet_table_steps m m'"
    by (auto simp: reaches_def keeps_def)
  show ?thesis
    by (rule wp_mono [OF assms(2) [OF t]]) (use m' in \<open>auto simp: reaches_def intro: rtranclp_trans\<close>)
qed

section \<open>Handlers of one request\<close>

text \<open>
  What a handler of the request \<open>k\<close> did: a success found it in a state \<open>may\<close> allows, answered
  \<open>out\<close> of it and changed it, and it only, by \<open>upd\<close>; a failure left the view as it was, and
  where \<open>may\<close> allowed the action, only the store can have failed.
\<close>

definition acts_on :: "'s StoreView \<Rightarrow> RequestId \<Rightarrow> (RequestRecord \<Rightarrow> bool) \<Rightarrow> (RequestRecord \<Rightarrow> RequestRecord) \<Rightarrow>
    (RequestRecord \<Rightarrow> 'x) \<Rightarrow> 's Coordinator \<Rightarrow> CoreError + 'x \<Rightarrow> 's Coordinator \<Rightarrow> bool" where
  "acts_on V k may upd out c reply c' \<longleftrightarrow>
     (case reply of
        Inr x \<Rightarrow> (\<exists>r. v_reqs V (store c) k = Some r \<and> may r \<and> x = out r \<and>
          v_reqs V (store c') = (v_reqs V (store c))(k \<mapsto> upd r) \<and> wallets_kept V (store c) (store c'))
      | Inl e \<Rightarrow> unchanged V (store c) (store c') \<and>
          ((\<exists>r. v_reqs V (store c) k = Some r \<and> may r) \<longrightarrow> (\<exists>re. e = Repository re)))"

lemma acts_on_InrE:
  assumes "acts_on V k may upd out c (Inr x) c'"
  obtains r where "v_reqs V (store c) k = Some r" "may r" "x = out r" "v_reqs V (store c') k = Some (upd r)"
  using assms by (auto simp: acts_on_def)

lemma handler_outcome:
  assumes "coord_inv V c" "f c = (reply, c')"
    and "tracks V c 0 (v_reqs V (store c)) (v_insts V (store c)) (v_accts V (store c)) c \<Longrightarrow> wp f Q E c"
  shows "case reply of Inl e \<Rightarrow> E e c' | Inr x \<Rightarrow> Q x c'"
  using assms tracks_refl [of V c] by (cases reply) (auto simp: coord_inv_def wp_def)

lemma tracks_unchanged:
  "tracks V c n (v_reqs V (store c)) (v_insts V (store c)) (v_accts V (store c)) c' \<Longrightarrow> unchanged V (store c) (store c')"
  by (simp add: tracks_def unchanged_def wallets_kept_def)

lemma tracks_requests:
  "tracks V c n m (v_insts V (store c)) (v_accts V (store c)) c' \<Longrightarrow>
   v_reqs V (store c') = m \<and> wallets_kept V (store c) (store c')"
  by (simp add: tracks_def wallets_kept_def)

lemma acts_onI:
  assumes "coord_inv V c" "f c = (reply, c')"
    and "\<And>m i a. tracks V c 0 m i a c \<Longrightarrow> wp f
      (\<lambda>x c'. \<exists>r n. m k = Some r \<and> may r \<and> x = out r \<and> tracks V c n (m(k \<mapsto> upd r)) i a c')
      (\<lambda>_ c'. \<exists>n. tracks V c n m i a c') c"
    and "\<And>m i a r. tracks V c 0 m i a c \<Longrightarrow> m k = Some r \<Longrightarrow> may r \<Longrightarrow>
      wp f (\<lambda>_ _. True) (\<lambda>e _. \<exists>re. e = Repository re) c"
  shows "acts_on V k may upd out c reply c'"
proof -
  note exact = handler_outcome [OF assms(1,2) assms(3)]
  show ?thesis
  proof (cases reply)
    case (Inl e)
    have "\<exists>re. e = Repository re" if "v_reqs V (store c) k = Some r" "may r" for r
      using handler_outcome [OF assms(1,2) assms(4) [of "v_reqs V (store c)" _ _ r]] that Inl by simp
    with exact Inl show ?thesis by (auto simp: acts_on_def dest: tracks_unchanged)
  next
    case (Inr x)
    with exact show ?thesis by (fastforce simp: acts_on_def dest: tracks_requests)
  qed
qed

context coordinator_store
begin

lemma wp_require_wallet [track_rules]:
  assumes "tracks V c0 n m i a c"
    and "\<And>x c'. tracks V c0 n m i a c' \<Longrightarrow> i w = Some x \<Longrightarrow> wi_wallet_instance_id x = w \<Longrightarrow> nonblank w \<Longrightarrow> Q x c'"
    and "\<And>e c'. tracks V c0 n m i a c' \<Longrightarrow> E e c'"
  shows "wp (require_wallet_instance T w) Q E c"
  unfolding require_wallet_instance_def
  by (rule wp_bind, rule wp_get_instance [OF assms(1)])
    (auto intro!: wp_ok_or assms(2,3) dest: tracked_instance)

lemma wp_require_owned [track_rules]:
  assumes "tracks V c0 n m i a c"
    and "\<And>r c'. tracks V c0 n m i a c' \<Longrightarrow> m k = Some r \<Longrightarrow> request_id r = k \<Longrightarrow> ids_ok r \<Longrightarrow> wallet_instance_id r = w \<Longrightarrow> Q r c'"
    and "\<And>e c'. tracks V c0 n m i a c' \<Longrightarrow> E e c'"
  shows "wp (require_owned_request T k w) Q E c"
  unfolding require_owned_request_def
  by (rule wp_bind, rule wp_get_request [OF assms(1)])
    (auto intro!: wp_rules assms(2,3) dest: tracked_request)

end

end
