(* ===== verification/Coordinator_Delivery.thy ===== *)
theory Coordinator_Delivery
  imports Coordinator_Rules
begin

text \<open>
  The handlers that move a stored request: pulling, presenting, resolving, rejecting, cancelling and
  the heartbeat that refreshes presentations. For each, what a success found and wrote, and that on
  every path, errors included, the table of requests only moved along \<open>quiet_table_step\<close>.
\<close>

lemmas reject_moves =
  reaches_move [OF _ _ request_step.reject [where s = Rejected, simplified]]
  reaches_move [OF _ _ request_step.reject [where s = Expired, simplified]]
  reaches_move [OF _ _ request_step.reject [where s = Failed, simplified]]

text \<open>
  What \<open>pull_next_request\<close> answers and makes of the table, given its three clock readings: the oldest
  request with a live presentation again, else the oldest undelivered one under a new lease, else nothing.
\<close>

inductive pull_outcome :: "CoordinatorConfig \<Rightarrow> TimestampMs \<Rightarrow> TimestampMs \<Rightarrow> TimestampMs \<Rightarrow> WalletInstanceId \<Rightarrow>
    request_table \<Rightarrow> PullNextRequestResult \<Rightarrow> request_table \<Rightarrow> bool" for cfg t t1 t2 w m where
  pull_nothing: "\<forall>k r. m k = Some r \<longrightarrow> \<not> resumable w t1 r \<Longrightarrow>
    \<forall>k r. m k = Some r \<longrightarrow> wallet_instance_id r = w \<longrightarrow> status r \<noteq> Created \<Longrightarrow>
    pull_outcome cfg t t1 t2 w m \<lparr>pnr_wallet_instance_id = w, pnr_request = None\<rparr> m"
| pull_resumed: "m (request_id r) = Some r \<Longrightarrow> resumable w t1 r \<Longrightarrow>
    \<forall>k r2. m k = Some r2 \<longrightarrow> resumable w t1 r2 \<longrightarrow> created_at r \<le> created_at r2 \<Longrightarrow>
    presentation r = Some p \<Longrightarrow> checked_add_seconds t (cfg_presentation_lease_ttl cfg) = Some e \<Longrightarrow>
    r' = r\<lparr>presentation := Some (p\<lparr>presentation_expires_at := e\<rparr>), updated_at := t\<rparr> \<Longrightarrow>
    pull_outcome cfg t t1 t2 w m
      \<lparr>pnr_wallet_instance_id = w, pnr_request = Some (project_pulled_request r' True)\<rparr> (m(request_id r \<mapsto> r'))"
| pull_claimed: "m (request_id r) = Some r \<Longrightarrow> wallet_instance_id r = w \<Longrightarrow> status r = Created \<Longrightarrow>
    \<forall>k r2. m k = Some r2 \<longrightarrow> \<not> resumable w t1 r2 \<Longrightarrow>
    \<forall>k r2. m k = Some r2 \<longrightarrow> wallet_instance_id r2 = w \<longrightarrow> status r2 = Created \<longrightarrow> created_at r \<le> created_at r2 \<Longrightarrow>
    checked_add_seconds t2 (cfg_delivery_lease_ttl cfg) = Some e \<Longrightarrow>
    r' = r\<lparr>status := Dispatched, updated_at := t,
      delivery_lease := Some \<lparr>delivery_lease_id = lid, delivery_lease_expires_at = e\<rparr>\<rparr> \<Longrightarrow>
    pull_outcome cfg t t1 t2 w m
      \<lparr>pnr_wallet_instance_id = w, pnr_request = Some (project_pulled_request r' False)\<rparr> (m(request_id r \<mapsto> r'))"

lemma pull_outcome_steps: "pull_outcome cfg t t1 t2 w m x m' \<Longrightarrow> quiet_table_steps m m'"
proof (induction rule: pull_outcome.induct)
  case (pull_resumed r p e r')
  then have "quiet_step r r'" by (auto simp: quiet_step_def resumable_def intro: request_step.refresh)
  with pull_resumed.hyps(1) show ?case by (blast intro: quiet_table_step.quiet_move)
next
  case (pull_claimed r e r' lid)
  then have "quiet_step r r'" by (auto simp: quiet_step_def intro: request_step.claim)
  with pull_claimed.hyps(1) show ?case by (blast intro: quiet_table_step.quiet_move)
qed simp

text \<open>A pull that answers a request had one created or presented for the wallet.\<close>

lemma pull_outcome_available:
  "pull_outcome cfg t t1 t2 w m x m' \<Longrightarrow> pnr_request x \<noteq> None \<Longrightarrow>
   \<exists>k r. m k = Some r \<and> wallet_instance_id r = w \<and> status r \<in> {Created, PendingUserApproval}"
  by (induction rule: pull_outcome.induct) (auto simp: resumable_def)

text \<open>What a heartbeat for the requests in \<open>S\<close> makes of the table.\<close>

definition refreshable :: "WalletInstanceId \<Rightarrow> RequestRecord \<Rightarrow> bool" where
  "refreshable w r \<longleftrightarrow> wallet_instance_id r = w \<and> status r = PendingUserApproval \<and> presentation r \<noteq> None"

definition refresh_record :: "TimestampMs \<Rightarrow> TimestampMs \<Rightarrow> RequestRecord \<Rightarrow> RequestRecord" where
  "refresh_record t e r = r\<lparr>presentation := map_option (presentation_expires_at_update (\<lambda>_. e)) (presentation r), updated_at := t\<rparr>"

definition refresh_table :: "WalletInstanceId \<Rightarrow> TimestampMs \<Rightarrow> TimestampMs \<Rightarrow> RequestId set \<Rightarrow> request_table \<Rightarrow> request_table" where
  "refresh_table w t e S m k =
     (case m k of None \<Rightarrow> None
      | Some r \<Rightarrow> Some (if k \<in> S \<and> refreshable w r then refresh_record t e r else r))"

lemma refresh_table_empty [simp]: "refresh_table w t e {} m = m"
  by (auto simp: refresh_table_def fun_eq_iff split: option.splits)

lemma refresh_record_twice: "refreshable w r \<Longrightarrow> refreshable w (refresh_record t e r) \<and>
    refresh_record t e (refresh_record t e r) = refresh_record t e r"
  by (auto simp: refresh_record_def refreshable_def)

lemma refresh_table_Un: "refresh_table w t e S' (refresh_table w t e S m) = refresh_table w t e (S \<union> S') m"
  by (auto simp: refresh_table_def fun_eq_iff refresh_record_twice split: option.splits)

lemma refresh_table_one: "m k = Some r \<Longrightarrow> refreshable w r \<Longrightarrow>
    refresh_table w t e {k} m = m(k \<mapsto> refresh_record t e r)"
  by (auto simp: refresh_table_def fun_eq_iff split: option.splits)

lemma refresh_table_skip:
  "(case m k of None \<Rightarrow> True | Some r \<Rightarrow> \<not> refreshable w r) \<Longrightarrow> refresh_table w t e {k} m = m"
  by (auto simp: refresh_table_def fun_eq_iff split: option.splits)

lemma refresh_table_steps: "quiet_table_steps m (refresh_table w t e {k} m)"
proof (cases "\<exists>r. m k = Some r \<and> refreshable w r")
  case True
  then obtain r p where r: "m k = Some r" "status r = PendingUserApproval" "presentation r = Some p" "refreshable w r"
    by (auto simp: refreshable_def)
  then have "quiet_step r (refresh_record t e r)"
    by (simp add: quiet_step_def refresh_record_def request_step.refresh)
  with r show ?thesis by (simp only: refresh_table_one [of m k r w, OF r(1,4)]) (blast intro: quiet_table_step.quiet_move)
next
  case False
  then show ?thesis by (auto simp: refresh_table_skip split: option.splits)
qed

lemma refresh_tables_steps: "quiet_table_steps m (refresh_table w t e (set ks) m)"
proof (induction ks arbitrary: m)
  case (Cons k ks)
  show ?case
    using rtranclp_trans [OF refresh_table_steps [of m w t e k] Cons.IH] by (simp add: refresh_table_Un)
qed simp

section \<open>What the handlers of one request do to it\<close>

definition live_lease :: "DeliveryLeaseId \<Rightarrow> TimestampMs \<Rightarrow> RequestRecord \<Rightarrow> bool" where
  "live_lease lid t r \<longleftrightarrow>
     (\<exists>l. delivery_lease r = Some l \<and> delivery_lease_id l = lid \<and> t < delivery_lease_expires_at l)"

definition live_presentation :: "PresentationId \<Rightarrow> TimestampMs \<Rightarrow> RequestRecord \<Rightarrow> bool" where
  "live_presentation pid t r \<longleftrightarrow>
     (\<exists>p. presentation r = Some p \<and> presentation_id p = pid \<and> t < presentation_expires_at p)"

definition may_resolve :: "ResolveRequestCommand \<Rightarrow> TimestampMs \<Rightarrow> RequestRecord \<Rightarrow> bool" where
  "may_resolve cmd t r \<longleftrightarrow> wallet_instance_id r = res_wallet_instance_id cmd \<and> status r = PendingUserApproval \<and>
     live_presentation (res_presentation_id cmd) t r \<and> result_kind (res_result cmd) = expected_result_kind (kind r)"

definition approved_request :: "CoordinatorConfig \<Rightarrow> TimestampMs \<Rightarrow> RequestResult \<Rightarrow> RequestRecord \<Rightarrow> RequestRecord" where
  "approved_request cfg t x r =
     r\<lparr>status := Approved, updated_at := t, approved_at := Some t,
       result_expires_at := checked_add_seconds t (cfg_result_retention cfg), result := Some x,
       last_error_code := None, last_error_message := None, reject_reason_code := None,
       delivery_lease := None, presentation := None\<rparr>"

definition resolved_reply :: "CoordinatorConfig \<Rightarrow> TimestampMs \<Rightarrow> ResolveRequestCommand \<Rightarrow> RequestResolvedResult" where
  "resolved_reply cfg t cmd =
     \<lparr>rrr_request_id = res_request_id cmd, rrr_status = Approved, rrr_result_kind = result_kind (res_result cmd),
      rrr_result_expires_at = checked_add_seconds t (cfg_result_retention cfg)\<rparr>"

text \<open>
  Presenting for the first time takes the delivery lease the request was pulled with, presenting again
  the identifier of the presentation that is still live; both need a presentation lease that fits an
  \<open>i64\<close>.
\<close>

definition may_present :: "CoordinatorConfig \<Rightarrow> TimestampMs \<Rightarrow> MarkRequestPresentedCommand \<Rightarrow> RequestRecord \<Rightarrow> bool" where
  "may_present cfg t cmd r \<longleftrightarrow> wallet_instance_id r = mrp_wallet_instance_id cmd \<and>
     checked_add_seconds t (cfg_presentation_lease_ttl cfg) \<noteq> None \<and>
     (case mrp_delivery_lease_id cmd of
        Some lid \<Rightarrow> status r = Dispatched \<and> live_lease lid t r
      | None \<Rightarrow> status r = PendingUserApproval \<and> live_presentation (mrp_presentation_id cmd) t r)"

definition presented_request :: "CoordinatorConfig \<Rightarrow> TimestampMs \<Rightarrow> MarkRequestPresentedCommand \<Rightarrow> RequestRecord \<Rightarrow> RequestRecord" where
  "presented_request cfg t cmd r =
     r\<lparr>status := PendingUserApproval, updated_at := t,
       presentation := map_option (\<lambda>e. \<lparr>presentation_id = mrp_presentation_id cmd, presentation_expires_at = e\<rparr>)
         (checked_add_seconds t (cfg_presentation_lease_ttl cfg)),
       delivery_lease := (if status r = Dispatched then None else delivery_lease r)\<rparr>"

lemma presented_first:
  "status r = Dispatched \<Longrightarrow> checked_add_seconds t (cfg_presentation_lease_ttl cfg) = Some e \<Longrightarrow>
   presented_request cfg t cmd r = r\<lparr>status := PendingUserApproval, updated_at := t,
     presentation := Some \<lparr>presentation_id = mrp_presentation_id cmd, presentation_expires_at = e\<rparr>, delivery_lease := None\<rparr>"
  by (simp add: presented_request_def)

lemma presented_again:
  "status r = PendingUserApproval \<Longrightarrow> presentation r = Some p \<Longrightarrow> presentation_id p = mrp_presentation_id cmd \<Longrightarrow>
   checked_add_seconds t (cfg_presentation_lease_ttl cfg) = Some e \<Longrightarrow>
   presented_request cfg t cmd r = r\<lparr>presentation := Some (p\<lparr>presentation_expires_at := e\<rparr>), updated_at := t\<rparr>"
  by (cases r; cases p) (simp add: presented_request_def)

text \<open>Without a presentation a request is rejected from its delivery, with one only while that is live.\<close>

definition may_reject :: "TimestampMs \<Rightarrow> RejectRequestCommand \<Rightarrow> RequestRecord \<Rightarrow> bool" where
  "may_reject t cmd r \<longleftrightarrow> wallet_instance_id r = rej_wallet_instance_id cmd \<and>
     can_transition_to (status r) (fst (map_reject_reason (rej_reason_code cmd))) \<and>
     (case rej_presentation_id cmd of
        None \<Rightarrow> status r = Dispatched
      | Some pid \<Rightarrow> status r = PendingUserApproval \<and> live_presentation pid t r)"

definition rejected_request :: "TimestampMs \<Rightarrow> RejectRequestCommand \<Rightarrow> RequestRecord \<Rightarrow> RequestRecord" where
  "rejected_request t cmd r =
     (case map_reject_reason (rej_reason_code cmd) of (s, ec, msg) \<Rightarrow>
        r\<lparr>status := s, updated_at := t, approved_at := None,
          rejected_at := (if s = Rejected then Some t else None), failed_at := (if s = Failed then Some t else None),
          reject_reason_code := Some (rej_reason_code cmd), last_error_code := Some ec,
          last_error_message := Some (case rej_message cmd of Some txt \<Rightarrow> txt | None \<Rightarrow> msg),
          delivery_lease := None, presentation := None\<rparr>)"

definition rejected_reply :: "RejectRequestCommand \<Rightarrow> RequestRejectedResult" where
  "rejected_reply cmd =
     (case map_reject_reason (rej_reason_code cmd) of (s, ec, _) \<Rightarrow>
        \<lparr>rjr_request_id = rej_request_id cmd, rjr_status = s, rjr_error_code = ec\<rparr>)"

lemma tracks_same: "tracks V c0 n m i a c \<Longrightarrow> m k = Some r \<Longrightarrow> tracks V c0 n (m(k \<mapsto> r)) i a c"
  by (simp only: map_upd_triv)

text \<open>Cancelling a request that is decided already leaves it alone.\<close>

definition cancelled_request :: "TimestampMs \<Rightarrow> TimestampMs \<Rightarrow> RequestRecord \<Rightarrow> RequestRecord" where
  "cancelled_request t t' r =
     (if is_terminal (status r) then r
      else r\<lparr>status := Cancelled, updated_at := t, cancelled_at := Some t', last_error_code := Some RequestCancelled,
             last_error_message := Some ''Request cancelled by caller'', delivery_lease := None, presentation := None\<rparr>)"

lemma cancelled_decided: "is_terminal (status r) \<Longrightarrow> cancelled_request t t' r = r"
  by (simp add: cancelled_request_def)

lemma cancelled_live: "\<not> is_terminal (status r) \<Longrightarrow> cancelled_request t t' r =
    r\<lparr>status := Cancelled, updated_at := t, cancelled_at := Some t', last_error_code := Some RequestCancelled,
      last_error_message := Some ''Request cancelled by caller'', delivery_lease := None, presentation := None\<rparr>"
  by (simp add: cancelled_request_def)

definition cancelled_reply :: "RequestRecord \<Rightarrow> CancelRequestResult" where
  "cancelled_reply r =
     \<lparr>crq_request_id = request_id r, crq_status = status r, crq_error_code = last_error_code r\<rparr>"

context coordinator_store
begin

section \<open>Exact descriptions\<close>

lemma resolve_request_wp:
  "tracks V c0 n m i a c \<Longrightarrow> wp (resolve_request T cmd)
    (\<lambda>x c'. \<exists>r. m (res_request_id cmd) = Some r \<and> may_resolve cmd (reading c0 n) r \<and>
       x = resolved_reply (config c0) (reading c0 n) cmd \<and>
       tracks V c0 (Suc n) (m(res_request_id cmd \<mapsto> approved_request (config c0) (reading c0 n) (res_result cmd) r)) i a c')
    (\<lambda>e c'. tracks V c0 (Suc n) m i a c') c"
  unfolding resolve_request_def
  by (auto elim!: track_rules intro!: wp_rules simp: ids_ok_def may_resolve_def live_presentation_def approved_request_def
      resolved_reply_def)

lemma cancel_request_wp:
  "tracks V c0 n m i a c \<Longrightarrow> wp (cancel_request T k)
    (\<lambda>x c'. \<exists>r n'. m k = Some r \<and> x = cancelled_reply (cancelled_request (reading c0 n) (reading c0 (Suc n)) r) \<and>
       tracks V c0 n' (m(k \<mapsto> cancelled_request (reading c0 n) (reading c0 (Suc n)) r)) i a c')
    (\<lambda>e c'. \<exists>n'. tracks V c0 n' m i a c') c"
  unfolding cancel_request_def Let_def
  by (auto elim!: track_rules intro!: wp_rules simp: ids_ok_def cancelled_decided cancelled_live cancelled_reply_def
      simp del: fun_upd_apply; blast dest: tracks_same)

lemma mark_request_presented_wp:
  "tracks V c0 n m i a c \<Longrightarrow> nonblank (mrp_presentation_id cmd) \<Longrightarrow> wp (mark_request_presented T cmd)
    (\<lambda>x c'. \<exists>r. m (mrp_request_id cmd) = Some r \<and> may_present (config c0) (reading c0 n) cmd r \<and>
       x = \<lparr>rpr_request_id = mrp_request_id cmd, rpr_status = PendingUserApproval\<rparr> \<and>
       tracks V c0 (Suc n) (m(mrp_request_id cmd \<mapsto> presented_request (config c0) (reading c0 n) cmd r)) i a c')
    (\<lambda>e c'. tracks V c0 (Suc n) m i a c') c"
  unfolding mark_request_presented_def
  by (auto elim!: track_rules intro!: wp_rules simp: ids_ok_def may_present_def live_presentation_def live_lease_def
      presented_first presented_again)

lemma reject_request_wp:
  "tracks V c0 n m i a c \<Longrightarrow> wp (reject_request T cmd)
    (\<lambda>x c'. \<exists>r. m (rej_request_id cmd) = Some r \<and> may_reject (reading c0 n) cmd r \<and> x = rejected_reply cmd \<and>
       tracks V c0 (Suc n) (m(rej_request_id cmd \<mapsto> rejected_request (reading c0 n) cmd r)) i a c')
    (\<lambda>e c'. tracks V c0 (Suc n) m i a c') c"
  using map_reject_reason_status [of "rej_reason_code cmd"]
  unfolding reject_request_def
  by (cases "map_reject_reason (rej_reason_code cmd)")
    (auto elim!: track_rules intro!: wp_rules simp: ids_ok_def may_reject_def live_presentation_def
      rejected_request_def rejected_reply_def)

section \<open>What they accept\<close>

text \<open>When the conditions of the exact descriptions hold, only the store can make the handler fail.\<close>

lemmas validator_defs = validate_request_result_def validate_presentation_def validate_delivery_lease_def Let_def
  live_presentation_def live_lease_def

lemma resolve_request_accepts:
  "tracks V c0 n m i a c \<Longrightarrow> m (res_request_id cmd) = Some r \<Longrightarrow> may_resolve cmd (reading c0 n) r \<Longrightarrow>
   wp (resolve_request T cmd) (\<lambda>_ _. True) (\<lambda>e _. \<exists>re. e = Repository re) c"
  unfolding resolve_request_def require_owned_request_def
  by (auto elim!: track_rules intro!: wp_rules simp: ids_ok_def validator_defs may_resolve_def)

lemma mark_request_presented_accepts:
  "tracks V c0 n m i a c \<Longrightarrow> m (mrp_request_id cmd) = Some r \<Longrightarrow> nonblank (mrp_presentation_id cmd) \<Longrightarrow>
   may_present (config c0) (reading c0 n) cmd r \<Longrightarrow>
   wp (mark_request_presented T cmd) (\<lambda>_ _. True) (\<lambda>e _. \<exists>re. e = Repository re) c"
  unfolding mark_request_presented_def require_owned_request_def
  by (auto elim!: track_rules intro!: wp_rules simp: ids_ok_def validator_defs may_present_def extend_presentation_def
      split: option.splits)

lemma reject_request_accepts:
  "tracks V c0 n m i a c \<Longrightarrow> m (rej_request_id cmd) = Some r \<Longrightarrow> may_reject (reading c0 n) cmd r \<Longrightarrow>
   wp (reject_request T cmd) (\<lambda>_ _. True) (\<lambda>e _. \<exists>re. e = Repository re) c"
  unfolding reject_request_def require_owned_request_def
  by (auto elim!: track_rules intro!: wp_rules simp: ids_ok_def validator_defs may_reject_def split: option.splits)

lemma cancel_request_accepts:
  "tracks V c0 n m i a c \<Longrightarrow> m k = Some r \<Longrightarrow>
   wp (cancel_request T k) (\<lambda>_ _. True) (\<lambda>e _. \<exists>re. e = Repository re) c"
  unfolding cancel_request_def Let_def
  by (auto elim!: track_rules intro!: wp_rules simp: ids_ok_def validator_defs elim: nonterminal_cases)

text \<open>The two halves together, as the effect of the handler on its request.\<close>

lemma resolve_request_acts:
  assumes "coord_inv V c" "resolve_request T cmd c = (reply, c')"
  shows "acts_on V (res_request_id cmd) (may_resolve cmd (reading c 0))
    (approved_request (config c) (reading c 0) (res_result cmd)) (\<lambda>_. resolved_reply (config c) (reading c 0) cmd) c reply c'"
  by (rule acts_onI [where f = "resolve_request T cmd", OF assms], erule wp_mono [OF resolve_request_wp])
    (blast intro: resolve_request_accepts)+

lemma mark_request_presented_acts:
  assumes "coord_inv V c" "nonblank (mrp_presentation_id cmd)" "mark_request_presented T cmd c = (reply, c')"
  shows "acts_on V (mrp_request_id cmd) (may_present (config c) (reading c 0) cmd)
    (presented_request (config c) (reading c 0) cmd)
    (\<lambda>_. \<lparr>rpr_request_id = mrp_request_id cmd, rpr_status = PendingUserApproval\<rparr>) c reply c'"
  by (rule acts_onI [where f = "mark_request_presented T cmd", OF assms(1,3)], erule wp_mono [OF mark_request_presented_wp])
    (use assms(2) in \<open>blast intro: mark_request_presented_accepts\<close>)+

lemma reject_request_acts:
  assumes "coord_inv V c" "reject_request T cmd c = (reply, c')"
  shows "acts_on V (rej_request_id cmd) (may_reject (reading c 0) cmd) (rejected_request (reading c 0) cmd)
    (\<lambda>_. rejected_reply cmd) c reply c'"
  by (rule acts_onI [where f = "reject_request T cmd", OF assms], erule wp_mono [OF reject_request_wp])
    (blast intro: reject_request_accepts)+

lemma cancel_request_acts:
  assumes "coord_inv V c" "cancel_request T k c = (reply, c')"
  shows "acts_on V k (\<lambda>_. True) (cancelled_request (reading c 0) (reading c 1))
    (\<lambda>r. cancelled_reply (cancelled_request (reading c 0) (reading c 1) r)) c reply c'"
  by (rule acts_onI [where f = "cancel_request T k", OF assms], erule wp_mono [OF cancel_request_wp])
    (auto intro: cancel_request_accepts)

section \<open>Handlers that change a request\<close>

lemma resolve_request_moves: "tracks V c0 n m i a c \<Longrightarrow>
    wp (resolve_request T cmd) (\<lambda>_. moves V c0 m) (\<lambda>_. moves V c0 m) c"
  by (rule wp_mono [OF resolve_request_wp])
    (auto simp: may_resolve_def live_presentation_def approved_request_def intro: reachesI0 [THEN reaches_moves]
      elim!: movesI [OF _ _ request_step.resolve])

lemma cancel_request_reaches: "tracks V c0 n m i a c \<Longrightarrow>
    wp (cancel_request T k) (\<lambda>_. reaches V c0 m) (\<lambda>_. reaches V c0 m) c"
  unfolding cancel_request_def Let_def
  by (auto elim!: track_rules intro!: wp_rules simp: ids_ok_def
      elim!: reaches_move [OF _ _ request_step.cancel] intro: reachesI0)

lemma mark_presented_reaches: "tracks V c0 n m i a c \<Longrightarrow> nonblank (mrp_presentation_id cmd) \<Longrightarrow>
    wp (mark_request_presented T cmd) (\<lambda>_. reaches V c0 m) (\<lambda>_. reaches V c0 m) c"
  unfolding mark_request_presented_def
  by (auto elim!: track_rules intro!: wp_rules simp: ids_ok_def intro: reachesI0
     elim!: reaches_move [OF _ _ request_step.present] reaches_move [OF _ _ request_step.refresh])

lemma reject_request_reaches:
  assumes "tracks V c0 n m i a c"
  shows "wp (reject_request T cmd) (\<lambda>_. reaches V c0 m) (\<lambda>_. reaches V c0 m) c"
proof (cases "map_reject_reason (rej_reason_code cmd)")
  case (fields s code msg)
  note map_reject_reason_status [OF fields]
  then have "s \<noteq> PendingUserApproval" "s \<noteq> Dispatched" by auto
  with assms fields \<open>s \<in> _\<close> show ?thesis
    unfolding reject_request_def
    by (auto elim!: track_rules reject_moves intro!: wp_rules
        simp: ids_ok_def intro: reachesI0)
qed

lemma wp_find_resumable [track_rules]:
  assumes t: "tracks V c0 n m i a c"
    and none: "\<And>c'. tracks V c0 (Suc n) m i a c' \<Longrightarrow>
      \<forall>k r. m k = Some r \<longrightarrow> \<not> resumable w (reading c0 n) r \<Longrightarrow> Q None c'"
    and some: "\<And>r p c'. tracks V c0 (Suc n) m i a c' \<Longrightarrow> m (request_id r) = Some r \<Longrightarrow> ids_ok r \<Longrightarrow>
      status r = PendingUserApproval \<Longrightarrow> presentation r = Some p \<Longrightarrow>
      resumable w (reading c0 n) r \<Longrightarrow>
      \<forall>k r2. m k = Some r2 \<longrightarrow> resumable w (reading c0 n) r2 \<longrightarrow> created_at r \<le> created_at r2 \<Longrightarrow>
      Q (Some r) c'"
    and e: "\<And>e c'. tracks V c0 (Suc n) m i a c' \<Longrightarrow> E e c'"
  shows "wp (find_resumable_request T w) Q E c"
  unfolding find_resumable_request_def
proof (rule wp_bind, rule wp_now [OF t], rule wp_bind, erule wp_list_non_terminal, rule wp_ok)
  fix c1 c' xs assume t': "tracks V c0 (Suc n) m i a c'"
    and xs: "set xs = {r. m (request_id r) = Some r \<and> \<not> is_terminal (status r)}" and ids: "\<forall>r \<in> set xs. ids_ok r"
  let ?res = "resumable w (reading c0 n)"
  have in_xs: "r \<in> set (filter ?res xs)" if "m k = Some r" "?res r" for k r
    using that xs tracked_request(1) [OF t' that(1)] by (auto simp: resumable_def)
  show "Q (min_by_key created_at (filter ?res xs)) c'"
  proof (cases "min_by_key created_at (filter ?res xs)")
    case None
    then show ?thesis using in_xs by (auto simp: min_by_key_None intro!: none [OF t'])
  next
    case (Some r)
    from min_by_key_Some [OF Some] have r: "r \<in> set xs" "?res r" by auto
    then obtain p where p: "status r = PendingUserApproval" "presentation r = Some p"
      by (auto simp: resumable_def split: option.splits)
    from r min_by_key_Some [OF Some] show ?thesis unfolding Some
      by (intro some [OF t' _ _ p]) (use xs ids in_xs in auto)
  qed
qed (rule e)

lemma pull_next_request_wp:
  "tracks V c0 n m i a c \<Longrightarrow> sources_ok c0 \<Longrightarrow>
   wp (pull_next_request T w)
     (\<lambda>x c'. \<exists>n' m'. pull_outcome (config c0) (reading c0 n) (reading c0 (Suc n)) (reading c0 (Suc (Suc n))) w m x m' \<and>
        tracks V c0 n' m' i a c')
     (\<lambda>_ c'. \<exists>n'. tracks V c0 n' m i a c') c"
  unfolding pull_next_request_def
  by (auto elim!: track_rules intro!: wp_rules simp: sources_ok_def ids_ok_def; blast intro: pull_outcome.intros)

lemma pull_next_request_reaches: "tracks V c0 n m i a c \<Longrightarrow> sources_ok c0 \<Longrightarrow>
    wp (pull_next_request T w) (\<lambda>_. reaches V c0 m) (\<lambda>_. reaches V c0 m) c"
  by (rule wp_mono [OF pull_next_request_wp]) (auto intro: reachesI0 reachesI dest: pull_outcome_steps)

section \<open>Heartbeats\<close>

lemma refresh_presented_wp: "tracks V c0 n m i a c \<Longrightarrow>
    wp (refresh_presented T w t e k) (\<lambda>_. tracks V c0 n (refresh_table w t e {k} m) i a) (\<lambda>_. tracks V c0 n m i a) c"
  unfolding refresh_presented_def
  by (auto elim!: track_rules intro!: wp_rules simp: ids_ok_def)
    (simp_all add: refresh_table_one refresh_table_skip refreshable_def refresh_record_def)

lemma refresh_loop_wp: "tracks V c0 n m i a c \<Longrightarrow>
    wp (for_each ks (refresh_presented T w t e)) (\<lambda>_. tracks V c0 n (refresh_table w t e (set ks) m) i a)
      (\<lambda>_. reaches V c0 m) c"
proof (induction ks arbitrary: m c)
  case Nil
  then show ?case by (simp add: wp_ok)
next
  case (Cons k ks)
  show ?case
  proof (simp only: for_each.simps, intro wp_bind, rule wp_mono [OF refresh_presented_wp [OF Cons.prems]])
    fix c' assume "tracks V c0 n (refresh_table w t e {k} m) i a c'"
    then show "wp (for_each ks (refresh_presented T w t e)) (\<lambda>_. tracks V c0 n (refresh_table w t e (set (k # ks)) m) i a)
        (\<lambda>_. reaches V c0 m) c'"
      by (rule wp_mono [OF Cons.IH]) (auto simp: refresh_table_Un intro: reaches_steps refresh_table_steps)
  qed (rule reachesI0)
qed

lemma heartbeat_backend_wp: "tracks V c0 n m i a c \<Longrightarrow>
    wp (heartbeat_backend T cmd)
      (\<lambda>_ c'. \<exists>inst e. i (hbc_wallet_instance_id cmd) = Some inst \<and>
         (hbc_presented_request_ids cmd \<noteq> [] \<longrightarrow>
            checked_add_seconds (reading c0 n) (cfg_presentation_lease_ttl (config c0)) = Some e) \<and>
         tracks V c0 (Suc n)
           (refresh_table (hbc_wallet_instance_id cmd) (reading c0 n) e (set (hbc_presented_request_ids cmd)) m)
           (i(hbc_wallet_instance_id cmd \<mapsto> inst\<lparr>wi_connected := True, wi_last_seen_at := reading c0 n,
              wi_lock_state := (case hbc_lock_state cmd of Some l \<Rightarrow> l | None \<Rightarrow> wi_lock_state inst)\<rparr>)) a c')
      (\<lambda>_. reaches V c0 m) c"
  unfolding heartbeat_backend_def
  by (auto elim!: track_rules intro!: wp_rules intro: reachesI0) (erule refresh_loop_wp)

lemma heartbeat_backend_reaches: "tracks V c0 n m i a c \<Longrightarrow>
    wp (heartbeat_backend T cmd) (\<lambda>_. reaches V c0 m) (\<lambda>_. reaches V c0 m) c"
  by (rule wp_mono [OF heartbeat_backend_wp]) (auto intro: reachesI refresh_tables_steps)

end

end
