(* ===== verification/Coordinator_Creation.thy ===== *)
theory Coordinator_Creation
  imports Coordinator_Rules
begin

text \<open>
  Creating requests: which wallet a request is pinned to, the replay of a client identifier that was
  seen before, and the fresh record a new identifier gets. \<open>create_outcome\<close> is the specification;
  \<open>create_request\<close> and the five handlers over it meet it on success and leave the store's view
  unchanged on failure.
\<close>

section \<open>The wallet of a request\<close>

text \<open>A wallet that may serve a request, from the instances \<open>i\<close> and the accounts \<open>a\<close> in the store.\<close>

definition eligible_wallet ::
  "(WalletInstanceId \<Rightarrow> WalletInstanceRecord option) \<Rightarrow> (WalletInstanceId \<Rightarrow> string \<Rightarrow> WalletAccountRecord option) \<Rightarrow>
   RequestKind \<Rightarrow> string \<Rightarrow> WalletInstanceId option \<Rightarrow> WalletInstanceId \<Rightarrow> bool" where
  "eligible_wallet i a k address wid w \<longleftrightarrow>
     (\<exists>inst. i w = Some inst \<and> capability_for_request k \<in> set (wi_capabilities inst) \<and> wi_connected inst \<and>
       (if k = CreateAccount \<or> k = ImportAccount then wid = Some w
        else (wi_lock_state inst = Unlocked \<or> UnlockCap \<in> set (wi_capabilities inst)) \<and>
          (\<exists>acc. a w address = Some acc \<and> \<not> wa_is_read_only acc) \<and>
          (case wid of Some w' \<Rightarrow> w' = w | None \<Rightarrow> \<forall>w'. a w' address \<noteq> None \<longrightarrow> w' = w)))"

lemma remdups_adj_sort_single: "remdups_adj (sort xs) = [w] \<Longrightarrow> set xs = {w}"
  by (metis list.set(1,2) remdups_adj_set set_sort)

lemma calculate_payload_hash_nonblank: "calculate_payload_hash T p = Inr h \<Longrightarrow> nonblank h"
  by (auto simp: calculate_payload_hash_def split: sum.splits)

inductive create_outcome ::
  "(WalletInstanceId \<Rightarrow> WalletInstanceRecord option) \<Rightarrow> (WalletInstanceId \<Rightarrow> string \<Rightarrow> WalletAccountRecord option) \<Rightarrow>
   CoordinatorConfig \<Rightarrow> TimestampMs \<Rightarrow> PayloadHash \<Rightarrow> ClientRequestId \<Rightarrow> string \<Rightarrow> WalletInstanceId option \<Rightarrow>
   RequestKind \<Rightarrow> RequestPayload \<Rightarrow> DurationSeconds option \<Rightarrow>
   request_table \<Rightarrow> CreateRequestResult \<Rightarrow> request_table \<Rightarrow> bool"
  for i a cfg t h cid address wid k p ttl m where
  create_replayed: "m (request_id r) = Some r \<Longrightarrow> client_request_id r = cid \<Longrightarrow> payload_hash r = h \<Longrightarrow>
    account_address r = address \<Longrightarrow> wid = None \<or> wid = Some (wallet_instance_id r) \<Longrightarrow>
    create_outcome i a cfg t h cid address wid k p ttl m (project_request_summary r) m"
| create_accepted: "\<forall>k' r. m k' = Some r \<longrightarrow> client_request_id r \<noteq> cid \<Longrightarrow> m rid = None \<Longrightarrow>
    eligible_wallet i a k address wid w \<Longrightarrow> checked_add_seconds t (clamp_ttl cfg ttl) = Some e \<Longrightarrow>
    r = new_request_record rid cid k w address h p t e \<Longrightarrow>
    create_outcome i a cfg t h cid address wid k p ttl m (project_request_summary r) (m(rid \<mapsto> r))"

lemma new_request_record_fresh:
  "t \<le> e \<Longrightarrow> payload_result_kind p = expected_result_kind k \<Longrightarrow>
   fresh_request (new_request_record rid cid k w address h p t e)"
  by (simp add: fresh_request_def new_request_record_def)

lemma new_request_record_ids:
  "nonblank rid \<Longrightarrow> nonblank cid \<Longrightarrow> nonblank w \<Longrightarrow> nonblank h \<Longrightarrow>
   ids_ok (new_request_record rid cid k w address h p t e)"
  by (simp add: ids_ok_def new_request_record_def)

lemma new_request_record_id [simp]:
  "request_id (new_request_record rid cid k w address h p t e) = rid"
  "client_request_id (new_request_record rid cid k w address h p t e) = cid"
  by (simp_all add: new_request_record_def)

lemma create_outcome_steps:
  assumes "create_outcome i a cfg t h cid address wid k p ttl m x m'"
    and "payload_result_kind p = expected_result_kind k"
  shows "quiet_table_steps m m'"
  using assms
proof (induction rule: create_outcome.induct)
  case (create_accepted rid w e r)
  then have "fresh_request r" "request_id r = rid" "client_request_id r = cid"
    by (auto intro: new_request_record_fresh checked_add_seconds_later)
  with create_accepted.hyps(1,2) have "quiet_table_step m (m(request_id r \<mapsto> r))"
    by (intro quiet_table_step.quiet_insert) auto
  with \<open>request_id r = rid\<close> show ?case by (simp add: r_into_rtranclp del: fun_upd_apply)
qed simp

context coordinator_store
begin

lemma wp_resolve_account [track_rules]:
  assumes t: "tracks V c0 n m i a c"
    and q: "\<And>w c'. tracks V c0 n m i a c' \<Longrightarrow> a w address \<noteq> None \<Longrightarrow>
      case wid of Some w' \<Rightarrow> w' = w | None \<Rightarrow> \<forall>w'. a w' address \<noteq> None \<longrightarrow> w' = w \<Longrightarrow> Q w c'"
    and e: "\<And>e c'. tracks V c0 n m i a c' \<Longrightarrow> E e c'"
  shows "wp (resolve_wallet_instance_for_account T address wid) Q E c"
proof (cases wid)
  case (Some w)
  show ?thesis unfolding resolve_wallet_instance_for_account_def Some option.case
    by (rule wp_bind, rule wp_get_account [OF t]) (auto intro!: wp_rules q e simp: Some)
next
  case None
  show ?thesis unfolding resolve_wallet_instance_for_account_def None option.case
  proof (rule wp_bind, rule wp_list_accounts [OF t])
    fix xs c' assume t': "tracks V c0 n m i a c'"
      and xs: "set xs = {x. a (wa_wallet_instance_id x) (wa_address x) = Some x \<and>
        (None = None \<or> None = Some (wa_wallet_instance_id x))}"
    let ?ws = "map wa_wallet_instance_id (filter (\<lambda>x. wa_address x = address) xs)"
    have ws: "w \<in> set ?ws \<longleftrightarrow> a w address \<noteq> None" for w
    proof
      assume "w \<in> set ?ws"
      then obtain x where "x \<in> set xs" "wa_address x = address" "w = wa_wallet_instance_id x" by auto
      with xs show "a w address \<noteq> None" by simp
    next
      assume "a w address \<noteq> None"
      then obtain x where x: "a w address = Some x" by blast
      with tracked_account [OF t' x] xs have "x \<in> set (filter (\<lambda>x. wa_address x = address) xs)" by simp
      with tracked_account(1) [OF t' x] show "w \<in> set ?ws" by force
    qed
    show "wp (case remdups_adj (sort ?ws) of
            [] \<Rightarrow> err (shared InvalidAccount ''Account is not exposed by any known wallet instance'')
          | [w] \<Rightarrow> ok w
          | _ \<Rightarrow> err (shared WalletSelectionRequired ''Multiple wallet instances expose the requested account'')) Q E c'"
    proof (cases "\<exists>w. remdups_adj (sort ?ws) = [w]")
      case True
      then obtain w where w: "remdups_adj (sort ?ws) = [w]" by blast
      with remdups_adj_sort_single [OF w] ws show ?thesis
        unfolding w by (auto intro!: wp_ok q [OF t'] simp: None)
    next
      case False
      then show ?thesis by (auto intro!: wp_err e [OF t'] split: list.split)
    qed
  qed (rule e)
qed

lemma wp_resolve_for_request [track_rules]:
  assumes t: "tracks V c0 n m i a c"
    and q: "\<And>w c'. tracks V c0 n m i a c' \<Longrightarrow> nonblank w \<Longrightarrow> eligible_wallet i a k address wid w \<Longrightarrow> Q w c'"
    and e: "\<And>e c'. tracks V c0 n m i a c' \<Longrightarrow> E e c'"
  shows "wp (resolve_wallet_for_request T k address wid) Q E c"
proof (cases "k = CreateAccount \<or> k = ImportAccount")
  case True
  then show ?thesis using t unfolding resolve_wallet_for_request_def Let_def
    by (auto elim!: track_rules intro!: wp_rules intro: q e simp: eligible_wallet_def)
next
  case False
  then show ?thesis using t unfolding resolve_wallet_for_request_def resolve_wallet_for_signing_def Let_def
    by (auto elim!: track_rules intro!: wp_rules intro: q e simp: eligible_wallet_def)
qed

section \<open>Creating\<close>

lemma create_request_wp:
  assumes "tracks V c0 n m i a c" "sources_ok c0" "nonblank cid"
  shows "wp (create_request T cid address wid k p ttl)
    (\<lambda>x c'. \<exists>h n' m'. calculate_payload_hash T p = Inr h \<and>
       create_outcome i a (config c0) (reading c0 n) h cid address wid k p ttl m x m' \<and> tracks V c0 n' m' i a c')
    (\<lambda>_ c'. \<exists>n'. tracks V c0 n' m i a c') c"
proof (cases "calculate_payload_hash T p")
  case (Inl e)
  with assms(1) show ?thesis unfolding create_request_def
    by (auto intro!: wp_rules)
next
  case (Inr h)
  note calculate_payload_hash_nonblank [OF Inr]
  with assms Inr show ?thesis unfolding create_request_def Let_def
    by (auto elim!: track_rules intro!: wp_rules simp: sources_ok_def new_request_record_ids split: option.splits;
        blast intro: create_outcome.intros)
qed

lemma create_request_reaches:
  assumes "tracks V c0 n m i a c" "sources_ok c0" "nonblank cid" "payload_result_kind p = expected_result_kind k"
  shows "wp (create_request T cid address wid k p ttl) (\<lambda>_. reaches V c0 m) (\<lambda>_. reaches V c0 m) c"
  by (rule wp_mono [OF create_request_wp [OF assms(1-3)]])
    (use assms(4) in \<open>auto intro: reachesI0 reachesI dest: create_outcome_steps\<close>)

lemmas create_handler_defs = create_sign_transaction_request_def create_sign_message_request_def
  create_account_request_def create_export_account_request_def create_import_account_request_def

lemma create_handlers_reach:
  assumes "tracks V c0 n m i a c" "sources_ok c0"
  shows "nonblank (cst_client_request_id cst) \<Longrightarrow>
      wp (create_sign_transaction_request T cst) (\<lambda>_. reaches V c0 m) (\<lambda>_. reaches V c0 m) c"
    and "nonblank (csm_client_request_id csm) \<Longrightarrow>
      wp (create_sign_message_request T csm) (\<lambda>_. reaches V c0 m) (\<lambda>_. reaches V c0 m) c"
    and "nonblank (cac_client_request_id cac) \<Longrightarrow>
      wp (create_account_request T cac) (\<lambda>_. reaches V c0 m) (\<lambda>_. reaches V c0 m) c"
    and "nonblank (cea_client_request_id cea) \<Longrightarrow>
      wp (create_export_account_request T cea) (\<lambda>_. reaches V c0 m) (\<lambda>_. reaches V c0 m) c"
    and "nonblank (cia_client_request_id cia) \<Longrightarrow>
      wp (create_import_account_request T cia) (\<lambda>_. reaches V c0 m) (\<lambda>_. reaches V c0 m) c"
  unfolding create_handler_defs
  using assms by (auto intro!: wp_rules create_request_reaches intro: reachesI0)

text \<open>A client identifier that is taken by a request with another payload or target is refused.\<close>

lemma create_request_conflict:
  assumes "tracks V c0 n m i a c" "calculate_payload_hash T p = Inr h" "m j = Some r" "client_request_id r = cid"
    and "payload_hash r \<noteq> h \<or> account_address r \<noteq> address \<or> (wid \<noteq> None \<and> wid \<noteq> Some (wallet_instance_id r))"
  shows "wp (create_request T cid address wid k p ttl) (\<lambda>_ _. False)
    (\<lambda>e c'. ((\<exists>re. e = Repository re) \<or> (\<exists>msg. e = shared IdempotencyKeyConflict msg)) \<and> tracks V c0 n m i a c') c"
proof -
  have same: "r' = r" if "tracks V c0 n m i a c'" "m (request_id r') = Some r'" "client_request_id r' = cid" for r' c'
    using that stored_client_unique [of "store c'" "request_id r'" r' j r] assms(3,4) by (simp add: tracks_def)
  show ?thesis unfolding create_request_def assms(2)
    by (intro wp_bind wp_of_result wp_get_by_client [OF assms(1)])
      (use assms(3-5) in \<open>auto simp: Let_def dest!: same intro!: wp_rules\<close>)
qed

text \<open>The same payload and target under a client identifier that is taken: the request it stands for, again.\<close>

lemma create_request_replay:
  assumes "tracks V c0 n m i a c" "calculate_payload_hash T p = Inr h" "m j = Some r" "client_request_id r = cid"
    and "payload_hash r = h" "account_address r = address" "wid = None \<or> wid = Some (wallet_instance_id r)"
  shows "wp (create_request T cid address wid k p ttl) (\<lambda>x c'. x = project_request_summary r \<and> tracks V c0 n m i a c')
    (\<lambda>e c'. (\<exists>re. e = Repository re) \<and> tracks V c0 n m i a c') c"
proof -
  have same: "r' = r" if "tracks V c0 n m i a c'" "m (request_id r') = Some r'" "client_request_id r' = cid" for r' c'
    using that stored_client_unique [of "store c'" "request_id r'" r' j r] assms(3,4) by (simp add: tracks_def)
  show ?thesis unfolding create_request_def assms(2)
    by (intro wp_bind wp_of_result wp_get_by_client [OF assms(1)])
      (use assms(3-7) in \<open>auto simp: Let_def dest!: same intro!: wp_rules\<close>)
qed

end

text \<open>What a creation answered is what the table holds under the client identifier.\<close>

lemma create_outcome_stored:
  assumes "create_outcome i a cfg t h cid address wid k p ttl m x m'"
  obtains r j where "m' j = Some r" "client_request_id r = cid" "payload_hash r = h" "account_address r = address"
    "wid = None \<or> wid = Some (wallet_instance_id r)" "x = project_request_summary r"
  using assms
proof (cases rule: create_outcome.cases)
  case (create_accepted rid w e r)
  then have "wid = None \<or> wid = Some w" by (auto simp: eligible_wallet_def split: if_splits option.splits)
  with create_accepted that [of rid r] show thesis by (simp add: new_request_record_def)
qed (use that in blast)

end
