(* ===== verification/Coordinator_Wallets.thy ===== *)
theory Coordinator_Wallets
  imports Coordinator_Creation
begin

text \<open>
  The handlers of wallet instances and accounts, and the queries: what a registration or an account
  update leaves in the store, which wallet is the default, how accounts are grouped, and that each
  query answers from the stored records and changes none of them.
\<close>

section \<open>Registered wallets\<close>

definition registered_instance :: "TimestampMs \<Rightarrow> RegisterBackendCommand \<Rightarrow> WalletInstanceRecord" where
  "registered_instance t cmd =
     \<lparr>wi_wallet_instance_id = rbc_wallet_instance_id cmd, wi_backend_kind = rbc_backend_kind cmd,
      wi_transport_kind = rbc_transport_kind cmd, wi_approval_surface = rbc_approval_surface cmd,
      wi_instance_label = rbc_instance_label cmd, wi_extension_id = rbc_extension_id cmd,
      wi_extension_version = rbc_extension_version cmd, wi_protocol_version = rbc_protocol_version cmd,
      wi_capabilities = canonical_capabilities (rbc_capabilities cmd),
      wi_backend_metadata = rbc_backend_metadata cmd, wi_profile_hint = rbc_profile_hint cmd,
      wi_lock_state = rbc_lock_state cmd, wi_connected = True, wi_last_seen_at = t\<rparr>"

definition updated_instance :: "TimestampMs \<Rightarrow> UpdateBackendAccountsCommand \<Rightarrow> WalletInstanceRecord \<Rightarrow> WalletInstanceRecord" where
  "updated_instance t cmd inst =
     inst\<lparr>wi_connected := True, wi_lock_state := uba_lock_state cmd,
          wi_capabilities := canonical_capabilities (uba_capabilities cmd), wi_last_seen_at := t\<rparr>"

lemma canonical_capabilities_set: "set (canonical_capabilities cs) = set cs"
  by (simp add: canonical_capabilities_def)

lemma distinct_remdups_adj_sorted: "sorted xs \<Longrightarrow> distinct (remdups_adj xs)"
  by (induction xs rule: remdups_adj.induct) (auto simp: antisym)

lemma canonical_capabilities_sorted: "sorted (canonical_capabilities cs)" "distinct (canonical_capabilities cs)"
  by (simp_all add: canonical_capabilities_def distinct_remdups_adj_sorted sorted_remdups_adj)

section \<open>The default wallet\<close>

lemma find_first_max:
  assumes "sorted (rev (map f xs))" "find P xs = Some x" "y \<in> set xs" "P y"
  shows "f y \<le> f x"
  using assms
proof (induction xs)
  case (Cons z zs)
  then show ?case by (auto simp: sorted_append split: if_splits)
qed simp

text \<open>
  The most recently seen wallet that is connected and unlocked, else the most recently seen connected
  one, else none.
\<close>

definition default_wallet :: "(WalletInstanceId \<Rightarrow> WalletInstanceRecord option) \<Rightarrow> WalletInstanceId option \<Rightarrow> bool" where
  "default_wallet i d \<longleftrightarrow>
     (case d of
        None \<Rightarrow> \<forall>w x. i w = Some x \<longrightarrow> \<not> wi_connected x
      | Some w \<Rightarrow> \<exists>x. i w = Some x \<and> wi_connected x \<and>
          (\<forall>w' y. i w' = Some y \<longrightarrow> wi_connected y \<longrightarrow> wi_lock_state y = Unlocked \<longrightarrow>
             wi_lock_state x = Unlocked \<and> wi_last_seen_at y \<le> wi_last_seen_at x) \<and>
          (wi_lock_state x \<noteq> Unlocked \<longrightarrow>
             (\<forall>w' y. i w' = Some y \<longrightarrow> wi_connected y \<longrightarrow> wi_last_seen_at y \<le> wi_last_seen_at x)))"

lemma default_wallet_found:
  assumes sorted: "sorted (rev (map wi_last_seen_at xs))"
    and xs: "\<And>w x. i w = Some x \<longleftrightarrow> x \<in> set xs \<and> wi_wallet_instance_id x = w"
  shows "default_wallet i (case find (\<lambda>x. wi_connected x \<and> wi_lock_state x = Unlocked) xs of
      Some x \<Rightarrow> Some (wi_wallet_instance_id x) | None \<Rightarrow> map_option wi_wallet_instance_id (find wi_connected xs))"
proof (cases "find (\<lambda>x. wi_connected x \<and> wi_lock_state x = Unlocked) xs")
  case none: None
  then have locked: "\<And>x. x \<in> set xs \<Longrightarrow> wi_connected x \<Longrightarrow> wi_lock_state x \<noteq> Unlocked"
    by (auto simp: find_None_iff)
  show ?thesis
  proof (cases "find wi_connected xs")
    case None
    then have "\<And>x. x \<in> set xs \<Longrightarrow> \<not> wi_connected x" by (auto simp: find_None_iff)
    with None none show ?thesis by (simp add: default_wallet_def xs)
  next
    case (Some x)
    then have "x \<in> set xs" "wi_connected x" by (auto simp: find_Some_iff)
    with find_first_max [OF sorted Some] locked Some none show ?thesis
      by (auto simp: default_wallet_def xs)
  qed
next
  case (Some x)
  then have "x \<in> set xs" "wi_connected x" "wi_lock_state x = Unlocked" by (auto simp: find_Some_iff)
  with find_first_max [OF sorted Some] Some show ?thesis by (auto simp: default_wallet_def xs)
qed

section \<open>Grouping accounts\<close>

text \<open>The summary of an account and the group of a wallet, without the map the code goes through.\<close>

definition account_summary :: "bool \<Rightarrow> WalletAccountRecord \<Rightarrow> WalletAccountSummary" where
  "account_summary include_public_key a =
     \<lparr>was_address = wa_address a, was_label = wa_label a,
      was_public_key = (if include_public_key then wa_public_key a else None),
      was_is_default = wa_is_default a, was_is_read_only = wa_is_read_only a, was_is_locked = wa_is_locked a\<rparr>"

definition account_group :: "bool \<Rightarrow> WalletAccountRecord list \<Rightarrow> WalletInstanceRecord \<Rightarrow> WalletAccountGroup" where
  "account_group b accounts x =
     (empty_group x)\<lparr>wag_accounts :=
       map (account_summary b) (filter (\<lambda>a. wa_wallet_instance_id a = wi_wallet_instance_id x) accounts)\<rparr>"

lemma fold_empty_groups:
  "fold (\<lambda>x g. g(wi_wallet_instance_id x \<mapsto> empty_group x)) xs g w =
     (case lookup_by wi_wallet_instance_id w (rev xs) of Some x \<Rightarrow> Some (empty_group x) | None \<Rightarrow> g w)"
  by (induction xs arbitrary: g) (auto simp: lookup_by_append split: option.splits)

lemma add_account_at:
  "add_account b a g w = map_option (\<lambda>grp. if wa_wallet_instance_id a = w
     then grp\<lparr>wag_accounts := wag_accounts grp @ [account_summary b a]\<rparr> else grp) (g w)"
  by (cases "g w") (auto simp: account_summary_def split: option.splits)

lemma fold_add_accounts:
  "fold (add_account b) accounts g w =
     map_option (\<lambda>grp. grp\<lparr>wag_accounts := wag_accounts grp @
       map (account_summary b) (filter (\<lambda>a. wa_wallet_instance_id a = w) accounts)\<rparr>) (g w)"
  by (induction accounts arbitrary: g)
    (auto simp: add_account_at option.map_comp o_def option.map_ident simp del: add_account.simps)

lemma map_filter_other: "w \<notin> set ws \<Longrightarrow> List.map_filter (g(w := None)) ws = List.map_filter g ws"
  by (induction ws) (auto simp: map_filter_simps split: option.splits)

lemma take_groups_distinct: "distinct ws \<Longrightarrow> take_groups ws g = List.map_filter g ws"
  by (induction ws arbitrary: g) (auto simp: map_filter_simps map_filter_other split: option.splits)

lemma grouped_accounts:
  assumes "distinct (map wi_wallet_instance_id xs)"
  shows "take_groups (map wi_wallet_instance_id xs) (fold (add_account b) accounts
      (fold (\<lambda>x g. g(wi_wallet_instance_id x \<mapsto> empty_group x)) xs Map.empty)) = map (account_group b accounts) xs"
proof -
  have "lookup_by wi_wallet_instance_id (wi_wallet_instance_id x) (rev xs) = Some x" if "x \<in> set xs" for x
    using assms that by (simp add: lookup_by_Some_iff rev_map [symmetric])
  then have g: "fold (add_account b) accounts (fold (\<lambda>x g. g(wi_wallet_instance_id x \<mapsto> empty_group x)) xs Map.empty)
      (wi_wallet_instance_id x) = Some (account_group b accounts x)" if "x \<in> set xs" for x
    using that by (simp add: fold_add_accounts fold_empty_groups account_group_def) (simp add: empty_group_def)
  have "List.map_filter g (map wi_wallet_instance_id ys) = map (account_group b accounts) ys"
    if "\<And>y. y \<in> set ys \<Longrightarrow> g (wi_wallet_instance_id y) = Some (account_group b accounts y)" for g ys
    using that by (induction ys) (auto simp: map_filter_simps)
  with g assms show ?thesis by (simp add: take_groups_distinct)
qed

context coordinator_store
begin

section \<open>Registration\<close>

lemma register_backend_wp:
  "tracks V c0 n m i a c \<Longrightarrow> nonblank (rbc_wallet_instance_id cmd) \<Longrightarrow>
   wp (register_backend T cmd)
     (\<lambda>_ c'. (\<forall>x. i (rbc_wallet_instance_id cmd) = Some x \<longrightarrow> wi_backend_kind x = rbc_backend_kind cmd) \<and>
        (\<exists>a'. tracks V c0 (Suc n) m (i(rbc_wallet_instance_id cmd \<mapsto> registered_instance (reading c0 n) cmd)) a' c' \<and>
           ((\<forall>acc \<in> set (rbc_accounts cmd). wa_wallet_instance_id acc = rbc_wallet_instance_id cmd) \<longrightarrow>
            accounts_replaced (rbc_wallet_instance_id cmd) (map (stamp_account (reading c0 n)) (rbc_accounts cmd)) a a')))
     (\<lambda>e c'. keeps V c0 m c' \<and>
        ((\<exists>x. i (rbc_wallet_instance_id cmd) = Some x \<and> wi_backend_kind x \<noteq> rbc_backend_kind cmd) \<longrightarrow> tracks V c0 n m i a c')) c"
  unfolding register_backend_def
  by (auto elim!: track_rules intro!: wp_rules intro: keepsI split: option.splits
      simp: registered_instance_def stamp_account_def simp del: fun_upd_apply; blast)

lemma update_backend_accounts_wp:
  "tracks V c0 n m i a c \<Longrightarrow>
   wp (update_backend_accounts T cmd)
     (\<lambda>_ c'. \<exists>inst a'. i (uba_wallet_instance_id cmd) = Some inst \<and>
        tracks V c0 (Suc n) m (i(uba_wallet_instance_id cmd \<mapsto> updated_instance (reading c0 n) cmd inst)) a' c' \<and>
        ((\<forall>acc \<in> set (uba_accounts cmd). wa_wallet_instance_id acc = uba_wallet_instance_id cmd) \<longrightarrow>
         accounts_replaced (uba_wallet_instance_id cmd) (map (stamp_account (reading c0 n)) (uba_accounts cmd)) a a'))
     (\<lambda>e c'. keeps V c0 m c' \<and> (i (uba_wallet_instance_id cmd) = None \<longrightarrow> tracks V c0 (Suc n) m i a c')) c"
  unfolding update_backend_accounts_def
  by (auto elim!: track_rules intro!: wp_rules intro: keepsI
      simp: updated_instance_def stamp_account_def simp del: fun_upd_apply; blast)

lemma wallet_set_account_label_wp:
  "tracks V c0 n m i a c \<Longrightarrow>
   wp (wallet_set_account_label T cmd)
     (\<lambda>x c'. \<exists>inst acc. i (sal_wallet_instance_id cmd) = Some inst \<and> wi_backend_kind inst = LocalAccountDir \<and>
        nonblank (sal_label cmd) \<and> a (sal_wallet_instance_id cmd) (sal_address cmd) = Some acc \<and>
        x = \<lparr>slr_wallet_instance_id = sal_wallet_instance_id cmd,
             slr_account = WalletAccountSummary_from (acc\<lparr>wa_label := Some (trim (sal_label cmd))\<rparr>)\<rparr> \<and>
        tracks V c0 n m i (a(sal_wallet_instance_id cmd := (a (sal_wallet_instance_id cmd))
          (sal_address cmd \<mapsto> acc\<lparr>wa_label := Some (trim (sal_label cmd))\<rparr>))) c')
     (\<lambda>_. tracks V c0 n m i a) c"
  unfolding wallet_set_account_label_def Let_def
  by (rule wp_rules | erule track_rules | (fastforce simp: nonblank_def simp del: fun_upd_apply))+

section \<open>Queries\<close>

lemma get_request_status_wp:
  "tracks V c0 n m i a c \<Longrightarrow>
   wp (get_request_status T k)
     (\<lambda>x c'. (\<exists>r. m k = Some r \<and> x = project_request_status r) \<and> tracks V c0 n m i a c')
     (\<lambda>e c'. ((\<exists>re. e = Repository re) \<or> (m k = None \<and> e = shared RequestNotFound ''Request not found'')) \<and>
        tracks V c0 n m i a c') c"
  unfolding get_request_status_def
  by (auto elim!: track_rules intro!: wp_rules)

lemma request_has_available_wp:
  assumes t: "tracks V c0 n m i a c"
  shows "wp (request_has_available T w)
     (\<lambda>x c'. x = \<lparr>rha_wallet_instance_id = w, rha_available = (\<exists>k r. m k = Some r \<and> wallet_instance_id r = w \<and>
         status r \<in> {Created, PendingUserApproval})\<rparr> \<and> tracks V c0 n m i a c')
     (\<lambda>e c'. (\<exists>re. e = Repository re) \<and> tracks V c0 n m i a c') c"
  unfolding request_has_available_def
proof (rule wp_bind, rule wp_list_non_terminal [OF t], rule wp_ok)
  fix xs c' assume t': "tracks V c0 n m i a c'"
    and xs: "set xs = {r. m (request_id r) = Some r \<and> \<not> is_terminal (status r)}"
  have "list_ex (\<lambda>r. wallet_instance_id r = w \<and> status r \<in> {Created, PendingUserApproval}) xs \<longleftrightarrow>
      (\<exists>k r. m k = Some r \<and> wallet_instance_id r = w \<and> status r \<in> {Created, PendingUserApproval})"
    using tracked_request(1) [OF t'] unfolding list_ex_iff xs by fastforce
  with t' show "\<lparr>rha_wallet_instance_id = w, rha_available = list_ex (\<lambda>r. wallet_instance_id r = w \<and>
      status r \<in> {Created, PendingUserApproval}) xs\<rparr> = \<lparr>rha_wallet_instance_id = w, rha_available =
      (\<exists>k r. m k = Some r \<and> wallet_instance_id r = w \<and> status r \<in> {Created, PendingUserApproval})\<rparr> \<and>
      tracks V c0 n m i a c'" by simp
qed simp

lemma wallet_status_wp:
  assumes t: "tracks V c0 n m i a c"
  shows "wp (wallet_status T)
     (\<lambda>x c'. default_wallet i (wsr_default_wallet_instance_id x) \<and>
        (wsr_wallet_available x \<longleftrightarrow> i \<noteq> Map.empty) \<and>
        (wsr_wallet_online x \<longleftrightarrow> (\<exists>w y. i w = Some y \<and> wi_connected y)) \<and> tracks V c0 n m i a c')
     (\<lambda>e c'. (\<exists>re. e = Repository re) \<and> tracks V c0 n m i a c') c"
  unfolding wallet_status_def
proof (rule wp_bind, rule wp_list_instances [OF t], rule wp_ok, goal_cases)
  case (1 xs c')
  then have xs: "i w = Some x \<longleftrightarrow> x \<in> set xs \<and> wi_wallet_instance_id x = w" for w x
    using tracked_instance(1) [of c0 n m i a c' w x] by auto
  have "xs \<noteq> [] \<longleftrightarrow> i \<noteq> Map.empty" using xs by (auto simp: fun_eq_iff) (metis list.set_intros(1) neq_Nil_conv)
  moreover have "list_ex wi_connected xs \<longleftrightarrow> (\<exists>w y. i w = Some y \<and> wi_connected y)" using xs by (auto simp: list_ex_iff)
  ultimately show ?case using 1 default_wallet_found [OF _ xs] by simp
qed simp

lemma wallet_list_accounts_wp:
  assumes t: "tracks V c0 n m i a c"
  shows "wp (wallet_list_accounts T wid b)
     (\<lambda>x c'. (\<exists>xs accounts. distinct (map wi_wallet_instance_id xs) \<and>
          set xs = {y. i (wi_wallet_instance_id y) = Some y \<and> (wid = None \<or> wid = Some (wi_wallet_instance_id y))} \<and>
          set accounts = {y. a (wa_wallet_instance_id y) (wa_address y) = Some y \<and>
            (wid = None \<or> wid = Some (wa_wallet_instance_id y))} \<and>
          x = map (account_group b accounts) xs) \<and> tracks V c0 n m i a c')
     (\<lambda>_. tracks V c0 n m i a) c"
  unfolding wallet_list_accounts_def
proof (intro wp_bind wp_of_result, goal_cases)
  case 1
  show ?case
  proof (intro wp_list_instances [OF t], intro wp_bind, erule wp_list_accounts, goal_cases)
    case (1 xs c1 accounts c')
    let ?P = "\<lambda>y. case wid of Some w \<Rightarrow> wi_wallet_instance_id y = w | None \<Rightarrow> True"
    have d: "distinct (map wi_wallet_instance_id (filter ?P xs))" using 1(1) by (simp add: distinct_map_filter)
    have s: "set (filter ?P xs) = {y. i (wi_wallet_instance_id y) = Some y \<and> (wid = None \<or> wid = Some (wi_wallet_instance_id y))}"
      using 1(3) by (cases wid) auto
    show ?case unfolding Let_def grouped_accounts [OF d]
      by (intro wp_ok conjI exI [of _ "filter ?P xs"] exI [of _ accounts] d s refl 1)
  qed simp_all
qed (use t in simp)

lemma wallet_get_public_key_wp:
  "tracks V c0 n m i a c \<Longrightarrow>
   wp (wallet_get_public_key T address wid)
     (\<lambda>x c'. (\<exists>acc key. a (gpk_wallet_instance_id x) address = Some acc \<and> wa_public_key acc = Some key \<and>
          x = \<lparr>gpk_wallet_instance_id = gpk_wallet_instance_id x, gpk_address = address, gpk_public_key = key,
               gpk_curve = Ed25519\<rparr> \<and>
          (case wid of Some w \<Rightarrow> gpk_wallet_instance_id x = w
           | None \<Rightarrow> \<forall>w. a w address \<noteq> None \<longrightarrow> w = gpk_wallet_instance_id x)) \<and> tracks V c0 n m i a c')
     (\<lambda>_. tracks V c0 n m i a) c"
  unfolding wallet_get_public_key_def
  by (auto elim!: track_rules intro!: wp_rules split: option.splits)

end

end
