(* ===== verification/Coordinator_Maintenance.thy ===== *)
theory Coordinator_Maintenance
  imports Coordinator_Rules
begin

text \<open>
  The maintenance tick. \<open>ticked\<close>, \<open>offlined\<close> and \<open>evict_expired\<close> say what one tick at time \<open>t\<close> makes of a
  request, a wallet instance and a retained result; \<open>tick_maintenance_wp\<close> shows that a successful
  tick applies them to every stored record and counts what it did, in the order of the three loops.
\<close>

section \<open>What a tick does to one record\<close>

definition lapsed :: "TimestampMs \<Rightarrow> RequestRecord \<Rightarrow> bool" where
  "lapsed t r \<longleftrightarrow> expires_at r \<le> t"

definition delivery_lapsed :: "TimestampMs \<Rightarrow> RequestRecord \<Rightarrow> bool" where
  "delivery_lapsed t r \<longleftrightarrow> status r = Dispatched \<and>
     (case delivery_lease r of None \<Rightarrow> False | Some l \<Rightarrow> delivery_lease_expires_at l \<le> t)"

definition presentation_lapsed :: "TimestampMs \<Rightarrow> RequestRecord \<Rightarrow> bool" where
  "presentation_lapsed t r \<longleftrightarrow> status r = PendingUserApproval \<and>
     (case presentation r of None \<Rightarrow> False | Some p \<Rightarrow> presentation_expires_at p \<le> t)"

definition ticked :: "TimestampMs \<Rightarrow> RequestRecord \<Rightarrow> RequestRecord" where
  "ticked t r =
     (if lapsed t r then
        r\<lparr>status := Expired, updated_at := t, last_error_code := Some RequestExpired,
          last_error_message := Some ''Request reached its TTL'', delivery_lease := None, presentation := None\<rparr>
      else if delivery_lapsed t r \<or> presentation_lapsed t r then
        r\<lparr>status := Created, updated_at := t, delivery_lease := None, presentation := None\<rparr>
      else r)"

definition result_lapsed :: "TimestampMs \<Rightarrow> RequestRecord \<Rightarrow> bool" where
  "result_lapsed t r \<longleftrightarrow> (\<exists>e. result_expires_at r = Some e \<and> e \<le> t)"

definition evict_expired :: "TimestampMs \<Rightarrow> RequestRecord \<Rightarrow> RequestRecord" where
  "evict_expired t r =
     (if result_lapsed t r \<and> result r \<noteq> None then r\<lparr>result := None, result_expires_at := None\<rparr> else r)"

definition offlined :: "CoordinatorConfig \<Rightarrow> TimestampMs \<Rightarrow> WalletInstanceRecord \<Rightarrow> WalletInstanceRecord" where
  "offlined cfg t x =
     (if wi_connected x \<and> is_wallet_stale (wi_last_seen_at x) t (cfg_wallet_offline_after cfg)
      then x\<lparr>wi_connected := False\<rparr> else x)"

text \<open>A table in which the records with a key in \<open>K\<close> are changed by \<open>f\<close>.\<close>

definition map_at :: "'k set \<Rightarrow> ('r \<Rightarrow> 'r) \<Rightarrow> ('k \<Rightarrow> 'r option) \<Rightarrow> 'k \<Rightarrow> 'r option" where
  "map_at K f m k = (if k \<in> K then map_option f (m k) else m k)"

lemma map_at_empty [simp]: "map_at {} f m = m"
  by (simp add: map_at_def fun_eq_iff)

lemma map_at_one: "m k = Some r \<Longrightarrow> map_at {k} f m = m(k \<mapsto> f r)"
  by (auto simp: map_at_def fun_eq_iff)

lemma map_at_insert: "k \<notin> K \<Longrightarrow> map_at K f (map_at {k} f m) = map_at (insert k K) f m"
  by (auto simp: map_at_def fun_eq_iff)

lemma map_at_other: "k \<notin> K \<Longrightarrow> map_at K f m k = m k"
  by (simp add: map_at_def)

lemma map_at_same: "m k = Some r \<Longrightarrow> f r = r \<Longrightarrow> map_at {k} f m = m"
  by (auto simp: map_at_def fun_eq_iff)

lemma map_at_rest:
  assumes "distinct (map key (r # rs))" "\<forall>r' \<in> set (r # rs). m (key r') = Some r' \<and> Q r'"
  shows "\<forall>r' \<in> set rs. map_at {key r} f m (key r') = Some r' \<and> Q r'"
proof
  fix r' assume r': "r' \<in> set rs"
  with assms(1) have "key r' \<noteq> key r" by (metis distinct.simps(2) image_eqI list.map(2) list.set_map)
  then have "map_at {key r} f m (key r') = m (key r')" by (simp add: map_at_other)
  with r' assms(2) show "map_at {key r} f m (key r') = Some r' \<and> Q r'" by simp
qed

lemma ticked_step: "\<not> is_terminal (status r) \<Longrightarrow> ticked t r = r \<or> quiet_step r (ticked t r)"
  unfolding quiet_step_def ticked_def lapsed_def delivery_lapsed_def presentation_lapsed_def
  by (auto intro: request_step.expire request_step.release_delivery request_step.release_presentation
      split: option.splits)

lemma evict_step: "result_lapsed t r \<Longrightarrow> evict_expired t r = r \<or> quiet_step r (evict_expired t r)"
  by (auto simp: quiet_step_def evict_expired_def result_lapsed_def intro: request_step.evict)

lemma map_at_steps: "m k = Some r \<Longrightarrow> f r = r \<or> quiet_step r (f r) \<Longrightarrow> quiet_table_steps m (map_at {k} f m)"
  by (auto simp: map_at_one map_upd_triv simp del: fun_upd_apply intro: quiet_table_step.quiet_move)

section \<open>What a tick does to the table\<close>

definition tick_pending :: "TimestampMs \<Rightarrow> request_table \<Rightarrow> request_table" where
  "tick_pending t m k = map_option (\<lambda>r. if is_terminal (status r) then r else ticked t r) (m k)"

definition tick_table :: "TimestampMs \<Rightarrow> request_table \<Rightarrow> request_table" where
  "tick_table t m = (\<lambda>k. map_option (evict_expired t) (tick_pending t m k))"

text \<open>
  What the tick reports, over the pending requests \<open>rs\<close> and the records \<open>es\<close> whose result is due:
  each appears once in its list.
\<close>

definition tick_outcome :: "TimestampMs \<Rightarrow> request_table \<Rightarrow> RequestRecord list \<Rightarrow> RequestRecord list \<Rightarrow>
    TickMaintenanceResult \<Rightarrow> bool" where
  "tick_outcome t m rs es x \<longleftrightarrow>
     distinct (map request_id rs) \<and> set rs = {r. m (request_id r) = Some r \<and> \<not> is_terminal (status r)} \<and>
     distinct (map request_id es) \<and>
     set es = {r. tick_pending t m (request_id r) = Some r \<and> result_lapsed t r} \<and>
     x = \<lparr>tmr_expired_requests = length (filter (lapsed t) rs),
          tmr_released_delivery_leases = length (filter (\<lambda>r. \<not> lapsed t r \<and> delivery_lapsed t r) rs),
          tmr_evicted_results = length (filter (\<lambda>r. result r \<noteq> None) es)\<rparr>"

text \<open>After a tick nothing is left that the tick would change.\<close>

definition settled :: "TimestampMs \<Rightarrow> RequestRecord \<Rightarrow> bool" where
  "settled t r \<longleftrightarrow> (is_terminal (status r) \<or> t < expires_at r) \<and> \<not> delivery_lapsed t r \<and> \<not> presentation_lapsed t r \<and>
     (result r = None \<or> \<not> result_lapsed t r)"

lemma tick_table_settled:
  assumes "tick_table t m k = Some r'" shows "settled t r'"
proof -
  from assms obtain r where r': "r' = evict_expired t (if is_terminal (status r) then r else ticked t r)"
    by (auto simp: tick_table_def tick_pending_def)
  have e: "settled t (evict_expired t x)" if "is_terminal (status x) \<or> t < expires_at x" "\<not> delivery_lapsed t x"
    "\<not> presentation_lapsed t x" for x
    using that by (auto simp: settled_def evict_expired_def delivery_lapsed_def presentation_lapsed_def result_lapsed_def)
  show ?thesis unfolding r'
    by (rule e) (auto simp: ticked_def lapsed_def delivery_lapsed_def presentation_lapsed_def split: if_splits)
qed

lemma fold_count:
  "fold (\<lambda>r cnt. (fst cnt + of_bool (P r), snd cnt + of_bool (Q r))) rs (p, q) =
     (p + length (filter P rs), q + length (filter Q rs))"
  by (induction rs arbitrary: p q) auto

lemma fold_count1: "fold (\<lambda>r cnt. cnt + of_bool (P r)) rs p = p + length (filter P rs)"
  by (induction rs arbitrary: p) auto

text \<open>Changing the listed records is changing all of them, when the others are left as they are anyway.\<close>

lemma map_at_all:
  assumes "\<And>k r. m k = Some r \<Longrightarrow> key r = k" "set rs = {r. m (key r) = Some r \<and> P r}"
    and "\<And>r. \<not> P r \<Longrightarrow> g r = r" "\<And>r. P r \<Longrightarrow> g r = f r"
  shows "map_at (key ` set rs) f m = (\<lambda>k. map_option g (m k))"
proof
  fix k
  show "map_at (key ` set rs) f m k = map_option g (m k)"
  proof (cases "m k")
    case (Some r)
    with assms(1) have "key r = k" by blast
    moreover have "P r" if "k \<in> key ` set rs"
    proof -
      from that obtain x where "k = key x" "m (key x) = Some x" "P x" unfolding assms(2) by blast
      with Some show "P r" by simp
    qed
    ultimately have "k \<in> key ` set rs \<longleftrightarrow> P r" using Some unfolding assms(2) by blast
    with Some assms(3,4) show ?thesis by (simp add: map_at_def)
  qed (simp add: map_at_def)
qed

lemma map_at_list_steps:
  assumes step: "\<And>r. P r \<Longrightarrow> f r = r \<or> quiet_step r (f r)"
  shows "distinct (map request_id rs) \<Longrightarrow> \<forall>r \<in> set rs. m (request_id r) = Some r \<and> P r \<Longrightarrow>
    quiet_table_steps m (map_at (request_id ` set rs) f m)"
proof (induction rs arbitrary: m)
  case (Cons r rs)
  then have r: "m (request_id r) = Some r" "P r" by auto
  have "quiet_table_steps m (map_at {request_id r} f m)" using step [OF r(2)] by (rule map_at_steps [of m _ r, OF r(1)])
  also have "quiet_table_steps (map_at {request_id r} f m) (map_at (request_id ` set rs) f (map_at {request_id r} f m))"
    using Cons.prems(1) map_at_rest [OF Cons.prems] by (intro Cons.IH) simp_all
  finally show ?case using Cons.prems(1) by (simp add: map_at_insert)
qed simp

context coordinator_store
begin

lemma tick_request_wp:
  assumes "tracks V c0 n m i a c" "m (request_id r) = Some r" "ids_ok r" "\<not> is_terminal (status r)"
  shows "wp (tick_request T t cnt r)
    (\<lambda>cnt' c'. cnt' = (fst cnt + of_bool (lapsed t r), snd cnt + of_bool (\<not> lapsed t r \<and> delivery_lapsed t r)) \<and>
       tracks V c0 n (map_at {request_id r} (ticked t) m) i a c')
    (\<lambda>_. tracks V c0 n m i a) c"
  using assms unfolding tick_request_def
  by (auto elim!: track_rules elim: nonterminal_cases intro!: wp_rules simp: map_at_one ticked_def ids_ok_def
      lapsed_def delivery_lapsed_def presentation_lapsed_def split: option.splits simp del: fun_upd_apply;
      simp only: map_upd_triv)

lemma tick_result_wp:
  assumes "tracks V c0 n m i a c" "m (request_id r) = Some r" "ids_ok r" "result_lapsed t r"
  shows "wp (tick_result T cnt r)
    (\<lambda>cnt' c'. cnt' = cnt + of_bool (result r \<noteq> None) \<and> tracks V c0 n (map_at {request_id r} (evict_expired t) m) i a c')
    (\<lambda>_. tracks V c0 n m i a) c"
  using assms unfolding tick_result_def
  by (auto elim!: track_rules intro!: wp_rules simp: map_at_one evict_expired_def ids_ok_def simp del: fun_upd_apply;
      simp only: map_upd_triv)

text \<open>Both request loops have the same shape: each iteration changes the record it was given.\<close>

lemma tick_loop:
  assumes body: "\<And>m cnt c r. tracks V c0 n m i a c \<Longrightarrow> m (request_id r) = Some r \<Longrightarrow> ids_ok r \<Longrightarrow> P r \<Longrightarrow>
      wp (body cnt r) (\<lambda>cnt' c'. cnt' = upd r cnt \<and> tracks V c0 n (map_at {request_id r} f m) i a c') (\<lambda>_. tracks V c0 n m i a) c"
    and step: "\<And>r. P r \<Longrightarrow> f r = r \<or> quiet_step r (f r)"
  shows "tracks V c0 n m i a c \<Longrightarrow> \<forall>r \<in> set rs. m (request_id r) = Some r \<and> ids_ok r \<and> P r \<Longrightarrow>
    distinct (map request_id rs) \<Longrightarrow>
    wp (for_fold rs cnt body) (\<lambda>cnt' c'. cnt' = fold upd rs cnt \<and> tracks V c0 n (map_at (request_id ` set rs) f m) i a c')
      (\<lambda>_. reaches V c0 m) c"
proof (induction rs arbitrary: m cnt c)
  case Nil
  then show ?case by (simp add: wp_ok)
next
  case (Cons r rs)
  then have r: "m (request_id r) = Some r" "ids_ok r" "P r" by auto
  let ?m = "map_at {request_id r} f m"
  have m: "map_at (request_id ` set rs) f ?m = map_at (request_id ` set (r # rs)) f m"
    using Cons.prems(3) by (simp add: map_at_insert)
  have rest: "\<forall>r' \<in> set rs. ?m (request_id r') = Some r' \<and> ids_ok r' \<and> P r'"
    using Cons.prems(2,3) by (intro map_at_rest)
  have steps: "quiet_table_steps m ?m" using step [OF r(3)] by (rule map_at_steps [of m _ r, OF r(1)])
  show ?case
  proof (simp only: for_fold.simps, intro wp_bind, rule wp_mono [OF body [OF Cons.prems(1) r]])
    fix cnt' c' assume h: "cnt' = upd r cnt \<and> tracks V c0 n ?m i a c'"
    then have "wp (for_fold rs cnt' body) (\<lambda>cnt'' c'. cnt'' = fold upd rs cnt' \<and>
        tracks V c0 n (map_at (request_id ` set rs) f ?m) i a c') (\<lambda>_. reaches V c0 ?m) c'"
      using Cons.prems(3) rest by (intro Cons.IH) simp_all
    then show "wp (for_fold rs cnt' body)
        (\<lambda>cnt' c'. cnt' = fold upd (r # rs) cnt \<and> tracks V c0 n (map_at (request_id ` set (r # rs)) f m) i a c')
        (\<lambda>_. reaches V c0 m) c'"
      unfolding m by (rule wp_mono) (use h in simp, rule reaches_steps [OF _ steps])
  qed (rule reachesI0)
qed

lemma tick_wallets_wp:
  "tracks V c0 n m i a c \<Longrightarrow> \<forall>x \<in> set xs. i (wi_wallet_instance_id x) = Some x \<and> wi_connected x \<Longrightarrow>
    distinct (map wi_wallet_instance_id xs) \<Longrightarrow>
    wp (for_each xs (tick_wallet T cfg t))
      (\<lambda>_. tracks V c0 n m (map_at (wi_wallet_instance_id ` set xs) (offlined cfg t) i) a)
      (\<lambda>_. keeps V c0 m) c"
proof (induction xs arbitrary: i c)
  case Nil
  then show ?case by (simp add: wp_ok)
next
  case (Cons x xs)
  then have x: "i (wi_wallet_instance_id x) = Some x" "wi_connected x" by auto
  let ?i = "map_at {wi_wallet_instance_id x} (offlined cfg t) i"
  have "wp (tick_wallet T cfg t x) (\<lambda>_. tracks V c0 n m ?i a) (\<lambda>_. keeps V c0 m) c"
    using Cons.prems(1) x tracked_instance [OF Cons.prems(1) x(1)] unfolding tick_wallet_def
    by (auto elim!: track_rules intro!: wp_rules intro: keepsI simp: map_at_one offlined_def simp del: fun_upd_apply;
        simp only: map_upd_triv)
  moreover have i: "map_at (wi_wallet_instance_id ` set xs) (offlined cfg t) ?i =
      map_at (wi_wallet_instance_id ` set (x # xs)) (offlined cfg t) i"
    using Cons.prems(3) by (simp add: map_at_insert)
  have rest: "\<forall>y \<in> set xs. ?i (wi_wallet_instance_id y) = Some y \<and> wi_connected y"
    using Cons.prems(2,3) by (intro map_at_rest)
  ultimately show ?case
  proof (simp only: for_each.simps, intro wp_bind, elim wp_mono)
    fix c' assume "tracks V c0 n m ?i a c'"
    then show "wp (for_each xs (tick_wallet T cfg t))
        (\<lambda>_. tracks V c0 n m (map_at (wi_wallet_instance_id ` set (x # xs)) (offlined cfg t) i) a) (\<lambda>_. keeps V c0 m) c'"
      using Cons.IH [of ?i c'] Cons.prems(3) rest by (simp only: i distinct.simps list.map)
  qed
qed

lemma wp_tick_requests:
  assumes t: "tracks V c0 n m i a c" and rs: "distinct (map request_id rs)"
    "set rs = {r. m (request_id r) = Some r \<and> \<not> is_terminal (status r)}" "\<forall>r \<in> set rs. ids_ok r"
  shows "wp (for_fold rs (0, 0) (tick_request T t))
    (\<lambda>cnt c'. cnt = (length (filter (lapsed t) rs), length (filter (\<lambda>r. \<not> lapsed t r \<and> delivery_lapsed t r) rs)) \<and>
       quiet_table_steps m (tick_pending t m) \<and> tracks V c0 n (tick_pending t m) i a c') (\<lambda>_. reaches V c0 m) c"
proof -
  let ?upd = "\<lambda>r cnt. (fst cnt + of_bool (lapsed t r), snd cnt + of_bool (\<not> lapsed t r \<and> delivery_lapsed t r))"
  have m: "map_at (request_id ` set rs) (ticked t) m = tick_pending t m"
    using map_at_all [where g = "\<lambda>r. if is_terminal (status r) then r else ticked t r" and f = "ticked t",
      OF tracked_request(1) [OF t] rs(2)]
    by (simp add: tick_pending_def fun_eq_iff)
  have "wp (for_fold rs (0, 0) (tick_request T t)) (\<lambda>cnt c'. cnt = fold ?upd rs (0, 0) \<and>
      tracks V c0 n (map_at (request_id ` set rs) (ticked t) m) i a c') (\<lambda>_. reaches V c0 m) c"
    by (rule tick_loop [where P = "\<lambda>r. \<not> is_terminal (status r)", OF tick_request_wp ticked_step t])
      (use rs in auto)
  moreover have "quiet_table_steps m (map_at (request_id ` set rs) (ticked t) m)"
    by (rule map_at_list_steps [OF ticked_step rs(1)]) (use rs(2) in auto)
  ultimately show ?thesis by (simp add: m fold_count)
qed

lemma wp_tick_results:
  assumes t: "tracks V c0 n m i a c" and es: "distinct (map request_id es)"
    "set es = {r. m (request_id r) = Some r \<and> (\<exists>e. result_expires_at r = Some e \<and> e \<le> t)}"
    "\<forall>r \<in> set es. ids_ok r"
  shows "wp (for_fold es 0 (tick_result T))
    (\<lambda>cnt c'. cnt = length (filter (\<lambda>r. result r \<noteq> None) es) \<and>
       quiet_table_steps m (\<lambda>k. map_option (evict_expired t) (m k)) \<and>
       tracks V c0 n (\<lambda>k. map_option (evict_expired t) (m k)) i a c') (\<lambda>_. reaches V c0 m) c"
proof -
  note es2 = es(2) [folded result_lapsed_def]
  have m: "map_at (request_id ` set es) (evict_expired t) m = (\<lambda>k. map_option (evict_expired t) (m k))"
    by (rule map_at_all [OF tracked_request(1) [OF t] es2]) (simp_all add: evict_expired_def)
  have "wp (for_fold es 0 (tick_result T)) (\<lambda>cnt c'. cnt = fold (\<lambda>r cnt. cnt + of_bool (result r \<noteq> None)) es 0 \<and>
      tracks V c0 n (map_at (request_id ` set es) (evict_expired t) m) i a c') (\<lambda>_. reaches V c0 m) c"
    by (rule tick_loop [where P = "result_lapsed t", OF tick_result_wp evict_step t]) (use es(1,3) es2 in auto)
  moreover have "quiet_table_steps m (map_at (request_id ` set es) (evict_expired t) m)"
    by (rule map_at_list_steps [OF evict_step es(1)]) (use es2 in auto)
  ultimately show ?thesis by (simp add: m fold_count1)
qed

lemma wp_tick_wallets:
  assumes t: "tracks V c0 n m i a c" and xs: "distinct (map wi_wallet_instance_id xs)"
    "set xs = {x. i (wi_wallet_instance_id x) = Some x \<and> (True \<longrightarrow> wi_connected x)}"
  shows "wp (for_each xs (tick_wallet T cfg tm))
    (\<lambda>_. tracks V c0 n m (\<lambda>w. map_option (offlined cfg tm) (i w)) a) (\<lambda>_. keeps V c0 m) c"
proof -
  have i: "map_at (wi_wallet_instance_id ` set xs) (offlined cfg tm) i = (\<lambda>w. map_option (offlined cfg tm) (i w))"
    by (rule map_at_all [OF tracked_instance(1) [OF t] xs(2)]) (simp_all add: offlined_def)
  have "\<forall>x \<in> set xs. i (wi_wallet_instance_id x) = Some x \<and> wi_connected x" using xs(2) by simp
  from tick_wallets_wp [OF t this xs(1), of cfg tm] show ?thesis by (simp only: i)
qed

lemma tick_maintenance_wp:
  assumes "tracks V c0 n m i a c"
  shows "wp (tick_maintenance T)
    (\<lambda>x c'. (\<exists>rs es. tick_outcome (reading c0 n) m rs es x) \<and>
       tracks V c0 (Suc n) (tick_table (reading c0 n) m) (\<lambda>w. map_option (offlined (config c0) (reading c0 n)) (i w)) a c' \<and> reaches V c0 m c')
    (\<lambda>_. reaches V c0 m) c"
  unfolding tick_maintenance_def
  apply (rule wp_bind, rule wp_now [OF assms])
  apply (rule wp_bind, erule wp_list_non_terminal)
   apply (rule wp_bind, rule wp_mono [OF wp_tick_requests], assumption+)
    apply (elim conjE)
    apply (rule wp_bind, erule wp_list_instances)
     apply (rule wp_bind, erule wp_config)
     apply (rule wp_bind, rule wp_mono [OF wp_tick_wallets], assumption+)
      apply (rule wp_bind, erule wp_list_expired)
       apply (rule wp_bind, rule wp_mono [OF wp_tick_results], assumption+)
         apply (rule wp_ok)
         apply (auto simp: tick_table_def tick_outcome_def result_lapsed_def
            intro: reachesI reachesI0 reaches_steps reaches_keeps)
  done

end

end
