(* ===== verification/Coordinator_Runs.thy ===== *)
theory Coordinator_Runs
  imports Coordinator_Delivery Coordinator_Wallets Coordinator_Maintenance
begin

text \<open>
  The whole coordinator: every command moves the table of requests along \<open>table_step\<close> only, keeps the
  coordinator invariant and its configuration, and so does every run of the coordinator thread.
\<close>

context coordinator_store
begin

section \<open>Commands on wallets and queries\<close>

lemma register_backend_keeps: "tracks V c0 n m i a c \<Longrightarrow> nonblank (rbc_wallet_instance_id cmd) \<Longrightarrow>
    wp (register_backend T cmd) (\<lambda>_. keeps V c0 m) (\<lambda>_. keeps V c0 m) c"
  unfolding register_backend_def
  by (auto elim!: track_rules intro!: wp_rules intro: keepsI)

lemma update_backend_accounts_keeps: "tracks V c0 n m i a c \<Longrightarrow>
    wp (update_backend_accounts T cmd) (\<lambda>_. keeps V c0 m) (\<lambda>_. keeps V c0 m) c"
  unfolding update_backend_accounts_def
  by (auto elim!: track_rules intro!: wp_rules intro: keepsI)

lemma wallet_set_account_label_keeps: "tracks V c0 n m i a c \<Longrightarrow>
    wp (wallet_set_account_label T cmd) (\<lambda>_. keeps V c0 m) (\<lambda>_. keeps V c0 m) c"
  unfolding wallet_set_account_label_def Let_def
  by (rule wp_rules | erule track_rules | erule keepsI)+

text \<open>A query leaves the whole view as it was.\<close>

lemma queries_unchanged:
  assumes "tracks V c0 n m i a c"
  shows "wp (wallet_status T) (\<lambda>_. tracks V c0 n m i a) (\<lambda>_. tracks V c0 n m i a) c"
    and "wp (wallet_list_instances T b) (\<lambda>_. tracks V c0 n m i a) (\<lambda>_. tracks V c0 n m i a) c"
    and "wp (wallet_list_accounts T wid b) (\<lambda>_. tracks V c0 n m i a) (\<lambda>_. tracks V c0 n m i a) c"
    and "wp (wallet_get_public_key T adr wid) (\<lambda>_. tracks V c0 n m i a) (\<lambda>_. tracks V c0 n m i a) c"
    and "wp (get_request_status T k) (\<lambda>_. tracks V c0 n m i a) (\<lambda>_. tracks V c0 n m i a) c"
    and "wp (request_has_available T w) (\<lambda>_. tracks V c0 n m i a) (\<lambda>_. tracks V c0 n m i a) c"
  using assms
  unfolding wallet_status_def wallet_list_instances_def wallet_list_accounts_def wallet_get_public_key_def
    get_request_status_def request_has_available_def Let_def
  by (auto elim!: track_rules intro!: wp_rules)

section \<open>Dispatch\<close>

lemma wp_respond: "wp m (\<lambda>_. P) (\<lambda>_. P) c \<Longrightarrow> wp (respond f m) (\<lambda>_. P) (\<lambda>_. P) c"
  unfolding respond_def by (rule wp_bind, erule wp_mono) (auto intro: wp_ok)

lemma reaches_wpI:
  "wp f (\<lambda>_. tracks V c0 n m i a) (\<lambda>_. tracks V c0 n m i a) c \<Longrightarrow> wp f (\<lambda>_. reaches V c0 m) (\<lambda>_. reaches V c0 m) c"
  "wp f (\<lambda>_. keeps V c0 m) (\<lambda>_. keeps V c0 m) c \<Longrightarrow> wp f (\<lambda>_. reaches V c0 m) (\<lambda>_. reaches V c0 m) c"
  by (erule wp_mono; auto intro: reachesI0 reaches_keeps)+

lemma tick_reaches: "tracks V c0 n m i a c \<Longrightarrow>
    wp (tick_maintenance T) (\<lambda>_. reaches V c0 m) (\<lambda>_. reaches V c0 m) c"
  by (rule wp_mono [OF tick_maintenance_wp]) auto

lemma the_config_keeps: "tracks V c0 n m i a c \<Longrightarrow> wp the_config (\<lambda>_. keeps V c0 m) (\<lambda>_. keeps V c0 m) c"
  by (auto elim!: wp_config intro: keepsI)

lemmas handler_rules =
  cancel_request_reaches mark_presented_reaches reject_request_reaches
  pull_next_request_reaches heartbeat_backend_reaches create_handlers_reach tick_reaches
  queries_unchanged [THEN reaches_wpI(1)]
  the_config_keeps [THEN reaches_wpI(2)] register_backend_keeps [THEN reaches_wpI(2)]
  update_backend_accounts_keeps [THEN reaches_wpI(2)] wallet_set_account_label_keeps [THEN reaches_wpI(2)]

lemma dispatch_reaches:
  "tracks V c0 n m i a c \<Longrightarrow> sources_ok c0 \<Longrightarrow> cmd_ok cmd \<Longrightarrow> (\<And>res. cmd \<noteq> CmdResolveRequest res) \<Longrightarrow>
   wp (dispatch T cmd) (\<lambda>_. reaches V c0 m) (\<lambda>_. reaches V c0 m) c"
  by (cases cmd)
    (auto intro!: wp_respond handler_rules simp: register_extension_def heartbeat_extension_def update_extension_accounts_def)

lemma dispatch_moves:
  assumes "tracks V c0 n m i a c" "sources_ok c0" "cmd_ok cmd"
  shows "wp (dispatch T cmd) (\<lambda>_. moves V c0 m) (\<lambda>_. moves V c0 m) c"
proof (cases "\<exists>res. cmd = CmdResolveRequest res")
  case True
  with assms(1) show ?thesis by (auto intro!: wp_respond resolve_request_moves)
next
  case False
  with assms show ?thesis
    by (intro wp_mono [OF dispatch_reaches]) (auto intro: reaches_moves)
qed

lemma dispatch_inv:
  assumes "coord_inv V c" "cmd_ok cmd" "dispatch T cmd c = (reply, c')"
  shows "coord_inv V c' \<and> table_steps (v_reqs V (store c)) (v_reqs V (store c')) \<and> config c' = config c"
proof -
  from assms(1) have "moves V c (v_reqs V (store c)) c'"
    using wp_stateD [OF dispatch_moves [OF tracks_refl _ assms(2)] assms(3)] by (auto simp: coord_inv_def)
  with assms(1) show ?thesis
    by (auto simp: moves_def keeps_def tracks_def coord_inv_def sources_ok_def dest: table_steps_ok)
qed

text \<open>Only a resolve command that names the request and may resolve it approves it.\<close>

lemma dispatch_approval:
  assumes "coord_inv V c" "cmd_ok cmd" "dispatch T cmd c = (reply, c')"
    and "v_reqs V (store c') k = Some r'" "status r' = Approved"
    and "\<And>r. v_reqs V (store c) k = Some r \<Longrightarrow> status r \<noteq> Approved"
  shows "\<exists>res r. cmd = CmdResolveRequest res \<and> res_request_id res = k \<and> v_reqs V (store c) k = Some r \<and>
    may_resolve res (reading c 0) r \<and> r' = approved_request (config c) (reading c 0) (res_result res) r"
proof (cases "\<exists>res. cmd = CmdResolveRequest res")
  case True
  then obtain res where res: "cmd = CmdResolveRequest res" by blast
  with assms(3) obtain reply' where h: "resolve_request T res c = (reply', c')"
    by (auto simp: respond_def bind_def ok_def split: prod.splits sum.splits)
  from resolve_request_acts [OF assms(1) h] assms(4-6) res show ?thesis
    by (cases reply') (auto simp: acts_on_def unchanged_def split: if_splits)
next
  case False
  with assms(1) have "reaches V c (v_reqs V (store c)) c'"
    using wp_stateD [OF dispatch_reaches [OF tracks_refl _ assms(2)] assms(3)] by (auto simp: coord_inv_def)
  then have "quiet_table_steps (v_reqs V (store c)) (v_reqs V (store c'))"
    by (auto simp: reaches_def keeps_def tracks_def)
  from quiet_table_steps_approved [OF this assms(4,5)] assms(6) show ?thesis by blast
qed

lemma run_inv:
  "run_coordinator T cmds c = (replies, c') \<Longrightarrow> coord_inv V c \<Longrightarrow> list_all cmd_ok cmds \<Longrightarrow>
   coord_inv V c' \<and> table_steps (v_reqs V (store c)) (v_reqs V (store c')) \<and> length replies = length cmds"
proof (induction cmds arbitrary: c replies)
  case (Cons cmd cmds)
  obtain reply c1 where d: "dispatch T cmd c = (reply, c1)" by fastforce
  obtain rest c2 where r: "run_coordinator T cmds c1 = (rest, c2)" by fastforce
  from Cons.prems d r have "replies = reply # rest" "c2 = c'" by auto
  with dispatch_inv [OF Cons.prems(2) _ d] Cons.IH [of c1 rest] Cons.prems(3) r show ?case
    by (auto intro: rtranclp_trans)
qed simp

end

end
