(* ===== verification/Sqlite_Daemon.thy ===== *)
theory Sqlite_Daemon
  imports Sqlite_Wallets Coordinator_Runs
begin

text \<open>
  The daemon's coordinator over the SQLite store. The locale \<open>sqlite_daemon\<close> is the interface to the
  code outside the repository (the JSON codec, the order of a table scan); in it the SQLite store keeps
  the whole store contract, so every lemma of \<open>coordinator_store\<close> holds of the coordinator on it. The
  locale is interpreted on a reference environment, which the witnesses run in.
\<close>

definition sqlite_traits ::
  "'j Env \<Rightarrow> PolicyEngine \<Rightarrow> (RequestPayload \<Rightarrow> string + nat list) \<Rightarrow> (nat list \<Rightarrow> string) \<Rightarrow> 'j Connection Traits" where
  "sqlite_traits env P J H = \<lparr>store_impl = SqliteStore env, policy_impl = P, json_to_vec = J, sha256_hex = H\<rparr>"

lemma sqlite_traits_simps [simp]: "store_impl (sqlite_traits env P J H) = SqliteStore env"
  "policy_impl (sqlite_traits env P J H) = P" "json_to_vec (sqlite_traits env P J H) = J"
  "sha256_hex (sqlite_traits env P J H) = H"
  by (simp_all add: sqlite_traits_def)

lemma sqlite_request_repository:
  assumes env: "env_ok env"
  shows "request_repository (SqliteStore env) (sqlite_view env)"
proof (unfold_locales, goal_cases)
  case (1 s k r)
  then show ?case using db_reqs_stored [OF db_invD(1)] by auto
next
  case (2 s k r k' r')
  then have ok: "requests_ok env (requests s)" by (simp add: db_invD)
  from 2 obtain x y where "x \<in> set (requests s)" "y \<in> set (requests s)" "rq_request_id x = k" "rq_request_id y = k'"
    "rq_client_request_id x = rq_client_request_id y"
    by (auto simp: db_reqs_Some [OF ok] read_request_fields)
  with ok show ?case by (auto simp: requests_ok_def dest: distinct_map_same)
next
  case (3 s k res s')
  then show ?case using read_lawI [OF get_request_law] by (simp add: SqliteStore_def)
next
  case (4 s cid res s')
  then show ?case using read_lawI [OF get_by_client_law, of env s cid res s'] by (simp add: SqliteStore_def)
next
  case (5 s r res s')
  then show ?case using write_lawI [OF insert_request_law [OF env], of s r res s']
    by (cases res) (simp_all add: SqliteStore_def)
next
  case (6 s r r0 res s')
  then show ?case using write_lawI [OF update_request_law [OF env], of s r r0 res s']
    by (cases res) (simp_all add: SqliteStore_def)
next
  case (7 s l w t res s')
  then show ?case using write_lawI [OF claim_request_law [OF env], of s l w t res s']
    by (auto simp: SqliteStore_def claim_effect_def split: sum.splits option.splits)
next
  case (8 s res s')
  then show ?case using read_lawI [OF list_non_terminal_law [OF env], of s res s'] by (simp add: SqliteStore_def)
next
  case (9 s t res s')
  then show ?case using read_lawI [OF list_expired_law [OF env], of s t res s'] by (simp add: SqliteStore_def)
qed

lemma sqlite_wallet_repository:
  assumes env: "env_ok env"
  shows "wallet_repository (SqliteStore env) (sqlite_view env)"
proof (unfold_locales, goal_cases)
  case (1 s w i)
  then have ok: "instances_ok env (wallet_instances s)" by (simp add: db_invD)
  from 1 show ?case by (auto simp: db_insts_Some [OF ok] read_instance_fields)
next
  case (2 s w a acc)
  then show ?case using db_accts_stored [of env s w a acc] by simp
next
  case (3 s w res s')
  then show ?case using read_lawI [OF get_instance_law, of env s w res s'] by (simp add: SqliteStore_def)
next
  case (4 s i res s')
  then show ?case using write_lawI [OF upsert_instance_law [OF env], of s i res s']
    by (cases res) (simp_all add: SqliteStore_def)
next
  case (5 s b res s')
  then show ?case using read_lawI [OF list_instances_law [OF env], of s b res s'] by (simp add: SqliteStore_def)
next
  case (6 s w as res s')
  then show ?case using write_lawI [OF replace_accounts_law, of env s w as res s']
    by (auto simp: SqliteStore_def split: sum.splits)
next
  case (7 s as w s')
  then show ?case using wp_okD [OF replace_accounts_law, of env s w as "()" s'] by (simp add: SqliteStore_def)
next
  case (8 s wo res s')
  then show ?case using read_lawI [OF list_accounts_law, of env s wo res s'] by (simp add: SqliteStore_def)
next
  case (9 s w a res s')
  then show ?case using read_lawI [OF get_account_law, of env s w a res s'] by (simp add: SqliteStore_def)
next
  case (10 s w a l res s')
  then show ?case using write_lawI [OF set_label_law, of env s w a l res s']
    by (cases res) (simp_all add: SqliteStore_def)
qed

locale sqlite_daemon =
  fixes env :: "'j Env" and P :: PolicyEngine and J :: "RequestPayload \<Rightarrow> string + nat list" and H :: "nat list \<Rightarrow> string"
  assumes env: "env_ok env"

lemma sqlite_coordinator:
  "env_ok env \<Longrightarrow> coordinator_store (sqlite_traits env P J H) (sqlite_view env)"
  by (intro coordinator_store.intro store_contract.intro)
    (simp_all add: sqlite_request_repository sqlite_wallet_repository)

sublocale sqlite_daemon \<subseteq> coordinator_store "sqlite_traits env P J H" "sqlite_view env"
  by (rule sqlite_coordinator [OF env])

end
