(* ===== verification/Sqlite_Schema.thy ===== *)
theory Sqlite_Schema
  imports Sqlite_Daemon
begin

text \<open>
  Opening the database (\<open>starmaskd/src/schema.rs\<close>, \<open>SqliteStore::open\<close>, \<open>schema.sql\<close>): an empty database gets
  the current schema in one transaction, one of the current version must have the required tables, and
  everything else is refused. A database is the connection with its rows, the \<open>user_version\<close> pragma and
  the types and names in \<open>sqlite_schema\<close>.
\<close>

section \<open>Operations\<close>

record 'j Database =
  db_connection :: "'j Connection"
  user_version :: int
  schema_objects :: "(string \<times> string) list"

type_synonym ('j, 'a) database_op = "('j Database, RepositoryError, 'a) fallible"

text \<open>A statement on the database: it counts as one of the connection and fails as one.\<close>

definition schema_statement ::
  "'j Env \<Rightarrow> ('j Database \<Rightarrow> (SqlFailure + 'a) \<times> 'j Database) \<Rightarrow> ('j, 'a) database_op" where
  "schema_statement env f d =
     (let c = db_connection d; d1 = d\<lparr>db_connection := c\<lparr>statements := Suc (statements c)\<rparr>\<rparr> in
      case faults c (statements c) of
        Some msg \<Rightarrow> (Inl (sql_error env (StatementFailed msg)), d1)
      | None \<Rightarrow> (case f d1 of (Inl e, _) \<Rightarrow> (Inl (sql_error env e), d1) | (Inr x, d2) \<Rightarrow> (Inr x, d2)))"

definition schema_query :: "'j Env \<Rightarrow> ('j Database \<Rightarrow> 'a) \<Rightarrow> ('j, 'a) database_op" where
  "schema_query env f = schema_statement env (\<lambda>d. (Inr (f d), d))"

definition SCHEMA_VERSION :: u32 where
  "SCHEMA_VERSION = STARMASKD_DB_SCHEMA_VERSION"

definition REQUIRED_CURRENT_TABLES :: "string list" where
  "REQUIRED_CURRENT_TABLES = [''requests'', ''wallet_instances'', ''wallet_accounts'', ''wallet_account_labels'']"

text \<open>The objects \<open>CURRENT_SCHEMA_SQL\<close> creates, in its order.\<close>

definition CURRENT_SCHEMA :: "(string \<times> string) list" where
  "CURRENT_SCHEMA =
     [(''table'', ''requests''), (''table'', ''wallet_instances''), (''table'', ''wallet_accounts''),
      (''table'', ''wallet_account_labels''),
      (''index'', ''idx_requests_client_request_id''), (''index'', ''idx_requests_status_expires_at''),
      (''index'', ''idx_requests_wallet_instance_status''), (''index'', ''idx_requests_result_expires_at''),
      (''index'', ''idx_wallet_instances_connected_last_seen_at''), (''index'', ''idx_wallet_accounts_address''),
      (''index'', ''idx_wallet_instances_backend_kind_connected''), (''index'', ''idx_wallet_instances_last_seen_at''),
      (''index'', ''idx_wallet_account_labels_wallet_instance_order'')]"

text \<open>
  \<open>name LIKE 'sqlite_%'\<close>: the underscore stands for any one character, the percent sign for any rest, and
  ASCII letters match in either case.
\<close>

definition ascii_lower :: "char \<Rightarrow> char" where
  "ascii_lower a = (let n = of_char a :: nat in if 65 \<le> n \<and> n \<le> 90 then char_of (n + 32) else a)"

definition like_sqlite :: "string \<Rightarrow> bool" where
  "like_sqlite name \<longleftrightarrow> 7 \<le> length name \<and> map ascii_lower (take 6 name) = ''sqlite''"

definition database_has_user_tables :: "'j Env \<Rightarrow> ('j, bool) database_op" where
  "database_has_user_tables env =
     bind (schema_query env (\<lambda>d. length (filter (\<lambda>(t, name). t = ''table'' \<and> \<not> like_sqlite name) (schema_objects d)))) (\<lambda>n.
     ok (0 < n))"

definition table_exists :: "'j Env \<Rightarrow> string \<Rightarrow> ('j, bool) database_op" where
  "table_exists env table_name =
     bind (schema_query env (\<lambda>d. length (filter (\<lambda>(t, name). t = ''table'' \<and> name = table_name) (schema_objects d)))) (\<lambda>n.
     ok (0 < n))"

definition require_table :: "'j Env \<Rightarrow> string \<Rightarrow> ('j, unit) database_op" where
  "require_table env table =
     bind (table_exists env table) (\<lambda>exists.
     if \<not> exists
     then err (Storage (''database schema version '' @ u32_to_string SCHEMA_VERSION @ '' is missing required table '' @ table
            @ ''; recreate the database''))
     else ok ())"

definition ensure_required_schema_tables :: "'j Env \<Rightarrow> ('j, unit) database_op" where
  "ensure_required_schema_tables env = for_each REQUIRED_CURRENT_TABLES (require_table env)"

text \<open>\<open>CREATE TABLE\<close> and \<open>CREATE INDEX\<close> refuse a name that is taken; a new table has no rows.\<close>

definition clear_table :: "string \<Rightarrow> 'j Connection \<Rightarrow> 'j Connection" where
  "clear_table name c =
     (if name = ''requests'' then c\<lparr>requests := []\<rparr>
      else if name = ''wallet_instances'' then c\<lparr>wallet_instances := []\<rparr>
      else if name = ''wallet_accounts'' then c\<lparr>wallet_accounts := []\<rparr>
      else if name = ''wallet_account_labels'' then c\<lparr>wallet_account_labels := []\<rparr>
      else c)"

definition create_object :: "'j Env \<Rightarrow> string \<times> string \<Rightarrow> ('j, unit) database_op" where
  "create_object env obj =
     schema_statement env (\<lambda>d.
       if snd obj \<in> snd ` set (schema_objects d)
       then (Inl (ConstraintViolation (fst obj @ '' '' @ snd obj @ '' already exists'')), d)
       else (Inr (), d\<lparr>schema_objects := schema_objects d @ [obj],
          db_connection := clear_table (snd obj) (db_connection d)\<rparr>))"

definition schema_rollback :: "'j Database \<Rightarrow> 'j Database \<Rightarrow> 'j Database" where
  "schema_rollback d d' =
     d'\<lparr>db_connection := rollback (db_connection d) (db_connection d'), user_version := user_version d,
        schema_objects := schema_objects d\<rparr>"

definition schema_transaction :: "'j Env \<Rightarrow> ('j, 'a) database_op \<Rightarrow> ('j, 'a) database_op" where
  "schema_transaction env body =
     bind (schema_query env (\<lambda>_. ())) (\<lambda>_ d.
       case bind body (\<lambda>x. bind (schema_query env (\<lambda>_. ())) (\<lambda>_. ok x)) d of
         (Inl e, d') \<Rightarrow> (Inl e, schema_rollback d d')
       | (Inr x, d') \<Rightarrow> (Inr x, d'))"

definition create_current_schema :: "'j Env \<Rightarrow> ('j, unit) database_op" where
  "create_current_schema env =
     schema_transaction env
       (bind (for_each CURRENT_SCHEMA (create_object env)) (\<lambda>_.
        schema_statement env (\<lambda>d. (Inr (), d\<lparr>user_version := uint SCHEMA_VERSION\<rparr>))))"

definition ensure_current_schema :: "'j Env \<Rightarrow> ('j, unit) database_op" where
  "ensure_current_schema env =
     bind (schema_query env user_version) (\<lambda>current.
     if current = 0 then
       bind (database_has_user_tables env) (\<lambda>user_tables.
       if user_tables
       then err (Storage (''database has no schema version but is not empty; recreate it with schema version ''
              @ u32_to_string SCHEMA_VERSION))
       else create_current_schema env)
     else if current = uint SCHEMA_VERSION then ensure_required_schema_tables env
     else err (Storage (''unsupported schema version: '' @ i64_to_string current
            @ ''; recreate the database with schema version '' @ u32_to_string SCHEMA_VERSION)))"

text \<open>
  \<open>SqliteStore::open\<close>: creating the directory and opening the file are the operating system's and SQLite's;
  their outcomes are arguments.
\<close>

definition open_store :: "'j Env \<Rightarrow> string + unit \<Rightarrow> string + unit \<Rightarrow> ('j, unit) database_op" where
  "open_store env create_dir_all connection_open =
     bind (case create_dir_all of Inl e \<Rightarrow> err (Storage e) | Inr _ \<Rightarrow> ok ()) (\<lambda>_.
     bind (case connection_open of Inl e \<Rightarrow> err (Storage e) | Inr _ \<Rightarrow> ok ()) (\<lambda>_.
     bind (schema_query env (\<lambda>_. ())) (\<lambda>_.
     ensure_current_schema env)))"

definition schema_version :: "'j Env \<Rightarrow> ('j, u32) database_op" where
  "schema_version env =
     bind (schema_query env user_version) (\<lambda>version.
     if 0 \<le> version \<and> version < 2 ^ 32 then ok (word_of_int version)
     else err (Storage ''out of range integral type conversion attempted''))"

section \<open>What opening does\<close>

definition same_database :: "'j Database \<Rightarrow> 'j Database \<Rightarrow> bool" where
  "same_database d d' \<longleftrightarrow> same_tables (db_connection d) (db_connection d') \<and> user_version d' = user_version d \<and>
     schema_objects d' = schema_objects d"

lemma same_database_refl [simp]: "same_database d d"
  by (simp add: same_database_def)

lemma same_database_trans: "same_database d d' \<Longrightarrow> same_database d' d'' \<Longrightarrow> same_database d d''"
  by (simp add: same_database_def same_tables_def)

lemma schema_statement_wp:
  assumes t: "same_database d0 d"
    and q: "\<And>d1 x d2. same_database d0 d1 \<Longrightarrow> f d1 = (Inr x, d2) \<Longrightarrow> Q x d2"
    and e: "\<And>e d'. same_database d0 d' \<Longrightarrow> E e d'"
  shows "wp (schema_statement env f) Q E d"
proof -
  let ?d1 = "d\<lparr>db_connection := (db_connection d)\<lparr>statements := Suc (statements (db_connection d))\<rparr>\<rparr>"
  have "same_database d0 ?d1" using t by (simp add: same_database_def same_tables_def)
  with q [OF this] e [OF this] show ?thesis
    by (auto simp: wp_def schema_statement_def Let_def split: option.splits prod.splits sum.splits)
qed

lemma schema_query_wp:
  assumes "same_database d0 d" "\<And>d'. same_database d0 d' \<Longrightarrow> Q (f d') d'" "\<And>e d'. same_database d0 d' \<Longrightarrow> E e d'"
  shows "wp (schema_query env f) Q E d"
  unfolding schema_query_def by (rule schema_statement_wp [OF assms(1) _ assms(3)]) (auto intro: assms(2))

lemma table_exists_wp:
  assumes "same_database d0 d" "\<And>d'. same_database d0 d' \<Longrightarrow> Q ((''table'', t) \<in> set (schema_objects d0)) d'"
    "\<And>e d'. same_database d0 d' \<Longrightarrow> E e d'"
  shows "wp (table_exists env t) Q E d"
  unfolding table_exists_def
proof (intro wp_bind schema_query_wp [OF assms(1)] wp_ok)
  fix d' assume d': "same_database d0 d'"
  then have "(0 < length (filter (\<lambda>(t', name). t' = ''table'' \<and> name = t) (schema_objects d'))) \<longleftrightarrow>
      (''table'', t) \<in> set (schema_objects d0)"
    by (auto simp: same_database_def filter_empty_conv)
  with assms(2) [OF d'] show "Q (0 < length (filter (\<lambda>(t', name). t' = ''table'' \<and> name = t) (schema_objects d'))) d'"
    by simp
qed (rule assms(3))

lemma required_tables_wp:
  assumes "same_database d0 d"
  shows "wp (for_each ts (require_table env))
    (\<lambda>_ d'. same_database d0 d' \<and> (\<forall>t \<in> set ts. (''table'', t) \<in> set (schema_objects d0)))
    (\<lambda>_ d'. same_database d0 d') d"
  using assms
proof (induction ts arbitrary: d)
  case Nil
  then show ?case by (simp add: wp_ok)
next
  case (Cons t ts)
  have "wp (require_table env t) (\<lambda>_ d'. same_database d0 d' \<and> (''table'', t) \<in> set (schema_objects d0))
      (\<lambda>_ d'. same_database d0 d') d"
    unfolding require_table_def
    by (rule wp_bind, rule table_exists_wp [OF Cons.prems]) (auto intro!: wp_rules)
  then show ?case
    by (simp only: for_each.simps, intro wp_bind, elim wp_mono) (rule wp_mono [OF Cons.IH], auto)
qed

lemma clear_table_same: "same_tables c c' \<Longrightarrow> same_tables (clear_table t c) (clear_table t c')"
  by (simp add: same_tables_def clear_table_def)

lemma create_objects_wp:
  "same_tables c (db_connection d) \<Longrightarrow>
   wp (for_each objs (create_object env))
    (\<lambda>_ d'. schema_objects d' = schema_objects d @ objs \<and> user_version d' = user_version d \<and>
       same_tables (fold clear_table (map snd objs) c) (db_connection d'))
    (\<lambda>_ _. True) d"
proof (induction objs arbitrary: c d)
  case Nil
  then show ?case by (simp add: wp_ok)
next
  case (Cons obj objs)
  have "wp (create_object env obj) (\<lambda>_ d'. schema_objects d' = schema_objects d @ [obj] \<and>
      user_version d' = user_version d \<and> same_tables (clear_table (snd obj) c) (db_connection d')) (\<lambda>_ _. True) d"
    unfolding create_object_def
    by (rule schema_statement_wp [OF same_database_refl [of d]])
      (auto simp: same_database_def split: if_splits intro!: clear_table_same intro: same_tables_trans [OF Cons.prems])
  then show ?case
    by (simp only: for_each.simps, intro wp_bind, elim wp_mono) (rule wp_mono [OF Cons.IH], auto)
qed

lemma schema_transaction_wp:
  assumes t: "same_database d0 d"
    and body: "\<And>d1. same_database d0 d1 \<Longrightarrow> wp body (\<lambda>x d2. \<forall>d'. same_database d2 d' \<longrightarrow> Q x d') (\<lambda>_ _. True) d1"
    and e: "\<And>e d'. same_database d0 d' \<Longrightarrow> E e d'"
  shows "wp (schema_transaction env body) Q E d"
  unfolding schema_transaction_def
proof (intro wp_bind schema_query_wp [OF t])
  fix d1 assume d1: "same_database d0 d1"
  have "wp (bind body (\<lambda>x. bind (schema_query env (\<lambda>_. ())) (\<lambda>_. ok x))) Q (\<lambda>_ _. True) d1"
    by (rule wp_bind, rule wp_mono [OF body [OF d1]])
      (auto intro!: wp_bind wp_ok schema_query_wp [OF same_database_refl])
  moreover have "E e (schema_rollback d1 d')" for e d'
    using d1 by (intro e) (simp add: same_database_def schema_rollback_def same_tables_def rollback_def)
  ultimately show "wp (\<lambda>d. case bind body (\<lambda>x. bind (schema_query env (\<lambda>_. ())) (\<lambda>_. ok x)) d of
      (Inl e, d') \<Rightarrow> (Inl e, schema_rollback d d') | (Inr x, d') \<Rightarrow> (Inr x, d')) Q E d1"
    by (auto simp: wp_def split: prod.splits sum.splits)
qed (rule e)

text \<open>A database without rows.\<close>

definition no_rows :: "'j Connection \<Rightarrow> bool" where
  "no_rows c \<longleftrightarrow> requests c = [] \<and> wallet_instances c = [] \<and> wallet_accounts c = [] \<and> wallet_account_labels c = []"

lemma schema_clears: "no_rows (fold clear_table (map snd CURRENT_SCHEMA) c)"
  by (simp add: CURRENT_SCHEMA_def clear_table_def no_rows_def)

lemma no_rows_inv: "no_rows c \<Longrightarrow> db_inv env c \<and> db_reqs env c = Map.empty"
  by (simp add: no_rows_def db_inv_def requests_ok_def instances_ok_def accounts_ok_def db_reqs_def fun_eq_iff)

definition has_user_tables :: "'j Database \<Rightarrow> bool" where
  "has_user_tables d \<longleftrightarrow> (\<exists>name. (''table'', name) \<in> set (schema_objects d) \<and> \<not> like_sqlite name)"

definition required_tables_present :: "'j Database \<Rightarrow> bool" where
  "required_tables_present d \<longleftrightarrow> (\<forall>t \<in> set REQUIRED_CURRENT_TABLES. (''table'', t) \<in> set (schema_objects d))"

lemma current_schema_complete:
  "schema_objects d' = objs @ CURRENT_SCHEMA \<Longrightarrow> required_tables_present d'"
  by (simp add: required_tables_present_def REQUIRED_CURRENT_TABLES_def CURRENT_SCHEMA_def)

lemma create_current_schema_wp:
  fixes d :: "'j Database"
  assumes "same_database d0 d"
  shows "wp (create_current_schema env)
    (\<lambda>_ d'. schema_objects d' = schema_objects d0 @ CURRENT_SCHEMA \<and> user_version d' = uint SCHEMA_VERSION \<and>
       no_rows (db_connection d')) (\<lambda>_ d'. same_database d0 d') d"
  unfolding create_current_schema_def
proof (rule schema_transaction_wp [OF assms], rule wp_bind)
  fix d1 assume d1: "same_database d0 d1"
  show "wp (for_each CURRENT_SCHEMA (create_object env)) (\<lambda>_. wp (schema_statement env (\<lambda>d. (Inr (), d\<lparr>user_version := uint SCHEMA_VERSION\<rparr>)))
      (\<lambda>x d2. \<forall>d'. same_database d2 d' \<longrightarrow> schema_objects d' = schema_objects d0 @ CURRENT_SCHEMA \<and>
         user_version d' = uint SCHEMA_VERSION \<and> no_rows (db_connection d')) (\<lambda>_ _. True)) (\<lambda>_ _. True) d1"
  proof (rule wp_mono [OF create_objects_wp [OF same_tables_refl]])
    fix d2 :: "'j Database"
    assume d2: "schema_objects d2 = schema_objects d1 @ CURRENT_SCHEMA \<and> user_version d2 = user_version d1 \<and>
        same_tables (fold clear_table (map snd CURRENT_SCHEMA) (db_connection d1)) (db_connection d2)"
    have "no_rows (db_connection d2)"
      using d2 schema_clears [of "db_connection d1"] by (simp add: no_rows_def same_tables_def)
    with d1 d2 show "wp (schema_statement env (\<lambda>d. (Inr (), d\<lparr>user_version := uint SCHEMA_VERSION\<rparr>)))
      (\<lambda>x d2. \<forall>d'. same_database d2 d' \<longrightarrow> schema_objects d' = schema_objects d0 @ CURRENT_SCHEMA \<and>
         user_version d' = uint SCHEMA_VERSION \<and> no_rows (db_connection d')) (\<lambda>_ _. True) d2"
      by (intro schema_statement_wp [OF same_database_refl [of d2]])
        (auto simp: same_database_def same_tables_def no_rows_def)
  qed
qed auto

lemma user_tables_wp:
  assumes "same_database d0 d" "\<And>d'. same_database d0 d' \<Longrightarrow> Q (has_user_tables d0) d'"
    "\<And>e d'. same_database d0 d' \<Longrightarrow> E e d'"
  shows "wp (database_has_user_tables env) Q E d"
  unfolding database_has_user_tables_def
proof (intro wp_bind schema_query_wp [OF assms(1)] wp_ok)
  fix d' assume d': "same_database d0 d'"
  then have "(0 < length (filter (\<lambda>(t, name). t = ''table'' \<and> \<not> like_sqlite name) (schema_objects d'))) \<longleftrightarrow> has_user_tables d0"
    by (auto simp: same_database_def filter_empty_conv has_user_tables_def)
  with assms(2) [OF d'] show "Q (0 < length (filter (\<lambda>(t, name). t = ''table'' \<and> \<not> like_sqlite name) (schema_objects d'))) d'"
    by simp
qed (rule assms(3))

lemma ensure_current_schema_wp:
  assumes "same_database d0 d"
  shows "wp (ensure_current_schema env)
    (\<lambda>_ d'. user_version d' = uint SCHEMA_VERSION \<and> required_tables_present d' \<and>
       (if user_version d0 = 0
        then \<not> has_user_tables d0 \<and> schema_objects d' = schema_objects d0 @ CURRENT_SCHEMA \<and> no_rows (db_connection d')
        else same_database d0 d'))
    (\<lambda>_ d'. same_database d0 d') d"
  unfolding ensure_current_schema_def
proof (intro wp_bind schema_query_wp [OF assms] wp_if user_tables_wp)
  fix d1 d2 assume d: "same_database d0 d1" "user_version d1 = 0" "same_database d1 d2" "\<not> has_user_tables d1"
  then have "same_database d0 d2" by (blast intro: same_database_trans)
  then show "wp (create_current_schema env) (\<lambda>_ d'. user_version d' = uint SCHEMA_VERSION \<and> required_tables_present d' \<and>
       (if user_version d0 = 0
        then \<not> has_user_tables d0 \<and> schema_objects d' = schema_objects d0 @ CURRENT_SCHEMA \<and> no_rows (db_connection d')
        else same_database d0 d')) (\<lambda>_ d'. same_database d0 d') d2"
    by (rule wp_mono [OF create_current_schema_wp])
      (use d in \<open>auto simp: same_database_def has_user_tables_def intro: current_schema_complete\<close>)
next
  fix d1 assume d: "same_database d0 d1" "user_version d1 \<noteq> 0" "user_version d1 = uint SCHEMA_VERSION"
  show "wp (ensure_required_schema_tables env) (\<lambda>_ d'. user_version d' = uint SCHEMA_VERSION \<and> required_tables_present d' \<and>
       (if user_version d0 = 0
        then \<not> has_user_tables d0 \<and> schema_objects d' = schema_objects d0 @ CURRENT_SCHEMA \<and> no_rows (db_connection d')
        else same_database d0 d')) (\<lambda>_ d'. same_database d0 d') d1"
    unfolding ensure_required_schema_tables_def
    by (rule wp_mono [OF required_tables_wp [OF d(1)]])
      (use d in \<open>auto simp: same_database_def required_tables_present_def\<close>)
qed (auto intro!: wp_err intro: same_database_trans)

lemma open_store_wp:
  assumes "same_database d0 d"
  shows "wp (open_store env create_dir_all connection_open)
    (\<lambda>_ d'. user_version d' = uint SCHEMA_VERSION \<and> required_tables_present d' \<and>
       (if user_version d0 = 0
        then \<not> has_user_tables d0 \<and> schema_objects d' = schema_objects d0 @ CURRENT_SCHEMA \<and> no_rows (db_connection d')
        else same_database d0 d'))
    (\<lambda>_ d'. same_database d0 d') d"
  unfolding open_store_def
  by (cases create_dir_all; cases connection_open; simp only: sum.case)
    (intro wp_bind wp_ok wp_err schema_query_wp [OF assms] assms; (rule ensure_current_schema_wp)?; assumption)+

end
