(* ===== verification/Reference.thy ===== *)
theory Reference
  imports Sqlite_Daemon Sqlite_Schema
begin

text \<open>
  A reference environment for the code outside the repository, and a script of commands that takes a
  request through its life. The witnesses of the properties run in it.
\<close>

section \<open>Outcomes\<close>

lemma wp_outcome:
  "wp f Q E c \<Longrightarrow> f c = (reply, c') \<Longrightarrow> case reply of Inl e \<Rightarrow> E e c' | Inr x \<Rightarrow> Q x c'"
  by (cases reply) (simp_all add: wp_def)

lemma runs_okE:
  assumes "\<not> isl (fst p)" obtains x c where "p = (Inr x, c)"
  using assms by (cases p; cases "fst p") auto

lemma runs_errE:
  assumes "isl (fst p)" obtains e c where "p = (Inl e, c)"
  using assms by (cases p; cases "fst p") auto

section \<open>The environment\<close>

datatype JsonText = PayloadText RequestPayload | ResultText RequestResult | CapabilitiesText "WalletCapability list" | ValueText Value

fun the_payload :: "JsonText \<Rightarrow> string + RequestPayload" where
  "the_payload (PayloadText x) = Inr x" | "the_payload _ = Inl ''not a payload''"

fun the_result :: "JsonText \<Rightarrow> string + RequestResult" where
  "the_result (ResultText x) = Inr x" | "the_result _ = Inl ''not a result''"

fun the_capabilities :: "JsonText \<Rightarrow> string + WalletCapability list" where
  "the_capabilities (CapabilitiesText x) = Inr x" | "the_capabilities _ = Inl ''not capabilities''"

fun the_value :: "JsonText \<Rightarrow> string + Value" where
  "the_value (ValueText x) = Inr x" | "the_value _ = Inl ''not a value''"

fun failure_text :: "SqlFailure \<Rightarrow> string" where
  "failure_text (ConstraintViolation s) = s"
| "failure_text (ConversionFailure s) = s"
| "failure_text (UnknownVariant s) = s"
| "failure_text (IntegralValueOutOfRange _) = ''out of range''"
| "failure_text QueryReturnedNoRows = ''no rows''"
| "failure_text (StatementFailed s) = s"

definition ref_env :: "JsonText Env" where
  "ref_env =
     \<lparr>payload_to_json = (\<lambda>x. Inr (PayloadText x)), payload_from_json = the_payload,
      result_to_json = (\<lambda>x. Inr (ResultText x)), result_from_json = the_result,
      capabilities_to_json = (\<lambda>x. Inr (CapabilitiesText x)), capabilities_from_json = the_capabilities,
      metadata_to_json = (\<lambda>x. Inr (ValueText x)), metadata_from_json = the_value,
      sql_text = failure_text, scan_requests = (\<lambda>rows. rows), scan_instances = (\<lambda>rows. rows)\<rparr>"

lemma ref_env_ok: "env_ok ref_env"
  by (auto simp: env_ok_def ref_env_def)

definition ref_hash :: "nat list \<Rightarrow> string" where
  "ref_hash bytes = ''h'' @ map char_of bytes"

definition ref_bytes :: "RequestPayload \<Rightarrow> string + nat list" where
  "ref_bytes p = Inr (case p of PSignMessage m \<Rightarrow> map of_char (mp_message m) | _ \<Rightarrow> [])"

interpretation reference: sqlite_daemon ref_env AllowAllPolicy ref_bytes ref_hash
  by unfold_locales (rule ref_env_ok)

abbreviation ref_traits :: "JsonText Connection Traits" where
  "ref_traits \<equiv> sqlite_traits ref_env AllowAllPolicy ref_bytes ref_hash"

section \<open>A run\<close>

definition empty_connection :: "'j Connection" where
  "empty_connection =
     \<lparr>requests = [], wallet_instances = [], wallet_accounts = [], wallet_account_labels = [],
      faults = (\<lambda>_. None), statements = 0, system_time = (\<lambda>_. 0), time_reads = 0\<rparr>"

definition ref_start :: "JsonText Connection Coordinator" where
  "ref_start = Coordinator_new empty_connection (\<lambda>n. 1000 * int n) (\<lambda>n. Inr (''r'' @ replicate n CHR ''x'')) (\<lambda>n. Inr (''l'' @ replicate n CHR ''x''))
     (CoordinatorConfig_default ''0.1.0'')"

definition ref_account :: WalletAccountRecord where
  "ref_account = \<lparr>wa_wallet_instance_id = ''w'', wa_address = ''0x1'', wa_label = None, wa_public_key = Some ''pk'',
     wa_is_default = True, wa_is_read_only = False, wa_is_locked = False, wa_last_seen_at = 0\<rparr>"

definition ref_registration :: RegisterBackendCommand where
  "ref_registration =
     \<lparr>rbc_wallet_instance_id = ''w'', rbc_backend_kind = LocalAccountDir, rbc_transport_kind = LocalSocket,
      rbc_approval_surface = TtyPrompt, rbc_instance_label = ''local'', rbc_extension_id = [], rbc_extension_version = [],
      rbc_protocol_version = 3, rbc_capabilities = [SignTransactionCap, SignMessageCap], rbc_backend_metadata = VNull,
      rbc_profile_hint = None, rbc_lock_state = Unlocked, rbc_accounts = [ref_account]\<rparr>"

definition ref_register :: CoordinatorCommand where
  "ref_register = CmdRegisterBackend ref_registration"

definition ref_create :: CoordinatorCommand where
  "ref_create = CmdCreateSignMessage
     \<lparr>csm_client_request_id = ''c'', csm_account_address = ''0x1'', csm_wallet_instance_id = None, csm_message = ''hi'',
      csm_format = Utf8, csm_display_hint = None, csm_client_context = None, csm_ttl_seconds = None\<rparr>"

definition ref_presentation :: MarkRequestPresentedCommand where
  "ref_presentation =
     \<lparr>mrp_request_id = ''r'', mrp_wallet_instance_id = ''w'', mrp_delivery_lease_id = Some ''l'', mrp_presentation_id = ''p''\<rparr>"

definition ref_resolution :: ResolveRequestCommand where
  "ref_resolution =
     \<lparr>res_request_id = ''r'', res_wallet_instance_id = ''w'', res_presentation_id = ''p'', res_result = RSignedMessage ''sig''\<rparr>"

definition ref_rejection :: RejectRequestCommand where
  "ref_rejection =
     \<lparr>rej_request_id = ''r'', rej_wallet_instance_id = ''w'', rej_presentation_id = Some ''p'',
      rej_reason_code = RRequestRejected, rej_message = None\<rparr>"

definition ref_present :: CoordinatorCommand where
  "ref_present = CmdMarkRequestPresented ref_presentation"

definition ref_resolve :: CoordinatorCommand where
  "ref_resolve = CmdResolveRequest ref_resolution"

definition ref_message :: MessagePayload where
  "ref_message = \<lparr>mp_message = ''hi'', mp_format = Utf8, mp_display_hint = None, mp_client_context = None\<rparr>"

definition ref_record :: RequestRecord where
  "ref_record = (new_request_record ''r'' ''c'' SignMessage ''w'' ''0x1'' ''h'' (PSignMessage ref_message) 5 300005)
     \<lparr>status := Dispatched, delivery_lease := Some \<lparr>delivery_lease_id = ''l'', delivery_lease_expires_at = 30005\<rparr>\<rparr>"

definition ref_heartbeat :: HeartbeatBackendCommand where
  "ref_heartbeat =
     \<lparr>hbc_wallet_instance_id = ''w'', hbc_presented_request_ids = [''r''], hbc_lock_state = None\<rparr>"

lemma ref_ids: "res_request_id ref_resolution = ''r''" "res_result ref_resolution = RSignedMessage ''sig''"
  "mrp_request_id ref_presentation = ''r''" "rej_request_id ref_rejection = ''r''"
  "hbc_wallet_instance_id ref_heartbeat = ''w''" "hbc_presented_request_ids ref_heartbeat = [''r'']"
  by (simp_all add: ref_resolution_def ref_presentation_def ref_rejection_def ref_heartbeat_def)

definition ref_script :: "CoordinatorCommand list" where
  "ref_script = [ref_register, ref_create, CmdPullNextRequest ''w'', ref_present, ref_resolve]"

text \<open>The state after the first \<open>n\<close> commands.\<close>

definition ref_state :: "nat \<Rightarrow> JsonText Connection Coordinator" where
  "ref_state n = snd (run_coordinator ref_traits (take n ref_script) ref_start)"

lemma nonblank_ids: "a \<in> {CHR ''r'', CHR ''l''} \<Longrightarrow> nonblank (a # replicate n CHR ''x'')"
  by (intro nonblank_plain visible_ends) (auto simp: visible_def)

lemma ref_start_inv: "coord_inv (sqlite_view ref_env) ref_start"
  by (auto simp: coord_inv_def ref_start_def Coordinator_new_def empty_connection_def db_inv_def requests_ok_def
      instances_ok_def accounts_ok_def db_reqs_def sources_ok_def table_ok_def nonblank_ids)

lemma ref_script_ok: "list_all cmd_ok (take n ref_script)"
proof -
  have "list_all cmd_ok ref_script" by code_simp
  then show ?thesis by (auto simp: list_all_iff dest: in_set_takeD)
qed

lemma ref_state_inv: "coord_inv (sqlite_view ref_env) (ref_state n)"
  using reference.run_inv [OF _ ref_start_inv ref_script_ok, of n]
  by (metis ref_state_def prod.collapse)

text \<open>A database file that did not exist before.\<close>

definition ref_database :: "JsonText Database" where
  "ref_database = \<lparr>db_connection = empty_connection, user_version = 0, schema_objects = []\<rparr>"

section \<open>Evaluations\<close>

text \<open>What the witnesses need of the states of the run; each state is evaluated once.\<close>

definition ref_checks_1 :: "JsonText Connection Coordinator \<Rightarrow> bool" where
  "ref_checks_1 s \<longleftrightarrow>
     \<not> isl (fst (create_request ref_traits ''c'' ''0x1'' None SignMessage (PSignMessage ref_message) None s)) \<and>
     (case request_has_available ref_traits ''w'' s of
      (Inl _, _) \<Rightarrow> False | (Inr a, c1) \<Rightarrow> \<not> rha_available a \<and> \<not> isl (fst (pull_next_request ref_traits ''w'' c1)))"

lemma ref_evaluated_1: "ref_checks_1 (ref_state 1)"
  by code_simp

lemma ref_runs_1:
  "\<not> isl (fst (create_request ref_traits ''c'' ''0x1'' None SignMessage (PSignMessage ref_message) None (ref_state 1)))"
  "(case request_has_available ref_traits ''w'' (ref_state 1) of
      (Inl _, _) \<Rightarrow> False | (Inr a, c1) \<Rightarrow> \<not> rha_available a \<and> \<not> isl (fst (pull_next_request ref_traits ''w'' c1)))"
  using ref_evaluated_1 by (simp_all only: ref_checks_1_def simp_thms)

definition ref_checks_2 :: "JsonText Connection Coordinator \<Rightarrow> bool" where
  "ref_checks_2 s \<longleftrightarrow>
     \<not> isl (fst (pull_next_request ref_traits ''w'' s)) \<and>
     map_option (\<lambda>r. (client_request_id r, account_address r)) (db_reqs ref_env (store s) ''r'') = Some (''c'', ''0x1'')"

lemma ref_evaluated_2: "ref_checks_2 (ref_state 2)"
  by code_simp

lemma ref_runs_2:
  "\<not> isl (fst (pull_next_request ref_traits ''w'' (ref_state 2)))"
  "map_option (\<lambda>r. (client_request_id r, account_address r)) (db_reqs ref_env (store (ref_state 2)) ''r'') = Some (''c'', ''0x1'')"
  using ref_evaluated_2 by (simp_all only: ref_checks_2_def simp_thms)

lemma ref_runs_3: "\<not> isl (fst (mark_request_presented ref_traits ref_presentation (ref_state 3)))"
  by code_simp

definition ref_checks_4 :: "JsonText Connection Coordinator \<Rightarrow> bool" where
  "ref_checks_4 s \<longleftrightarrow>
     map_option status (db_reqs ref_env (store s) ''r'') = Some PendingUserApproval \<and>
     map_option status (db_reqs ref_env (store (snd (dispatch ref_traits ref_resolve s))) ''r'') = Some Approved \<and>
     \<not> isl (fst (resolve_request ref_traits ref_resolution s)) \<and>
     \<not> isl (fst (reject_request ref_traits ref_rejection s)) \<and>
     \<not> isl (fst (cancel_request ref_traits ''r'' s)) \<and>
     \<not> isl (fst (heartbeat_backend ref_traits ref_heartbeat s)) \<and>
     \<not> isl (fst (tick_maintenance ref_traits s)) \<and>
     db_reqs ref_env (store (snd (tick_maintenance ref_traits s))) ''r'' \<noteq> None"

lemma ref_evaluated_4: "ref_checks_4 (ref_state 4)"
  by code_simp

lemma ref_runs_4:
  "map_option status (db_reqs ref_env (store (ref_state 4)) ''r'') = Some PendingUserApproval"
  "map_option status (db_reqs ref_env (store (snd (dispatch ref_traits ref_resolve (ref_state 4)))) ''r'') = Some Approved"
  "\<not> isl (fst (resolve_request ref_traits ref_resolution (ref_state 4)))"
  "\<not> isl (fst (reject_request ref_traits ref_rejection (ref_state 4)))"
  "\<not> isl (fst (cancel_request ref_traits ''r'' (ref_state 4)))"
  "\<not> isl (fst (heartbeat_backend ref_traits ref_heartbeat (ref_state 4)))"
  "\<not> isl (fst (tick_maintenance ref_traits (ref_state 4)))"
  "db_reqs ref_env (store (snd (tick_maintenance ref_traits (ref_state 4)))) ''r'' \<noteq> None"
  using ref_evaluated_4 by (simp_all only: ref_checks_4_def simp_thms)

lemma ref_opens: "\<not> isl (fst (open_store ref_env (Inr ()) (Inr ()) ref_database))"
  by code_simp

end
