(* ===== verification/Coordinator_Service.thy ===== *)
theory Coordinator_Service
  imports Reference
begin

text \<open>
  What the coordinator promises on the SQLite store: its commands and runs, deliveries and decisions, creation,
  maintenance, registration and queries, and the store itself. The statements follow from the library by
  \<open>sqlite_coordinator\<close>; the witnesses are evaluated on the reference run.
\<close>

section \<open>From the library to the coordinator on SQLite\<close>

lemma sqlite_tracks:
  "coord_inv (sqlite_view env) c \<Longrightarrow>
   tracks (sqlite_view env) c 0 (db_reqs env (store c)) (db_insts env (store c)) (db_accts env (store c)) c"
  using tracks_refl [of "sqlite_view env" c] by (simp add: coord_inv_def)

lemma sqlite_unchanged:
  "tracks (sqlite_view env) c n (db_reqs env (store c)) (db_insts env (store c)) (db_accts env (store c)) c' \<Longrightarrow>
   unchanged (sqlite_view env) (store c) (store c')"
  using tracks_unchanged [of "sqlite_view env"] by simp

lemma sqlite_requests:
  "tracks (sqlite_view env) c n m (db_insts env (store c)) (db_accts env (store c)) c' \<Longrightarrow>
   db_reqs env (store c') = m \<and> wallets_kept (sqlite_view env) (store c) (store c')"
  using tracks_requests [of "sqlite_view env"] by simp

section \<open>The daemon as a whole\<close>

text \<open>
  C1. Every command the coordinator dispatches, whether it succeeds or fails and whatever statement of
  the database fails on the way, moves the stored requests along the lifecycle specification only,
  keeps the coordinator invariant (readable rows, unique keys, well-formed requests) and leaves the
  configuration alone.
\<close>

theorem dispatch_refines_lifecycle:
  assumes "env_ok env" "coord_inv (sqlite_view env) c" "cmd_ok cmd"
    "dispatch (sqlite_traits env P J H) cmd c = (reply, c')"
  shows "coord_inv (sqlite_view env) c' \<and> table_steps (db_reqs env (store c)) (db_reqs env (store c')) \<and>
    config c' = config c"
  using coordinator_store.dispatch_inv [OF sqlite_coordinator [OF assms(1)] assms(2-4)] by simp

theorem dispatch_refines_lifecycle_witness:
  "\<exists>reply c'. dispatch ref_traits ref_resolve (ref_state 4) = (reply, c') \<and>
     table_steps (db_reqs ref_env (store (ref_state 4))) (db_reqs ref_env (store c'))"
proof -
  have "cmd_ok ref_resolve" by code_simp
  then show ?thesis
    using dispatch_refines_lifecycle [OF ref_env_ok ref_state_inv] by (metis surj_pair)
qed

text \<open>
  C2. Over any run of the coordinator thread a stored request keeps its identity (identifiers, kind,
  wallet, account, payload, creation and expiry times), its status moves along \<open>can_transition_to\<close>
  only, it stays well-formed, and once terminal it loses at most its retained result.
\<close>

theorem run_keeps_requests:
  assumes "env_ok env" "coord_inv (sqlite_view env) c" "list_all cmd_ok cmds"
    "run_coordinator (sqlite_traits env P J H) cmds c = (replies, c')"
    "db_reqs env (store c) k = Some r"
  shows "\<exists>r'. db_reqs env (store c') k = Some r' \<and> same_identity r r' \<and> request_wf r' \<and>
    can_transition_to\<^sup>*\<^sup>* (status r) (status r') \<and> (is_terminal (status r) \<longrightarrow> r' = r \<or> r' = evicted r)"
proof -
  from coordinator_store.run_inv [OF sqlite_coordinator [OF assms(1)] assms(4,2,3)]
  have steps: "table_steps (db_reqs env (store c)) (db_reqs env (store c'))" by simp
  from table_steps_entry [OF steps assms(5)] obtain r' where
    r': "db_reqs env (store c') k = Some r'" "request_steps r r'" by blast
  moreover have "request_wf r" using assms(2,5) by (auto simp: coord_inv_def dest: table_okD)
  ultimately show ?thesis
    using request_steps_identity request_steps_wf request_steps_status request_steps_terminal by blast
qed

theorem run_keeps_requests_witness:
  "\<exists>r'. db_reqs ref_env (store (snd (run_coordinator ref_traits [CmdTickMaintenance, ref_resolve] (ref_state 4)))) ''r'' = Some r' \<and>
     can_transition_to\<^sup>*\<^sup>* PendingUserApproval (status r')"
proof -
  have "map_option status (db_reqs ref_env (store (ref_state 4)) ''r'') = Some PendingUserApproval" by (rule ref_runs_4(1))
  then obtain r where r: "db_reqs ref_env (store (ref_state 4)) ''r'' = Some r" "status r = PendingUserApproval" by blast
  obtain replies c' where run: "run_coordinator ref_traits [CmdTickMaintenance, ref_resolve] (ref_state 4) = (replies, c')"
    by fastforce
  have "list_all cmd_ok [CmdTickMaintenance, ref_resolve]" by code_simp
  from run_keeps_requests [OF ref_env_ok ref_state_inv this run r(1)] r(2) run show ?thesis by auto
qed

text \<open>
  C4. A request becomes approved in one way only: by a resolve command that names it, sent for the
  wallet it is pinned to, with the identifier of a presentation that has not expired and a result of
  the kind that was asked for. No other command, no maintenance and no error path approves anything.
\<close>

theorem approval_needs_resolve:
  assumes "env_ok env" "coord_inv (sqlite_view env) c" "cmd_ok cmd"
    "dispatch (sqlite_traits env P J H) cmd c = (reply, c')"
    "db_reqs env (store c') k = Some r'" "status r' = Approved"
    "\<And>r. db_reqs env (store c) k = Some r \<Longrightarrow> status r \<noteq> Approved"
  shows "\<exists>res r. cmd = CmdResolveRequest res \<and> res_request_id res = k \<and> db_reqs env (store c) k = Some r \<and>
    may_resolve res (reading c 0) r \<and> r' = approved_request (config c) (reading c 0) (res_result res) r"
  using coordinator_store.dispatch_approval [OF sqlite_coordinator [OF assms(1)] assms(2-4)] assms(5-7) by simp

theorem approval_needs_resolve_witness:
  "\<exists>reply c' r'. dispatch ref_traits ref_resolve (ref_state 4) = (reply, c') \<and>
     db_reqs ref_env (store c') ''r'' = Some r' \<and> status r' = Approved \<and>
     (\<exists>res. ref_resolve = CmdResolveRequest res \<and> res_request_id res = ''r'')"
proof -
  obtain reply c' where d: "dispatch ref_traits ref_resolve (ref_state 4) = (reply, c')" by fastforce
  have "map_option status (db_reqs ref_env (store (snd (dispatch ref_traits ref_resolve (ref_state 4)))) ''r'') = Some Approved" by (rule ref_runs_4(2))
  with d obtain r' where r': "db_reqs ref_env (store c') ''r'' = Some r'" "status r' = Approved" by auto
  have "map_option status (db_reqs ref_env (store (ref_state 4)) ''r'') = Some PendingUserApproval" by (rule ref_runs_4(1))
  then have before: "\<And>r. db_reqs ref_env (store (ref_state 4)) ''r'' = Some r \<Longrightarrow> status r \<noteq> Approved" by auto
  have "cmd_ok ref_resolve" by code_simp
  from approval_needs_resolve [OF ref_env_ok ref_state_inv this d r' before] d r' show ?thesis by blast
qed

section \<open>Delivering and deciding a request\<close>

text \<open>
  C5. Resolving: a success means the conditions of \<open>may_resolve\<close> held, and wrote \<open>approved_request\<close> and
  nothing else; a failure changed nothing, and where the conditions held only the store can have failed.
\<close>

theorem resolve_request_effect:
  assumes "env_ok env" "coord_inv (sqlite_view env) c"
    "resolve_request (sqlite_traits env P J H) cmd c = (reply, c')"
  shows "acts_on (sqlite_view env) (res_request_id cmd) (may_resolve cmd (reading c 0))
    (approved_request (config c) (reading c 0) (res_result cmd)) (\<lambda>_. resolved_reply (config c) (reading c 0) cmd)
    c reply c'"
  by (rule coordinator_store.resolve_request_acts [OF sqlite_coordinator [OF assms(1)] assms(2,3)])

theorem resolve_request_effect_witness:
  "\<exists>x c' r. resolve_request ref_traits ref_resolution (ref_state 4) = (Inr x, c') \<and>
     db_reqs ref_env (store (ref_state 4)) ''r'' = Some r \<and>
     db_reqs ref_env (store c') ''r'' =
       Some (approved_request (config (ref_state 4)) (reading (ref_state 4) 0) (RSignedMessage ''sig'') r)"
proof -
  have "\<not> isl (fst (resolve_request ref_traits ref_resolution (ref_state 4)))" by (rule ref_runs_4(3))
  then obtain x c' where h: "resolve_request ref_traits ref_resolution (ref_state 4) = (Inr x, c')" by (rule runs_okE)
  obtain r where "db_reqs ref_env (store (ref_state 4)) ''r'' = Some r"
    "db_reqs ref_env (store c') ''r'' = Some (approved_request (config (ref_state 4)) (reading (ref_state 4) 0) (RSignedMessage ''sig'') r)"
    by (rule acts_on_InrE [OF resolve_request_effect [OF ref_env_ok ref_state_inv h], unfolded ref_ids sqlite_view_simps]) (rule that)
  with h show ?thesis by (intro exI conjI)
qed

text \<open>
  C6. Presenting: the first time under the live delivery lease of the pull, later under the
  presentation that is still live; the request then awaits its user under a fresh presentation lease.
\<close>

theorem mark_request_presented_effect:
  assumes "env_ok env" "coord_inv (sqlite_view env) c" "nonblank (mrp_presentation_id cmd)"
    "mark_request_presented (sqlite_traits env P J H) cmd c = (reply, c')"
  shows "acts_on (sqlite_view env) (mrp_request_id cmd) (may_present (config c) (reading c 0) cmd)
    (presented_request (config c) (reading c 0) cmd)
    (\<lambda>_. \<lparr>rpr_request_id = mrp_request_id cmd, rpr_status = PendingUserApproval\<rparr>) c reply c'"
  by (rule coordinator_store.mark_request_presented_acts [OF sqlite_coordinator [OF assms(1)] assms(2-4)])

theorem mark_request_presented_effect_witness:
  "\<exists>x c' r. mark_request_presented ref_traits ref_presentation (ref_state 3) = (Inr x, c') \<and>
     db_reqs ref_env (store (ref_state 3)) ''r'' = Some r \<and>
     db_reqs ref_env (store c') ''r'' = Some (presented_request (config (ref_state 3)) (reading (ref_state 3) 0) ref_presentation r)"
proof -
  have "\<not> isl (fst (mark_request_presented ref_traits ref_presentation (ref_state 3)))" by (rule ref_runs_3)
  then obtain x c' where h: "mark_request_presented ref_traits ref_presentation (ref_state 3) = (Inr x, c')" by (rule runs_okE)
  have p: "nonblank (mrp_presentation_id ref_presentation)" by code_simp
  obtain r where "db_reqs ref_env (store (ref_state 3)) ''r'' = Some r"
    "db_reqs ref_env (store c') ''r'' = Some (presented_request (config (ref_state 3)) (reading (ref_state 3) 0) ref_presentation r)"
    by (rule acts_on_InrE [OF mark_request_presented_effect [OF ref_env_ok ref_state_inv p h], unfolded ref_ids sqlite_view_simps]) (rule that)
  with h show ?thesis by (intro exI conjI)
qed

text \<open>
  C7. Rejecting: the owner gives up a delivered request, or one it presents while the presentation is
  live; the reason decides between rejected, expired and failed and the error that is kept.
\<close>

theorem reject_request_effect:
  assumes "env_ok env" "coord_inv (sqlite_view env) c"
    "reject_request (sqlite_traits env P J H) cmd c = (reply, c')"
  shows "acts_on (sqlite_view env) (rej_request_id cmd) (may_reject (reading c 0) cmd) (rejected_request (reading c 0) cmd)
    (\<lambda>_. rejected_reply cmd) c reply c'"
  by (rule coordinator_store.reject_request_acts [OF sqlite_coordinator [OF assms(1)] assms(2,3)])

theorem reject_request_effect_witness:
  "\<exists>x c' r. reject_request ref_traits ref_rejection (ref_state 4) = (Inr x, c') \<and> x = rejected_reply ref_rejection \<and>
     db_reqs ref_env (store c') ''r'' = Some (rejected_request (reading (ref_state 4) 0) ref_rejection r)"
proof -
  have "\<not> isl (fst (reject_request ref_traits ref_rejection (ref_state 4)))" by (rule ref_runs_4(4))
  then obtain x c' where h: "reject_request ref_traits ref_rejection (ref_state 4) = (Inr x, c')" by (rule runs_okE)
  obtain r where "x = rejected_reply ref_rejection"
    "db_reqs ref_env (store c') ''r'' = Some (rejected_request (reading (ref_state 4) 0) ref_rejection r)"
    by (rule acts_on_InrE [OF reject_request_effect [OF ref_env_ok ref_state_inv h], unfolded ref_ids sqlite_view_simps]) (rule that)
  with h show ?thesis by (intro exI conjI)
qed

text \<open>
  C8. Cancelling succeeds on every stored request unless the store fails: a request that is not
  decided becomes cancelled and loses its leases, a decided one is left alone and reported as it is.
\<close>

theorem cancel_request_effect:
  assumes "env_ok env" "coord_inv (sqlite_view env) c"
    "cancel_request (sqlite_traits env P J H) k c = (reply, c')"
  shows "acts_on (sqlite_view env) k (\<lambda>_. True) (cancelled_request (reading c 0) (reading c 1))
    (\<lambda>r. cancelled_reply (cancelled_request (reading c 0) (reading c 1) r)) c reply c'"
  by (rule coordinator_store.cancel_request_acts [OF sqlite_coordinator [OF assms(1)] assms(2,3)])

theorem cancel_request_effect_witness:
  "\<exists>x c' r. cancel_request ref_traits ''r'' (ref_state 4) = (Inr x, c') \<and>
     db_reqs ref_env (store c') ''r'' = Some (cancelled_request (reading (ref_state 4) 0) (reading (ref_state 4) 1) r)"
proof -
  have "\<not> isl (fst (cancel_request ref_traits ''r'' (ref_state 4)))" by (rule ref_runs_4(5))
  then obtain x c' where h: "cancel_request ref_traits ''r'' (ref_state 4) = (Inr x, c')" by (rule runs_okE)
  obtain r where "db_reqs ref_env (store c') ''r'' = Some (cancelled_request (reading (ref_state 4) 0) (reading (ref_state 4) 1) r)"
    by (rule acts_on_InrE [OF cancel_request_effect [OF ref_env_ok ref_state_inv h], unfolded ref_ids sqlite_view_simps]) (rule that)
  with h show ?thesis by (intro exI conjI)
qed

text \<open>
  C9. Pulling gives a wallet the oldest of its requests whose presentation is still live, with that
  lease renewed; else the oldest request that was not delivered yet, under a new delivery lease; else
  nothing. A failed pull changes nothing.
\<close>

theorem pull_next_request_effect:
  assumes "env_ok env" "coord_inv (sqlite_view env) c"
    "pull_next_request (sqlite_traits env P J H) w c = (reply, c')"
  shows "case reply of
      Inl _ \<Rightarrow> unchanged (sqlite_view env) (store c) (store c')
    | Inr x \<Rightarrow> pull_outcome (config c) (reading c 0) (reading c 1) (reading c 2) w (db_reqs env (store c)) x
        (db_reqs env (store c')) \<and> wallets_kept (sqlite_view env) (store c) (store c')"
proof -
  have "sources_ok c" using assms(2) by (simp add: coord_inv_def)
  note coordinator_store.pull_next_request_wp [OF sqlite_coordinator [OF assms(1)] sqlite_tracks [OF assms(2)] this]
  from wp_outcome [OF this assms(3)] show ?thesis
    by (cases reply) (auto simp: numeral_2_eq_2 dest: sqlite_unchanged sqlite_requests)
qed

theorem pull_next_request_effect_witness:
  "\<exists>x c'. pull_next_request ref_traits ''w'' (ref_state 2) = (Inr x, c') \<and>
     pull_outcome (config (ref_state 2)) (reading (ref_state 2) 0) (reading (ref_state 2) 1) (reading (ref_state 2) 2) ''w''
       (db_reqs ref_env (store (ref_state 2))) x (db_reqs ref_env (store c'))"
proof -
  have "\<not> isl (fst (pull_next_request ref_traits ''w'' (ref_state 2)))" by (rule ref_runs_2(1))
  then obtain x c' where h: "pull_next_request ref_traits ''w'' (ref_state 2) = (Inr x, c')" by (rule runs_okE)
  from pull_next_request_effect [OF ref_env_ok ref_state_inv h] h show ?thesis by auto
qed

text \<open>
  C10. A wallet that asks whether a request is available before it pulls misses nothing: when the
  answer is no, a pull on the same state that succeeds brings no request.
\<close>

theorem no_request_missed:
  assumes "env_ok env" "coord_inv (sqlite_view env) c"
    "request_has_available (sqlite_traits env P J H) w c = (Inr a, c1)" "\<not> rha_available a"
    "pull_next_request (sqlite_traits env P J H) w c1 = (Inr x, c')"
  shows "pnr_request x = None"
proof -
  note coordinator = sqlite_coordinator [OF assms(1), of P J H]
  from wp_okD [OF coordinator_store.request_has_available_wp [OF coordinator sqlite_tracks [OF assms(2)]] assms(3)] assms(4)
  have none: "\<nexists>k r. db_reqs env (store c) k = Some r \<and> wallet_instance_id r = w \<and> status r \<in> {Created, PendingUserApproval}"
    and t: "tracks (sqlite_view env) c 0 (db_reqs env (store c)) (db_insts env (store c)) (db_accts env (store c)) c1"
    by auto
  have "sources_ok c" using assms(2) by (simp add: coord_inv_def)
  from wp_okD [OF coordinator_store.pull_next_request_wp [OF coordinator t this] assms(5)] none show ?thesis
    by (auto dest: pull_outcome_available)
qed

theorem no_request_missed_witness:
  "\<exists>a c1 x c'. request_has_available ref_traits ''w'' (ref_state 1) = (Inr a, c1) \<and>
     pull_next_request ref_traits ''w'' c1 = (Inr x, c') \<and> pnr_request x = None"
proof -
  have "(case request_has_available ref_traits ''w'' (ref_state 1) of
      (Inl _, _) \<Rightarrow> False | (Inr a, c1) \<Rightarrow> \<not> rha_available a \<and> \<not> isl (fst (pull_next_request ref_traits ''w'' c1)))" by (rule ref_runs_1(2))
  then obtain a c1 where a: "request_has_available ref_traits ''w'' (ref_state 1) = (Inr a, c1)" "\<not> rha_available a"
    and "\<not> isl (fst (pull_next_request ref_traits ''w'' c1))"
    by (auto split: prod.splits sum.splits)
  then obtain x c' where x: "pull_next_request ref_traits ''w'' c1 = (Inr x, c')" by (elim runs_okE)
  from no_request_missed [OF ref_env_ok ref_state_inv a x] a x show ?thesis by (intro exI conjI)
qed

text \<open>
  C11. A heartbeat marks the wallet connected and seen and renews the presentations the wallet names,
  those of its own pending requests and no others; whatever fails on the way, the requests only move
  along quiet lifecycle steps.
\<close>

theorem heartbeat_backend_effect:
  assumes "env_ok env" "coord_inv (sqlite_view env) c"
    "heartbeat_backend (sqlite_traits env P J H) cmd c = (reply, c')"
  shows "case reply of
      Inl _ \<Rightarrow> quiet_table_steps (db_reqs env (store c)) (db_reqs env (store c'))
    | Inr _ \<Rightarrow> \<exists>inst e. db_insts env (store c) (hbc_wallet_instance_id cmd) = Some inst \<and>
        (hbc_presented_request_ids cmd \<noteq> [] \<longrightarrow>
           checked_add_seconds (reading c 0) (cfg_presentation_lease_ttl (config c)) = Some e) \<and>
        db_reqs env (store c') = refresh_table (hbc_wallet_instance_id cmd) (reading c 0) e
          (set (hbc_presented_request_ids cmd)) (db_reqs env (store c)) \<and>
        db_insts env (store c') = (db_insts env (store c))(hbc_wallet_instance_id cmd \<mapsto>
          inst\<lparr>wi_connected := True, wi_last_seen_at := reading c 0,
            wi_lock_state := (case hbc_lock_state cmd of Some l \<Rightarrow> l | None \<Rightarrow> wi_lock_state inst)\<rparr>) \<and>
        db_accts env (store c') = db_accts env (store c)"
  using wp_outcome [OF coordinator_store.heartbeat_backend_wp [OF sqlite_coordinator [OF assms(1)] sqlite_tracks [OF assms(2)]] assms(3)]
  by (cases reply) (fastforce simp: reaches_def keeps_def tracks_def)+

theorem heartbeat_backend_effect_witness:
  "\<exists>c' e. heartbeat_backend ref_traits ref_heartbeat (ref_state 4) = (Inr (), c') \<and>
     db_reqs ref_env (store c') = refresh_table ''w'' (reading (ref_state 4) 0) e {''r''} (db_reqs ref_env (store (ref_state 4)))"
proof -
  have "\<not> isl (fst (heartbeat_backend ref_traits ref_heartbeat (ref_state 4)))" by (rule ref_runs_4(6))
  then obtain c' where h: "heartbeat_backend ref_traits ref_heartbeat (ref_state 4) = (Inr (), c')" by (rule runs_okE) simp
  from heartbeat_backend_effect [OF ref_env_ok ref_state_inv h] h show ?thesis
    by (auto simp: ref_ids simp del: One_nat_def)
qed

section \<open>Creating requests\<close>

text \<open>
  C12. Creating a request: with a client identifier that is known, for the same payload and target,
  the stored request is answered again and nothing changes; with a new one, a fresh request is stored,
  pinned to the one wallet that may serve it, with a time to live clamped to the configured bounds.
  A failure changes nothing.
\<close>

theorem create_request_effect:
  assumes "env_ok env" "coord_inv (sqlite_view env) c" "nonblank cid"
    "create_request (sqlite_traits env P J H) cid address wid k p ttl c = (reply, c')"
  shows "case reply of
      Inl _ \<Rightarrow> unchanged (sqlite_view env) (store c) (store c')
    | Inr x \<Rightarrow> \<exists>h. calculate_payload_hash (sqlite_traits env P J H) p = Inr h \<and>
        create_outcome (db_insts env (store c)) (db_accts env (store c)) (config c) (reading c 0) h cid address wid k p ttl
          (db_reqs env (store c)) x (db_reqs env (store c')) \<and>
        wallets_kept (sqlite_view env) (store c) (store c')"
proof -
  have "sources_ok c" using assms(2) by (simp add: coord_inv_def)
  note coordinator_store.create_request_wp [OF sqlite_coordinator [OF assms(1)] sqlite_tracks [OF assms(2)] this assms(3)]
  from wp_outcome [OF this assms(4)] show ?thesis
    by (cases reply) (auto dest: sqlite_unchanged sqlite_requests)
qed

theorem create_request_effect_witness:
  "\<exists>x c' h. create_request ref_traits ''c'' ''0x1'' None SignMessage (PSignMessage ref_message) None (ref_state 1) = (Inr x, c') \<and>
     create_outcome (db_insts ref_env (store (ref_state 1))) (db_accts ref_env (store (ref_state 1))) (config (ref_state 1))
       (reading (ref_state 1) 0) h ''c'' ''0x1'' None SignMessage (PSignMessage ref_message) None
       (db_reqs ref_env (store (ref_state 1))) x (db_reqs ref_env (store c'))"
proof -
  have "\<not> isl (fst (create_request ref_traits ''c'' ''0x1'' None SignMessage (PSignMessage ref_message) None (ref_state 1)))" by (rule ref_runs_1(1))
  then obtain x c' where
    h: "create_request ref_traits ''c'' ''0x1'' None SignMessage (PSignMessage ref_message) None (ref_state 1) = (Inr x, c')"
    by (rule runs_okE)
  have "nonblank ''c''" by code_simp
  from create_request_effect [OF ref_env_ok ref_state_inv this h] h show ?thesis by auto
qed

text \<open>
  C13. Creation is idempotent: a client that sends a creation again after it succeeded, because the
  answer was lost, gets the same answer and nothing is stored twice; only the store can fail it.
\<close>

theorem create_request_idempotent:
  assumes "env_ok env" "coord_inv (sqlite_view env) c" "nonblank cid"
    "create_request (sqlite_traits env P J H) cid address wid k p ttl c = (Inr x, c1)"
    "create_request (sqlite_traits env P J H) cid address wid k p ttl c1 = (reply, c2)"
  shows "unchanged (sqlite_view env) (store c1) (store c2) \<and> (reply = Inr x \<or> (\<exists>re. reply = Inl (Repository re)))"
proof -
  note coordinator = sqlite_coordinator [OF assms(1), of P J H]
  have ok: "sources_ok c" using assms(2) by (simp add: coord_inv_def)
  from wp_okD [OF coordinator_store.create_request_wp [OF coordinator sqlite_tracks [OF assms(2)] ok assms(3)] assms(4)]
  obtain h n m' where h: "calculate_payload_hash (sqlite_traits env P J H) p = Inr h"
    and out: "create_outcome (db_insts env (store c)) (db_accts env (store c)) (config c) (reading c 0) h cid address wid k p ttl
      (db_reqs env (store c)) x m'"
    and t: "tracks (sqlite_view env) c n m' (db_insts env (store c)) (db_accts env (store c)) c1" by blast
  from out obtain r j where r: "m' j = Some r" "client_request_id r = cid" "payload_hash r = h" "account_address r = address"
    "wid = None \<or> wid = Some (wallet_instance_id r)" "x = project_request_summary r" by (rule create_outcome_stored)
  from wp_outcome [OF coordinator_store.create_request_replay [OF coordinator t h r(1-5)] assms(5)] r(6) t show ?thesis
    by (cases reply) (auto simp: tracks_def unchanged_def wallets_kept_def)
qed

theorem create_request_idempotent_witness:
  "\<exists>x c1 reply c2. create_request ref_traits ''c'' ''0x1'' None SignMessage (PSignMessage ref_message) None (ref_state 1) = (Inr x, c1) \<and>
     create_request ref_traits ''c'' ''0x1'' None SignMessage (PSignMessage ref_message) None c1 = (reply, c2) \<and>
     unchanged (sqlite_view ref_env) (store c1) (store c2)"
proof -
  have "\<not> isl (fst (create_request ref_traits ''c'' ''0x1'' None SignMessage (PSignMessage ref_message) None (ref_state 1)))" by (rule ref_runs_1(1))
  then obtain x c1 where
    h: "create_request ref_traits ''c'' ''0x1'' None SignMessage (PSignMessage ref_message) None (ref_state 1) = (Inr x, c1)"
    by (rule runs_okE)
  obtain reply c2 where h2: "create_request ref_traits ''c'' ''0x1'' None SignMessage (PSignMessage ref_message) None c1 = (reply, c2)"
    by fastforce
  have "nonblank ''c''" by code_simp
  from create_request_idempotent [OF ref_env_ok ref_state_inv this h h2, THEN conjunct1] h h2 show ?thesis
    by (intro exI conjI)
qed

text \<open>
  C14. A client identifier that stands for a request with another payload, another account or another
  wallet is refused with \<open>idempotency_key_conflict\<close>, unless the store fails first, and nothing changes.
\<close>

theorem create_request_refuses_conflict:
  assumes "env_ok env" "coord_inv (sqlite_view env) c"
    "calculate_payload_hash (sqlite_traits env P J H) p = Inr h"
    "db_reqs env (store c) j = Some r" "client_request_id r = cid"
    "payload_hash r \<noteq> h \<or> account_address r \<noteq> address \<or> (wid \<noteq> None \<and> wid \<noteq> Some (wallet_instance_id r))"
    "create_request (sqlite_traits env P J H) cid address wid k p ttl c = (reply, c')"
  shows "unchanged (sqlite_view env) (store c) (store c') \<and>
    (\<exists>e. reply = Inl e \<and> ((\<exists>re. e = Repository re) \<or> (\<exists>msg. e = shared IdempotencyKeyConflict msg)))"
  using wp_outcome [OF coordinator_store.create_request_conflict
      [OF sqlite_coordinator [OF assms(1)] sqlite_tracks [OF assms(2)] assms(3-6)] assms(7)]
  by (cases reply) (auto dest: sqlite_unchanged)

theorem create_request_refuses_conflict_witness:
  "\<exists>e c'. create_request ref_traits ''c'' ''0x2'' None SignMessage (PSignMessage ref_message) None (ref_state 2) = (Inl e, c') \<and>
     ((\<exists>re. e = Repository re) \<or> (\<exists>msg. e = shared IdempotencyKeyConflict msg))"
proof -
  have "\<not> isl (calculate_payload_hash ref_traits (PSignMessage ref_message))" by code_simp
  then obtain h where h: "calculate_payload_hash ref_traits (PSignMessage ref_message) = Inr h"
    by (cases "calculate_payload_hash ref_traits (PSignMessage ref_message)") auto
  have "map_option (\<lambda>r. (client_request_id r, account_address r)) (db_reqs ref_env (store (ref_state 2)) ''r'') = Some (''c'', ''0x1'')" by (rule ref_runs_2(2))
  then obtain r where r: "db_reqs ref_env (store (ref_state 2)) ''r'' = Some r" "client_request_id r = ''c''"
    "account_address r = ''0x1''" by auto
  obtain reply c' where run:
    "create_request ref_traits ''c'' ''0x2'' None SignMessage (PSignMessage ref_message) None (ref_state 2) = (reply, c')"
    by fastforce
  have "payload_hash r \<noteq> h \<or> account_address r \<noteq> ''0x2'' \<or> (None \<noteq> None \<and> None \<noteq> Some (wallet_instance_id r))"
    using r(3) by simp
  from create_request_refuses_conflict [OF ref_env_ok ref_state_inv h r(1,2) this run] run show ?thesis by auto
qed

section \<open>Maintenance\<close>

text \<open>
  C15. A successful maintenance tick at time t expires every undecided request whose time to live is
  over, returns the others whose lease lapsed to the queue, drops the results whose retention is over,
  marks silent wallets offline, and counts what it did; nothing else changes.
\<close>

theorem tick_maintenance_effect:
  assumes "env_ok env" "coord_inv (sqlite_view env) c"
    "tick_maintenance (sqlite_traits env P J H) c = (Inr x, c')"
  shows "db_reqs env (store c') = tick_table (reading c 0) (db_reqs env (store c)) \<and>
    db_insts env (store c') = (\<lambda>w. map_option (offlined (config c) (reading c 0)) (db_insts env (store c) w)) \<and>
    db_accts env (store c') = db_accts env (store c) \<and>
    (\<exists>rs es. tick_outcome (reading c 0) (db_reqs env (store c)) rs es x)"
  using wp_okD [OF coordinator_store.tick_maintenance_wp [OF sqlite_coordinator [OF assms(1)] sqlite_tracks [OF assms(2)]] assms(3)]
  by (auto simp: tracks_def)

theorem tick_maintenance_effect_witness:
  "\<exists>x c'. tick_maintenance ref_traits (ref_state 4) = (Inr x, c') \<and>
     db_reqs ref_env (store c') = tick_table (reading (ref_state 4) 0) (db_reqs ref_env (store (ref_state 4)))"
proof -
  have "\<not> isl (fst (tick_maintenance ref_traits (ref_state 4)))" by (rule ref_runs_4(7))
  then obtain x c' where h: "tick_maintenance ref_traits (ref_state 4) = (Inr x, c')" by (rule runs_okE)
  from tick_maintenance_effect [OF ref_env_ok ref_state_inv h] h show ?thesis by blast
qed

text \<open>
  C16. Progress: after a successful tick no request is left that is undecided past its expiry, none is
  held by a lapsed delivery or presentation lease, and no result is kept past its retention.
\<close>

theorem tick_maintenance_settles:
  assumes "env_ok env" "coord_inv (sqlite_view env) c"
    "tick_maintenance (sqlite_traits env P J H) c = (Inr x, c')" "db_reqs env (store c') k = Some r"
  shows "settled (reading c 0) r"
proof -
  from wp_okD [OF coordinator_store.tick_maintenance_wp [OF sqlite_coordinator [OF assms(1)] sqlite_tracks [OF assms(2)]] assms(3)]
  have "db_reqs env (store c') = tick_table (reading c 0) (db_reqs env (store c))" by (auto simp: tracks_def)
  with assms(4) show ?thesis by (auto intro: tick_table_settled)
qed

theorem tick_maintenance_settles_witness:
  "\<exists>x c' r. tick_maintenance ref_traits (ref_state 4) = (Inr x, c') \<and> db_reqs ref_env (store c') ''r'' = Some r \<and>
     settled (reading (ref_state 4) 0) r"
proof -
  have "\<not> isl (fst (tick_maintenance ref_traits (ref_state 4)))" by (rule ref_runs_4(7))
  then obtain x c' where h: "tick_maintenance ref_traits (ref_state 4) = (Inr x, c')" by (rule runs_okE)
  have "db_reqs ref_env (store (snd (tick_maintenance ref_traits (ref_state 4)))) ''r'' \<noteq> None" by (rule ref_runs_4(8))
  with h obtain r where r: "db_reqs ref_env (store c') ''r'' = Some r" by auto
  from tick_maintenance_settles [OF ref_env_ok ref_state_inv h r] h r show ?thesis by blast
qed

section \<open>Wallets and queries\<close>

text \<open>
  C17. Registering a wallet stores the instance with its capabilities in canonical form, connected and
  seen now, and replaces its accounts (their stored labels survive); a wallet that is known under
  another backend kind is never taken over: that registration fails and changes nothing.
\<close>

theorem register_backend_effect:
  assumes "env_ok env" "coord_inv (sqlite_view env) c" "nonblank (rbc_wallet_instance_id cmd)"
    "register_backend (sqlite_traits env P J H) cmd c = (reply, c')"
  shows "case reply of
      Inr _ \<Rightarrow> (\<forall>x. db_insts env (store c) (rbc_wallet_instance_id cmd) = Some x \<longrightarrow> wi_backend_kind x = rbc_backend_kind cmd) \<and>
        db_reqs env (store c') = db_reqs env (store c) \<and>
        db_insts env (store c') = (db_insts env (store c))(rbc_wallet_instance_id cmd \<mapsto> registered_instance (reading c 0) cmd) \<and>
        ((\<forall>acc \<in> set (rbc_accounts cmd). wa_wallet_instance_id acc = rbc_wallet_instance_id cmd) \<longrightarrow>
         accounts_replaced (rbc_wallet_instance_id cmd) (map (stamp_account (reading c 0)) (rbc_accounts cmd))
           (db_accts env (store c)) (db_accts env (store c')))
    | Inl _ \<Rightarrow> db_reqs env (store c') = db_reqs env (store c) \<and>
        ((\<exists>x. db_insts env (store c) (rbc_wallet_instance_id cmd) = Some x \<and> wi_backend_kind x \<noteq> rbc_backend_kind cmd) \<longrightarrow>
         unchanged (sqlite_view env) (store c) (store c'))"
  using wp_outcome [OF coordinator_store.register_backend_wp
      [OF sqlite_coordinator [OF assms(1)] sqlite_tracks [OF assms(2)] assms(3)] assms(4)]
  by (cases reply) (auto simp: keeps_def tracks_def unchanged_def wallets_kept_def)

theorem register_backend_effect_witness:
  "\<exists>c'. register_backend ref_traits ref_registration ref_start = (Inr (), c') \<and>
     db_insts ref_env (store c') ''w'' = Some (registered_instance (reading ref_start 0) ref_registration)"
proof -
  have "\<not> isl (fst (register_backend ref_traits ref_registration ref_start))" by code_simp
  then obtain c' where h: "register_backend ref_traits ref_registration ref_start = (Inr (), c')" by (rule runs_okE) simp
  have w: "rbc_wallet_instance_id ref_registration = ''w''" by (simp add: ref_registration_def)
  have "nonblank (rbc_wallet_instance_id ref_registration)" by code_simp
  from register_backend_effect [OF ref_env_ok ref_start_inv this h] h show ?thesis by (simp add: w)
qed

text \<open>
  The default wallet of \<open>wallet_status\<close> is connected; it is the most recently seen one that is
  unlocked, and only where none is unlocked the most recently seen one. Availability and being online
  say what they should of the stored instances, and the query changes nothing.
\<close>

lemma wallet_status_answers:
  assumes "env_ok env" "coord_inv (sqlite_view env) c" "wallet_status (sqlite_traits env P J H) c = (reply, c')"
  shows "unchanged (sqlite_view env) (store c) (store c') \<and>
    (\<forall>x. reply = Inr x \<longrightarrow> default_wallet (db_insts env (store c)) (wsr_default_wallet_instance_id x) \<and>
      (wsr_wallet_available x \<longleftrightarrow> db_insts env (store c) \<noteq> Map.empty) \<and>
      (wsr_wallet_online x \<longleftrightarrow> (\<exists>w y. db_insts env (store c) w = Some y \<and> wi_connected y)))"
  using wp_outcome [OF coordinator_store.wallet_status_wp [OF sqlite_coordinator [OF assms(1)] sqlite_tracks [OF assms(2)]] assms(3)]
  by (cases reply) (auto dest: sqlite_unchanged)

text \<open>
  Listing accounts goes through a map from wallets to groups that is filled and emptied by three
  loops; the answer is one group per wallet asked for, in the order of the instances, with exactly the
  accounts of that wallet, and public keys only where they were asked for.
\<close>

lemma wallet_list_accounts_groups:
  assumes "env_ok env" "coord_inv (sqlite_view env) c"
    "wallet_list_accounts (sqlite_traits env P J H) wid b c = (Inr x, c')"
  shows "unchanged (sqlite_view env) (store c) (store c') \<and>
    (\<exists>xs accounts. distinct (map wi_wallet_instance_id xs) \<and>
      set xs = {y. db_insts env (store c) (wi_wallet_instance_id y) = Some y \<and> (wid = None \<or> wid = Some (wi_wallet_instance_id y))} \<and>
      set accounts = {y. db_accts env (store c) (wa_wallet_instance_id y) (wa_address y) = Some y \<and>
        (wid = None \<or> wid = Some (wa_wallet_instance_id y))} \<and>
      x = map (account_group b accounts) xs)"
  using wp_okD [OF coordinator_store.wallet_list_accounts_wp [OF sqlite_coordinator [OF assms(1)] sqlite_tracks [OF assms(2)]] assms(3)]
  by (auto dest: sqlite_unchanged)

text \<open>
  The status query answers the projection of the stored request and changes nothing; without a
  store failure it fails only for a request that is not stored.
\<close>

lemma get_request_status_answers:
  assumes "env_ok env" "coord_inv (sqlite_view env) c" "get_request_status (sqlite_traits env P J H) k c = (reply, c')"
  shows "unchanged (sqlite_view env) (store c) (store c') \<and>
    (case reply of
       Inr x \<Rightarrow> \<exists>r. db_reqs env (store c) k = Some r \<and> x = project_request_status r
     | Inl e \<Rightarrow> (\<exists>re. e = Repository re) \<or> (db_reqs env (store c) k = None \<and> e = shared RequestNotFound ''Request not found''))"
  using wp_outcome [OF coordinator_store.get_request_status_wp [OF sqlite_coordinator [OF assms(1)] sqlite_tracks [OF assms(2)]] assms(3)]
  by (cases reply) (auto dest: sqlite_unchanged)

text \<open>
  A public key is answered only for an account that has one cached, of the wallet asked for or,
  where none was named, of the only wallet that exposes the address.
\<close>

lemma wallet_get_public_key_answers:
  assumes "env_ok env" "coord_inv (sqlite_view env) c"
    "wallet_get_public_key (sqlite_traits env P J H) address wid c = (Inr x, c')"
  shows "unchanged (sqlite_view env) (store c) (store c') \<and> gpk_address x = address \<and>
    (\<exists>acc. db_accts env (store c) (gpk_wallet_instance_id x) address = Some acc \<and> wa_public_key acc = Some (gpk_public_key x)) \<and>
    (case wid of Some w \<Rightarrow> gpk_wallet_instance_id x = w
     | None \<Rightarrow> \<forall>w. db_accts env (store c) w address \<noteq> None \<longrightarrow> w = gpk_wallet_instance_id x)"
proof -
  from wp_okD [OF coordinator_store.wallet_get_public_key_wp [OF sqlite_coordinator [OF assms(1)] sqlite_tracks [OF assms(2)]] assms(3)]
  obtain acc key where h: "db_accts env (store c) (gpk_wallet_instance_id x) address = Some acc" "wa_public_key acc = Some key"
      "x = \<lparr>gpk_wallet_instance_id = gpk_wallet_instance_id x, gpk_address = address, gpk_public_key = key, gpk_curve = Ed25519\<rparr>"
      "case wid of Some w \<Rightarrow> gpk_wallet_instance_id x = w
       | None \<Rightarrow> \<forall>w. db_accts env (store c) w address \<noteq> None \<longrightarrow> w = gpk_wallet_instance_id x"
    and t: "tracks (sqlite_view env) c 0 (db_reqs env (store c)) (db_insts env (store c)) (db_accts env (store c)) c'" by blast
  from h(3) have "gpk_address x = address" "gpk_public_key x = key" by (metis WalletGetPublicKeyResult.select_convs(2,3))+
  with h(1,2,4) sqlite_unchanged [OF t] show ?thesis by simp
qed

section \<open>The SQLite store\<close>

text \<open>
  C22. The SQLite store keeps the whole contract of the repository traits, over the view its tables
  give: every lemma the coordinator is proved with holds of it.
\<close>

theorem sqlite_store_keeps_contract:
  "env_ok env \<Longrightarrow> store_contract (SqliteStore env) (sqlite_view env)"
  by (intro store_contract.intro sqlite_request_repository sqlite_wallet_repository)

theorem sqlite_store_keeps_contract_witness: "store_contract (SqliteStore ref_env) (sqlite_view ref_env)"
  by (rule sqlite_store_keeps_contract [OF ref_env_ok])

text \<open>C23. A request that is written to its row is read back as it was, in every field.\<close>

theorem request_row_roundtrip:
  assumes "env_ok env" "ids_ok r" "request_row env r = Inr row"
  shows "read_request env row = Inr r"
  by (rule read_written_request [OF assms])

theorem request_row_roundtrip_witness:
  "\<exists>row. request_row ref_env ref_record = Inr row \<and> read_request ref_env row = Inr ref_record"
proof -
  have "\<not> isl (request_row ref_env ref_record)" by code_simp
  then obtain row where row: "request_row ref_env ref_record = Inr row" by (cases "request_row ref_env ref_record") auto
  have "ids_ok ref_record" by code_simp
  from request_row_roundtrip [OF ref_env_ok this row] row show ?thesis by blast
qed

text \<open>A wallet instance that is written to its row is read back as it was.\<close>

lemma instance_row_roundtrip:
  assumes "env_ok env" "nonblank (wi_wallet_instance_id i)" "instance_row env i = Inr row"
  shows "read_wallet_instance env row = Inr i"
  by (rule read_written_instance(1) [OF assms])

text \<open>
  Labels are the daemon's: replacing the accounts of a wallet changes no label that is stored, of
  any wallet, and an account that comes back carries the stored label whatever label it arrives with.
\<close>

lemma replaced_accounts_keep_labels:
  assumes "db_inv env c" "sqlite_replace_wallet_accounts env w as c = (Inr u, c')"
    "\<forall>acc \<in> set as. wa_wallet_instance_id acc = w" "acc \<in> set as"
    "lookup_by label_key (w, wa_address acc) (wallet_account_labels c) = Some lb"
  shows "labels_kept w (wallet_account_labels c) (wallet_account_labels c') \<and>
    db_accts env c' w (wa_address acc) = Some (acc\<lparr>wa_label := Some (lb_label lb)\<rparr>)"
proof -
  from wp_okD [OF replace_accounts_law [OF assms(1)] assms(2)] assms(3,4)
  obtain l where kept: "labels_kept w (wallet_account_labels c) (wallet_account_labels c')"
    and l: "db_accts env c' w (wa_address acc) = Some (acc\<lparr>wa_label := l\<rparr>)" by blast
  have "has_key label_key (w, wa_address acc) (wallet_account_labels c)"
    using lookup_by_SomeD [OF assms(5)] by (force simp: has_key_iff)
  with kept assms(5) have "lookup_by label_key (w, wa_address acc) (wallet_account_labels c') = Some lb"
    by (simp add: labels_kept_def)
  from stored_label_shown [OF l this] l kept show ?thesis by simp
qed

text \<open>
  Setting a label trims it, shows it on the account from then on, and touches no request, no
  instance and no other account; a label that is refused or fails to be stored changes nothing.
\<close>

lemma set_label_effect:
  assumes "db_inv env c" "sqlite_set_wallet_account_label env w address label c = (reply, c')"
  shows "case reply of
      Inl _ \<Rightarrow> unchanged (sqlite_view env) c c'
    | Inr a \<Rightarrow> db_inv env c' \<and> db_reqs env c' = db_reqs env c \<and> db_insts env c' = db_insts env c \<and>
        (\<exists>a0. db_accts env c w address = Some a0 \<and> a = a0\<lparr>wa_label := Some (trim label)\<rparr>) \<and>
        db_accts env c' = (db_accts env c)(w := (db_accts env c w)(address \<mapsto> a))"
  by (rule wp_outcome [OF Sqlite_Wallets.set_label_law [OF assms(1)] assms(2)])

text \<open>
  C27. Opening a database succeeds only with the current schema version and the required tables: an
  existing one is left as it is, an empty one gets the schema in one transaction. A database of another
  version, an unversioned one with tables and one that lacks a table are refused, and a failure at any
  statement leaves the database as it was.
\<close>

theorem open_store_effect:
  assumes "open_store env dir_created connection_open d = (reply, d')"
  shows "case reply of
      Inl _ \<Rightarrow> same_database d d'
    | Inr _ \<Rightarrow> user_version d' = uint SCHEMA_VERSION \<and> required_tables_present d' \<and>
        (if user_version d = 0
         then \<not> has_user_tables d \<and> schema_objects d' = schema_objects d @ CURRENT_SCHEMA \<and> no_rows (db_connection d')
         else same_database d d')"
  by (rule wp_outcome [OF open_store_wp [OF same_database_refl] assms])

theorem open_store_effect_witness:
  "\<exists>d'. open_store ref_env (Inr ()) (Inr ()) ref_database = (Inr (), d') \<and> required_tables_present d' \<and> no_rows (db_connection d')"
proof -
  have "\<not> isl (fst (open_store ref_env (Inr ()) (Inr ()) ref_database))" by (rule ref_opens)
  then obtain d' where h: "open_store ref_env (Inr ()) (Inr ()) ref_database = (Inr (), d')" by (rule runs_okE) simp
  from open_store_effect [OF h] h show ?thesis by (simp add: ref_database_def)
qed

section \<open>Times and bounds\<close>

text \<open>
  Adding seconds to a timestamp is exact or refused: the result is the sum in milliseconds, and it
  is refused exactly when the duration in milliseconds or the sum leaves the range of an \<open>i64\<close>.
\<close>

lemma checked_add_seconds_exact:
  assumes "is_i64 t"
  shows "checked_add_seconds t d =
    (if 1000 * uint d < 2 ^ 63 \<and> t + 1000 * uint d \<le> i64_MAX then Some (t + 1000 * uint d) else None)"
  using checked_add_seconds_iff [OF assms, of d] by (cases "checked_add_seconds t d") auto

text \<open>
  The time to live of a request stays within the configured bounds, whatever the client asks for,
  and a request within them is granted as asked.
\<close>

lemma clamp_ttl_bounds:
  assumes "cfg_min_request_ttl cfg \<le> cfg_max_request_ttl cfg"
  shows "cfg_min_request_ttl cfg \<le> clamp_ttl cfg ttl \<and> clamp_ttl cfg ttl \<le> cfg_max_request_ttl cfg \<and>
    (\<forall>t. ttl = Some t \<and> cfg_min_request_ttl cfg \<le> t \<and> t \<le> cfg_max_request_ttl cfg \<longrightarrow> clamp_ttl cfg ttl = t)"
  using assms by (auto simp: clamp_ttl_def Let_def min_def max_def)

text \<open>
  A wallet counts as stale exactly when at least the configured time has passed since it was seen,
  for all timestamps whose difference fits an \<open>i64\<close>; the arithmetic of the code saturates and never wraps.
\<close>

lemma is_wallet_stale_exact:
  assumes "is_i64 (t - seen)" "1000 * uint d \<le> i64_MAX"
  shows "is_wallet_stale seen t d \<longleftrightarrow> 1000 * uint d \<le> t - seen"
proof -
  have "u64_checked_mul d 1000 = Some (d * 1000)" "uint (d * 1000) = 1000 * uint d"
    using assms(2) u64_checked_mul_Some [of d 1000 "d * 1000"] by (simp_all add: u64_checked_mul_def i64_MAX_def mult.commute)
  with assms show ?thesis
    by (simp add: is_wallet_stale_def i64_try_from_u64_def i64_saturating_sub_def is_i64_def max_def min_def)
qed

text \<open>The stored capabilities are those announced, sorted and without duplicates.\<close>

lemma canonical_capabilities_canonical:
  "set (canonical_capabilities cs) = set cs \<and> sorted (canonical_capabilities cs) \<and> distinct (canonical_capabilities cs)"
  by (simp add: canonical_capabilities_set canonical_capabilities_sorted)

end
