(* ===== verification/Daemon_Protocol.thy ===== *)
theory Daemon_Protocol
  imports Coordinator_Types
begin

text \<open>
  The wire protocol of the daemon: the parameter structures of its methods
  (\<open>starmask-types/src/daemon.rs\<close>), the account of the native bridge (\<open>native_bridge.rs\<close>) and the
  JSON-RPC envelope (\<open>jsonrpc.rs\<close>). \<open>serde_json\<close> is the record \<open>Serde\<close>: its
  \<open>from_value\<close> at each structure, \<open>to_value\<close> at each reply, and the texts it reads and writes.
\<close>

section \<open>Parameters\<close>

record NativeBridgeAccount =
  nba_address :: string
  nba_label :: "string option"
  nba_public_key :: "string option"
  nba_is_default :: bool

record SystemPingParams =
  sppar_protocol_version :: u32

record SystemGetInfoParams =
  sgipar_protocol_version :: u32

record WalletStatusParams =
  wspar_protocol_version :: u32

record WalletListInstancesParams =
  wlipar_protocol_version :: u32
  wlipar_connected_only :: bool

record WalletListAccountsParams =
  wlapar_protocol_version :: u32
  wlapar_wallet_instance_id :: "WalletInstanceId option"
  wlapar_include_public_key :: bool

record WalletGetPublicKeyParams =
  wgppar_protocol_version :: u32
  wgppar_address :: string
  wgppar_wallet_instance_id :: "WalletInstanceId option"

record WalletSetAccountLabelParams =
  wslpar_protocol_version :: u32
  wslpar_wallet_instance_id :: WalletInstanceId
  wslpar_address :: string
  wslpar_label :: string

record CreateAccountParams =
  capar_protocol_version :: u32
  capar_client_request_id :: ClientRequestId
  capar_wallet_instance_id :: WalletInstanceId
  capar_display_hint :: "string option"
  capar_client_context :: "string option"
  capar_ttl_seconds :: "DurationSeconds option"

record CreateExportAccountParams =
  ceapar_protocol_version :: u32
  ceapar_client_request_id :: ClientRequestId
  ceapar_account_address :: string
  ceapar_wallet_instance_id :: "WalletInstanceId option"
  ceapar_output_file :: string
  ceapar_force :: bool
  ceapar_display_hint :: "string option"
  ceapar_client_context :: "string option"
  ceapar_ttl_seconds :: "DurationSeconds option"

record CreateImportAccountParams =
  ciapar_protocol_version :: u32
  ciapar_client_request_id :: ClientRequestId
  ciapar_wallet_instance_id :: WalletInstanceId
  ciapar_private_key_file :: string
  ciapar_account_address :: string
  ciapar_display_hint :: "string option"
  ciapar_client_context :: "string option"
  ciapar_ttl_seconds :: "DurationSeconds option"

record CreateSignTransactionParams =
  cstpar_protocol_version :: u32
  cstpar_client_request_id :: ClientRequestId
  cstpar_account_address :: string
  cstpar_wallet_instance_id :: "WalletInstanceId option"
  cstpar_chain_id :: u64
  cstpar_raw_txn_bcs_hex :: string
  cstpar_tx_kind :: string
  cstpar_display_hint :: "string option"
  cstpar_client_context :: "string option"
  cstpar_ttl_seconds :: "DurationSeconds option"

record CreateSignMessageParams =
  csmpar_protocol_version :: u32
  csmpar_client_request_id :: ClientRequestId
  csmpar_account_address :: string
  csmpar_wallet_instance_id :: "WalletInstanceId option"
  csmpar_message :: string
  csmpar_format :: MessageFormat
  csmpar_display_hint :: "string option"
  csmpar_client_context :: "string option"
  csmpar_ttl_seconds :: "DurationSeconds option"

record GetRequestStatusParams =
  grspar_protocol_version :: u32
  grspar_request_id :: RequestId

record RequestHasAvailableParams =
  rhapar_protocol_version :: u32
  rhapar_wallet_instance_id :: WalletInstanceId

record CancelRequestParams =
  crpar_protocol_version :: u32
  crpar_request_id :: RequestId

record BackendAccount =
  ba_address :: string
  ba_label :: "string option"
  ba_public_key :: "string option"
  ba_is_default :: bool
  ba_is_read_only :: bool
  ba_is_locked :: bool

record BackendRegisterParams =
  brpar_protocol_version :: u32
  brpar_wallet_instance_id :: WalletInstanceId
  brpar_backend_kind :: BackendKind
  brpar_transport_kind :: TransportKind
  brpar_approval_surface :: ApprovalSurface
  brpar_instance_label :: string
  brpar_lock_state :: LockState
  brpar_capabilities :: "WalletCapability list"
  brpar_backend_metadata :: Value
  brpar_accounts :: "BackendAccount list"

record BackendRegisteredResult =
  brr_wallet_instance_id :: WalletInstanceId
  brr_daemon_protocol_version :: u32
  brr_accepted :: bool

record BackendHeartbeatParams =
  bhpar_protocol_version :: u32
  bhpar_wallet_instance_id :: WalletInstanceId
  bhpar_presented_request_ids :: "RequestId list"
  bhpar_lock_state :: "LockState option"

record BackendUpdateAccountsParams =
  buapar_protocol_version :: u32
  buapar_wallet_instance_id :: WalletInstanceId
  buapar_lock_state :: LockState
  buapar_capabilities :: "WalletCapability list"
  buapar_accounts :: "BackendAccount list"

record ExtensionRegisterParams =
  erpar_protocol_version :: u32
  erpar_wallet_instance_id :: WalletInstanceId
  erpar_extension_id :: string
  erpar_extension_version :: string
  erpar_profile_hint :: "string option"
  erpar_lock_state :: LockState
  erpar_accounts_summary :: "NativeBridgeAccount list"

record ExtensionRegisteredResult =
  exr_wallet_instance_id :: WalletInstanceId
  exr_daemon_protocol_version :: u32
  exr_accepted :: bool

record ExtensionHeartbeatParams =
  ehpar_protocol_version :: u32
  ehpar_wallet_instance_id :: WalletInstanceId
  ehpar_presented_request_ids :: "RequestId list"

record ExtensionUpdateAccountsParams =
  euapar_protocol_version :: u32
  euapar_wallet_instance_id :: WalletInstanceId
  euapar_lock_state :: LockState
  euapar_accounts :: "NativeBridgeAccount list"

record AckResult =
  ack_ok :: bool

record RequestPullNextParams =
  rpnpar_protocol_version :: u32
  rpnpar_wallet_instance_id :: WalletInstanceId

record RequestPresentedParams =
  rppar_protocol_version :: u32
  rppar_wallet_instance_id :: WalletInstanceId
  rppar_request_id :: RequestId
  rppar_delivery_lease_id :: "DeliveryLeaseId option"
  rppar_presentation_id :: PresentationId

record RequestResolveParams =
  rrpar_protocol_version :: u32
  rrpar_wallet_instance_id :: WalletInstanceId
  rrpar_request_id :: RequestId
  rrpar_presentation_id :: PresentationId
  rrpar_result_kind :: ResultKind
  rrpar_signed_txn_bcs_hex :: "string option"
  rrpar_signature :: "string option"
  rrpar_created_account_address :: "string option"
  rrpar_created_account_public_key :: "string option"
  rrpar_created_account_curve :: "Curve option"
  rrpar_created_account_is_default :: "bool option"
  rrpar_created_account_is_locked :: "bool option"
  rrpar_exported_account_address :: "string option"
  rrpar_exported_account_output_file :: "string option"
  rrpar_imported_account_address :: "string option"
  rrpar_imported_account_public_key :: "string option"
  rrpar_imported_account_curve :: "Curve option"
  rrpar_imported_account_is_default :: "bool option"
  rrpar_imported_account_is_locked :: "bool option"

record RequestRejectParams =
  rjpar_protocol_version :: u32
  rjpar_wallet_instance_id :: WalletInstanceId
  rjpar_request_id :: RequestId
  rjpar_presentation_id :: "PresentationId option"
  rjpar_reason_code :: RejectReasonCode
  rjpar_reason_message :: "string option"

section \<open>The JSON-RPC envelope\<close>

definition JSONRPC_VERSION :: string where "JSONRPC_VERSION = ''2.0''"

record 'p JsonRpcRequest =
  rq_jsonrpc :: string
  rpc_id :: string
  rpc_method :: string
  rpc_params :: 'p

record 'r JsonRpcSuccess =
  ok_jsonrpc :: string
  ok_id :: string
  ok_result :: 'r

record JsonRpcErrorObject =
  eo_code :: SharedErrorCode
  eo_message :: string
  eo_retryable :: "bool option"
  eo_details :: "Value option"

record JsonRpcErrorResponse =
  er_jsonrpc :: string
  er_id :: string
  er_error :: JsonRpcErrorObject

datatype 'r JsonRpcResponse = RpcSuccess "'r JsonRpcSuccess" | RpcError JsonRpcErrorResponse

definition JsonRpcRequest_new :: "string \<Rightarrow> string \<Rightarrow> 'p \<Rightarrow> 'p JsonRpcRequest" where
  "JsonRpcRequest_new i m ps = \<lparr>rq_jsonrpc = JSONRPC_VERSION, rpc_id = i, rpc_method = m, rpc_params = ps\<rparr>"

definition JsonRpcSuccess_new :: "string \<Rightarrow> 'r \<Rightarrow> 'r JsonRpcSuccess" where
  "JsonRpcSuccess_new i r = \<lparr>ok_jsonrpc = JSONRPC_VERSION, ok_id = i, ok_result = r\<rparr>"

definition JsonRpcErrorObject_from :: "SharedError \<Rightarrow> JsonRpcErrorObject" where
  "JsonRpcErrorObject_from e =
     \<lparr>eo_code = code e, eo_message = message e, eo_retryable = retryable e, eo_details = details e\<rparr>"

definition JsonRpcErrorResponse_new :: "string \<Rightarrow> SharedError \<Rightarrow> JsonRpcErrorResponse" where
  "JsonRpcErrorResponse_new i e = \<lparr>er_jsonrpc = JSONRPC_VERSION, er_id = i, er_error = JsonRpcErrorObject_from e\<rparr>"

section \<open>Serialisation\<close>

text \<open>The values the server serialises into a reply.\<close>

datatype Reply =
  ReplySystemPing SystemPingResult
  | ReplySystemInfo SystemGetInfoResult
  | ReplyWalletStatus WalletStatusResult
  | ReplyWalletInstances "WalletInstanceSummary list"
  | ReplyWalletAccounts "WalletAccountGroup list"
  | ReplyWalletPublicKey WalletGetPublicKeyResult
  | ReplyWalletAccountLabelSet WalletSetAccountLabelResult
  | ReplyRequestCreated CreateRequestResult
  | ReplyRequestStatus GetRequestStatusResult
  | ReplyRequestHasAvailable RequestHasAvailableResult
  | ReplyRequestCancelled CancelRequestResult
  | ReplyPullNextRequest PullNextRequestResult
  | ReplyAck AckResult
  | ReplyExtensionRegistered ExtensionRegisteredResult
  | ReplyBackendRegistered BackendRegisteredResult

record Serde =
  from_SystemPingParams :: "Value \<Rightarrow> string + SystemPingParams"
  from_SystemGetInfoParams :: "Value \<Rightarrow> string + SystemGetInfoParams"
  from_WalletStatusParams :: "Value \<Rightarrow> string + WalletStatusParams"
  from_WalletListInstancesParams :: "Value \<Rightarrow> string + WalletListInstancesParams"
  from_WalletListAccountsParams :: "Value \<Rightarrow> string + WalletListAccountsParams"
  from_WalletGetPublicKeyParams :: "Value \<Rightarrow> string + WalletGetPublicKeyParams"
  from_WalletSetAccountLabelParams :: "Value \<Rightarrow> string + WalletSetAccountLabelParams"
  from_CreateAccountParams :: "Value \<Rightarrow> string + CreateAccountParams"
  from_CreateExportAccountParams :: "Value \<Rightarrow> string + CreateExportAccountParams"
  from_CreateImportAccountParams :: "Value \<Rightarrow> string + CreateImportAccountParams"
  from_CreateSignTransactionParams :: "Value \<Rightarrow> string + CreateSignTransactionParams"
  from_CreateSignMessageParams :: "Value \<Rightarrow> string + CreateSignMessageParams"
  from_GetRequestStatusParams :: "Value \<Rightarrow> string + GetRequestStatusParams"
  from_RequestHasAvailableParams :: "Value \<Rightarrow> string + RequestHasAvailableParams"
  from_CancelRequestParams :: "Value \<Rightarrow> string + CancelRequestParams"
  from_BackendRegisterParams :: "Value \<Rightarrow> string + BackendRegisterParams"
  from_BackendHeartbeatParams :: "Value \<Rightarrow> string + BackendHeartbeatParams"
  from_BackendUpdateAccountsParams :: "Value \<Rightarrow> string + BackendUpdateAccountsParams"
  from_ExtensionRegisterParams :: "Value \<Rightarrow> string + ExtensionRegisterParams"
  from_ExtensionHeartbeatParams :: "Value \<Rightarrow> string + ExtensionHeartbeatParams"
  from_ExtensionUpdateAccountsParams :: "Value \<Rightarrow> string + ExtensionUpdateAccountsParams"
  from_RequestPullNextParams :: "Value \<Rightarrow> string + RequestPullNextParams"
  from_RequestPresentedParams :: "Value \<Rightarrow> string + RequestPresentedParams"
  from_RequestResolveParams :: "Value \<Rightarrow> string + RequestResolveParams"
  from_RequestRejectParams :: "Value \<Rightarrow> string + RequestRejectParams"
  to_value :: "Reply \<Rightarrow> string + Value"
  value_to_vec :: "Value \<Rightarrow> string + string"
  request_from_slice :: "string \<Rightarrow> string + Value JsonRpcRequest"
  response_to_vec :: "Value JsonRpcResponse \<Rightarrow> string + string"
  response_debug :: "CoordinatorResponse \<Rightarrow> string"

text \<open>
  The identifier newtypes are read through \<open>TryFrom<String>\<close> (\<open>#[serde(try_from = "String")]\<close>), so what
  is decoded carries valid identifiers. These are the ones that reach the store.
\<close>

definition serde_ok :: "Serde \<Rightarrow> bool" where
  "serde_ok D \<longleftrightarrow>
     (\<forall>v p. from_CreateAccountParams D v = Inr p \<longrightarrow> nonblank (capar_client_request_id p)) \<and>
     (\<forall>v p. from_CreateExportAccountParams D v = Inr p \<longrightarrow> nonblank (ceapar_client_request_id p)) \<and>
     (\<forall>v p. from_CreateImportAccountParams D v = Inr p \<longrightarrow> nonblank (ciapar_client_request_id p)) \<and>
     (\<forall>v p. from_CreateSignTransactionParams D v = Inr p \<longrightarrow> nonblank (cstpar_client_request_id p)) \<and>
     (\<forall>v p. from_CreateSignMessageParams D v = Inr p \<longrightarrow> nonblank (csmpar_client_request_id p)) \<and>
     (\<forall>v p. from_ExtensionRegisterParams D v = Inr p \<longrightarrow> nonblank (erpar_wallet_instance_id p)) \<and>
     (\<forall>v p. from_BackendRegisterParams D v = Inr p \<longrightarrow> nonblank (brpar_wallet_instance_id p)) \<and>
     (\<forall>v p. from_RequestPresentedParams D v = Inr p \<longrightarrow> nonblank (rppar_presentation_id p))"

end
