(* ===== verification/Daemon_Config.thy ===== *)
theory Daemon_Config
  imports Coordinator_Types
begin

text \<open>
  The configuration of the daemon (\<open>starmaskd/src/config.rs\<close>): the wallet backends, how they are read
  from the configuration file and the environment, the runtime configuration and its defaults. The
  operating system and the TOML reader are the record \<open>Host\<close>: environment variables, the file system and
  \<open>toml::from_str\<close>. An \<open>anyhow\<close> error is its message. The build is a unix one.
\<close>

section \<open>Wallet backends\<close>

type_synonym PathBuf = string
type_synonym 'a anyhow = "string + 'a"

datatype LocalPromptMode = TtyPromptMode | DesktopPromptMode

fun prompt_approval_surface :: "LocalPromptMode \<Rightarrow> ApprovalSurface" where
  "prompt_approval_surface TtyPromptMode = TtyPrompt"
| "prompt_approval_surface DesktopPromptMode = DesktopPrompt"

record CommonBackendConfig =
  cb_backend_id :: string
  cb_instance_label :: string
  cb_approval_surface :: ApprovalSurface

text \<open>A \<open>BTreeSet<String>\<close> is the ascending list of its elements.\<close>

record StarmaskExtensionBackendConfig =
  se_common :: CommonBackendConfig
  se_allowed_extension_ids :: "string list"
  se_native_host_name :: string
  se_profile_hint :: "string option"

record LocalAccountDirBackendConfig =
  la_common :: CommonBackendConfig
  la_account_dir :: PathBuf
  la_prompt_mode :: LocalPromptMode
  la_chain_id :: "8 word"
  la_unlock_cache_ttl :: DurationSeconds
  la_allow_read_only_accounts :: bool
  la_require_strict_permissions :: bool

datatype WalletBackendConfig =
  ExtensionBackend StarmaskExtensionBackendConfig
  | LocalBackend LocalAccountDirBackendConfig

fun backend_common :: "WalletBackendConfig \<Rightarrow> CommonBackendConfig" where
  "backend_common (ExtensionBackend c) = se_common c"
| "backend_common (LocalBackend c) = la_common c"

definition backend_id :: "WalletBackendConfig \<Rightarrow> string" where
  "backend_id b = cb_backend_id (backend_common b)"

fun backend_kind :: "WalletBackendConfig \<Rightarrow> BackendKind" where
  "backend_kind (ExtensionBackend _) = StarmaskExtension"
| "backend_kind (LocalBackend _) = LocalAccountDir"

definition backend_instance_label :: "WalletBackendConfig \<Rightarrow> string" where
  "backend_instance_label b = cb_instance_label (backend_common b)"

definition backend_approval_surface :: "WalletBackendConfig \<Rightarrow> ApprovalSurface" where
  "backend_approval_surface b = cb_approval_surface (backend_common b)"

fun allowed_capabilities :: "WalletBackendConfig \<Rightarrow> WalletCapability list" where
  "allowed_capabilities (ExtensionBackend _) = [GetPublicKeyCap, SignMessageCap, SignTransactionCap]"
| "allowed_capabilities (LocalBackend _) =
     [UnlockCap, GetPublicKeyCap, SignMessageCap, SignTransactionCap, CreateAccountCap, ExportAccountCap, ImportAccountCap]"

fun as_extension :: "WalletBackendConfig \<Rightarrow> StarmaskExtensionBackendConfig option" where
  "as_extension (ExtensionBackend c) = Some c"
| "as_extension (LocalBackend _) = None"

fun as_local_account_dir :: "WalletBackendConfig \<Rightarrow> LocalAccountDirBackendConfig option" where
  "as_local_account_dir (ExtensionBackend _) = None"
| "as_local_account_dir (LocalBackend c) = Some c"

section \<open>The configuration file\<close>

record FileWalletBackendConfig =
  fb_backend_id :: string
  fb_backend_kind :: BackendKind
  fb_enabled :: bool
  fb_instance_label :: string
  fb_approval_surface :: ApprovalSurface
  fb_allowed_extension_ids :: "string list option"
  fb_native_host_name :: "string option"
  fb_profile_hint :: "string option"
  fb_account_dir :: "PathBuf option"
  fb_prompt_mode :: "LocalPromptMode option"
  fb_chain_id :: "8 word option"
  fb_unlock_cache_ttl_seconds :: "u64 option"
  fb_allow_read_only_accounts :: "bool option"
  fb_require_strict_permissions :: "bool option"

record FileConfig =
  fc_channel :: "Channel option"
  fc_allowed_extension_ids :: "string list option"
  fc_native_host_name :: "string option"
  fc_socket_path :: "PathBuf option"
  fc_database_path :: "PathBuf option"
  fc_log_level :: "string option"
  fc_maintenance_interval_seconds :: "u64 option"
  fc_default_request_ttl_seconds :: "u64 option"
  fc_min_request_ttl_seconds :: "u64 option"
  fc_max_request_ttl_seconds :: "u64 option"
  fc_delivery_lease_seconds :: "u64 option"
  fc_presentation_lease_seconds :: "u64 option"
  fc_heartbeat_interval_seconds :: "u64 option"
  fc_wallet_offline_after_seconds :: "u64 option"
  fc_result_retention_seconds :: "u64 option"
  fc_wallet_backends :: "FileWalletBackendConfig list option"

definition FileConfig_default :: FileConfig where
  "FileConfig_default =
     \<lparr>fc_channel = None, fc_allowed_extension_ids = None, fc_native_host_name = None, fc_socket_path = None,
      fc_database_path = None, fc_log_level = None, fc_maintenance_interval_seconds = None,
      fc_default_request_ttl_seconds = None, fc_min_request_ttl_seconds = None, fc_max_request_ttl_seconds = None,
      fc_delivery_lease_seconds = None, fc_presentation_lease_seconds = None, fc_heartbeat_interval_seconds = None,
      fc_wallet_offline_after_seconds = None, fc_result_retention_seconds = None, fc_wallet_backends = None\<rparr>"

record ServeArgs =
  arg_config :: "PathBuf option"
  arg_socket_path :: "PathBuf option"
  arg_database_path :: "PathBuf option"
  arg_log_level :: "string option"

record RuntimeConfig =
  rc_channel :: Channel
  rc_socket_path :: PathBuf
  rc_database_path :: PathBuf
  rc_log_level :: string
  rc_maintenance_interval :: DurationSeconds
  rc_heartbeat_interval :: DurationSeconds
  rc_coordinator :: CoordinatorConfig
  rc_wallet_backends :: "WalletBackendConfig list"

section \<open>The host\<close>

record FsMetadata =
  fs_is_dir :: bool
  fs_uid :: u32
  fs_mode :: u32

text \<open>
  \<open>env_var\<close> is \<open>env::var(..).ok()\<close>, \<open>env_var_os\<close> is \<open>env::var_os\<close>; \<open>walk_dir\<close> lists what
  \<open>WalkDir::new(root).follow_links(false)\<close> yields, each entry with its path and whether it is a symbolic link.
\<close>

record Host =
  env_var :: "string \<Rightarrow> string option"
  env_var_os :: "string \<Rightarrow> string option"
  target_macos :: bool
  cargo_pkg_version :: string
  effective_uid :: u32
  path_exists :: "PathBuf \<Rightarrow> bool"
  read_to_string :: "PathBuf \<Rightarrow> string anyhow"
  toml_from_str :: "string \<Rightarrow> FileConfig anyhow"
  canonicalize :: "PathBuf \<Rightarrow> PathBuf anyhow"
  fs_metadata :: "PathBuf \<Rightarrow> FsMetadata anyhow"
  walk_dir :: "PathBuf \<Rightarrow> (PathBuf \<times> bool) anyhow list"

text \<open>The \<open>?\<close> operator on results without state, and \<open>with_context\<close>.\<close>

definition and_then_any :: "'a anyhow \<Rightarrow> ('a \<Rightarrow> 'b anyhow) \<Rightarrow> 'b anyhow" where
  "and_then_any r f = (case r of Inl e \<Rightarrow> Inl e | Inr x \<Rightarrow> f x)"

definition with_context :: "'a anyhow \<Rightarrow> string \<Rightarrow> 'a anyhow" where
  "with_context r m = (case r of Inl _ \<Rightarrow> Inl m | Inr x \<Rightarrow> Inr x)"

definition required :: "'a option \<Rightarrow> string \<Rightarrow> 'a anyhow" where
  "required v m = (case v of None \<Rightarrow> Inl m | Some x \<Rightarrow> Inr x)"

definition ensure :: "bool \<Rightarrow> string \<Rightarrow> unit anyhow" where
  "ensure b m = (if b then Inr () else Inl m)"

lemma and_then_any_Inr: "and_then_any r f = Inr y \<longleftrightarrow> (\<exists>x. r = Inr x \<and> f x = Inr y)"
  by (cases r) (simp_all add: and_then_any_def)

lemma with_context_Inr: "with_context r m = Inr y \<longleftrightarrow> r = Inr y"
  by (cases r) (simp_all add: with_context_def)

lemma required_Inr: "required v m = Inr x \<longleftrightarrow> v = Some x"
  by (cases v) (simp_all add: required_def)

lemma ensure_Inr: "ensure b m = Inr u \<longleftrightarrow> b"
  by (simp add: ensure_def)

lemmas anyhow_simps = and_then_any_Inr with_context_Inr required_Inr ensure_Inr

section \<open>Paths\<close>

text \<open>The components of a unix path: repeated separators and inner \<open>.\<close> vanish.\<close>

datatype Component = RootDir | CurDir | ParentDir | Normal string

fun split_on :: "char \<Rightarrow> string \<Rightarrow> string list" where
  "split_on d [] = [[]]"
| "split_on d (c # cs) =
     (if c = d then [] # split_on d cs
      else (case split_on d cs of [] \<Rightarrow> [[c]] | w # ws \<Rightarrow> (c # w) # ws))"

definition path_component :: "string \<Rightarrow> Component" where
  "path_component w = (if w = ''..'' then ParentDir else Normal w)"

definition path_components :: "PathBuf \<Rightarrow> Component list" where
  "path_components p =
     (let ws = split_on CHR ''/'' p;
          names = map path_component (filter (\<lambda>w. w \<noteq> [] \<and> w \<noteq> ''.'') ws)
      in if p \<noteq> [] \<and> hd p = CHR ''/'' then RootDir # names
         else if hd ws = ''.'' then CurDir # names else names)"

text \<open>\<open>Path::parent\<close> is \<open>None\<close> for the root and the empty path.\<close>

definition has_parent :: "PathBuf \<Rightarrow> bool" where
  "has_parent p \<longleftrightarrow> path_components p \<noteq> [] \<and> path_components p \<noteq> [RootDir]"

fun is_prefix_of :: "'a list \<Rightarrow> 'a list \<Rightarrow> bool" where
  "is_prefix_of [] _ = True"
| "is_prefix_of (x # xs) (y # ys) = (x = y \<and> is_prefix_of xs ys)"
| "is_prefix_of _ [] = False"

definition path_starts_with :: "PathBuf \<Rightarrow> PathBuf \<Rightarrow> bool" where
  "path_starts_with p base = is_prefix_of (path_components base) (path_components p)"

definition path_join :: "PathBuf \<Rightarrow> string \<Rightarrow> PathBuf" where
  "path_join base name =
     (if name \<noteq> [] \<and> hd name = CHR ''/'' then name
      else if base = [] \<or> last base = CHR ''/'' then base @ name
      else base @ ''/'' @ name)"

definition non_empty_env_path :: "Host \<Rightarrow> string \<Rightarrow> PathBuf option" where
  "non_empty_env_path H name =
     (case env_var_os H name of None \<Rightarrow> None | Some v \<Rightarrow> if v = [] then None else Some v)"

definition unwrap_or :: "'a option \<Rightarrow> 'a \<Rightarrow> 'a" where
  "unwrap_or v d = (case v of None \<Rightarrow> d | Some x \<Rightarrow> x)"

definition or_else :: "'a option \<Rightarrow> 'a option \<Rightarrow> 'a option" where
  "or_else v w = (case v of None \<Rightarrow> w | Some x \<Rightarrow> Some x)"

definition default_home_dir :: "Host \<Rightarrow> PathBuf" where
  "default_home_dir H = unwrap_or (non_empty_env_path H ''HOME'') ''.''"

record RuntimePathLayout =
  pl_config_path :: PathBuf
  pl_socket_path :: PathBuf
  pl_database_path :: PathBuf

record LinuxRuntimeDirs =
  ld_config_home :: PathBuf
  ld_state_home :: PathBuf
  ld_runtime_dir :: PathBuf

definition macos_runtime_support_dir :: "PathBuf \<Rightarrow> PathBuf" where
  "macos_runtime_support_dir home = path_join (path_join (path_join home ''Library'') ''Application Support'') ''StarmaskRuntime''"

definition xdg_config_home :: "Host \<Rightarrow> PathBuf \<Rightarrow> PathBuf" where
  "xdg_config_home H home = unwrap_or (non_empty_env_path H ''XDG_CONFIG_HOME'') (path_join home ''.config'')"

definition xdg_state_home :: "Host \<Rightarrow> PathBuf \<Rightarrow> PathBuf" where
  "xdg_state_home H home =
     unwrap_or (non_empty_env_path H ''XDG_STATE_HOME'') (path_join (path_join home ''.local'') ''state'')"

definition xdg_runtime_dir :: "Host \<Rightarrow> PathBuf \<Rightarrow> PathBuf" where
  "xdg_runtime_dir H state_home = unwrap_or (non_empty_env_path H ''XDG_RUNTIME_DIR'') state_home"

definition linux_runtime_dirs :: "Host \<Rightarrow> PathBuf \<Rightarrow> LinuxRuntimeDirs" where
  "linux_runtime_dirs H home =
     (let state_home = xdg_state_home H home in
      \<lparr>ld_config_home = xdg_config_home H home, ld_state_home = state_home,
       ld_runtime_dir = xdg_runtime_dir H state_home\<rparr>)"

definition linux_config_path :: "PathBuf \<Rightarrow> PathBuf" where
  "linux_config_path config_home = path_join (path_join config_home ''starmask-runtime'') ''config.toml''"

definition linux_socket_path :: "PathBuf \<Rightarrow> PathBuf" where
  "linux_socket_path runtime_dir = path_join (path_join runtime_dir ''starmask-runtime'') ''starmaskd.sock''"

definition linux_database_path :: "PathBuf \<Rightarrow> PathBuf" where
  "linux_database_path state_home = path_join (path_join state_home ''starmask-runtime'') ''starmaskd.sqlite3''"

definition for_linux_dirs :: "LinuxRuntimeDirs \<Rightarrow> RuntimePathLayout" where
  "for_linux_dirs d =
     \<lparr>pl_config_path = linux_config_path (ld_config_home d), pl_socket_path = linux_socket_path (ld_runtime_dir d),
      pl_database_path = linux_database_path (ld_state_home d)\<rparr>"

definition for_home :: "Host \<Rightarrow> PathBuf \<Rightarrow> RuntimePathLayout" where
  "for_home H home =
     (if target_macos H then
        (let support_dir = macos_runtime_support_dir home in
         \<lparr>pl_config_path = path_join support_dir ''config.toml'',
          pl_socket_path = path_join (path_join support_dir ''run'') ''starmaskd.sock'',
          pl_database_path = path_join support_dir ''starmaskd.sqlite3''\<rparr>)
      else for_linux_dirs (linux_runtime_dirs H home))"

definition RuntimePathLayout_detect :: "Host \<Rightarrow> RuntimePathLayout" where
  "RuntimePathLayout_detect H = for_home H (default_home_dir H)"

definition default_config_path :: "Host \<Rightarrow> PathBuf option" where
  "default_config_path H = Some (pl_config_path (RuntimePathLayout_detect H))"

definition default_socket_path :: "Host \<Rightarrow> PathBuf" where
  "default_socket_path H = pl_socket_path (RuntimePathLayout_detect H)"

definition default_database_path :: "Host \<Rightarrow> PathBuf" where
  "default_database_path H = pl_database_path (RuntimePathLayout_detect H)"

definition validate_paths :: "PathBuf \<Rightarrow> PathBuf \<Rightarrow> unit anyhow" where
  "validate_paths socket_path database_path =
     and_then_any (ensure (has_parent socket_path) ''socket path must have a parent directory'') (\<lambda>_.
     ensure (has_parent database_path) ''database path must have a parent directory'')"

section \<open>Reading settings\<close>

definition channel_name :: "Channel \<Rightarrow> string" where
  "channel_name ch = (case ch of Development \<Rightarrow> ''development'' | Staging \<Rightarrow> ''staging'' | Production \<Rightarrow> ''production'')"

definition default_native_host_name :: "Channel \<Rightarrow> string" where
  "default_native_host_name ch = ''com.starcoin.starmask.'' @ channel_name ch"

definition read_channel :: "string option \<Rightarrow> Channel option \<Rightarrow> Channel \<Rightarrow> Channel anyhow" where
  "read_channel env_value file_value dflt =
     (case env_value of
        Some v \<Rightarrow>
          if v = ''development'' then Inr Development
          else if v = ''staging'' then Inr Staging
          else if v = ''production'' then Inr Production
          else Inl (''unsupported channel value: '' @ v)
      | None \<Rightarrow> Inr (unwrap_or file_value dflt))"

text \<open>\<open>str::parse::<u64>\<close>: an optional plus sign and at least one digit, within range.\<close>

definition is_digit :: "char \<Rightarrow> bool" where
  "is_digit c \<longleftrightarrow> 48 \<le> (of_char c :: nat) \<and> (of_char c :: nat) \<le> 57"

definition digits_value :: "string \<Rightarrow> nat" where
  "digits_value ds = foldl (\<lambda>n d. 10 * n + (of_char d - 48)) 0 ds"

definition parse_u64 :: "string \<Rightarrow> u64 option" where
  "parse_u64 s =
     (let ds = (if s \<noteq> [] \<and> hd s = CHR ''+'' then tl s else s) in
      if ds \<noteq> [] \<and> list_all is_digit ds \<and> digits_value ds < 2 ^ 64
      then Some (of_nat (digits_value ds)) else None)"

definition env_u64 :: "Host \<Rightarrow> string \<Rightarrow> u64 option" where
  "env_u64 H key = Option.bind (env_var H key) parse_u64"

definition read_non_empty_string :: "string \<Rightarrow> string \<Rightarrow> string anyhow" where
  "read_non_empty_string field v =
     (let v = trim v in if v = [] then Inl (field @ '' cannot be empty'') else Inr v)"

definition btree_insert :: "string \<Rightarrow> string list \<Rightarrow> string list" where
  "btree_insert x xs = (if x \<in> set xs then xs else insort x xs)"

fun collect_extension_ids :: "string list \<Rightarrow> string list \<Rightarrow> string list anyhow" where
  "collect_extension_ids extension_ids [] = Inr extension_ids"
| "collect_extension_ids extension_ids (raw # rest) =
     (if trim raw = [] then Inl ''allowed_extension_ids contains an empty entry''
      else collect_extension_ids (btree_insert (trim raw) extension_ids) rest)"

definition read_extension_ids :: "string option \<Rightarrow> string list option \<Rightarrow> string list anyhow" where
  "read_extension_ids env_value file_value =
     collect_extension_ids []
       (case env_value of Some v \<Rightarrow> map trim (split_on CHR '','' v) | None \<Rightarrow> unwrap_or file_value [])"

definition validate_allowed_extension_ids :: "Channel \<Rightarrow> string list \<Rightarrow> unit anyhow" where
  "validate_allowed_extension_ids ch extension_ids =
     ensure (extension_ids \<noteq> [])
       (''allowed_extension_ids must be configured for the '' @ channel_name ch @ '' channel'')"

definition load_file_config :: "Host \<Rightarrow> PathBuf option \<Rightarrow> FileConfig anyhow" where
  "load_file_config H path =
     (case or_else path (default_config_path H) of
        None \<Rightarrow> Inr FileConfig_default
      | Some p \<Rightarrow>
          if \<not> path_exists H p then Inr FileConfig_default
          else
            and_then_any (with_context (read_to_string H p) (''failed to read config file at '' @ p)) (\<lambda>content.
            with_context (toml_from_str H content) (''failed to parse config file at '' @ p)))"

section \<open>Local account directories\<close>

fun validate_entries :: "Host \<Rightarrow> PathBuf \<Rightarrow> (PathBuf \<times> bool) anyhow list \<Rightarrow> unit anyhow" where
  "validate_entries H root [] = Inr ()"
| "validate_entries H root (e # es) =
     and_then_any (with_context e (''failed to scan '' @ root)) (\<lambda>(path, is_symlink).
     and_then_any
       (if is_symlink then
          and_then_any (with_context (canonicalize H path) (''failed to resolve symlink '' @ path)) (\<lambda>target.
          ensure (path_starts_with target root) (''symlink '' @ path @ '' escapes the configured account_dir''))
        else Inr ())
       (\<lambda>_. validate_entries H root es))"

definition validate_symlink_escapes :: "Host \<Rightarrow> PathBuf \<Rightarrow> unit anyhow" where
  "validate_symlink_escapes H root = validate_entries H root (walk_dir H root)"

text \<open>The mode is tested against octal 077.\<close>

unbundle bit_operations_syntax

definition validate_directory_permissions :: "Host \<Rightarrow> PathBuf \<Rightarrow> unit anyhow" where
  "validate_directory_permissions H path =
     and_then_any (with_context (fs_metadata H path) (''failed to read permissions for '' @ path)) (\<lambda>md.
     and_then_any (ensure (fs_uid md = effective_uid H)
       (''account_dir '' @ path @ '' must be owned by the current user'')) (\<lambda>_.
     ensure (fs_mode md AND 63 = 0)
       (''account_dir '' @ path @ '' must not grant any group or world permissions'')))"

definition validate_local_account_dir :: "Host \<Rightarrow> PathBuf \<Rightarrow> bool \<Rightarrow> PathBuf anyhow" where
  "validate_local_account_dir H path require_strict_permissions =
     and_then_any (with_context (canonicalize H path) (''failed to canonicalize account_dir '' @ path)) (\<lambda>canonical.
     and_then_any (with_context (fs_metadata H canonical) (''failed to read account_dir '' @ canonical)) (\<lambda>md.
     and_then_any (ensure (fs_is_dir md) (''account_dir '' @ canonical @ '' must be a directory'')) (\<lambda>_.
     and_then_any (validate_symlink_escapes H canonical) (\<lambda>_.
     and_then_any (if require_strict_permissions then validate_directory_permissions H canonical else Inr ()) (\<lambda>_.
     Inr canonical)))))"

section \<open>Building the backends\<close>

fun claim_extension_ids :: "string list \<Rightarrow> string list \<Rightarrow> string list anyhow" where
  "claim_extension_ids seen [] = Inr seen"
| "claim_extension_ids seen (x # xs) =
     (if x \<in> set seen then Inl (''extension id '' @ x @ '' is configured by more than one backend'')
      else claim_extension_ids (btree_insert x seen) xs)"

text \<open>The two arms of the \<open>match\<close> in \<open>build_phase2_backends\<close>; \<open>bid\<close> is the trimmed identifier.\<close>

definition parse_extension_backend ::
  "Channel \<Rightarrow> string \<Rightarrow> string \<Rightarrow> FileWalletBackendConfig \<Rightarrow> string list \<Rightarrow> (WalletBackendConfig \<times> string list) anyhow" where
  "parse_extension_backend ch bid instance_label fb seen_extension_ids =
     and_then_any (ensure (fb_approval_surface fb = BrowserUi)
       (''backend '' @ bid @ '' must use approval_surface = browser_ui'')) (\<lambda>_.
     and_then_any (read_extension_ids None (fb_allowed_extension_ids fb)) (\<lambda>extension_ids.
     and_then_any (validate_allowed_extension_ids ch extension_ids) (\<lambda>_.
     and_then_any (claim_extension_ids seen_extension_ids extension_ids) (\<lambda>seen.
     and_then_any (required (case fb_native_host_name fb of None \<Rightarrow> None
                             | Some v \<Rightarrow> if trim v = [] then None else Some v)
       (''backend '' @ bid @ '' must configure native_host_name'')) (\<lambda>native_host_name.
     Inr (ExtensionBackend
       \<lparr>se_common = \<lparr>cb_backend_id = bid, cb_instance_label = instance_label,
                     cb_approval_surface = fb_approval_surface fb\<rparr>,
        se_allowed_extension_ids = extension_ids, se_native_host_name = native_host_name,
        se_profile_hint = fb_profile_hint fb\<rparr>, seen))))))"

definition parse_local_backend ::
  "Host \<Rightarrow> string \<Rightarrow> string \<Rightarrow> FileWalletBackendConfig \<Rightarrow> WalletBackendConfig anyhow" where
  "parse_local_backend H bid instance_label fb =
     and_then_any (required (fb_prompt_mode fb) (''backend '' @ bid @ '' must configure prompt_mode'')) (\<lambda>prompt_mode.
     and_then_any (ensure (fb_approval_surface fb \<in> {TtyPrompt, DesktopPrompt})
       (''backend '' @ bid @ '' must use tty_prompt or desktop_prompt approval surface'')) (\<lambda>_.
     and_then_any (ensure (prompt_approval_surface prompt_mode = fb_approval_surface fb)
       (''backend '' @ bid @ '' must use matching approval_surface and prompt_mode'')) (\<lambda>_.
     and_then_any (ensure (prompt_mode = TtyPromptMode)
       (''backend '' @ bid @ '' must use prompt_mode = tty_prompt until desktop_prompt is implemented'')) (\<lambda>_.
     and_then_any (required (fb_account_dir fb) (''backend '' @ bid @ '' must configure account_dir'')) (\<lambda>dir.
     and_then_any (validate_local_account_dir H dir (unwrap_or (fb_require_strict_permissions fb) True)) (\<lambda>account_dir.
     and_then_any (required (fb_unlock_cache_ttl_seconds fb)
       (''backend '' @ bid @ '' must configure unlock_cache_ttl_seconds'')) (\<lambda>unlock_cache_ttl.
     and_then_any (ensure (unlock_cache_ttl \<noteq> 0)
       (''backend '' @ bid @ '' unlock_cache_ttl_seconds must be greater than zero'')) (\<lambda>_.
     and_then_any (required (fb_chain_id fb) (''backend '' @ bid @ '' must configure chain_id'')) (\<lambda>chain_id.
     Inr (LocalBackend
       \<lparr>la_common = \<lparr>cb_backend_id = bid, cb_instance_label = instance_label,
                     cb_approval_surface = fb_approval_surface fb\<rparr>,
        la_account_dir = account_dir, la_prompt_mode = prompt_mode, la_chain_id = chain_id,
        la_unlock_cache_ttl = unlock_cache_ttl,
        la_allow_read_only_accounts = unwrap_or (fb_allow_read_only_accounts fb) True,
        la_require_strict_permissions = unwrap_or (fb_require_strict_permissions fb) True\<rparr>))))))))))"

definition parse_backend :: "Host \<Rightarrow> Channel \<Rightarrow> string \<Rightarrow> string \<Rightarrow> FileWalletBackendConfig \<Rightarrow> string list \<Rightarrow>
    (WalletBackendConfig \<times> string list) anyhow" where
  "parse_backend H ch bid instance_label fb seen_exts =
     (if fb_backend_kind fb = StarmaskExtension
      then parse_extension_backend ch bid instance_label fb seen_exts
      else and_then_any (parse_local_backend H bid instance_label fb) (\<lambda>b. Inr (b, seen_exts)))"

text \<open>The loop of \<open>build_phase2_backends\<close>, with its two sets and the backends found so far.\<close>

fun phase2_loop :: "Host \<Rightarrow> Channel \<Rightarrow> string list \<Rightarrow> string list \<Rightarrow> WalletBackendConfig list \<Rightarrow>
    FileWalletBackendConfig list \<Rightarrow> WalletBackendConfig list anyhow" where
  "phase2_loop H ch seen_ids seen_exts enabled_backends [] = Inr enabled_backends"
| "phase2_loop H ch seen_ids seen_exts enabled_backends (fb # fbs) =
     (let bid = trim (fb_backend_id fb) in
      if bid = [] then Inl ''backend_id cannot be empty''
      else if bid \<in> set seen_ids then Inl (''duplicate backend_id configured: '' @ bid)
      else if fb_backend_kind fb = PrivateKeyDev then Inl ''backend_kind private_key_dev is reserved for a future phase''
      else if \<not> fb_enabled fb then phase2_loop H ch (btree_insert bid seen_ids) seen_exts enabled_backends fbs
      else
        and_then_any (read_non_empty_string ''instance_label'' (fb_instance_label fb)) (\<lambda>instance_label.
        and_then_any (parse_backend H ch bid instance_label fb seen_exts) (\<lambda>(parsed, seen_exts').
        phase2_loop H ch (btree_insert bid seen_ids) seen_exts' (enabled_backends @ [parsed]) fbs)))"

definition build_phase2_backends :: "Host \<Rightarrow> Channel \<Rightarrow> FileWalletBackendConfig list \<Rightarrow> WalletBackendConfig list anyhow" where
  "build_phase2_backends H ch fbs = phase2_loop H ch [] [] [] fbs"

definition build_wallet_backends_with_legacy_env ::
  "Host \<Rightarrow> Channel \<Rightarrow> FileConfig \<Rightarrow> string option \<Rightarrow> string option \<Rightarrow> WalletBackendConfig list anyhow" where
  "build_wallet_backends_with_legacy_env H ch fc legacy_ids_env legacy_host_env =
     (case fc_wallet_backends fc of
        Some fbs \<Rightarrow>
          if fc_allowed_extension_ids fc \<noteq> None \<or> fc_native_host_name fc \<noteq> None \<or>
             legacy_ids_env \<noteq> None \<or> legacy_host_env \<noteq> None
          then Inl ''legacy extension settings are not allowed when wallet_backends is configured''
          else build_phase2_backends H ch fbs
      | None \<Rightarrow>
          and_then_any (read_extension_ids legacy_ids_env (fc_allowed_extension_ids fc)) (\<lambda>extension_ids.
          and_then_any (validate_allowed_extension_ids ch extension_ids) (\<lambda>_.
          Inr [ExtensionBackend
            \<lparr>se_common = \<lparr>cb_backend_id = ''browser-default'', cb_instance_label = ''Browser Default'',
                          cb_approval_surface = BrowserUi\<rparr>,
             se_allowed_extension_ids = extension_ids,
             se_native_host_name = unwrap_or (or_else legacy_host_env (fc_native_host_name fc)) (default_native_host_name ch),
             se_profile_hint = None\<rparr>])))"

definition build_wallet_backends :: "Host \<Rightarrow> Channel \<Rightarrow> FileConfig \<Rightarrow> WalletBackendConfig list anyhow" where
  "build_wallet_backends H ch fc =
     build_wallet_backends_with_legacy_env H ch fc
       (env_var H ''STARMASKD_ALLOWED_EXTENSION_IDS'') (env_var H ''STARMASKD_NATIVE_HOST_NAME'')"

section \<open>The runtime configuration\<close>

text \<open>One numeric setting: the environment, else the file, else the default.\<close>

definition setting :: "Host \<Rightarrow> string \<Rightarrow> u64 option \<Rightarrow> u64 \<Rightarrow> u64" where
  "setting H key file_value dflt = unwrap_or (or_else (env_u64 H key) file_value) dflt"

definition load_coordinator_config :: "Host \<Rightarrow> FileConfig \<Rightarrow> DurationSeconds \<Rightarrow> CoordinatorConfig" where
  "load_coordinator_config H fc wallet_offline_after =
     \<lparr>cfg_daemon_version = cargo_pkg_version H, cfg_socket_scope = ''local-user'',
      cfg_db_schema_version = STARMASKD_DB_SCHEMA_VERSION,
      cfg_default_request_ttl = setting H ''STARMASKD_DEFAULT_REQUEST_TTL_SECONDS'' (fc_default_request_ttl_seconds fc) 300,
      cfg_min_request_ttl = setting H ''STARMASKD_MIN_REQUEST_TTL_SECONDS'' (fc_min_request_ttl_seconds fc) 30,
      cfg_max_request_ttl = setting H ''STARMASKD_MAX_REQUEST_TTL_SECONDS'' (fc_max_request_ttl_seconds fc) 3600,
      cfg_delivery_lease_ttl = setting H ''STARMASKD_DELIVERY_LEASE_SECONDS'' (fc_delivery_lease_seconds fc) 30,
      cfg_presentation_lease_ttl = setting H ''STARMASKD_PRESENTATION_LEASE_SECONDS'' (fc_presentation_lease_seconds fc) 45,
      cfg_wallet_offline_after = wallet_offline_after,
      cfg_result_retention = setting H ''STARMASKD_RESULT_RETENTION_SECONDS'' (fc_result_retention_seconds fc) 600\<rparr>"

definition RuntimeConfig_load :: "Host \<Rightarrow> ServeArgs \<Rightarrow> RuntimeConfig anyhow" where
  "RuntimeConfig_load H args =
     and_then_any (load_file_config H (arg_config args)) (\<lambda>fc.
     and_then_any (read_channel (env_var H ''STARMASKD_CHANNEL'') (fc_channel fc) Development) (\<lambda>ch.
     let socket_path = unwrap_or (or_else (or_else (arg_socket_path args) (env_var_os H ''STARMASKD_SOCKET_PATH''))
           (fc_socket_path fc)) (default_socket_path H);
         database_path = unwrap_or (or_else (or_else (arg_database_path args) (env_var_os H ''STARMASKD_DB_PATH''))
           (fc_database_path fc)) (default_database_path H);
         log_level = unwrap_or (or_else (or_else (arg_log_level args) (env_var H ''STARMASKD_LOG_LEVEL''))
           (fc_log_level fc)) ''info'';
         maintenance_interval = max (setting H ''STARMASKD_MAINTENANCE_INTERVAL_SECONDS'' (fc_maintenance_interval_seconds fc) 1) 1;
         heartbeat_interval = max (setting H ''STARMASKD_HEARTBEAT_INTERVAL_SECONDS'' (fc_heartbeat_interval_seconds fc) 10) 1;
         wallet_offline_after = setting H ''STARMASKD_WALLET_OFFLINE_AFTER_SECONDS'' (fc_wallet_offline_after_seconds fc) 25
     in
     and_then_any (ensure (heartbeat_interval < wallet_offline_after)
       (''wallet_offline_after_seconds ('' @ u64_to_string wallet_offline_after
        @ '') must be greater than heartbeat_interval_seconds ('' @ u64_to_string heartbeat_interval @ '')'')) (\<lambda>_.
     and_then_any (build_wallet_backends H ch fc) (\<lambda>wallet_backends.
     and_then_any (ensure (wallet_backends \<noteq> []) ''at least one enabled wallet backend must be configured'') (\<lambda>_.
     and_then_any (validate_paths socket_path database_path) (\<lambda>_.
     Inr \<lparr>rc_channel = ch, rc_socket_path = socket_path, rc_database_path = database_path, rc_log_level = log_level,
          rc_maintenance_interval = maintenance_interval, rc_heartbeat_interval = heartbeat_interval,
          rc_coordinator = load_coordinator_config H fc wallet_offline_after,
          rc_wallet_backends = wallet_backends\<rparr>))))))"

definition find_backend :: "RuntimeConfig \<Rightarrow> string \<Rightarrow> WalletBackendConfig option" where
  "find_backend rc bid = find (\<lambda>b. backend_id b = bid) (rc_wallet_backends rc)"

section \<open>What a configuration that loads guarantees\<close>

fun extension_ids_of :: "WalletBackendConfig \<Rightarrow> string list" where
  "extension_ids_of (ExtensionBackend c) = se_allowed_extension_ids c"
| "extension_ids_of (LocalBackend _) = []"

text \<open>An account directory the daemon may use: canonical, without links that lead out, and private when asked for.\<close>

definition account_dir_ok :: "Host \<Rightarrow> bool \<Rightarrow> PathBuf \<Rightarrow> bool" where
  "account_dir_ok H strict dir \<longleftrightarrow>
     (\<exists>path. canonicalize H path = Inr dir) \<and>
     (\<exists>md. fs_metadata H dir = Inr md \<and> fs_is_dir md \<and>
        (strict \<longrightarrow> fs_uid md = effective_uid H \<and> fs_mode md AND 63 = 0)) \<and>
     (\<forall>e \<in> set (walk_dir H dir). \<exists>path is_symlink. e = Inr (path, is_symlink) \<and>
        (is_symlink \<longrightarrow> (\<exists>target. canonicalize H path = Inr target \<and> path_starts_with target dir)))"

fun backend_ok :: "Host \<Rightarrow> WalletBackendConfig \<Rightarrow> bool" where
  "backend_ok H (ExtensionBackend c) \<longleftrightarrow>
     nonblank (cb_backend_id (se_common c)) \<and> cb_approval_surface (se_common c) = BrowserUi \<and>
     se_allowed_extension_ids c \<noteq> [] \<and> list_all nonblank (se_allowed_extension_ids c)"
| "backend_ok H (LocalBackend c) \<longleftrightarrow>
     nonblank (cb_backend_id (la_common c)) \<and> nonblank (cb_instance_label (la_common c)) \<and>
     cb_approval_surface (la_common c) = TtyPrompt \<and> la_prompt_mode c = TtyPromptMode \<and>
     la_unlock_cache_ttl c \<noteq> 0 \<and> account_dir_ok H (la_require_strict_permissions c) (la_account_dir c)"

definition backends_ok :: "Host \<Rightarrow> WalletBackendConfig list \<Rightarrow> bool" where
  "backends_ok H bs \<longleftrightarrow>
     list_all (backend_ok H) bs \<and> distinct (map backend_id bs) \<and> distinct (concat (map extension_ids_of bs))"

lemma set_btree_insert [simp]: "set (btree_insert x xs) = insert x (set xs)"
  by (auto simp: btree_insert_def set_insort_key)

lemma distinct_btree_insert [simp]: "distinct (btree_insert x xs) \<longleftrightarrow> distinct xs"
  by (auto simp: btree_insert_def distinct_insort)

lemma collect_extension_ids_Inr:
  "collect_extension_ids acc raws = Inr ids \<Longrightarrow> distinct acc \<Longrightarrow>
   distinct ids \<and> set ids = set acc \<union> trim ` set raws \<and> list_all nonblank raws"
  by (induction acc raws rule: collect_extension_ids.induct) (auto simp: nonblank_def split: if_splits)

lemma read_extension_ids_Inr:
  assumes "read_extension_ids v fv = Inr ids"
  shows "distinct ids \<and> list_all nonblank ids"
  using collect_extension_ids_Inr [OF assms [unfolded read_extension_ids_def]]
  by (auto simp: list_all_iff)

lemma claim_extension_ids_Inr:
  "claim_extension_ids seen ids = Inr seen' \<Longrightarrow>
   distinct ids \<and> set ids \<inter> set seen = {} \<and> set seen' = set seen \<union> set ids"
  by (induction seen ids arbitrary: seen' rule: claim_extension_ids.induct) (auto split: if_splits)

lemma validate_entries_Inr:
  "validate_entries H root es = Inr u \<Longrightarrow> e \<in> set es \<Longrightarrow>
   \<exists>path is_symlink. e = Inr (path, is_symlink) \<and>
     (is_symlink \<longrightarrow> (\<exists>target. canonicalize H path = Inr target \<and> path_starts_with target root))"
  by (induction H root es rule: validate_entries.induct) (auto simp: anyhow_simps split: if_splits)

lemma validate_local_account_dir_Inr:
  assumes "validate_local_account_dir H path strict = Inr dir"
  shows "account_dir_ok H strict dir"
  using assms validate_entries_Inr [of H dir "walk_dir H dir" "()"]
  by (auto simp: validate_local_account_dir_def account_dir_ok_def validate_directory_permissions_def
      validate_symlink_escapes_def anyhow_simps split: if_splits)

lemma parse_extension_backend_Inr:
  assumes "parse_extension_backend ch bid lbl fb seen = Inr (b, seen')" "nonblank bid"
  shows "backend_ok H b \<and> backend_id b = bid \<and> distinct (extension_ids_of b) \<and>
    set (extension_ids_of b) \<inter> set seen = {} \<and> set seen' = set seen \<union> set (extension_ids_of b)"
  using assms
  by (auto simp: parse_extension_backend_def anyhow_simps validate_allowed_extension_ids_def backend_id_def
      dest!: read_extension_ids_Inr claim_extension_ids_Inr)

lemma parse_local_backend_Inr:
  assumes "parse_local_backend H bid lbl fb = Inr b" "nonblank bid" "nonblank lbl"
  shows "backend_ok H b \<and> backend_id b = bid \<and> extension_ids_of b = []"
  using assms
  by (auto simp: parse_local_backend_def anyhow_simps backend_id_def
      dest!: validate_local_account_dir_Inr)

lemma phase2_loop_Inr:
  "phase2_loop H ch ids exts bs fbs = Inr bs' \<Longrightarrow> backends_ok H bs \<Longrightarrow>
   set (map backend_id bs) \<subseteq> set ids \<Longrightarrow> set (concat (map extension_ids_of bs)) \<subseteq> set exts \<Longrightarrow> backends_ok H bs'"
proof (induction H ch ids exts bs fbs rule: phase2_loop.induct)
  case (2 H ch ids exts bs fb fbs)
  let ?bid = "trim (fb_backend_id fb)"
  from 2(3) have bid: "nonblank ?bid" "?bid \<notin> set ids" by (auto simp: Let_def nonblank_def split: if_splits)
  show ?case
  proof (cases "fb_enabled fb")
    case False
    with 2 bid show ?thesis by (auto simp: Let_def nonblank_def split: if_splits)
  next
    case True
    with 2(3) obtain lbl b exts' where l: "read_non_empty_string ''instance_label'' (fb_instance_label fb) = Inr lbl"
      and b: "parse_backend H ch ?bid lbl fb exts = Inr (b, exts')"
      and rest: "phase2_loop H ch (btree_insert ?bid ids) exts' (bs @ [b]) fbs = Inr bs'"
      and kind: "fb_backend_kind fb \<noteq> PrivateKeyDev"
      by (auto simp: Let_def anyhow_simps split: if_splits)
    from l have lbl: "nonblank lbl" by (auto simp: read_non_empty_string_def nonblank_def Let_def split: if_splits)
    have new: "backend_ok H b \<and> backend_id b = ?bid \<and> distinct (extension_ids_of b) \<and>
      set (extension_ids_of b) \<inter> set exts = {} \<and> set exts' = set exts \<union> set (extension_ids_of b)"
      using b bid(1) lbl parse_extension_backend_Inr [of ch ?bid lbl fb exts b exts' H] parse_local_backend_Inr [of H ?bid lbl fb b]
      by (auto simp: parse_backend_def anyhow_simps split: if_splits)
    show ?thesis
      by (rule "2.IH"(2) [OF refl _ bid(2) kind _ rest])
        (use new bid True 2(4-6) in \<open>auto simp: backends_ok_def nonblank_def\<close>)
  qed
qed simp

lemma browser_default_nonblank: "nonblank ''browser-default''"
  by (rule nonblank_plain [OF visible_ends]) (simp_all add: visible_def)

lemma build_wallet_backends_Inr:
  assumes "build_wallet_backends H ch fc = Inr bs" shows "backends_ok H bs"
  using assms phase2_loop_Inr [of H ch "[]" "[]" "[]"] browser_default_nonblank
  by (auto simp: build_wallet_backends_def build_wallet_backends_with_legacy_env_def build_phase2_backends_def
      anyhow_simps validate_allowed_extension_ids_def backends_ok_def
      dest!: read_extension_ids_Inr split: option.splits if_splits) 

end
