(* ===== verification/Server.thy ===== *)
theory Server
  imports Coordinator Daemon_Protocol Daemon_Config
begin

text \<open>
  The socket server of the daemon (\<open>starmaskd/src/server.rs\<close>) and the handle it reaches the
  coordinator through (\<open>CoordinatorHandle::dispatch\<close> in \<open>coordinator_runtime.rs\<close>): reading a request,
  decoding its parameters, the protocol and policy checks, the command each method sends and the reply it gets.
  A handler is a computation on the state of the coordinator thread; \<open>serde_json\<close> is the argument \<open>D\<close>.
\<close>

section \<open>The coordinator handle\<close>

datatype 's Runtime = Running "'s Coordinator" | Stopped

text \<open>An \<open>anyhow\<close> error: a core error that can be downcast to, or a message.\<close>

datatype RuntimeError = CoreFailure CoreError | RuntimeMessage string

fun handle_dispatch :: "'s Traits \<Rightarrow> CoordinatorCommand \<Rightarrow> ('s Runtime, RuntimeError, CoordinatorResponse) fallible" where
  "handle_dispatch T cmd (Running c) =
     (case dispatch T cmd c of
        (Inl e, c') \<Rightarrow> (Inl (CoreFailure e), Running c')
      | (Inr r, c') \<Rightarrow> (Inr r, Running c'))"
| "handle_dispatch T cmd Stopped = (Inl (RuntimeMessage ''coordinator is not running: sending on a closed channel''), Stopped)"

section \<open>Policy\<close>

record ServerPolicy =
  sp_channel :: Channel
  sp_wallet_backends :: "WalletBackendConfig list"

definition ServerPolicy_new :: "Channel \<Rightarrow> WalletBackendConfig list \<Rightarrow> ServerPolicy" where
  "ServerPolicy_new ch bs = \<lparr>sp_channel = ch, sp_wallet_backends = bs\<rparr>"

definition accepts_extension :: "ServerPolicy \<Rightarrow> string \<Rightarrow> StarmaskExtensionBackendConfig option" where
  "accepts_extension P extension_id =
     find (\<lambda>b. extension_id \<in> set (se_allowed_extension_ids b)) (List.map_filter as_extension (sp_wallet_backends P))"

definition configured_backend :: "ServerPolicy \<Rightarrow> WalletInstanceId \<Rightarrow> WalletBackendConfig option" where
  "configured_backend P w = find (\<lambda>b. backend_id b = w) (sp_wallet_backends P)"

definition configured_local_backend :: "ServerPolicy \<Rightarrow> WalletInstanceId \<Rightarrow> LocalAccountDirBackendConfig option" where
  "configured_local_backend P w = Option.bind (configured_backend P w) as_local_account_dir"

section \<open>Errors\<close>

fun RequestStatus_debug :: "RequestStatus \<Rightarrow> string" where
  "RequestStatus_debug Created = ''Created''"
| "RequestStatus_debug Dispatched = ''Dispatched''"
| "RequestStatus_debug PendingUserApproval = ''PendingUserApproval''"
| "RequestStatus_debug Approved = ''Approved''"
| "RequestStatus_debug Rejected = ''Rejected''"
| "RequestStatus_debug Expired = ''Expired''"
| "RequestStatus_debug Cancelled = ''Cancelled''"
| "RequestStatus_debug Failed = ''Failed''"

text \<open>\<open>Display\<close> of the core errors that are not shared ones; those are downcast before.\<close>

fun CoreError_to_string :: "CoreError \<Rightarrow> string" where
  "CoreError_to_string (Shared e) = message e"
| "CoreError_to_string (Repository (Storage m)) = ''storage error: '' @ m"
| "CoreError_to_string (InvalidStateTransition a b) =
     ''invalid state transition from '' @ RequestStatus_debug a @ '' to '' @ RequestStatus_debug b"
| "CoreError_to_string (Validation m) = ''validation error: '' @ m"
| "CoreError_to_string (Invariant m) = ''internal invariant violated: '' @ m"

fun extract_shared_error :: "RuntimeError \<Rightarrow> SharedError option" where
  "extract_shared_error (CoreFailure (Shared e)) = Some e"
| "extract_shared_error _ = None"

fun RuntimeError_to_string :: "RuntimeError \<Rightarrow> string" where
  "RuntimeError_to_string (CoreFailure e) = CoreError_to_string e"
| "RuntimeError_to_string (RuntimeMessage m) = m"

definition map_runtime_error :: "RuntimeError \<Rightarrow> JsonRpcErrorResponse" where
  "map_runtime_error e =
     (case extract_shared_error e of
        Some s \<Rightarrow> JsonRpcErrorResponse_new '''' s
      | None \<Rightarrow> JsonRpcErrorResponse_new '''' (SharedError_new InternalBridgeError (RuntimeError_to_string e)))"

definition error_response :: "string option \<Rightarrow> string \<Rightarrow> JsonRpcErrorResponse" where
  "error_response i e =
     JsonRpcErrorResponse_new (case i of Some x \<Rightarrow> x | None \<Rightarrow> '''') (SharedError_new InternalBridgeError e)"

definition unexpected_response :: "Serde \<Rightarrow> CoordinatorResponse \<Rightarrow> JsonRpcErrorResponse" where
  "unexpected_response D r =
     JsonRpcErrorResponse_new ''''
       (SharedError_new InternalBridgeError (''unexpected coordinator response: '' @ response_debug D r))"

definition invalid_request_error :: "string \<Rightarrow> SharedError" where
  "invalid_request_error m = with_retryable (SharedError_new InvalidRequest m) False"

definition required_request_field :: "'a option \<Rightarrow> string \<Rightarrow> SharedError + 'a" where
  "required_request_field v m = (case v of Some x \<Rightarrow> Inr x | None \<Rightarrow> Inl (invalid_request_error m))"

definition backend_not_allowed :: SharedError where
  "backend_not_allowed = with_retryable (SharedError_new BackendNotAllowed
     ''wallet_instance_id is not configured as an enabled local backend'') False"

section \<open>Decoding\<close>

type_synonym ('s, 'a) rpc = "('s Runtime, JsonRpcErrorResponse, 'a) fallible"

definition version_mismatch :: "u32 \<Rightarrow> SharedError" where
  "version_mismatch v =
     SharedError_new ProtocolVersionMismatch (''Unsupported daemon protocol version '' @ u32_to_string v)"

text \<open>\<open>from_value\<close> and \<open>protocol_version\<close> are the instances of \<open>DeserializeOwned\<close> and \<open>HasProtocolVersion\<close>.\<close>

definition decode_protocol_one_of ::
  "(Value \<Rightarrow> string + 'p) \<Rightarrow> ('p \<Rightarrow> u32) \<Rightarrow> string \<Rightarrow> Value \<Rightarrow> u32 list \<Rightarrow> JsonRpcErrorResponse + 'p" where
  "decode_protocol_one_of from_value protocol_version i v expected_versions =
     (case from_value v of
        Inl e \<Rightarrow> Inl (error_response (Some i) e)
      | Inr p \<Rightarrow>
          if protocol_version p \<notin> set expected_versions
          then Inl (JsonRpcErrorResponse_new i (version_mismatch (protocol_version p)))
          else Inr p)"

definition decode_protocol_exact ::
  "(Value \<Rightarrow> string + 'p) \<Rightarrow> ('p \<Rightarrow> u32) \<Rightarrow> string \<Rightarrow> Value \<Rightarrow> u32 \<Rightarrow> JsonRpcErrorResponse + 'p" where
  "decode_protocol_exact from_value protocol_version i v expected =
     (case from_value v of
        Inl e \<Rightarrow> Inl (error_response (Some i) e)
      | Inr p \<Rightarrow>
          if protocol_version p \<noteq> expected
          then Inl (JsonRpcErrorResponse_new i (version_mismatch (protocol_version p)))
          else Inr p)"

definition decode_protocol ::
  "(Value \<Rightarrow> string + 'p) \<Rightarrow> ('p \<Rightarrow> u32) \<Rightarrow> string \<Rightarrow> Value \<Rightarrow> JsonRpcErrorResponse + 'p" where
  "decode_protocol from_value protocol_version i v =
     decode_protocol_exact from_value protocol_version i v DAEMON_PROTOCOL_VERSION"

definition both_versions :: "u32 list" where
  "both_versions = [DAEMON_PROTOCOL_VERSION, GENERIC_BACKEND_PROTOCOL_VERSION]"

section \<open>Conversions\<close>

definition bind_result :: "'e + 'a \<Rightarrow> ('a \<Rightarrow> 'e + 'b) \<Rightarrow> 'e + 'b" where
  "bind_result r f = (case r of Inl e \<Rightarrow> Inl e | Inr x \<Rightarrow> f x)"

definition request_result_from_params :: "RequestResolveParams \<Rightarrow> SharedError + RequestResult" where
  "request_result_from_params p =
     (case rrpar_result_kind p of
        SignedTransaction \<Rightarrow>
          bind_result (required_request_field (rrpar_signed_txn_bcs_hex p)
            ''signed_txn_bcs_hex is required for signed_transaction'') (\<lambda>x.
          Inr (RSignedTransaction x))
      | SignedMessage \<Rightarrow>
          bind_result (required_request_field (rrpar_signature p) ''signature is required for signed_message'') (\<lambda>x.
          Inr (RSignedMessage x))
      | CreatedAccount \<Rightarrow>
          bind_result (required_request_field (rrpar_created_account_address p)
            ''created_account_address is required for created_account'') (\<lambda>a.
          bind_result (required_request_field (rrpar_created_account_public_key p)
            ''created_account_public_key is required for created_account'') (\<lambda>k.
          bind_result (required_request_field (rrpar_created_account_curve p)
            ''created_account_curve is required for created_account'') (\<lambda>cv.
          bind_result (required_request_field (rrpar_created_account_is_default p)
            ''created_account_is_default is required for created_account'') (\<lambda>d.
          bind_result (required_request_field (rrpar_created_account_is_locked p)
            ''created_account_is_locked is required for created_account'') (\<lambda>l.
          Inr (RCreatedAccount a k cv d l))))))
      | ExportedAccount \<Rightarrow>
          bind_result (required_request_field (rrpar_exported_account_address p)
            ''exported_account_address is required for exported_account'') (\<lambda>a.
          bind_result (required_request_field (rrpar_exported_account_output_file p)
            ''exported_account_output_file is required for exported_account'') (\<lambda>f.
          Inr (RExportedAccount a f)))
      | ImportedAccount \<Rightarrow>
          bind_result (required_request_field (rrpar_imported_account_address p)
            ''imported_account_address is required for imported_account'') (\<lambda>a.
          bind_result (required_request_field (rrpar_imported_account_public_key p)
            ''imported_account_public_key is required for imported_account'') (\<lambda>k.
          bind_result (required_request_field (rrpar_imported_account_curve p)
            ''imported_account_curve is required for imported_account'') (\<lambda>cv.
          bind_result (required_request_field (rrpar_imported_account_is_default p)
            ''imported_account_is_default is required for imported_account'') (\<lambda>d.
          bind_result (required_request_field (rrpar_imported_account_is_locked p)
            ''imported_account_is_locked is required for imported_account'') (\<lambda>l.
          Inr (RImportedAccount a k cv d l))))))
      | NoResult \<Rightarrow> Inl (invalid_request_error ''result_kind none is not valid for request.resolve''))"

definition bridge_account_to_wallet_account :: "WalletInstanceId \<Rightarrow> LockState \<Rightarrow> NativeBridgeAccount \<Rightarrow> WalletAccountRecord" where
  "bridge_account_to_wallet_account w lock_state a =
     \<lparr>wa_wallet_instance_id = w, wa_address = nba_address a, wa_label = nba_label a, wa_public_key = nba_public_key a,
      wa_is_default = nba_is_default a, wa_is_read_only = False, wa_is_locked = (lock_state \<noteq> Unlocked),
      wa_last_seen_at = 0\<rparr>"

definition backend_account_to_wallet_account :: "WalletInstanceId \<Rightarrow> BackendAccount \<Rightarrow> WalletAccountRecord" where
  "backend_account_to_wallet_account w a =
     \<lparr>wa_wallet_instance_id = w, wa_address = ba_address a, wa_label = ba_label a, wa_public_key = ba_public_key a,
      wa_is_default = ba_is_default a, wa_is_read_only = ba_is_read_only a, wa_is_locked = ba_is_locked a,
      wa_last_seen_at = 0\<rparr>"

fun WalletCapability_debug :: "WalletCapability \<Rightarrow> string" where
  "WalletCapability_debug UnlockCap = ''Unlock''"
| "WalletCapability_debug GetPublicKeyCap = ''GetPublicKey''"
| "WalletCapability_debug SignMessageCap = ''SignMessage''"
| "WalletCapability_debug SignTransactionCap = ''SignTransaction''"
| "WalletCapability_debug CreateAccountCap = ''CreateAccount''"
| "WalletCapability_debug ExportAccountCap = ''ExportAccount''"
| "WalletCapability_debug ImportAccountCap = ''ImportAccount''"

definition invalid_registration :: "string \<Rightarrow> SharedError" where
  "invalid_registration m = with_retryable (SharedError_new InvalidBackendRegistration m) False"

fun check_capabilities :: "WalletCapability list \<Rightarrow> WalletCapability list \<Rightarrow> SharedError + unit" where
  "check_capabilities allowed [] = Inr ()"
| "check_capabilities allowed (x # xs) =
     (if x \<notin> set allowed
      then Inl (invalid_registration (''unsupported capability advertised: '' @ WalletCapability_debug x))
      else check_capabilities allowed xs)"

definition validate_local_backend_capabilities ::
  "LocalAccountDirBackendConfig \<Rightarrow> WalletCapability list \<Rightarrow> SharedError + unit" where
  "validate_local_backend_capabilities cfg caps =
     check_capabilities (allowed_capabilities (LocalBackend cfg)) (canonical_capabilities caps)"

fun is_object :: "Value \<Rightarrow> bool" where
  "is_object (VObject _) = True"
| "is_object _ = False"

definition validate_generic_backend_registration ::
  "Serde \<Rightarrow> LocalAccountDirBackendConfig \<Rightarrow> BackendRegisterParams \<Rightarrow> SharedError + unit" where
  "validate_generic_backend_registration D cfg p =
     (if brpar_backend_kind p \<noteq> LocalAccountDir
      then Inl (invalid_registration ''backend_kind does not match the configured backend'')
      else if brpar_transport_kind p \<noteq> LocalSocket
      then Inl (invalid_registration ''transport_kind must be local_socket for generic backend registration'')
      else if brpar_approval_surface p \<noteq> cb_approval_surface (la_common cfg)
      then Inl (invalid_registration ''approval_surface does not match the configured backend'')
      else if trim (brpar_instance_label p) = []
      then Inl (invalid_registration ''instance_label cannot be empty'')
      else if \<not> is_object (brpar_backend_metadata p)
      then Inl (invalid_registration ''backend_metadata must be a JSON object'')
      else (case value_to_vec D (brpar_backend_metadata p) of
          Inl e \<Rightarrow> Inl (SharedError_new InvalidBackendRegistration e)
        | Inr bytes \<Rightarrow>
            if 4 * 1024 < length bytes
            then Inl (invalid_registration ''backend_metadata exceeds the 4 KiB phase-2 limit'')
            else validate_local_backend_capabilities cfg (brpar_capabilities p)))"

section \<open>Calling the coordinator\<close>

definition expect_response ::
  "('s Runtime, RuntimeError, CoordinatorResponse) fallible \<Rightarrow> (CoordinatorResponse \<Rightarrow> JsonRpcErrorResponse + 'a) \<Rightarrow> ('s, 'a) rpc" where
  "expect_response m projector =
     (\<lambda>s. case m s of (Inl e, s') \<Rightarrow> (Inl (map_runtime_error e), s') | (Inr r, s') \<Rightarrow> (projector r, s'))"

definition reply_value :: "Serde \<Rightarrow> Reply \<Rightarrow> ('s, Value) rpc" where
  "reply_value D r = of_result (case to_value D r of Inl e \<Rightarrow> Inl (error_response None e) | Inr v \<Rightarrow> Inr v)"

text \<open>The \<open>match\<close> a method applies to the coordinator's response: one arm, everything else is unexpected.\<close>

datatype Expected =
  ExpectSystemPing
  | ExpectSystemInfo
  | ExpectWalletStatus
  | ExpectWalletInstances
  | ExpectWalletAccounts
  | ExpectWalletPublicKey
  | ExpectWalletAccountLabelSet
  | ExpectRequestCreated
  | ExpectRequestStatus
  | ExpectRequestHasAvailable
  | ExpectRequestCancelled
  | ExpectPullNextRequest
  | ExpectAck | ExpectPresented | ExpectResolved | ExpectRejected

definition AckResult_ok :: Reply where "AckResult_ok = ReplyAck \<lparr>ack_ok = True\<rparr>"

fun project_response :: "Serde \<Rightarrow> Expected \<Rightarrow> CoordinatorResponse \<Rightarrow> JsonRpcErrorResponse + Reply" where
  "project_response D ExpectSystemPing r = (case r of RespSystemPing x \<Rightarrow> Inr (ReplySystemPing x) | _ \<Rightarrow> Inl (unexpected_response D r))"
| "project_response D ExpectSystemInfo r = (case r of RespSystemInfo x \<Rightarrow> Inr (ReplySystemInfo x) | _ \<Rightarrow> Inl (unexpected_response D r))"
| "project_response D ExpectWalletStatus r = (case r of RespWalletStatus x \<Rightarrow> Inr (ReplyWalletStatus x) | _ \<Rightarrow> Inl (unexpected_response D r))"
| "project_response D ExpectWalletInstances r = (case r of RespWalletInstances x \<Rightarrow> Inr (ReplyWalletInstances x) | _ \<Rightarrow> Inl (unexpected_response D r))"
| "project_response D ExpectWalletAccounts r = (case r of RespWalletAccounts x \<Rightarrow> Inr (ReplyWalletAccounts x) | _ \<Rightarrow> Inl (unexpected_response D r))"
| "project_response D ExpectWalletPublicKey r = (case r of RespWalletPublicKey x \<Rightarrow> Inr (ReplyWalletPublicKey x) | _ \<Rightarrow> Inl (unexpected_response D r))"
| "project_response D ExpectWalletAccountLabelSet r = (case r of RespWalletAccountLabelSet x \<Rightarrow> Inr (ReplyWalletAccountLabelSet x) | _ \<Rightarrow> Inl (unexpected_response D r))"
| "project_response D ExpectRequestCreated r = (case r of RespRequestCreated x \<Rightarrow> Inr (ReplyRequestCreated x) | _ \<Rightarrow> Inl (unexpected_response D r))"
| "project_response D ExpectRequestStatus r = (case r of RespRequestStatus x \<Rightarrow> Inr (ReplyRequestStatus x) | _ \<Rightarrow> Inl (unexpected_response D r))"
| "project_response D ExpectRequestHasAvailable r = (case r of RespRequestHasAvailable x \<Rightarrow> Inr (ReplyRequestHasAvailable x) | _ \<Rightarrow> Inl (unexpected_response D r))"
| "project_response D ExpectRequestCancelled r = (case r of RespRequestCancelled x \<Rightarrow> Inr (ReplyRequestCancelled x) | _ \<Rightarrow> Inl (unexpected_response D r))"
| "project_response D ExpectPullNextRequest r = (case r of RespPullNextRequest x \<Rightarrow> Inr (ReplyPullNextRequest x) | _ \<Rightarrow> Inl (unexpected_response D r))"
| "project_response D ExpectAck r = (case r of RespAck \<Rightarrow> Inr AckResult_ok | _ \<Rightarrow> Inl (unexpected_response D r))"
| "project_response D ExpectPresented r = (case r of RespRequestPresented _ \<Rightarrow> Inr AckResult_ok | _ \<Rightarrow> Inl (unexpected_response D r))"
| "project_response D ExpectResolved r = (case r of RespRequestResolved _ \<Rightarrow> Inr AckResult_ok | _ \<Rightarrow> Inl (unexpected_response D r))"
| "project_response D ExpectRejected r = (case r of RespRequestRejected _ \<Rightarrow> Inr AckResult_ok | _ \<Rightarrow> Inl (unexpected_response D r))"

definition call :: "Serde \<Rightarrow> 's Traits \<Rightarrow> Expected \<Rightarrow> CoordinatorCommand \<Rightarrow> ('s, Value) rpc" where
  "call D T x cmd = bind (expect_response (handle_dispatch T cmd) (project_response D x)) (reply_value D)"

section \<open>The methods\<close>

text \<open>One definition per arm of the \<open>match\<close> in \<open>dispatch_request\<close>: \<open>i\<close> is the request id, \<open>v\<close> the parameters.\<close>

definition serve_system_ping :: "Serde \<Rightarrow> 's Traits \<Rightarrow> string \<Rightarrow> Value \<Rightarrow> ('s, Value) rpc" where
  "serve_system_ping D T i v =
     bind (of_result (decode_protocol (from_SystemPingParams D) sppar_protocol_version i v)) (\<lambda>_.
     call D T ExpectSystemPing CmdSystemPing)"

definition serve_system_get_info :: "Serde \<Rightarrow> 's Traits \<Rightarrow> string \<Rightarrow> Value \<Rightarrow> ('s, Value) rpc" where
  "serve_system_get_info D T i v =
     bind (of_result (decode_protocol (from_SystemGetInfoParams D) sgipar_protocol_version i v)) (\<lambda>_.
     call D T ExpectSystemInfo CmdSystemGetInfo)"

definition serve_wallet_status :: "Serde \<Rightarrow> 's Traits \<Rightarrow> string \<Rightarrow> Value \<Rightarrow> ('s, Value) rpc" where
  "serve_wallet_status D T i v =
     bind (of_result (decode_protocol (from_WalletStatusParams D) wspar_protocol_version i v)) (\<lambda>_.
     call D T ExpectWalletStatus CmdWalletStatus)"

definition serve_wallet_list_instances :: "Serde \<Rightarrow> 's Traits \<Rightarrow> string \<Rightarrow> Value \<Rightarrow> ('s, Value) rpc" where
  "serve_wallet_list_instances D T i v =
     bind (of_result (decode_protocol (from_WalletListInstancesParams D) wlipar_protocol_version i v)) (\<lambda>p.
     call D T ExpectWalletInstances (CmdWalletListInstances (wlipar_connected_only p)))"

definition serve_wallet_list_accounts :: "Serde \<Rightarrow> 's Traits \<Rightarrow> string \<Rightarrow> Value \<Rightarrow> ('s, Value) rpc" where
  "serve_wallet_list_accounts D T i v =
     bind (of_result (decode_protocol (from_WalletListAccountsParams D) wlapar_protocol_version i v)) (\<lambda>p.
     call D T ExpectWalletAccounts (CmdWalletListAccounts (wlapar_wallet_instance_id p) (wlapar_include_public_key p)))"

definition serve_wallet_get_public_key :: "Serde \<Rightarrow> 's Traits \<Rightarrow> string \<Rightarrow> Value \<Rightarrow> ('s, Value) rpc" where
  "serve_wallet_get_public_key D T i v =
     bind (of_result (decode_protocol (from_WalletGetPublicKeyParams D) wgppar_protocol_version i v)) (\<lambda>p.
     call D T ExpectWalletPublicKey (CmdWalletGetPublicKey (wgppar_address p) (wgppar_wallet_instance_id p)))"

definition serve_wallet_set_account_label :: "Serde \<Rightarrow> 's Traits \<Rightarrow> string \<Rightarrow> Value \<Rightarrow> ('s, Value) rpc" where
  "serve_wallet_set_account_label D T i v =
     bind (of_result (decode_protocol (from_WalletSetAccountLabelParams D) wslpar_protocol_version i v)) (\<lambda>p.
     call D T ExpectWalletAccountLabelSet (CmdWalletSetAccountLabel
       \<lparr>sal_wallet_instance_id = wslpar_wallet_instance_id p, sal_address = wslpar_address p,
        sal_label = wslpar_label p\<rparr>))"

definition serve_create_account :: "Serde \<Rightarrow> 's Traits \<Rightarrow> string \<Rightarrow> Value \<Rightarrow> ('s, Value) rpc" where
  "serve_create_account D T i v =
     bind (of_result (decode_protocol (from_CreateAccountParams D) capar_protocol_version i v)) (\<lambda>p.
     call D T ExpectRequestCreated (CmdCreateAccount
       \<lparr>cac_client_request_id = capar_client_request_id p, cac_wallet_instance_id = capar_wallet_instance_id p,
        cac_display_hint = capar_display_hint p, cac_client_context = capar_client_context p,
        cac_ttl_seconds = capar_ttl_seconds p\<rparr>))"

definition serve_create_export_account :: "Serde \<Rightarrow> 's Traits \<Rightarrow> string \<Rightarrow> Value \<Rightarrow> ('s, Value) rpc" where
  "serve_create_export_account D T i v =
     bind (of_result (decode_protocol (from_CreateExportAccountParams D) ceapar_protocol_version i v)) (\<lambda>p.
     call D T ExpectRequestCreated (CmdCreateExportAccount
       \<lparr>cea_client_request_id = ceapar_client_request_id p, cea_account_address = ceapar_account_address p,
        cea_wallet_instance_id = ceapar_wallet_instance_id p, cea_output_file = ceapar_output_file p,
        cea_force = ceapar_force p, cea_display_hint = ceapar_display_hint p,
        cea_client_context = ceapar_client_context p, cea_ttl_seconds = ceapar_ttl_seconds p\<rparr>))"

definition serve_create_import_account :: "Serde \<Rightarrow> 's Traits \<Rightarrow> string \<Rightarrow> Value \<Rightarrow> ('s, Value) rpc" where
  "serve_create_import_account D T i v =
     bind (of_result (decode_protocol (from_CreateImportAccountParams D) ciapar_protocol_version i v)) (\<lambda>p.
     call D T ExpectRequestCreated (CmdCreateImportAccount
       \<lparr>cia_client_request_id = ciapar_client_request_id p, cia_account_address = ciapar_account_address p,
        cia_wallet_instance_id = ciapar_wallet_instance_id p, cia_private_key_file = ciapar_private_key_file p,
        cia_display_hint = ciapar_display_hint p, cia_client_context = ciapar_client_context p,
        cia_ttl_seconds = ciapar_ttl_seconds p\<rparr>))"

definition serve_create_sign_transaction :: "Serde \<Rightarrow> 's Traits \<Rightarrow> string \<Rightarrow> Value \<Rightarrow> ('s, Value) rpc" where
  "serve_create_sign_transaction D T i v =
     bind (of_result (decode_protocol (from_CreateSignTransactionParams D) cstpar_protocol_version i v)) (\<lambda>p.
     call D T ExpectRequestCreated (CmdCreateSignTransaction
       \<lparr>cst_client_request_id = cstpar_client_request_id p, cst_account_address = cstpar_account_address p,
        cst_wallet_instance_id = cstpar_wallet_instance_id p, cst_chain_id = cstpar_chain_id p,
        cst_raw_txn_bcs_hex = cstpar_raw_txn_bcs_hex p, cst_tx_kind = cstpar_tx_kind p,
        cst_display_hint = cstpar_display_hint p, cst_client_context = cstpar_client_context p,
        cst_ttl_seconds = cstpar_ttl_seconds p\<rparr>))"

definition serve_create_sign_message :: "Serde \<Rightarrow> 's Traits \<Rightarrow> string \<Rightarrow> Value \<Rightarrow> ('s, Value) rpc" where
  "serve_create_sign_message D T i v =
     bind (of_result (decode_protocol (from_CreateSignMessageParams D) csmpar_protocol_version i v)) (\<lambda>p.
     call D T ExpectRequestCreated (CmdCreateSignMessage
       \<lparr>csm_client_request_id = csmpar_client_request_id p, csm_account_address = csmpar_account_address p,
        csm_wallet_instance_id = csmpar_wallet_instance_id p, csm_message = csmpar_message p,
        csm_format = csmpar_format p, csm_display_hint = csmpar_display_hint p,
        csm_client_context = csmpar_client_context p, csm_ttl_seconds = csmpar_ttl_seconds p\<rparr>))"

definition serve_get_status :: "Serde \<Rightarrow> 's Traits \<Rightarrow> string \<Rightarrow> Value \<Rightarrow> ('s, Value) rpc" where
  "serve_get_status D T i v =
     bind (of_result (decode_protocol (from_GetRequestStatusParams D) grspar_protocol_version i v)) (\<lambda>p.
     call D T ExpectRequestStatus (CmdGetRequestStatus (grspar_request_id p)))"

definition serve_has_available :: "Serde \<Rightarrow> 's Traits \<Rightarrow> string \<Rightarrow> Value \<Rightarrow> ('s, Value) rpc" where
  "serve_has_available D T i v =
     bind (of_result (decode_protocol_one_of (from_RequestHasAvailableParams D) rhapar_protocol_version i v both_versions)) (\<lambda>p.
     call D T ExpectRequestHasAvailable (CmdRequestHasAvailable (rhapar_wallet_instance_id p)))"

definition serve_cancel :: "Serde \<Rightarrow> 's Traits \<Rightarrow> string \<Rightarrow> Value \<Rightarrow> ('s, Value) rpc" where
  "serve_cancel D T i v =
     bind (of_result (decode_protocol (from_CancelRequestParams D) crpar_protocol_version i v)) (\<lambda>p.
     call D T ExpectRequestCancelled (CmdCancelRequest (crpar_request_id p)))"

definition extension_registration :: "StarmaskExtensionBackendConfig \<Rightarrow> ExtensionRegisterParams \<Rightarrow> RegisterBackendCommand" where
  "extension_registration cfg p =
     (let profile_hint = or_else (erpar_profile_hint p) (se_profile_hint cfg) in
      \<lparr>rbc_wallet_instance_id = erpar_wallet_instance_id p, rbc_backend_kind = StarmaskExtension,
       rbc_transport_kind = NativeMessaging, rbc_approval_surface = BrowserUi,
       rbc_instance_label = unwrap_or (erpar_profile_hint p) (cb_instance_label (se_common cfg)),
       rbc_extension_id = erpar_extension_id p, rbc_extension_version = erpar_extension_version p,
       rbc_protocol_version = erpar_protocol_version p,
       rbc_capabilities = [GetPublicKeyCap, SignMessageCap, SignTransactionCap],
       rbc_backend_metadata = VObject
         [(''backend_id'', VString (cb_backend_id (se_common cfg))), (''extension_id'', VString (erpar_extension_id p)),
          (''extension_version'', VString (erpar_extension_version p)),
          (''native_host_name'', VString (se_native_host_name cfg)),
          (''profile_hint'', (case profile_hint of Some h \<Rightarrow> VString h | None \<Rightarrow> VNull))],
       rbc_profile_hint = profile_hint, rbc_lock_state = erpar_lock_state p,
       rbc_accounts = map (bridge_account_to_wallet_account (erpar_wallet_instance_id p) (erpar_lock_state p))
         (erpar_accounts_summary p)\<rparr>)"

definition extension_registered :: "ExtensionRegisterParams \<Rightarrow> bool \<Rightarrow> Reply" where
  "extension_registered p accepted =
     ReplyExtensionRegistered \<lparr>exr_wallet_instance_id = erpar_wallet_instance_id p,
       exr_daemon_protocol_version = DAEMON_PROTOCOL_VERSION, exr_accepted = accepted\<rparr>"

text \<open>The early \<open>return\<close> for an extension outside the allowlist answers a success that says so.\<close>

definition serve_extension_register :: "Serde \<Rightarrow> 's Traits \<Rightarrow> ServerPolicy \<Rightarrow> string \<Rightarrow> Value \<Rightarrow> ('s, Value) rpc" where
  "serve_extension_register D T P i v =
     bind (of_result (decode_protocol (from_ExtensionRegisterParams D) erpar_protocol_version i v)) (\<lambda>p.
     case accepts_extension P (erpar_extension_id p) of
       None \<Rightarrow> reply_value D (extension_registered p False)
     | Some cfg \<Rightarrow>
         bind (expect_response (handle_dispatch T (CmdRegisterBackend (extension_registration cfg p)))
                 (project_response D ExpectAck)) (\<lambda>_.
         reply_value D (extension_registered p True)))"

definition serve_extension_heartbeat :: "Serde \<Rightarrow> 's Traits \<Rightarrow> string \<Rightarrow> Value \<Rightarrow> ('s, Value) rpc" where
  "serve_extension_heartbeat D T i v =
     bind (of_result (decode_protocol (from_ExtensionHeartbeatParams D) ehpar_protocol_version i v)) (\<lambda>p.
     call D T ExpectAck (CmdHeartbeatExtension
       \<lparr>hec_wallet_instance_id = ehpar_wallet_instance_id p, hec_presented_request_ids = ehpar_presented_request_ids p\<rparr>))"

definition serve_extension_update_accounts :: "Serde \<Rightarrow> 's Traits \<Rightarrow> string \<Rightarrow> Value \<Rightarrow> ('s, Value) rpc" where
  "serve_extension_update_accounts D T i v =
     bind (of_result (decode_protocol (from_ExtensionUpdateAccountsParams D) euapar_protocol_version i v)) (\<lambda>p.
     call D T ExpectAck (CmdUpdateExtensionAccounts
       \<lparr>uea_wallet_instance_id = euapar_wallet_instance_id p, uea_lock_state = euapar_lock_state p,
        uea_accounts = map (bridge_account_to_wallet_account (euapar_wallet_instance_id p) (euapar_lock_state p))
          (euapar_accounts p)\<rparr>))"

definition backend_registration :: "BackendRegisterParams \<Rightarrow> RegisterBackendCommand" where
  "backend_registration p =
     \<lparr>rbc_wallet_instance_id = brpar_wallet_instance_id p, rbc_backend_kind = brpar_backend_kind p,
      rbc_transport_kind = brpar_transport_kind p, rbc_approval_surface = brpar_approval_surface p,
      rbc_instance_label = brpar_instance_label p, rbc_extension_id = '''', rbc_extension_version = '''',
      rbc_protocol_version = brpar_protocol_version p, rbc_capabilities = canonical_capabilities (brpar_capabilities p),
      rbc_backend_metadata = brpar_backend_metadata p, rbc_profile_hint = None, rbc_lock_state = brpar_lock_state p,
      rbc_accounts = map (backend_account_to_wallet_account (brpar_wallet_instance_id p)) (brpar_accounts p)\<rparr>"

definition serve_backend_register :: "Serde \<Rightarrow> 's Traits \<Rightarrow> ServerPolicy \<Rightarrow> string \<Rightarrow> Value \<Rightarrow> ('s, Value) rpc" where
  "serve_backend_register D T P i v =
     bind (of_result (decode_protocol_exact (from_BackendRegisterParams D) brpar_protocol_version i v
             GENERIC_BACKEND_PROTOCOL_VERSION)) (\<lambda>p.
     bind (ok_or (configured_local_backend P (brpar_wallet_instance_id p))
             (JsonRpcErrorResponse_new i backend_not_allowed)) (\<lambda>cfg.
     bind (of_result (case validate_generic_backend_registration D cfg p of
             Inl e \<Rightarrow> Inl (JsonRpcErrorResponse_new i e) | Inr u \<Rightarrow> Inr u)) (\<lambda>_.
     bind (expect_response (handle_dispatch T (CmdRegisterBackend (backend_registration p)))
             (project_response D ExpectAck)) (\<lambda>_.
     reply_value D (ReplyBackendRegistered \<lparr>brr_wallet_instance_id = brpar_wallet_instance_id p,
       brr_daemon_protocol_version = GENERIC_BACKEND_PROTOCOL_VERSION, brr_accepted = True\<rparr>)))))"

definition serve_backend_heartbeat :: "Serde \<Rightarrow> 's Traits \<Rightarrow> ServerPolicy \<Rightarrow> string \<Rightarrow> Value \<Rightarrow> ('s, Value) rpc" where
  "serve_backend_heartbeat D T P i v =
     bind (of_result (decode_protocol_exact (from_BackendHeartbeatParams D) bhpar_protocol_version i v
             GENERIC_BACKEND_PROTOCOL_VERSION)) (\<lambda>p.
     if configured_local_backend P (bhpar_wallet_instance_id p) = None
     then err (JsonRpcErrorResponse_new i backend_not_allowed)
     else call D T ExpectAck (CmdHeartbeatBackend
       \<lparr>hbc_wallet_instance_id = bhpar_wallet_instance_id p, hbc_presented_request_ids = bhpar_presented_request_ids p,
        hbc_lock_state = bhpar_lock_state p\<rparr>))"

definition serve_backend_update_accounts :: "Serde \<Rightarrow> 's Traits \<Rightarrow> ServerPolicy \<Rightarrow> string \<Rightarrow> Value \<Rightarrow> ('s, Value) rpc" where
  "serve_backend_update_accounts D T P i v =
     bind (of_result (decode_protocol_exact (from_BackendUpdateAccountsParams D) buapar_protocol_version i v
             GENERIC_BACKEND_PROTOCOL_VERSION)) (\<lambda>p.
     bind (ok_or (configured_local_backend P (buapar_wallet_instance_id p))
             (JsonRpcErrorResponse_new i backend_not_allowed)) (\<lambda>cfg.
     bind (of_result (case validate_local_backend_capabilities cfg (buapar_capabilities p) of
             Inl e \<Rightarrow> Inl (JsonRpcErrorResponse_new i e) | Inr u \<Rightarrow> Inr u)) (\<lambda>_.
     call D T ExpectAck (CmdUpdateBackendAccounts
       \<lparr>uba_wallet_instance_id = buapar_wallet_instance_id p, uba_lock_state = buapar_lock_state p,
        uba_capabilities = canonical_capabilities (buapar_capabilities p),
        uba_accounts = map (backend_account_to_wallet_account (buapar_wallet_instance_id p)) (buapar_accounts p)\<rparr>))))"

definition serve_pull_next :: "Serde \<Rightarrow> 's Traits \<Rightarrow> string \<Rightarrow> Value \<Rightarrow> ('s, Value) rpc" where
  "serve_pull_next D T i v =
     bind (of_result (decode_protocol_one_of (from_RequestPullNextParams D) rpnpar_protocol_version i v both_versions)) (\<lambda>p.
     call D T ExpectPullNextRequest (CmdPullNextRequest (rpnpar_wallet_instance_id p)))"

definition serve_presented :: "Serde \<Rightarrow> 's Traits \<Rightarrow> string \<Rightarrow> Value \<Rightarrow> ('s, Value) rpc" where
  "serve_presented D T i v =
     bind (of_result (decode_protocol_one_of (from_RequestPresentedParams D) rppar_protocol_version i v both_versions)) (\<lambda>p.
     call D T ExpectPresented (CmdMarkRequestPresented
       \<lparr>mrp_request_id = rppar_request_id p, mrp_wallet_instance_id = rppar_wallet_instance_id p,
        mrp_delivery_lease_id = rppar_delivery_lease_id p, mrp_presentation_id = rppar_presentation_id p\<rparr>))"

definition serve_resolve :: "Serde \<Rightarrow> 's Traits \<Rightarrow> string \<Rightarrow> Value \<Rightarrow> ('s, Value) rpc" where
  "serve_resolve D T i v =
     bind (of_result (decode_protocol_one_of (from_RequestResolveParams D) rrpar_protocol_version i v both_versions)) (\<lambda>p.
     bind (of_result (case request_result_from_params p of
             Inl e \<Rightarrow> Inl (JsonRpcErrorResponse_new i e) | Inr r \<Rightarrow> Inr r)) (\<lambda>r.
     call D T ExpectResolved (CmdResolveRequest
       \<lparr>res_request_id = rrpar_request_id p, res_wallet_instance_id = rrpar_wallet_instance_id p,
        res_presentation_id = rrpar_presentation_id p, res_result = r\<rparr>)))"

definition serve_reject :: "Serde \<Rightarrow> 's Traits \<Rightarrow> string \<Rightarrow> Value \<Rightarrow> ('s, Value) rpc" where
  "serve_reject D T i v =
     bind (of_result (decode_protocol_one_of (from_RequestRejectParams D) rjpar_protocol_version i v both_versions)) (\<lambda>p.
     call D T ExpectRejected (CmdRejectRequest
       \<lparr>rej_request_id = rjpar_request_id p, rej_wallet_instance_id = rjpar_wallet_instance_id p,
        rej_presentation_id = rjpar_presentation_id p, rej_reason_code = rjpar_reason_code p,
        rej_message = rjpar_reason_message p\<rparr>))"

section \<open>Dispatching a request\<close>

definition dispatch_method :: "Serde \<Rightarrow> 's Traits \<Rightarrow> ServerPolicy \<Rightarrow> string \<Rightarrow> string \<Rightarrow> Value \<Rightarrow> ('s, Value) rpc" where
  "dispatch_method D T P i m v =
     (if m = ''system.ping'' then serve_system_ping D T i v
      else if m = ''system.getInfo'' then serve_system_get_info D T i v
      else if m = ''wallet.status'' then serve_wallet_status D T i v
      else if m = ''wallet.listInstances'' then serve_wallet_list_instances D T i v
      else if m = ''wallet.listAccounts'' then serve_wallet_list_accounts D T i v
      else if m = ''wallet.getPublicKey'' then serve_wallet_get_public_key D T i v
      else if m = ''wallet.setAccountLabel'' then serve_wallet_set_account_label D T i v
      else if m = ''request.createAccount'' then serve_create_account D T i v
      else if m = ''request.createExportAccount'' then serve_create_export_account D T i v
      else if m = ''request.createImportAccount'' then serve_create_import_account D T i v
      else if m = ''request.createSignTransaction'' then serve_create_sign_transaction D T i v
      else if m = ''request.createSignMessage'' then serve_create_sign_message D T i v
      else if m = ''request.getStatus'' then serve_get_status D T i v
      else if m = ''request.hasAvailable'' then serve_has_available D T i v
      else if m = ''request.cancel'' then serve_cancel D T i v
      else if m = ''extension.register'' then serve_extension_register D T P i v
      else if m = ''extension.heartbeat'' then serve_extension_heartbeat D T i v
      else if m = ''extension.updateAccounts'' then serve_extension_update_accounts D T i v
      else if m = ''backend.register'' then serve_backend_register D T P i v
      else if m = ''backend.heartbeat'' then serve_backend_heartbeat D T P i v
      else if m = ''backend.updateAccounts'' then serve_backend_update_accounts D T P i v
      else if m = ''request.pullNext'' then serve_pull_next D T i v
      else if m = ''request.presented'' then serve_presented D T i v
      else if m = ''request.resolve'' then serve_resolve D T i v
      else if m = ''request.reject'' then serve_reject D T i v
      else err (JsonRpcErrorResponse_new i
        (with_retryable (SharedError_new UnsupportedOperation (''Unsupported daemon method: '' @ m)) False)))"

definition dispatch_request :: "Serde \<Rightarrow> 's Traits \<Rightarrow> ServerPolicy \<Rightarrow> Value JsonRpcRequest \<Rightarrow> ('s, Value JsonRpcResponse) rpc" where
  "dispatch_request D T P req =
     bind (dispatch_method D T P (rpc_id req) (rpc_method req) (rpc_params req)) (\<lambda>v.
     ok (RpcSuccess (JsonRpcSuccess_new (rpc_id req) v)))"

section \<open>Connections\<close>

definition MAX_REQUEST_BYTES :: nat where "MAX_REQUEST_BYTES = 1024 * 1024"

text \<open>
  What reading the socket may bring: a chunk of at most 8192 bytes, a failure, or nothing within
  \<open>REQUEST_READ_TIMEOUT\<close>; the end of the list, or an empty chunk, is the end of the stream.
\<close>

datatype ReadEvent = Chunk string | ReadFailure string | ReadTimeout

fun read_loop :: "string \<Rightarrow> ReadEvent list \<Rightarrow> string anyhow" where
  "read_loop bytes [] = Inr bytes"
| "read_loop bytes (ReadFailure e # _) = Inl e"
| "read_loop bytes (ReadTimeout # _) = Inl ''timed out waiting for daemon rpc request''"
| "read_loop bytes (Chunk chunk # events) =
     (if chunk = [] then Inr bytes
      else if MAX_REQUEST_BYTES < length bytes + length chunk
      then Inl ''daemon rpc request exceeds 1048576 bytes''
      else read_loop (bytes @ chunk) events)"

definition read_request_bytes :: "ReadEvent list \<Rightarrow> string anyhow" where
  "read_request_bytes events = read_loop [] events"

text \<open>
  A connection answers at most once: \<open>Inr None\<close> for an empty request, \<open>Inr (Some bytes)\<close> for the
  bytes written, \<open>Inl\<close> for what \<open>run_unix_server\<close> logs.
\<close>

definition handle_connection ::
  "Serde \<Rightarrow> 's Traits \<Rightarrow> ServerPolicy \<Rightarrow> ReadEvent list \<Rightarrow> ('s Runtime, string, string option) fallible" where
  "handle_connection D T P events =
     bind (of_result (read_request_bytes events)) (\<lambda>bytes.
     if bytes = [] then ok None
     else
       bind (of_result (request_from_slice D bytes)) (\<lambda>req.
       bind (\<lambda>s. case dispatch_request D T P req s of
               (Inl e, s') \<Rightarrow> (Inr (RpcError e), s') | (Inr r, s') \<Rightarrow> (Inr r, s')) (\<lambda>response.
       bind (of_result (response_to_vec D response)) (\<lambda>encoded.
       ok (Some encoded)))))"

end
