(* ===== verification/Server_Rules.thy ===== *)
theory Server_Rules
  imports Server Coordinator_Rules
begin

text \<open>
  What a served request does: it is refused and the coordinator stays as it was, or it is exactly one
  command the policy authorises, and its reply is the command's result. The rules in \<open>serve_rules\<close>
  follow the shape of the handlers.
\<close>

section \<open>Authorised commands\<close>

text \<open>
  Registration needs an allowlisted extension or a configured local backend that announces itself as
  configured; heartbeats and account updates of a local backend need the backend to be configured;
  maintenance and the direct registration of an extension cannot be asked for.
\<close>

definition extension_authorized :: "ServerPolicy \<Rightarrow> RegisterBackendCommand \<Rightarrow> bool" where
  "extension_authorized P b \<longleftrightarrow>
     (\<exists>cfg. ExtensionBackend cfg \<in> set (sp_wallet_backends P) \<and> rbc_extension_id b \<in> set (se_allowed_extension_ids cfg)) \<and>
     rbc_backend_kind b = StarmaskExtension \<and> rbc_transport_kind b = NativeMessaging \<and>
     rbc_approval_surface b = BrowserUi \<and>
     set (rbc_capabilities b) \<subseteq> {GetPublicKeyCap, SignMessageCap, SignTransactionCap} \<and>
     rbc_protocol_version b = DAEMON_PROTOCOL_VERSION"

definition local_configured :: "ServerPolicy \<Rightarrow> WalletInstanceId \<Rightarrow> LocalAccountDirBackendConfig \<Rightarrow> bool" where
  "local_configured P w cfg \<longleftrightarrow> LocalBackend cfg \<in> set (sp_wallet_backends P) \<and> cb_backend_id (la_common cfg) = w"

definition local_authorized :: "ServerPolicy \<Rightarrow> RegisterBackendCommand \<Rightarrow> bool" where
  "local_authorized P b \<longleftrightarrow>
     (\<exists>cfg. local_configured P (rbc_wallet_instance_id b) cfg \<and>
        rbc_approval_surface b = cb_approval_surface (la_common cfg)) \<and>
     rbc_backend_kind b = LocalAccountDir \<and> rbc_transport_kind b = LocalSocket \<and> nonblank (rbc_instance_label b) \<and>
     is_object (rbc_backend_metadata b) \<and> rbc_protocol_version b = GENERIC_BACKEND_PROTOCOL_VERSION"

fun authorized :: "ServerPolicy \<Rightarrow> CoordinatorCommand \<Rightarrow> bool" where
  "authorized P (CmdRegisterBackend b) \<longleftrightarrow> extension_authorized P b \<or> local_authorized P b"
| "authorized P (CmdHeartbeatBackend h) \<longleftrightarrow> (\<exists>cfg. local_configured P (hbc_wallet_instance_id h) cfg)"
| "authorized P (CmdUpdateBackendAccounts u) \<longleftrightarrow> (\<exists>cfg. local_configured P (uba_wallet_instance_id u) cfg)"
| "authorized P (CmdRegisterExtension _) \<longleftrightarrow> False"
| "authorized P CmdTickMaintenance \<longleftrightarrow> False"
| "authorized P _ \<longleftrightarrow> True"

lemma find_SomeD: "find Q xs = Some x \<Longrightarrow> x \<in> set xs \<and> Q x"
  by (induction xs) (auto split: if_splits)

lemma accepts_extension_SomeD:
  assumes "accepts_extension P x = Some cfg"
  shows "ExtensionBackend cfg \<in> set (sp_wallet_backends P) \<and> x \<in> set (se_allowed_extension_ids cfg)"
proof -
  from find_SomeD [OF assms [unfolded accepts_extension_def]]
  have "cfg \<in> set (List.map_filter as_extension (sp_wallet_backends P))" "x \<in> set (se_allowed_extension_ids cfg)"
    by blast+
  then show ?thesis
    by (auto simp: List.map_filter_def elim: as_extension.elims)
qed

lemma configured_local_backend_SomeD:
  assumes "configured_local_backend P w = Some cfg" shows "local_configured P w cfg"
  using assms
  by (auto simp: configured_local_backend_def configured_backend_def local_configured_def bind_eq_Some_conv backend_id_def
      dest!: find_SomeD elim!: as_local_account_dir.elims)

text \<open>In a configuration without clashes the first backend that fits is the only one.\<close>

lemma accepts_extension_unique:
  assumes "distinct (concat (map extension_ids_of (sp_wallet_backends P)))"
    and "ExtensionBackend cfg \<in> set (sp_wallet_backends P)" "x \<in> set (se_allowed_extension_ids cfg)"
  shows "accepts_extension P x = Some cfg"
proof -
  have "distinct (concat (map extension_ids_of bs)) \<Longrightarrow> ExtensionBackend cfg \<in> set bs \<Longrightarrow>
      find (\<lambda>b. x \<in> set (se_allowed_extension_ids b)) (List.map_filter as_extension bs) = Some cfg" for bs
  proof (induction bs)
    case (Cons b bs)
    have "ExtensionBackend cfg \<in> set bs \<Longrightarrow> x \<in> (\<Union>a\<in>set bs. set (extension_ids_of a))"
      using assms(3) by force
    with Cons assms(3) show ?case by (cases b) (auto simp: List.map_filter_def)
  qed simp
  with assms(1,2) show ?thesis by (simp add: accepts_extension_def)
qed

lemma configured_local_backend_unique:
  assumes "distinct (map backend_id (sp_wallet_backends P))" "local_configured P w cfg"
  shows "configured_local_backend P w = Some cfg"
proof -
  have "distinct (map backend_id bs) \<Longrightarrow> b \<in> set bs \<Longrightarrow> find (\<lambda>b'. backend_id b' = backend_id b) bs = Some b" for bs b
    by (induction bs) auto
  from this [OF assms(1), of "LocalBackend cfg"] assms(2) show ?thesis
    by (simp add: local_configured_def configured_local_backend_def configured_backend_def backend_id_def)
qed

section \<open>Replies\<close>

fun expected_for :: "CoordinatorCommand \<Rightarrow> Expected" where
  "expected_for CmdSystemPing = ExpectSystemPing"
| "expected_for CmdSystemGetInfo = ExpectSystemInfo"
| "expected_for CmdWalletStatus = ExpectWalletStatus"
| "expected_for (CmdWalletListInstances _) = ExpectWalletInstances"
| "expected_for (CmdWalletListAccounts _ _) = ExpectWalletAccounts"
| "expected_for (CmdWalletGetPublicKey _ _) = ExpectWalletPublicKey"
| "expected_for (CmdWalletSetAccountLabel _) = ExpectWalletAccountLabelSet"
| "expected_for (CmdCreateAccount _) = ExpectRequestCreated"
| "expected_for (CmdCreateExportAccount _) = ExpectRequestCreated"
| "expected_for (CmdCreateImportAccount _) = ExpectRequestCreated"
| "expected_for (CmdCreateSignTransaction _) = ExpectRequestCreated"
| "expected_for (CmdCreateSignMessage _) = ExpectRequestCreated"
| "expected_for (CmdGetRequestStatus _) = ExpectRequestStatus"
| "expected_for (CmdRequestHasAvailable _) = ExpectRequestHasAvailable"
| "expected_for (CmdCancelRequest _) = ExpectRequestCancelled"
| "expected_for (CmdPullNextRequest _) = ExpectPullNextRequest"
| "expected_for (CmdMarkRequestPresented _) = ExpectPresented"
| "expected_for (CmdResolveRequest _) = ExpectResolved"
| "expected_for (CmdRejectRequest _) = ExpectRejected"
| "expected_for _ = ExpectAck"

text \<open>The reply of a registration names the protocol of its wallet; every other reply is the projected response.\<close>

definition registered_reply :: "RegisterBackendCommand \<Rightarrow> Reply" where
  "registered_reply b =
     (if rbc_backend_kind b = StarmaskExtension
      then ReplyExtensionRegistered \<lparr>exr_wallet_instance_id = rbc_wallet_instance_id b,
        exr_daemon_protocol_version = DAEMON_PROTOCOL_VERSION, exr_accepted = True\<rparr>
      else ReplyBackendRegistered \<lparr>brr_wallet_instance_id = rbc_wallet_instance_id b,
        brr_daemon_protocol_version = GENERIC_BACKEND_PROTOCOL_VERSION, brr_accepted = True\<rparr>)"

definition reply_for :: "Serde \<Rightarrow> CoordinatorCommand \<Rightarrow> CoordinatorResponse \<Rightarrow> Reply" where
  "reply_for D cmd r =
     (case cmd of CmdRegisterBackend b \<Rightarrow> registered_reply b | _ \<Rightarrow> projr (project_response D (expected_for cmd) r))"

definition encoded_reply :: "Serde \<Rightarrow> Reply \<Rightarrow> JsonRpcErrorResponse + Value" where
  "encoded_reply D r = (case to_value D r of Inl e \<Rightarrow> Inl (error_response None e) | Inr v \<Rightarrow> Inr v)"

definition reply_result :: "Serde \<Rightarrow> CoordinatorCommand \<Rightarrow> CoreError + CoordinatorResponse \<Rightarrow> JsonRpcErrorResponse + Value" where
  "reply_result D cmd res =
     (case res of Inl e \<Rightarrow> Inl (map_runtime_error (CoreFailure e)) | Inr r \<Rightarrow> encoded_reply D (reply_for D cmd r))"

text \<open>The coordinator answers every command in the kind the server expects, so no response is unexpected.\<close>

lemma dispatch_expected:
  assumes "dispatch T cmd c = (Inr r, c')" "cmd \<noteq> CmdTickMaintenance"
  shows "\<exists>x. project_response D (expected_for cmd) r = Inr x"
  using assms by (cases cmd) (auto simp: respond_def bind_def ok_def split: prod.splits sum.splits)

section \<open>Serving\<close>

definition refused :: "Serde \<Rightarrow> ServerPolicy \<Rightarrow> string \<Rightarrow> JsonRpcErrorResponse + Value \<Rightarrow> bool" where
  "refused D P i reply \<longleftrightarrow>
     (\<exists>e. reply = Inl e \<and> er_id e = i) \<or>
     (\<exists>p. accepts_extension P (erpar_extension_id p) = None \<and> reply = encoded_reply D (extension_registered p False))"

definition served :: "Serde \<Rightarrow> 's Traits \<Rightarrow> ServerPolicy \<Rightarrow> string \<Rightarrow> ('s, Value) rpc \<Rightarrow> 's Coordinator \<Rightarrow> bool" where
  "served D T P i m c \<longleftrightarrow>
     (\<exists>reply. m (Running c) = (reply, Running c) \<and> refused D P i reply) \<or>
     (\<exists>cmd res c'. authorized P cmd \<and> cmd_ok cmd \<and> dispatch T cmd c = (res, c') \<and>
        m (Running c) = (reply_result D cmd res, Running c'))"

named_theorems serve_rules "introduction rules for served handlers"

lemma served_decode [serve_rules]:
  assumes "\<And>p. r = Inr p \<Longrightarrow> served D T P i (f p) c" "\<And>e. r = Inl e \<Longrightarrow> er_id e = i"
  shows "served D T P i (bind (of_result r) f) c"
  using assms by (cases r) (auto simp: served_def bind_def of_result_def refused_def)

lemma served_err [serve_rules]: "er_id e = i \<Longrightarrow> served D T P i (err e) c"
  by (simp add: served_def err_def refused_def)

lemma served_if [serve_rules]:
  "(b \<Longrightarrow> served D T P i m c) \<Longrightarrow> (\<not> b \<Longrightarrow> served D T P i m' c) \<Longrightarrow> served D T P i (if b then m else m') c"
  by simp

lemma served_ok_or [serve_rules]:
  assumes "\<And>x. v = Some x \<Longrightarrow> served D T P i (f x) c" "er_id e = i"
  shows "served D T P i (bind (ok_or v e) f) c"
  using assms by (cases v) (auto intro: served_err)

lemma served_declined:
  "accepts_extension P (erpar_extension_id p) = None \<Longrightarrow>
   served D T P i (reply_value D (extension_registered p False)) c"
  by (auto simp: served_def reply_value_def encoded_reply_def of_result_def refused_def)

lemma served_call [serve_rules]:
  assumes "x = expected_for cmd" "authorized P cmd" "cmd_ok cmd" "\<And>b. cmd \<noteq> CmdRegisterBackend b"
  shows "served D T P i (call D T x cmd) c"
proof -
  obtain res c' where d: "dispatch T cmd c = (res, c')" by fastforce
  from assms(2) have "cmd \<noteq> CmdTickMaintenance" by auto
  with d dispatch_expected [of T cmd c _ c' D] obtain y where "res = Inr r \<Longrightarrow> project_response D x r = Inr y" for r
    using assms(1) by (cases res) auto
  moreover have "reply_for D cmd r = projr (project_response D x r)" for r
    using assms(1) assms(4) by (cases cmd) (auto simp: reply_for_def)
  ultimately have "call D T x cmd (Running c) = (reply_result D cmd res, Running c')"
    using d by (cases res)
      (simp_all add: call_def bind_def expect_response_def reply_result_def reply_value_def encoded_reply_def of_result_def)
  with d assms(2,3) show ?thesis by (auto simp: served_def)
qed

lemma served_register:
  assumes "authorized P (CmdRegisterBackend b)" "nonblank (rbc_wallet_instance_id b)" "y = registered_reply b"
  shows "served D T P i (bind (expect_response (handle_dispatch T (CmdRegisterBackend b)) (project_response D ExpectAck))
     (\<lambda>_. reply_value D y)) c"
proof -
  obtain res c' where d: "dispatch T (CmdRegisterBackend b) c = (res, c')" by fastforce
  with dispatch_expected [of T "CmdRegisterBackend b" c _ c' D]
  have "bind (expect_response (handle_dispatch T (CmdRegisterBackend b)) (project_response D ExpectAck))
     (\<lambda>_. reply_value D y) (Running c) = (reply_result D (CmdRegisterBackend b) res, Running c')"
    by (cases res)
      (auto simp: bind_def expect_response_def reply_result_def reply_for_def assms(3)
        reply_value_def encoded_reply_def of_result_def simp del: dispatch.simps project_response.simps)
  with d assms(1,2) show ?thesis unfolding served_def by (metis cmd_ok.simps(7))
qed

lemmas decode_defs = decode_protocol_def decode_protocol_exact_def decode_protocol_one_of_def

lemma decode_errors [simp]:
  "er_id (JsonRpcErrorResponse_new i e) = i" "er_id (error_response (Some i) m) = i"
  by (simp_all add: JsonRpcErrorResponse_new_def error_response_def)

lemma decode_exact_Inr:
  "decode_protocol_exact f ver i v n = Inr p \<longleftrightarrow> f v = Inr p \<and> ver p = n"
  "decode_protocol f ver i v = Inr p \<longleftrightarrow> f v = Inr p \<and> ver p = DAEMON_PROTOCOL_VERSION"
  "decode_protocol_one_of f ver i v ns = Inr p \<longleftrightarrow> f v = Inr p \<and> ver p \<in> set ns"
  by (auto simp: decode_defs split: sum.splits if_splits)

lemma decode_Inl:
  "decode_protocol_exact f ver i v n = Inl e \<Longrightarrow> er_id e = i"
  "decode_protocol f ver i v = Inl e \<Longrightarrow> er_id e = i"
  "decode_protocol_one_of f ver i v ns = Inl e \<Longrightarrow> er_id e = i"
  by (auto simp: decode_defs split: sum.splits if_splits)

lemma set_canonical_capabilities: "set (canonical_capabilities cs) = set cs"
  by (simp add: canonical_capabilities_def)

section \<open>Every method\<close>

lemma serve_plain:
  assumes "serde_ok D"
  shows "served D T P i (serve_system_ping D T i v) c" "served D T P i (serve_system_get_info D T i v) c"
    "served D T P i (serve_wallet_status D T i v) c" "served D T P i (serve_wallet_list_instances D T i v) c"
    "served D T P i (serve_wallet_list_accounts D T i v) c" "served D T P i (serve_wallet_get_public_key D T i v) c"
    "served D T P i (serve_wallet_set_account_label D T i v) c" "served D T P i (serve_create_account D T i v) c"
    "served D T P i (serve_create_export_account D T i v) c" "served D T P i (serve_create_import_account D T i v) c"
    "served D T P i (serve_create_sign_transaction D T i v) c" "served D T P i (serve_create_sign_message D T i v) c"
    "served D T P i (serve_get_status D T i v) c" "served D T P i (serve_has_available D T i v) c"
    "served D T P i (serve_cancel D T i v) c" "served D T P i (serve_extension_heartbeat D T i v) c"
    "served D T P i (serve_extension_update_accounts D T i v) c" "served D T P i (serve_pull_next D T i v) c"
    "served D T P i (serve_presented D T i v) c" "served D T P i (serve_reject D T i v) c"
  unfolding serve_system_ping_def serve_system_get_info_def serve_wallet_status_def serve_wallet_list_instances_def
    serve_wallet_list_accounts_def serve_wallet_get_public_key_def serve_wallet_set_account_label_def
    serve_create_account_def serve_create_export_account_def serve_create_import_account_def
    serve_create_sign_transaction_def serve_create_sign_message_def serve_get_status_def serve_has_available_def
    serve_cancel_def serve_extension_heartbeat_def serve_extension_update_accounts_def serve_pull_next_def
    serve_presented_def serve_reject_def
  using assms
  by (auto intro!: serve_rules dest: decode_Inl simp: decode_exact_Inr serde_ok_def)

lemma serve_resolve_served: "served D T P i (serve_resolve D T i v) c"
  unfolding serve_resolve_def
  by (auto intro!: serve_rules dest: decode_Inl split: sum.splits)

lemma serve_extension_register_served:
  assumes "serde_ok D" shows "served D T P i (serve_extension_register D T P i v) c"
  unfolding serve_extension_register_def
proof (rule serve_rules)
  fix p assume p: "decode_protocol (from_ExtensionRegisterParams D) erpar_protocol_version i v = Inr p"
  show "served D T P i (case accepts_extension P (erpar_extension_id p) of
       None \<Rightarrow> reply_value D (extension_registered p False)
     | Some cfg \<Rightarrow> bind (expect_response (handle_dispatch T (CmdRegisterBackend (extension_registration cfg p)))
           (project_response D ExpectAck)) (\<lambda>_. reply_value D (extension_registered p True))) c"
  proof (cases "accepts_extension P (erpar_extension_id p)")
    case None
    then show ?thesis by (simp add: served_declined)
  next
    case (Some cfg)
    with accepts_extension_SomeD [OF Some] p assms show ?thesis
      by (auto intro!: served_register simp: decode_exact_Inr extension_authorized_def extension_registration_def
          Let_def registered_reply_def extension_registered_def serde_ok_def)
  qed
qed (simp add: decode_Inl)

lemma validate_generic_backend_registration_Inr:
  assumes "validate_generic_backend_registration D cfg p = Inr u"
  shows "brpar_backend_kind p = LocalAccountDir \<and> brpar_transport_kind p = LocalSocket \<and>
    brpar_approval_surface p = cb_approval_surface (la_common cfg) \<and> nonblank (brpar_instance_label p) \<and>
    is_object (brpar_backend_metadata p)"
  using assms by (auto simp: validate_generic_backend_registration_def nonblank_def split: if_splits)

lemma serve_backend_served:
  assumes "serde_ok D"
  shows "served D T P i (serve_backend_register D T P i v) c"
    and "served D T P i (serve_backend_heartbeat D T P i v) c"
    and "served D T P i (serve_backend_update_accounts D T P i v) c"
proof -
  show "served D T P i (serve_backend_register D T P i v) c"
    unfolding serve_backend_register_def using assms
    by (auto intro!: serve_rules served_register dest!: decode_Inl configured_local_backend_SomeD
        validate_generic_backend_registration_Inr split: sum.splits
        simp: decode_exact_Inr local_authorized_def backend_registration_def registered_reply_def serde_ok_def)
  show "served D T P i (serve_backend_heartbeat D T P i v) c"
    unfolding serve_backend_heartbeat_def
    by (auto intro!: serve_rules dest!: decode_Inl configured_local_backend_SomeD simp: decode_exact_Inr)
  show "served D T P i (serve_backend_update_accounts D T P i v) c"
    unfolding serve_backend_update_accounts_def
    by (auto intro!: serve_rules dest!: decode_Inl configured_local_backend_SomeD split: sum.splits simp: decode_exact_Inr)
qed

lemma dispatch_method_served:
  assumes "serde_ok D" shows "served D T P i (dispatch_method D T P i m v) c"
  unfolding dispatch_method_def
  by (intro served_if serve_plain serve_resolve_served serve_extension_register_served serve_backend_served served_err assms)
    simp

lemma dispatch_request_served:
  assumes "serde_ok D" "dispatch_request D T P req (Running c) = (reply, s')"
  obtains (refused) r where "s' = Running c" "refused D P (rpc_id req) r"
      "reply = map_sum id (\<lambda>v. RpcSuccess (JsonRpcSuccess_new (rpc_id req) v)) r"
    | (command) cmd res c' where "authorized P cmd" "cmd_ok cmd" "dispatch T cmd c = (res, c')" "s' = Running c'"
      "reply = map_sum id (\<lambda>v. RpcSuccess (JsonRpcSuccess_new (rpc_id req) v)) (reply_result D cmd res)"
proof -
  let ?m = "dispatch_method D T P (rpc_id req) (rpc_method req) (rpc_params req)"
  obtain r s where m: "?m (Running c) = (r, s)" by fastforce
  with assms(2) have eq: "reply = map_sum id (\<lambda>v. RpcSuccess (JsonRpcSuccess_new (rpc_id req) v)) r" "s' = s"
    by (cases r; simp add: dispatch_request_def bind_def ok_def)+
  from dispatch_method_served [OF assms(1), of T P "rpc_id req" "rpc_method req" "rpc_params req" c] m eq that
  show thesis by (auto simp: served_def)
qed

end
