(* ===== verification/Native_Bridge.thy ===== *)
theory Native_Bridge
  imports Server
begin

text \<open>
  The native messaging bridge (\<open>starmask-native-host/src/bridge.rs\<close>, messages in
  \<open>starmask-types/src/native_bridge.rs\<close>): it answers each message of the extension by one call to the
  daemon at most. The daemon client is the record \<open>DaemonRpc\<close> of the trait's methods (\<open>client.rs\<close>).
\<close>

section \<open>Messages\<close>

record BridgeExtensionRegister =
  ner_protocol_version :: u32
  ner_wallet_instance_id :: WalletInstanceId
  ner_extension_id :: string
  ner_extension_version :: string
  ner_profile_hint :: "string option"
  ner_lock_state :: LockState
  ner_accounts_summary :: "NativeBridgeAccount list"

record BridgeExtensionHeartbeat =
  neh_wallet_instance_id :: WalletInstanceId
  neh_presented_request_ids :: "RequestId list"

record BridgeExtensionUpdateAccounts =
  neu_wallet_instance_id :: WalletInstanceId
  neu_lock_state :: LockState
  neu_accounts :: "NativeBridgeAccount list"

record BridgeRequestPresented =
  nrp_wallet_instance_id :: WalletInstanceId
  nrp_request_id :: RequestId
  nrp_delivery_lease_id :: "DeliveryLeaseId option"
  nrp_presentation_id :: PresentationId

record RequestResolveValidationInput =
  rvi_wallet_instance_id :: WalletInstanceId
  rvi_request_id :: RequestId
  rvi_presentation_id :: PresentationId
  rvi_result_kind :: ResultKind
  rvi_signed_txn_bcs_hex :: "string option"
  rvi_signature :: "string option"
  rvi_created_account_address :: "string option"
  rvi_created_account_public_key :: "string option"
  rvi_created_account_curve :: "Curve option"
  rvi_created_account_is_default :: "bool option"
  rvi_created_account_is_locked :: "bool option"
  rvi_exported_account_address :: "string option"
  rvi_exported_account_output_file :: "string option"
  rvi_imported_account_address :: "string option"
  rvi_imported_account_public_key :: "string option"
  rvi_imported_account_curve :: "Curve option"
  rvi_imported_account_is_default :: "bool option"
  rvi_imported_account_is_locked :: "bool option"

record BridgeRequestReject =
  nrj_wallet_instance_id :: WalletInstanceId
  nrj_request_id :: RequestId
  nrj_presentation_id :: "PresentationId option"
  nrj_reason_code :: RejectReasonCode
  nrj_reason_message :: "string option"

record BridgeRequestNext =
  nrn_request_id :: RequestId
  nrn_client_request_id :: ClientRequestId
  nrn_kind :: RequestKind
  nrn_account_address :: string
  nrn_payload_hash :: PayloadHash
  nrn_display_hint :: "string option"
  nrn_client_context :: "string option"
  nrn_resume_required :: bool
  nrn_delivery_lease_id :: "DeliveryLeaseId option"
  nrn_lease_expires_at :: "TimestampMs option"
  nrn_presentation_id :: "PresentationId option"
  nrn_presentation_expires_at :: "TimestampMs option"
  nrn_raw_txn_bcs_hex :: "string option"
  nrn_message :: "string option"
  nrn_message_format :: "MessageFormat option"
  nrn_output_file :: "string option"
  nrn_force :: bool
  nrn_private_key_file :: "string option"

datatype NativeBridgeRequest =
  NbExtensionRegister (message_id: string) BridgeExtensionRegister
  | NbExtensionHeartbeat (message_id: string) BridgeExtensionHeartbeat
  | NbExtensionUpdateAccounts (message_id: string) BridgeExtensionUpdateAccounts
  | NbRequestPullNext (message_id: string) WalletInstanceId
  | NbRequestPresented (message_id: string) BridgeRequestPresented
  | NbRequestResolve (message_id: string) RequestResolveValidationInput
  | NbRequestReject (message_id: string) BridgeRequestReject

datatype NativeBridgeResponse =
  NbExtensionRegistered string WalletInstanceId u32 bool
  | NbExtensionAck string
  | NbRequestAvailable WalletInstanceId
  | NbRequestNext string BridgeRequestNext
  | NbRequestNone string WalletInstanceId
  | NbRequestCancelled WalletInstanceId RequestId
  | NbExtensionError "string option" SharedErrorCode string "bool option"

definition NATIVE_BRIDGE_PROTOCOL_VERSION :: u32 where "NATIVE_BRIDGE_PROTOCOL_VERSION = 2"

section \<open>The daemon client\<close>

record 'w DaemonRpc =
  rpc_extension_register :: "ExtensionRegisterParams \<Rightarrow> ('w, SharedError, ExtensionRegisteredResult) fallible"
  rpc_extension_heartbeat :: "ExtensionHeartbeatParams \<Rightarrow> ('w, SharedError, AckResult) fallible"
  rpc_extension_update_accounts :: "ExtensionUpdateAccountsParams \<Rightarrow> ('w, SharedError, AckResult) fallible"
  rpc_request_pull_next :: "RequestPullNextParams \<Rightarrow> ('w, SharedError, PullNextRequestResult) fallible"
  rpc_request_has_available :: "RequestHasAvailableParams \<Rightarrow> ('w, SharedError, RequestHasAvailableResult) fallible"
  rpc_get_request_status :: "GetRequestStatusParams \<Rightarrow> ('w, SharedError, GetRequestStatusResult) fallible"
  rpc_request_presented :: "RequestPresentedParams \<Rightarrow> ('w, SharedError, AckResult) fallible"
  rpc_request_resolve :: "RequestResolveParams \<Rightarrow> ('w, SharedError, AckResult) fallible"
  rpc_request_reject :: "RequestRejectParams \<Rightarrow> ('w, SharedError, AckResult) fallible"

definition daemon_protocol_version :: u32 where "daemon_protocol_version = DAEMON_PROTOCOL_VERSION"

section \<open>Validating a result\<close>

definition request_resolve_payload_error :: "string \<Rightarrow> SharedError" where
  "request_resolve_payload_error m = with_retryable (SharedError_new InternalBridgeError m) False"

definition is_set :: "string option \<Rightarrow> bool" where
  "is_set v = (case v of None \<Rightarrow> False | Some s \<Rightarrow> trim s \<noteq> [])"

definition has_created_account_fields :: "RequestResolveValidationInput \<Rightarrow> bool" where
  "has_created_account_fields input \<longleftrightarrow>
     rvi_created_account_address input \<noteq> None \<or> rvi_created_account_public_key input \<noteq> None \<or>
     rvi_created_account_curve input \<noteq> None \<or> rvi_created_account_is_default input \<noteq> None \<or>
     rvi_created_account_is_locked input \<noteq> None"

definition has_exported_account_fields :: "RequestResolveValidationInput \<Rightarrow> bool" where
  "has_exported_account_fields input \<longleftrightarrow>
     rvi_exported_account_address input \<noteq> None \<or> rvi_exported_account_output_file input \<noteq> None"

definition has_imported_account_fields :: "RequestResolveValidationInput \<Rightarrow> bool" where
  "has_imported_account_fields input \<longleftrightarrow>
     rvi_imported_account_address input \<noteq> None \<or> rvi_imported_account_public_key input \<noteq> None \<or>
     rvi_imported_account_curve input \<noteq> None \<or> rvi_imported_account_is_default input \<noteq> None \<or>
     rvi_imported_account_is_locked input \<noteq> None"

text \<open>The \<open>match\<close> on the result kind: the first check that fails, if any.\<close>

definition resolve_input_error :: "RequestResolveValidationInput \<Rightarrow> string option" where
  "resolve_input_error input =
     (let account_fields = has_created_account_fields input \<or> has_exported_account_fields input \<or> has_imported_account_fields input
      in case rvi_result_kind input of
        SignedTransaction \<Rightarrow>
          if \<not> is_set (rvi_signed_txn_bcs_hex input) then Some ''signed_txn_bcs_hex is required for signed_transaction''
          else if rvi_signature input \<noteq> None then Some ''signature must be omitted for signed_transaction''
          else if account_fields then Some ''account result fields must be omitted for signed_transaction''
          else None
      | SignedMessage \<Rightarrow>
          if \<not> is_set (rvi_signature input) then Some ''signature is required for signed_message''
          else if rvi_signed_txn_bcs_hex input \<noteq> None then Some ''signed_txn_bcs_hex must be omitted for signed_message''
          else if account_fields then Some ''account result fields must be omitted for signed_message''
          else None
      | CreatedAccount \<Rightarrow>
          if rvi_signed_txn_bcs_hex input \<noteq> None \<or> rvi_signature input \<noteq> None
          then Some ''signed_transaction and signed_message payloads must be omitted for created_account''
          else if \<not> is_set (rvi_created_account_address input) \<or> \<not> is_set (rvi_created_account_public_key input) \<or>
             rvi_created_account_curve input = None \<or> rvi_created_account_is_default input = None \<or>
             rvi_created_account_is_locked input = None
          then Some ''created_account requires address, public_key, curve, is_default, and is_locked''
          else if has_exported_account_fields input \<or> has_imported_account_fields input
          then Some ''non-created account result fields must be omitted for created_account''
          else None
      | ExportedAccount \<Rightarrow>
          if rvi_signed_txn_bcs_hex input \<noteq> None \<or> rvi_signature input \<noteq> None
          then Some ''signed_transaction and signed_message payloads must be omitted for exported_account''
          else if has_created_account_fields input \<or> has_imported_account_fields input
          then Some ''non-exported account result fields must be omitted for exported_account''
          else if \<not> is_set (rvi_exported_account_address input) \<or> \<not> is_set (rvi_exported_account_output_file input)
          then Some ''exported_account requires address and output_file''
          else None
      | ImportedAccount \<Rightarrow>
          if rvi_signed_txn_bcs_hex input \<noteq> None \<or> rvi_signature input \<noteq> None
          then Some ''signed_transaction and signed_message payloads must be omitted for imported_account''
          else if has_created_account_fields input \<or> has_exported_account_fields input
          then Some ''non-imported account result fields must be omitted for imported_account''
          else if \<not> is_set (rvi_imported_account_address input) \<or> \<not> is_set (rvi_imported_account_public_key input) \<or>
             rvi_imported_account_curve input = None \<or> rvi_imported_account_is_default input = None \<or>
             rvi_imported_account_is_locked input = None
          then Some ''imported_account requires address, public_key, curve, is_default, and is_locked''
          else None
      | NoResult \<Rightarrow> Some ''result_kind none is not valid for request.resolve'')"

definition resolve_params :: "RequestResolveValidationInput \<Rightarrow> RequestResolveParams" where
  "resolve_params input =
     \<lparr>rrpar_protocol_version = daemon_protocol_version,
      rrpar_wallet_instance_id = rvi_wallet_instance_id input, rrpar_request_id = rvi_request_id input,
      rrpar_presentation_id = rvi_presentation_id input, rrpar_result_kind = rvi_result_kind input,
      rrpar_signed_txn_bcs_hex = rvi_signed_txn_bcs_hex input, rrpar_signature = rvi_signature input,
      rrpar_created_account_address = rvi_created_account_address input,
      rrpar_created_account_public_key = rvi_created_account_public_key input,
      rrpar_created_account_curve = rvi_created_account_curve input,
      rrpar_created_account_is_default = rvi_created_account_is_default input,
      rrpar_created_account_is_locked = rvi_created_account_is_locked input,
      rrpar_exported_account_address = rvi_exported_account_address input,
      rrpar_exported_account_output_file = rvi_exported_account_output_file input,
      rrpar_imported_account_address = rvi_imported_account_address input,
      rrpar_imported_account_public_key = rvi_imported_account_public_key input,
      rrpar_imported_account_curve = rvi_imported_account_curve input,
      rrpar_imported_account_is_default = rvi_imported_account_is_default input,
      rrpar_imported_account_is_locked = rvi_imported_account_is_locked input\<rparr>"

definition validate_request_resolve_params :: "RequestResolveValidationInput \<Rightarrow> SharedError + RequestResolveParams" where
  "validate_request_resolve_params input =
     (case resolve_input_error input of
        Some m \<Rightarrow> Inl (request_resolve_payload_error m)
      | None \<Rightarrow> Inr (resolve_params input))"

section \<open>Handling a message\<close>

definition shared_error_response :: "string option \<Rightarrow> SharedError \<Rightarrow> NativeBridgeResponse" where
  "shared_error_response reply_to e = NbExtensionError reply_to (code e) (message e) (retryable e)"

definition bridge_next :: "PulledRequest \<Rightarrow> BridgeRequestNext" where
  "bridge_next p =
     \<lparr>nrn_request_id = pr_request_id p, nrn_client_request_id = pr_client_request_id p,
      nrn_kind = pr_kind p, nrn_account_address = pr_account_address p,
      nrn_payload_hash = pr_payload_hash p, nrn_display_hint = pr_display_hint p,
      nrn_client_context = pr_client_context p, nrn_resume_required = pr_resume_required p,
      nrn_delivery_lease_id = pr_delivery_lease_id p, nrn_lease_expires_at = pr_lease_expires_at p,
      nrn_presentation_id = pr_presentation_id p,
      nrn_presentation_expires_at = pr_presentation_expires_at p,
      nrn_raw_txn_bcs_hex = pr_raw_txn_bcs_hex p, nrn_message = pr_message p,
      nrn_message_format = pr_message_format p, nrn_output_file = pr_output_file p,
      nrn_force = pr_force p, nrn_private_key_file = pr_private_key_file p\<rparr>"

text \<open>\<open>Result::map\<close> on a call.\<close>

definition map_call :: "('a \<Rightarrow> 'b) \<Rightarrow> ('w, 'e, 'a) fallible \<Rightarrow> ('w, 'e, 'b) fallible" where
  "map_call f m = bind m (\<lambda>x. ok (f x))"

fun bridge_call :: "'w DaemonRpc \<Rightarrow> NativeBridgeRequest \<Rightarrow> ('w, SharedError, NativeBridgeResponse) fallible" where
  "bridge_call C (NbExtensionRegister mid m) =
     map_call (\<lambda>r. NbExtensionRegistered mid (exr_wallet_instance_id r) (exr_daemon_protocol_version r) (exr_accepted r))
       (rpc_extension_register C
         \<lparr>erpar_protocol_version = daemon_protocol_version, erpar_wallet_instance_id = ner_wallet_instance_id m,
          erpar_extension_id = ner_extension_id m, erpar_extension_version = ner_extension_version m,
          erpar_profile_hint = ner_profile_hint m, erpar_lock_state = ner_lock_state m,
          erpar_accounts_summary = ner_accounts_summary m\<rparr>)"
| "bridge_call C (NbExtensionHeartbeat mid m) =
     map_call (\<lambda>_. NbExtensionAck mid)
       (rpc_extension_heartbeat C
         \<lparr>ehpar_protocol_version = daemon_protocol_version, ehpar_wallet_instance_id = neh_wallet_instance_id m,
          ehpar_presented_request_ids = neh_presented_request_ids m\<rparr>)"
| "bridge_call C (NbExtensionUpdateAccounts mid m) =
     map_call (\<lambda>_. NbExtensionAck mid)
       (rpc_extension_update_accounts C
         \<lparr>euapar_protocol_version = daemon_protocol_version, euapar_wallet_instance_id = neu_wallet_instance_id m,
          euapar_lock_state = neu_lock_state m, euapar_accounts = neu_accounts m\<rparr>)"
| "bridge_call C (NbRequestPullNext mid w) =
     map_call (\<lambda>r. case pnr_request r of Some p \<Rightarrow> NbRequestNext mid (bridge_next p) | None \<Rightarrow> NbRequestNone mid w)
       (rpc_request_pull_next C
         \<lparr>rpnpar_protocol_version = daemon_protocol_version, rpnpar_wallet_instance_id = w\<rparr>)"
| "bridge_call C (NbRequestPresented mid m) =
     map_call (\<lambda>_. NbExtensionAck mid)
       (rpc_request_presented C
         \<lparr>rppar_protocol_version = daemon_protocol_version, rppar_wallet_instance_id = nrp_wallet_instance_id m,
          rppar_request_id = nrp_request_id m, rppar_delivery_lease_id = nrp_delivery_lease_id m,
          rppar_presentation_id = nrp_presentation_id m\<rparr>)"
| "bridge_call C (NbRequestResolve mid m) =
     map_call (\<lambda>_. NbExtensionAck mid)
       (bind (of_result (validate_request_resolve_params m)) (rpc_request_resolve C))"
| "bridge_call C (NbRequestReject mid m) =
     map_call (\<lambda>_. NbExtensionAck mid)
       (rpc_request_reject C
         \<lparr>rjpar_protocol_version = daemon_protocol_version, rjpar_wallet_instance_id = nrj_wallet_instance_id m,
          rjpar_request_id = nrj_request_id m, rjpar_presentation_id = nrj_presentation_id m,
          rjpar_reason_code = nrj_reason_code m, rjpar_reason_message = nrj_reason_message m\<rparr>)"

fun bridge_version_error :: "NativeBridgeRequest \<Rightarrow> NativeBridgeResponse option" where
  "bridge_version_error (NbExtensionRegister mid m) =
     (if ner_protocol_version m \<noteq> NATIVE_BRIDGE_PROTOCOL_VERSION
      then Some (NbExtensionError (Some mid) ProtocolVersionMismatch
        (''Unsupported native bridge protocol version '' @ u32_to_string (ner_protocol_version m)) (Some False))
      else None)"
| "bridge_version_error _ = None"

definition handle_request :: "'w DaemonRpc \<Rightarrow> NativeBridgeRequest \<Rightarrow> 'w \<Rightarrow> NativeBridgeResponse \<times> 'w" where
  "handle_request C req w =
     (case bridge_version_error req of
        Some response \<Rightarrow> (response, w)
      | None \<Rightarrow>
          (case bridge_call C req w of
             (Inl e, w') \<Rightarrow> (shared_error_response (Some (message_id req)) e, w')
           | (Inr response, w') \<Rightarrow> (response, w')))"

section \<open>What the bridge forwards\<close>

lemma is_setD: "is_set v \<Longrightarrow> \<exists>s. v = Some s \<and> nonblank s"
  by (auto simp: is_set_def nonblank_def split: option.splits)

text \<open>A result the bridge lets through is one the daemon can read, of the kind it names.\<close>

lemma validated_result:
  assumes "validate_request_resolve_params input = Inr p"
  shows "\<exists>r. request_result_from_params p = Inr r \<and> result_kind r = rvi_result_kind input"
proof -
  from assms have p: "p = resolve_params input" and e: "resolve_input_error input = None"
    by (auto simp: validate_request_resolve_params_def split: option.splits)
  show ?thesis
  proof (cases "rvi_result_kind input")
    case NoResult
    with e show ?thesis by (simp add: resolve_input_error_def Let_def)
  qed (use e in \<open>auto simp: p resolve_input_error_def Let_def resolve_params_def request_result_from_params_def
      bind_result_def required_request_field_def dest!: is_setD split: if_splits\<close>)
qed

lemma handle_request_replies:
  assumes "handle_request C req w = (response, w')"
  shows "response = NbExtensionAck (message_id req) \<or> (\<exists>n. response = NbRequestNext (message_id req) n) \<or>
    (\<exists>wid. response = NbRequestNone (message_id req) wid) \<or>
    (\<exists>wid v b. response = NbExtensionRegistered (message_id req) wid v b) \<or>
    (\<exists>e m r. response = NbExtensionError (Some (message_id req)) e m r)"
proof (cases req)
  case (NbExtensionRegister mid m)
  with assms show ?thesis
    by (auto simp: handle_request_def map_call_def bind_def ok_def shared_error_response_def
        split: option.splits prod.splits sum.splits if_splits)
qed (use assms in \<open>auto simp: handle_request_def map_call_def bind_def ok_def shared_error_response_def
        split: option.splits prod.splits sum.splits\<close>)

end
