(* ===== verification/Native_Client.thy ===== *)
theory Native_Client
  imports Native_Bridge
begin

text \<open>
  The client the native host reaches the daemon with (\<open>starmask-native-host/src/client.rs\<close>). A call
  encodes its request, exchanges bytes over the socket and decodes the answer. The texts \<open>serde_json\<close> writes
  and reads are the record \<open>ClientSerde\<close>; the socket is the argument \<open>exchange\<close>, and
  \<open>daemon_exchange\<close> is the one that leads to the server.
\<close>

section \<open>Calls\<close>

definition MAX_RESPONSE_BYTES :: nat where "MAX_RESPONSE_BYTES = 1024 * 1024"

record ClientSerde =
  enc_extension_register :: "ExtensionRegisterParams JsonRpcRequest \<Rightarrow> string + string"
  enc_extension_heartbeat :: "ExtensionHeartbeatParams JsonRpcRequest \<Rightarrow> string + string"
  enc_extension_update_accounts :: "ExtensionUpdateAccountsParams JsonRpcRequest \<Rightarrow> string + string"
  enc_request_pull_next :: "RequestPullNextParams JsonRpcRequest \<Rightarrow> string + string"
  enc_request_has_available :: "RequestHasAvailableParams JsonRpcRequest \<Rightarrow> string + string"
  enc_get_request_status :: "GetRequestStatusParams JsonRpcRequest \<Rightarrow> string + string"
  enc_request_presented :: "RequestPresentedParams JsonRpcRequest \<Rightarrow> string + string"
  enc_request_resolve :: "RequestResolveParams JsonRpcRequest \<Rightarrow> string + string"
  enc_request_reject :: "RequestRejectParams JsonRpcRequest \<Rightarrow> string + string"
  dec_extension_registered :: "string \<Rightarrow> string + ExtensionRegisteredResult JsonRpcResponse"
  dec_ack :: "string \<Rightarrow> string + AckResult JsonRpcResponse"
  dec_pull_next :: "string \<Rightarrow> string + PullNextRequestResult JsonRpcResponse"
  dec_has_available :: "string \<Rightarrow> string + RequestHasAvailableResult JsonRpcResponse"
  dec_request_status :: "string \<Rightarrow> string + GetRequestStatusResult JsonRpcResponse"

definition shared_internal_error :: "string \<Rightarrow> SharedError" where
  "shared_internal_error e = SharedError_new InternalBridgeError e"

definition shared_transport_error :: "string \<Rightarrow> SharedError" where
  "shared_transport_error e = SharedError_new RpcUnavailable e"

definition map_err :: "('e \<Rightarrow> 'f) \<Rightarrow> ('w, 'e, 'a) fallible \<Rightarrow> ('w, 'f, 'a) fallible" where
  "map_err f m = (\<lambda>w. case m w of (Inl e, w') \<Rightarrow> (Inl (f e), w') | (Inr x, w') \<Rightarrow> (Inr x, w'))"

text \<open>
  \<open>exchange bytes\<close> connects, writes the bytes, shuts the writing side down and reads until the end, at most
  one byte more than \<open>MAX_RESPONSE_BYTES\<close>.
\<close>

definition client_call :: "string \<Rightarrow> (string \<Rightarrow> ('w, string, string) fallible) \<Rightarrow> ('p JsonRpcRequest \<Rightarrow> string + string) \<Rightarrow>
    (string \<Rightarrow> string + 'r JsonRpcResponse) \<Rightarrow> string \<Rightarrow> 'p \<Rightarrow> ('w, SharedError, 'r) fallible" where
  "client_call who exchange encode decode method params =
     bind (of_result (case encode (JsonRpcRequest_new who method params) of
             Inl e \<Rightarrow> Inl (shared_internal_error e) | Inr b \<Rightarrow> Inr b)) (\<lambda>bytes.
     bind (map_err shared_transport_error (exchange bytes)) (\<lambda>response.
     if MAX_RESPONSE_BYTES < length response
     then err (shared_transport_error ''daemon response exceeded 1048576 bytes'')
     else
       bind (of_result (case decode response of Inl e \<Rightarrow> Inl (shared_internal_error e) | Inr a \<Rightarrow> Inr a)) (\<lambda>answer.
       case answer of
         RpcSuccess r \<Rightarrow> ok (ok_result r)
       | RpcError e \<Rightarrow>
           err \<lparr>code = eo_code (er_error e), message = eo_message (er_error e), retryable = eo_retryable (er_error e),
                details = eo_details (er_error e)\<rparr>)))"

definition host_call :: "(string \<Rightarrow> ('w, string, string) fallible) \<Rightarrow> ('p JsonRpcRequest \<Rightarrow> string + string) \<Rightarrow>
    (string \<Rightarrow> string + 'r JsonRpcResponse) \<Rightarrow> string \<Rightarrow> 'p \<Rightarrow> ('w, SharedError, 'r) fallible" where
  "host_call = client_call ''native-host''"

definition LocalDaemonClient :: "ClientSerde \<Rightarrow> (string \<Rightarrow> ('w, string, string) fallible) \<Rightarrow> 'w DaemonRpc" where
  "LocalDaemonClient E exchange =
     \<lparr>rpc_extension_register = host_call exchange (enc_extension_register E) (dec_extension_registered E) ''extension.register'',
      rpc_extension_heartbeat = host_call exchange (enc_extension_heartbeat E) (dec_ack E) ''extension.heartbeat'',
      rpc_extension_update_accounts = host_call exchange (enc_extension_update_accounts E) (dec_ack E) ''extension.updateAccounts'',
      rpc_request_pull_next = host_call exchange (enc_request_pull_next E) (dec_pull_next E) ''request.pullNext'',
      rpc_request_has_available = host_call exchange (enc_request_has_available E) (dec_has_available E) ''request.hasAvailable'',
      rpc_get_request_status = host_call exchange (enc_get_request_status E) (dec_request_status E) ''request.getStatus'',
      rpc_request_presented = host_call exchange (enc_request_presented E) (dec_ack E) ''request.presented'',
      rpc_request_resolve = host_call exchange (enc_request_resolve E) (dec_ack E) ''request.resolve'',
      rpc_request_reject = host_call exchange (enc_request_reject E) (dec_ack E) ''request.reject''\<rparr>"

section \<open>The way to the daemon\<close>

text \<open>
  The socket between the client and \<open>handle_connection\<close>: the server reads what the client wrote and then
  the end of the stream; a connection the server gives up on is closed without an answer. A broken
  connection (\<open>fault\<close>) may lose the request before or the response after it was served.
\<close>

function stream_chunks :: "string \<Rightarrow> ReadEvent list" where
  "stream_chunks bs = (if bs = [] then [] else Chunk (take 8192 bs) # stream_chunks (drop 8192 bs))"
  by pat_completeness auto
termination by (relation "measure length") auto

declare stream_chunks.simps [simp del]

datatype SocketFault = ConnectFails string | ResponseLost string

definition daemon_exchange :: "Serde \<Rightarrow> 's Traits \<Rightarrow> ServerPolicy \<Rightarrow> SocketFault option \<Rightarrow> string \<Rightarrow>
    ('s Runtime, string, string) fallible" where
  "daemon_exchange D T P fault bytes s =
     (case fault of
        Some (ConnectFails e) \<Rightarrow> (Inl e, s)
      | _ \<Rightarrow>
          (case handle_connection D T P (stream_chunks bytes) s of
             (r, s') \<Rightarrow>
               (case fault of
                  Some (ResponseLost e) \<Rightarrow> (Inl e, s')
                | _ \<Rightarrow> (case r of Inr (Some out) \<Rightarrow> (Inr out, s') | _ \<Rightarrow> (Inr [], s')))))"

lemma read_loop_stream_chunks:
  "length acc \<le> MAX_REQUEST_BYTES \<Longrightarrow>
   read_loop acc (stream_chunks bs) =
     (if length acc + length bs \<le> MAX_REQUEST_BYTES then Inr (acc @ bs) else Inl ''daemon rpc request exceeds 1048576 bytes'')"
proof (induction bs arbitrary: acc rule: stream_chunks.induct)
  case (1 bs)
  show ?case
  proof (cases "bs = []")
    case True
    with 1(2) show ?thesis by (simp add: stream_chunks.simps [of "[]"])
  next
    case False
    show ?thesis
    proof (cases "MAX_REQUEST_BYTES < length acc + length (take 8192 bs)")
      case True
      with False show ?thesis by (subst stream_chunks.simps) auto
    next
      case fits: False
      then have "length (acc @ take 8192 bs) \<le> MAX_REQUEST_BYTES" by simp
      from 1(1) [OF False this] False fits show ?thesis by (subst stream_chunks.simps) auto
    qed
  qed
qed

lemma read_request_bytes_stream: "read_request_bytes (stream_chunks bs) = Inr bs' \<Longrightarrow> bs' = bs"
  by (simp add: read_request_bytes_def read_loop_stream_chunks split: if_splits)

lemma handle_connection_stream:
  assumes "bytes \<noteq> []" "length bytes \<le> MAX_REQUEST_BYTES"
  shows "handle_connection D T P (stream_chunks bytes) s =
    (case request_from_slice D bytes of
       Inl e \<Rightarrow> (Inl e, s)
     | Inr req \<Rightarrow>
         (case dispatch_request D T P req s of (r, s') \<Rightarrow>
           (case response_to_vec D (case r of Inl e \<Rightarrow> RpcError e | Inr x \<Rightarrow> x) of
              Inl e \<Rightarrow> (Inl e, s') | Inr out \<Rightarrow> (Inr (Some out), s'))))"
  using assms
  by (auto simp: handle_connection_def read_request_bytes_def read_loop_stream_chunks bind_def of_result_def ok_def
      split: sum.splits prod.splits)

lemma dispatch_request_success:
  "dispatch_request D T P req s = (Inr reply, s') \<Longrightarrow> \<exists>x. reply = RpcSuccess x"
  by (auto simp: dispatch_request_def bind_def ok_def split: sum.splits prod.splits)

section \<open>A result on its way\<close>

lemma client_call_Inr:
  assumes "client_call who exchange enc dec m p w = (Inr r, w')"
  shows "\<exists>bytes out x. enc (JsonRpcRequest_new who m p) = Inr bytes \<and> exchange bytes w = (Inr out, w') \<and>
    dec out = Inr (RpcSuccess x) \<and> ok_result x = r"
  using assms
  by (auto simp: client_call_def bind_def of_result_def map_err_def ok_def err_def
      split: sum.splits prod.splits if_splits JsonRpcResponse.splits)

lemma client_call_state:
  assumes "client_call who exchange enc dec m p w = (res, w')"
  shows "w' = w \<or> (\<exists>bytes r. enc (JsonRpcRequest_new who m p) = Inr bytes \<and> exchange bytes w = (r, w'))"
  using assms
  by (auto simp: client_call_def bind_def of_result_def map_err_def ok_def err_def
      split: sum.splits prod.splits if_splits JsonRpcResponse.splits)

lemma daemon_exchange_Inr:
  assumes "daemon_exchange D T P fault bytes s = (Inr out, s')" "out \<noteq> []"
  shows "\<exists>req r. request_from_slice D bytes = Inr req \<and> dispatch_request D T P req s = (r, s') \<and>
    response_to_vec D (case r of Inl e \<Rightarrow> RpcError e | Inr x \<Rightarrow> x) = Inr out"
  using assms
  by (auto simp: daemon_exchange_def handle_connection_def bind_def of_result_def ok_def
      dest!: read_request_bytes_stream split: option.splits SocketFault.splits sum.splits prod.splits if_splits)

lemma daemon_exchange_state:
  assumes "daemon_exchange D T P fault bytes s = (r, s')"
  shows "s' = s \<or> (\<exists>req reply. request_from_slice D bytes = Inr req \<and> dispatch_request D T P req s = (reply, s'))"
  using assms
  by (auto simp: daemon_exchange_def handle_connection_def bind_def of_result_def ok_def
      dest!: read_request_bytes_stream split: option.splits SocketFault.splits sum.splits prod.splits if_splits)

text \<open>
  What \<open>serde_json\<close> guarantees of a resolve call: the daemon reads the parameters the client wrote, and the
  client never reads an error, or nothing, as a success.
\<close>

definition resolve_wire_ok :: "ClientSerde \<Rightarrow> Serde \<Rightarrow> bool" where
  "resolve_wire_ok E D \<longleftrightarrow>
     (\<forall>i p bytes. enc_request_resolve E (JsonRpcRequest_new i ''request.resolve'' p) = Inr bytes \<longrightarrow>
        nonblank (rrpar_wallet_instance_id p) \<and> nonblank (rrpar_request_id p) \<and> nonblank (rrpar_presentation_id p) \<longrightarrow>
        (\<exists>req. request_from_slice D bytes = Inr req \<and> rpc_method req = ''request.resolve'' \<and>
           from_RequestResolveParams D (rpc_params req) = Inr p)) \<and>
     (\<forall>e out. response_to_vec D (RpcError e) = Inr out \<longrightarrow> (\<exists>x. dec_ack E out = Inr (RpcError x))) \<and>
     (\<exists>e. dec_ack E [] = Inl e)"

definition bridge_resolve_command :: "RequestResolveValidationInput \<Rightarrow> RequestResult \<Rightarrow> ResolveRequestCommand" where
  "bridge_resolve_command input r =
     \<lparr>res_request_id = rvi_request_id input, res_wallet_instance_id = rvi_wallet_instance_id input,
      res_presentation_id = rvi_presentation_id input, res_result = r\<rparr>"

lemma dispatch_request_resolve:
  assumes "rpc_method req = ''request.resolve''" "from_RequestResolveParams D (rpc_params req) = Inr (resolve_params input)"
    and "validate_request_resolve_params input = Inr (resolve_params input)"
    and "dispatch_request D T P req (Running c) = (reply, s')"
  shows "\<exists>r res c'. request_result_from_params (resolve_params input) = Inr r \<and> result_kind r = rvi_result_kind input \<and>
    resolve_request T (bridge_resolve_command input r) c = (res, c') \<and> s' = Running c' \<and>
    ((\<exists>x. reply = Inr x) \<longrightarrow> (\<exists>y. res = Inr y))"
proof -
  from validated_result [OF assms(3)] obtain r where
    r: "request_result_from_params (resolve_params input) = Inr r" "result_kind r = rvi_result_kind input" by blast
  obtain res c' where d: "resolve_request T (bridge_resolve_command input r) c = (res, c')" by fastforce
  have "dispatch_request D T P req = bind (serve_resolve D T (rpc_id req) (rpc_params req))
      (\<lambda>v. ok (RpcSuccess (JsonRpcSuccess_new (rpc_id req) v)))"
    by (simp add: dispatch_request_def dispatch_method_def assms(1))
  moreover have "rrpar_protocol_version (resolve_params input) \<in> set both_versions"
    by (simp add: resolve_params_def daemon_protocol_version_def both_versions_def)
  ultimately have "dispatch_request D T P req (Running c) =
      bind (call D T ExpectResolved (CmdResolveRequest (bridge_resolve_command input r)))
      (\<lambda>v. ok (RpcSuccess (JsonRpcSuccess_new (rpc_id req) v))) (Running c)"
    using r(1) by (simp add: serve_resolve_def decode_protocol_one_of_def assms(2) bind_def of_result_def
        bridge_resolve_command_def resolve_params_def)
  with assms(4) d r show ?thesis
    by (cases res) (auto simp: call_def bind_def expect_response_def respond_def ok_def reply_value_def of_result_def
        split: sum.splits prod.splits)
qed

lemma resolve_params_ids:
  "rrpar_wallet_instance_id (resolve_params input) = rvi_wallet_instance_id input"
  "rrpar_request_id (resolve_params input) = rvi_request_id input"
  "rrpar_presentation_id (resolve_params input) = rvi_presentation_id input"
  by (simp_all add: resolve_params_def)

lemma resolve_wire_request:
  assumes "resolve_wire_ok E D" "enc_request_resolve E (JsonRpcRequest_new ''native-host'' ''request.resolve'' (resolve_params input)) = Inr bytes"
    and "nonblank (rvi_wallet_instance_id input)" "nonblank (rvi_request_id input)" "nonblank (rvi_presentation_id input)"
    and "request_from_slice D bytes = Inr req"
  shows "rpc_method req = ''request.resolve'' \<and> from_RequestResolveParams D (rpc_params req) = Inr (resolve_params input)"
  using assms unfolding resolve_wire_ok_def by (fastforce simp: resolve_params_ids)

text \<open>
  From the extension's message to the coordinator: the coordinator is left alone or resolves the
  request with the result the message carries, and an acknowledgement means that it did.
\<close>

lemma bridge_resolve_reaches:
  assumes wire: "resolve_wire_ok E D"
    and ids: "nonblank (rvi_wallet_instance_id input)" "nonblank (rvi_request_id input)" "nonblank (rvi_presentation_id input)"
    and h: "handle_request (LocalDaemonClient E (daemon_exchange D T P fault)) (NbRequestResolve mid input) (Running c)
      = (response, s')"
  shows "(s' = Running c \<and> response \<noteq> NbExtensionAck mid) \<or>
    (\<exists>r res c'. request_result_from_params (resolve_params input) = Inr r \<and> result_kind r = rvi_result_kind input \<and>
       resolve_request T (bridge_resolve_command input r) c = (res, c') \<and> s' = Running c' \<and>
       (response = NbExtensionAck mid \<longrightarrow> (\<exists>y. res = Inr y)))"
proof (cases "validate_request_resolve_params input")
  case (Inl e)
  with h show ?thesis
    by (auto simp: handle_request_def map_call_def bind_def of_result_def shared_error_response_def)
next
  case (Inr p)
  then have p: "p = resolve_params input"
    by (auto simp: validate_request_resolve_params_def split: option.splits)
  let ?enc = "enc_request_resolve E (JsonRpcRequest_new ''native-host'' ''request.resolve'' (resolve_params input))"
  let ?ex = "daemon_exchange D T P fault"
  obtain res where call: "client_call ''native-host'' ?ex (enc_request_resolve E) (dec_ack E) ''request.resolve'' (resolve_params input) (Running c) = (res, s')"
    and resp: "response = NbExtensionAck mid \<longleftrightarrow> (\<exists>y. res = Inr y)"
    using h Inr by (auto simp: handle_request_def map_call_def bind_def of_result_def ok_def shared_error_response_def
        LocalDaemonClient_def host_call_def p split: prod.splits sum.splits)
  show ?thesis
  proof (cases "\<exists>y. res = Inr y")
    case True
    then obtain y where "res = Inr y" by blast
    with client_call_Inr call obtain bytes out x where
      b: "?enc = Inr bytes" "?ex bytes (Running c) = (Inr out, s')" "dec_ack E out = Inr (RpcSuccess x)" by metis
    from b(3) wire have "out \<noteq> []" by (auto simp: resolve_wire_ok_def)
    from daemon_exchange_Inr [OF b(2) this] obtain req r where
      q: "request_from_slice D bytes = Inr req" "dispatch_request D T P req (Running c) = (r, s')"
        "response_to_vec D (case r of Inl e \<Rightarrow> RpcError e | Inr x \<Rightarrow> x) = Inr out" by blast
    from dispatch_request_resolve [OF _ _ _ q(2), of input] resolve_wire_request [OF wire b(1) ids q(1)] Inr p obtain rr res' c' where
      *: "request_result_from_params (resolve_params input) = Inr rr" "result_kind rr = rvi_result_kind input"
        "resolve_request T (bridge_resolve_command input rr) c = (res', c')" "s' = Running c'"
        "(\<exists>x. r = Inr x) \<longrightarrow> (\<exists>y. res' = Inr y)" by auto
    from q(3) b(3) wire have "\<exists>x. r = Inr x" by (cases r) (fastforce simp: resolve_wire_ok_def)+
    with * show ?thesis by blast
  next
    case False
    from client_call_state [OF call] consider "s' = Running c"
      | bytes r where "?enc = Inr bytes" "?ex bytes (Running c) = (r, s')" by blast
    then show ?thesis
    proof cases
      case 1
      with False resp show ?thesis by simp
    next
      case 2
      from daemon_exchange_state [OF 2(2)] consider "s' = Running c"
        | req reply where "request_from_slice D bytes = Inr req" "dispatch_request D T P req (Running c) = (reply, s')" by blast
      then show ?thesis
      proof cases
        case 1
        with False resp show ?thesis by simp
      next
        case q: 2
        from dispatch_request_resolve [OF _ _ _ q(2), of input] resolve_wire_request [OF wire 2(1) ids q(1)]
          Inr p False resp show ?thesis by auto
      qed
    qed
  qed
qed

end
