(* ===== verification/Native_Framing.thy ===== *)
theory Native_Framing
  imports Daemon_Config
begin

text \<open>
  The frames of the native messaging channel (\<open>starmask-native-host/src/framing.rs\<close>): a four-byte
  length in native byte order and the payload. A reader is the sequence of what its \<open>read\<close> calls may bring, so
  a frame may arrive in any pieces and a read may fail at any point; a writer keeps what was written
  and may fail at any operation. \<open>le\<close> says whether the target is little endian.
\<close>

type_synonym byte = "8 word"

definition NATIVE_BRIDGE_MAX_INBOUND_BYTES :: u32 where "NATIVE_BRIDGE_MAX_INBOUND_BYTES = 64 * 1024 * 1024"
definition NATIVE_BRIDGE_MAX_OUTBOUND_BYTES :: u32 where "NATIVE_BRIDGE_MAX_OUTBOUND_BYTES = 1024 * 1024"

section \<open>Readers\<close>

datatype ErrorKind =
  UnexpectedEof | Interrupted | InvalidInput | AlreadyExists | WouldBlock | ConnectionRefused | PathNotFound | OtherKind

datatype Segment = Data "byte list" | ReadError ErrorKind string

text \<open>\<open>Read::read\<close> into a buffer of \<open>n\<close> bytes; \<open>Ok(0)\<close> is the end of the stream.\<close>

fun read_some :: "nat \<Rightarrow> Segment list \<Rightarrow> ((ErrorKind \<times> string) + byte list) \<times> Segment list" where
  "read_some n [] = (Inr [], [])"
| "read_some n (ReadError k m # rest) = (Inl (k, m), rest)"
| "read_some n (Data bs # rest) =
     (if length bs \<le> n then (Inr bs, rest) else (Inr (take n bs), Data (drop n bs) # rest))"

lemma read_some_length: "read_some n segs = (Inr bs, segs') \<Longrightarrow> length bs \<le> n"
  by (induction n segs rule: read_some.induct) (auto split: if_splits)

lemma read_some_segments: "read_some n segs = (r, segs') \<Longrightarrow> length segs' \<le> length segs"
  by (induction n segs rule: read_some.induct) (auto split: if_splits)

lemma read_some_error: "read_some n segs = (Inl e, segs') \<Longrightarrow> length segs' < length segs"
  by (induction n segs rule: read_some.induct) (auto split: if_splits)

text \<open>The loop that fills the header; \<open>header\<close> is what has been read of it.\<close>

function read_header :: "byte list \<Rightarrow> Segment list \<Rightarrow> byte list option anyhow \<times> Segment list" where
  "read_header header segs =
     (if 4 \<le> length header then (Inr (Some header), segs)
      else (case read_some (4 - length header) segs of
          (Inl (k, m), segs') \<Rightarrow>
            if k = UnexpectedEof \<and> header = [] then (Inr None, segs') else (Inl m, segs')
        | (Inr bs, segs') \<Rightarrow>
            if bs = [] then
              (if header = [] then (Inr None, segs')
               else (Inl (''native bridge frame header truncated after '' @ decimal (length header) @ '' bytes''), segs'))
            else read_header (header @ bs) segs'))"
  by pat_completeness auto
termination
  by (relation "measure (\<lambda>(header, segs). 4 - length header)") (auto simp flip: length_greater_0_conv)

text \<open>\<open>Read::read_exact\<close>: interrupted reads are retried, an early end is an error.\<close>

function read_exact :: "nat \<Rightarrow> byte list \<Rightarrow> Segment list \<Rightarrow> byte list anyhow \<times> Segment list" where
  "read_exact n got segs =
     (if n \<le> length got then (Inr got, segs)
      else (case read_some (n - length got) segs of
          (Inl (k, m), segs') \<Rightarrow> if k = Interrupted then read_exact n got segs' else (Inl m, segs')
        | (Inr bs, segs') \<Rightarrow>
            if bs = [] then (Inl ''failed to fill whole buffer'', segs') else read_exact n (got @ bs) segs'))"
  by pat_completeness auto
termination
proof (relation "measure (\<lambda>(n, got, segs). (n - length got) + length segs)", goal_cases)
  case (2 n got segs x segs' e k m)
  then have "read_some (n - length got) segs = (Inl e, segs')" by simp
  from read_some_error [OF this] 2(1) show ?case by simp
next
  case (3 n got segs x segs' bs)
  then have "read_some (n - length got) segs = (Inr bs, segs')" by simp
  from read_some_segments [OF this] 3 show ?case by (simp flip: length_greater_0_conv)
qed simp

declare read_header.simps [simp del] read_exact.simps [simp del]

section \<open>Lengths\<close>

fun le_value :: "byte list \<Rightarrow> nat" where
  "le_value [] = 0"
| "le_value (b # bs) = unat b + 256 * le_value bs"

fun le_bytes :: "nat \<Rightarrow> nat \<Rightarrow> byte list" where
  "le_bytes 0 v = []"
| "le_bytes (Suc k) v = of_nat (v mod 256) # le_bytes k (v div 256)"

definition u32_from_ne_bytes :: "bool \<Rightarrow> byte list \<Rightarrow> u32" where
  "u32_from_ne_bytes le bs = of_nat (le_value (if le then bs else rev bs))"

definition u32_to_ne_bytes :: "bool \<Rightarrow> u32 \<Rightarrow> byte list" where
  "u32_to_ne_bytes le v = (let bs = le_bytes 4 (unat v) in if le then bs else rev bs)"

lemma length_le_bytes [simp]: "length (le_bytes k v) = k"
  by (induction k arbitrary: v) auto

lemma le_value_le_bytes: "le_value (le_bytes k v) = v mod 256 ^ k"
proof (induction k arbitrary: v)
  case (Suc k)
  have "unat (of_nat (v mod 256) :: byte) = v mod 256"
    by (simp add: unat_of_nat take_bit_eq_mod)
  with Suc show ?case by (simp add: mod_mult2_eq)
qed simp

lemma u32_ne_bytes_roundtrip [simp]: "u32_from_ne_bytes le (u32_to_ne_bytes le v) = v"
proof -
  have "unat v mod 256 ^ 4 = unat v" using unsigned_less [of v, where 'a = nat] by simp
  then show ?thesis
    by (simp add: u32_from_ne_bytes_def u32_to_ne_bytes_def Let_def le_value_le_bytes)
qed

lemma length_u32_to_ne_bytes [simp]: "length (u32_to_ne_bytes le v) = 4"
  by (simp add: u32_to_ne_bytes_def Let_def)

section \<open>Frames\<close>

definition read_frame :: "bool \<Rightarrow> Segment list \<Rightarrow> byte list option anyhow \<times> Segment list" where
  "read_frame le segs =
     (case read_header [] segs of
        (Inl e, segs') \<Rightarrow> (Inl e, segs')
      | (Inr None, segs') \<Rightarrow> (Inr None, segs')
      | (Inr (Some header), segs') \<Rightarrow>
          let len = u32_from_ne_bytes le header in
          if NATIVE_BRIDGE_MAX_INBOUND_BYTES < len
          then (Inl (''native bridge frame exceeds inbound limit: '' @ u32_to_string len), segs')
          else (case read_exact (unat len) [] segs' of
              (Inl e, segs'') \<Rightarrow> (Inl e, segs'')
            | (Inr body, segs'') \<Rightarrow> (Inr (Some body), segs'')))"

text \<open>A writer: what it has written, and after how many bytes its \<open>k\<close>-th operation fails, if it does.\<close>

record Sink =
  written :: "byte list"
  sink_ops :: nat
  sink_fault :: "nat \<Rightarrow> (nat \<times> string) option"

definition write_all :: "byte list \<Rightarrow> (Sink, string, unit) fallible" where
  "write_all bs w =
     (let w' = w\<lparr>sink_ops := Suc (sink_ops w)\<rparr> in
      case sink_fault w (sink_ops w) of
        None \<Rightarrow> (Inr (), w'\<lparr>written := written w @ bs\<rparr>)
      | Some (n, m) \<Rightarrow> (Inl m, w'\<lparr>written := written w @ take n bs\<rparr>))"

text \<open>\<open>flush\<close> is one more operation that may fail and writes nothing.\<close>

definition write_frame :: "bool \<Rightarrow> byte list \<Rightarrow> (Sink, string, unit) fallible" where
  "write_frame le body =
     (if 2 ^ 32 \<le> length body then err ''out of range integral type conversion attempted''
      else
        let payload_len = of_nat (length body) in
        if NATIVE_BRIDGE_MAX_OUTBOUND_BYTES < payload_len
        then err (''native bridge frame exceeds outbound limit: '' @ u32_to_string payload_len)
        else
          bind (write_all (u32_to_ne_bytes le payload_len)) (\<lambda>_.
          bind (write_all body) (\<lambda>_.
          write_all [])))"

section \<open>Reading back what was written\<close>

fun plain_bytes :: "Segment list \<Rightarrow> byte list option" where
  "plain_bytes [] = Some []"
| "plain_bytes (Data bs # rest) = (if bs = [] then None else map_option (\<lambda>r. bs @ r) (plain_bytes rest))"
| "plain_bytes (ReadError _ _ # _) = None"

lemma read_some_plain:
  assumes "plain_bytes segs = Some bs" "0 < n" "bs \<noteq> []"
  shows "\<exists>x y segs'. read_some n segs = (Inr x, segs') \<and> bs = x @ y \<and> x \<noteq> [] \<and> length x \<le> n \<and> plain_bytes segs' = Some y"
proof -
  from assms(1,3) obtain b rest r where segs: "segs = Data b # rest" "b \<noteq> []" "plain_bytes rest = Some r" "bs = b @ r"
    by (cases segs rule: plain_bytes.cases) (auto split: if_splits)
  show ?thesis
  proof (cases "length b \<le> n")
    case True
    with segs show ?thesis by auto
  next
    case False
    with segs assms(2) have "plain_bytes (Data (drop n b) # rest) = Some (drop n b @ r)" by simp
    moreover from False have "bs = take n b @ (drop n b @ r)" "take n b \<noteq> []" using segs assms(2) by auto
    ultimately show ?thesis using False segs(1) by (intro exI [of _ "take n b"] exI [of _ "drop n b @ r"]) auto
  qed
qed

lemma prefix_split: "xs @ ys = x @ y \<Longrightarrow> length x \<le> length xs \<Longrightarrow> \<exists>zs. xs = x @ zs \<and> y = zs @ ys"
  by (auto simp: append_eq_append_conv2)

lemma read_exact_plain:
  "plain_bytes segs = Some (xs @ ys) \<Longrightarrow> n = length got + length xs \<Longrightarrow>
   \<exists>segs'. read_exact n got segs = (Inr (got @ xs), segs') \<and> plain_bytes segs' = Some ys"
proof (induction n got segs arbitrary: xs rule: read_exact.induct)
  case (1 n got segs)
  show ?case
  proof (cases "xs = []")
    case True
    with 1(3,4) show ?thesis by (simp add: read_exact.simps)
  next
    case False
    with 1(4) have n: "\<not> n \<le> length got" "0 < n - length got" by auto
    from read_some_plain [OF 1(3) n(2)] False obtain x y segs' where
      r: "read_some (n - length got) segs = (Inr x, segs')" "xs @ ys = x @ y" "x \<noteq> []" "length x \<le> n - length got"
        "plain_bytes segs' = Some y" by auto
    with prefix_split [OF r(2)] 1(4) obtain zs where zs: "xs = x @ zs" "y = zs @ ys" by auto
    from "1.IH"(2) [OF n(1) r(1) [symmetric] refl r(3), of zs] r zs 1(4) n(1)
    show ?thesis by (subst read_exact.simps) auto
  qed
qed

lemma read_header_plain:
  "plain_bytes segs = Some (xs @ ys) \<Longrightarrow> length header + length xs = 4 \<Longrightarrow>
   \<exists>segs'. read_header header segs = (Inr (Some (header @ xs)), segs') \<and> plain_bytes segs' = Some ys"
proof (induction header segs arbitrary: xs rule: read_header.induct)
  case (1 header segs)
  show ?case
  proof (cases "xs = []")
    case True
    with 1 show ?thesis by (simp add: read_header.simps)
  next
    case False
    with 1(3) have n: "\<not> 4 \<le> length header" "0 < 4 - length header"
      by (simp_all flip: length_greater_0_conv)
    from read_some_plain [OF 1(2) n(2)] False obtain x y segs' where
      r: "read_some (4 - length header) segs = (Inr x, segs')" "xs @ ys = x @ y" "x \<noteq> []" "length x \<le> 4 - length header"
        "plain_bytes segs' = Some y" by auto
    from 1(3) r(4) have "length x \<le> length xs" by linarith
    with prefix_split [OF r(2)] obtain zs where zs: "xs = x @ zs" "y = zs @ ys" by blast
    from "1.IH" [OF n(1) r(1) [symmetric] refl r(3), of zs] r zs 1(3) n(1)
    show ?thesis by (subst read_header.simps) auto
  qed
qed

text \<open>The bytes of a frame.\<close>

definition frame :: "bool \<Rightarrow> byte list \<Rightarrow> byte list" where
  "frame le body = u32_to_ne_bytes le (of_nat (length body)) @ body"

definition sendable :: "byte list \<Rightarrow> bool" where
  "sendable body \<longleftrightarrow> length body \<le> unat NATIVE_BRIDGE_MAX_OUTBOUND_BYTES"

lemma max_bytes [simp]: "unat NATIVE_BRIDGE_MAX_OUTBOUND_BYTES = 1048576" "unat NATIVE_BRIDGE_MAX_INBOUND_BYTES = 67108864"
  by (simp_all add: NATIVE_BRIDGE_MAX_OUTBOUND_BYTES_def NATIVE_BRIDGE_MAX_INBOUND_BYTES_def)

lemma length_u32: "length body < 2 ^ 32 \<Longrightarrow> unat (of_nat (length body) :: u32) = length body"
  by (simp add: unat_of_nat take_bit_eq_mod)

lemma write_all_Inr: "write_all bs w = (Inr (), w') \<Longrightarrow> written w' = written w @ bs"
  by (auto simp: write_all_def Let_def split: option.splits)

lemma write_frame_Inr:
  assumes "write_frame le body w = (Inr (), w')"
  shows "sendable body \<and> written w' = written w @ frame le body"
  using assms length_u32 [of body]
  by (auto simp: write_frame_def Let_def err_def bind_def word_less_nat_alt sendable_def frame_def
      dest!: write_all_Inr split: if_splits prod.splits sum.splits)

lemma write_frame_accepts:
  assumes "sendable body" "\<And>k. sink_fault w k = None" shows "\<exists>w'. write_frame le body w = (Inr (), w')"
  using assms length_u32 [of body]
  by (simp add: write_frame_def Let_def sendable_def word_less_nat_alt bind_def write_all_def)

lemma read_frame_plain:
  assumes "plain_bytes segs = Some (frame le body @ rest)" "sendable body"
  shows "\<exists>segs'. read_frame le segs = (Inr (Some body), segs') \<and> plain_bytes segs' = Some rest"
proof -
  let ?h = "u32_to_ne_bytes le (of_nat (length body))"
  from assms(1) read_header_plain [of segs ?h "body @ rest" "[]"] obtain segs1 where
    h: "read_header [] segs = (Inr (Some ?h), segs1)" "plain_bytes segs1 = Some (body @ rest)"
    by (auto simp: frame_def)
  from assms(2) have len: "unat (of_nat (length body) :: u32) = length body"
    by (simp add: sendable_def length_u32)
  from h(2) read_exact_plain [of segs1 body rest "length body" "[]"] obtain segs2 where
    "read_exact (length body) [] segs1 = (Inr body, segs2)" "plain_bytes segs2 = Some rest" by auto
  with h(1) len assms(2) show ?thesis
    by (simp add: read_frame_def Let_def word_less_nat_alt sendable_def)
qed

lemma read_frame_end: "read_frame le [] = (Inr None, [])"
  by (simp add: read_frame_def read_header.simps)

text \<open>The bytes and failures still to come; every frame that is read leaves less.\<close>

definition stream_size :: "Segment list \<Rightarrow> nat" where
  "stream_size segs = (\<Sum>s\<leftarrow>segs. case s of Data bs \<Rightarrow> Suc (length bs) | ReadError _ _ \<Rightarrow> 1)"

lemma read_some_size: "read_some n segs = (r, segs') \<Longrightarrow> stream_size segs' \<le> stream_size segs"
  by (induction n segs rule: read_some.induct) (auto simp: stream_size_def split: if_splits)

lemma read_some_consumes: "read_some n segs = (Inr bs, segs') \<Longrightarrow> bs \<noteq> [] \<Longrightarrow> stream_size segs' < stream_size segs"
  by (induction n segs rule: read_some.induct) (auto simp: stream_size_def split: if_splits)

lemma read_header_size:
  "read_header header segs = (r, segs') \<Longrightarrow> stream_size segs' \<le> stream_size segs"
proof (induction header segs rule: read_header.induct)
  case (1 header segs)
  show ?case
  proof (cases "length header < 4 \<and> (\<exists>bs segs1. read_some (4 - length header) segs = (Inr bs, segs1) \<and> bs \<noteq> [])")
    case True
    then obtain bs segs1 where r: "\<not> 4 \<le> length header" "read_some (4 - length header) segs = (Inr bs, segs1)" "bs \<noteq> []"
      by auto
    with 1(2) have "read_header (header @ bs) segs1 = (r, segs')" by (simp add: read_header.simps [of header])
    from 1(1) [OF r(1) r(2) [symmetric] refl r(3) this] read_some_size [OF r(2)] show ?thesis by simp
  next
    case False
    with 1(2) show ?thesis
      by (subst (asm) read_header.simps) (auto split: if_splits prod.splits sum.splits dest: read_some_size)
  qed
qed

lemma read_header_consumes:
  assumes "read_header [] segs = (Inr (Some h), segs')" shows "stream_size segs' < stream_size segs"
proof -
  from assms obtain bs segs1 where "read_some 4 segs = (Inr bs, segs1)" "bs \<noteq> []" "read_header bs segs1 = (Inr (Some h), segs')"
    by (subst (asm) read_header.simps) (auto split: if_splits prod.splits sum.splits)
  with read_some_consumes [of 4 segs bs segs1] read_header_size [of bs segs1] show ?thesis by fastforce
qed

lemma read_exact_size:
  "read_exact n got segs = (r, segs') \<Longrightarrow> stream_size segs' \<le> stream_size segs"
proof (induction n got segs rule: read_exact.induct)
  case (1 n got segs)
  obtain x segs1 where s: "read_some (n - length got) segs = (x, segs1)" by fastforce
  note size = read_some_size [OF s]
  show ?case
  proof (cases "n \<le> length got")
    case True
    with 1(3) show ?thesis by (simp add: read_exact.simps)
  next
    case False
    note step = 1(3) [unfolded read_exact.simps [of n got segs]]
    show ?thesis
    proof (cases x)
      case (Inl e)
      obtain k m where e: "e = (k, m)" by (cases e)
      show ?thesis
      proof (cases "k = Interrupted")
        case True
        with step False s Inl e have "read_exact n got segs1 = (r, segs')" by simp
        from 1(1) [OF False s [symmetric] Inl e [symmetric] True this] size show ?thesis by simp
      qed (use step False s Inl e size in auto)
    next
      case (Inr bs)
      show ?thesis
      proof (cases "bs = []")
        case nonempty: False
        with step False s Inr have "read_exact n (got @ bs) segs1 = (r, segs')" by simp
        from 1(2) [OF False s [symmetric] Inr nonempty this] size show ?thesis by simp
      qed (use step False s Inr size in auto)
    qed
  qed
qed

lemma read_frame_consumes:
  assumes "read_frame le segs = (Inr (Some body), segs')" shows "stream_size segs' < stream_size segs"
  using assms read_header_consumes [of segs]
  by (auto simp: read_frame_def Let_def split: prod.splits sum.splits option.splits if_splits dest!: read_exact_size)

text \<open>Reading frames until the end of the stream.\<close>

function read_frames :: "bool \<Rightarrow> Segment list \<Rightarrow> byte list list anyhow" where
  "read_frames le segs =
     (case read_frame le segs of
        (Inl e, _) \<Rightarrow> Inl e
      | (Inr None, _) \<Rightarrow> Inr []
      | (Inr (Some body), segs') \<Rightarrow>
          (case read_frames le segs' of Inl e \<Rightarrow> Inl e | Inr bodies \<Rightarrow> Inr (body # bodies)))"
  by pat_completeness auto
termination
  by (relation "measure (\<lambda>(le, segs). stream_size segs)") (auto dest: read_frame_consumes [OF sym])

declare read_frames.simps [simp del]

fun write_frames :: "bool \<Rightarrow> byte list list \<Rightarrow> (Sink, string, unit) fallible" where
  "write_frames le [] = ok ()"
| "write_frames le (body # bodies) = bind (write_frame le body) (\<lambda>_. write_frames le bodies)"

lemma write_frames_Inr:
  "write_frames le bodies w = (Inr (), w') \<Longrightarrow>
   list_all sendable bodies \<and> written w' = written w @ concat (map (frame le) bodies)"
proof (induction bodies arbitrary: w)
  case (Cons body bodies)
  from Cons.prems obtain w1 where "write_frame le body w = (Inr (), w1)" "write_frames le bodies w1 = (Inr (), w')"
    by (auto simp: bind_def split: prod.splits sum.splits)
  with write_frame_Inr [of le body w w1] Cons.IH [of w1] show ?case by simp
qed (simp add: ok_def)

lemma plain_bytes_Nil: "plain_bytes segs = Some [] \<Longrightarrow> segs = []"
  by (cases segs rule: plain_bytes.cases) (auto split: if_splits)

lemma read_frames_plain:
  "plain_bytes segs = Some (concat (map (frame le) bodies)) \<Longrightarrow> list_all sendable bodies \<Longrightarrow>
   read_frames le segs = Inr bodies"
proof (induction bodies arbitrary: segs)
  case Nil
  then show ?case by (auto dest!: plain_bytes_Nil simp: read_frame_end read_frames.simps)
next
  case (Cons body bodies)
  from Cons.prems read_frame_plain [of segs le body "concat (map (frame le) bodies)"] obtain segs' where
    "read_frame le segs = (Inr (Some body), segs')" "plain_bytes segs' = Some (concat (map (frame le) bodies))" by auto
  with Cons show ?case by (subst read_frames.simps) simp
qed

end
