(* ===== verification/Native_Host.thy ===== *)
theory Native_Host
  imports Native_Client Native_Framing
begin

text \<open>
  The native host as a process: what it remembers of the messages it has seen and how it polls the
  daemon for news (\<open>starmask-native-host/src/notify.rs\<close>), and its main loop (\<open>main.rs\<close>). A
  \<open>BTreeMap\<close> is its ascending list of entries. A warning is only logged and is not modelled.
\<close>

section \<open>Ordered maps\<close>

fun map_insert :: "string \<Rightarrow> 'v \<Rightarrow> (string \<times> 'v) list \<Rightarrow> (string \<times> 'v) list" where
  "map_insert k v [] = [(k, v)]"
| "map_insert k v ((k', v') # rest) =
     (if k = k' then (k, v) # rest
      else if k < k' then (k, v) # (k', v') # rest
      else (k', v') # map_insert k v rest)"

definition map_remove :: "string \<Rightarrow> (string \<times> 'v) list \<Rightarrow> (string \<times> 'v) list" where
  "map_remove k m = filter (\<lambda>(k', _). k' \<noteq> k) m"

definition map_modify :: "string \<Rightarrow> ('v \<Rightarrow> 'v) \<Rightarrow> (string \<times> 'v) list \<Rightarrow> (string \<times> 'v) list" where
  "map_modify k f m = map (\<lambda>(k', v). (k', if k' = k then f v else v)) m"

definition ordered :: "(string \<times> 'v) list \<Rightarrow> bool" where
  "ordered m \<longleftrightarrow> sorted (map fst m) \<and> distinct (map fst m)"

section \<open>What the host remembers\<close>

record WalletWatchState =
  ww_wallet_instance_id :: WalletInstanceId
  ww_last_available_notified :: bool

record NotificationState =
  ns_wallets :: "(string \<times> WalletWatchState) list"
  ns_active_requests :: "(string \<times> WalletInstanceId) list"

definition NotificationState_default :: NotificationState where
  "NotificationState_default = \<lparr>ns_wallets = [], ns_active_requests = []\<rparr>"

definition ensure_wallet :: "WalletInstanceId \<Rightarrow> NotificationState \<Rightarrow> NotificationState" where
  "ensure_wallet w st =
     (if map_of (ns_wallets st) w \<noteq> None then st
      else st\<lparr>ns_wallets := map_insert w \<lparr>ww_wallet_instance_id = w, ww_last_available_notified = False\<rparr> (ns_wallets st)\<rparr>)"

definition add_active :: "RequestId \<Rightarrow> WalletInstanceId \<Rightarrow> NotificationState \<Rightarrow> NotificationState" where
  "add_active r w st = st\<lparr>ns_active_requests := map_insert r w (ns_active_requests st)\<rparr>"

definition remove_active :: "RequestId \<Rightarrow> NotificationState \<Rightarrow> NotificationState" where
  "remove_active r st = st\<lparr>ns_active_requests := map_remove r (ns_active_requests st)\<rparr>"

definition set_notified :: "WalletInstanceId \<Rightarrow> bool \<Rightarrow> NotificationState \<Rightarrow> NotificationState" where
  "set_notified w b st = st\<lparr>ns_wallets := map_modify w (\<lambda>e. e\<lparr>ww_last_available_notified := b\<rparr>) (ns_wallets st)\<rparr>"

fun is_ack :: "NativeBridgeResponse \<Rightarrow> bool" where
  "is_ack (NbExtensionAck _) = True" | "is_ack _ = False"

fun observe :: "NativeBridgeRequest \<Rightarrow> NativeBridgeResponse \<Rightarrow> NotificationState \<Rightarrow> NotificationState" where
  "observe (NbExtensionRegister _ m) response st =
     (case response of NbExtensionRegistered _ _ _ accepted \<Rightarrow>
        if accepted then ensure_wallet (ner_wallet_instance_id m) st else st
      | _ \<Rightarrow> st)"
| "observe (NbExtensionHeartbeat _ m) response st = ensure_wallet (neh_wallet_instance_id m) st"
| "observe (NbExtensionUpdateAccounts _ m) response st = ensure_wallet (neu_wallet_instance_id m) st"
| "observe (NbRequestPullNext _ w) response st =
     (let st = set_notified w False (ensure_wallet w st) in
      case response of NbRequestNext _ n \<Rightarrow> if nrn_resume_required n then add_active (nrn_request_id n) w st else st
      | _ \<Rightarrow> st)"
| "observe (NbRequestPresented _ m) response st =
     (if is_ack response then add_active (nrp_request_id m) (nrp_wallet_instance_id m) st else st)"
| "observe (NbRequestResolve _ m) response st = (if is_ack response then remove_active (rvi_request_id m) st else st)"
| "observe (NbRequestReject _ m) response st = (if is_ack response then remove_active (nrj_request_id m) st else st)"

section \<open>Polling the daemon\<close>

record BridgeSerde =
  bridge_request_from_slice :: "byte list \<Rightarrow> string + NativeBridgeRequest"
  bridge_response_to_vec :: "NativeBridgeResponse \<Rightarrow> string + byte list"

record 'w HostState =
  host_daemon :: 'w
  host_sink :: Sink
  host_notify :: NotificationState

definition emit_notification :: "BridgeSerde \<Rightarrow> bool \<Rightarrow> NativeBridgeResponse \<Rightarrow> (Sink, string, unit) fallible" where
  "emit_notification B le n = bind (of_result (bridge_response_to_vec B n)) (write_frame le)"

definition on_available :: "BridgeSerde \<Rightarrow> bool \<Rightarrow> RequestHasAvailableResult \<Rightarrow> 'w HostState \<Rightarrow> 'w HostState" where
  "on_available B le r s =
     (let w = rha_wallet_instance_id r in
      case map_of (ns_wallets (host_notify s)) w of
        None \<Rightarrow> s
      | Some entry \<Rightarrow>
          if rha_available r \<and> \<not> ww_last_available_notified entry then
            (case emit_notification B le (NbRequestAvailable w) (host_sink s) of
               (Inl _, sink) \<Rightarrow> s\<lparr>host_sink := sink\<rparr>
             | (Inr _, sink) \<Rightarrow> s\<lparr>host_sink := sink, host_notify := set_notified w True (host_notify s)\<rparr>)
          else if \<not> rha_available r then s\<lparr>host_notify := set_notified w False (host_notify s)\<rparr>
          else s)"

definition poll_wallet :: "'w DaemonRpc \<Rightarrow> BridgeSerde \<Rightarrow> bool \<Rightarrow> WalletWatchState \<Rightarrow> 'w HostState \<Rightarrow> 'w HostState" where
  "poll_wallet C B le wallet s =
     (case rpc_request_has_available C
         \<lparr>rhapar_protocol_version = daemon_protocol_version, rhapar_wallet_instance_id = ww_wallet_instance_id wallet\<rparr>
         (host_daemon s) of
        (Inl _, d) \<Rightarrow> s\<lparr>host_daemon := d\<rparr>
      | (Inr r, d) \<Rightarrow> on_available B le r (s\<lparr>host_daemon := d\<rparr>))"

definition poll_available :: "'w DaemonRpc \<Rightarrow> BridgeSerde \<Rightarrow> bool \<Rightarrow> 'w HostState \<Rightarrow> 'w HostState" where
  "poll_available C B le s = fold (poll_wallet C B le) (map snd (ns_wallets (host_notify s))) s"

definition on_status :: "BridgeSerde \<Rightarrow> bool \<Rightarrow> RequestId \<Rightarrow> WalletInstanceId \<Rightarrow> RequestStatus \<Rightarrow> 'w HostState \<Rightarrow> 'w HostState" where
  "on_status B le r w x s =
     (let s1 = (if x = Cancelled
                then s\<lparr>host_sink := snd (emit_notification B le (NbRequestCancelled w r) (host_sink s))\<rparr> else s)
      in if is_terminal x then s1\<lparr>host_notify := remove_active r (host_notify s1)\<rparr> else s1)"

definition poll_request :: "'w DaemonRpc \<Rightarrow> BridgeSerde \<Rightarrow> bool \<Rightarrow> string \<times> WalletInstanceId \<Rightarrow> 'w HostState \<Rightarrow> 'w HostState" where
  "poll_request C B le active s =
     (case active of (r, w) \<Rightarrow>
        (case rpc_get_request_status C
            \<lparr>grspar_protocol_version = daemon_protocol_version, grspar_request_id = r\<rparr> (host_daemon s) of
           (Inl _, d) \<Rightarrow> s\<lparr>host_daemon := d\<rparr>
         | (Inr x, d) \<Rightarrow> on_status B le r w (grs_status x) (s\<lparr>host_daemon := d\<rparr>)))"

definition poll_active_requests :: "'w DaemonRpc \<Rightarrow> BridgeSerde \<Rightarrow> bool \<Rightarrow> 'w HostState \<Rightarrow> 'w HostState" where
  "poll_active_requests C B le s = fold (poll_request C B le) (ns_active_requests (host_notify s)) s"

section \<open>The main loop\<close>

text \<open>
  The loop of \<open>main\<close>: it ends with the input, or with the first error, and every frame is answered before
  the next is read. The notification thread interleaves its polls between two turns.
\<close>

function host_loop :: "'w DaemonRpc \<Rightarrow> BridgeSerde \<Rightarrow> bool \<Rightarrow> Segment list \<Rightarrow> 'w HostState \<Rightarrow> unit anyhow \<times> 'w HostState" where
  "host_loop C B le segs s =
     (case read_frame le segs of
        (Inl e, _) \<Rightarrow> (Inl e, s)
      | (Inr None, _) \<Rightarrow> (Inr (), s)
      | (Inr (Some body), segs') \<Rightarrow>
          (case bridge_request_from_slice B body of
             Inl e \<Rightarrow> (Inl e, s)
           | Inr req \<Rightarrow>
               (case handle_request C req (host_daemon s) of (response, d) \<Rightarrow>
                  let s1 = s\<lparr>host_daemon := d, host_notify := observe req response (host_notify s)\<rparr> in
                  (case bridge_response_to_vec B response of
                     Inl e \<Rightarrow> (Inl e, s1)
                   | Inr body' \<Rightarrow>
                       (case write_frame le body' (host_sink s1) of
                          (Inl e, sink) \<Rightarrow> (Inl e, s1\<lparr>host_sink := sink\<rparr>)
                        | (Inr _, sink) \<Rightarrow> host_loop C B le segs' (s1\<lparr>host_sink := sink\<rparr>))))))"
  by pat_completeness auto
termination
  by (relation "measure (\<lambda>(C, B, le, segs, s). stream_size segs)") (auto dest: read_frame_consumes [OF sym])

declare host_loop.simps [simp del]

section \<open>One answer per message\<close>

fun answers :: "'w DaemonRpc \<Rightarrow> NativeBridgeRequest list \<Rightarrow> 'w \<Rightarrow> NativeBridgeResponse list \<times> 'w" where
  "answers C [] d = ([], d)"
| "answers C (req # reqs) d =
     (let (response, d1) = handle_request C req d; (responses, d2) = answers C reqs d1 in (response # responses, d2))"

lemma write_frame_unbroken:
  assumes "sendable body" "\<And>k. sink_fault w k = None"
  shows "\<exists>w'. write_frame le body w = (Inr (), w') \<and> written w' = written w @ frame le body \<and> (\<forall>k. sink_fault w' k = None)"
proof -
  from write_frame_accepts [OF assms] obtain w' where w': "write_frame le body w = (Inr (), w')" by blast
  moreover from w' have "sink_fault w' = sink_fault w"
    by (auto simp: write_frame_def Let_def bind_def write_all_def err_def split: if_splits option.splits)
  ultimately show ?thesis using write_frame_Inr [OF w'] assms(2) by simp
qed

lemma host_loop_answers:
  "plain_bytes segs = Some (concat (map (frame le) bodies)) \<Longrightarrow> list_all sendable bodies \<Longrightarrow>
   map (bridge_request_from_slice B) bodies = map Inr reqs \<Longrightarrow> answers C reqs (host_daemon s) = (responses, d') \<Longrightarrow>
   map (bridge_response_to_vec B) responses = map Inr outs \<Longrightarrow> list_all sendable outs \<Longrightarrow>
   (\<And>k. sink_fault (host_sink s) k = None) \<Longrightarrow>
   \<exists>s'. host_loop C B le segs s = (Inr (), s') \<and> host_daemon s' = d' \<and>
     written (host_sink s') = written (host_sink s) @ concat (map (frame le) outs)"
proof (induction bodies arbitrary: segs s reqs responses outs)
  case Nil
  then have "segs = []" by (simp add: plain_bytes_Nil)
  with Nil show ?case by (simp add: host_loop.simps read_frame_end)
next
  case (Cons body bodies)
  from Cons.prems(3) obtain req reqs' where reqs: "reqs = req # reqs'" "bridge_request_from_slice B body = Inr req"
    "map (bridge_request_from_slice B) bodies = map Inr reqs'" by (cases reqs) auto
  obtain response d1 where h: "handle_request C req (host_daemon s) = (response, d1)" by fastforce
  from Cons.prems(4) reqs(1) h obtain responses' where rs: "responses = response # responses'"
    "answers C reqs' d1 = (responses', d')" by (auto split: prod.splits)
  from Cons.prems(5) rs(1) obtain out outs' where outs: "outs = out # outs'" "bridge_response_to_vec B response = Inr out"
    "map (bridge_response_to_vec B) responses' = map Inr outs'" by (cases outs) auto
  let ?s1 = "s\<lparr>host_daemon := d1, host_notify := observe req response (host_notify s)\<rparr>"
  from write_frame_unbroken [of out "host_sink s" le] Cons.prems(6,7) outs(1) obtain sink where
    w: "write_frame le out (host_sink s) = (Inr (), sink)" "written sink = written (host_sink s) @ frame le out"
      "\<And>k. sink_fault sink k = None" by auto
  from Cons.prems(1,2) read_frame_plain [of segs le body "concat (map (frame le) bodies)"] obtain segs' where
    r: "read_frame le segs = (Inr (Some body), segs')" "plain_bytes segs' = Some (concat (map (frame le) bodies))" by auto
  have step: "host_loop C B le segs s = host_loop C B le segs' (?s1\<lparr>host_sink := sink\<rparr>)"
    by (subst host_loop.simps) (simp add: r(1) reqs(2) h outs(2) w(1))
  from Cons.IH [of segs' reqs' "?s1\<lparr>host_sink := sink\<rparr>" responses' outs'] Cons.prems reqs rs outs w r step
  show ?case by auto
qed

section \<open>Notifications\<close>

definition notify_inv :: "NotificationState \<Rightarrow> bool" where
  "notify_inv st \<longleftrightarrow> ordered (ns_wallets st) \<and> ordered (ns_active_requests st) \<and>
     (\<forall>(k, e) \<in> set (ns_wallets st). ww_wallet_instance_id e = k)"

lemma fst_map_insert: "fst ` set (map_insert k v m) = insert k (fst ` set m)"
  by (induction k v m rule: map_insert.induct) auto

lemma set_map_insert: "set (map_insert k v m) \<subseteq> insert (k, v) (set m)"
  by (induction k v m rule: map_insert.induct) auto

lemma ordered_map_insert: "ordered m \<Longrightarrow> ordered (map_insert k v m)"
proof (induction k v m rule: map_insert.induct)
  case (2 k v k' v' rest)
  then have "ordered rest" by (simp add: ordered_def)
  with 2 have "k \<noteq> k' \<Longrightarrow> \<not> k < k' \<Longrightarrow> ordered (map_insert k v rest)" by simp
  with 2(2) fst_map_insert [of k v rest] show ?case
    by (auto simp: ordered_def image_iff)
qed (simp add: ordered_def)

lemma ordered_map_remove: "ordered m \<Longrightarrow> ordered (map_remove k m)"
  by (auto simp: ordered_def map_remove_def sorted_filter distinct_map_filter case_prod_beta)

lemma ordered_map_modify [simp]: "ordered (map_modify k f m) \<longleftrightarrow> ordered m"
  by (simp add: ordered_def map_modify_def case_prod_beta comp_def)

lemma notify_inv_ensure: "notify_inv st \<Longrightarrow> notify_inv (ensure_wallet w st)"
  using set_map_insert [of w "\<lparr>ww_wallet_instance_id = w, ww_last_available_notified = False\<rparr>" "ns_wallets st"]
  by (auto simp: notify_inv_def ensure_wallet_def ordered_map_insert)

lemma notify_inv_modify: "notify_inv st \<Longrightarrow> notify_inv (set_notified w b st)"
  by (auto simp: notify_inv_def set_notified_def map_modify_def [of _ _ "ns_wallets st"] ordered_def case_prod_beta comp_def)

lemma notify_inv_active:
  "notify_inv st \<Longrightarrow> notify_inv (add_active r w st)" "notify_inv st \<Longrightarrow> notify_inv (remove_active r st)"
  by (simp_all add: notify_inv_def add_active_def remove_active_def ordered_map_insert ordered_map_remove)

lemmas notify_inv_steps = notify_inv_ensure notify_inv_modify notify_inv_active

lemma observe_inv: "notify_inv st \<Longrightarrow> notify_inv (observe req response st)"
  by (cases req) (auto simp: Let_def notify_inv_steps split: NativeBridgeResponse.splits)

text \<open>
  A poll against a daemon that answers \<open>avail\<close> announces the wallets that became available since they were last
  announced, and remembers what it has announced.
\<close>

definition news :: "(WalletInstanceId \<Rightarrow> bool) \<Rightarrow> (string \<times> WalletWatchState) list \<Rightarrow> WalletInstanceId list" where
  "news avail m = map fst (filter (\<lambda>(k, e). avail k \<and> \<not> ww_last_available_notified e) m)"

definition marked :: "(WalletInstanceId \<Rightarrow> bool) \<Rightarrow> (string \<times> WalletWatchState) list \<Rightarrow> (string \<times> WalletWatchState) list" where
  "marked avail m = map (\<lambda>(k, e). (k, e\<lparr>ww_last_available_notified := avail k\<rparr>)) m"

definition answers_availability :: "'w DaemonRpc \<Rightarrow> (WalletInstanceId \<Rightarrow> bool) \<Rightarrow> bool" where
  "answers_availability C avail \<longleftrightarrow>
     (\<forall>p d. rpc_request_has_available C p d =
        (Inr \<lparr>rha_wallet_instance_id = rhapar_wallet_instance_id p, rha_available = avail (rhapar_wallet_instance_id p)\<rparr>, d))"

lemma map_modify_middle:
  assumes "k \<notin> fst ` set xs" "k \<notin> fst ` set ys"
  shows "map_modify k f (xs @ (k, e) # ys) = xs @ (k, f e) # ys"
proof -
  have "map (\<lambda>(k', v). (k', if k' = k then f v else v)) zs = zs" if "k \<notin> fst ` set zs" for zs
    using that by (induction zs) auto
  with assms show ?thesis by (simp add: map_modify_def)
qed

lemma poll_wallet_effect:
  assumes "answers_availability C avail" "bridge_response_to_vec B (NbRequestAvailable k) = Inr (enc k)" "sendable (enc k)"
    and "\<And>n. sink_fault (host_sink s) n = None" "ww_wallet_instance_id e = k"
    and "ns_wallets (host_notify s) = xs @ (k, e) # ys" "k \<notin> fst ` set xs" "k \<notin> fst ` set ys"
  shows "\<exists>sink. poll_wallet C B le e s =
      s\<lparr>host_sink := sink, host_notify := (host_notify s)\<lparr>ns_wallets := xs @ (k, e\<lparr>ww_last_available_notified := avail k\<rparr>) # ys\<rparr>\<rparr> \<and>
    (\<forall>n. sink_fault sink n = None) \<and>
    written sink = written (host_sink s) @ (if avail k \<and> \<not> ww_last_available_notified e then frame le (enc k) else [])"
proof -
  from assms(7) have "map_of xs k = None" by (simp add: map_of_eq_None_iff)
  with assms(6) have entry: "map_of (ns_wallets (host_notify s)) k = Some e" by (simp add: map_add_def)
  from assms(1,5) have poll: "poll_wallet C B le e s =
      on_available B le \<lparr>rha_wallet_instance_id = k, rha_available = avail k\<rparr> s"
    by (simp add: poll_wallet_def answers_availability_def)
  have set: "set_notified k b (host_notify s) =
      (host_notify s)\<lparr>ns_wallets := xs @ (k, e\<lparr>ww_last_available_notified := b\<rparr>) # ys\<rparr>" for b
    using assms(6-8) by (simp add: set_notified_def map_modify_middle)
  obtain w' where w': "write_frame le (enc k) (host_sink s) = (Inr (), w')"
    "written w' = written (host_sink s) @ frame le (enc k)" "\<And>n. sink_fault w' n = None"
    using write_frame_unbroken [OF assms(3,4)] by blast
  show ?thesis
  proof (cases "avail k \<and> \<not> ww_last_available_notified e")
    case True
    with poll entry set w' assms(2) show ?thesis
      by (intro exI [of _ w']) (simp add: on_available_def emit_notification_def bind_def of_result_def)
  next
    case False
    have same: "(host_notify s)\<lparr>ns_wallets := xs @ (k, e) # ys\<rparr> = host_notify s" using assms(6) by (cases "host_notify s") simp
    show ?thesis
    proof (cases "avail k")
      case True
      with False have "e\<lparr>ww_last_available_notified := True\<rparr> = e" by (cases e) simp
      note mark = arg_cong [OF this, of "\<lambda>e. (host_notify s)\<lparr>ns_wallets := xs @ (k, e) # ys\<rparr>"]
      from True False poll entry have "poll_wallet C B le e s = s" by (simp add: on_available_def)
      with mark same True False assms(4) show ?thesis by (intro exI [of _ "host_sink s"]) simp
    next
      case False
      with poll entry set assms(4) show ?thesis by (intro exI [of _ "host_sink s"]) (simp add: on_available_def)
    qed
  qed
qed

lemma poll_available_effect:
  assumes C: "answers_availability C avail" and inv: "notify_inv (host_notify s)"
    and enc: "\<And>k. bridge_response_to_vec B (NbRequestAvailable k) = Inr (enc k)" "\<And>k. sendable (enc k)"
    and sink: "\<And>n. sink_fault (host_sink s) n = None"
  shows "\<exists>sink. poll_available C B le s =
      s\<lparr>host_sink := sink, host_notify := (host_notify s)\<lparr>ns_wallets := marked avail (ns_wallets (host_notify s))\<rparr>\<rparr> \<and>
    written sink = written (host_sink s) @ concat (map (frame le \<circ> enc) (news avail (ns_wallets (host_notify s)))) \<and>
    (\<forall>n. sink_fault sink n = None)"
proof -
  have "\<exists>sink. fold (poll_wallet C B le) (map snd ys) t =
      t\<lparr>host_sink := sink, host_notify := (host_notify t)\<lparr>ns_wallets := xs @ marked avail ys\<rparr>\<rparr> \<and>
      written sink = written (host_sink t) @ concat (map (frame le \<circ> enc) (news avail ys)) \<and>
      (\<forall>n. sink_fault sink n = None)"
    if "ns_wallets (host_notify t) = xs @ ys" "distinct (map fst (xs @ ys))"
      "\<forall>(k, e) \<in> set ys. ww_wallet_instance_id e = k" "\<forall>n. sink_fault (host_sink t) n = None" for xs ys t
    using that
  proof (induction ys arbitrary: xs t)
    case Nil
    then show ?case by (auto simp: marked_def news_def intro!: exI [of _ "host_sink t"])
  next
    case (Cons p ys)
    obtain k e where p: "p = (k, e)" by (cases p)
    from Cons.prems p poll_wallet_effect [OF C enc, where s = t and e = e and k = k and xs = xs and ys = ys and le = le] obtain sink where
      step: "poll_wallet C B le e t = t\<lparr>host_sink := sink,
          host_notify := (host_notify t)\<lparr>ns_wallets := xs @ (k, e\<lparr>ww_last_available_notified := avail k\<rparr>) # ys\<rparr>\<rparr>"
        "\<forall>n. sink_fault sink n = None"
        "written sink = written (host_sink t) @ (if avail k \<and> \<not> ww_last_available_notified e then frame le (enc k) else [])"
      by auto
    from Cons.IH [of "poll_wallet C B le e t" "xs @ [(k, e\<lparr>ww_last_available_notified := avail k\<rparr>)]"] Cons.prems p step
    show ?case by (auto simp: marked_def news_def)
  qed
  from this [of s "[]" "ns_wallets (host_notify s)"] inv sink show ?thesis
    by (auto simp: poll_available_def notify_inv_def ordered_def)
qed

lemma news_marked [simp]: "news avail (marked avail m) = []"
  by (induction m) (auto simp: news_def marked_def)

lemma notify_inv_marked: "notify_inv st \<Longrightarrow> notify_inv (st\<lparr>ns_wallets := marked avail (ns_wallets st)\<rparr>)"
  by (auto simp: notify_inv_def marked_def ordered_def case_prod_beta comp_def)

end
