(* ===== verification/Wire_Reference.thy ===== *)
theory Wire_Reference
  imports Reference Server_Rules Native_Host
begin

text \<open>
  A reference wire: decoders that know one resolve message, the texts the two ends exchange for it, and a
  daemon host with one browser backend. The witnesses of the properties on the server, the
  configuration and the native host run on it.
\<close>

definition ref_resolve_input :: RequestResolveValidationInput where
  "ref_resolve_input =
     \<lparr>rvi_wallet_instance_id = ''w'', rvi_request_id = ''r'', rvi_presentation_id = ''p'', rvi_result_kind = SignedMessage,
      rvi_signed_txn_bcs_hex = None, rvi_signature = Some ''sig'', rvi_created_account_address = None,
      rvi_created_account_public_key = None, rvi_created_account_curve = None, rvi_created_account_is_default = None,
      rvi_created_account_is_locked = None, rvi_exported_account_address = None, rvi_exported_account_output_file = None,
      rvi_imported_account_address = None, rvi_imported_account_public_key = None, rvi_imported_account_curve = None,
      rvi_imported_account_is_default = None, rvi_imported_account_is_locked = None\<rparr>"

definition ref_resolve_params :: RequestResolveParams where
  "ref_resolve_params = resolve_params ref_resolve_input"

definition ref_resolve_request :: "Value JsonRpcRequest" where
  "ref_resolve_request = JsonRpcRequest_new ''native-host'' ''request.resolve'' (VString ''resolve'')"

definition ref_serde :: Serde where
  "ref_serde =
     \<lparr>from_SystemPingParams = (\<lambda>_. Inl ''invalid parameters''),
      from_SystemGetInfoParams = (\<lambda>_. Inl ''invalid parameters''),
      from_WalletStatusParams = (\<lambda>_. Inl ''invalid parameters''),
      from_WalletListInstancesParams = (\<lambda>_. Inl ''invalid parameters''),
      from_WalletListAccountsParams = (\<lambda>_. Inl ''invalid parameters''),
      from_WalletGetPublicKeyParams = (\<lambda>_. Inl ''invalid parameters''),
      from_WalletSetAccountLabelParams = (\<lambda>_. Inl ''invalid parameters''),
      from_CreateAccountParams = (\<lambda>_. Inl ''invalid parameters''),
      from_CreateExportAccountParams = (\<lambda>_. Inl ''invalid parameters''),
      from_CreateImportAccountParams = (\<lambda>_. Inl ''invalid parameters''),
      from_CreateSignTransactionParams = (\<lambda>_. Inl ''invalid parameters''),
      from_CreateSignMessageParams = (\<lambda>_. Inl ''invalid parameters''),
      from_GetRequestStatusParams = (\<lambda>_. Inl ''invalid parameters''),
      from_RequestHasAvailableParams = (\<lambda>_. Inl ''invalid parameters''),
      from_CancelRequestParams = (\<lambda>_. Inl ''invalid parameters''),
      from_BackendRegisterParams = (\<lambda>_. Inl ''invalid parameters''),
      from_BackendHeartbeatParams = (\<lambda>_. Inl ''invalid parameters''),
      from_BackendUpdateAccountsParams = (\<lambda>_. Inl ''invalid parameters''),
      from_ExtensionRegisterParams = (\<lambda>_. Inl ''invalid parameters''),
      from_ExtensionHeartbeatParams = (\<lambda>_. Inl ''invalid parameters''),
      from_ExtensionUpdateAccountsParams = (\<lambda>_. Inl ''invalid parameters''),
      from_RequestPullNextParams = (\<lambda>_. Inl ''invalid parameters''),
      from_RequestPresentedParams = (\<lambda>_. Inl ''invalid parameters''),
      from_RequestResolveParams = (\<lambda>v. if v = VString ''resolve'' then Inr ref_resolve_params else Inl ''invalid parameters''),
      from_RequestRejectParams = (\<lambda>_. Inl ''invalid parameters''),
      to_value = (\<lambda>_. Inr VNull), value_to_vec = (\<lambda>_. Inr ''{}''),
      request_from_slice = (\<lambda>b. if b = ''resolve'' then Inr ref_resolve_request else Inl ''invalid request''),
      response_to_vec = (\<lambda>r. Inr (case r of RpcSuccess _ \<Rightarrow> ''ok'' | RpcError _ \<Rightarrow> ''error'')),
      response_debug = (\<lambda>_. ''response'')\<rparr>"

definition ref_client_serde :: ClientSerde where
  "ref_client_serde =
     \<lparr>enc_extension_register = (\<lambda>_. Inl ''not sent''), enc_extension_heartbeat = (\<lambda>_. Inl ''not sent''),
      enc_extension_update_accounts = (\<lambda>_. Inl ''not sent''), enc_request_pull_next = (\<lambda>_. Inl ''not sent''),
      enc_request_has_available = (\<lambda>_. Inl ''not sent''), enc_get_request_status = (\<lambda>_. Inl ''not sent''),
      enc_request_presented = (\<lambda>_. Inl ''not sent''),
      enc_request_resolve = (\<lambda>q. if rpc_params q = ref_resolve_params then Inr ''resolve'' else Inl ''not sent''),
      enc_request_reject = (\<lambda>_. Inl ''not sent''),
      dec_extension_registered = (\<lambda>_. Inl ''not read''),
      dec_ack = (\<lambda>b. if b = ''ok'' then Inr (RpcSuccess (JsonRpcSuccess_new ''native-host'' \<lparr>ack_ok = True\<rparr>))
                  else if b = ''error'' then Inr (RpcError (JsonRpcErrorResponse_new [] (SharedError_new InternalBridgeError [])))
                  else Inl ''not an answer''),
      dec_pull_next = (\<lambda>_. Inl ''not read''), dec_has_available = (\<lambda>_. Inl ''not read''),
      dec_request_status = (\<lambda>_. Inl ''not read'')\<rparr>"

lemma ref_serde_ok: "serde_ok ref_serde"
  by (simp add: serde_ok_def ref_serde_def)

lemma ref_serde_texts: "request_from_slice ref_serde ''resolve'' = Inr ref_resolve_request"
  "response_to_vec ref_serde (RpcSuccess x) = Inr ''ok''"
  by (simp_all add: ref_serde_def)

lemma ref_wire_ok: "resolve_wire_ok ref_client_serde ref_serde"
  by (auto simp: resolve_wire_ok_def ref_client_serde_def ref_serde_def ref_resolve_request_def JsonRpcRequest_new_def
      split: if_splits)

section \<open>A host\<close>

definition ref_host :: Host where
  "ref_host =
     \<lparr>env_var = (\<lambda>k. if k = ''STARMASKD_ALLOWED_EXTENSION_IDS'' then Some ''ext-b, ext-a'' else None),
      env_var_os = (\<lambda>k. if k = ''HOME'' then Some ''/home/user'' else None), target_macos = False,
      cargo_pkg_version = ''0.1.0'', effective_uid = 1000, path_exists = (\<lambda>_. False),
      read_to_string = (\<lambda>_. Inl ''no such file''), toml_from_str = (\<lambda>_. Inl ''invalid''),
      canonicalize = (\<lambda>p. Inr p), fs_metadata = (\<lambda>_. Inl ''no such file''), walk_dir = (\<lambda>_. [])\<rparr>"

definition ref_args :: ServeArgs where
  "ref_args = \<lparr>arg_config = None, arg_socket_path = None, arg_database_path = None, arg_log_level = None\<rparr>"

definition ref_policy :: ServerPolicy where
  "ref_policy = \<lparr>sp_channel = Development, sp_wallet_backends = []\<rparr>"

section \<open>A native host\<close>

definition ref_sink :: Sink where
  "ref_sink = \<lparr>written = [], sink_ops = 0, sink_fault = (\<lambda>_. None)\<rparr>"

definition ref_rpc :: "unit DaemonRpc" where
  "ref_rpc =
     \<lparr>rpc_extension_register = (\<lambda>_. err (SharedError_new RpcUnavailable [])),
      rpc_extension_heartbeat = (\<lambda>_. ok \<lparr>ack_ok = True\<rparr>), rpc_extension_update_accounts = (\<lambda>_. ok \<lparr>ack_ok = True\<rparr>),
      rpc_request_pull_next = (\<lambda>p. ok \<lparr>pnr_wallet_instance_id = rpnpar_wallet_instance_id p, pnr_request = None\<rparr>),
      rpc_request_has_available = (\<lambda>p. ok \<lparr>rha_wallet_instance_id = rhapar_wallet_instance_id p, rha_available = True\<rparr>),
      rpc_get_request_status = (\<lambda>_. err (SharedError_new RequestNotFound [])),
      rpc_request_presented = (\<lambda>_. ok \<lparr>ack_ok = True\<rparr>), rpc_request_resolve = (\<lambda>_. ok \<lparr>ack_ok = True\<rparr>),
      rpc_request_reject = (\<lambda>_. ok \<lparr>ack_ok = True\<rparr>)\<rparr>"

definition ref_bridge_serde :: BridgeSerde where
  "ref_bridge_serde =
     \<lparr>bridge_request_from_slice = (\<lambda>b. if b = [1] then Inr (NbRequestPullNext ''m'' ''w'') else Inl ''invalid message''),
      bridge_response_to_vec = (\<lambda>_. Inr [7])\<rparr>"

definition ref_host_state :: "unit HostState" where
  "ref_host_state = \<lparr>host_daemon = (), host_sink = ref_sink, host_notify = ensure_wallet ''w'' NotificationState_default\<rparr>"

end
