(* ===== verification/Daemon_Service.thy ===== *)
theory Daemon_Service
  imports Wire_Reference
begin

text \<open>
  The properties of the daemon seen from its socket: what a served request may do to the coordinator
  over SQLite, what a configuration that loads guarantees, and what the policy built from it accepts.
\<close>

section \<open>Serving requests\<close>





section \<open>Configuration and policy\<close>

text \<open>
  C34. A configuration that loads names at least one backend, no backend identifier and no extension
  identifier twice; extension backends ask in the browser and have a non-empty allowlist; local
  backends ask on the terminal and their account directory is canonical, has no link that leads out
  and, unless switched off, is private to the user; the timers make progress and a wallet is not
  called offline between two heartbeats.
\<close>

theorem loaded_config_sound:
  assumes "RuntimeConfig_load h args = Inr rc"
  shows "rc_wallet_backends rc \<noteq> [] \<and> list_all (backend_ok h) (rc_wallet_backends rc) \<and>
    distinct (map backend_id (rc_wallet_backends rc)) \<and>
    distinct (concat (map extension_ids_of (rc_wallet_backends rc))) \<and>
    1 \<le> rc_maintenance_interval rc \<and> 1 \<le> rc_heartbeat_interval rc \<and>
    rc_heartbeat_interval rc < cfg_wallet_offline_after (rc_coordinator rc) \<and>
    has_parent (rc_socket_path rc) \<and> has_parent (rc_database_path rc)"
proof -
  from assms obtain ch fc where "build_wallet_backends h ch fc = Inr (rc_wallet_backends rc)"
    and rest: "rc_wallet_backends rc \<noteq> []" "1 \<le> rc_maintenance_interval rc" "1 \<le> rc_heartbeat_interval rc"
      "rc_heartbeat_interval rc < cfg_wallet_offline_after (rc_coordinator rc)"
      "has_parent (rc_socket_path rc)" "has_parent (rc_database_path rc)"
    by (auto simp: RuntimeConfig_load_def Let_def anyhow_simps validate_paths_def load_coordinator_config_def)
  from build_wallet_backends_Inr [OF this(1)] rest show ?thesis by (simp add: backends_ok_def)
qed

theorem loaded_config_sound_witness:
  "\<exists>rc. RuntimeConfig_load ref_host ref_args = Inr rc \<and> list_all (backend_ok ref_host) (rc_wallet_backends rc) \<and>
     distinct (concat (map extension_ids_of (rc_wallet_backends rc)))"
proof -
  have "\<not> isl (RuntimeConfig_load ref_host ref_args)" by code_simp
  then obtain rc where h: "RuntimeConfig_load ref_host ref_args = Inr rc"
    by (cases "RuntimeConfig_load ref_host ref_args") auto
  from loaded_config_sound [OF h] h show ?thesis by blast
qed

text \<open>
  C35. Under the policy of a configuration that loads, an extension is accepted exactly when a
  configured backend lists it, by that backend alone, and a wallet counts as a local backend exactly
  when one is configured under its identifier.
\<close>

theorem loaded_policy_exact:
  assumes "RuntimeConfig_load h args = Inr rc" "P = ServerPolicy_new (rc_channel rc) (rc_wallet_backends rc)"
  shows "(accepts_extension P x = Some ext \<longleftrightarrow>
      ExtensionBackend ext \<in> set (rc_wallet_backends rc) \<and> x \<in> set (se_allowed_extension_ids ext)) \<and>
    (configured_local_backend P w = Some dir \<longleftrightarrow>
      LocalBackend dir \<in> set (rc_wallet_backends rc) \<and> cb_backend_id (la_common dir) = w)"
proof -
  from assms obtain ch fc where "build_wallet_backends h ch fc = Inr (rc_wallet_backends rc)"
    by (auto simp: RuntimeConfig_load_def Let_def anyhow_simps)
  note ok = build_wallet_backends_Inr [OF this, unfolded backends_ok_def]
  have bs: "sp_wallet_backends P = rc_wallet_backends rc" by (simp add: assms(2) ServerPolicy_new_def)
  from ok have "distinct (map backend_id (sp_wallet_backends P))" "distinct (concat (map extension_ids_of (sp_wallet_backends P)))"
    unfolding bs by blast+
  from accepts_extension_unique [OF this(2), of ext x] configured_local_backend_unique [OF this(1), of w dir]
    accepts_extension_SomeD [of P x ext] configured_local_backend_SomeD [of P w dir]
  show ?thesis unfolding local_configured_def bs by blast
qed

theorem loaded_policy_exact_witness:
  "\<exists>rc ext. RuntimeConfig_load ref_host ref_args = Inr rc \<and>
     accepts_extension (ServerPolicy_new (rc_channel rc) (rc_wallet_backends rc)) ''ext-a'' = Some ext \<and>
     ''ext-a'' \<in> set (se_allowed_extension_ids ext)"
proof -
  have "(case RuntimeConfig_load ref_host ref_args of Inl _ \<Rightarrow> False
      | Inr rc \<Rightarrow> accepts_extension (ServerPolicy_new (rc_channel rc) (rc_wallet_backends rc)) ''ext-a'' \<noteq> None)"
    by code_simp
  then obtain rc ext where h: "RuntimeConfig_load ref_host ref_args = Inr rc"
    "accepts_extension (ServerPolicy_new (rc_channel rc) (rc_wallet_backends rc)) ''ext-a'' = Some ext"
    by (auto split: sum.splits)
  from loaded_policy_exact [OF h(1) refl, of "''ext-a''" ext] h show ?thesis by blast
qed

end
