(* ===== verification/Native_Service.thy ===== *)
theory Native_Service
  imports Daemon_Service
begin

text \<open>
  The properties of the native messaging host: its frames, its main loop, its notifications, and the way of a
  decision from the extension through bridge, client, socket and server into the database.
\<close>

section \<open>Frames\<close>

text \<open>
  C36. What is written as frames is read back as the same payloads in the same order, however the
  bytes are cut into pieces on their way, on little and big endian targets.
\<close>

theorem frames_read_back:
  assumes "write_frames le bodies w = (Inr (), w')"
  shows "\<exists>bytes. written w' = written w @ bytes \<and> (\<forall>segs. plain_bytes segs = Some bytes \<longrightarrow> read_frames le segs = Inr bodies)"
  using write_frames_Inr [OF assms] read_frames_plain [of _ le bodies] by blast

theorem frames_read_back_witness:
  "\<exists>w' bytes. write_frames True [[1, 2], [], [3]] ref_sink = (Inr (), w') \<and> written w' = bytes \<and>
     read_frames True (map (\<lambda>b. Data [b]) bytes) = Inr [[1, 2], [], [3]]"
proof -
  obtain w' where w: "write_frames True [[1, 2], [], [3]] ref_sink = (Inr (), w')"
    by (simp add: ref_sink_def write_frame_def Let_def NATIVE_BRIDGE_MAX_OUTBOUND_BYTES_def bind_def write_all_def ok_def)
  have single: "plain_bytes (map (\<lambda>b. Data [b]) bytes) = Some bytes" for bytes by (induction bytes) simp_all
  from frames_read_back [OF w] w single show ?thesis by (auto simp: ref_sink_def)
qed

section \<open>The main loop\<close>



section \<open>Decisions\<close>

text \<open>
  C38. When the extension resolves a request over the bridge, the requests in the database stay as they
  were, or the named request becomes approved with the result the message carries, under the
  conditions of \<open>may_resolve\<close>; an acknowledgement is only ever sent in the second case. This holds for
  every failure of the socket on the way.
\<close>

theorem bridge_resolve_approves:
  assumes "env_ok env" "coord_inv (sqlite_view env) c" "resolve_wire_ok E D"
    "nonblank (rvi_wallet_instance_id input)" "nonblank (rvi_request_id input)" "nonblank (rvi_presentation_id input)"
    "handle_request (LocalDaemonClient E (daemon_exchange D (sqlite_traits env Q J H) P fault)) (NbRequestResolve mid input) (Running c)
      = (response, s')"
  shows "\<exists>c'. s' = Running c' \<and>
    (db_reqs env (store c') = db_reqs env (store c) \<and> response \<noteq> NbExtensionAck mid \<or>
     (\<exists>r rec. request_result_from_params (resolve_params input) = Inr r \<and> result_kind r = rvi_result_kind input \<and>
        db_reqs env (store c) (rvi_request_id input) = Some rec \<and>
        may_resolve (bridge_resolve_command input r) (reading c 0) rec \<and>
        db_reqs env (store c') =
          (db_reqs env (store c))(rvi_request_id input \<mapsto> approved_request (config c) (reading c 0) r rec)))"
  using bridge_resolve_reaches [OF assms(3-7)]
proof (elim disjE exE conjE)
  fix r res c' assume h: "request_result_from_params (resolve_params input) = Inr r" "result_kind r = rvi_result_kind input"
    "resolve_request (sqlite_traits env Q J H) (bridge_resolve_command input r) c = (res, c')" "s' = Running c'"
    "response = NbExtensionAck mid \<longrightarrow> (\<exists>y. res = Inr y)"
  from coordinator_store.resolve_request_acts [OF sqlite_coordinator [OF assms(1)] assms(2) h(3)] h show ?thesis
    by (cases res) (auto simp: acts_on_def unchanged_def bridge_resolve_command_def)
qed auto

theorem bridge_resolve_approves_witness:
  "\<exists>c' r'. handle_request (LocalDaemonClient ref_client_serde (daemon_exchange ref_serde ref_traits ref_policy None))
       (NbRequestResolve ''m'' ref_resolve_input) (Running (ref_state 4)) = (NbExtensionAck ''m'', Running c') \<and>
     db_reqs ref_env (store c') ''r'' = Some r' \<and> result r' = Some (RSignedMessage ''sig'')"
proof -
  let ?h = "handle_request (LocalDaemonClient ref_client_serde (daemon_exchange ref_serde ref_traits ref_policy None))
    (NbRequestResolve ''m'' ref_resolve_input) (Running (ref_state 4))"
  have "\<not> isl (fst (dispatch_request ref_serde ref_traits ref_policy ref_resolve_request (Running (ref_state 4))))" by code_simp
  then obtain reply s' where d: "dispatch_request ref_serde ref_traits ref_policy ref_resolve_request (Running (ref_state 4)) = (Inr reply, s')"
    by (rule runs_okE)
  have v: "validate_request_resolve_params ref_resolve_input = Inr ref_resolve_params" by code_simp
  have h: "?h = (NbExtensionAck ''m'', s')"
    using d dispatch_request_success [OF d]
    by (auto simp: handle_request_def map_call_def bind_def of_result_def v LocalDaemonClient_def host_call_def client_call_def JsonRpcRequest_new_def JsonRpcSuccess_new_def map_err_def
        ref_client_serde_def daemon_exchange_def handle_connection_stream MAX_REQUEST_BYTES_def MAX_RESPONSE_BYTES_def ok_def
        ref_serde_texts)
  have ids: "nonblank (rvi_wallet_instance_id ref_resolve_input)" "nonblank (rvi_request_id ref_resolve_input)"
    "nonblank (rvi_presentation_id ref_resolve_input)" by code_simp+
  have "request_result_from_params (resolve_params ref_resolve_input) = Inr (RSignedMessage ''sig'')"
    "rvi_request_id ref_resolve_input = ''r''" by code_simp+
  with bridge_resolve_approves [OF ref_env_ok ref_state_inv ref_wire_ok ids h] h show ?thesis
    by (auto simp: approved_request_def)
qed

section \<open>Notifications\<close>



end
