(* ===== verification/Agent_Terminal.thy ===== *)
theory Agent_Terminal
  imports Native_Framing Coordinator_Types
begin

text \<open>
  What the local account agent shows on the terminal (the rendering half of
  \<open>starmask-local-account-agent/src/tty_prompt.rs\<close>). A \<open>String\<close> is its UTF-8 bytes and \<open>chars\<close>
  its Unicode scalar values; what is drawn is a list of scalar values. The types of the Starcoin crates are
  the values their accessors return, over a type of account addresses; \<open>Chain\<close> holds the functions of these
  crates: printing and reading addresses, BCS and hexadecimal decoding.
\<close>

section \<open>Characters\<close>

type_synonym scalar = nat

definition continuation :: "string \<Rightarrow> nat \<Rightarrow> nat" where
  "continuation s i = (if i < length s then of_char (s ! i) mod 64 else 0)"

function chars :: "string \<Rightarrow> scalar list" where
  "chars [] = []"
| "chars (a # s) =
     (let x = of_char a :: nat in
      if x < 128 then x # chars s
      else if x < 224 then (x mod 32 * 64 + continuation s 0) # chars (drop 1 s)
      else if x < 240 then (x mod 16 * 4096 + continuation s 0 * 64 + continuation s 1) # chars (drop 2 s)
      else (x mod 8 * 262144 + continuation s 0 * 4096 + continuation s 1 * 64 + continuation s 2) # chars (drop 3 s))"
  by pat_completeness auto
termination by (relation "measure length") auto

definition lit :: "string \<Rightarrow> scalar list" where
  "lit s = map of_char s"

definition is_control :: "scalar \<Rightarrow> bool" where
  "is_control c \<longleftrightarrow> c < 32 \<or> 127 \<le> c \<and> c < 160"

definition between :: "scalar \<Rightarrow> scalar \<times> scalar \<Rightarrow> bool" where
  "between c r \<longleftrightarrow> fst r \<le> c \<and> c \<le> snd r"

definition format_ranges :: "(scalar \<times> scalar) list" where
  "format_ranges =
     [(0x00ad, 0x00ad), (0x0600, 0x0605), (0x061c, 0x061c), (0x06dd, 0x06dd), (0x070f, 0x070f), (0x0890, 0x0891),
      (0x08e2, 0x08e2), (0x180e, 0x180e), (0x200b, 0x200f), (0x202a, 0x202e), (0x2060, 0x2064), (0x2066, 0x206f),
      (0xfeff, 0xfeff), (0xfff9, 0xfffb), (0x110bd, 0x110bd), (0x110cd, 0x110cd), (0x13430, 0x1343f),
      (0x1bca0, 0x1bca3), (0x1d173, 0x1d17a), (0xe0001, 0xe0001), (0xe0020, 0xe007f)]"

definition is_unicode_format_character :: "scalar \<Rightarrow> bool" where
  "is_unicode_format_character c \<longleftrightarrow> list_ex (between c) format_ranges"

definition hex_digit :: "nat \<Rightarrow> scalar" where
  "hex_digit d = (if d < 10 then 48 + d else 87 + d)"

fun hex_lower :: "nat \<Rightarrow> scalar list" where
  "hex_lower n = (if n < 16 then [hex_digit n] else hex_lower (n div 16) @ [hex_digit (n mod 16)])"

declare hex_lower.simps [simp del] decimal.simps [simp del]

text \<open>92 is the backslash, 117 \<open>u\<close>, 123 and 125 the braces, 110, 114 and 116 are \<open>n\<close>, \<open>r\<close> and \<open>t\<close>.\<close>

definition sanitize_char :: "scalar \<Rightarrow> scalar list" where
  "sanitize_char c =
     (if c = 92 then [92, 92]
      else if c = 10 then [92, 110]
      else if c = 13 then [92, 114]
      else if c = 9 then [92, 116]
      else if is_control c \<or> is_unicode_format_character c then [92, 117, 123] @ hex_lower c @ [125]
      else [c])"

definition sanitize_for_tty :: "scalar list \<Rightarrow> scalar list" where
  "sanitize_for_tty input = concat (map sanitize_char input)"

section \<open>Cards\<close>

definition CARD_INNER_WIDTH :: nat where "CARD_INNER_WIDTH = 76"

definition PREVIEW_SUFFIX :: "scalar list" where "PREVIEW_SUFFIX = lit ''...''"

definition truncate_chars :: "scalar list \<Rightarrow> nat \<Rightarrow> scalar list" where
  "truncate_chars input max_chars =
     (if length input \<le> max_chars then input
      else if max_chars \<le> length PREVIEW_SUFFIX then take max_chars PREVIEW_SUFFIX
      else take (max_chars - length PREVIEW_SUFFIX) input @ PREVIEW_SUFFIX)"

fun split_loop :: "nat \<Rightarrow> scalar list list \<Rightarrow> scalar list \<Rightarrow> nat \<Rightarrow> scalar list \<Rightarrow> scalar list list" where
  "split_loop continuation_width ready current limit [] =
     (let all = (if current = [] then ready else ready @ [current]) in if all = [] then [[]] else all)"
| "split_loop continuation_width ready current limit (c # cs) =
     (if length current = limit
      then split_loop continuation_width (ready @ [current]) [c] (max continuation_width 1) cs
      else split_loop continuation_width ready (current @ [c]) limit cs)"

definition split_by_width :: "scalar list \<Rightarrow> nat \<Rightarrow> nat \<Rightarrow> scalar list list" where
  "split_by_width input first_width continuation_width = split_loop continuation_width [] [] (max first_width 1) input"

definition write_card_border :: "scalar list \<Rightarrow> scalar list" where
  "write_card_border output = output @ lit ''+'' @ replicate (CARD_INNER_WIDTH + 2) 45 @ lit ''+'' @ [10]"

definition write_card_text_line :: "scalar list \<Rightarrow> scalar list \<Rightarrow> scalar list" where
  "write_card_text_line content output =
     (let preview = truncate_chars content CARD_INNER_WIDTH; padding = CARD_INNER_WIDTH - length preview
      in output @ lit ''| '' @ preview @ replicate padding 32 @ lit '' |'' @ [10])"

definition write_card_section_heading :: "string \<Rightarrow> scalar list \<Rightarrow> scalar list" where
  "write_card_section_heading heading output = write_card_text_line (lit heading) (write_card_border output)"

definition write_card_field :: "bool \<Rightarrow> string \<Rightarrow> string \<Rightarrow> scalar list \<Rightarrow> scalar list" where
  "write_card_field full name v output =
     (let sanitized = sanitize_for_tty (chars v);
          prefix = lit (''  '' @ name @ '': '');
          continuation_prefix = replicate (length prefix) 32;
          first_width = CARD_INNER_WIDTH - length prefix;
          continuation_width = CARD_INNER_WIDTH - length continuation_prefix
      in if \<not> full then write_card_text_line (prefix @ truncate_chars sanitized first_width) output
         else case split_by_width sanitized first_width continuation_width of
                [] \<Rightarrow> output
              | first_segment # segments \<Rightarrow>
                  fold (\<lambda>segment. write_card_text_line (continuation_prefix @ segment)) segments
                    (write_card_text_line (prefix @ first_segment) output))"

definition write_card_field_preview :: "string \<Rightarrow> string \<Rightarrow> scalar list \<Rightarrow> scalar list" where
  "write_card_field_preview = write_card_field False"

definition write_card_field_full :: "string \<Rightarrow> string \<Rightarrow> scalar list \<Rightarrow> scalar list" where
  "write_card_field_full = write_card_field True"

section \<open>Values of the Starcoin crates\<close>

record 'a AccountInfo =
  ai_address :: 'a
  ai_is_default :: bool
  ai_is_readonly :: bool
  ai_is_locked :: bool
  ai_public_key_bytes :: "byte list"

record 'a ScriptFunction =
  sf_module_address :: 'a
  sf_module_name :: string
  sf_function :: string
  sf_ty_args :: "string list"
  sf_args :: "byte list list"

datatype 'a TxnPayload =
  ScriptPayload "byte list" "string list" "byte list list"
  | PackagePayload 'a "byte list list" bool
  | ScriptFunctionPayload "'a ScriptFunction"

record 'a RawUserTransaction =
  rt_chain_id :: "8 word"
  rt_sender :: 'a
  rt_sequence_number :: u64
  rt_payload :: "'a TxnPayload"
  rt_max_gas_amount :: u64
  rt_gas_unit_price :: u64
  rt_gas_token_code :: string
  rt_expiration_timestamp_secs :: u64

record 'a Chain =
  address_to_string :: "'a \<Rightarrow> string"
  address_from_str :: "string \<Rightarrow> string + 'a"
  address_from_bcs :: "byte list \<Rightarrow> string + 'a"
  u128_from_bcs :: "byte list \<Rightarrow> string + nat"
  raw_txn_from_bcs :: "byte list \<Rightarrow> string + 'a RawUserTransaction"
  core_code_address :: 'a
  hex_decode :: "string \<Rightarrow> string + byte list"
  hex_encode :: "byte list \<Rightarrow> string"

section \<open>Labels and decoding\<close>

definition format_optional_path :: "string option \<Rightarrow> string" where
  "format_optional_path v = (case v of None \<Rightarrow> ''missing'' | Some p \<Rightarrow> p)"

definition requested_account_label :: "string \<Rightarrow> string" where
  "requested_account_label a = (if trim a = [] then ''missing'' else a)"

definition format_flag :: "bool \<Rightarrow> string" where
  "format_flag v = (if v then ''true'' else ''false'')"

definition request_kind_label :: "RequestKind \<Rightarrow> string" where
  "request_kind_label k =
     (case k of SignTransaction \<Rightarrow> ''sign_transaction'' | SignMessage \<Rightarrow> ''sign_message''
      | CreateAccount \<Rightarrow> ''create_account'' | ExportAccount \<Rightarrow> ''export_account'' | ImportAccount \<Rightarrow> ''import_account'')"

definition message_format_label :: "MessageFormat \<Rightarrow> string" where
  "message_format_label f = (case f of Utf8 \<Rightarrow> ''utf8'' | Hex \<Rightarrow> ''hex'')"

fun payload_type_label :: "'a TxnPayload \<Rightarrow> string" where
  "payload_type_label (ScriptPayload _ _ _) = ''script''"
| "payload_type_label (PackagePayload _ _ _) = ''package''"
| "payload_type_label (ScriptFunctionPayload _) = ''script_function''"

definition format_expiration :: "u64 \<Rightarrow> string" where
  "format_expiration secs = (if secs = - 1 then ''never'' else u64_to_string secs @ '' (unix seconds)'')"

definition strip_0x :: "string \<Rightarrow> string" where
  "strip_0x s = (if take 2 s = ''0x'' then drop 2 s else s)"

definition decode_hex_bytes :: "'a Chain \<Rightarrow> string \<Rightarrow> string + byte list" where
  "decode_hex_bytes X input =
     (case hex_decode X (strip_0x input) of Inl e \<Rightarrow> Inl (''invalid hex payload: '' @ e) | Inr bs \<Rightarrow> Inr bs)"

definition format_hex_bytes :: "'a Chain \<Rightarrow> byte list \<Rightarrow> string" where
  "format_hex_bytes X bs = ''0x'' @ hex_encode X bs"

definition decode_raw_transaction :: "'a Chain \<Rightarrow> string \<Rightarrow> string + 'a RawUserTransaction" where
  "decode_raw_transaction X raw_txn_bcs_hex =
     (case decode_hex_bytes X raw_txn_bcs_hex of
        Inl e \<Rightarrow> Inl e
      | Inr bs \<Rightarrow> (case raw_txn_from_bcs X bs of Inl e \<Rightarrow> Inl (''Invalid raw transaction payload: '' @ e) | Inr t \<Rightarrow> Inr t))"

definition shorten_account_address :: "'a Chain \<Rightarrow> 'a \<Rightarrow> string" where
  "shorten_account_address X a =
     (let full = address_to_string X a in
      if take 2 full \<noteq> ''0x'' then full
      else let rest = dropWhile (\<lambda>c. c = CHR ''0'') (drop 2 full) in if rest = [] then ''0x0'' else ''0x'' @ rest)"

definition format_script_function_target :: "'a Chain \<Rightarrow> 'a ScriptFunction \<Rightarrow> string" where
  "format_script_function_target X f =
     shorten_account_address X (sf_module_address f) @ ''::'' @ sf_module_name f @ ''::'' @ sf_function f"

fun join_with :: "string \<Rightarrow> string list \<Rightarrow> string" where
  "join_with sep [] = []"
| "join_with sep [s] = s"
| "join_with sep (s # t # rest) = s @ sep @ join_with sep (t # rest)"

definition format_type_tags :: "string list \<Rightarrow> string" where
  "format_type_tags type_tags = join_with '', '' type_tags"

definition canonical_message_byte_len :: "'a Chain \<Rightarrow> PulledRequest \<Rightarrow> string + nat option" where
  "canonical_message_byte_len X r =
     (case pr_message r of
        None \<Rightarrow> Inr None
      | Some m \<Rightarrow>
          (case pr_message_format r of
             None \<Rightarrow> Inr None
           | Some Utf8 \<Rightarrow> Inr (Some (length m))
           | Some Hex \<Rightarrow>
               (case decode_hex_bytes X m of Inl e \<Rightarrow> Inl (''invalid hex message: '' @ e) | Inr bs \<Rightarrow> Inr (Some (length bs)))))"

record TransferDetails =
  td_recipient :: string
  td_amount :: string
  td_asset :: "string option"

definition decode_transfer_script_function :: "'a Chain \<Rightarrow> 'a ScriptFunction \<Rightarrow> TransferDetails option" where
  "decode_transfer_script_function X f =
     (if sf_module_address f \<noteq> core_code_address X \<or> sf_module_name f \<noteq> ''TransferScripts'' then None
      else if sf_function f \<noteq> ''peer_to_peer_v2'' then None
      else case sf_args f of
             [a, b] \<Rightarrow>
               (case (address_from_bcs X a, u128_from_bcs X b) of
                  (Inr recipient, Inr amount) \<Rightarrow>
                    Some \<lparr>td_recipient = address_to_string X recipient, td_amount = decimal amount,
                          td_asset = (case sf_ty_args f of [] \<Rightarrow> None | t # _ \<Rightarrow> Some t)\<rparr>
                | _ \<Rightarrow> None)
           | _ \<Rightarrow> None)"

section \<open>Sections\<close>

text \<open>The writers append to \<open>output\<close>; \<open>writes\<close> runs them in order.\<close>

definition writes :: "(scalar list \<Rightarrow> scalar list) list \<Rightarrow> scalar list \<Rightarrow> scalar list" where
  "writes ws output = fold (\<lambda>w. w) ws output"

definition write_request_section :: "PulledRequest \<Rightarrow> scalar list \<Rightarrow> scalar list" where
  "write_request_section r = writes
     ([write_card_section_heading ''Request'',
       write_card_field_preview ''Request ID'' (pr_request_id r),
       write_card_field_preview ''Client Request ID (untrusted)'' (pr_client_request_id r),
       write_card_field_preview ''Kind'' (request_kind_label (pr_kind r)),
       write_card_field_preview ''Payload Hash'' (pr_payload_hash r),
       write_card_field_preview ''Resume Required'' (format_flag (pr_resume_required r))] @
      (case pr_presentation_id r of None \<Rightarrow> [] | Some p \<Rightarrow> [write_card_field_preview ''Presentation ID'' p]))"

definition write_account_section :: "PulledRequest \<Rightarrow> 'a AccountInfo \<Rightarrow> scalar list \<Rightarrow> scalar list" where
  "write_account_section r info = writes
     [write_card_section_heading ''Account'',
      write_card_field_preview ''Account'' (pr_account_address r),
      write_card_field_preview ''Account Locked'' (format_flag (ai_is_locked info))]"

definition write_create_account_section :: "scalar list \<Rightarrow> scalar list" where
  "write_create_account_section = writes
     [write_card_section_heading ''Account Creation'',
      write_card_field_preview ''Operation'' ''create_local_account'',
      write_card_field_preview ''Password Handling''
        ''password is entered locally on this terminal and is not sent by the host'']"

definition write_export_account_section :: "PulledRequest \<Rightarrow> scalar list \<Rightarrow> scalar list" where
  "write_export_account_section r = writes
     [write_card_section_heading ''Account Export'',
      write_card_field_preview ''Operation'' ''export_local_account_private_key'',
      write_card_field_preview ''Output File'' (format_optional_path (pr_output_file r)),
      write_card_field_preview ''Overwrite Existing File'' (format_flag (pr_force r)),
      write_card_field_preview ''Password Handling''
        ''account password is entered locally on this terminal and is not sent by the host'']"

definition write_import_account_section :: "PulledRequest \<Rightarrow> scalar list \<Rightarrow> scalar list" where
  "write_import_account_section r = writes
     [write_card_section_heading ''Account Import'',
      write_card_field_preview ''Operation'' ''import_local_account_private_key'',
      write_card_field_preview ''Private Key File'' (format_optional_path (pr_private_key_file r)),
      write_card_field_preview ''Requested Account'' (requested_account_label (pr_account_address r)),
      write_card_field_preview ''Password Handling''
        ''new account password is entered locally on this terminal and is not sent by the host'']"

definition write_numbered_args :: "'a Chain \<Rightarrow> byte list list \<Rightarrow> scalar list \<Rightarrow> scalar list" where
  "write_numbered_args X args = writes
     (map (\<lambda>(i, arg). write_card_field_full (''Arg '' @ decimal (i + 1)) (format_hex_bytes X arg)) (enumerate 0 args))"

fun write_payload_fields :: "'a Chain \<Rightarrow> bool \<Rightarrow> 'a TxnPayload \<Rightarrow> scalar list \<Rightarrow> scalar list" where
  "write_payload_fields X include_raw (ScriptPayload code_bytes ty_args args) = writes
     ([write_card_field_preview ''Script Code Bytes'' (decimal (length code_bytes))] @
      (if ty_args = [] then [] else [write_card_field_preview ''Type Args'' (format_type_tags ty_args)]) @
      [write_card_field_preview ''Argument Count'' (decimal (length args))] @
      (if include_raw then [write_numbered_args X args] else []))"
| "write_payload_fields X include_raw (ScriptFunctionPayload f) = writes
     ([write_card_field_preview ''Target Function'' (format_script_function_target X f)] @
      (if sf_ty_args f = [] then [] else [write_card_field_preview ''Type Args'' (format_type_tags (sf_ty_args f))]) @
      (case decode_transfer_script_function X f of
         Some d \<Rightarrow>
           [write_card_field_preview ''Transaction Kind'' ''transfer'',
            write_card_field_preview ''Recipient'' (td_recipient d),
            write_card_field_preview ''Amount'' (td_amount d)] @
           (case td_asset d of None \<Rightarrow> [] | Some a \<Rightarrow> [write_card_field_preview ''Asset'' a])
       | None \<Rightarrow> [write_card_field_preview ''Argument Count'' (decimal (length (sf_args f)))]) @
      (if include_raw then [write_numbered_args X (sf_args f)]
       else case sf_args f of
              [] \<Rightarrow> []
            | arg # _ \<Rightarrow> [write_card_field_preview ''Argument Preview'' (format_hex_bytes X arg)]))"
| "write_payload_fields X include_raw (PackagePayload addr modules has_init) = writes
     ([write_card_field_preview ''Package Address'' (address_to_string X addr),
       write_card_field_preview ''Module Count'' (decimal (length modules)),
       write_card_field_preview ''Has Init Script'' (format_flag has_init)] @
      (if include_raw
       then map (\<lambda>(i, m). write_card_field_full (''Module '' @ decimal (i + 1) @ '' Bytes'') (decimal (length m))) (enumerate 0 modules)
       else []))"

definition write_decoded_transaction_fields :: "'a Chain \<Rightarrow> 'a RawUserTransaction \<Rightarrow> bool \<Rightarrow> scalar list \<Rightarrow> scalar list" where
  "write_decoded_transaction_fields X t include_raw = writes
     [write_card_field_preview ''Chain ID'' (decimal (unat (rt_chain_id t))),
      write_card_field_preview ''Sender'' (address_to_string X (rt_sender t)),
      write_card_field_preview ''Sequence Number'' (u64_to_string (rt_sequence_number t)),
      write_card_field_preview ''Payload Type'' (payload_type_label (rt_payload t)),
      write_card_field_preview ''Gas Unit Price'' (u64_to_string (rt_gas_unit_price t)),
      write_card_field_preview ''Max Gas Amount'' (u64_to_string (rt_max_gas_amount t)),
      write_card_field_preview ''Gas Token'' (rt_gas_token_code t),
      write_card_field_preview ''Max Fee Budget''
        (decimal (unat (rt_max_gas_amount t) * unat (rt_gas_unit_price t)) @ '' '' @ rt_gas_token_code t),
      write_card_field_preview ''Expiration'' (format_expiration (rt_expiration_timestamp_secs t)),
      write_payload_fields X include_raw (rt_payload t)]"

definition write_transaction_section :: "'a Chain \<Rightarrow> PulledRequest \<Rightarrow> scalar list \<Rightarrow> scalar list" where
  "write_transaction_section X r = writes
     (write_card_section_heading ''Transaction'' #
      (case pr_raw_txn_bcs_hex r of
         Some raw \<Rightarrow>
           (case decode_raw_transaction X raw of
              Inr t \<Rightarrow> [write_decoded_transaction_fields X t False]
            | Inl e \<Rightarrow> [write_card_field_preview ''Decode Error'' e, write_card_field_preview ''Raw BCS Preview'' raw])
       | None \<Rightarrow> [write_card_field_preview ''Raw Transaction BCS'' ''missing'']))"

definition byte_length_field :: "'a Chain \<Rightarrow> (string \<Rightarrow> string \<Rightarrow> scalar list \<Rightarrow> scalar list) \<Rightarrow> PulledRequest \<Rightarrow>
    (scalar list \<Rightarrow> scalar list) list" where
  "byte_length_field X field r =
     (case canonical_message_byte_len X r of
        Inr (Some n) \<Rightarrow> [field ''Byte Length'' (decimal n)]
      | Inr None \<Rightarrow> []
      | Inl e \<Rightarrow> [field ''Message Decode Error'' e])"

definition write_message_section :: "'a Chain \<Rightarrow> PulledRequest \<Rightarrow> scalar list \<Rightarrow> scalar list" where
  "write_message_section X r = writes
     ([write_card_section_heading ''Message''] @
      (case pr_message_format r of None \<Rightarrow> [] | Some f \<Rightarrow> [write_card_field_preview ''Message Format'' (message_format_label f)]) @
      byte_length_field X write_card_field_preview r @
      [write_card_field_preview ''Canonical Message'' (case pr_message r of Some m \<Rightarrow> m | None \<Rightarrow> ''missing'')])"

definition write_context_section :: "PulledRequest \<Rightarrow> scalar list \<Rightarrow> scalar list" where
  "write_context_section r output =
     (if pr_display_hint r = None \<and> pr_client_context r = None then output
      else writes
        ([write_card_section_heading ''Context''] @
         (case pr_display_hint r of None \<Rightarrow> [] | Some h \<Rightarrow> [write_card_field_preview ''Display Hint (untrusted)'' h]) @
         (case pr_client_context r of None \<Rightarrow> [] | Some c \<Rightarrow> [write_card_field_preview ''Client Context (untrusted)'' c])) output)"

definition write_actions_section :: "scalar list \<Rightarrow> scalar list" where
  "write_actions_section = writes
     [write_card_section_heading ''Actions'',
      write_card_text_line (lit ''  [a] approve''),
      write_card_text_line (lit ''  [r] reject''),
      write_card_text_line (lit ''  [v] view raw canonical payload'')]"

section \<open>Summaries\<close>

definition write_title :: "string \<Rightarrow> scalar list \<Rightarrow> scalar list" where
  "write_title title = writes [write_card_border, write_card_text_line (lit title), write_card_border]"

definition render_request_summary :: "'a Chain \<Rightarrow> PulledRequest \<Rightarrow> 'a AccountInfo \<Rightarrow> scalar list" where
  "render_request_summary X r info =
     writes
       [write_title ''Starmask Local Signing Request'',
        write_request_section r,
        write_account_section r info,
        (case pr_kind r of
           SignTransaction \<Rightarrow> write_transaction_section X r
         | SignMessage \<Rightarrow> write_message_section X r
         | CreateAccount \<Rightarrow> write_create_account_section
         | ExportAccount \<Rightarrow> write_export_account_section r
         | ImportAccount \<Rightarrow> write_import_account_section r),
        write_context_section r,
        write_actions_section,
        write_card_border] [10] @ [10]"

definition render_create_account_summary :: "PulledRequest \<Rightarrow> scalar list" where
  "render_create_account_summary r =
     writes
       [write_title ''Starmask Local Account Creation Request'',
        write_request_section r,
        write_create_account_section,
        write_context_section r,
        write_actions_section,
        write_card_border] [10] @ [10]"

definition render_import_account_summary :: "PulledRequest \<Rightarrow> scalar list" where
  "render_import_account_summary r =
     writes
       [write_title ''Starmask Local Account Import Request'',
        write_request_section r,
        write_import_account_section r,
        write_context_section r,
        write_actions_section,
        write_card_border] [10] @ [10]"

definition write_raw_payload :: "'a Chain \<Rightarrow> PulledRequest \<Rightarrow> scalar list \<Rightarrow> scalar list" where
  "write_raw_payload X r =
     (case pr_kind r of
        SignTransaction \<Rightarrow> writes
          (write_card_section_heading ''Raw Transaction'' #
           (case pr_raw_txn_bcs_hex r of
              Some raw \<Rightarrow>
                [write_card_field_full ''Raw Transaction BCS'' raw,
                 (case decode_raw_transaction X raw of
                    Inr t \<Rightarrow> write_decoded_transaction_fields X t True
                  | Inl e \<Rightarrow> write_card_field_full ''Decode Error'' e)]
            | None \<Rightarrow> [write_card_field_full ''Raw Transaction BCS'' ''missing'']))
      | SignMessage \<Rightarrow> writes
          ([write_card_section_heading ''Canonical Message''] @
           (case pr_message_format r of None \<Rightarrow> [] | Some f \<Rightarrow> [write_card_field_full ''Message Format'' (message_format_label f)]) @
           [write_card_field_full ''Message'' (case pr_message r of Some m \<Rightarrow> m | None \<Rightarrow> ''missing'')] @
           byte_length_field X write_card_field_full r)
      | CreateAccount \<Rightarrow> writes
          [write_card_section_heading ''Account Creation'',
           write_card_field_full ''Operation'' ''Create a new local account and add it to this wallet backend.'']
      | ExportAccount \<Rightarrow> writes
          [write_card_section_heading ''Account Export'',
           write_card_field_full ''Operation'' ''Export one local account private key to a file on this machine.'',
           write_card_field_full ''Account'' (pr_account_address r),
           write_card_field_full ''Output File'' (format_optional_path (pr_output_file r)),
           write_card_field_full ''Overwrite Existing File'' (format_flag (pr_force r))]
      | ImportAccount \<Rightarrow> writes
          [write_card_section_heading ''Account Import'',
           write_card_field_full ''Operation'' ''Import one local account private key from a file on this machine.'',
           write_card_field_full ''Requested Account'' (requested_account_label (pr_account_address r)),
           write_card_field_full ''Private Key File'' (format_optional_path (pr_private_key_file r))])"

definition render_raw_payload_details :: "'a Chain \<Rightarrow> PulledRequest \<Rightarrow> scalar list" where
  "render_raw_payload_details X r =
     writes
       [write_title ''Starmask Canonical Payload Details'',
        write_card_section_heading ''Diagnostics'',
        write_card_field_full ''Request ID'' (pr_request_id r),
        write_card_field_full ''Payload Hash'' (pr_payload_hash r),
        write_card_field_full ''Client Request ID (untrusted)'' (pr_client_request_id r),
        write_raw_payload X r,
        write_card_section_heading ''Back'',
        write_card_text_line (lit ''Press enter on the next prompt and choose approve or reject.''),
        write_card_border] [10] @ [10]"

section \<open>Nothing but cards\<close>

text \<open>
  A line of a card has 80 columns between its borders and holds neither control nor format characters, so a
  value cannot move the cursor, reorder text, or end its line. \<open>draws\<close> holds of a writer that appends
  such lines only.
\<close>

definition printable :: "scalar \<Rightarrow> bool" where
  "printable c \<longleftrightarrow> \<not> is_control c \<and> \<not> is_unicode_format_character c"

definition card_line :: "scalar list \<Rightarrow> bool" where
  "card_line l \<longleftrightarrow>
     (\<exists>body. l = lit ''| '' @ body @ lit '' |'' @ [10] \<and> length body = CARD_INNER_WIDTH \<and> list_all printable body) \<or>
     l = lit ''+'' @ replicate (CARD_INNER_WIDTH + 2) 45 @ lit ''+'' @ [10]"

definition draws :: "(scalar list \<Rightarrow> scalar list) \<Rightarrow> bool" where
  "draws w \<longleftrightarrow> (\<forall>out. \<exists>ls. w out = out @ concat ls \<and> list_all card_line ls)"

lemma format_characters_high: "is_unicode_format_character c \<Longrightarrow> 0xad \<le> c"
  by (auto simp: is_unicode_format_character_def format_ranges_def between_def)

lemma printable_ascii: "32 \<le> c \<Longrightarrow> c < 127 \<Longrightarrow> printable c"
  using format_characters_high [of c] by (auto simp: printable_def is_control_def)

lemma printable_spaces [simp]: "list_all printable (replicate n 32)"
  by (simp add: list_all_iff printable_ascii)

lemma list_all_printable_ascii: "list_all (\<lambda>c. 32 \<le> c \<and> c < 127) cs \<Longrightarrow> list_all printable cs"
  by (auto simp: list_all_iff intro: printable_ascii)

lemma hex_digit_bounds: "d < 16 \<Longrightarrow> 48 \<le> hex_digit d \<and> hex_digit d < 103"
  by (simp add: hex_digit_def)

lemma hex_lower_bounds: "list_all (\<lambda>c. 48 \<le> c \<and> c < 103) (hex_lower n)"
  by (induction n rule: hex_lower.induct) (subst hex_lower.simps, auto simp: hex_digit_bounds)

lemma printable_sanitize_char: "list_all printable (sanitize_char c)"
proof -
  have "list_all printable (hex_lower c)"
    using hex_lower_bounds [of c] by (auto simp: list_all_iff intro!: printable_ascii)
  then show ?thesis by (simp add: sanitize_char_def printable_ascii) (simp add: printable_def)
qed

lemma printable_sanitize_for_tty: "list_all printable (sanitize_for_tty s)"
  by (induction s) (simp_all add: sanitize_for_tty_def printable_sanitize_char)

lemma printable_truncate_chars:
  "list_all printable cs \<Longrightarrow> list_all printable (truncate_chars cs n)"
  by (auto simp: truncate_chars_def PREVIEW_SUFFIX_def lit_def list_all_iff printable_ascii dest!: in_set_takeD)

lemma length_truncate_chars: "length (truncate_chars cs n) \<le> n"
  by (auto simp: truncate_chars_def)

lemma draws_append: "draws w \<Longrightarrow> \<exists>ls. w out = out @ concat ls \<and> list_all card_line ls"
  by (simp add: draws_def)

lemma draws_border [simp]: "draws write_card_border"
  unfolding draws_def
proof
  fix out
  show "\<exists>ls. write_card_border out = out @ concat ls \<and> list_all card_line ls"
    by (rule exI [where x = "[lit ''+'' @ replicate (CARD_INNER_WIDTH + 2) 45 @ lit ''+'' @ [10]]"])
      (simp add: write_card_border_def card_line_def)
qed

lemma draws_text_line:
  assumes "list_all printable content"
  shows "draws (write_card_text_line content)"
  unfolding draws_def
proof
  fix out
  let ?p = "truncate_chars content CARD_INNER_WIDTH"
  let ?body = "?p @ replicate (CARD_INNER_WIDTH - length ?p) 32"
  have "card_line (lit ''| '' @ ?body @ lit '' |'' @ [10])"
    using length_truncate_chars [of content CARD_INNER_WIDTH] printable_truncate_chars [OF assms]
    by (auto simp: card_line_def)
  moreover have "write_card_text_line content out = out @ concat [lit ''| '' @ ?body @ lit '' |'' @ [10]]"
    by (simp add: write_card_text_line_def Let_def)
  ultimately show "\<exists>ls. write_card_text_line content out = out @ concat ls \<and> list_all card_line ls"
    by (metis list.pred_inject)
qed

lemma writes_Nil [simp]: "writes [] out = out"
  by (simp add: writes_def)

lemma writes_Cons [simp]: "writes (w # ws) out = writes ws (w out)"
  by (simp add: writes_def)

lemma draws_writes: "list_all draws ws \<Longrightarrow> draws (writes ws)"
proof (induction ws)
  case Nil
  then show ?case unfolding draws_def by (metis append_Nil2 concat.simps(1) list.pred_inject(1) writes_Nil)
next
  case (Cons w ws)
  show ?case unfolding draws_def
  proof
    fix out
    from Cons.prems obtain ls where ls: "w out = out @ concat ls" "list_all card_line ls"
      using draws_append [of w out] by auto
    from Cons obtain ls' where "writes ws (w out) = w out @ concat ls'" "list_all card_line ls'"
      using draws_append [of "writes ws" "w out"] by auto
    with ls show "\<exists>ls. writes (w # ws) out = out @ concat ls \<and> list_all card_line ls"
      by (intro exI [where x = "ls @ ls'"]) simp
  qed
qed

lemma split_loop_concat: "concat (split_loop cw ready current limit cs) = concat ready @ current @ cs"
  by (induction cs arbitrary: ready current limit) (auto simp: Let_def)

lemma split_by_width_concat: "concat (split_by_width cs fw cw) = cs"
  by (simp add: split_by_width_def split_loop_concat)

lemma split_loop_nonempty: "split_loop cw ready current limit cs \<noteq> []"
  by (induction cs arbitrary: ready current limit) (auto simp: Let_def)

lemma draws_fold_lines:
  "list_all (list_all printable) segs \<Longrightarrow> draws (fold (\<lambda>seg. write_card_text_line (replicate k 32 @ seg)) segs)"
proof -
  assume segs: "list_all (list_all printable) segs"
  have "fold (\<lambda>seg. write_card_text_line (replicate k 32 @ seg)) segs out =
      writes (map (\<lambda>seg. write_card_text_line (replicate k 32 @ seg)) segs) out" for out
    by (induction segs arbitrary: out) simp_all
  moreover have "list_all draws (map (\<lambda>seg. write_card_text_line (replicate k 32 @ seg)) segs)"
    using segs by (induction segs) (simp_all add: draws_text_line)
  ultimately show ?thesis using draws_writes by presburger
qed

lemma draws_comp: "draws f \<Longrightarrow> draws g \<Longrightarrow> draws (\<lambda>out. g (f out))"
  using draws_writes [of "[f, g]"] by (simp add: draws_def)

lemma draws_field:
  assumes "list_all printable (lit name)"
  shows "draws (write_card_field full name v)"
proof -
  let ?s = "sanitize_for_tty (chars v)" and ?p = "lit (''  '' @ name @ '': '')"
  let ?w = "CARD_INNER_WIDTH - length ?p"
  have p: "list_all printable ?p" using assms by (simp add: lit_def printable_ascii)
  obtain seg segs where split: "split_by_width ?s ?w ?w = seg # segs"
    using split_loop_nonempty unfolding split_by_width_def by (metis list.exhaust)
  have all: "list_all (list_all printable) (seg # segs)"
    using printable_sanitize_for_tty [of "chars v"]
    unfolding split_by_width_concat [of ?s ?w ?w, unfolded split, symmetric] by (auto simp: list_all_iff)
  show ?thesis
  proof (cases full)
    case True
    have "write_card_field full name v =
        (\<lambda>out. fold (\<lambda>seg. write_card_text_line (replicate (length ?p) 32 @ seg)) segs (write_card_text_line (?p @ seg) out))"
      using True split by (auto simp: write_card_field_def Let_def)
    moreover have "draws (write_card_text_line (?p @ seg))" using p all by (intro draws_text_line) simp
    ultimately show ?thesis using draws_comp draws_fold_lines [of segs "length ?p"] all by simp
  next
    case False
    then have "write_card_field full name v = write_card_text_line (?p @ truncate_chars ?s ?w)"
      by (auto simp: write_card_field_def Let_def)
    with p show ?thesis by (simp add: draws_text_line printable_truncate_chars printable_sanitize_for_tty)
  qed
qed

definition ascii_text :: "string \<Rightarrow> bool" where
  "ascii_text s \<longleftrightarrow> list_all (\<lambda>c. 32 \<le> (of_char c :: nat) \<and> (of_char c :: nat) < 127) s"

lemma ascii_text_simps [simp]:
  "ascii_text []" "ascii_text (c # s) \<longleftrightarrow> 32 \<le> (of_char c :: nat) \<and> (of_char c :: nat) < 127 \<and> ascii_text s"
  "ascii_text (s @ t) \<longleftrightarrow> ascii_text s \<and> ascii_text t"
  by (auto simp: ascii_text_def)

lemma printable_lit: "ascii_text s \<Longrightarrow> list_all printable (lit s)"
  by (auto simp: ascii_text_def lit_def list_all_iff intro: printable_ascii)

lemma draws_literal_line:
  "ascii_text s \<Longrightarrow> draws (write_card_text_line (lit s))"
  by (rule draws_text_line) (rule printable_lit)

lemma draws_heading:
  assumes "ascii_text s"
  shows "draws (write_card_section_heading s)"
  using draws_comp [OF draws_border draws_literal_line [OF assms]]
  by (simp add: write_card_section_heading_def [abs_def])

lemma draws_fields:
  assumes "ascii_text name"
  shows "draws (write_card_field_preview name v)" "draws (write_card_field_full name v)"
  by (simp_all add: write_card_field_preview_def write_card_field_full_def draws_field printable_lit assms)

lemma digits_ascii [simp]: "ascii_text (decimal n)"
  by (induction n rule: decimal.induct) (subst decimal.simps, auto)

lemma draws_title:
  "ascii_text s \<Longrightarrow> draws (write_title s)"
  unfolding write_title_def by (rule draws_writes) (simp add: draws_literal_line)

lemmas draws_rules = draws_heading draws_fields draws_literal_line draws_title

lemma draws_request_section: "draws (write_request_section r)"
  unfolding write_request_section_def by (rule draws_writes) (simp add: draws_rules split: option.split)

lemma draws_account_section: "draws (write_account_section r info)"
  unfolding write_account_section_def by (rule draws_writes) (simp add: draws_rules)

lemma draws_create_account_section: "draws write_create_account_section"
  unfolding write_create_account_section_def by (rule draws_writes) (simp add: draws_rules)

lemma draws_export_account_section: "draws (write_export_account_section r)"
  unfolding write_export_account_section_def by (rule draws_writes) (simp add: draws_rules)

lemma draws_import_account_section: "draws (write_import_account_section r)"
  unfolding write_import_account_section_def by (rule draws_writes) (simp add: draws_rules)

lemma draws_numbered_args: "draws (write_numbered_args X args)"
  unfolding write_numbered_args_def
  by (rule draws_writes) (auto simp: list_all_iff draws_fields)

lemma draws_payload_fields: "draws (write_payload_fields X include_raw p)"
proof (cases p)
  case (ScriptPayload code_bytes ty_args args)
  then show ?thesis by (simp only: write_payload_fields.simps) (rule draws_writes, simp add: draws_rules draws_numbered_args)
next
  case (PackagePayload addr modules has_init)
  have "list_all draws (map (\<lambda>(i, m). write_card_field_full (''Module '' @ decimal (i + 1) @ '' Bytes'') (decimal (length m))) (enumerate 0 modules))"
    by (auto simp: list_all_iff draws_fields)
  then show ?thesis unfolding PackagePayload write_payload_fields.simps by (intro draws_writes) (simp add: draws_rules)
next
  case (ScriptFunctionPayload f)
  then show ?thesis
    by (simp only: write_payload_fields.simps)
      (rule draws_writes, simp add: draws_rules draws_numbered_args split: option.split list.split)
qed

lemma draws_decoded_transaction: "draws (write_decoded_transaction_fields X t include_raw)"
  unfolding write_decoded_transaction_fields_def by (rule draws_writes) (simp add: draws_rules draws_payload_fields)

lemma draws_transaction_section: "draws (write_transaction_section X r)"
  unfolding write_transaction_section_def
  by (rule draws_writes) (simp add: draws_rules draws_decoded_transaction split: option.split sum.split)

lemma draws_message_section: "draws (write_message_section X r)"
  unfolding write_message_section_def byte_length_field_def
  by (rule draws_writes) (simp add: draws_rules split: option.split sum.split)

lemma draws_context_section: "draws (write_context_section r)"
proof (cases "pr_display_hint r = None \<and> pr_client_context r = None")
  case True
  then have "write_context_section r = (\<lambda>out. out)" by (simp add: write_context_section_def fun_eq_iff)
  then show ?thesis using draws_writes [of "[]"] by (simp add: draws_def)
next
  case False
  then have "write_context_section r = writes
      ([write_card_section_heading ''Context''] @
       (case pr_display_hint r of None \<Rightarrow> [] | Some h \<Rightarrow> [write_card_field_preview ''Display Hint (untrusted)'' h]) @
       (case pr_client_context r of None \<Rightarrow> [] | Some c \<Rightarrow> [write_card_field_preview ''Client Context (untrusted)'' c]))"
    by (auto simp: write_context_section_def fun_eq_iff)
  then show ?thesis by (simp only:) (rule draws_writes, simp add: draws_rules split: option.split)
qed

lemma draws_actions_section: "draws write_actions_section"
  unfolding write_actions_section_def by (rule draws_writes) (simp add: draws_rules)

lemma draws_raw_payload: "draws (write_raw_payload X r)"
proof (cases "pr_kind r")
  case SignTransaction
  then show ?thesis unfolding write_raw_payload_def
    by (simp only: RequestKind.case)
      (rule draws_writes, simp add: draws_rules draws_decoded_transaction split: option.split sum.split)
next
  case SignMessage
  then show ?thesis unfolding write_raw_payload_def byte_length_field_def
    by (simp only: RequestKind.case) (rule draws_writes, simp add: draws_rules split: option.split sum.split)
qed (simp only: write_raw_payload_def RequestKind.case, rule draws_writes, simp add: draws_rules)+

lemmas draws_sections = draws_request_section draws_account_section draws_create_account_section
  draws_export_account_section draws_import_account_section draws_transaction_section draws_message_section
  draws_context_section draws_actions_section draws_raw_payload

text \<open>A rendering is a blank line, cards, and a blank line.\<close>

definition framed :: "scalar list \<Rightarrow> bool" where
  "framed out \<longleftrightarrow> (\<exists>ls. out = [10] @ concat ls @ [10] \<and> list_all card_line ls)"

lemma framed_writes: "list_all draws ws \<Longrightarrow> framed (writes ws [10] @ [10])"
  using draws_append [OF draws_writes, of ws "[10]"] by (auto simp: framed_def)

section \<open>What is shown determines what was given\<close>

definition hex_value :: "scalar list \<Rightarrow> nat" where
  "hex_value ds = foldl (\<lambda>v d. v * 16 + (if d < 58 then d - 48 else d - 87)) 0 ds"

lemma hex_value_lower: "hex_value (hex_lower n) = n"
proof (induction n rule: hex_lower.induct)
  case (1 n)
  have digit: "(if hex_digit d < 58 then hex_digit d - 48 else hex_digit d - 87) = d" if "d < 16" for d
    using that by (auto simp: hex_digit_def)
  show ?case
  proof (cases "n < 16")
    case True
    then show ?thesis using digit [of n] by (subst hex_lower.simps) (simp add: hex_value_def)
  next
    case False
    with 1 have "hex_value (hex_lower (n div 16)) = n div 16" by simp
    with False show ?thesis using digit [of "n mod 16"] by (subst hex_lower.simps) (simp add: hex_value_def)
  qed
qed

lemma hex_lower_before_brace: "takeWhile (\<lambda>c. c \<noteq> 125) (hex_lower n @ 125 # xs) = hex_lower n"
  using hex_lower_bounds [of n] by (subst takeWhile_append2) (auto simp: list_all_iff)

lemma hex_lower_brace_inj:
  assumes "hex_lower m @ 125 # xs = hex_lower n @ 125 # ys"
  shows "m = n \<and> xs = ys"
proof -
  from assms have "hex_lower m = hex_lower n" using hex_lower_before_brace by metis
  with hex_value_lower have "m = n" by metis
  with assms show ?thesis by simp
qed

lemma sanitize_char_inj:
  assumes "sanitize_char c @ xs = sanitize_char d @ ys"
  shows "c = d \<and> xs = ys"
  using assms hex_lower_brace_inj [of c xs d ys] unfolding sanitize_char_def by (auto split: if_splits)

lemma sanitize_char_nonempty [simp]: "sanitize_char c \<noteq> []"
  by (simp add: sanitize_char_def)

lemma sanitize_for_tty_inj: "sanitize_for_tty s = sanitize_for_tty t \<Longrightarrow> s = t"
proof (induction s arbitrary: t)
  case Nil
  then show ?case by (cases t) (simp_all add: sanitize_for_tty_def)
next
  case (Cons c s)
  then obtain d t' where t: "t = d # t'" by (cases t) (simp_all add: sanitize_for_tty_def)
  with Cons.prems have "sanitize_char c @ sanitize_for_tty s = sanitize_char d @ sanitize_for_tty t'"
    by (simp add: sanitize_for_tty_def)
  with sanitize_char_inj Cons.IH t show ?case by blast
qed

lemma split_loop_lengths:
  assumes "length current \<le> limit" "limit \<le> w" "max cw 1 \<le> w" "list_all (\<lambda>seg. length seg \<le> w) ready"
  shows "list_all (\<lambda>seg. length seg \<le> w) (split_loop cw ready current limit cs)"
  using assms
proof (induction cs arbitrary: ready current limit)
  case Nil
  then show ?case by (simp add: Let_def)
next
  case (Cons c cs)
  show ?case
  proof (cases "length current = limit")
    case True
    with Cons.prems have "list_all (\<lambda>seg. length seg \<le> w) (ready @ [current])" "length [c] \<le> max cw 1" by simp_all
    from Cons.IH [OF this(2) Cons.prems(3,3) this(1)] True show ?thesis by simp
  next
    case False
    with Cons.prems have "length (current @ [c]) \<le> limit" by simp
    from Cons.IH [OF this Cons.prems(2,3,4)] False show ?thesis by simp
  qed
qed

definition card_row :: "scalar list \<Rightarrow> scalar list" where
  "card_row content = lit ''| '' @ content @ replicate (CARD_INNER_WIDTH - length content) 32 @ lit '' |'' @ [10]"

lemma write_card_text_line_row: "length content \<le> CARD_INNER_WIDTH \<Longrightarrow> write_card_text_line content out = out @ card_row content"
  by (simp add: write_card_text_line_def card_row_def truncate_chars_def)

lemma fold_rows:
  "\<forall>seg\<in>set segs. k + length seg \<le> CARD_INNER_WIDTH \<Longrightarrow>
   fold (\<lambda>seg. write_card_text_line (replicate k 32 @ seg)) segs out = out @ concat (map (\<lambda>seg. card_row (replicate k 32 @ seg)) segs)"
  by (induction segs arbitrary: out) (simp_all add: write_card_text_line_row)

lemma write_card_field_full_rows:
  assumes "length name < CARD_INNER_WIDTH - 4"
  shows "\<exists>seg segs. concat (seg # segs) = sanitize_for_tty (chars v) \<and>
    write_card_field_full name v out = out @ card_row (lit (''  '' @ name @ '': '') @ seg) @
      concat (map (\<lambda>s. card_row (replicate (length name + 4) 32 @ s)) segs)"
proof -
  let ?s = "sanitize_for_tty (chars v)" and ?w = "CARD_INNER_WIDTH - (length name + 4)"
  obtain seg segs where split: "split_by_width ?s ?w ?w = seg # segs"
    using split_loop_nonempty unfolding split_by_width_def by (metis list.exhaust)
  have "max ?w 1 = ?w" using assms by simp
  then have "list_all (\<lambda>x. length x \<le> ?w) (split_by_width ?s ?w ?w)"
    unfolding split_by_width_def by (intro split_loop_lengths) simp_all
  with split assms have short: "\<forall>x\<in>set (seg # segs). length name + 4 + length x \<le> CARD_INNER_WIDTH"
    by (auto simp: list_all_iff)
  have "concat (seg # segs) = ?s" using split_by_width_concat [of ?s ?w ?w] split by simp
  moreover have "write_card_field_full name v out = out @ card_row (lit (''  '' @ name @ '': '') @ seg) @
      concat (map (\<lambda>s. card_row (replicate (length name + 4) 32 @ s)) segs)"
  proof -
    have p: "length (lit (''  '' @ name @ '': '')) = length name + 4" by (simp add: lit_def)
    show ?thesis
      unfolding write_card_field_full_def write_card_field_def Let_def p length_replicate split
      using short by (simp add: write_card_text_line_row fold_rows p del: append_Cons append.assoc)
  qed
  ultimately show ?thesis by blast
qed

end
