(* ===== verification/Agent_Files.thy ===== *)
theory Agent_Files
  imports Agent_Terminal Daemon_Config
begin

text \<open>
  The files the agent writes private keys to: \<open>write_private_key_file\<close> of
  \<open>starmask-local-account-agent/src/request_support.rs\<close> and of the stand-alone tool in
  \<open>export_account.rs\<close>. A file system is its files (contents and mode) and directories; every call on
  it may fail as \<open>fs_fault\<close> decides, a failing write after any number of bytes (\<open>fs_partial\<close>).
\<close>

section \<open>The file system\<close>

record File =
  file_content :: string
  file_mode :: nat

record FileSystem =
  fs_files :: "PathBuf \<Rightarrow> File option"
  fs_dirs :: "PathBuf list"
  fs_ops :: nat
  fs_fault :: "nat \<Rightarrow> (ErrorKind \<times> string) option"
  fs_partial :: "nat \<Rightarrow> nat"
  fs_temp_name :: "nat \<Rightarrow> string"
  fs_default_mode :: nat

type_synonym 'a io = "(FileSystem, ErrorKind \<times> string, 'a) fallible"

definition syscall :: "(FileSystem \<Rightarrow> 'a \<times> FileSystem) \<Rightarrow> 'a io" where
  "syscall act fs =
     (let fs1 = fs\<lparr>fs_ops := Suc (fs_ops fs)\<rparr> in
      case fs_fault fs (fs_ops fs) of
        Some e \<Rightarrow> (Inl e, fs1)
      | None \<Rightarrow> (case act fs1 of (x, fs2) \<Rightarrow> (Inr x, fs2)))"

definition put_file :: "PathBuf \<Rightarrow> File option \<Rightarrow> FileSystem \<Rightarrow> FileSystem" where
  "put_file p f fs = fs\<lparr>fs_files := (fs_files fs)(p := f)\<rparr>"

definition update_file :: "PathBuf \<Rightarrow> (File \<Rightarrow> File) \<Rightarrow> FileSystem \<Rightarrow> FileSystem" where
  "update_file p f fs = put_file p (map_option f (fs_files fs p)) fs"

definition path_exists_in :: "PathBuf \<Rightarrow> FileSystem \<Rightarrow> bool" where
  "path_exists_in p fs \<longleftrightarrow> fs_files fs p \<noteq> None \<or> p \<in> set (fs_dirs fs)"

definition create_dir_all :: "PathBuf \<Rightarrow> unit io" where
  "create_dir_all p = syscall (\<lambda>fs. ((), if p = [] then fs else fs\<lparr>fs_dirs := List.insert p (fs_dirs fs)\<rparr>))"

definition fs_read_to_string :: "PathBuf \<Rightarrow> string io" where
  "fs_read_to_string p =
     bind (syscall (\<lambda>fs. (fs_files fs p, fs))) (\<lambda>f.
     case f of None \<Rightarrow> err (PathNotFound, ''No such file or directory'') | Some x \<Rightarrow> ok (file_content x))"

definition set_permissions :: "PathBuf \<Rightarrow> nat \<Rightarrow> unit io" where
  "set_permissions p mode = syscall (\<lambda>fs. ((), update_file p (\<lambda>f. f\<lparr>file_mode := mode\<rparr>) fs))"

definition sync_all :: "unit io" where
  "sync_all = syscall (\<lambda>fs. ((), fs))"

definition append_text :: "PathBuf \<Rightarrow> string \<Rightarrow> FileSystem \<Rightarrow> FileSystem" where
  "append_text p s fs = update_file p (\<lambda>f. f\<lparr>file_content := file_content f @ s\<rparr>) fs"

definition fs_write_all :: "PathBuf \<Rightarrow> string \<Rightarrow> unit io" where
  "fs_write_all p s fs =
     (case fs_fault fs (fs_ops fs) of
        Some e \<Rightarrow> (Inl e, append_text p (take (fs_partial fs (fs_ops fs)) s) (fs\<lparr>fs_ops := Suc (fs_ops fs)\<rparr>))
      | None \<Rightarrow> (Inr (), append_text p s (fs\<lparr>fs_ops := Suc (fs_ops fs)\<rparr>)))"

text \<open>
  A \<open>NamedTempFile\<close> is a new file of mode \<open>0o600\<close> that disappears when it is dropped; \<open>persist\<close>
  renames it, \<open>persist_noclobber\<close> does so unless the target exists.
\<close>

definition temp_new_in :: "PathBuf \<Rightarrow> PathBuf io" where
  "temp_new_in parent fs =
     (let p = path_join parent (fs_temp_name fs (fs_ops fs)) in
      bind (syscall (\<lambda>fs. (path_exists_in p fs, fs))) (\<lambda>taken.
      if taken then err (AlreadyExists, ''temporary file exists'')
      else (\<lambda>fs. (Inr p, put_file p (Some \<lparr>file_content = [], file_mode = 384\<rparr>) fs))) fs)"

definition drop_temp :: "PathBuf \<Rightarrow> FileSystem \<Rightarrow> FileSystem" where
  "drop_temp t fs = put_file t None fs"

definition with_temp :: "PathBuf \<Rightarrow> (FileSystem, 'e, unit) fallible \<Rightarrow> (FileSystem, 'e, unit) fallible" where
  "with_temp t m fs = (case m fs of (Inl e, fs') \<Rightarrow> (Inl e, drop_temp t fs') | (Inr u, fs') \<Rightarrow> (Inr u, fs'))"

definition move_file :: "PathBuf \<Rightarrow> PathBuf \<Rightarrow> FileSystem \<Rightarrow> FileSystem" where
  "move_file a b fs = put_file b (fs_files fs a) (put_file a None fs)"

definition persist :: "PathBuf \<Rightarrow> PathBuf \<Rightarrow> unit io" where
  "persist t p = syscall (\<lambda>fs. ((), move_file t p fs))"

definition persist_noclobber :: "PathBuf \<Rightarrow> PathBuf \<Rightarrow> unit io" where
  "persist_noclobber t p =
     bind (syscall (\<lambda>fs. if path_exists_in p fs then (False, fs) else (True, move_file t p fs))) (\<lambda>moved.
     if moved then ok () else err (AlreadyExists, ''File exists''))"

section \<open>Paths\<close>

text \<open>
  \<open>Path::parent\<close>: the path before its last component. Trailing separators and \<open>.\<close> parts are no
  components, except for a leading \<open>.\<close> of a relative path.
\<close>

fun drop_tail :: "bool \<Rightarrow> string list \<Rightarrow> string list" where
  "drop_tail root ps =
     (if ps = [] then []
      else if last ps = [] \<or> last ps = ''.'' \<and> (root \<or> 1 < length ps) then drop_tail root (butlast ps)
      else ps)"

declare drop_tail.simps [simp del]

definition path_parent :: "PathBuf \<Rightarrow> PathBuf option" where
  "path_parent p =
     (let root = (p \<noteq> [] \<and> hd p = CHR ''/''); parts = split_on CHR ''/'' (if root then tl p else p) in
      case drop_tail root parts of
        [] \<Rightarrow> None
      | ps \<Rightarrow> Some ((if root then ''/'' else []) @ join_with ''/'' (drop_tail root (butlast ps))))"

section \<open>Writing a key\<close>

record RequestRejection =
  rjn_reason_code :: RejectReasonCode
  rjn_message :: "string option"

definition reject_with :: "RejectReasonCode \<Rightarrow> string \<Rightarrow> RequestRejection" where
  "reject_with c m = \<lparr>rjn_reason_code = c, rjn_message = Some m\<rparr>"

definition already_exists :: "PathBuf \<Rightarrow> RequestRejection" where
  "already_exists path =
     reject_with RBackendPolicyBlocked (''Output file already exists: '' @ path @ ''; pass --force to overwrite it'')"

definition cannot_move :: "PathBuf \<Rightarrow> ErrorKind \<times> string \<Rightarrow> RequestRejection" where
  "cannot_move path e =
     reject_with RBackendUnavailable (''Failed to move account private-key export into '' @ path @ '': '' @ snd e)"

definition fill_temp :: "PathBuf \<Rightarrow> PathBuf \<Rightarrow> string \<Rightarrow> (FileSystem, RequestRejection, unit) fallible" where
  "fill_temp temp parent encoded =
     bind (map_error (\<lambda>e. reject_with RBackendUnavailable
             (''Failed to restrict permissions on temporary export file in '' @ parent @ '': '' @ snd e))
           (set_permissions temp 384)) (\<lambda>_.
     map_error (\<lambda>e. reject_with RBackendUnavailable (''Failed to write account private-key export: '' @ snd e))
       (bind (fs_write_all temp encoded) (\<lambda>_. bind (fs_write_all temp [CHR 0x0A]) (\<lambda>_. sync_all))))"

definition write_private_key_file :: "PathBuf \<Rightarrow> string \<Rightarrow> bool \<Rightarrow> (FileSystem, RequestRejection, unit) fallible" where
  "write_private_key_file path encoded force =
     bind (case path_parent path of
             None \<Rightarrow> ok ()
           | Some parent \<Rightarrow>
               map_error (\<lambda>e. reject_with RBackendUnavailable
                 (''Failed to create output directory '' @ parent @ '': '' @ snd e)) (create_dir_all parent)) (\<lambda>_.
     bind (\<lambda>fs. (if path_exists_in path fs \<and> \<not> force then Inl (already_exists path) else Inr (), fs)) (\<lambda>_.
     let parent = (case path_parent path of None \<Rightarrow> ''.'' | Some d \<Rightarrow> d) in
     bind (map_error (\<lambda>e. reject_with RBackendUnavailable
             (''Failed to create temporary export file in '' @ parent @ '': '' @ snd e)) (temp_new_in parent)) (\<lambda>temp.
     with_temp temp
       (bind (fill_temp temp parent encoded) (\<lambda>_.
        if force then map_error (cannot_move path) (persist temp path)
        else map_error (\<lambda>e. if fst e = AlreadyExists then already_exists path else cannot_move path e)
          (persist_noclobber temp path))))))"

section \<open>The stand-alone tool\<close>

record 'a ExportCli =
  xc_wallet_dir :: PathBuf
  xc_address :: 'a
  xc_chain_id :: "8 word"
  xc_output_file :: PathBuf
  xc_password_stdin :: bool
  xc_force :: bool
  xc_json :: bool

definition trim_line_end :: "string \<Rightarrow> string" where
  "trim_line_end s = rev (dropWhile (\<lambda>c. c = CHR 0x0A \<or> c = CHR 0x0D) (rev s))"

definition read_password :: "string anyhow \<Rightarrow> string anyhow \<Rightarrow> bool \<Rightarrow> string anyhow" where
  "read_password stdin_text prompted password_stdin =
     (if password_stdin then
        and_then_any (with_context stdin_text ''failed to read account password from stdin'') (\<lambda>p.
        if trim_line_end p = [] then Inl ''account password cannot be empty'' else Inr p)
      else
        and_then_any (with_context prompted ''failed to read account password'') (\<lambda>p.
        if p = [] then Inl ''account password cannot be empty'' else Inr p))"

definition open_for_export :: "PathBuf \<Rightarrow> bool \<Rightarrow> unit io" where
  "open_for_export path force =
     bind (syscall (\<lambda>fs. if fs_files fs path = None
             then (True, put_file path (Some \<lparr>file_content = [], file_mode = fs_default_mode fs\<rparr>) fs)
             else if force then (True, update_file path (\<lambda>f. f\<lparr>file_content := []\<rparr>) fs) else (False, fs))) (\<lambda>opened.
     if opened then ok () else err (AlreadyExists, ''File exists''))"

definition io_context :: "string \<Rightarrow> 'a io \<Rightarrow> (FileSystem, string, 'a) fallible" where
  "io_context what = map_error (\<lambda>_. what)"

definition export_write_private_key_file :: "PathBuf \<Rightarrow> string \<Rightarrow> bool \<Rightarrow> (FileSystem, string, unit) fallible" where
  "export_write_private_key_file path encoded force =
     bind (\<lambda>fs. (if path_exists_in path fs \<and> \<not> force
             then Inl (''output file already exists: '' @ path @ ''; pass --force to overwrite it'') else Inr (), fs)) (\<lambda>_.
     bind (case path_parent path of
             None \<Rightarrow> ok ()
           | Some parent \<Rightarrow> io_context (''failed to create output directory '' @ parent) (create_dir_all parent)) (\<lambda>_.
     bind (io_context (''failed to open output file '' @ path) (open_for_export path force)) (\<lambda>_.
     bind (io_context ''failed to write account private-key export'' (fs_write_all path encoded)) (\<lambda>_.
     bind (io_context ''failed to finish account private-key export'' (fs_write_all path [CHR 0x0A])) (\<lambda>_.
     io_context (''failed to restrict permissions on '' @ path) (set_permissions path 384))))))"

section \<open>What is left behind\<close>

lemma files_put_file [simp]: "fs_files (put_file p f fs) = (fs_files fs)(p := f)"
  by (simp add: put_file_def)

lemma files_update_file [simp]: "fs_files (update_file p g fs) = (fs_files fs)(p := map_option g (fs_files fs p))"
  by (simp add: update_file_def)

lemma files_append_text [simp]:
  "fs_files (append_text p s fs) = (fs_files fs)(p := map_option (\<lambda>f. f\<lparr>file_content := file_content f @ s\<rparr>) (fs_files fs p))"
  by (simp add: append_text_def)

lemma files_move_file [simp]: "fs_files (move_file a b fs) = (fs_files fs)(a := None, b := fs_files fs a)"
  by (simp add: move_file_def)

lemma files_drop_temp [simp]: "fs_files (drop_temp t fs) = (fs_files fs)(t := None)"
  by (simp add: drop_temp_def)

lemma syscall_Inl: "syscall act fs = (Inl e, fs') \<Longrightarrow> fs_files fs' = fs_files fs"
  by (auto simp: syscall_def Let_def split: option.splits prod.splits)

lemma syscall_Inr: "syscall act fs = (Inr x, fs') \<Longrightarrow> \<exists>fs1. fs_files fs1 = fs_files fs \<and> fs_dirs fs1 = fs_dirs fs \<and> act fs1 = (x, fs')"
  by (auto simp: syscall_def Let_def split: option.splits prod.splits intro!: exI [where x = "fs\<lparr>fs_ops := Suc (fs_ops fs)\<rparr>"])

lemma fs_write_all_Inr:
  "fs_write_all p s fs = (Inr u, fs') \<Longrightarrow>
   fs_files fs' = (fs_files fs)(p := map_option (\<lambda>f. f\<lparr>file_content := file_content f @ s\<rparr>) (fs_files fs p))"
  by (auto simp: fs_write_all_def split: option.splits)

lemma fs_write_all_Inl: "fs_write_all p s fs = (Inl e, fs') \<Longrightarrow> \<exists>g. fs_files fs' = (fs_files fs)(p := g)"
  by (auto simp: fs_write_all_def split: option.splits)

lemma set_permissions_Inr:
  "set_permissions p mode fs = (Inr u, fs') \<Longrightarrow>
   fs_files fs' = (fs_files fs)(p := map_option (\<lambda>f. f\<lparr>file_mode := mode\<rparr>) (fs_files fs p))"
  by (auto simp: set_permissions_def dest!: syscall_Inr)

lemma set_permissions_Inl: "set_permissions p mode fs = (Inl e, fs') \<Longrightarrow> fs_files fs' = fs_files fs"
  unfolding set_permissions_def by (rule syscall_Inl)

lemma sync_all_files: "sync_all fs = (r, fs') \<Longrightarrow> fs_files fs' = fs_files fs"
  by (cases r) (auto simp: sync_all_def dest: syscall_Inl syscall_Inr)

lemma fill_temp_Inr:
  assumes "fill_temp t parent encoded fs = (Inr u, fs')" "fs_files fs t = Some f"
  shows "fs_files fs' = (fs_files fs)(t \<mapsto> \<lparr>file_content = file_content f @ encoded @ [CHR 0x0A], file_mode = 384\<rparr>)"
  using assms
  by (auto simp: fill_temp_def outcome dest!: fs_write_all_Inr set_permissions_Inr sync_all_files)

lemma fill_temp_Inl:
  assumes "fill_temp t parent encoded fs = (Inl e, fs')"
  shows "\<exists>g. fs_files fs' = (fs_files fs)(t := g)"
  using assms
  by (auto simp: fill_temp_def outcome dest!: fs_write_all_Inr fs_write_all_Inl set_permissions_Inr set_permissions_Inl sync_all_files)
    (metis fun_upd_triv)

lemma temp_new_in_Inr:
  "temp_new_in parent fs = (Inr t, fs') \<Longrightarrow>
   fs_files fs t = None \<and> fs_files fs' = (fs_files fs)(t \<mapsto> \<lparr>file_content = [], file_mode = 384\<rparr>)"
  by (auto simp: temp_new_in_def Let_def outcome err_apply path_exists_in_def split: if_splits dest!: syscall_Inr)

lemma temp_new_in_Inl: "temp_new_in parent fs = (Inl e, fs') \<Longrightarrow> fs_files fs' = fs_files fs"
  by (auto simp: temp_new_in_def Let_def outcome err_apply split: if_splits dest: syscall_Inr syscall_Inl)

lemma create_dir_all_files: "create_dir_all p fs = (r, fs') \<Longrightarrow> fs_files fs' = fs_files fs"
  by (cases r) (auto simp: create_dir_all_def dest: syscall_Inl dest!: syscall_Inr split: if_splits)

lemma persist_Inr: "persist t p fs = (Inr u, fs') \<Longrightarrow> fs_files fs' = (fs_files fs)(t := None, p := fs_files fs t)"
  by (auto simp: persist_def dest!: syscall_Inr)

lemma persist_Inl: "persist t p fs = (Inl e, fs') \<Longrightarrow> fs_files fs' = fs_files fs"
  unfolding persist_def by (rule syscall_Inl)

lemma persist_noclobber_Inr:
  "persist_noclobber t p fs = (Inr u, fs') \<Longrightarrow>
   fs_files fs p = None \<and> fs_files fs' = (fs_files fs)(t := None, p := fs_files fs t)"
  by (auto simp: persist_noclobber_def outcome ok_apply err_apply path_exists_in_def split: if_splits dest!: syscall_Inr)

lemma persist_noclobber_Inl: "persist_noclobber t p fs = (Inl e, fs') \<Longrightarrow> fs_files fs' = fs_files fs"
  by (auto simp: persist_noclobber_def outcome ok_apply err_apply split: if_splits dest: syscall_Inl dest!: syscall_Inr)

lemma with_temp_Inr: "with_temp t m fs = (Inr u, fs') \<Longrightarrow> m fs = (Inr u, fs')"
  by (auto simp: with_temp_def split: prod.splits sum.splits)

lemma with_temp_Inl: "with_temp t m fs = (Inl e, fs') \<Longrightarrow> \<exists>fs1. m fs = (Inl e, fs1) \<and> fs' = drop_temp t fs1"
  by (auto simp: with_temp_def split: prod.splits sum.splits)

text \<open>A failed export leaves the files as they were; a successful one adds the key file and nothing else.\<close>

lemma write_private_key_file_Inr:
  assumes "write_private_key_file path encoded force fs = (Inr u, fs')"
  shows "(force \<or> fs_files fs path = None) \<and>
    fs_files fs' = (fs_files fs)(path \<mapsto> \<lparr>file_content = encoded @ [CHR 0x0A], file_mode = 384\<rparr>)"
proof -
  define parent where "parent = (case path_parent path of None \<Rightarrow> ''.'' | Some d \<Rightarrow> d)"
  obtain fs1 fs2 t fs3 where steps: "fs_files fs1 = fs_files fs" "force \<or> fs_files fs1 path = None"
    "temp_new_in parent fs1 = (Inr t, fs2)" "fill_temp t parent encoded fs2 = (Inr (), fs3)"
    "if force then persist t path fs3 = (Inr u, fs') else persist_noclobber t path fs3 = (Inr u, fs')"
    using assms
    by (auto simp: write_private_key_file_def outcome ok_apply path_exists_in_def Let_def parent_def
        split: option.splits if_splits dest!: with_temp_Inr create_dir_all_files)
  from temp_new_in_Inr [OF steps(3)] have t: "fs_files fs1 t = None"
    "fs_files fs2 = (fs_files fs1)(t \<mapsto> \<lparr>file_content = [], file_mode = 384\<rparr>)" by auto
  from fill_temp_Inr [OF steps(4)] t
  have fs3: "fs_files fs3 = (fs_files fs1)(t \<mapsto> \<lparr>file_content = encoded @ [CHR 0x0A], file_mode = 384\<rparr>)" by simp
  have "fs_files fs' = (fs_files fs3)(t := None, path := fs_files fs3 t)"
    using steps(5) by (auto split: if_splits dest: persist_Inr persist_noclobber_Inr)
  with fs3 t(1) steps(1,2) show ?thesis by (auto simp: fun_eq_iff)
qed

lemma key_body_Inl:
  assumes "bind (fill_temp t parent encoded) (\<lambda>_. if force then map_error E1 (persist t path) else map_error E2 (persist_noclobber t path)) fs = (Inl e, fs')"
    and "fs_files fs t = Some f"
  shows "\<exists>g. fs_files fs' = (fs_files fs)(t := g)"
proof (cases "fill_temp t parent encoded fs")
  case (Pair r fs1)
  show ?thesis
  proof (cases r)
    case (Inl x)
    with assms(1) Pair fill_temp_Inl [of t parent encoded fs] show ?thesis by (auto simp: bind_def)
  next
    case (Inr x)
    with fill_temp_Inr [of t parent encoded fs x fs1] Pair assms(2) obtain g where "fs_files fs1 = (fs_files fs)(t := g)" by auto
    moreover from assms(1) Pair Inr have "fs_files fs' = fs_files fs1"
      by (auto simp: bind_def map_error_Inl split: if_splits dest: persist_Inl persist_noclobber_Inl)
    ultimately show ?thesis by auto
  qed
qed

lemma write_private_key_file_Inl:
  assumes "write_private_key_file path encoded force fs = (Inl e, fs')"
  shows "fs_files fs' = fs_files fs"
proof -
  define parent where "parent = (case path_parent path of None \<Rightarrow> ''.'' | Some d \<Rightarrow> d)"
  define body where "body = (\<lambda>t. bind (fill_temp t parent encoded) (\<lambda>_.
        if force then map_error (cannot_move path) (persist t path)
        else map_error (\<lambda>e. if fst e = AlreadyExists then already_exists path else cannot_move path e) (persist_noclobber t path)))"
  have cleaned: "fs_files fs' = fs_files fs1" if t: "temp_new_in parent fs1 = (Inr t, fs2)" and b: "with_temp t (body t) fs2 = (Inl e, fs')" for fs1 t fs2
  proof -
    from with_temp_Inl [OF b] obtain fs3 where fs3: "body t fs2 = (Inl e, fs3)" "fs' = drop_temp t fs3" by blast
    from key_body_Inl [OF fs3(1) [unfolded body_def]] temp_new_in_Inr [OF t] obtain g where "fs_files fs3 = (fs_files fs2)(t := g)" by auto
    with temp_new_in_Inr [OF t] fs3(2) show ?thesis by (auto simp: fun_eq_iff)
  qed
  have eq: "write_private_key_file path encoded force =
      bind (case path_parent path of
             None \<Rightarrow> ok ()
           | Some d \<Rightarrow>
               map_error (\<lambda>e. reject_with RBackendUnavailable
                 (''Failed to create output directory '' @ d @ '': '' @ snd e)) (create_dir_all d)) (\<lambda>_.
      bind (\<lambda>fs. (if path_exists_in path fs \<and> \<not> force then Inl (already_exists path) else Inr (), fs)) (\<lambda>_.
      bind (map_error (\<lambda>e. reject_with RBackendUnavailable
             (''Failed to create temporary export file in '' @ parent @ '': '' @ snd e)) (temp_new_in parent)) (\<lambda>t.
      with_temp t (body t))))"
    by (simp only: write_private_key_file_def Let_def parent_def body_def)
  from assms have "\<exists>fs1. fs_files fs1 = fs_files fs \<and>
      (fs' = fs1 \<or> (\<exists>e. temp_new_in parent fs1 = (Inl e, fs')) \<or>
       (\<exists>t fs2. temp_new_in parent fs1 = (Inr t, fs2) \<and> with_temp t (body t) fs2 = (Inl e, fs')))"
    unfolding eq
    by (auto simp: outcome ok_apply split: option.splits if_splits dest: create_dir_all_files)
  with cleaned show ?thesis using temp_new_in_Inl by metis
qed

end
