(* ===== verification/Agent_Prompt.thy ===== *)
theory Agent_Prompt
  imports Agent_Files
begin

text \<open>
  The questions the local account agent asks (the interactive half of
  \<open>starmask-local-account-agent/src/tty_prompt.rs\<close>). A terminal is what the user will type, line by line and
  password by password, and what has been shown. \<open>eprint!\<close> aborts the process when standard error
  cannot be written; the other writes return their error, as \<open>tty_fault\<close> decides. The loops end with
  the user's input.
\<close>

section \<open>The terminal\<close>

record Tty =
  tty_lines :: "(string + string) list"
  tty_passwords :: "(string + string) list"
  tty_shown :: "scalar list"
  tty_ops :: nat
  tty_fault :: "nat \<Rightarrow> string option"
  tty_closed :: string

definition tty_write :: "scalar list \<Rightarrow> (Tty, string, unit) fallible" where
  "tty_write s t =
     (let t1 = t\<lparr>tty_ops := Suc (tty_ops t)\<rparr> in
      case tty_fault t (tty_ops t) of
        Some e \<Rightarrow> (Inl e, t1)
      | None \<Rightarrow> (Inr (), t1\<lparr>tty_shown := tty_shown t @ s\<rparr>))"

definition eprint :: "scalar list \<Rightarrow> Tty \<Rightarrow> Tty" where
  "eprint s t = t\<lparr>tty_shown := tty_shown t @ s\<rparr>"

definition read_line :: "(Tty, string, string) fallible" where
  "read_line t =
     (case tty_lines t of
        [] \<Rightarrow> (Inr [], t)
      | l # ls \<Rightarrow> (l, t\<lparr>tty_lines := ls\<rparr>))"

definition prompt_password :: "string \<Rightarrow> (Tty, string, string) fallible" where
  "prompt_password question t =
     (let t1 = eprint (lit question) t in
      case tty_passwords t of
        [] \<Rightarrow> (Inl (tty_closed t), t1)
      | p # ps \<Rightarrow> (p, t1\<lparr>tty_passwords := ps\<rparr>))"

section \<open>Choosing an action\<close>

datatype PromptAction = Approve | Reject | ViewRaw

definition parse_prompt_action :: "nat \<Rightarrow> string \<Rightarrow> (ErrorKind \<times> string) + PromptAction" where
  "parse_prompt_action bytes_read line =
     (if bytes_read = 0 then Inl (UnexpectedEof, ''approval prompt stdin is closed'')
      else
        let word = to_ascii_lowercase (trim line) in
        if word = ''a'' \<or> word = ''approve'' then Inr Approve
        else if word = ''r'' \<or> word = ''reject'' then Inr Reject
        else if word = ''v'' \<or> word = ''view'' \<or> word = ''view raw'' then Inr ViewRaw
        else Inl (InvalidInput, ''unknown approval action''))"

lemma tty_write_keeps:
  "tty_write s t = (r, t') \<Longrightarrow> tty_lines t' = tty_lines t \<and> tty_passwords t' = tty_passwords t"
  by (auto simp: tty_write_def Let_def split: option.splits)

lemma read_line_shrinks:
  "read_line t = (Inr line, t') \<Longrightarrow> line \<noteq> [] \<Longrightarrow> length (tty_lines t') < length (tty_lines t) \<and> tty_passwords t' = tty_passwords t"
  by (auto simp: read_line_def split: list.splits)

lemma parse_prompt_action_nonempty: "parse_prompt_action (length line) line \<noteq> Inl (UnexpectedEof, ''approval prompt stdin is closed'') \<Longrightarrow> line \<noteq> []"
  by (auto simp: parse_prompt_action_def)

lemma read_invalid_shrinks:
  assumes "(Inr line, t') = read_line t" "parse_prompt_action (length line) line = Inl (InvalidInput, e)"
  shows "length (tty_lines t') < length (tty_lines t)"
  using assms(2) read_line_shrinks [OF assms(1) [symmetric]] parse_prompt_action_nonempty [of line] by simp

function prompt_for_action :: "Tty \<Rightarrow> (string + PromptAction) \<times> Tty" where
  "prompt_for_action t =
     (case tty_write (lit ''Choose action [a]pprove / [r]eject / [v]iew raw: '') t of
        (Inl e, t1) \<Rightarrow> (Inl e, t1)
      | (Inr _, t1) \<Rightarrow>
          (case read_line t1 of
             (Inl e, t2) \<Rightarrow> (Inl e, t2)
           | (Inr line, t2) \<Rightarrow>
               (case parse_prompt_action (length line) line of
                  Inr action \<Rightarrow> (Inr action, t2)
                | Inl (ek, e) \<Rightarrow>
                    if ek = InvalidInput then
                      (case tty_write (lit ''Enter one of: a, approve, r, reject, v, view.'' @ [10]) t2 of
                         (Inl e', t3) \<Rightarrow> (Inl e', t3)
                       | (Inr _, t3) \<Rightarrow> prompt_for_action t3)
                    else (Inl e, t2))))"
  by pat_completeness auto

termination
  by (relation "measure (\<lambda>t. length (tty_lines t))")
    (auto dest!: read_invalid_shrinks tty_write_keeps [OF sym])

declare prompt_for_action.simps [simp del]

lemma prompt_for_action_shrinks:
  "prompt_for_action t = (Inr action, t') \<Longrightarrow> length (tty_lines t') < length (tty_lines t)"
proof (induction t rule: prompt_for_action.induct)
  case (1 t)
  from 1(2) obtain u t1 line t2 where w: "tty_write (lit ''Choose action [a]pprove / [r]eject / [v]iew raw: '') t = (Inr u, t1)"
    and l: "read_line t1 = (Inr line, t2)"
    by (subst (asm) prompt_for_action.simps) (auto split: prod.splits sum.splits)
  show ?case
  proof (cases "parse_prompt_action (length line) line")
    case (Inr a)
    then have "line \<noteq> []" by (intro parse_prompt_action_nonempty) simp
    moreover from 1(2) w l Inr have "t' = t2" by (subst (asm) prompt_for_action.simps) simp
    ultimately show ?thesis using read_line_shrinks [OF l] tty_write_keeps [OF w] by simp
  next
    case (Inl x)
    then obtain ek e where x: "parse_prompt_action (length line) line = Inl (ek, e)" by (cases x) auto
    with 1(2) w l have k: "ek = InvalidInput"
      by (subst (asm) prompt_for_action.simps) (auto split: if_splits)
    with x have "line \<noteq> []" by (intro parse_prompt_action_nonempty) simp
    moreover from 1(2) w l x k obtain v t3 where w3: "tty_write (lit ''Enter one of: a, approve, r, reject, v, view.'' @ [10]) t2 = (Inr v, t3)"
      and rest: "prompt_for_action t3 = (Inr action, t')"
      by (subst (asm) prompt_for_action.simps) (auto split: prod.splits sum.splits)
    moreover from 1(1) [OF w [symmetric] refl l [symmetric] refl x refl k w3 [symmetric] refl rest]
    have "length (tty_lines t') < length (tty_lines t3)" .
    ultimately show ?thesis using read_line_shrinks [OF l] tty_write_keeps [OF w] tty_write_keeps [OF w3] by simp
  qed
qed

section \<open>Approvals\<close>

record PromptApproval =
  pa_approved :: bool
  pa_password :: "string option"

definition ensure_local_unlock_capability :: "bool \<Rightarrow> WalletCapability list \<Rightarrow> RequestRejection + unit" where
  "ensure_local_unlock_capability account_locked caps =
     (if account_locked \<and> UnlockCap \<notin> set caps then Inl (reject_with RWalletLocked ''Local account is locked'') else Inr ())"

text \<open>The loop of the three prompts: \<open>True\<close> when the user approves, \<open>False\<close> when the user rejects.\<close>

function approval_loop :: "'a Chain \<Rightarrow> PulledRequest \<Rightarrow> Tty \<Rightarrow> (RequestRejection + bool) \<times> Tty" where
  "approval_loop X r t =
     (case prompt_for_action t of
        (Inl e, t1) \<Rightarrow> (Inl (reject_with RBackendUnavailable (''Failed to read local approval input: '' @ e)), t1)
      | (Inr Approve, t1) \<Rightarrow> (Inr True, t1)
      | (Inr Reject, t1) \<Rightarrow> (Inr False, t1)
      | (Inr ViewRaw, t1) \<Rightarrow> approval_loop X r (eprint (render_raw_payload_details X r) t1))"
  by pat_completeness auto
termination
  by (relation "measure (\<lambda>(X, r, t). length (tty_lines t))") (auto simp: eprint_def dest!: prompt_for_action_shrinks [OF sym])

declare approval_loop.simps [simp del]

lemma prompt_password_shrinks:
  "(Inr p, t') = prompt_password q t \<Longrightarrow> length (tty_passwords t') < length (tty_passwords t) \<and> tty_lines t' = tty_lines t"
  by (auto simp: prompt_password_def eprint_def Let_def split: list.splits)

function prompt_for_new_account_password :: "Tty \<Rightarrow> (RequestRejection + string) \<times> Tty" where
  "prompt_for_new_account_password t =
     (case prompt_password ''New account password: '' t of
        (Inl e, t1) \<Rightarrow> (Inl (reject_with RBackendUnavailable (''Failed to read new account password: '' @ e)), t1)
      | (Inr p, t1) \<Rightarrow>
          if p = [] then (Inl (reject_with RBackendPolicyBlocked ''Account password cannot be empty''), t1)
          else
            (case prompt_password ''Confirm new account password: '' t1 of
               (Inl e, t2) \<Rightarrow> (Inl (reject_with RBackendUnavailable (''Failed to read password confirmation: '' @ e)), t2)
             | (Inr confirm, t2) \<Rightarrow>
                 if p = confirm then (Inr p, t2)
                 else
                   (case tty_write (lit ''Passwords did not match. Try again.'' @ [10]) t2 of
                      (Inl e, t3) \<Rightarrow> (Inl (reject_with RBackendUnavailable (''Failed to write password mismatch warning: '' @ e)), t3)
                    | (Inr _, t3) \<Rightarrow> prompt_for_new_account_password t3)))"
  by pat_completeness auto

termination
  by (relation "measure (\<lambda>t. length (tty_passwords t))") (auto dest!: prompt_password_shrinks tty_write_keeps [OF sym])

declare prompt_for_new_account_password.simps [simp del]

definition prompt_for_request :: "'a Chain \<Rightarrow> PulledRequest \<Rightarrow> 'a AccountInfo \<Rightarrow> WalletCapability list \<Rightarrow>
    (Tty, RequestRejection, PromptApproval) fallible" where
  "prompt_for_request X r info caps =
     (if pr_kind r = ExportAccount \<and> ExportAccountCap \<notin> set caps
      then err (reject_with RUnsupportedOperation ''Local backend does not support account export'')
      else
        bind (of_result (ensure_local_unlock_capability (ai_is_locked info) caps)) (\<lambda>_.
        bind (\<lambda>t. (Inr (), eprint (render_request_summary X r info) t)) (\<lambda>_.
        bind (approval_loop X r) (\<lambda>approved.
        if \<not> approved then ok \<lparr>pa_approved = False, pa_password = None\<rparr>
        else if ai_is_locked info \<or> pr_kind r = ExportAccount then
          bind (map_error (\<lambda>e. reject_with RBackendUnavailable (''Failed to read account password: '' @ e))
                 (prompt_password ''Account password: '')) (\<lambda>p.
          if p = [] then err (reject_with RWalletLocked ''Password entry was cancelled'')
          else ok \<lparr>pa_approved = True, pa_password = Some p\<rparr>)
        else ok \<lparr>pa_approved = True, pa_password = None\<rparr>))))"

definition prompt_for_new_account :: "'a Chain \<Rightarrow> scalar list \<Rightarrow> PulledRequest \<Rightarrow> (Tty, RequestRejection, PromptApproval) fallible" where
  "prompt_for_new_account X summary r =
     bind (\<lambda>t. (Inr (), eprint summary t)) (\<lambda>_.
     bind (approval_loop X r) (\<lambda>approved.
     if \<not> approved then ok \<lparr>pa_approved = False, pa_password = None\<rparr>
     else bind prompt_for_new_account_password (\<lambda>p. ok \<lparr>pa_approved = True, pa_password = Some p\<rparr>)))"

definition prompt_for_create_account :: "'a Chain \<Rightarrow> PulledRequest \<Rightarrow> WalletCapability list \<Rightarrow>
    (Tty, RequestRejection, PromptApproval) fallible" where
  "prompt_for_create_account X r caps =
     (if CreateAccountCap \<notin> set caps
      then err (reject_with RUnsupportedOperation ''Local backend does not support account creation'')
      else prompt_for_new_account X (render_create_account_summary r) r)"

definition prompt_for_import_account :: "'a Chain \<Rightarrow> PulledRequest \<Rightarrow> WalletCapability list \<Rightarrow>
    (Tty, RequestRejection, PromptApproval) fallible" where
  "prompt_for_import_account X r caps =
     (if ImportAccountCap \<notin> set caps
      then err (reject_with RUnsupportedOperation ''Local backend does not support account import'')
      else prompt_for_new_account X (render_import_account_summary r) r)"

section \<open>What the user typed\<close>

text \<open>The first line that is an approval or a rejection, if the input gets that far.\<close>

fun typed_decision :: "(string + string) list \<Rightarrow> PromptAction option" where
  "typed_decision [] = None"
| "typed_decision (Inl _ # _) = None"
| "typed_decision (Inr line # ls) =
     (case parse_prompt_action (length line) line of
        Inr ViewRaw \<Rightarrow> typed_decision ls
      | Inr action \<Rightarrow> Some action
      | Inl (ek, _) \<Rightarrow> if ek = InvalidInput then typed_decision ls else None)"

lemma eprint_keeps [simp]: "tty_lines (eprint s t) = tty_lines t" "tty_passwords (eprint s t) = tty_passwords t"
  by (simp_all add: eprint_def)

lemma prompt_for_action_typed:
  "prompt_for_action t = (Inr action, t') \<Longrightarrow>
   typed_decision (tty_lines t) = (if action = ViewRaw then typed_decision (tty_lines t') else Some action)"
proof (induction t rule: prompt_for_action.induct)
  case (1 t)
  from 1(2) obtain u t1 line t2 where w: "tty_write (lit ''Choose action [a]pprove / [r]eject / [v]iew raw: '') t = (Inr u, t1)"
    and l: "read_line t1 = (Inr line, t2)"
    by (subst (asm) prompt_for_action.simps) (auto split: prod.splits sum.splits)
  show ?case
  proof (cases "parse_prompt_action (length line) line")
    case (Inr a)
    then have "line \<noteq> []" by (intro parse_prompt_action_nonempty) simp
    with l have "tty_lines t1 = Inr line # tty_lines t2" by (auto simp: read_line_def split: list.splits)
    moreover from 1(2) w l Inr have "t' = t2" "a = action" by (subst (asm) prompt_for_action.simps, simp)+
    ultimately show ?thesis using tty_write_keeps [OF w] Inr by (auto split: PromptAction.splits)
  next
    case (Inl x)
    then obtain ek e where x: "parse_prompt_action (length line) line = Inl (ek, e)" by (cases x) auto
    with 1(2) w l have k: "ek = InvalidInput"
      by (subst (asm) prompt_for_action.simps) (auto split: if_splits)
    with x have "line \<noteq> []" by (intro parse_prompt_action_nonempty) simp
    with l have "tty_lines t1 = Inr line # tty_lines t2" by (auto simp: read_line_def split: list.splits)
    moreover from 1(2) w l x k obtain v t3 where w3: "tty_write (lit ''Enter one of: a, approve, r, reject, v, view.'' @ [10]) t2 = (Inr v, t3)"
      and rest: "prompt_for_action t3 = (Inr action, t')"
      by (subst (asm) prompt_for_action.simps) (auto split: prod.splits sum.splits)
    moreover note 1(1) [OF w [symmetric] refl l [symmetric] refl x refl k w3 [symmetric] refl rest]
    ultimately show ?thesis using tty_write_keeps [OF w] tty_write_keeps [OF w3] x k by simp
  qed
qed

lemma approval_loop_typed:
  "approval_loop X r t = (Inr approved, t') \<Longrightarrow> typed_decision (tty_lines t) = Some (if approved then Approve else Reject)"
proof (induction X r t rule: approval_loop.induct)
  case (1 X r t)
  from 1(2) obtain action t1 where p: "prompt_for_action t = (Inr action, t1)"
    by (subst (asm) approval_loop.simps) (auto split: prod.splits sum.splits)
  show ?case
  proof (cases "action = ViewRaw")
    case True
    with 1(2) p have rest: "approval_loop X r (eprint (render_raw_payload_details X r) t1) = (Inr approved, t')"
      by (subst (asm) approval_loop.simps) simp
    from 1(1) [OF p [symmetric] refl True rest] prompt_for_action_typed [OF p] True show ?thesis by simp
  next
    case False
    with 1(2) p prompt_for_action_typed [OF p] show ?thesis
      by (subst (asm) approval_loop.simps) (auto split: PromptAction.splits)
  qed
qed

text \<open>An approval was typed, and a prompt for a locked account or an export brings a password.\<close>

lemma prompt_for_request_typed:
  assumes "prompt_for_request X r info caps t = (Inr a, t')"
  shows "typed_decision (tty_lines t) = Some (if pa_approved a then Approve else Reject)"
    and "pa_approved a \<Longrightarrow> ai_is_locked info \<or> pr_kind r = ExportAccount \<Longrightarrow> \<exists>p. pa_password a = Some p \<and> p \<noteq> []"
  using assms
  by (auto simp: prompt_for_request_def outcome ok_apply err_apply of_result_apply split: if_splits dest!: approval_loop_typed)

lemma prompt_for_new_account_typed:
  assumes "prompt_for_new_account X summary r t = (Inr a, t')"
  shows "typed_decision (tty_lines t) = Some (if pa_approved a then Approve else Reject)"
  using assms
  by (auto simp: prompt_for_new_account_def outcome ok_apply split: if_splits dest!: approval_loop_typed)

lemma prompt_for_account_typed:
  "prompt_for_create_account X r caps t = (Inr a, t') \<Longrightarrow> typed_decision (tty_lines t) = Some (if pa_approved a then Approve else Reject)"
  "prompt_for_import_account X r caps t = (Inr a, t') \<Longrightarrow> typed_decision (tty_lines t) = Some (if pa_approved a then Approve else Reject)"
  by (auto simp: prompt_for_create_account_def prompt_for_import_account_def err_apply split: if_splits
      dest: prompt_for_new_account_typed)

end
