(* ===== verification/Agent_Support.thy ===== *)
theory Agent_Support
  imports Agent_Prompt Native_Client
begin

text \<open>
  How the local account agent fulfils an approved request
  (\<open>starmask-local-account-agent/src/request_support.rs\<close>). The Starcoin account manager is the record
  \<open>AccountManager\<close> of its methods over a state of type \<open>'m\<close>, together with the key and transaction types it is
  used with; errors are their texts.
\<close>

section \<open>The account manager\<close>

record ('a, 'k, 's, 'm) AccountManager =
  am_list_account_infos :: "('m, string, 'a AccountInfo list) fallible"
  am_account_info :: "'a \<Rightarrow> ('m, string, 'a AccountInfo option) fallible"
  am_unlock_account :: "'a \<Rightarrow> string \<Rightarrow> u64 \<Rightarrow> ('m, string, unit) fallible"
  am_create_account :: "string \<Rightarrow> ('m, string, 'a) fallible"
  am_import_account :: "'a \<Rightarrow> byte list \<Rightarrow> string \<Rightarrow> ('m, string, 'a) fallible"
  am_export_account :: "'a \<Rightarrow> string \<Rightarrow> ('m, string, byte list) fallible"
  am_sign_txn :: "'a \<Rightarrow> 'a RawUserTransaction \<Rightarrow> ('m, string, 's) fallible"
  am_sign_message :: "'a \<Rightarrow> byte list \<Rightarrow> ('m, string, string) fallible"
  signed_txn_to_bcs :: "'s \<Rightarrow> string + byte list"
  private_key_from_encoded :: "string \<Rightarrow> string + 'k"
  private_key_try_from :: "byte list \<Rightarrow> string + 'k"
  private_key_to_encoded :: "'k \<Rightarrow> string + string"
  private_key_to_bytes :: "'k \<Rightarrow> byte list"
  private_key_derived_address :: "'k \<Rightarrow> 'a"

record 'm AgentWorld =
  aw_manager :: 'm
  aw_fs :: FileSystem
  aw_tty :: Tty

type_synonym ('m, 'x) support = "('m AgentWorld, RequestRejection, 'x) fallible"

definition in_manager :: "('m, 'e, 'x) fallible \<Rightarrow> ('m AgentWorld, 'e, 'x) fallible" where
  "in_manager m w = (case m (aw_manager w) of (r, s) \<Rightarrow> (r, w\<lparr>aw_manager := s\<rparr>))"

definition in_fs :: "(FileSystem, 'e, 'x) fallible \<Rightarrow> ('m AgentWorld, 'e, 'x) fallible" where
  "in_fs m w = (case m (aw_fs w) of (r, s) \<Rightarrow> (r, w\<lparr>aw_fs := s\<rparr>))"

definition in_tty :: "(Tty, 'e, 'x) fallible \<Rightarrow> ('m AgentWorld, 'e, 'x) fallible" where
  "in_tty m w = (case m (aw_tty w) of (r, s) \<Rightarrow> (r, w\<lparr>aw_tty := s\<rparr>))"

text \<open>A call of the manager whose error becomes a rejection that quotes it.\<close>

definition manager_call :: "RejectReasonCode \<Rightarrow> string \<Rightarrow> ('m, string, 'x) fallible \<Rightarrow> ('m, 'x) support" where
  "manager_call c what m = map_error (\<lambda>e. reject_with c (what @ e)) (in_manager m)"

definition checked :: "RejectReasonCode \<Rightarrow> string \<Rightarrow> string + 'x \<Rightarrow> ('m, 'x) support" where
  "checked c what r = of_result (case r of Inl e \<Rightarrow> Inl (reject_with c (what @ e)) | Inr x \<Rightarrow> Inr x)"

section \<open>Accounts\<close>

definition account_info_to_backend_account :: "'a Chain \<Rightarrow> 'a AccountInfo \<Rightarrow> BackendAccount" where
  "account_info_to_backend_account X info =
     \<lparr>ba_address = address_to_string X (ai_address info), ba_label = None,
      ba_public_key = Some (''0x'' @ hex_encode X (ai_public_key_bytes info)),
      ba_is_default = ai_is_default info, ba_is_read_only = ai_is_readonly info, ba_is_locked = ai_is_locked info\<rparr>"

definition parse_account_address :: "'a Chain \<Rightarrow> string \<Rightarrow> string + 'a" where
  "parse_account_address X s =
     (case address_from_str X s of Inl _ \<Rightarrow> Inl (''invalid account address '' @ s) | Inr a \<Rightarrow> Inr a)"

definition load_new_account :: "('a, 'k, 's, 'm) AccountManager \<Rightarrow> string \<Rightarrow> string \<Rightarrow> 'a \<Rightarrow> ('m, 'a AccountInfo) support" where
  "load_new_account K what missing a =
     bind (manager_call RBackendUnavailable what (am_account_info K a)) (\<lambda>info.
     ok_or info (reject_with RBackendUnavailable missing))"

definition create_account :: "'a Chain \<Rightarrow> ('a, 'k, 's, 'm) AccountManager \<Rightarrow> string \<Rightarrow> ('m, RequestResult) support" where
  "create_account X K password =
     (if password = [] then err (reject_with RBackendPolicyBlocked ''Account password cannot be empty'')
      else
        bind (manager_call RBackendUnavailable ''Failed to create local account: '' (am_create_account K password)) (\<lambda>a.
        bind (load_new_account K ''Failed to load created account: '' ''Created account was not visible after creation'' a) (\<lambda>info.
        ok (RCreatedAccount (address_to_string X (ai_address info)) (''0x'' @ hex_encode X (ai_public_key_bytes info)) Ed25519
              (ai_is_default info) (ai_is_locked info)))))"

definition import_account :: "'a Chain \<Rightarrow> ('a, 'k, 's, 'm) AccountManager \<Rightarrow> PulledRequest \<Rightarrow> string \<Rightarrow> ('m, RequestResult) support" where
  "import_account X K r password =
     (if password = [] then err (reject_with RBackendPolicyBlocked ''Account password cannot be empty'')
      else
        bind (ok_or (pr_private_key_file r) (reject_with RBackendPolicyBlocked ''Missing private key file for account import'')) (\<lambda>f.
        bind (map_error (\<lambda>e. reject_with RBackendUnavailable (''Failed to read private key file: '' @ snd e))
               (in_fs (fs_read_to_string f))) (\<lambda>key_data.
        bind (checked RBackendPolicyBlocked ''Invalid private key file: '' (private_key_from_encoded K (trim key_data))) (\<lambda>key.
        if trim (pr_account_address r) = []
        then err (reject_with RBackendPolicyBlocked ''Import request is missing the expected account address'')
        else
          bind (checked RBackendPolicyBlocked [] (parse_account_address X (pr_account_address r))) (\<lambda>a.
          if a \<noteq> private_key_derived_address K key
          then err (reject_with RBackendPolicyBlocked
                 ''Requested import address does not match the private key's derived address'')
          else
            bind (manager_call RBackendUnavailable ''Failed to import local account: ''
                   (am_import_account K a (private_key_to_bytes K key) password)) (\<lambda>b.
            bind (load_new_account K ''Failed to load imported account: '' ''Imported account was not visible after import'' b) (\<lambda>info.
            ok (RImportedAccount (address_to_string X (ai_address info)) (''0x'' @ hex_encode X (ai_public_key_bytes info)) Ed25519
                  (ai_is_default info) (ai_is_locked info)))))))))"

definition export_account :: "'a Chain \<Rightarrow> ('a, 'k, 's, 'm) AccountManager \<Rightarrow> PulledRequest \<Rightarrow> 'a \<Rightarrow> string option \<Rightarrow> ('m, RequestResult) support" where
  "export_account X K r a password =
     bind (ok_or password (reject_with RWalletLocked ''Account password is required for export'')) (\<lambda>p.
     bind (ok_or (pr_output_file r) (reject_with RBackendPolicyBlocked ''Missing output file for account export'')) (\<lambda>f.
     bind (manager_call RWalletLocked ''Failed to export local account: '' (am_export_account K a p)) (\<lambda>key_bytes.
     if key_bytes = []
     then err (reject_with RUnsupportedOperation ''Account has no exportable private key; it may be read-only'')
     else
       bind (checked RBackendUnavailable ''Exported account private key is invalid: '' (private_key_try_from K key_bytes)) (\<lambda>key.
       bind (checked RBackendUnavailable ''Failed to encode account private key: '' (private_key_to_encoded K key)) (\<lambda>encoded.
       bind (in_fs (write_private_key_file f encoded (pr_force r))) (\<lambda>_.
       ok (RExportedAccount (address_to_string X a) f)))))))"

section \<open>Signatures\<close>

definition sign_transaction :: "'a Chain \<Rightarrow> ('a, 'k, 's, 'm) AccountManager \<Rightarrow> PulledRequest \<Rightarrow> 'a \<Rightarrow> ('m, RequestResult) support" where
  "sign_transaction X K r a =
     bind (ok_or (pr_raw_txn_bcs_hex r) (reject_with RInvalidTransactionPayload ''Missing raw transaction payload'')) (\<lambda>raw.
     bind (checked RInvalidTransactionPayload [] (decode_hex_bytes X raw)) (\<lambda>bytes.
     bind (checked RInvalidTransactionPayload ''Invalid raw transaction payload: '' (raw_txn_from_bcs X bytes)) (\<lambda>txn.
     if rt_sender txn \<noteq> a
     then err (reject_with RInvalidTransactionPayload ''Raw transaction sender does not match request account'')
     else
       bind (manager_call RBackendUnavailable ''Failed to sign transaction: '' (am_sign_txn K a txn)) (\<lambda>signed.
       bind (checked RBackendUnavailable ''Failed to serialize signed transaction: '' (signed_txn_to_bcs K signed)) (\<lambda>out.
       ok (RSignedTransaction (''0x'' @ hex_encode X out)))))))"

definition decode_signing_message :: "'a Chain \<Rightarrow> string \<Rightarrow> MessageFormat \<Rightarrow> string + byte list" where
  "decode_signing_message X m f =
     (case f of Utf8 \<Rightarrow> Inr (map of_char m) | Hex \<Rightarrow> decode_hex_bytes X m)"

definition sign_message :: "'a Chain \<Rightarrow> ('a, 'k, 's, 'm) AccountManager \<Rightarrow> PulledRequest \<Rightarrow> 'a \<Rightarrow> ('m, RequestResult) support" where
  "sign_message X K r a =
     bind (ok_or (pr_message r) (reject_with RInvalidMessagePayload ''Missing message payload'')) (\<lambda>m.
     bind (ok_or (pr_message_format r) (reject_with RInvalidMessagePayload ''Missing message format'')) (\<lambda>f.
     bind (checked RInvalidMessagePayload [] (decode_signing_message X m f)) (\<lambda>bytes.
     bind (manager_call RBackendUnavailable ''Failed to sign message: '' (am_sign_message K a bytes)) (\<lambda>signature.
     ok (RSignedMessage signature)))))"

section \<open>Fulfilling a request\<close>

definition unlock_for :: "('a, 'k, 's, 'm) AccountManager \<Rightarrow> u64 \<Rightarrow> 'a \<Rightarrow> 'a AccountInfo \<Rightarrow> WalletCapability list \<Rightarrow> string option \<Rightarrow>
    ('m, unit) support" where
  "unlock_for K ttl a info caps password =
     (if \<not> ai_is_locked info then ok ()
      else
        bind (of_result (ensure_local_unlock_capability (ai_is_locked info) caps)) (\<lambda>_.
        bind (ok_or password (reject_with RWalletLocked ''Local account is locked'')) (\<lambda>p.
        manager_call RWalletLocked ''Failed to unlock local account: '' (am_unlock_account K a p ttl))))"

definition fulfill_request :: "'a Chain \<Rightarrow> ('a, 'k, 's, 'm) AccountManager \<Rightarrow> u64 \<Rightarrow> PulledRequest \<Rightarrow> 'a \<Rightarrow> 'a AccountInfo \<Rightarrow>
    WalletCapability list \<Rightarrow> string option \<Rightarrow> ('m, RequestResult) support" where
  "fulfill_request X K ttl r a info caps password =
     bind (unlock_for K ttl a info caps password) (\<lambda>_.
     case pr_kind r of
       SignTransaction \<Rightarrow> sign_transaction X K r a
     | SignMessage \<Rightarrow> sign_message X K r a
     | ExportAccount \<Rightarrow> export_account X K r a password
     | CreateAccount \<Rightarrow>
         err (reject_with RUnsupportedOperation ''CreateAccount requests must use the dedicated create-account flow'')
     | ImportAccount \<Rightarrow>
         err (reject_with RUnsupportedOperation ''ImportAccount requests must use the dedicated import-account flow''))"

section \<open>The stand-alone export\<close>

text \<open>
  \<open>main\<close> of \<open>export_account.rs\<close> up to its report on standard output: \<open>opened\<close> is the outcome of opening
  the account storage and the manager on the directory and chain of the command line.
\<close>

definition export_main :: "'a Chain \<Rightarrow> ('a, 'k, 's, 'm) AccountManager \<Rightarrow> (PathBuf \<Rightarrow> 8 word \<Rightarrow> unit anyhow) \<Rightarrow> string anyhow \<Rightarrow> string anyhow \<Rightarrow>
    'a ExportCli \<Rightarrow> ('m AgentWorld, string, unit) fallible" where
  "export_main X K opened stdin_text prompted cli =
     bind (of_result (read_password stdin_text prompted (xc_password_stdin cli))) (\<lambda>password.
     bind (of_result (opened (xc_wallet_dir cli) (xc_chain_id cli))) (\<lambda>_.
     bind (map_error (\<lambda>_. ''failed to export account '' @ address_to_string X (xc_address cli))
            (in_manager (am_export_account K (xc_address cli) (trim_line_end password)))) (\<lambda>key_bytes.
     if key_bytes = []
     then err (''account '' @ address_to_string X (xc_address cli) @ '' has no exportable private key; it may be read-only'')
     else
       bind (of_result (with_context (private_key_try_from K key_bytes) ''exported account private key is invalid'')) (\<lambda>key.
       bind (of_result (with_context (private_key_to_encoded K key) ''failed to encode account private key'')) (\<lambda>encoded.
       in_fs (export_write_private_key_file (xc_output_file cli) encoded (xc_force cli)))))))"

section \<open>The kind of a result\<close>

lemma fulfill_request_kind:
  assumes "fulfill_request X K ttl r a info caps password w = (Inr res, w')"
  shows "result_kind res = expected_result_kind (pr_kind r)"
  using assms
  by (auto simp: fulfill_request_def sign_transaction_def sign_message_def export_account_def err_apply ok_apply
      split: RequestKind.splits if_splits elim!: bind_InrE)

lemma create_account_kind: "create_account X K p w = (Inr res, w') \<Longrightarrow> result_kind res = CreatedAccount"
  by (auto simp: create_account_def err_apply ok_apply split: if_splits elim!: bind_InrE)

lemma import_account_kind: "import_account X K r p w = (Inr res, w') \<Longrightarrow> result_kind res = ImportedAccount"
  by (auto simp: import_account_def err_apply ok_apply split: if_splits elim!: bind_InrE)

end
