(* ===== verification/Agent.thy ===== *)
theory Agent
  imports Agent_Support Wire_Names
begin

text \<open>
  The local account agent (\<open>starmask-local-account-agent/src/client.rs\<close>, \<open>agent.rs\<close> and the set-up
  in \<open>main.rs\<close>). An \<open>Agent\<close> holds what never changes (the daemon's methods, the account manager, the
  configuration, the identifiers \<open>Uuid::now_v7\<close> will produce); an \<open>AgentState\<close> the daemon it talks to, its
  accounts, files and terminal, and the heartbeat state behind the mutex. The heartbeat thread is
  \<open>send_heartbeat\<close>, run between two steps of the main loop; no thread panics while it holds the
  mutex, so the mutex is never poisoned.
\<close>

section \<open>The client\<close>

definition CONNECT_RETRY_ATTEMPTS :: nat where "CONNECT_RETRY_ATTEMPTS = 20"

definition should_retry_connect :: "ErrorKind \<times> string \<Rightarrow> bool" where
  "should_retry_connect e \<longleftrightarrow> fst e \<in> {WouldBlock, Interrupted, ConnectionRefused, PathNotFound}"

text \<open>\<open>attempts n\<close> is the error of the attempt number \<open>n\<close>, if it fails; the result is the attempt that connected.\<close>

fun connect_from :: "(nat \<Rightarrow> (ErrorKind \<times> string) option) \<Rightarrow> nat \<Rightarrow> (ErrorKind \<times> string) option \<Rightarrow> nat \<Rightarrow> (ErrorKind \<times> string) + nat" where
  "connect_from attempts n previous 0 =
     Inl (case previous of Some e \<Rightarrow> e | None \<Rightarrow> (OtherKind, ''daemon socket connection retries exhausted''))"
| "connect_from attempts n previous (Suc k) =
     (case attempts n of
        None \<Rightarrow> Inr n
      | Some e \<Rightarrow>
          if should_retry_connect e \<and> n + 1 < CONNECT_RETRY_ATTEMPTS then connect_from attempts (n + 1) (Some e) k
          else Inl e)"

definition connect_with_retry :: "(nat \<Rightarrow> (ErrorKind \<times> string) option) \<Rightarrow> (ErrorKind \<times> string) + nat" where
  "connect_with_retry attempts = connect_from attempts 0 None CONNECT_RETRY_ATTEMPTS"

definition agent_exchange :: "(nat \<Rightarrow> (ErrorKind \<times> string) option) \<Rightarrow> (string \<Rightarrow> ('d, string, string) fallible) \<Rightarrow> string \<Rightarrow>
    ('d, string, string) fallible" where
  "agent_exchange attempts exchange bytes =
     (case connect_with_retry attempts of Inl e \<Rightarrow> err (snd e) | Inr _ \<Rightarrow> exchange bytes)"

record 'd AgentRpc =
  ag_backend_register :: "BackendRegisterParams \<Rightarrow> ('d, SharedError, BackendRegisteredResult) fallible"
  ag_backend_heartbeat :: "BackendHeartbeatParams \<Rightarrow> ('d, SharedError, AckResult) fallible"
  ag_backend_update_accounts :: "BackendUpdateAccountsParams \<Rightarrow> ('d, SharedError, AckResult) fallible"
  ag_request_pull_next :: "RequestPullNextParams \<Rightarrow> ('d, SharedError, PullNextRequestResult) fallible"
  ag_request_presented :: "RequestPresentedParams \<Rightarrow> ('d, SharedError, AckResult) fallible"
  ag_request_resolve :: "RequestResolveParams \<Rightarrow> ('d, SharedError, AckResult) fallible"
  ag_request_reject :: "RequestRejectParams \<Rightarrow> ('d, SharedError, AckResult) fallible"

record AgentSerde =
  ag_shared :: ClientSerde
  enc_backend_register :: "BackendRegisterParams JsonRpcRequest \<Rightarrow> string + string"
  enc_backend_heartbeat :: "BackendHeartbeatParams JsonRpcRequest \<Rightarrow> string + string"
  enc_backend_update_accounts :: "BackendUpdateAccountsParams JsonRpcRequest \<Rightarrow> string + string"
  dec_backend_registered :: "string \<Rightarrow> string + BackendRegisteredResult JsonRpcResponse"

definition agent_call :: "(string \<Rightarrow> ('d, string, string) fallible) \<Rightarrow> ('p JsonRpcRequest \<Rightarrow> string + string) \<Rightarrow>
    (string \<Rightarrow> string + 'r JsonRpcResponse) \<Rightarrow> string \<Rightarrow> 'p \<Rightarrow> ('d, SharedError, 'r) fallible" where
  "agent_call = client_call ''local-account-agent''"

definition AgentDaemonClient :: "AgentSerde \<Rightarrow> (string \<Rightarrow> ('d, string, string) fallible) \<Rightarrow> 'd AgentRpc" where
  "AgentDaemonClient E exchange =
     (let S = ag_shared E in
      \<lparr>ag_backend_register = agent_call exchange (enc_backend_register E) (dec_backend_registered E) ''backend.register'',
       ag_backend_heartbeat = agent_call exchange (enc_backend_heartbeat E) (dec_ack S) ''backend.heartbeat'',
       ag_backend_update_accounts = agent_call exchange (enc_backend_update_accounts E) (dec_ack S) ''backend.updateAccounts'',
       ag_request_pull_next = agent_call exchange (enc_request_pull_next S) (dec_pull_next S) ''request.pullNext'',
       ag_request_presented = agent_call exchange (enc_request_presented S) (dec_ack S) ''request.presented'',
       ag_request_resolve = agent_call exchange (enc_request_resolve S) (dec_ack S) ''request.resolve'',
       ag_request_reject = agent_call exchange (enc_request_reject S) (dec_ack S) ''request.reject''\<rparr>)"

definition agent_protocol_version :: u32 where "agent_protocol_version = GENERIC_BACKEND_PROTOCOL_VERSION"

section \<open>The agent\<close>

record Snapshot =
  sn_lock_state :: LockState
  sn_capabilities :: "WalletCapability list"
  sn_accounts :: "BackendAccount list"

record HeartbeatState =
  hb_lock_state :: LockState
  hb_presented_request_ids :: "RequestId list"

record ('a, 'k, 's, 'm, 'd) Agent =
  ag_client :: "'d AgentRpc"
  ag_chain :: "'a Chain"
  ag_manager :: "('a, 'k, 's, 'm) AccountManager"
  ag_config :: LocalAccountDirBackendConfig
  ag_wallet_instance_id :: WalletInstanceId
  ag_new_presentation_id :: "nat \<Rightarrow> PresentationId"

record ('m, 'd) AgentState =
  as_daemon :: 'd
  as_world :: "'m AgentWorld"
  as_heartbeat :: HeartbeatState
  as_uuids :: nat

type_synonym ('m, 'd, 'x) agent = "(('m, 'd) AgentState, string, 'x) fallible"

definition SharedError_to_string :: "SharedError \<Rightarrow> string" where
  "SharedError_to_string e = SharedErrorCode_name (code e) @ '': '' @ message e"

definition daemon_call :: "('d, SharedError, 'x) fallible \<Rightarrow> (('m, 'd) AgentState, SharedError, 'x) fallible" where
  "daemon_call m st = (case m (as_daemon st) of (r, d) \<Rightarrow> (r, st\<lparr>as_daemon := d\<rparr>))"

definition in_world :: "('m AgentWorld, 'e, 'x) fallible \<Rightarrow> (('m, 'd) AgentState, 'e, 'x) fallible" where
  "in_world m st = (case m (as_world st) of (r, w) \<Rightarrow> (r, st\<lparr>as_world := w\<rparr>))"

definition question_mark :: "(('m, 'd) AgentState, SharedError, 'x) fallible \<Rightarrow> ('m, 'd, 'x) agent" where
  "question_mark = map_error SharedError_to_string"

definition validate_prompt_mode :: "LocalAccountDirBackendConfig \<Rightarrow> unit anyhow" where
  "validate_prompt_mode cfg =
     (if prompt_approval_surface (la_prompt_mode cfg) \<noteq> cb_approval_surface (la_common cfg)
      then Inl ''local-account-agent requires matching approval_surface and prompt_mode''
      else if la_prompt_mode cfg \<noteq> TtyPromptMode
      then Inl ''local-account-agent currently supports only prompt_mode = tty_prompt''
      else Inr ())"

definition prompt_mode_label :: "LocalPromptMode \<Rightarrow> string" where
  "prompt_mode_label m = (case m of TtyPromptMode \<Rightarrow> ''tty_prompt'' | DesktopPromptMode \<Rightarrow> ''desktop_prompt'')"

definition HeartbeatState_initial :: HeartbeatState where
  "HeartbeatState_initial = \<lparr>hb_lock_state = Unknown, hb_presented_request_ids = []\<rparr>"

definition from_parts :: "'d AgentRpc \<Rightarrow> 'a Chain \<Rightarrow> ('a, 'k, 's, 'm) AccountManager \<Rightarrow> LocalAccountDirBackendConfig \<Rightarrow>
    (nat \<Rightarrow> PresentationId) \<Rightarrow> ('a, 'k, 's, 'm, 'd) Agent anyhow" where
  "from_parts client X K cfg uuids =
     and_then_any (validate_prompt_mode cfg) (\<lambda>_.
     and_then_any (case id_try_from ''WalletInstanceId'' (cb_backend_id (la_common cfg)) of
             Inl e \<Rightarrow> Inl (IdValidationError_to_string e) | Inr i \<Rightarrow> Inr i) (\<lambda>i.
     Inr \<lparr>ag_client = client, ag_chain = X, ag_manager = K, ag_config = cfg, ag_wallet_instance_id = i,
          ag_new_presentation_id = uuids\<rparr>))"

section \<open>Snapshots\<close>

definition lock_state_of :: "BackendAccount list \<Rightarrow> LockState" where
  "lock_state_of accounts =
     (if \<not> list_ex (\<lambda>a. \<not> ba_is_read_only a) accounts then Unknown
      else if list_ex (\<lambda>a. \<not> ba_is_read_only a \<and> \<not> ba_is_locked a) accounts then Unlocked
      else Locked)"

definition capabilities_of :: "BackendAccount list \<Rightarrow> WalletCapability list" where
  "capabilities_of accounts =
     (if list_ex (\<lambda>a. \<not> ba_is_read_only a) accounts
      then [UnlockCap, GetPublicKeyCap, SignMessageCap, SignTransactionCap, CreateAccountCap, ExportAccountCap, ImportAccountCap]
      else if list_ex (\<lambda>a. ba_public_key a \<noteq> None) accounts then [GetPublicKeyCap, CreateAccountCap, ImportAccountCap]
      else [CreateAccountCap, ImportAccountCap])"

definition snapshot :: "('a, 'k, 's, 'm, 'd) Agent \<Rightarrow> ('m, 'd, Snapshot) agent" where
  "snapshot A =
     bind (map_error (\<lambda>_. ''failed to list local accounts'') (in_world (in_manager (am_list_account_infos (ag_manager A))))) (\<lambda>infos.
     let accounts = sort_key ba_address
           (map (account_info_to_backend_account (ag_chain A))
             (filter (\<lambda>i. la_allow_read_only_accounts (ag_config A) \<or> \<not> ai_is_readonly i) infos))
     in ok \<lparr>sn_lock_state = lock_state_of accounts, sn_capabilities = capabilities_of accounts, sn_accounts = accounts\<rparr>)"

definition set_lock_state :: "LockState \<Rightarrow> ('m, 'd, unit) agent" where
  "set_lock_state l st = (Inr (), st\<lparr>as_heartbeat := (as_heartbeat st)\<lparr>hb_lock_state := l\<rparr>\<rparr>)"

definition push_presented_request :: "RequestId \<Rightarrow> ('m, 'd, unit) agent" where
  "push_presented_request r st =
     (let ids = hb_presented_request_ids (as_heartbeat st) in
      (Inr (), if r \<in> set ids then st
               else st\<lparr>as_heartbeat := (as_heartbeat st)\<lparr>hb_presented_request_ids := ids @ [r]\<rparr>\<rparr>))"

definition pop_presented_request :: "RequestId \<Rightarrow> ('m, 'd, unit) agent" where
  "pop_presented_request r st =
     (Inr (), st\<lparr>as_heartbeat := (as_heartbeat st)\<lparr>hb_presented_request_ids :=
        filter (\<lambda>i. i \<noteq> r) (hb_presented_request_ids (as_heartbeat st))\<rparr>\<rparr>)"

definition registration_params :: "('a, 'k, 's, 'm, 'd) Agent \<Rightarrow> Snapshot \<Rightarrow> BackendRegisterParams" where
  "registration_params A sn =
     \<lparr>brpar_protocol_version = agent_protocol_version, brpar_wallet_instance_id = ag_wallet_instance_id A,
      brpar_backend_kind = LocalAccountDir, brpar_transport_kind = LocalSocket,
      brpar_approval_surface = cb_approval_surface (la_common (ag_config A)),
      brpar_instance_label = cb_instance_label (la_common (ag_config A)),
      brpar_lock_state = sn_lock_state sn, brpar_capabilities = sn_capabilities sn,
      brpar_backend_metadata = VObject [(''account_provider_kind'', VString ''local''),
        (''prompt_mode'', VString (prompt_mode_label (la_prompt_mode (ag_config A))))],
      brpar_accounts = sn_accounts sn\<rparr>"

definition agent_register_backend :: "('a, 'k, 's, 'm, 'd) Agent \<Rightarrow> ('m, 'd, Snapshot) agent" where
  "agent_register_backend A =
     bind (snapshot A) (\<lambda>sn.
     bind (set_lock_state (sn_lock_state sn)) (\<lambda>_.
     bind (question_mark (daemon_call (ag_backend_register (ag_client A) (registration_params A sn)))) (\<lambda>registered.
     if \<not> brr_accepted registered
     then err (''daemon rejected backend registration for '' @ ag_wallet_instance_id A)
     else ok sn)))"

definition sync_snapshot :: "('a, 'k, 's, 'm, 'd) Agent \<Rightarrow> Snapshot \<Rightarrow> ('m, 'd, Snapshot) agent" where
  "sync_snapshot A current =
     bind (snapshot A) (\<lambda>next.
     bind (set_lock_state (sn_lock_state next)) (\<lambda>_.
     if current = next then ok current
     else
       bind (question_mark (daemon_call (ag_backend_update_accounts (ag_client A)
         \<lparr>buapar_protocol_version = agent_protocol_version, buapar_wallet_instance_id = ag_wallet_instance_id A,
          buapar_lock_state = sn_lock_state next, buapar_capabilities = sn_capabilities next,
          buapar_accounts = sn_accounts next\<rparr>))) (\<lambda>_.
       ok next)))"

section \<open>Handling a request\<close>

definition pull_next_request_of :: "('a, 'k, 's, 'm, 'd) Agent \<Rightarrow> (('m, 'd) AgentState, SharedError, PulledRequest option) fallible" where
  "pull_next_request_of A =
     bind (daemon_call (ag_request_pull_next (ag_client A)
       \<lparr>rpnpar_protocol_version = agent_protocol_version, rpnpar_wallet_instance_id = ag_wallet_instance_id A\<rparr>)) (\<lambda>r.
     ok (pnr_request r))"

definition load_signing_account_info :: "('a, 'k, 's, 'm, 'd) Agent \<Rightarrow> 'a \<Rightarrow> ('m, 'a AccountInfo) support" where
  "load_signing_account_info A a =
     bind (manager_call RBackendUnavailable ''Failed to read local account state: '' (am_account_info (ag_manager A) a)) (\<lambda>info.
     bind (ok_or info (reject_with RBackendUnavailable ''Requested account is no longer available'')) (\<lambda>i.
     if ai_is_readonly i then err (reject_with RUnsupportedOperation ''Read-only accounts cannot sign'') else ok i))"

definition empty_resolve_params :: "('a, 'k, 's, 'm, 'd) Agent \<Rightarrow> PulledRequest \<Rightarrow> PresentationId \<Rightarrow> ResultKind \<Rightarrow> RequestResolveParams" where
  "empty_resolve_params A r p k =
     \<lparr>rrpar_protocol_version = agent_protocol_version, rrpar_wallet_instance_id = ag_wallet_instance_id A,
      rrpar_request_id = pr_request_id r, rrpar_presentation_id = p, rrpar_result_kind = k,
      rrpar_signed_txn_bcs_hex = None, rrpar_signature = None,
      rrpar_created_account_address = None, rrpar_created_account_public_key = None, rrpar_created_account_curve = None,
      rrpar_created_account_is_default = None, rrpar_created_account_is_locked = None,
      rrpar_exported_account_address = None, rrpar_exported_account_output_file = None,
      rrpar_imported_account_address = None, rrpar_imported_account_public_key = None, rrpar_imported_account_curve = None,
      rrpar_imported_account_is_default = None, rrpar_imported_account_is_locked = None\<rparr>"

fun agent_resolve_params :: "('a, 'k, 's, 'm, 'd) Agent \<Rightarrow> PulledRequest \<Rightarrow> PresentationId \<Rightarrow> RequestResult \<Rightarrow> RequestResolveParams" where
  "agent_resolve_params A r p (RSignedTransaction hex) =
     (empty_resolve_params A r p SignedTransaction)\<lparr>rrpar_signed_txn_bcs_hex := Some hex\<rparr>"
| "agent_resolve_params A r p (RSignedMessage s) = (empty_resolve_params A r p SignedMessage)\<lparr>rrpar_signature := Some s\<rparr>"
| "agent_resolve_params A r p (RCreatedAccount a k c d l) =
     (empty_resolve_params A r p CreatedAccount)
       \<lparr>rrpar_created_account_address := Some a, rrpar_created_account_public_key := Some k,
        rrpar_created_account_curve := Some c, rrpar_created_account_is_default := Some d,
        rrpar_created_account_is_locked := Some l\<rparr>"
| "agent_resolve_params A r p (RExportedAccount a f) =
     (empty_resolve_params A r p ExportedAccount)
       \<lparr>rrpar_exported_account_address := Some a, rrpar_exported_account_output_file := Some f\<rparr>"
| "agent_resolve_params A r p (RImportedAccount a k c d l) =
     (empty_resolve_params A r p ImportedAccount)
       \<lparr>rrpar_imported_account_address := Some a, rrpar_imported_account_public_key := Some k,
        rrpar_imported_account_curve := Some c, rrpar_imported_account_is_default := Some d,
        rrpar_imported_account_is_locked := Some l\<rparr>"

definition agent_resolve_request :: "('a, 'k, 's, 'm, 'd) Agent \<Rightarrow> PulledRequest \<Rightarrow> PresentationId \<Rightarrow> RequestResult \<Rightarrow> ('m, 'd, unit) agent" where
  "agent_resolve_request A r p res =
     bind (question_mark (daemon_call (ag_request_resolve (ag_client A) (agent_resolve_params A r p res)))) (\<lambda>_. ok ())"

definition agent_reject_request :: "('a, 'k, 's, 'm, 'd) Agent \<Rightarrow> PulledRequest \<Rightarrow> PresentationId option \<Rightarrow> RequestRejection \<Rightarrow> ('m, 'd, unit) agent" where
  "agent_reject_request A r p rej =
     bind (question_mark (daemon_call (ag_request_reject (ag_client A)
       \<lparr>rjpar_protocol_version = agent_protocol_version, rjpar_wallet_instance_id = ag_wallet_instance_id A,
        rjpar_request_id = pr_request_id r, rjpar_presentation_id = p,
        rjpar_reason_code = rjn_reason_code rej, rjpar_reason_message = rjn_message rej\<rparr>))) (\<lambda>_. ok ())"

definition choose_presentation_id :: "('a, 'k, 's, 'm, 'd) Agent \<Rightarrow> PulledRequest \<Rightarrow> ('m, 'd, PresentationId) agent" where
  "choose_presentation_id A r st =
     (case pr_presentation_id r of
        Some p \<Rightarrow> (Inr p, st)
      | None \<Rightarrow> (Inr (ag_new_presentation_id A (as_uuids st)), st\<lparr>as_uuids := Suc (as_uuids st)\<rparr>))"

text \<open>
  The part the three flows share: the request is presented and pushed, \<open>work\<close> runs with the presentation
  recorded in the heartbeat state, and its outcome is sent.
\<close>

definition present_and_decide :: "('a, 'k, 's, 'm, 'd) Agent \<Rightarrow> PulledRequest \<Rightarrow> ('m, RequestResult) support \<Rightarrow> ('m, 'd, unit) agent" where
  "present_and_decide A r work =
     bind (choose_presentation_id A r) (\<lambda>p.
     bind (question_mark (daemon_call (ag_request_presented (ag_client A)
       \<lparr>rppar_protocol_version = agent_protocol_version, rppar_wallet_instance_id = ag_wallet_instance_id A,
        rppar_request_id = pr_request_id r, rppar_delivery_lease_id = pr_delivery_lease_id r,
        rppar_presentation_id = p\<rparr>))) (\<lambda>_.
     bind (push_presented_request (pr_request_id r)) (\<lambda>_.
     bind (\<lambda>st. case in_world work st of (outcome, st') \<Rightarrow> (Inr outcome, st')) (\<lambda>outcome.
     bind (pop_presented_request (pr_request_id r)) (\<lambda>_.
     case outcome of
       Inr res \<Rightarrow> agent_resolve_request A r p res
     | Inl rej \<Rightarrow> agent_reject_request A r (Some p) rej)))))"

definition create_account_work :: "('a, 'k, 's, 'm, 'd) Agent \<Rightarrow> PulledRequest \<Rightarrow> Snapshot \<Rightarrow> ('m, RequestResult) support" where
  "create_account_work A r sn =
     bind (in_tty (prompt_for_create_account (ag_chain A) r (sn_capabilities sn))) (\<lambda>approval.
     if \<not> pa_approved approval
     then err (reject_with RRequestRejected ''User rejected the account-creation request'')
     else
       bind (ok_or (pa_password approval) (reject_with RBackendPolicyBlocked ''Account creation requires a password'')) (\<lambda>p.
       create_account (ag_chain A) (ag_manager A) p))"

definition import_account_work :: "('a, 'k, 's, 'm, 'd) Agent \<Rightarrow> PulledRequest \<Rightarrow> Snapshot \<Rightarrow> ('m, RequestResult) support" where
  "import_account_work A r sn =
     bind (in_tty (prompt_for_import_account (ag_chain A) r (sn_capabilities sn))) (\<lambda>approval.
     if \<not> pa_approved approval
     then err (reject_with RRequestRejected ''User rejected the account-import request'')
     else
       bind (ok_or (pa_password approval) (reject_with RBackendPolicyBlocked ''Account import requires a password'')) (\<lambda>p.
       import_account (ag_chain A) (ag_manager A) r p))"

definition signing_work :: "('a, 'k, 's, 'm, 'd) Agent \<Rightarrow> PulledRequest \<Rightarrow> Snapshot \<Rightarrow> 'a \<Rightarrow> 'a AccountInfo \<Rightarrow> ('m, RequestResult) support" where
  "signing_work A r sn a info =
     bind (in_tty (prompt_for_request (ag_chain A) r info (sn_capabilities sn))) (\<lambda>approval.
     if pa_approved approval then
       bind (load_signing_account_info A a) (\<lambda>fresh.
       fulfill_request (ag_chain A) (ag_manager A) (la_unlock_cache_ttl (ag_config A)) r a fresh
         (sn_capabilities sn) (pa_password approval))
     else err (reject_with RRequestRejected ''User rejected the signing request''))"

definition agent_handle_request :: "('a, 'k, 's, 'm, 'd) Agent \<Rightarrow> PulledRequest \<Rightarrow> Snapshot \<Rightarrow> ('m, 'd, unit) agent" where
  "agent_handle_request A r sn =
     (if pr_kind r = CreateAccount then present_and_decide A r (create_account_work A r sn)
      else if pr_kind r = ImportAccount then present_and_decide A r (import_account_work A r sn)
      else
        bind (of_result (parse_account_address (ag_chain A) (pr_account_address r))) (\<lambda>a.
        bind (\<lambda>st. case in_world (load_signing_account_info A a) st of (outcome, st') \<Rightarrow> (Inr outcome, st')) (\<lambda>outcome.
        case outcome of
          Inl rej \<Rightarrow> agent_reject_request A r (pr_presentation_id r) rej
        | Inr info \<Rightarrow> present_and_decide A r (signing_work A r sn a info))))"

section \<open>The loops\<close>

definition send_heartbeat :: "('a, 'k, 's, 'm, 'd) Agent \<Rightarrow> ('m, 'd, unit) agent" where
  "send_heartbeat A =
     bind (\<lambda>st. (Inr (as_heartbeat st), st)) (\<lambda>hb.
     bind (map_error message (daemon_call (ag_backend_heartbeat (ag_client A)
       \<lparr>bhpar_protocol_version = agent_protocol_version, bhpar_wallet_instance_id = ag_wallet_instance_id A,
        bhpar_presented_request_ids = hb_presented_request_ids hb, bhpar_lock_state = Some (hb_lock_state hb)\<rparr>))) (\<lambda>_.
     ok ()))"

text \<open>One turn of the main loop; a failing pull is logged and the agent sleeps.\<close>

definition agent_turn :: "('a, 'k, 's, 'm, 'd) Agent \<Rightarrow> Snapshot \<Rightarrow> ('m, 'd, Snapshot) agent" where
  "agent_turn A sn =
     bind (sync_snapshot A sn) (\<lambda>sn1.
     bind (\<lambda>st. case pull_next_request_of A st of (outcome, st') \<Rightarrow> (Inr outcome, st')) (\<lambda>outcome.
     case outcome of
       Inr (Some r) \<Rightarrow> bind (agent_handle_request A r sn1) (\<lambda>_. sync_snapshot A sn1)
     | _ \<Rightarrow> ok sn1))"

fun agent_turns :: "('a, 'k, 's, 'm, 'd) Agent \<Rightarrow> nat \<Rightarrow> Snapshot \<Rightarrow> ('m, 'd, Snapshot) agent" where
  "agent_turns A 0 sn = ok sn"
| "agent_turns A (Suc n) sn = bind (agent_turn A sn) (agent_turns A n)"

text \<open>The run of the agent over its first \<open>n\<close> turns; the loop of \<open>run\<close> ends only with an error.\<close>

definition agent_run :: "('a, 'k, 's, 'm, 'd) Agent \<Rightarrow> nat \<Rightarrow> ('m, 'd, Snapshot) agent" where
  "agent_run A n = bind (agent_register_backend A) (agent_turns A n)"

text \<open>\<open>main\<close>: the configured backend the agent serves.\<close>

definition agent_backend :: "RuntimeConfig \<Rightarrow> string \<Rightarrow> LocalAccountDirBackendConfig anyhow" where
  "agent_backend rc bid =
     (case find_backend rc bid of
        None \<Rightarrow> Inl (''backend '' @ bid @ '' is not configured'')
      | Some b \<Rightarrow>
          (case as_local_account_dir b of
             None \<Rightarrow> Inl (''backend '' @ bid @ '' is not a local_account_dir backend'')
           | Some cfg \<Rightarrow>
               if la_prompt_mode cfg \<noteq> TtyPromptMode
               then Inl ''local-account-agent currently supports only prompt_mode = tty_prompt''
               else Inr cfg))"

end
