(* ===== verification/Agent_Rules.thy ===== *)
theory Agent_Rules
  imports Agent Server_Rules Coordinator_Runs
begin

text \<open>
  The agent and the daemon together: what an approval at the terminal, a rejection and a failure do to
  the requests the coordinator stores, proved against the store contract.
\<close>

section \<open>Results on their way to the daemon\<close>

lemma agent_resolve_params_result: "request_result_from_params (agent_resolve_params A r p res) = Inr res"
  by (cases res) (simp_all add: request_result_from_params_def empty_resolve_params_def required_request_field_def bind_result_def)

lemma agent_resolve_params_ids:
  "rrpar_wallet_instance_id (agent_resolve_params A r p res) = ag_wallet_instance_id A"
  "rrpar_request_id (agent_resolve_params A r p res) = pr_request_id r"
  "rrpar_presentation_id (agent_resolve_params A r p res) = p"
  "rrpar_protocol_version (agent_resolve_params A r p res) = GENERIC_BACKEND_PROTOCOL_VERSION"
  by (cases res; simp add: empty_resolve_params_def agent_protocol_version_def)+

section \<open>Work is done after an approval only\<close>

lemma in_tty_Inr: "in_tty m w = (Inr x, w') \<Longrightarrow> \<exists>t. m (aw_tty w) = (Inr x, t) \<and> w' = w\<lparr>aw_tty := t\<rparr>"
  by (auto simp: in_tty_def split: prod.splits)

lemma create_account_work_typed:
  assumes "create_account_work A r sn w = (Inr res, w')"
  shows "typed_decision (tty_lines (aw_tty w)) = Some Approve \<and> result_kind res = CreatedAccount"
  using assms unfolding create_account_work_def
  by (auto simp: err_apply split: if_splits elim!: bind_InrE dest!: in_tty_Inr prompt_for_account_typed(1) dest: create_account_kind)

lemma import_account_work_typed:
  assumes "import_account_work A r sn w = (Inr res, w')"
  shows "typed_decision (tty_lines (aw_tty w)) = Some Approve \<and> result_kind res = ImportedAccount"
  using assms unfolding import_account_work_def
  by (auto simp: err_apply split: if_splits elim!: bind_InrE dest!: in_tty_Inr prompt_for_account_typed(2) dest: import_account_kind)

lemma signing_work_typed:
  assumes "signing_work A r sn a info w = (Inr res, w')"
  shows "typed_decision (tty_lines (aw_tty w)) = Some Approve \<and> result_kind res = expected_result_kind (pr_kind r)"
  using assms unfolding signing_work_def
  by (auto simp: err_apply split: if_splits elim!: bind_InrE dest!: in_tty_Inr prompt_for_request_typed(1) dest: fulfill_request_kind)

section \<open>The calls of one request\<close>

lemma daemon_call_question_mark:
  "question_mark (daemon_call m) st = (case m (as_daemon st) of (r, d) \<Rightarrow> (map_sum SharedError_to_string id r, st\<lparr>as_daemon := d\<rparr>))"
  by (auto simp: question_mark_def map_error_def daemon_call_def split: prod.splits sum.splits)

text \<open>
  The daemon sees the presentation, and after it the resolution of what \<open>work\<close> produced or a rejection
  with its reason; it sees nothing else.
\<close>

lemma present_and_decide_calls:
  assumes "present_and_decide A r work st = (x, st')"
  obtains (failed) p e d where "ag_request_presented (ag_client A)
        \<lparr>rppar_protocol_version = agent_protocol_version, rppar_wallet_instance_id = ag_wallet_instance_id A,
         rppar_request_id = pr_request_id r, rppar_delivery_lease_id = pr_delivery_lease_id r, rppar_presentation_id = p\<rparr>
        (as_daemon st) = (Inl e, d)" "as_daemon st' = d" "as_world st' = as_world st"
        "hb_presented_request_ids (as_heartbeat st') = hb_presented_request_ids (as_heartbeat st)" "\<exists>m. x = Inl m"
    | (presented) p ack d outcome where "ag_request_presented (ag_client A)
        \<lparr>rppar_protocol_version = agent_protocol_version, rppar_wallet_instance_id = ag_wallet_instance_id A,
         rppar_request_id = pr_request_id r, rppar_delivery_lease_id = pr_delivery_lease_id r, rppar_presentation_id = p\<rparr>
        (as_daemon st) = (Inr ack, d)"
        "p = (case pr_presentation_id r of Some q \<Rightarrow> q | None \<Rightarrow> ag_new_presentation_id A (as_uuids st))"
        "work (as_world st) = (outcome, as_world st')"
        "hb_presented_request_ids (as_heartbeat st') =
          filter (\<lambda>i. i \<noteq> pr_request_id r) (hb_presented_request_ids (as_heartbeat st))"
        "case outcome of
           Inr res \<Rightarrow> \<exists>y. ag_request_resolve (ag_client A) (agent_resolve_params A r p res) d = (y, as_daemon st')
         | Inl rej \<Rightarrow> \<exists>y. ag_request_reject (ag_client A)
             \<lparr>rjpar_protocol_version = agent_protocol_version, rjpar_wallet_instance_id = ag_wallet_instance_id A,
              rjpar_request_id = pr_request_id r, rjpar_presentation_id = Some p,
              rjpar_reason_code = rjn_reason_code rej, rjpar_reason_message = rjn_message rej\<rparr> d = (y, as_daemon st')"
proof -
  define p where "p = (case pr_presentation_id r of Some q \<Rightarrow> q | None \<Rightarrow> ag_new_presentation_id A (as_uuids st))"
  define st1 where "st1 = (if pr_presentation_id r = None then st\<lparr>as_uuids := Suc (as_uuids st)\<rparr> else st)"
  have choose: "choose_presentation_id A r st = (Inr p, st1)"
    by (auto simp: choose_presentation_id_def p_def st1_def split: option.splits)
  have st1: "as_daemon st1 = as_daemon st" "as_world st1 = as_world st" "as_heartbeat st1 = as_heartbeat st"
    by (simp_all add: st1_def)
  let ?params = "\<lparr>rppar_protocol_version = agent_protocol_version, rppar_wallet_instance_id = ag_wallet_instance_id A,
         rppar_request_id = pr_request_id r, rppar_delivery_lease_id = pr_delivery_lease_id r, rppar_presentation_id = p\<rparr>"
  obtain y d where call: "ag_request_presented (ag_client A) ?params (as_daemon st) = (y, d)" by fastforce
  show thesis
  proof (cases y)
    case (Inl e)
    with assms choose call have "st' = st1\<lparr>as_daemon := d\<rparr>" "\<exists>m. x = Inl m"
      by (auto simp: present_and_decide_def bind_def daemon_call_question_mark st1)
    with failed [of p e d] Inl call st1 show thesis by simp
  next
    case (Inr ack)
    obtain outcome w where work: "work (as_world st) = (outcome, w)" by fastforce
    let ?hb = "(as_heartbeat st)\<lparr>hb_presented_request_ids := filter (\<lambda>i. i \<noteq> pr_request_id r) (hb_presented_request_ids (as_heartbeat st))\<rparr>"
    let ?st2 = "st1\<lparr>as_daemon := d, as_world := w, as_heartbeat := ?hb\<rparr>"
    have "present_and_decide A r work st =
        (case outcome of Inr res \<Rightarrow> agent_resolve_request A r p res ?st2 | Inl rej \<Rightarrow> agent_reject_request A r (Some p) rej ?st2)"
      using choose call Inr work st1
      by (auto simp: present_and_decide_def bind_def daemon_call_question_mark push_presented_request_def
          pop_presented_request_def in_world_def Let_def split: sum.splits)
    with assms presented [OF call [unfolded Inr] p_def, of outcome] work show thesis
      by (cases outcome)
        (auto simp: agent_resolve_request_def agent_reject_request_def bind_def daemon_call_question_mark ok_apply
          split: prod.splits sum.splits)
  qed
qed

section \<open>The daemon behind the calls\<close>

text \<open>
  What \<open>serde_json\<close> guarantees of the agent's messages: the server reads the method the client wrote, and
  the parameters of a resolution.
\<close>

definition agent_wire_ok :: "AgentSerde \<Rightarrow> Serde \<Rightarrow> bool" where
  "agent_wire_ok E D \<longleftrightarrow>
     resolve_wire_ok (ag_shared E) D \<and>
     (\<forall>i p bytes req. enc_request_presented (ag_shared E) (JsonRpcRequest_new i ''request.presented'' p) = Inr bytes \<longrightarrow>
        request_from_slice D bytes = Inr req \<longrightarrow> rpc_method req = ''request.presented'') \<and>
     (\<forall>i p bytes req. enc_request_reject (ag_shared E) (JsonRpcRequest_new i ''request.reject'' p) = Inr bytes \<longrightarrow>
        request_from_slice D bytes = Inr req \<longrightarrow> rpc_method req = ''request.reject'')"

definition newly_approved :: "'s StoreView \<Rightarrow> 's Coordinator \<Rightarrow> 's Coordinator \<Rightarrow> RequestId \<Rightarrow> RequestRecord \<Rightarrow> bool" where
  "newly_approved V c c' k r \<longleftrightarrow>
     v_reqs V (store c') k = Some r \<and> status r = Approved \<and>
     (\<forall>r0. v_reqs V (store c) k = Some r0 \<longrightarrow> status r0 \<noteq> Approved)"

lemma newly_approved_refl: "\<not> newly_approved V c c k r"
  by (auto simp: newly_approved_def)

lemma newly_approved_trans:
  assumes "newly_approved V c c'' k r" "\<And>r. \<not> newly_approved V c c' k r"
  shows "newly_approved V c' c'' k r"
  using assms by (auto simp: newly_approved_def)

lemma call_runs:
  assumes "call D T x cmd (Running c) = (reply, s')"
  shows "\<exists>res c'. dispatch T cmd c = (res, c') \<and> s' = Running c' \<and> ((\<exists>v. reply = Inr v) \<longrightarrow> (\<exists>y. res = Inr y))"
  using assms
  by (auto simp: call_def bind_def expect_response_def reply_value_def of_result_def split: prod.splits sum.splits)

lemma serve_presented_runs:
  assumes "serde_ok D" "serve_presented D T i v (Running c) = (reply, s')"
  shows "s' = Running c \<or> (\<exists>cmd res c'. nonblank (mrp_presentation_id cmd) \<and> dispatch T (CmdMarkRequestPresented cmd) c = (res, c') \<and> s' = Running c')"
proof (cases "decode_protocol_one_of (from_RequestPresentedParams D) rppar_protocol_version i v both_versions")
  case (Inl e)
  with assms(2) show ?thesis by (simp add: serve_presented_def bind_def of_result_def)
next
  case (Inr p)
  then have "from_RequestPresentedParams D v = Inr p" by (auto simp: decode_protocol_one_of_def split: sum.splits if_splits)
  with assms(1) have "nonblank (rppar_presentation_id p)" by (auto simp: serde_ok_def)
  moreover let ?cmd = "\<lparr>mrp_request_id = rppar_request_id p, mrp_wallet_instance_id = rppar_wallet_instance_id p,
        mrp_delivery_lease_id = rppar_delivery_lease_id p, mrp_presentation_id = rppar_presentation_id p\<rparr>"
  from Inr assms(2) have "call D T ExpectPresented (CmdMarkRequestPresented ?cmd) (Running c) = (reply, s')"
    by (simp add: serve_presented_def bind_def of_result_def)
  from call_runs [OF this] obtain res c' where "dispatch T (CmdMarkRequestPresented ?cmd) c = (res, c')" "s' = Running c'"
    by blast
  ultimately show ?thesis by (intro disjI2 exI [where x = ?cmd]) auto
qed

lemma serve_reject_runs:
  assumes "serve_reject D T i v (Running c) = (reply, s')"
  shows "s' = Running c \<or> (\<exists>cmd res c'. dispatch T (CmdRejectRequest cmd) c = (res, c') \<and> s' = Running c')"
  using assms
  by (cases "decode_protocol_one_of (from_RequestRejectParams D) rjpar_protocol_version i v both_versions")
    (fastforce simp: serve_reject_def bind_def of_result_def dest!: call_runs)+

lemma serve_resolve_runs:
  assumes "from_RequestResolveParams D v = Inr p" "request_result_from_params p = Inr r" "rrpar_protocol_version p \<in> set both_versions"
    "serve_resolve D T i v (Running c) = (reply, s')"
  shows "\<exists>res c'. dispatch T (CmdResolveRequest
      \<lparr>res_request_id = rrpar_request_id p, res_wallet_instance_id = rrpar_wallet_instance_id p,
       res_presentation_id = rrpar_presentation_id p, res_result = r\<rparr>) c = (res, c') \<and> s' = Running c'"
  using assms by (auto simp: serve_resolve_def decode_protocol_one_of_def bind_def of_result_def dest!: call_runs)

lemma dispatch_request_method:
  assumes "dispatch_request D T P req s = (reply, s')"
  shows "\<exists>r. dispatch_method D T P (rpc_id req) (rpc_method req) (rpc_params req) s = (r, s')"
  using assms by (auto simp: dispatch_request_def bind_def ok_apply split: prod.splits sum.splits)

lemma dispatch_method_names:
  "dispatch_method D T P i ''request.presented'' v = serve_presented D T i v"
  "dispatch_method D T P i ''request.reject'' v = serve_reject D T i v"
  "dispatch_method D T P i ''request.resolve'' v = serve_resolve D T i v"
  by (simp_all add: dispatch_method_def)

lemma agent_call_state:
  assumes "agent_call (agent_exchange attempts (daemon_exchange D T P fault)) enc dec m p s = (x, s')"
  shows "s' = s \<or> (\<exists>bytes req r. enc (JsonRpcRequest_new ''local-account-agent'' m p) = Inr bytes \<and>
    request_from_slice D bytes = Inr req \<and> dispatch_method D T P (rpc_id req) (rpc_method req) (rpc_params req) s = (r, s'))"
proof -
  from client_call_state [OF assms [unfolded agent_call_def]]
  consider "s' = s" | bytes r where "enc (JsonRpcRequest_new ''local-account-agent'' m p) = Inr bytes"
    "agent_exchange attempts (daemon_exchange D T P fault) bytes s = (r, s')" by blast
  then show ?thesis
  proof cases
    case (2 bytes r)
    then have "s' = s \<or> (\<exists>r. daemon_exchange D T P fault bytes s = (r, s'))"
      by (auto simp: agent_exchange_def err_apply split: sum.splits)
    with 2(1) daemon_exchange_state dispatch_request_method show ?thesis by metis
  qed simp
qed

lemma load_signing_keeps_tty: "load_signing_account_info A a w = (r, w') \<Longrightarrow> aw_tty w' = aw_tty w"
  by (auto simp: load_signing_account_info_def manager_call_def bind_def map_error_def in_manager_def ok_or_def ok_def err_def
      split: prod.splits sum.splits option.splits if_splits)

context coordinator_store
begin

lemma quiet_command:
  assumes "coord_inv V c" "cmd_ok cmd" "\<And>res. cmd \<noteq> CmdResolveRequest res" "dispatch T cmd c = (reply, c')"
  shows "coord_inv V c' \<and> (\<forall>k r. \<not> newly_approved V c c' k r)"
proof (intro conjI allI notI)
  show "coord_inv V c'" using dispatch_inv [OF assms(1,2,4)] by blast
  fix k r assume "newly_approved V c c' k r"
  then have "v_reqs V (store c') k = Some r" "status r = Approved" "\<And>r0. v_reqs V (store c) k = Some r0 \<Longrightarrow> status r0 \<noteq> Approved"
    by (auto simp: newly_approved_def)
  from dispatch_approval [OF assms(1,2,4) this] assms(3) show False by blast
qed

lemma resolve_command:
  assumes "coord_inv V c" "dispatch T (CmdResolveRequest cmd) c = (reply, c')" "newly_approved V c c' k r"
  shows "k = res_request_id cmd \<and> result r = Some (res_result cmd)"
proof -
  from assms(3) have "v_reqs V (store c') k = Some r" "status r = Approved" "\<And>r0. v_reqs V (store c) k = Some r0 \<Longrightarrow> status r0 \<noteq> Approved"
    by (auto simp: newly_approved_def)
  from dispatch_approval [OF assms(1) _ assms(2) this] show ?thesis by (auto simp: approved_request_def)
qed

lemma agent_presented_quiet:
  assumes "coord_inv V c" "serde_ok D" "agent_wire_ok E D"
    "ag_request_presented (AgentDaemonClient E (agent_exchange attempts (daemon_exchange D T P fault))) p (Running c) = (x, s')"
  shows "\<exists>c'. s' = Running c' \<and> coord_inv V c' \<and> (\<forall>k r. \<not> newly_approved V c c' k r)"
proof -
  have unmoved: "s' = Running c \<Longrightarrow> ?thesis" using assms(1) by (simp add: newly_approved_refl)
  from assms(4) have "agent_call (agent_exchange attempts (daemon_exchange D T P fault)) (enc_request_presented (ag_shared E))
      (dec_ack (ag_shared E)) ''request.presented'' p (Running c) = (x, s')"
    by (simp add: AgentDaemonClient_def Let_def)
  from agent_call_state [OF this] show ?thesis
  proof (elim disjE exE conjE)
    fix bytes req r
    assume h: "enc_request_presented (ag_shared E) (JsonRpcRequest_new ''local-account-agent'' ''request.presented'' p) = Inr bytes"
      "request_from_slice D bytes = Inr req" "dispatch_method D T P (rpc_id req) (rpc_method req) (rpc_params req) (Running c) = (r, s')"
    with assms(3) have "rpc_method req = ''request.presented''" unfolding agent_wire_ok_def by blast
    with h(3) have "serve_presented D T (rpc_id req) (rpc_params req) (Running c) = (r, s')" by (simp add: dispatch_method_names)
    from serve_presented_runs [OF assms(2) this] show ?thesis
    proof (elim disjE exE conjE)
      fix cmd res c' assume d: "nonblank (mrp_presentation_id cmd)" "dispatch T (CmdMarkRequestPresented cmd) c = (res, c')" "s' = Running c'"
      from quiet_command [OF assms(1) _ _ d(2)] d(1,3) show ?thesis by simp
    qed (rule unmoved)
  qed (rule unmoved)
qed

lemma agent_reject_quiet:
  assumes "coord_inv V c" "agent_wire_ok E D"
    "ag_request_reject (AgentDaemonClient E (agent_exchange attempts (daemon_exchange D T P fault))) p (Running c) = (x, s')"
  shows "\<exists>c'. s' = Running c' \<and> (\<forall>k r. \<not> newly_approved V c c' k r)"
proof -
  have unmoved: "s' = Running c \<Longrightarrow> ?thesis" using assms(1) by (simp add: newly_approved_refl)
  from assms(3) have "agent_call (agent_exchange attempts (daemon_exchange D T P fault)) (enc_request_reject (ag_shared E))
      (dec_ack (ag_shared E)) ''request.reject'' p (Running c) = (x, s')"
    by (simp add: AgentDaemonClient_def Let_def)
  from agent_call_state [OF this] show ?thesis
  proof (elim disjE exE conjE)
    fix bytes req r
    assume h: "enc_request_reject (ag_shared E) (JsonRpcRequest_new ''local-account-agent'' ''request.reject'' p) = Inr bytes"
      "request_from_slice D bytes = Inr req" "dispatch_method D T P (rpc_id req) (rpc_method req) (rpc_params req) (Running c) = (r, s')"
    with assms(2) have "rpc_method req = ''request.reject''" unfolding agent_wire_ok_def by blast
    with h(3) have "serve_reject D T (rpc_id req) (rpc_params req) (Running c) = (r, s')" by (simp add: dispatch_method_names)
    from serve_reject_runs [OF this] show ?thesis
    proof (elim disjE exE conjE)
      fix cmd res c' assume d: "dispatch T (CmdRejectRequest cmd) c = (res, c')" "s' = Running c'"
      from quiet_command [OF assms(1) _ _ d(1)] d(2) show ?thesis by simp
    qed (rule unmoved)
  qed (rule unmoved)
qed

lemma agent_resolve_approves:
  assumes "coord_inv V c" "agent_wire_ok E D"
    "nonblank (ag_wallet_instance_id A)" "nonblank (pr_request_id q)" "nonblank p"
    "ag_request_resolve (AgentDaemonClient E (agent_exchange attempts (daemon_exchange D T P fault)))
       (agent_resolve_params A q p res) (Running c) = (x, s')"
  shows "\<exists>c'. s' = Running c' \<and> (\<forall>k r. newly_approved V c c' k r \<longrightarrow> k = pr_request_id q \<and> result r = Some res)"
proof -
  let ?p = "agent_resolve_params A q p res"
  have unmoved: "s' = Running c \<Longrightarrow> ?thesis" using assms(1) by (simp add: newly_approved_refl)
  from assms(6) have "agent_call (agent_exchange attempts (daemon_exchange D T P fault)) (enc_request_resolve (ag_shared E))
      (dec_ack (ag_shared E)) ''request.resolve'' ?p (Running c) = (x, s')"
    by (simp add: AgentDaemonClient_def Let_def)
  from agent_call_state [OF this] show ?thesis
  proof (elim disjE exE conjE)
    fix bytes req r
    assume h: "enc_request_resolve (ag_shared E) (JsonRpcRequest_new ''local-account-agent'' ''request.resolve'' ?p) = Inr bytes"
      "request_from_slice D bytes = Inr req" "dispatch_method D T P (rpc_id req) (rpc_method req) (rpc_params req) (Running c) = (r, s')"
    from assms(2) have "resolve_wire_ok (ag_shared E) D" by (simp add: agent_wire_ok_def)
    with h(1,2) assms(3-5) have m: "rpc_method req = ''request.resolve''" "from_RequestResolveParams D (rpc_params req) = Inr ?p"
      unfolding resolve_wire_ok_def by (fastforce simp: agent_resolve_params_ids)+
    with h(3) have "serve_resolve D T (rpc_id req) (rpc_params req) (Running c) = (r, s')" by (simp add: dispatch_method_names)
    from serve_resolve_runs [OF m(2) agent_resolve_params_result _ this] obtain y c' where
      d: "dispatch T (CmdResolveRequest \<lparr>res_request_id = pr_request_id q, res_wallet_instance_id = ag_wallet_instance_id A,
        res_presentation_id = p, res_result = res\<rparr>) c = (y, c')" "s' = Running c'"
      by (auto simp: agent_resolve_params_ids both_versions_def)
    from resolve_command [OF assms(1) d(1)] d(2) show ?thesis by auto
  qed (rule unmoved)
qed

lemma present_and_decide_approves:
  assumes "coord_inv V c" "serde_ok D" "agent_wire_ok E D"
    "ag_client A = AgentDaemonClient E (agent_exchange attempts (daemon_exchange D T P fault))" "as_daemon st = Running c"
    "nonblank (ag_wallet_instance_id A)" "nonblank (pr_request_id q)" "\<And>n. nonblank (ag_new_presentation_id A n)"
    "\<And>p. pr_presentation_id q = Some p \<Longrightarrow> nonblank p"
    "\<And>res w. work (as_world st) = (Inr res, w) \<Longrightarrow> G res"
    "present_and_decide A q work st = (x, st')"
  shows "\<exists>c'. as_daemon st' = Running c' \<and>
    (\<forall>k r. newly_approved V c c' k r \<longrightarrow> k = pr_request_id q \<and> (\<exists>res. result r = Some res \<and> G res))"
  using assms(11)
proof (cases rule: present_and_decide_calls)
  case (failed p e d)
  from agent_presented_quiet [OF assms(1-3) failed(1) [unfolded assms(4,5)]] failed(2) show ?thesis by blast
next
  case (presented p ack d outcome)
  from agent_presented_quiet [OF assms(1-3) presented(1) [unfolded assms(4,5)]] obtain c1 where
    c1: "d = Running c1" "coord_inv V c1" "\<And>k r. \<not> newly_approved V c c1 k r" by blast
  have p: "nonblank p" using presented(2) assms(8,9) by (auto split: option.splits)
  show ?thesis
  proof (cases outcome)
    case (Inl rej)
    with presented(5) c1(1) assms(4) agent_reject_quiet [OF c1(2) assms(3)] obtain c' where
      "as_daemon st' = Running c'" "\<And>k r. \<not> newly_approved V c1 c' k r" by fastforce
    with newly_approved_trans c1(3) show ?thesis by blast
  next
    case (Inr res)
    with presented(5) c1(1) assms(4) obtain y where
      "ag_request_resolve (AgentDaemonClient E (agent_exchange attempts (daemon_exchange D T P fault)))
        (agent_resolve_params A q p res) (Running c1) = (y, as_daemon st')" by auto
    from agent_resolve_approves [OF c1(2) assms(3,6,7) p this] obtain c' where
      "as_daemon st' = Running c'" "\<And>k r. newly_approved V c1 c' k r \<Longrightarrow> k = pr_request_id q \<and> result r = Some res" by blast
    moreover have "G res" using assms(10) presented(3) Inr by blast
    ultimately show ?thesis using newly_approved_trans c1(3) by blast
  qed
qed

lemma agent_approves_what_was_typed:
  assumes "coord_inv V c" "serde_ok D" "agent_wire_ok E D"
    "ag_client A = AgentDaemonClient E (agent_exchange attempts (daemon_exchange D T P fault))" "as_daemon st = Running c"
    "nonblank (ag_wallet_instance_id A)" "nonblank (pr_request_id q)" "\<And>n. nonblank (ag_new_presentation_id A n)"
    "\<And>p. pr_presentation_id q = Some p \<Longrightarrow> nonblank p"
    "agent_handle_request A q sn st = (x, st')"
  shows "\<exists>c'. as_daemon st' = Running c' \<and>
    (\<forall>k r. newly_approved V c c' k r \<longrightarrow> k = pr_request_id q \<and>
      typed_decision (tty_lines (aw_tty (as_world st))) = Some Approve \<and>
      (\<exists>res. result r = Some res \<and> result_kind res = expected_result_kind (pr_kind q)))"
proof -
  let ?G = "\<lambda>res. typed_decision (tty_lines (aw_tty (as_world st))) = Some Approve \<and> result_kind res = expected_result_kind (pr_kind q)"
  have flow: ?thesis if "present_and_decide A q work st1 = (x, st')" "as_daemon st1 = Running c"
    "\<And>res w. work (as_world st1) = (Inr res, w) \<Longrightarrow> ?G res" for work st1
  proof -
    have "\<exists>c'. as_daemon st' = Running c' \<and>
        (\<forall>k r. newly_approved V c c' k r \<longrightarrow> k = pr_request_id q \<and> (\<exists>res. result r = Some res \<and> ?G res))"
      by (rule present_and_decide_approves [where G = ?G, OF assms(1-4) that(2) assms(6-8) _ _ that(1)])
        (use assms(9) that(3) in blast)+
    then show ?thesis by blast
  qed
  consider (create) "pr_kind q = CreateAccount" | (imported) "pr_kind q = ImportAccount"
    | (signing) "pr_kind q \<noteq> CreateAccount" "pr_kind q \<noteq> ImportAccount" by blast
  then show ?thesis
  proof cases
    case create
    with assms(10) have "present_and_decide A q (create_account_work A q sn) st = (x, st')" by (simp add: agent_handle_request_def)
    from flow [OF this assms(5)] create_account_work_typed create show ?thesis by fastforce
  next
    case imported
    with assms(10) have "present_and_decide A q (import_account_work A q sn) st = (x, st')" by (simp add: agent_handle_request_def)
    from flow [OF this assms(5)] import_account_work_typed imported show ?thesis by fastforce
  next
    case signing
    show ?thesis
    proof (cases "parse_account_address (ag_chain A) (pr_account_address q)")
      case (Inl e)
      with assms(5,10) signing have "as_daemon st' = Running c" by (auto simp: agent_handle_request_def bind_def of_result_def)
      then show ?thesis by (simp add: newly_approved_refl)
    next
      case (Inr a)
      obtain outcome st1 where load: "in_world (load_signing_account_info A a) st = (outcome, st1)" by fastforce
      then have st1: "as_daemon st1 = Running c" "aw_tty (as_world st1) = aw_tty (as_world st)"
        using assms(5) load_signing_keeps_tty [of A a "as_world st"] by (auto simp: in_world_def split: prod.splits)
      show ?thesis
      proof (cases outcome)
        case (Inl rej)
        with assms(10) Inr load signing have "agent_reject_request A q (pr_presentation_id q) rej st1 = (x, st')"
          by (simp add: agent_handle_request_def bind_def of_result_def)
        then obtain y par where "ag_request_reject (ag_client A) par (Running c) = (y, as_daemon st')"
          using st1(1) by (auto simp: agent_reject_request_def bind_def daemon_call_question_mark ok_apply split: prod.splits sum.splits)
        from agent_reject_quiet [OF assms(1,3) this [unfolded assms(4)]] show ?thesis by blast
      next
        case (Inr info)
        with assms(10) \<open>parse_account_address (ag_chain A) (pr_account_address q) = Inr a\<close> load signing
        have "present_and_decide A q (signing_work A q sn a info) st1 = (x, st')"
          by (simp add: agent_handle_request_def bind_def of_result_def)
        from flow [OF this st1(1)] signing_work_typed [of A q sn a info "as_world st1"] st1(2) show ?thesis by fastforce
      qed
    qed
  qed
qed

end

end
