(* ===== verification/Agent_Keys.thy ===== *)
theory Agent_Keys
  imports Agent_Rules
begin

text \<open>
  The private keys the agent writes: the only files that handling a request changes, and when.
\<close>

section \<open>What may happen to the files\<close>

definition files :: "'m AgentWorld \<Rightarrow> PathBuf \<Rightarrow> File option" where
  "files w = fs_files (aw_fs w)"

text \<open>The key of a requested export is the new content of the output file, which the user alone may read.\<close>

definition key_written :: "PulledRequest \<Rightarrow> (PathBuf \<Rightarrow> File option) \<Rightarrow> (PathBuf \<Rightarrow> File option) \<Rightarrow> bool" where
  "key_written q before after \<longleftrightarrow>
     pr_kind q = ExportAccount \<and>
     (\<exists>f encoded. pr_output_file q = Some f \<and> (pr_force q \<or> before f = None) \<and>
        after = before(f \<mapsto> \<lparr>file_content = encoded @ [CHR 0x0A], file_mode = 384\<rparr>))"

definition keeps_files :: "('m, 'x) support \<Rightarrow> bool" where
  "keeps_files m \<longleftrightarrow> (\<forall>w r w'. m w = (r, w') \<longrightarrow> files w' = files w)"

definition exports :: "PulledRequest \<Rightarrow> ('m, 'x) support \<Rightarrow> bool" where
  "exports q m \<longleftrightarrow>
     (\<forall>w r w'. m w = (r, w') \<longrightarrow> files w' = files w \<or> (\<exists>x. r = Inr x) \<and> key_written q (files w) (files w'))"

lemma keeps_filesD: "keeps_files m \<Longrightarrow> m w = (r, w') \<Longrightarrow> files w' = files w"
  by (auto simp: keeps_files_def)

lemma exportsD:
  "exports q m \<Longrightarrow> m w = (r, w') \<Longrightarrow> files w' = files w \<or> (\<exists>x. r = Inr x) \<and> key_written q (files w) (files w')"
  by (auto simp: exports_def)

lemma keeps_bind: "keeps_files m \<Longrightarrow> (\<And>x. keeps_files (f x)) \<Longrightarrow> keeps_files (bind m f)"
  by (auto simp: keeps_files_def bind_def split: prod.splits sum.splits)

lemma exports_bind:
  assumes "keeps_files m" "\<And>x. exports q (f x)" shows "exports q (bind m f)"
  unfolding exports_def
proof (intro allI impI)
  fix w r w' assume h: "bind m f w = (r, w')"
  obtain y w1 where m: "m w = (y, w1)" by fastforce
  from keeps_filesD [OF assms(1) m] have same: "files w1 = files w" .
  show "files w' = files w \<or> (\<exists>x. r = Inr x) \<and> key_written q (files w) (files w')"
    using h m same exportsD [OF assms(2)] by (cases y) (fastforce simp: bind_def)+
qed

lemma keeps_exports: "keeps_files m \<Longrightarrow> exports q m"
  by (auto simp: keeps_files_def exports_def)

lemma keeps_basic:
  "keeps_files (ok x)" "keeps_files (err e)" "keeps_files (of_result r)" "keeps_files (ok_or v e)"
  "keeps_files (checked c what res)" "keeps_files (manager_call c what n)" "keeps_files (in_tty t)"
  by (auto simp: keeps_files_def ok_def err_def of_result_def ok_or_def checked_def manager_call_def map_error_def in_manager_def
      in_tty_def files_def split: prod.splits sum.splits option.splits)

lemma keeps_if: "(b \<Longrightarrow> keeps_files m) \<Longrightarrow> (\<not> b \<Longrightarrow> keeps_files n) \<Longrightarrow> keeps_files (if b then m else n)"
  by simp

lemma exports_if: "(b \<Longrightarrow> exports q m) \<Longrightarrow> (\<not> b \<Longrightarrow> exports q n) \<Longrightarrow> exports q (if b then m else n)"
  by simp

lemma keeps_read: "keeps_files (map_error g (in_fs (fs_read_to_string p)))"
  by (auto simp: keeps_files_def map_error_def in_fs_def fs_read_to_string_def bind_def syscall_def files_def Let_def ok_def err_def
      split: prod.splits sum.splits option.splits)

lemmas keeps_rules = keeps_bind keeps_basic keeps_if keeps_read

section \<open>The operations of the agent\<close>

lemma keeps_create_account: "keeps_files (create_account X K p)"
  unfolding create_account_def load_new_account_def by (intro keeps_rules)

lemma keeps_import_account: "keeps_files (import_account X K q p)"
  unfolding import_account_def load_new_account_def by (intro keeps_rules)

lemma keeps_sign: "keeps_files (sign_transaction X K q a)" "keeps_files (sign_message X K q a)"
  unfolding sign_transaction_def sign_message_def by (intro keeps_rules)+

lemma keeps_load_signing: "keeps_files (load_signing_account_info A a)"
  unfolding load_signing_account_info_def by (intro keeps_rules)

lemma write_key_exports:
  assumes "pr_kind q = ExportAccount" "pr_output_file q = Some f"
  shows "exports q (bind (in_fs (write_private_key_file f encoded (pr_force q))) (\<lambda>_. ok y))"
  unfolding exports_def
proof (intro allI impI)
  fix w r w' assume h: "bind (in_fs (write_private_key_file f encoded (pr_force q))) (\<lambda>_. ok y) w = (r, w')"
  obtain z fs where wr: "write_private_key_file f encoded (pr_force q) (aw_fs w) = (z, fs)" by fastforce
  show "files w' = files w \<or> (\<exists>x. r = Inr x) \<and> key_written q (files w) (files w')"
  proof (cases z)
    case (Inl e)
    with write_private_key_file_Inl [of f encoded "pr_force q" "aw_fs w" e fs] wr h show ?thesis
      by (auto simp: bind_def in_fs_def files_def)
  next
    case (Inr u)
    with write_private_key_file_Inr [of f encoded "pr_force q" "aw_fs w" u fs] wr h assms show ?thesis
      by (auto simp: bind_def in_fs_def files_def ok_def key_written_def)
  qed
qed

lemma exports_ok_or: "(\<And>x. v = Some x \<Longrightarrow> exports q (f x)) \<Longrightarrow> exports q (bind (ok_or v e) f)"
  by (cases v) (auto simp: exports_def bind_def ok_or_def ok_def err_def)

lemma export_account_exports:
  assumes "pr_kind q = ExportAccount" shows "exports q (export_account X K q a p)"
  unfolding export_account_def
  by (intro exports_ok_or exports_bind exports_if keeps_exports [OF keeps_basic(2)] write_key_exports [OF assms] keeps_basic)

lemma fulfill_request_exports: "exports q (fulfill_request X K ttl q a info caps p)"
  unfolding fulfill_request_def
proof (rule exports_bind)
  show "keeps_files (unlock_for K ttl a info caps p)" unfolding unlock_for_def by (intro keeps_rules)
  fix u
  show "exports q (case pr_kind q of SignTransaction \<Rightarrow> sign_transaction X K q a | SignMessage \<Rightarrow> sign_message X K q a
     | ExportAccount \<Rightarrow> export_account X K q a p
     | CreateAccount \<Rightarrow>
         err (reject_with RUnsupportedOperation ''CreateAccount requests must use the dedicated create-account flow'')
     | ImportAccount \<Rightarrow>
         err (reject_with RUnsupportedOperation ''ImportAccount requests must use the dedicated import-account flow''))"
    by (cases "pr_kind q") (auto intro: keeps_exports keeps_sign keeps_basic export_account_exports)
qed

lemma works_export:
  "exports q (create_account_work A q sn)" "exports q (import_account_work A q sn)" "exports q (signing_work A q sn a info)"
proof -
  show "exports q (create_account_work A q sn)"
    unfolding create_account_work_def by (intro keeps_exports keeps_rules keeps_create_account)
  show "exports q (import_account_work A q sn)"
    unfolding import_account_work_def by (intro keeps_exports keeps_rules keeps_import_account)
  show "exports q (signing_work A q sn a info)"
    unfolding signing_work_def
    by (intro exports_bind exports_if keeps_exports [OF keeps_basic(2)] fulfill_request_exports keeps_load_signing keeps_basic)
qed

section \<open>Handling a request\<close>

lemma present_and_decide_files:
  assumes "exports q work" "\<And>w res w'. work w = (Inr res, w') \<Longrightarrow> typed_decision (tty_lines (aw_tty w)) = Some Approve"
    and "present_and_decide A q work st = (x, st')"
  shows "files (as_world st') = files (as_world st) \<or>
    typed_decision (tty_lines (aw_tty (as_world st))) = Some Approve \<and> key_written q (files (as_world st)) (files (as_world st'))"
  using assms(3)
proof (cases rule: present_and_decide_calls)
  case (presented p ack d outcome)
  from exportsD [OF assms(1) presented(3)] assms(2) presented(3) show ?thesis by blast
qed simp

lemma agent_handle_request_files:
  assumes "agent_handle_request A q sn st = (x, st')"
  shows "files (as_world st') = files (as_world st) \<or>
    typed_decision (tty_lines (aw_tty (as_world st))) = Some Approve \<and> key_written q (files (as_world st)) (files (as_world st'))"
proof -
  consider (create) "pr_kind q = CreateAccount" | (imported) "pr_kind q = ImportAccount"
    | (signing) "pr_kind q \<noteq> CreateAccount" "pr_kind q \<noteq> ImportAccount" by blast
  then show ?thesis
  proof cases
    case create
    with assms have "present_and_decide A q (create_account_work A q sn) st = (x, st')" by (simp add: agent_handle_request_def)
    from present_and_decide_files [OF works_export(1) _ this] create_account_work_typed show ?thesis by blast
  next
    case imported
    with assms have "present_and_decide A q (import_account_work A q sn) st = (x, st')" by (simp add: agent_handle_request_def)
    from present_and_decide_files [OF works_export(2) _ this] import_account_work_typed show ?thesis by blast
  next
    case signing
    show ?thesis
    proof (cases "parse_account_address (ag_chain A) (pr_account_address q)")
      case (Inl e)
      with assms signing show ?thesis by (auto simp: agent_handle_request_def bind_def of_result_def)
    next
      case (Inr a)
      obtain outcome w1 where load: "load_signing_account_info A a (as_world st) = (outcome, w1)" by fastforce
      let ?st1 = "st\<lparr>as_world := w1\<rparr>"
      have w1: "files w1 = files (as_world st)" "aw_tty w1 = aw_tty (as_world st)"
        using keeps_filesD [OF keeps_load_signing load] load_signing_keeps_tty [OF load] by simp_all
      from assms Inr load signing have
        "(case outcome of Inl rej \<Rightarrow> agent_reject_request A q (pr_presentation_id q) rej
          | Inr info \<Rightarrow> present_and_decide A q (signing_work A q sn a info)) ?st1 = (x, st')"
        by (simp add: agent_handle_request_def bind_def of_result_def in_world_def)
      then consider "as_world st' = w1" | info where "present_and_decide A q (signing_work A q sn a info) ?st1 = (x, st')"
        by (cases outcome) (auto simp: agent_reject_request_def bind_def daemon_call_question_mark ok_apply split: prod.splits sum.splits)
      then show ?thesis
      proof cases
        case (2 info)
        have "typed_decision (tty_lines (aw_tty w)) = Some Approve" if "signing_work A q sn a info w = (Inr res, w')" for w res w'
          using signing_work_typed [OF that] by simp
        from present_and_decide_files [OF works_export(3) this 2] w1 show ?thesis by simp
      qed (use w1 in simp)
    qed
  qed
qed

section \<open>Registration\<close>

lemma check_capabilities_subset: "set caps \<subseteq> set allowed \<Longrightarrow> check_capabilities allowed caps = Inr ()"
  by (induction caps) simp_all

end
