(* ===== verification/Agent_Reference.thy ===== *)
theory Agent_Reference
  imports Wire_Reference Agent_Keys
begin

text \<open>
  A reference agent: one unlocked account, a terminal at which one approval is typed, and a wire that
  knows the two messages of a decision. The witnesses of the properties on the agent run on it.
\<close>

section \<open>The account manager\<close>

definition ref_chain :: "string Chain" where
  "ref_chain =
     \<lparr>address_to_string = (\<lambda>a. a), address_from_str = (\<lambda>s. Inr s), address_from_bcs = (\<lambda>_. Inl ''no address''),
      u128_from_bcs = (\<lambda>_. Inl ''no number''), raw_txn_from_bcs = (\<lambda>_. Inl ''no transaction''), core_code_address = ''0x1'',
      hex_decode = (\<lambda>_. Inl ''no digits''), hex_encode = (\<lambda>_. [])\<rparr>"

definition ref_info :: "string AccountInfo" where
  "ref_info = \<lparr>ai_address = ''0x1'', ai_is_default = True, ai_is_readonly = False, ai_is_locked = False, ai_public_key_bytes = []\<rparr>"

definition ref_manager :: "(string, string, string, unit) AccountManager" where
  "ref_manager =
     \<lparr>am_list_account_infos = ok [ref_info], am_account_info = (\<lambda>_. ok (Some ref_info)), am_unlock_account = (\<lambda>_ _ _. ok ()),
      am_create_account = (\<lambda>_. ok ''0x2''), am_import_account = (\<lambda>a _ _. ok a), am_export_account = (\<lambda>_ _. ok [1]),
      am_sign_txn = (\<lambda>_ _. ok ''txn''), am_sign_message = (\<lambda>_ _. ok ''sig''), signed_txn_to_bcs = (\<lambda>_. Inr []),
      private_key_from_encoded = (\<lambda>s. Inr s), private_key_try_from = (\<lambda>_. Inr ''key''), private_key_to_encoded = (\<lambda>s. Inr s),
      private_key_to_bytes = (\<lambda>_. []), private_key_derived_address = (\<lambda>_. ''0x1'')\<rparr>"

definition ref_pulled :: PulledRequest where
  "ref_pulled =
     \<lparr>pr_request_id = ''r'', pr_client_request_id = ''c'', pr_kind = SignMessage, pr_account_address = ''0x1'',
      pr_payload_hash = ''h'', pr_display_hint = None, pr_client_context = None, pr_resume_required = True,
      pr_delivery_lease_id = None, pr_lease_expires_at = None, pr_presentation_id = Some ''p'',
      pr_presentation_expires_at = None, pr_raw_txn_bcs_hex = None, pr_message = Some ''hi'',
      pr_message_format = Some Utf8, pr_output_file = None, pr_force = False, pr_private_key_file = None\<rparr>"

definition ref_export :: PulledRequest where
  "ref_export = ref_pulled\<lparr>pr_kind := ExportAccount, pr_output_file := Some ''key''\<rparr>"

definition ref_local_backend :: LocalAccountDirBackendConfig where
  "ref_local_backend =
     \<lparr>la_common = \<lparr>cb_backend_id = ''w'', cb_instance_label = ''local'', cb_approval_surface = TtyPrompt\<rparr>,
      la_account_dir = ''/accounts'', la_prompt_mode = TtyPromptMode, la_chain_id = 1, la_unlock_cache_ttl = 60,
      la_allow_read_only_accounts = False, la_require_strict_permissions = True\<rparr>"

definition ref_snapshot :: Snapshot where
  "ref_snapshot =
     (let accounts = [account_info_to_backend_account ref_chain ref_info]
      in \<lparr>sn_lock_state = lock_state_of accounts, sn_capabilities = capabilities_of accounts, sn_accounts = accounts\<rparr>)"

definition ref_files :: FileSystem where
  "ref_files =
     \<lparr>fs_files = (\<lambda>_. None), fs_dirs = [], fs_ops = 0, fs_fault = (\<lambda>_. None), fs_partial = (\<lambda>_. 0),
      fs_temp_name = (\<lambda>_. ''tmp''), fs_default_mode = 420\<rparr>"

definition ref_tty :: Tty where
  "ref_tty =
     \<lparr>tty_lines = [Inr (''A'' @ [CHR 0x0A])], tty_passwords = [Inr ''secret''], tty_shown = [], tty_ops = 0,
      tty_fault = (\<lambda>_. None), tty_closed = ''closed''\<rparr>"

definition ref_world :: "unit AgentWorld" where
  "ref_world = \<lparr>aw_manager = (), aw_fs = ref_files, aw_tty = ref_tty\<rparr>"

section \<open>The wire\<close>

definition ref_presented :: RequestPresentedParams where
  "ref_presented =
     \<lparr>rppar_protocol_version = agent_protocol_version, rppar_wallet_instance_id = ''w'', rppar_request_id = ''r'',
      rppar_delivery_lease_id = None, rppar_presentation_id = ''p''\<rparr>"

definition ref_agent_resolve :: RequestResolveParams where
  "ref_agent_resolve =
     (resolve_params ref_resolve_input)\<lparr>rrpar_protocol_version := agent_protocol_version\<rparr>"

definition ref_agent_request :: "string \<Rightarrow> Value JsonRpcRequest" where
  "ref_agent_request m = JsonRpcRequest_new ''local-account-agent'' m (VString m)"

definition ref_agent_daemon :: Serde where
  "ref_agent_daemon = ref_serde
     \<lparr>from_RequestPresentedParams := (\<lambda>v. if v = VString ''request.presented'' then Inr ref_presented else Inl ''invalid parameters''),
      from_RequestResolveParams := (\<lambda>v. if v = VString ''request.resolve'' then Inr ref_agent_resolve else Inl ''invalid parameters''),
      request_from_slice := (\<lambda>b. if b \<in> {''request.presented'', ''request.resolve''} then Inr (ref_agent_request b) else Inl ''invalid request'')\<rparr>"

definition ref_agent_serde :: AgentSerde where
  "ref_agent_serde =
     \<lparr>ag_shared = ref_client_serde
        \<lparr>enc_request_presented := (\<lambda>q. if rpc_params q = ref_presented then Inr ''request.presented'' else Inl ''not sent''),
         enc_request_resolve := (\<lambda>q. if rpc_params q = ref_agent_resolve then Inr ''request.resolve'' else Inl ''not sent'')\<rparr>,
      enc_backend_register = (\<lambda>_. Inl ''not sent''), enc_backend_heartbeat = (\<lambda>_. Inl ''not sent''),
      enc_backend_update_accounts = (\<lambda>_. Inl ''not sent''), dec_backend_registered = (\<lambda>_. Inl ''not read'')\<rparr>"

lemma ref_agent_daemon_ok: "serde_ok ref_agent_daemon"
proof -
  have "nonblank ''p''" by code_simp
  with ref_serde_ok show ?thesis unfolding serde_ok_def ref_agent_daemon_def by (auto simp: ref_presented_def ref_serde_def)
qed

lemma ref_agent_wire_ok: "agent_wire_ok ref_agent_serde ref_agent_daemon"
  by (auto simp: agent_wire_ok_def resolve_wire_ok_def ref_agent_serde_def ref_agent_daemon_def ref_client_serde_def ref_serde_def
      ref_agent_request_def JsonRpcRequest_new_def split: if_splits)

definition ref_agent :: "'d AgentRpc \<Rightarrow> (string, string, string, unit, 'd) Agent" where
  "ref_agent client =
     \<lparr>ag_client = client, ag_chain = ref_chain, ag_manager = ref_manager, ag_config = ref_local_backend,
      ag_wallet_instance_id = ''w'', ag_new_presentation_id = (\<lambda>_. ''p'')\<rparr>"

definition ref_agent_state :: "'d \<Rightarrow> (unit, 'd) AgentState" where
  "ref_agent_state d = \<lparr>as_daemon = d, as_world = ref_world, as_heartbeat = HeartbeatState_initial, as_uuids = 0\<rparr>"

abbreviation ref_agent_client :: "JsonText Connection Runtime AgentRpc" where
  "ref_agent_client \<equiv> AgentDaemonClient ref_agent_serde
     (agent_exchange (\<lambda>_. None) (daemon_exchange ref_agent_daemon ref_traits ref_policy None))"

text \<open>A daemon that acknowledges every message, and a daemon host whose configuration names the agent's account directory.\<close>

definition ref_agent_rpc :: "unit AgentRpc" where
  "ref_agent_rpc =
     \<lparr>ag_backend_register = (\<lambda>p. ok \<lparr>brr_wallet_instance_id = brpar_wallet_instance_id p,
        brr_daemon_protocol_version = GENERIC_BACKEND_PROTOCOL_VERSION, brr_accepted = True\<rparr>),
      ag_backend_heartbeat = (\<lambda>_. ok \<lparr>ack_ok = True\<rparr>), ag_backend_update_accounts = (\<lambda>_. ok \<lparr>ack_ok = True\<rparr>),
      ag_request_pull_next = (\<lambda>p. ok \<lparr>pnr_wallet_instance_id = rpnpar_wallet_instance_id p, pnr_request = None\<rparr>),
      ag_request_presented = (\<lambda>_. ok \<lparr>ack_ok = True\<rparr>), ag_request_resolve = (\<lambda>_. ok \<lparr>ack_ok = True\<rparr>),
      ag_request_reject = (\<lambda>_. ok \<lparr>ack_ok = True\<rparr>)\<rparr>"

definition ref_backend_entry :: FileWalletBackendConfig where
  "ref_backend_entry =
     \<lparr>fb_backend_id = '' w '', fb_backend_kind = LocalAccountDir, fb_enabled = True, fb_instance_label = ''local'',
      fb_approval_surface = TtyPrompt, fb_allowed_extension_ids = None, fb_native_host_name = None, fb_profile_hint = None,
      fb_account_dir = Some ''/accounts'', fb_prompt_mode = Some TtyPromptMode, fb_chain_id = Some 1,
      fb_unlock_cache_ttl_seconds = Some 60, fb_allow_read_only_accounts = Some False, fb_require_strict_permissions = None\<rparr>"

definition ref_local_host :: Host where
  "ref_local_host = ref_host
     \<lparr>env_var := (\<lambda>_. None), path_exists := (\<lambda>_. True), read_to_string := (\<lambda>_. Inr []),
      toml_from_str := (\<lambda>_. Inr (FileConfig_default\<lparr>fc_wallet_backends := Some [ref_backend_entry]\<rparr>)),
      fs_metadata := (\<lambda>_. Inr \<lparr>fs_is_dir = True, fs_uid = 1000, fs_mode = 448\<rparr>)\<rparr>"

section \<open>Running it\<close>

lemma ref_approval_loop:
  assumes "tty_lines t = [Inr (''A'' @ [CHR 0x0A])]" "tty_fault t = (\<lambda>_. None)"
  shows "\<exists>t'. approval_loop X r t = (Inr True, t') \<and> tty_passwords t' = tty_passwords t"
proof -
  have "parse_prompt_action (length (''A'' @ [CHR 0x0A])) (''A'' @ [CHR 0x0A]) = Inr Approve" by code_simp
  with assms show ?thesis
    by (subst approval_loop.simps, subst prompt_for_action.simps) (simp add: tty_write_def read_line_def Let_def)
qed

lemma ref_ack:
  assumes "dispatch_request ref_agent_daemon ref_traits ref_policy (ref_agent_request m) s = (Inr reply, s')"
    "m \<in> {''request.presented'', ''request.resolve''}" "enc (JsonRpcRequest_new ''local-account-agent'' m p) = Inr m"
  shows "agent_call (agent_exchange (\<lambda>_. None) (daemon_exchange ref_agent_daemon ref_traits ref_policy None)) enc
    (dec_ack (ag_shared ref_agent_serde)) m p s = (Inr \<lparr>ack_ok = True\<rparr>, s')"
proof -
  from dispatch_request_success [OF assms(1)] obtain x where x: "reply = RpcSuccess x" by blast
  have "connect_with_retry (\<lambda>_. None) = Inr 0" by code_simp
  moreover from assms(2) have "m \<noteq> []" "length m \<le> MAX_REQUEST_BYTES" by (auto simp: MAX_REQUEST_BYTES_def)
  moreover from assms(2) have "request_from_slice ref_agent_daemon m = Inr (ref_agent_request m)"
    by (simp add: ref_agent_daemon_def)
  moreover have "response_to_vec ref_agent_daemon (RpcSuccess x) = Inr ''ok''"
    by (simp add: ref_agent_daemon_def ref_serde_def)
  ultimately show ?thesis using assms(1,3) x
    by (auto simp: agent_call_def client_call_def bind_def agent_exchange_def daemon_exchange_def handle_connection_stream ok_def
        of_result_def map_err_def ref_agent_serde_def ref_client_serde_def MAX_RESPONSE_BYTES_def JsonRpcSuccess_new_def)
qed

lemma ref_agent_calls:
  assumes "dispatch_request ref_agent_daemon ref_traits ref_policy (ref_agent_request ''request.presented'') s = (Inr r1, s1)"
    "dispatch_request ref_agent_daemon ref_traits ref_policy (ref_agent_request ''request.resolve'') s1 = (Inr r2, s2)"
  shows "ag_request_presented ref_agent_client ref_presented s = (Inr \<lparr>ack_ok = True\<rparr>, s1)"
    "ag_request_resolve ref_agent_client ref_agent_resolve s1 = (Inr \<lparr>ack_ok = True\<rparr>, s2)"
  using ref_ack [OF assms(1), of "enc_request_presented (ag_shared ref_agent_serde)" ref_presented]
    ref_ack [OF assms(2), of "enc_request_resolve (ag_shared ref_agent_serde)" ref_agent_resolve]
  by (simp_all add: AgentDaemonClient_def Let_def ref_agent_serde_def JsonRpcRequest_new_def)

lemma ref_load: "load_signing_account_info (ref_agent C) ''0x1'' w = (Inr ref_info, w)"
  by (simp add: load_signing_account_info_def ref_agent_def ref_manager_def manager_call_def map_error_def in_manager_def bind_def
      ok_def ok_or_def ref_info_def)

lemma ref_capabilities: "sn_capabilities ref_snapshot =
   [UnlockCap, GetPublicKeyCap, SignMessageCap, SignTransactionCap, CreateAccountCap, ExportAccountCap, ImportAccountCap]"
  by code_simp

lemma ref_signing_work:
  "\<exists>w. signing_work (ref_agent C) ref_pulled ref_snapshot ''0x1'' ref_info ref_world = (Inr (RSignedMessage ''sig''), w)"
proof -
  obtain t where "approval_loop ref_chain ref_pulled (eprint (render_request_summary ref_chain ref_pulled ref_info) ref_tty) = (Inr True, t)"
    using ref_approval_loop [of "eprint (render_request_summary ref_chain ref_pulled ref_info) ref_tty"]
    by (auto simp: ref_tty_def eprint_def)
  then have "prompt_for_request ref_chain ref_pulled ref_info (sn_capabilities ref_snapshot) ref_tty =
      (Inr \<lparr>pa_approved = True, pa_password = None\<rparr>, t)"
    by (simp add: prompt_for_request_def bind_def of_result_def ensure_local_unlock_capability_def ref_info_def ok_def ref_pulled_def)
  moreover have "fulfill_request ref_chain ref_manager ttl ref_pulled ''0x1'' ref_info caps None w = (Inr (RSignedMessage ''sig''), w)" for ttl caps w
    by (simp add: fulfill_request_def unlock_for_def ref_info_def bind_def ok_def ref_pulled_def sign_message_def ok_or_def checked_def
        of_result_def decode_signing_message_def manager_call_def map_error_def in_manager_def ref_manager_def)
  ultimately show ?thesis
    using ref_load [of C] by (simp add: signing_work_def bind_def in_tty_def ref_world_def ref_agent_def)
qed

lemma ref_agent_handles:
  assumes "ag_request_presented C ref_presented d = (Inr a1, d1)" "ag_request_resolve C ref_agent_resolve d1 = (Inr a2, d2)"
  shows "\<exists>st'. agent_handle_request (ref_agent C) ref_pulled ref_snapshot (ref_agent_state d) = (Inr (), st') \<and> as_daemon st' = d2"
proof -
  have params: "agent_resolve_params (ref_agent C) ref_pulled ''p'' (RSignedMessage ''sig'') = ref_agent_resolve"
    by (simp add: ref_agent_def ref_pulled_def ref_agent_resolve_def resolve_params_def ref_resolve_input_def empty_resolve_params_def
        agent_protocol_version_def)
  have presented: "\<lparr>rppar_protocol_version = agent_protocol_version, rppar_wallet_instance_id = ag_wallet_instance_id (ref_agent C),
      rppar_request_id = pr_request_id ref_pulled, rppar_delivery_lease_id = pr_delivery_lease_id ref_pulled,
      rppar_presentation_id = ''p''\<rparr> = ref_presented"
    by (simp add: ref_agent_def ref_pulled_def ref_presented_def)
  have ref: "ag_client (ref_agent C) = C" "ag_chain (ref_agent C) = ref_chain" "as_daemon (ref_agent_state d) = d"
    "as_world (ref_agent_state d) = ref_world" "as_heartbeat (ref_agent_state d) = HeartbeatState_initial"
    "parse_account_address ref_chain (pr_account_address ref_pulled) = Inr ''0x1''" "pr_kind ref_pulled = SignMessage"
    "pr_presentation_id ref_pulled = Some ''p''"
    by (simp_all add: ref_agent_def ref_agent_state_def ref_chain_def ref_pulled_def parse_account_address_def)
  obtain w where work: "signing_work (ref_agent C) ref_pulled ref_snapshot ''0x1'' ref_info ref_world = (Inr (RSignedMessage ''sig''), w)"
    using ref_signing_work by blast
  show ?thesis
    by (simp add: agent_handle_request_def bind_def of_result_def ref ref_load present_and_decide_def choose_presentation_id_def
        daemon_call_question_mark presented assms push_presented_request_def in_world_def work pop_presented_request_def
        agent_resolve_request_def params ok_def Let_def HeartbeatState_initial_def del: agent_resolve_params.simps)
qed

lemma ref_key_write: "\<exists>fs. write_private_key_file ''key'' ''key'' False ref_files = (Inr (), fs) \<and> fs_files fs ''key'' \<noteq> None"
proof -
  have "\<not> isl (fst (write_private_key_file ''key'' ''key'' False ref_files))" by code_simp
  then obtain u fs where h: "write_private_key_file ''key'' ''key'' False ref_files = (Inr u, fs)" by (rule runs_okE)
  from write_private_key_file_Inr [OF h] h show ?thesis by simp
qed

lemma ref_fulfill_export:
  assumes "aw_fs w = ref_files"
  shows "\<exists>w'. fulfill_request ref_chain ref_manager ttl ref_export ''0x1'' ref_info caps (Some ''secret'') w =
    (Inr (RExportedAccount ''0x1'' ''key''), w') \<and> fs_files (aw_fs w') ''key'' \<noteq> None"
  using assms ref_key_write
  by (auto simp: fulfill_request_def unlock_for_def ref_info_def bind_def ok_def ref_export_def ref_pulled_def export_account_def ok_or_def
      checked_def of_result_def manager_call_def map_error_def in_manager_def ref_manager_def in_fs_def ref_chain_def)

lemma ref_export_work:
  "\<exists>w. signing_work (ref_agent C) ref_export ref_snapshot ''0x1'' ref_info ref_world = (Inr (RExportedAccount ''0x1'' ''key''), w) \<and>
     fs_files (aw_fs w) ''key'' \<noteq> None"
proof -
  let ?t = "eprint (render_request_summary ref_chain ref_export ref_info) ref_tty"
  obtain t where t: "approval_loop ref_chain ref_export ?t = (Inr True, t)" "tty_passwords t = [Inr ''secret'']"
    using ref_approval_loop [of ?t] by (auto simp: ref_tty_def eprint_def)
  then have "\<exists>t'. prompt_for_request ref_chain ref_export ref_info (sn_capabilities ref_snapshot) ref_tty =
      (Inr \<lparr>pa_approved = True, pa_password = Some ''secret''\<rparr>, t')"
    by (simp add: prompt_for_request_def bind_def of_result_def ensure_local_unlock_capability_def ref_info_def ok_def ref_export_def
        ref_capabilities map_error_def prompt_password_def Let_def)
  then obtain t' where p: "prompt_for_request ref_chain ref_export ref_info (sn_capabilities ref_snapshot) ref_tty =
      (Inr \<lparr>pa_approved = True, pa_password = Some ''secret''\<rparr>, t')" by blast
  from p ref_load [of C] ref_fulfill_export [of "\<lparr>aw_manager = (), aw_fs = ref_files, aw_tty = t'\<rparr>"
      "la_unlock_cache_ttl ref_local_backend" "sn_capabilities ref_snapshot"] show ?thesis
    by (auto simp: signing_work_def bind_def in_tty_def ref_world_def ref_agent_def)
qed

lemma ref_agent_exports:
  "\<exists>st'. agent_handle_request (ref_agent ref_agent_rpc) ref_export ref_snapshot (ref_agent_state ()) = (Inr (), st') \<and>
     fs_files (aw_fs (as_world st')) ''key'' \<noteq> None"
proof -
  let ?A = "ref_agent ref_agent_rpc"
  obtain w where work: "signing_work ?A ref_export ref_snapshot ''0x1'' ref_info ref_world = (Inr (RExportedAccount ''0x1'' ''key''), w)"
    and w: "fs_files (aw_fs w) ''key'' \<noteq> None"
    using ref_export_work by blast
  have ref: "ag_client ?A = ref_agent_rpc" "ag_chain ?A = ref_chain" "as_world (ref_agent_state ()) = ref_world"
    "as_heartbeat (ref_agent_state ()) = HeartbeatState_initial" "pr_presentation_id ref_export = Some ''p''"
    "parse_account_address ref_chain (pr_account_address ref_export) = Inr ''0x1''" "pr_kind ref_export = ExportAccount"
    "ag_request_presented ref_agent_rpc par d = (Inr \<lparr>ack_ok = True\<rparr>, d)"
    "ag_request_resolve ref_agent_rpc res d = (Inr \<lparr>ack_ok = True\<rparr>, d)" for par res d
    by (simp_all add: ref_agent_def ref_agent_state_def ref_chain_def ref_export_def ref_pulled_def parse_account_address_def
        ref_agent_rpc_def ok_def)
  show ?thesis
    using w
    by (simp add: agent_handle_request_def bind_def of_result_def ref ref_load present_and_decide_def choose_presentation_id_def
        daemon_call_question_mark push_presented_request_def in_world_def work pop_presented_request_def
        agent_resolve_request_def ok_def Let_def HeartbeatState_initial_def del: agent_resolve_params.simps)
qed

end
