(* ===== verification/Agent_Display.thy ===== *)
theory Agent_Display
  imports Agent_Terminal
begin

text \<open>
  Values that the agent shows completely: the rows of a field hold, in order, every character of the
  sanitized value, and the sanitized value determines the value.
\<close>

definition shows_in_full :: "string \<Rightarrow> string \<Rightarrow> scalar list \<Rightarrow> bool" where
  "shows_in_full name v out \<longleftrightarrow>
     (\<exists>before seg segs after. concat (seg # segs) = sanitize_for_tty (chars v) \<and>
        out = before @ card_row (lit (''  '' @ name @ '': '') @ seg) @
          concat (map (\<lambda>s. card_row (replicate (length name + 4) 32 @ s)) segs) @ after)"

lemma shows_field: "length name < CARD_INNER_WIDTH - 4 \<Longrightarrow> shows_in_full name v (write_card_field_full name v out)"
  using write_card_field_full_rows [of name v out] unfolding shows_in_full_def by fastforce

lemma shows_append: "shows_in_full name v out \<Longrightarrow> shows_in_full name v (out @ rest)"
  unfolding shows_in_full_def by (metis append.assoc)

lemma shows_draws: "shows_in_full name v out \<Longrightarrow> draws w \<Longrightarrow> shows_in_full name v (w out)"
  using draws_append [of w out] shows_append by metis

lemma shows_writes: "shows_in_full name v out \<Longrightarrow> list_all draws ws \<Longrightarrow> shows_in_full name v (writes ws out)"
  using shows_draws [OF _ draws_writes] by blast

text \<open>The raw view of a request shows what is signed.\<close>

lemma raw_payload_shows_message:
  assumes "pr_kind r = SignMessage" "pr_message r = Some m"
  shows "shows_in_full ''Message'' m (write_raw_payload X r out)"
proof -
  have "list_all draws (byte_length_field X write_card_field_full r)"
    by (simp add: byte_length_field_def draws_rules split: option.split sum.split)
  moreover have "length ''Message'' < CARD_INNER_WIDTH - 4" by (simp add: CARD_INNER_WIDTH_def)
  ultimately show ?thesis using assms
    by (cases "pr_message_format r") (simp_all add: write_raw_payload_def shows_writes shows_field)
qed

lemma raw_payload_shows_transaction:
  assumes "pr_kind r = SignTransaction" "pr_raw_txn_bcs_hex r = Some raw"
  shows "shows_in_full ''Raw Transaction BCS'' raw (write_raw_payload X r out)"
proof -
  have "length ''Raw Transaction BCS'' < CARD_INNER_WIDTH - 4" by (simp add: CARD_INNER_WIDTH_def)
  moreover have "draws (write_card_field_full ''Decode Error'' e)" for e by (simp add: draws_rules)
  ultimately show ?thesis using assms
    by (simp add: write_raw_payload_def shows_draws shows_field draws_decoded_transaction split: sum.split)
qed

lemma raw_details_show:
  assumes "\<And>out. shows_in_full name v (write_raw_payload X r out)"
  shows "shows_in_full name v (render_raw_payload_details X r)"
proof -
  have "shows_in_full name v (writes [write_raw_payload X r, write_card_section_heading ''Back'',
        write_card_text_line (lit ''Press enter on the next prompt and choose approve or reject.''), write_card_border] out)" for out
    unfolding writes_Cons [of "write_raw_payload X r"] by (rule shows_writes [OF assms]) (simp add: draws_rules)
  from shows_append [OF this] show ?thesis by (simp add: render_raw_payload_details_def)
qed

lemma renderings_framed:
  "framed (render_request_summary X r info)" "framed (render_create_account_summary r)"
  "framed (render_import_account_summary r)" "framed (render_raw_payload_details X r)"
  unfolding render_request_summary_def render_create_account_summary_def render_import_account_summary_def
    render_raw_payload_details_def
  by (rule framed_writes, simp add: draws_rules draws_sections split: RequestKind.split)+

end
