(* ===== verification/Agent_Service.thy ===== *)
theory Agent_Service
  imports Native_Service Agent_Reference Agent_Display
begin

text \<open>
  The properties of the local account agent: nothing is approved that the user did not approve at the
  terminal, the daemon accepts the agent of its own configuration, exported keys, and what the user is shown.
\<close>

section \<open>Approvals\<close>



section \<open>Registration\<close>

text \<open>
  C30. The daemon and the agent read the same configuration: when it loads and the agent starts on one of
  its backends, the daemon's policy finds that very backend under the agent's wallet identifier and accepts
  the agent's registration and the capabilities of every later snapshot, whatever the accounts are.
\<close>

theorem agent_registration_accepted:
  assumes "RuntimeConfig_load h args = Inr rc" "agent_backend rc bid = Inr cfg"
    "value_to_vec D (VObject [(''account_provider_kind'', VString ''local''), (''prompt_mode'', VString ''tty_prompt'')]) = Inr bytes"
    "length bytes \<le> 4096"
  shows "\<exists>A. from_parts client X K cfg uuids = Inr A \<and> ag_wallet_instance_id A = bid \<and>
    configured_local_backend (ServerPolicy_new (rc_channel rc) (rc_wallet_backends rc)) (ag_wallet_instance_id A) = Some cfg \<and>
    (\<forall>sn accounts. sn_capabilities sn = capabilities_of accounts \<longrightarrow>
      validate_generic_backend_registration D cfg (registration_params A sn) = Inr () \<and>
      validate_local_backend_capabilities cfg (sn_capabilities sn) = Inr ())"
proof -
  from assms(1) obtain ch fc where "build_wallet_backends h ch fc = Inr (rc_wallet_backends rc)"
    by (auto simp: RuntimeConfig_load_def Let_def anyhow_simps)
  note ok = build_wallet_backends_Inr [OF this, unfolded backends_ok_def]
  from assms(2) obtain b where b: "find (\<lambda>b. backend_id b = bid) (rc_wallet_backends rc) = Some b" "as_local_account_dir b = Some cfg"
    by (auto simp: agent_backend_def find_backend_def split: option.splits if_splits)
  from b(2) have "b = LocalBackend cfg" by (cases b) simp_all
  with b(1) find_SomeD [OF b(1)] have member: "LocalBackend cfg \<in> set (rc_wallet_backends rc)" and bid: "cb_backend_id (la_common cfg) = bid"
    by (auto simp: backend_id_def)
  with ok have cfg: "backend_ok h (LocalBackend cfg)" by (auto simp: list_all_iff)
  have policy: "configured_local_backend (ServerPolicy_new (rc_channel rc) (rc_wallet_backends rc)) bid = Some cfg"
    by (rule configured_local_backend_unique) (use ok member bid in \<open>auto simp: ServerPolicy_new_def local_configured_def\<close>)
  have caps: "validate_local_backend_capabilities cfg (capabilities_of accounts) = Inr ()" for accounts
    unfolding validate_local_backend_capabilities_def
    by (rule check_capabilities_subset) (auto simp: canonical_capabilities_def capabilities_of_def split: if_splits)
  let ?A = "\<lparr>ag_client = client, ag_chain = X, ag_manager = K, ag_config = cfg, ag_wallet_instance_id = bid, ag_new_presentation_id = uuids\<rparr>"
  have "from_parts client X K cfg uuids = Inr ?A"
    using cfg bid by (simp add: from_parts_def validate_prompt_mode_def anyhow_simps id_try_from_def nonblank_def)
  moreover have "validate_generic_backend_registration D cfg (registration_params ?A sn) = Inr ()"
    if "sn_capabilities sn = capabilities_of accounts" for sn accounts
    using cfg assms(3,4) caps that
    by (simp add: validate_generic_backend_registration_def registration_params_def nonblank_def prompt_mode_label_def)
  ultimately show ?thesis using policy caps by auto
qed

theorem agent_registration_accepted_witness:
  "\<exists>rc cfg A. RuntimeConfig_load ref_local_host ref_args = Inr rc \<and> agent_backend rc ''w'' = Inr cfg \<and>
     from_parts ref_agent_rpc ref_chain ref_manager cfg (\<lambda>_. ''p'') = Inr A \<and>
     validate_generic_backend_registration ref_serde cfg (registration_params A ref_snapshot) = Inr ()"
proof -
  have "(case RuntimeConfig_load ref_local_host ref_args of Inl _ \<Rightarrow> False
      | Inr rc \<Rightarrow> (case agent_backend rc ''w'' of Inl _ \<Rightarrow> False | Inr _ \<Rightarrow> True))" by code_simp
  then obtain rc cfg where h: "RuntimeConfig_load ref_local_host ref_args = Inr rc" "agent_backend rc ''w'' = Inr cfg"
    by (auto split: sum.splits)
  have "value_to_vec ref_serde v = Inr ''{}''" for v by (simp add: ref_serde_def)
  from agent_registration_accepted [OF h this, of ref_agent_rpc ref_chain ref_manager "\<lambda>_. ''p''"] h show ?thesis
    by (auto simp: ref_snapshot_def Let_def)
qed

section \<open>Private keys\<close>



section \<open>The terminal\<close>



end
