(* ===== verification/Node_Types.thy ===== *)
theory Node_Types
  imports Daemon_Config
begin

text \<open>
  The types of the node client (\<open>src/starcoin-node/crates/starcoin-node-types\<close>): \<open>domain.rs\<close>,
  \<open>error.rs\<close> and the structures of \<open>dto.rs\<close>. Names that the wallet runtime uses as well carry a prefix.
  A JSON value is the \<open>Value\<close> of \<open>Wallet_Types\<close>; its objects keep the order of insertion.
\<close>

section \<open>Domain\<close>

datatype Mode = ReadOnly | TransactionMode

datatype VmProfile = VmAuto | Vm1Only | Vm2Only

record ChainContext =
  cc_chain_id :: "8 word"
  cc_network :: string
  cc_genesis_hash :: string
  cc_head_block_hash :: string
  cc_head_block_number :: u64
  cc_head_state_root :: "string option"
  cc_observed_at :: string

record EffectiveProbe =
  supports_node_info :: bool
  supports_chain_info :: bool
  supports_block_lookup :: bool
  supports_block_listing :: bool
  supports_transaction_lookup :: bool
  supports_transaction_info_lookup :: bool
  supports_transaction_events_by_hash :: bool
  supports_account_state_lookup :: bool
  supports_events_query :: bool
  supports_resource_listing :: bool
  supports_module_listing :: bool
  supports_abi_resolution :: bool
  supports_view_call :: bool
  supports_transaction_submission :: bool
  supports_raw_dry_run :: bool

datatype TransactionKind = TransferKind | ContractCallKind | PublishPackageKind | UnknownKind

datatype SimulationStatus = SimPerformed | SimSkippedMissingPublicKey | SimSkippedByPolicy | SimFailed

datatype NextAction = NextSignTransaction | GetPublicKeyThenSimulateOrSign | SimulateThenSign

datatype SubmissionState = SubAccepted | SubUnknown | SubRejected

datatype SubmissionNextAction = WatchTransaction | ReconcileByTxnHash | ReprepareThenResign

datatype SequenceNumberSource = SeqCaller | SeqOnchain | SeqTxpool | SeqMaxOfOnchainAndTxpool

datatype GasUnitPriceSource = GasCaller | GasTxpool | GasDefaultConfig

section \<open>Errors\<close>

datatype NodeErrorCode =
  E_NodeUnavailable | E_RpcUnavailable | E_InvalidChainContext | E_SubmissionUnknown | E_SimulationFailed
  | E_SubmissionFailed | E_TransactionExpired | E_SequenceNumberStale | E_PermissionDenied | E_ApprovalRequired
  | E_RateLimited | E_PayloadTooLarge | E_UnsupportedOperation | E_MissingSender | E_MissingPublicKey
  | E_InvalidAddress | E_InvalidAsset | E_InvalidAmount | E_InvalidPackagePayload | E_BlockNotFound
  | E_TransactionNotFound

record NodeError =
  ne_code :: NodeErrorCode
  ne_message :: string
  ne_retryable :: bool
  ne_details :: "Value option"

definition NodeError_new :: "NodeErrorCode \<Rightarrow> string \<Rightarrow> NodeError" where
  "NodeError_new c m = \<lparr>ne_code = c, ne_message = m, ne_retryable = False, ne_details = None\<rparr>"

definition NodeError_retryable :: "NodeErrorCode \<Rightarrow> string \<Rightarrow> NodeError" where
  "NodeError_retryable c m = \<lparr>ne_code = c, ne_message = m, ne_retryable = True, ne_details = None\<rparr>"

definition NodeError_with_details :: "NodeError \<Rightarrow> Value \<Rightarrow> NodeError" where
  "NodeError_with_details e d = e\<lparr>ne_details := Some d\<rparr>"

lemma NodeError_code [simp]:
  "ne_code (NodeError_new c m) = c" "ne_code (NodeError_retryable c m) = c"
  "ne_code (NodeError_with_details e d) = ne_code e"
  by (simp_all add: NodeError_new_def NodeError_retryable_def NodeError_with_details_def)

lemma NodeError_retryable_flag [simp]:
  "\<not> ne_retryable (NodeError_new c m)" "ne_retryable (NodeError_retryable c m)"
  "ne_retryable (NodeError_with_details e d) = ne_retryable e"
  by (simp_all add: NodeError_new_def NodeError_retryable_def NodeError_with_details_def)

section \<open>Tool inputs\<close>

record GetBlockInput =
  gb_block_hash :: "string option"
  gb_block_number :: "u64 option"
  gb_decode :: bool
  gb_include_raw :: bool

record ListBlocksInput =
  lb_from_block_number :: "u64 option"
  lb_count :: u64
  lb_reverse :: bool

record GetTransactionInput =
  gt_txn_hash :: string
  gt_include_events :: bool
  gt_decode :: bool

record WatchTransactionInput =
  wt_txn_hash :: string
  wt_timeout_seconds :: "u64 option"
  wt_poll_interval_seconds :: "u64 option"
  wt_min_confirmed_blocks :: "u64 option"

record GetEventsInput =
  gv_from_block :: "u64 option"
  gv_to_block :: "u64 option"
  gv_event_keys :: "string list"
  gv_addresses :: "string list"
  gv_type_tags :: "string list"
  gv_limit :: u64
  gv_decode :: bool

record GetAccountOverviewInput =
  ao_address :: string
  ao_include_resources :: bool
  ao_include_modules :: bool
  ao_resource_limit :: "u64 option"
  ao_module_limit :: "u64 option"

record ListResourcesInput =
  lr_address :: string
  lr_resource_type :: "string option"
  lr_start_index :: "u64 option"
  lr_max_size :: "u64 option"
  lr_decode :: bool
  lr_block_number :: "u64 option"

record ListModulesInput =
  lm_address :: string
  lm_resolve_abi :: bool
  lm_max_size :: "u64 option"
  lm_block_number :: "u64 option"

record CallViewFunctionInput =
  vf_function_id :: string
  vf_type_args :: "string list"
  vf_args :: "string list"

text \<open>What the three inputs of a preparation share, and what each adds.\<close>

record PrepareInput =
  pi_sender :: string
  pi_sender_public_key :: "string option"
  pi_sequence_number :: "u64 option"
  pi_max_gas_amount :: "u64 option"
  pi_gas_unit_price :: "u64 option"
  pi_expiration_time_secs :: "u64 option"
  pi_gas_token :: "string option"

record PrepareTransferInput = PrepareInput +
  pi_receiver :: string
  pi_amount :: string
  pi_token_code :: "string option"

record PrepareContractCallInput = PrepareInput +
  pi_function_id :: string
  pi_type_args :: "string list"
  pi_args :: "string list"

record PreparePublishPackageInput = PrepareInput +
  pi_package_bcs_hex :: string

record SimulateRawTransactionInput =
  sr_raw_txn_bcs_hex :: string
  sr_sender_public_key :: string

record SubmitSignedTransactionInput =
  si_signed_txn_bcs_hex :: string
  si_prepared_chain_context :: ChainContext
  si_blocking :: bool
  si_timeout_seconds :: "u64 option"
  si_min_confirmed_blocks :: "u64 option"

section \<open>Tool outputs\<close>

record ChainStatusOutput =
  cs_network :: string
  cs_chain_id :: "8 word"
  cs_genesis_hash :: string
  cs_head_block_number :: u64
  cs_head_block_hash :: string
  cs_head_state_root :: "string option"
  cs_now_seconds :: u64
  cs_peer_count :: u64
  cs_sync_status :: "Value option"

record NodeHealthOutput =
  nh_node_available :: bool
  nh_node_info :: Value
  nh_sync :: "Value option"
  nh_peers_summary :: Value
  nh_txpool_summary :: "Value option"
  nh_warnings :: "string list"

record GetBlockOutput =
  gbo_block :: "Value option"
  gbo_source :: Value

record ListBlocksOutput =
  lbo_blocks :: "Value list"
  lbo_effective_count :: u64

record TransactionStatusSummary =
  ts_found :: bool
  ts_confirmed :: bool
  ts_vm_status :: "string option"
  ts_gas_used :: "u64 option"

record GetTransactionOutput =
  gto_transaction :: "Value option"
  gto_transaction_info :: "Value option"
  gto_events :: "Value list"
  gto_status_summary :: TransactionStatusSummary

record WatchTransactionOutput =
  wo_txn_hash :: string
  wo_found :: bool
  wo_confirmed :: bool
  wo_effective_timeout_seconds :: u64
  wo_effective_poll_interval_seconds :: u64
  wo_effective_min_confirmed_blocks :: u64
  wo_confirmed_blocks :: "u64 option"
  wo_inclusion_block_number :: "u64 option"
  wo_transaction_info :: "Value option"
  wo_events :: "Value list"
  wo_status_summary :: TransactionStatusSummary

record GetEventsOutput =
  gvo_events :: "Value list"
  gvo_matched_count :: u64
  gvo_effective_limit :: u64

record GetAccountOverviewOutput =
  aoo_address :: string
  aoo_onchain_exists :: bool
  aoo_sequence_number :: "u64 option"
  aoo_balances :: "Value list"
  aoo_accepted_tokens :: "string list"
  aoo_resources :: "Value list option"
  aoo_modules :: "Value list option"
  aoo_applied_resource_limit :: "u64 option"
  aoo_applied_module_limit :: "u64 option"
  aoo_next_sequence_number_hint :: "u64 option"

record ListResourcesOutput =
  lro_address :: string
  lro_state_root :: "string option"
  lro_resources :: "Value list"
  lro_effective_max_size :: u64

record ListModulesOutput =
  lmo_address :: string
  lmo_state_root :: "string option"
  lmo_modules :: "Value list"
  lmo_effective_max_size :: u64

record CallViewFunctionOutput =
  vfo_return_values :: "Value list option"
  vfo_decoded_return_values :: "Value list"

record SimulationResult =
  sim_executed :: bool
  sim_vm_status :: string
  sim_gas_used :: u64
  sim_events :: "Value list"
  sim_write_set_summary :: "Value list"
  sim_raw :: Value

record PreparedExecutionFacts =
  ef_sender :: string
  ef_sequence_number :: u64
  ef_max_gas_amount :: u64
  ef_gas_unit_price :: u64
  ef_gas_token_code :: string
  ef_expiration_timestamp_secs :: u64
  ef_chain_id :: "8 word"
  ef_estimated_max_network_fee :: string
  ef_estimated_network_fee :: "string option"
  ef_transfer_receiver :: "string option"
  ef_transfer_amount :: "string option"
  ef_transfer_token_code :: "string option"

record PreparationResult =
  po_transaction_kind :: TransactionKind
  po_raw_txn_bcs_hex :: string
  po_raw_txn :: Value
  po_transaction_summary :: Value
  po_chain_context :: ChainContext
  po_prepared_at :: string
  po_sequence_number_source :: SequenceNumberSource
  po_gas_unit_price_source :: GasUnitPriceSource
  po_simulation_status :: SimulationStatus
  po_simulation :: "SimulationResult option"
  po_execution_facts :: PreparedExecutionFacts
  po_next_action :: NextAction

record SimulateRawTransactionOutput =
  sro_simulation :: Value
  sro_executed :: bool
  sro_vm_status :: string
  sro_gas_used :: u64
  sro_events :: "Value list"
  sro_write_set_summary :: "Value list"

record SubmitSignedTransactionOutput =
  so_txn_hash :: string
  so_submission_state :: SubmissionState
  so_submitted :: bool
  so_prepared_simulation_status :: "SimulationStatus option"
  so_error_code :: "string option"
  so_effective_timeout_seconds :: "u64 option"
  so_next_action :: SubmissionNextAction
  so_watch_result :: "WatchTransactionOutput option"

end
