(* ===== verification/Node_Config.thy ===== *)
theory Node_Config
  imports Node_Types
begin

text \<open>
  The configuration of the node client (\<open>starcoin-node-types/src/config.rs\<close>): command line, configuration
  file, defaults and validation. The operating system, the TOML reader and the URL parser are the record
  \<open>NodeHost\<close>. A \<open>std::time::Duration\<close> is its number of nanoseconds, a \<open>RedactedString\<close> the string it
  hides. The build is a Linux or a macOS one.
\<close>

section \<open>Durations and addresses\<close>

type_synonym Duration = int

definition duration_secs :: "u64 \<Rightarrow> Duration" where
  "duration_secs v = uint v * 1000000000"

definition duration_ms :: "u64 \<Rightarrow> Duration" where
  "duration_ms v = uint v * 1000000"

definition as_secs :: "Duration \<Rightarrow> u64" where
  "as_secs d = word_of_int (d div 1000000000)"

lemma as_secs_duration_secs [simp]: "as_secs (duration_secs v) = v"
  by (simp add: as_secs_def duration_secs_def)

text \<open>What is used of a parsed \<open>url::Url\<close>: its scheme and \<open>host_str\<close>.\<close>

record Url =
  url_scheme :: string
  url_host_str :: "string option"
  url_text :: string

section \<open>Command line and file\<close>

record NodeFileConfig =
  nf_rpc_endpoint_url :: "string option"
  nf_mode :: "Mode option"
  nf_vm_profile :: "VmProfile option"
  nf_expected_chain_id :: "8 word option"
  nf_expected_network :: "string option"
  nf_expected_genesis_hash :: "string option"
  nf_require_genesis_hash_match :: "bool option"
  nf_connect_timeout_ms :: "u64 option"
  nf_request_timeout_ms :: "u64 option"
  nf_startup_probe_timeout_ms :: "u64 option"
  nf_rpc_auth_token_env :: "string option"
  nf_rpc_headers :: "string option"
  nf_tls_server_name :: "string option"
  nf_allowed_rpc_hosts :: "string option"
  nf_tls_pinned_spki_sha256 :: "string option"
  nf_allow_insecure_remote_transport :: "bool option"
  nf_allow_read_only_chain_autodetect :: "bool option"
  nf_default_expiration_ttl_seconds :: "u64 option"
  nf_max_expiration_ttl_seconds :: "u64 option"
  nf_watch_poll_interval_seconds :: "u64 option"
  nf_watch_timeout_seconds :: "u64 option"
  nf_max_head_lag_seconds :: "u64 option"
  nf_warn_head_lag_seconds :: "u64 option"
  nf_allow_submit_without_prior_simulation :: "bool option"
  nf_chain_status_cache_ttl_seconds :: "u64 option"
  nf_abi_cache_ttl_seconds :: "u64 option"
  nf_module_cache_max_entries :: "u64 option"
  nf_disable_disk_cache :: "bool option"
  nf_max_submit_blocking_timeout_seconds :: "u64 option"
  nf_max_watch_timeout_seconds :: "u64 option"
  nf_min_watch_poll_interval_seconds :: "u64 option"
  nf_max_list_blocks_count :: "u64 option"
  nf_max_events_limit :: "u64 option"
  nf_max_account_resource_limit :: "u64 option"
  nf_max_account_module_limit :: "u64 option"
  nf_max_list_resources_size :: "u64 option"
  nf_max_list_modules_size :: "u64 option"
  nf_max_publish_package_bytes :: "u64 option"
  nf_max_concurrent_watch_requests :: "u64 option"
  nf_max_inflight_expensive_requests :: "u64 option"
  nf_log_level :: "string option"

record NodeCliArgs = NodeFileConfig +
  na_config :: "PathBuf option"
  na_rpc_auth_token :: "string option"

definition NodeFileConfig_default :: NodeFileConfig where
  "NodeFileConfig_default =
     \<lparr>nf_rpc_endpoint_url = None, nf_mode = None, nf_vm_profile = None, nf_expected_chain_id = None,
      nf_expected_network = None, nf_expected_genesis_hash = None, nf_require_genesis_hash_match = None,
      nf_connect_timeout_ms = None, nf_request_timeout_ms = None, nf_startup_probe_timeout_ms = None,
      nf_rpc_auth_token_env = None, nf_rpc_headers = None, nf_tls_server_name = None, nf_allowed_rpc_hosts = None,
      nf_tls_pinned_spki_sha256 = None, nf_allow_insecure_remote_transport = None,
      nf_allow_read_only_chain_autodetect = None, nf_default_expiration_ttl_seconds = None,
      nf_max_expiration_ttl_seconds = None, nf_watch_poll_interval_seconds = None, nf_watch_timeout_seconds = None,
      nf_max_head_lag_seconds = None, nf_warn_head_lag_seconds = None,
      nf_allow_submit_without_prior_simulation = None, nf_chain_status_cache_ttl_seconds = None,
      nf_abi_cache_ttl_seconds = None, nf_module_cache_max_entries = None, nf_disable_disk_cache = None,
      nf_max_submit_blocking_timeout_seconds = None, nf_max_watch_timeout_seconds = None,
      nf_min_watch_poll_interval_seconds = None, nf_max_list_blocks_count = None, nf_max_events_limit = None,
      nf_max_account_resource_limit = None, nf_max_account_module_limit = None, nf_max_list_resources_size = None,
      nf_max_list_modules_size = None, nf_max_publish_package_bytes = None, nf_max_concurrent_watch_requests = None,
      nf_max_inflight_expensive_requests = None, nf_log_level = None\<rparr>"

definition NodeCliArgs_default :: NodeCliArgs where
  "NodeCliArgs_default =
     \<lparr>nf_rpc_endpoint_url = None, nf_mode = None, nf_vm_profile = None, nf_expected_chain_id = None,
      nf_expected_network = None, nf_expected_genesis_hash = None, nf_require_genesis_hash_match = None,
      nf_connect_timeout_ms = None, nf_request_timeout_ms = None, nf_startup_probe_timeout_ms = None,
      nf_rpc_auth_token_env = None, nf_rpc_headers = None, nf_tls_server_name = None, nf_allowed_rpc_hosts = None,
      nf_tls_pinned_spki_sha256 = None, nf_allow_insecure_remote_transport = None,
      nf_allow_read_only_chain_autodetect = None, nf_default_expiration_ttl_seconds = None,
      nf_max_expiration_ttl_seconds = None, nf_watch_poll_interval_seconds = None, nf_watch_timeout_seconds = None,
      nf_max_head_lag_seconds = None, nf_warn_head_lag_seconds = None,
      nf_allow_submit_without_prior_simulation = None, nf_chain_status_cache_ttl_seconds = None,
      nf_abi_cache_ttl_seconds = None, nf_module_cache_max_entries = None, nf_disable_disk_cache = None,
      nf_max_submit_blocking_timeout_seconds = None, nf_max_watch_timeout_seconds = None,
      nf_min_watch_poll_interval_seconds = None, nf_max_list_blocks_count = None, nf_max_events_limit = None,
      nf_max_account_resource_limit = None, nf_max_account_module_limit = None, nf_max_list_resources_size = None,
      nf_max_list_modules_size = None, nf_max_publish_package_bytes = None, nf_max_concurrent_watch_requests = None,
      nf_max_inflight_expensive_requests = None, nf_log_level = None, na_config = None, na_rpc_auth_token = None\<rparr>"

record NodeConfig =
  nc_rpc_endpoint_url :: Url
  nc_mode :: Mode
  nc_vm_profile :: VmProfile
  nc_expected_chain_id :: "8 word option"
  nc_expected_network :: "string option"
  nc_expected_genesis_hash :: "string option"
  nc_require_genesis_hash_match :: bool
  nc_connect_timeout :: Duration
  nc_request_timeout :: Duration
  nc_startup_probe_timeout :: Duration
  nc_rpc_auth_token :: "string option"
  nc_rpc_headers :: "(string \<times> string) list"
  nc_tls_server_name :: "string option"
  nc_allowed_rpc_hosts :: "string list"
  nc_tls_pinned_spki_sha256 :: "string list"
  nc_allow_insecure_remote_transport :: bool
  nc_allow_read_only_chain_autodetect :: bool
  nc_default_expiration_ttl :: Duration
  nc_max_expiration_ttl :: Duration
  nc_watch_poll_interval :: Duration
  nc_watch_timeout :: Duration
  nc_max_head_lag :: Duration
  nc_warn_head_lag :: Duration
  nc_allow_submit_without_prior_simulation :: bool
  nc_chain_status_cache_ttl :: Duration
  nc_abi_cache_ttl :: Duration
  nc_module_cache_max_entries :: u64
  nc_disable_disk_cache :: bool
  nc_max_submit_blocking_timeout :: Duration
  nc_max_watch_timeout :: Duration
  nc_min_watch_poll_interval :: Duration
  nc_max_list_blocks_count :: u64
  nc_max_events_limit :: u64
  nc_max_account_resource_limit :: u64
  nc_max_account_module_limit :: u64
  nc_max_list_resources_size :: u64
  nc_max_list_modules_size :: u64
  nc_max_publish_package_bytes :: u64
  nc_max_concurrent_watch_requests :: u64
  nc_max_inflight_expensive_requests :: u64
  nc_config_path :: "PathBuf option"
  nc_log_level :: string

record NodeHost =
  node_env_var :: "string \<Rightarrow> string option"
  node_config_dir :: "PathBuf option"
  node_target_macos :: bool
  node_path_exists :: "PathBuf \<Rightarrow> bool"
  node_read_to_string :: "PathBuf \<Rightarrow> string anyhow"
  node_toml_from_str :: "string \<Rightarrow> NodeFileConfig anyhow"
  url_parse :: "string \<Rightarrow> Url anyhow"

section \<open>Where the configuration comes from\<close>

definition opt_or :: "'a option \<Rightarrow> 'a option \<Rightarrow> 'a option" where
  "opt_or a b = (case a of None \<Rightarrow> b | Some x \<Rightarrow> Some x)"

definition default_config_subdir :: "NodeHost \<Rightarrow> string" where
  "default_config_subdir H = (if node_target_macos H then ''StarcoinNode'' else ''starcoin-node'')"

definition node_default_config_path :: "NodeHost \<Rightarrow> PathBuf option" where
  "node_default_config_path H =
     map_option (\<lambda>dir. path_join (path_join dir (default_config_subdir H)) ''node-cli.toml'') (node_config_dir H)"

definition env_config_path :: "NodeHost \<Rightarrow> PathBuf option" where
  "env_config_path H =
     (case node_env_var H ''STARCOIN_NODE_CLI_CONFIG'' of
        None \<Rightarrow> None
      | Some raw \<Rightarrow> if trim raw = [] then None else Some (trim raw))"

definition resolve_config_path :: "NodeHost \<Rightarrow> PathBuf option \<Rightarrow> PathBuf option" where
  "resolve_config_path H cli_path = opt_or (opt_or cli_path (env_config_path H)) (node_default_config_path H)"

definition node_load_file_config :: "NodeHost \<Rightarrow> PathBuf \<Rightarrow> NodeFileConfig anyhow" where
  "node_load_file_config H path =
     and_then_any (with_context (node_read_to_string H path) (''failed to read config file at '' @ path)) (\<lambda>content.
     with_context (node_toml_from_str H content) (''invalid TOML in '' @ path))"

definition split_csv :: "string option \<Rightarrow> string list" where
  "split_csv v = filter (\<lambda>entry. entry \<noteq> []) (map trim (split_on CHR '','' (unwrap_or v [])))"

text \<open>\<open>str::split_once\<close>: the text before and after the first separator.\<close>

fun split_once :: "char \<Rightarrow> string \<Rightarrow> (string \<times> string) option" where
  "split_once d [] = None"
| "split_once d (c # cs) =
     (if c = d then Some ([], cs)
      else map_option (\<lambda>(a, b). (c # a, b)) (split_once d cs))"

fun parse_header_entries :: "string list \<Rightarrow> (string \<times> string) list anyhow" where
  "parse_header_entries [] = Inr []"
| "parse_header_entries (e # es) =
     (if e = [] then parse_header_entries es
      else (case split_once CHR ''='' e of
              None \<Rightarrow> Inl (''invalid rpc header entry: '' @ e)
            | Some (name, v) \<Rightarrow>
                and_then_any (parse_header_entries es) (\<lambda>rest. Inr ((trim name, trim v) # rest))))"

definition parse_secret_headers :: "string option \<Rightarrow> (string \<times> string) list anyhow" where
  "parse_secret_headers v = parse_header_entries (map trim (split_on CHR '','' (unwrap_or v [])))"

definition resolve_rpc_auth_token :: "NodeHost \<Rightarrow> string option \<Rightarrow> string option \<Rightarrow> string option anyhow" where
  "resolve_rpc_auth_token H direct env_name =
     (case direct of
        Some token \<Rightarrow> Inr (Some token)
      | None \<Rightarrow>
          (case env_name of
             Some name \<Rightarrow>
               and_then_any (required (node_env_var H name) (''failed to read rpc auth token env var '' @ name)) (\<lambda>v. Inr (Some v))
           | None \<Rightarrow> Inr None))"

definition log_level_of :: "NodeHost \<Rightarrow> NodeFileConfig \<Rightarrow> NodeFileConfig \<Rightarrow> string" where
  "log_level_of H args file =
     unwrap_or (opt_or (opt_or (opt_or (nf_log_level args) (nf_log_level file))
        (node_env_var H ''STARCOIN_NODE_CLI_LOG_LEVEL'')) (node_env_var H ''STARCOIN_NODE_LOG_LEVEL'')) ''info''"

section \<open>Validation\<close>

text \<open>\<open>str::ends_with\<close>.\<close>

definition ends_with :: "string \<Rightarrow> string \<Rightarrow> bool" where
  "ends_with s t \<longleftrightarrow> (length t \<le> length s \<and> drop (length s - length t) s = t)"

definition is_remote_endpoint :: "Url \<Rightarrow> bool" where
  "is_remote_endpoint url =
     (case url_host_str url of
        None \<Rightarrow> False
      | Some host \<Rightarrow> host \<notin> {''localhost'', ''127.0.0.1'', ''::1''} \<and> \<not> ends_with host ''.local'')"

definition validate_endpoint :: "Url \<Rightarrow> bool \<Rightarrow> string list \<Rightarrow> unit anyhow" where
  "validate_endpoint url allow_insecure allowed_hosts =
     (if is_remote_endpoint url \<and> url_scheme url \<noteq> ''https'' \<and> \<not> allow_insecure
      then Inl ''remote endpoints must use https unless allow_insecure_remote_transport is enabled''
      else if url_scheme url \<notin> {''http'', ''https''} then Inl ''only http and https rpc endpoints are supported''
      else if allowed_hosts \<noteq> []
      then (case url_host_str url of
              None \<Rightarrow> Inl ''rpc endpoint is missing a host''
            | Some host \<Rightarrow>
                if host \<notin> set allowed_hosts
                then Inl (''rpc endpoint host '' @ host @ '' is not allowed by allowed_rpc_hosts'')
                else Inr ())
      else Inr ())"

definition validate_mode_requirements :: "NodeConfig \<Rightarrow> unit anyhow" where
  "validate_mode_requirements c =
     (case nc_mode c of
        TransactionMode \<Rightarrow>
          if nc_expected_chain_id c = None then Inl ''transaction mode requires expected_chain_id''
          else if nc_expected_network c = None then Inl ''transaction mode requires expected_network''
          else if is_remote_endpoint (nc_rpc_endpoint_url c) \<and> nc_require_genesis_hash_match c \<and> nc_expected_genesis_hash c = None
          then Inl ''remote transaction mode requires expected_genesis_hash when genesis matching is enabled''
          else Inr ()
      | ReadOnly \<Rightarrow>
          if (nc_expected_chain_id c = None \<or> nc_expected_network c = None) \<and> \<not> nc_allow_read_only_chain_autodetect c
          then Inl ''read_only mode requires expected_chain_id and expected_network unless allow_read_only_chain_autodetect is enabled''
          else Inr ())"

fun first_zero :: "(string \<times> Duration) list \<Rightarrow> unit anyhow" where
  "first_zero [] = Inr ()"
| "first_zero ((name, d) # rest) =
     (if d = 0 then Inl (name @ '' must be greater than zero'') else first_zero rest)"

definition validate_clamps :: "NodeConfig \<Rightarrow> unit anyhow" where
  "validate_clamps c =
     (if nc_default_expiration_ttl c > nc_max_expiration_ttl c
      then Inl ''default_expiration_ttl_seconds cannot exceed max_expiration_ttl_seconds''
      else
        and_then_any (first_zero
          [(''connect_timeout_ms'', nc_connect_timeout c), (''request_timeout_ms'', nc_request_timeout c),
           (''startup_probe_timeout_ms'', nc_startup_probe_timeout c), (''watch_timeout_seconds'', nc_watch_timeout c),
           (''max_submit_blocking_timeout_seconds'', nc_max_submit_blocking_timeout c),
           (''max_watch_timeout_seconds'', nc_max_watch_timeout c), (''max_head_lag_seconds'', nc_max_head_lag c),
           (''watch_poll_interval_seconds'', nc_watch_poll_interval c),
           (''min_watch_poll_interval_seconds'', nc_min_watch_poll_interval c)]) (\<lambda>_.
        if nc_warn_head_lag c > nc_max_head_lag c then Inl ''warn_head_lag_seconds cannot exceed max_head_lag_seconds''
        else if nc_max_concurrent_watch_requests c = 0 then Inl ''max_concurrent_watch_requests must be greater than zero''
        else if nc_max_inflight_expensive_requests c = 0 then Inl ''max_inflight_expensive_requests must be greater than zero''
        else Inr ()))"

definition NodeConfig_validate :: "NodeConfig \<Rightarrow> unit anyhow" where
  "NodeConfig_validate c =
     and_then_any (validate_endpoint (nc_rpc_endpoint_url c) (nc_allow_insecure_remote_transport c) (nc_allowed_rpc_hosts c)) (\<lambda>_.
     and_then_any (validate_mode_requirements c) (\<lambda>_.
     validate_clamps c))"

section \<open>Loading\<close>

text \<open>A value of the command line, else of the file, else the default.\<close>

definition merged :: "('c \<Rightarrow> 'v option) \<Rightarrow> 'c \<Rightarrow> 'c \<Rightarrow> 'v \<Rightarrow> 'v" where
  "merged sel args file d = unwrap_or (opt_or (sel args) (sel file)) d"

definition merged_secs :: "('c \<Rightarrow> u64 option) \<Rightarrow> 'c \<Rightarrow> 'c \<Rightarrow> u64 \<Rightarrow> Duration" where
  "merged_secs sel args file d = duration_secs (merged sel args file d)"

definition merged_ms :: "('c \<Rightarrow> u64 option) \<Rightarrow> 'c \<Rightarrow> 'c \<Rightarrow> u64 \<Rightarrow> Duration" where
  "merged_ms sel args file d = duration_ms (merged sel args file d)"

definition NodeConfig_build :: "NodeHost \<Rightarrow> NodeFileConfig \<Rightarrow> NodeFileConfig \<Rightarrow> PathBuf option \<Rightarrow> Url \<Rightarrow>
    (string \<times> string) list \<Rightarrow> string option \<Rightarrow> NodeConfig" where
  "NodeConfig_build H args file path endpoint headers token =
     \<lparr>nc_rpc_endpoint_url = endpoint,
      nc_mode = merged nf_mode args file ReadOnly,
      nc_vm_profile = merged nf_vm_profile args file VmAuto,
      nc_expected_chain_id = opt_or (nf_expected_chain_id args) (nf_expected_chain_id file),
      nc_expected_network = opt_or (nf_expected_network args) (nf_expected_network file),
      nc_expected_genesis_hash = opt_or (nf_expected_genesis_hash args) (nf_expected_genesis_hash file),
      nc_require_genesis_hash_match = merged nf_require_genesis_hash_match args file True,
      nc_connect_timeout = merged_ms nf_connect_timeout_ms args file 3000,
      nc_request_timeout = merged_ms nf_request_timeout_ms args file 10000,
      nc_startup_probe_timeout = merged_ms nf_startup_probe_timeout_ms args file 10000,
      nc_rpc_auth_token = token,
      nc_rpc_headers = headers,
      nc_tls_server_name = opt_or (nf_tls_server_name args) (nf_tls_server_name file),
      nc_allowed_rpc_hosts = split_csv (opt_or (nf_allowed_rpc_hosts args) (nf_allowed_rpc_hosts file)),
      nc_tls_pinned_spki_sha256 = split_csv (opt_or (nf_tls_pinned_spki_sha256 args) (nf_tls_pinned_spki_sha256 file)),
      nc_allow_insecure_remote_transport = merged nf_allow_insecure_remote_transport args file False,
      nc_allow_read_only_chain_autodetect = merged nf_allow_read_only_chain_autodetect args file False,
      nc_default_expiration_ttl = merged_secs nf_default_expiration_ttl_seconds args file 600,
      nc_max_expiration_ttl = merged_secs nf_max_expiration_ttl_seconds args file 3600,
      nc_watch_poll_interval = merged_secs nf_watch_poll_interval_seconds args file 3,
      nc_watch_timeout = merged_secs nf_watch_timeout_seconds args file 120,
      nc_max_head_lag = merged_secs nf_max_head_lag_seconds args file 60,
      nc_warn_head_lag = min (merged_secs nf_warn_head_lag_seconds args file 15)
        (merged_secs nf_max_head_lag_seconds args file 60),
      nc_allow_submit_without_prior_simulation = merged nf_allow_submit_without_prior_simulation args file True,
      nc_chain_status_cache_ttl = merged_secs nf_chain_status_cache_ttl_seconds args file 3,
      nc_abi_cache_ttl = merged_secs nf_abi_cache_ttl_seconds args file 300,
      nc_module_cache_max_entries = merged nf_module_cache_max_entries args file 1024,
      nc_disable_disk_cache = merged nf_disable_disk_cache args file True,
      nc_max_submit_blocking_timeout = merged_secs nf_max_submit_blocking_timeout_seconds args file 60,
      nc_max_watch_timeout = merged_secs nf_max_watch_timeout_seconds args file 300,
      nc_min_watch_poll_interval = merged_secs nf_min_watch_poll_interval_seconds args file 2,
      nc_max_list_blocks_count = merged nf_max_list_blocks_count args file 100,
      nc_max_events_limit = merged nf_max_events_limit args file 200,
      nc_max_account_resource_limit = merged nf_max_account_resource_limit args file 100,
      nc_max_account_module_limit = merged nf_max_account_module_limit args file 50,
      nc_max_list_resources_size = merged nf_max_list_resources_size args file 100,
      nc_max_list_modules_size = merged nf_max_list_modules_size args file 100,
      nc_max_publish_package_bytes = merged nf_max_publish_package_bytes args file 524288,
      nc_max_concurrent_watch_requests = merged nf_max_concurrent_watch_requests args file 8,
      nc_max_inflight_expensive_requests = merged nf_max_inflight_expensive_requests args file 16,
      nc_config_path = path,
      nc_log_level = log_level_of H args file\<rparr>"

definition NodeConfig_load :: "NodeHost \<Rightarrow> NodeCliArgs \<Rightarrow> NodeConfig anyhow" where
  "NodeConfig_load H cli =
     (let path = resolve_config_path H (na_config cli); args = NodeFileConfig.truncate cli in
      and_then_any (case path of
                      Some p \<Rightarrow> if node_path_exists H p then node_load_file_config H p else Inr NodeFileConfig_default
                    | None \<Rightarrow> Inr NodeFileConfig_default) (\<lambda>file.
      and_then_any (required (opt_or (nf_rpc_endpoint_url args) (nf_rpc_endpoint_url file)) ''missing rpc endpoint url'') (\<lambda>text.
      and_then_any (with_context (url_parse H text) ''invalid rpc endpoint url'') (\<lambda>endpoint.
      and_then_any (parse_secret_headers (opt_or (nf_rpc_headers args) (nf_rpc_headers file))) (\<lambda>headers.
      and_then_any (resolve_rpc_auth_token H (na_rpc_auth_token cli)
                     (opt_or (nf_rpc_auth_token_env args) (nf_rpc_auth_token_env file))) (\<lambda>token.
      let c = NodeConfig_build H args file path endpoint headers token in
      and_then_any (NodeConfig_validate c) (\<lambda>_. Inr c)))))))"

section \<open>What a valid configuration guarantees\<close>

text \<open>
  The conditions \<open>validate\<close> establishes: a remote endpoint is reached by https unless that is waived and is on
  the list of allowed hosts if there is one; a configuration for transactions pins the chain; timeouts and
  intervals are positive and ordered.
\<close>

definition endpoint_secure :: "NodeConfig \<Rightarrow> bool" where
  "endpoint_secure c \<longleftrightarrow>
     url_scheme (nc_rpc_endpoint_url c) \<in> {''http'', ''https''} \<and>
     (is_remote_endpoint (nc_rpc_endpoint_url c) \<and> \<not> nc_allow_insecure_remote_transport c \<longrightarrow>
        url_scheme (nc_rpc_endpoint_url c) = ''https'') \<and>
     (nc_allowed_rpc_hosts c \<noteq> [] \<longrightarrow>
        (\<exists>host \<in> set (nc_allowed_rpc_hosts c). url_host_str (nc_rpc_endpoint_url c) = Some host))"

definition chain_pinned :: "NodeConfig \<Rightarrow> bool" where
  "chain_pinned c \<longleftrightarrow>
     (nc_mode c = TransactionMode \<or> \<not> nc_allow_read_only_chain_autodetect c \<longrightarrow>
        nc_expected_chain_id c \<noteq> None \<and> nc_expected_network c \<noteq> None) \<and>
     (nc_mode c = TransactionMode \<and> is_remote_endpoint (nc_rpc_endpoint_url c) \<and> nc_require_genesis_hash_match c \<longrightarrow>
        nc_expected_genesis_hash c \<noteq> None)"

definition clamps_ok :: "NodeConfig \<Rightarrow> bool" where
  "clamps_ok c \<longleftrightarrow>
     nc_default_expiration_ttl c \<le> nc_max_expiration_ttl c \<and> nc_warn_head_lag c \<le> nc_max_head_lag c \<and>
     list_all (\<lambda>d. d \<noteq> 0)
       [nc_connect_timeout c, nc_request_timeout c, nc_startup_probe_timeout c, nc_watch_timeout c,
        nc_max_submit_blocking_timeout c, nc_max_watch_timeout c, nc_max_head_lag c, nc_watch_poll_interval c,
        nc_min_watch_poll_interval c] \<and>
     nc_max_concurrent_watch_requests c \<noteq> 0 \<and> nc_max_inflight_expensive_requests c \<noteq> 0"

lemma validate_endpoint_secure:
  "validate_endpoint (nc_rpc_endpoint_url c) (nc_allow_insecure_remote_transport c) (nc_allowed_rpc_hosts c) = Inr ()
     \<longleftrightarrow> endpoint_secure c"
  by (auto simp: validate_endpoint_def endpoint_secure_def split: option.splits)

lemma validate_mode_pinned: "validate_mode_requirements c = Inr () \<longleftrightarrow> chain_pinned c"
  by (cases "nc_mode c") (auto simp: validate_mode_requirements_def chain_pinned_def)

lemma first_zero_Inr: "first_zero ds = Inr () \<longleftrightarrow> list_all (\<lambda>d. d \<noteq> 0) (map snd ds)"
  by (induction ds rule: first_zero.induct) auto

lemma validate_clamps_ok: "validate_clamps c = Inr () \<longleftrightarrow> clamps_ok c"
  by (auto simp: validate_clamps_def clamps_ok_def anyhow_simps first_zero_Inr)

lemma validate_exact: "NodeConfig_validate c = Inr () \<longleftrightarrow> endpoint_secure c \<and> chain_pinned c \<and> clamps_ok c"
  by (simp add: NodeConfig_validate_def anyhow_simps validate_endpoint_secure validate_mode_pinned validate_clamps_ok)

lemma NodeConfig_load_Inr:
  assumes "NodeConfig_load H cli = Inr c"
  obtains fc endpoint headers token where
    "c = NodeConfig_build H (NodeFileConfig.truncate cli) fc (resolve_config_path H (na_config cli)) endpoint headers token"
    "NodeConfig_validate c = Inr ()"
  using assms by (auto simp: NodeConfig_load_def Let_def anyhow_simps)

end
