(* ===== verification/Node_Json.thy ===== *)
theory Node_Json
  imports Node_Config
begin

text \<open>
  Reading JSON answers and interpreting them: the parts of \<open>serde_json::Value\<close> the client uses, and
  \<open>starcoin-node-core/src/helpers.rs\<close>. A computation on a result without state is a value of
  \<open>'a noded\<close>; \<open>and_then\<close> of \<open>Option\<close> is \<open>Option.bind\<close>.
\<close>

section \<open>JSON values\<close>

type_synonym 'a noded = "NodeError + 'a"

definition try_bind :: "'a noded \<Rightarrow> ('a \<Rightarrow> 'b noded) \<Rightarrow> 'b noded" where
  "try_bind r f = (case r of Inl e \<Rightarrow> Inl e | Inr x \<Rightarrow> f x)"

lemma try_bind_Inr: "try_bind r f = Inr y \<longleftrightarrow> (\<exists>x. r = Inr x \<and> f x = Inr y)"
  by (cases r) (simp_all add: try_bind_def)

definition opt_ok_or :: "'a option \<Rightarrow> NodeError \<Rightarrow> 'a noded" where
  "opt_ok_or v e = (case v of None \<Rightarrow> Inl e | Some x \<Rightarrow> Inr x)"

lemma opt_ok_or_Inr [simp]: "opt_ok_or v e = Inr x \<longleftrightarrow> v = Some x"
  by (cases v) (simp_all add: opt_ok_or_def)

fun json_get :: "string \<Rightarrow> Value \<Rightarrow> Value option" where
  "json_get k (VObject ms) = map_of ms k"
| "json_get k _ = None"

fun as_str :: "Value \<Rightarrow> string option" where
  "as_str (VString s) = Some s"
| "as_str _ = None"

fun as_array :: "Value \<Rightarrow> Value list option" where
  "as_array (VArray vs) = Some vs"
| "as_array _ = None"

fun as_object :: "Value \<Rightarrow> (string \<times> Value) list option" where
  "as_object (VObject ms) = Some ms"
| "as_object _ = None"

text \<open>\<open>Map::insert\<close> keeps the place of a key that is there and appends a new one.\<close>

fun object_insert :: "string \<Rightarrow> Value \<Rightarrow> (string \<times> Value) list \<Rightarrow> (string \<times> Value) list" where
  "object_insert k v [] = [(k, v)]"
| "object_insert k v ((k', v') # rest) =
     (if k = k' then (k, v) # rest else (k', v') # object_insert k v rest)"

lemma object_insert_map_of: "map_of (object_insert k v ms) = (map_of ms)(k \<mapsto> v)"
  by (induction k v ms rule: object_insert.induct) auto

definition json_u64 :: "u64 \<Rightarrow> Value" where
  "json_u64 v = VNumber (u64_to_string v)"

definition json_opt :: "('a \<Rightarrow> Value) \<Rightarrow> 'a option \<Rightarrow> Value" where
  "json_opt f v = (case v of None \<Rightarrow> VNull | Some x \<Rightarrow> f x)"

definition json_strings :: "string list \<Rightarrow> Value" where
  "json_strings ss = VArray (map VString ss)"

definition json_i64 :: "int \<Rightarrow> Value" where
  "json_i64 n = VNumber (if n < 0 then CHR ''-'' # decimal (nat (- n)) else decimal (nat n))"

text \<open>Both copies of \<open>parse_u64\<close>, and the \<open>match\<close> of \<open>extract_optional_u64\<close>.\<close>

fun json_parse_u64 :: "Value \<Rightarrow> u64 option" where
  "json_parse_u64 (VNumber t) = parse_u64 t"
| "json_parse_u64 (VString t) = parse_u64 t"
| "json_parse_u64 _ = None"

text \<open>
  Equality of values: objects are compared without regard to order. \<open>same_members\<close> compares the members of an
  object of the same size.
\<close>

fun value_eq :: "Value \<Rightarrow> Value \<Rightarrow> bool" and
  values_eq :: "Value list \<Rightarrow> Value list \<Rightarrow> bool" and
  same_members :: "(string \<times> Value) list \<Rightarrow> (string \<times> Value) list \<Rightarrow> bool" where
  "value_eq (VArray xs) (VArray ys) = values_eq xs ys"
| "value_eq (VObject xs) (VObject ys) = (length xs = length ys \<and> same_members xs ys)"
| "value_eq x y = (x = y)"
| "values_eq [] [] = True"
| "values_eq (x # xs) (y # ys) = (value_eq x y \<and> values_eq xs ys)"
| "values_eq _ _ = False"
| "same_members [] ys = True"
| "same_members ((k, x) # xs) ys =
     ((case map_of ys k of None \<Rightarrow> False | Some y \<Rightarrow> value_eq x y) \<and> same_members xs ys)"

section \<open>Fields of an answer\<close>

text \<open>\<open>str::join\<close>.\<close>

fun join :: "string \<Rightarrow> string list \<Rightarrow> string" where
  "join sep [] = []"
| "join sep [s] = s"
| "join sep (s # ss) = s @ sep @ join sep ss"

fun lookup :: "Value \<Rightarrow> string list \<Rightarrow> Value option" where
  "lookup v [] = Some v"
| "lookup v (k # ks) = (case json_get k v of None \<Rightarrow> None | Some w \<Rightarrow> lookup w ks)"

definition extract_optional_string :: "Value \<Rightarrow> string list \<Rightarrow> string option" where
  "extract_optional_string v path = Option.bind (lookup v path) as_str"

definition extract_string :: "Value \<Rightarrow> string list \<Rightarrow> string noded" where
  "extract_string v path =
     opt_ok_or (extract_optional_string v path)
       (NodeError_new E_RpcUnavailable (''missing string field at '' @ join ''.'' path))"

definition extract_optional_u64 :: "Value \<Rightarrow> string list \<Rightarrow> u64 option" where
  "extract_optional_u64 v path = Option.bind (lookup v path) json_parse_u64"

definition extract_u64 :: "Value \<Rightarrow> string list \<Rightarrow> u64 noded" where
  "extract_u64 v path =
     opt_ok_or (extract_optional_u64 v path)
       (NodeError_new E_RpcUnavailable (''missing numeric field at '' @ join ''.'' path))"

definition extract_u8 :: "Value \<Rightarrow> string list \<Rightarrow> 8 word noded" where
  "extract_u8 v path =
     try_bind (extract_u64 v path) (\<lambda>n.
     if uint n < 256 then Inr (ucast n)
     else Inl (NodeError_new E_RpcUnavailable (''numeric field at '' @ join ''.'' path @ '' does not fit into u8'')))"

section \<open>The identity of the chain\<close>

definition canonicalize_network_name :: "string \<Rightarrow> string" where
  "canonicalize_network_name s = to_ascii_lowercase (trim s)"

definition eq_ignore_ascii_case :: "string \<Rightarrow> string \<Rightarrow> bool" where
  "eq_ignore_ascii_case a b \<longleftrightarrow> to_ascii_lowercase a = to_ascii_lowercase b"

definition parse_network_name :: "Value option \<Rightarrow> string option" where
  "parse_network_name v =
     (case v of
        Some (VString name) \<Rightarrow> Some (canonicalize_network_name name)
      | Some (VObject ms) \<Rightarrow>
          (case Option.bind (map_of ms ''Builtin'') as_str of
             Some name \<Rightarrow> Some (canonicalize_network_name name)
           | None \<Rightarrow>
               map_option canonicalize_network_name
                 (Option.bind (Option.bind (map_of ms ''Custom'') (json_get ''chain_name'')) as_str))
      | _ \<Rightarrow> None)"

definition extract_network :: "Value \<Rightarrow> string noded" where
  "extract_network node_info =
     opt_ok_or (parse_network_name (lookup node_info [''net'']))
       (NodeError_new E_RpcUnavailable ''missing or invalid network field at net'')"

text \<open>
  The three checks of \<open>validate_chain_identity\<close>; \<open>observed_at\<close> is the reading of \<open>rfc3339_now\<close> that
  \<open>extract_chain_context\<close> makes.
\<close>

definition check_chain_id :: "NodeConfig \<Rightarrow> Value \<Rightarrow> unit noded" where
  "check_chain_id c chain_info =
     (case nc_expected_chain_id c of
        None \<Rightarrow> Inr ()
      | Some expected \<Rightarrow>
          try_bind (extract_u8 chain_info [''chain_id'']) (\<lambda>actual.
          if expected \<noteq> actual
          then Inl (NodeError_new E_InvalidChainContext
                 (''configured chain_id '' @ decimal (unat expected) @ '' does not match endpoint chain_id '' @ decimal (unat actual)))
          else Inr ()))"

definition check_network :: "NodeConfig \<Rightarrow> Value \<Rightarrow> unit noded" where
  "check_network c node_info =
     (case nc_expected_network c of
        None \<Rightarrow> Inr ()
      | Some expected \<Rightarrow>
          try_bind (extract_network node_info) (\<lambda>actual.
          if \<not> eq_ignore_ascii_case (canonicalize_network_name expected) (canonicalize_network_name actual)
          then Inl (NodeError_new E_InvalidChainContext
                 (''configured network '' @ expected @ '' does not match endpoint network '' @ actual))
          else Inr ()))"

definition check_genesis_hash :: "NodeConfig \<Rightarrow> Value \<Rightarrow> unit noded" where
  "check_genesis_hash c chain_info =
     (case (nc_require_genesis_hash_match c, nc_expected_genesis_hash c) of
        (True, Some expected) \<Rightarrow>
          try_bind (extract_string chain_info [''genesis_hash'']) (\<lambda>actual.
          if expected \<noteq> actual
          then Inl (NodeError_new E_InvalidChainContext
                 (''configured genesis_hash '' @ expected @ '' does not match endpoint genesis_hash '' @ actual))
          else Inr ())
      | _ \<Rightarrow> Inr ())"

definition validate_chain_identity :: "NodeConfig \<Rightarrow> Value \<Rightarrow> Value \<Rightarrow> unit noded" where
  "validate_chain_identity c node_info chain_info =
     try_bind (check_chain_id c chain_info) (\<lambda>_.
     try_bind (check_network c node_info) (\<lambda>_.
     check_genesis_hash c chain_info))"

definition extract_chain_context :: "Value \<Rightarrow> Value \<Rightarrow> string \<Rightarrow> ChainContext noded" where
  "extract_chain_context node_info chain_info observed_at =
     try_bind (extract_u8 chain_info [''chain_id'']) (\<lambda>chain_id.
     try_bind (extract_network node_info) (\<lambda>network.
     try_bind (extract_string chain_info [''genesis_hash'']) (\<lambda>genesis.
     try_bind (extract_string chain_info [''head'', ''block_hash'']) (\<lambda>head_hash.
     try_bind (extract_u64 chain_info [''head'', ''number'']) (\<lambda>head_number.
     Inr \<lparr>cc_chain_id = chain_id, cc_network = network, cc_genesis_hash = genesis, cc_head_block_hash = head_hash,
          cc_head_block_number = head_number,
          cc_head_state_root = extract_optional_string chain_info [''head'', ''state_root''],
          cc_observed_at = observed_at\<rparr>)))))"

section \<open>Transactions\<close>

definition status_summary_from_parts :: "Value option \<Rightarrow> Value option \<Rightarrow> TransactionStatusSummary" where
  "status_summary_from_parts transaction info =
     \<lparr>ts_found = (transaction \<noteq> None \<or> info \<noteq> None), ts_confirmed = (info \<noteq> None),
      ts_vm_status = opt_or (Option.bind info (\<lambda>i. extract_optional_string i [''status'']))
        (Option.bind transaction (\<lambda>t. extract_optional_string t [''status''])),
      ts_gas_used = Option.bind info (\<lambda>i. extract_optional_u64 i [''gas_used''])\<rparr>"

section \<open>Resources of an account\<close>

definition named_resource_entry :: "string \<Rightarrow> Value \<Rightarrow> Value" where
  "named_resource_entry name v = VObject [(''name'', VString name), (''value'', v)]"

definition map_named_entries :: "Value \<Rightarrow> string \<Rightarrow> Value list" where
  "map_named_entries container field =
     (case Option.bind (json_get field container) as_object of
        None \<Rightarrow> []
      | Some entries \<Rightarrow> map (\<lambda>(name, v). named_resource_entry name v) entries)"

definition resource_name :: "Value \<Rightarrow> string option" where
  "resource_name resource = Option.bind (json_get ''name'' resource) as_str"

text \<open>\<open>str::contains\<close>, and what follows the first occurrence (\<open>str::find\<close> and the slice after it).\<close>

fun after_first :: "string \<Rightarrow> string \<Rightarrow> string option" where
  "after_first pat [] = (if pat = [] then Some [] else None)"
| "after_first pat (c # cs) =
     (if take (length pat) (c # cs) = pat then Some (drop (length pat) (c # cs)) else after_first pat cs)"

definition contains :: "string \<Rightarrow> string \<Rightarrow> bool" where
  "contains s pat \<longleftrightarrow> after_first pat s \<noteq> None"

definition extract_generic_resource_token :: "string \<Rightarrow> string \<Rightarrow> string option" where
  "extract_generic_resource_token name container =
     (case after_first (container @ ''<'') name of
        None \<Rightarrow> None
      | Some rest \<Rightarrow> if ends_with rest ''>'' then Some (butlast rest) else None)"

definition is_balance_resource :: "Value \<Rightarrow> bool" where
  "is_balance_resource resource =
     (case resource_name resource of
        None \<Rightarrow> False
      | Some name \<Rightarrow>
          contains name ''Balance'' \<or> contains name ''balance'' \<or> contains name ''::fungible_asset::FungibleStore'' \<or>
          extract_generic_resource_token name ''CoinStore'' \<noteq> None)"

definition extract_balance_resources :: "Value list \<Rightarrow> Value list" where
  "extract_balance_resources resources = filter is_balance_resource resources"

definition push_new :: "string list \<Rightarrow> string \<Rightarrow> string list" where
  "push_new xs x = (if x \<in> set xs then xs else xs @ [x])"

definition accept_token :: "string list \<Rightarrow> Value \<Rightarrow> string list" where
  "accept_token accepted resource =
     (case resource_name resource of
        None \<Rightarrow> accepted
      | Some name \<Rightarrow>
          (case extract_generic_resource_token name ''CoinStore'' of
             Some token \<Rightarrow> push_new accepted token
           | None \<Rightarrow> if contains name ''Token'' \<or> contains name ''token'' then push_new accepted name else accepted))"

definition extract_accepted_tokens :: "Value list \<Rightarrow> string list" where
  "extract_accepted_tokens resources = foldl accept_token [] resources"

definition same_resource_value :: "Value option \<Rightarrow> Value \<Rightarrow> bool" where
  "same_resource_value candidate expected =
     (case candidate of
        None \<Rightarrow> False
      | Some v \<Rightarrow>
          value_eq v expected \<or>
          (case (Option.bind (json_get ''raw'' v) as_str, Option.bind (json_get ''raw'' expected) as_str) of
             (Some a, Some b) \<Rightarrow> a = b
           | _ \<Rightarrow> False))"

definition kept_beside_primary :: "string \<Rightarrow> Value \<Rightarrow> Value \<Rightarrow> bool" where
  "kept_beside_primary stc_token primary resource =
     (case resource_name resource of
        None \<Rightarrow> True
      | Some name \<Rightarrow>
          if resource_name primary = Some name \<and>
             (case json_get ''value'' primary of None \<Rightarrow> False | Some v \<Rightarrow> same_resource_value (json_get ''value'' resource) v)
          then False
          else (case extract_generic_resource_token name ''CoinStore'' of None \<Rightarrow> True | Some token \<Rightarrow> token \<noteq> stc_token))"

definition replace_stc_balance_with_primary_store :: "string \<Rightarrow> Value list \<Rightarrow> Value \<Rightarrow> Value list" where
  "replace_stc_balance_with_primary_store stc_token balances primary =
     primary # filter (kept_beside_primary stc_token primary) balances"

section \<open>Errors and capabilities\<close>

definition is_transport_error :: "NodeError \<Rightarrow> bool" where
  "is_transport_error e \<longleftrightarrow> ne_code e \<in> {E_NodeUnavailable, E_RpcUnavailable}"

definition is_degradable_sequence_lookup_error :: "NodeError \<Rightarrow> bool" where
  "is_degradable_sequence_lookup_error e \<longleftrightarrow>
     ne_code e \<in> {E_UnsupportedOperation, E_NodeUnavailable, E_RpcUnavailable}"

definition ensure_capability :: "bool \<Rightarrow> string \<Rightarrow> unit noded" where
  "ensure_capability supported m = (if supported then Inr () else Inl (NodeError_new E_UnsupportedOperation m))"

section \<open>What the checks of the chain establish\<close>

lemma validate_chain_identity_Inr:
  assumes "validate_chain_identity c ni ci = Inr ()" "extract_chain_context ni ci t = Inr ctx"
  shows "(nc_expected_chain_id c \<noteq> None \<longrightarrow> nc_expected_chain_id c = Some (cc_chain_id ctx)) \<and>
    (\<forall>net. nc_expected_network c = Some net \<longrightarrow>
       eq_ignore_ascii_case (canonicalize_network_name net) (canonicalize_network_name (cc_network ctx))) \<and>
    (nc_require_genesis_hash_match c \<and> nc_expected_genesis_hash c \<noteq> None \<longrightarrow>
       nc_expected_genesis_hash c = Some (cc_genesis_hash ctx))"
  using assms
  by (auto simp: validate_chain_identity_def extract_chain_context_def try_bind_Inr check_chain_id_def check_network_def
      check_genesis_hash_def split: option.splits if_splits bool.splits)

end
