(* ===== verification/Node_Tls.thy ===== *)
theory Node_Tls
  imports Node_Json
begin

text \<open>
  How the client reaches its endpoint (\<open>starcoin-node-rpc/src/tls.rs\<close>): the address it connects to and the
  certificates it accepts. Name resolution, the certificate library, hexadecimal and base-64 decoding and the
  HTTP library are the record \<open>TlsLib\<close>, over certificates of type \<open>'c\<close>.
\<close>

section \<open>The libraries\<close>

record 'c TlsLib =
  url_port_or_known_default :: "Url \<Rightarrow> int option"
  to_socket_addrs :: "string \<Rightarrow> int \<Rightarrow> string list anyhow"
  url_set_host :: "Url \<Rightarrow> string \<Rightarrow> Url option"
  tls_hex_decode :: "string \<Rightarrow> 8 word list option"
  tls_base64_decode :: "string \<Rightarrow> 8 word list option"
  webpki_verifier :: "('c \<Rightarrow> string \<Rightarrow> bool) anyhow"
  protocol_versions :: "unit anyhow"
  x509_public_key :: "'c \<Rightarrow> 8 word list option"
  sha256_digest :: "8 word list \<Rightarrow> 8 word list"
  client_build :: "unit anyhow"

text \<open>\<open>str::trim_start_matches\<close> of a literal, and \<open>str::strip_prefix\<close>.\<close>

function trim_start_matches :: "string \<Rightarrow> string \<Rightarrow> string" where
  "trim_start_matches pat s =
     (if pat \<noteq> [] \<and> take (length pat) s = pat then trim_start_matches pat (drop (length pat) s) else s)"
  by pat_completeness auto

termination
proof (relation "measure (\<lambda>(pat, s). length s)")
  fix pat s :: string
  assume "pat \<noteq> [] \<and> take (length pat) s = pat"
  then show "((pat, drop (length pat) s), (pat, s)) \<in> measure (\<lambda>(pat, s). length s)"
    by (cases s; cases pat) auto
qed simp

declare trim_start_matches.simps [simp del]

definition strip_prefix :: "string \<Rightarrow> string \<Rightarrow> string option" where
  "strip_prefix pat s = (if take (length pat) s = pat then Some (drop (length pat) s) else None)"

section \<open>Pins\<close>

definition parse_spki_pin :: "'c TlsLib \<Rightarrow> string \<Rightarrow> 8 word list anyhow" where
  "parse_spki_pin L pin =
     (let normalized = trim_start_matches ''0x'' (unwrap_or (strip_prefix ''sha256/'' (trim pin)) (trim pin)) in
      case tls_hex_decode L normalized of
        Some bytes \<Rightarrow>
          if length bytes = 32 then Inr bytes
          else and_then_any (required (tls_base64_decode L normalized) (''invalid tls_pinned_spki_sha256 value: '' @ pin)) (\<lambda>b.
               if length b = 32 then Inr b else Inl ''tls_pinned_spki_sha256 entries must decode to 32 bytes'')
      | None \<Rightarrow>
          and_then_any (required (tls_base64_decode L normalized) (''invalid tls_pinned_spki_sha256 value: '' @ pin)) (\<lambda>b.
          if length b = 32 then Inr b else Inl ''tls_pinned_spki_sha256 entries must decode to 32 bytes''))"

fun parse_spki_pins :: "'c TlsLib \<Rightarrow> string list \<Rightarrow> 8 word list list anyhow" where
  "parse_spki_pins L [] = Inr []"
| "parse_spki_pins L (pin # pins) =
     and_then_any (parse_spki_pin L pin) (\<lambda>b.
     and_then_any (parse_spki_pins L pins) (\<lambda>bs. Inr (b # bs)))"

section \<open>The verifier\<close>

record 'c ConfiguredServerCertVerifier =
  cv_base_verifier :: "('c \<Rightarrow> string \<Rightarrow> bool) option"
  cv_pins :: "8 word list list"

definition extract_spki_pin_from_certificate :: "'c TlsLib \<Rightarrow> 'c \<Rightarrow> 8 word list anyhow" where
  "extract_spki_pin_from_certificate L cert =
     and_then_any (required (x509_public_key L cert) ''failed to parse server certificate for SPKI pinning'') (\<lambda>key.
     Inr (sha256_digest L key))"

definition verify_server_cert :: "'c TlsLib \<Rightarrow> 'c ConfiguredServerCertVerifier \<Rightarrow> 'c \<Rightarrow> string \<Rightarrow> unit anyhow" where
  "verify_server_cert L v cert server_name =
     (if (case cv_base_verifier v of None \<Rightarrow> False | Some accepts \<Rightarrow> \<not> accepts cert server_name)
      then Inl ''invalid peer certificate''
      else if cv_pins v = [] then Inr ()
      else
        and_then_any (extract_spki_pin_from_certificate L cert) (\<lambda>pin.
        if pin \<notin> set (cv_pins v) then Inl ''server certificate SPKI pin mismatch'' else Inr ()))"

definition build_rustls_client_config :: "'c TlsLib \<Rightarrow> NodeConfig \<Rightarrow> 'c ConfiguredServerCertVerifier anyhow" where
  "build_rustls_client_config L c =
     and_then_any (parse_spki_pins L (nc_tls_pinned_spki_sha256 c)) (\<lambda>pins.
     and_then_any (if nc_allow_insecure_remote_transport c then Inr None
                   else and_then_any (with_context (webpki_verifier L) ''failed to build TLS verifier'') (\<lambda>v. Inr (Some v))) (\<lambda>base.
     and_then_any (with_context (protocol_versions L) ''invalid TLS protocol version configuration'') (\<lambda>_.
     Inr \<lparr>cv_base_verifier = base, cv_pins = pins\<rparr>)))"

section \<open>The HTTP client\<close>

text \<open>
  What a request of the client uses: the address, the fixed addresses of a host, and the verifier;
  \<open>None\<close> is the verification the HTTP library does on its own.
\<close>

record 'c HttpClient =
  hc_endpoint :: Url
  hc_resolve :: "(string \<times> string list) option"
  hc_tls :: "'c ConfiguredServerCertVerifier option"

definition resolve_endpoint_addrs :: "'c TlsLib \<Rightarrow> Url \<Rightarrow> string list anyhow" where
  "resolve_endpoint_addrs L url =
     and_then_any (required (url_host_str url) ''rpc endpoint is missing host'') (\<lambda>host.
     and_then_any (required (url_port_or_known_default L url) ''rpc endpoint is missing a usable port'') (\<lambda>port.
     and_then_any (with_context (to_socket_addrs L host port) (''failed to resolve rpc endpoint host '' @ host)) (\<lambda>addrs.
     if addrs = [] then Inl (''resolved no socket addresses for rpc endpoint host '' @ host) else Inr addrs)))"

definition server_name_of :: "NodeConfig \<Rightarrow> string option" where
  "server_name_of c =
     (case nc_tls_server_name c of None \<Rightarrow> None | Some n \<Rightarrow> if trim n = [] then None else Some (trim n))"

definition redirect_endpoint :: "'c TlsLib \<Rightarrow> Url \<Rightarrow> string option \<Rightarrow> (Url \<times> (string \<times> string list) option) anyhow" where
  "redirect_endpoint L url server_name =
     (case server_name of
        None \<Rightarrow> Inr (url, None)
      | Some name \<Rightarrow>
          and_then_any (required (url_host_str url) ''rpc endpoint is missing host'') (\<lambda>host.
          if eq_ignore_ascii_case host name then Inr (url, None)
          else
            and_then_any (resolve_endpoint_addrs L url) (\<lambda>addrs.
            and_then_any (required (url_set_host L url name) (''invalid tls_server_name '' @ name)) (\<lambda>url'.
            Inr (url', Some (name, addrs))))))"

definition build_http_client :: "'c TlsLib \<Rightarrow> NodeConfig \<Rightarrow> 'c HttpClient anyhow" where
  "build_http_client L c =
     (let url = nc_rpc_endpoint_url c; name = server_name_of c; https = (url_scheme url = ''https'') in
      if (name \<noteq> None \<or> nc_tls_pinned_spki_sha256 c \<noteq> []) \<and> \<not> https
      then Inl ''tls_server_name and tls_pinned_spki_sha256 require an https rpc endpoint''
      else
        and_then_any (if https then redirect_endpoint L url name else Inr (url, None)) (\<lambda>(url', resolved).
        and_then_any (if https \<and> (name \<noteq> None \<or> nc_tls_pinned_spki_sha256 c \<noteq> [] \<or> nc_allow_insecure_remote_transport c)
                      then and_then_any (build_rustls_client_config L c) (\<lambda>v. Inr (Some v)) else Inr None) (\<lambda>tls.
        and_then_any (with_context (client_build L) ''failed to build rpc http client'') (\<lambda>_.
        Inr \<lparr>hc_endpoint = url', hc_resolve = resolved, hc_tls = tls\<rparr>))))"

section \<open>Which servers are trusted\<close>

lemma parse_spki_pins_length: "parse_spki_pins L pins = Inr bs \<Longrightarrow> length bs = length pins"
  by (induction pins arbitrary: bs) (auto simp: anyhow_simps)

lemma verify_server_cert_Inr:
  "verify_server_cert L v cert name = Inr () \<longleftrightarrow>
     (\<forall>accepts. cv_base_verifier v = Some accepts \<longrightarrow> accepts cert name) \<and>
     (cv_pins v \<noteq> [] \<longrightarrow> (\<exists>key. x509_public_key L cert = Some key \<and> sha256_digest L key \<in> set (cv_pins v)))"
  by (auto simp: verify_server_cert_def extract_spki_pin_from_certificate_def anyhow_simps split: option.splits)

text \<open>With pins in the configuration, no connection is made but to a server whose key is pinned.\<close>

lemma pinned_client:
  assumes "build_http_client L c = Inr h" "nc_tls_pinned_spki_sha256 c \<noteq> []"
  obtains v pins where "hc_tls h = Some v" "parse_spki_pins L (nc_tls_pinned_spki_sha256 c) = Inr pins" "cv_pins v = pins" "pins \<noteq> []"
    "url_scheme (nc_rpc_endpoint_url c) = ''https''"
    "\<not> nc_allow_insecure_remote_transport c \<Longrightarrow> \<exists>accepts. webpki_verifier L = Inr accepts \<and> cv_base_verifier v = Some accepts"
proof -
  from assms obtain v where v: "hc_tls h = Some v" "build_rustls_client_config L c = Inr v"
      "url_scheme (nc_rpc_endpoint_url c) = ''https''"
    by (auto simp: build_http_client_def Let_def anyhow_simps split: if_splits prod.splits)
  from v(2) obtain pins where pins: "parse_spki_pins L (nc_tls_pinned_spki_sha256 c) = Inr pins" "cv_pins v = pins"
      "\<not> nc_allow_insecure_remote_transport c \<Longrightarrow> \<exists>accepts. webpki_verifier L = Inr accepts \<and> cv_base_verifier v = Some accepts"
    by (auto simp: build_rustls_client_config_def anyhow_simps split: if_splits)
  have "pins \<noteq> []" using parse_spki_pins_length [OF pins(1)] assms(2) by auto
  with that v pins show thesis by blast
qed

end
