(* ===== verification/Node_Rpc.thy ===== *)
theory Node_Rpc
  imports Node_Tls
begin

text \<open>
  The JSON-RPC client of the node (\<open>starcoin-node-rpc/src/lib.rs\<close>, \<open>cache.rs\<close>, \<open>probe.rs\<close>,
  \<open>vm2_helpers.rs\<close>).

  The endpoint and the clocks are the record \<open>NodeEnv\<close>: what becomes of a request may depend on everything
  sent before, and every reading of a clock is a value of its own. The state is the client with the world
  around it: \<open>nw_sent\<close> lists the requests handed to the HTTP library, the latest first, and the counters say
  how often a clock was read; the wall clock also depends on how long the program has slept. A future that \<open>tokio::time::timeout\<close> drops stops while it waits for an answer:
  \<open>nw_cut\<close> is the number of answers it still gets.
\<close>

section \<open>The endpoint and the clocks\<close>

record RpcRequest =
  rq_id :: u64
  rq_method :: string
  rq_params :: Value

record RpcFailure =
  rf_code :: int
  rf_message :: string
  rf_data :: "Value option"

record RpcEnvelope =
  re_jsonrpc :: "string option"
  re_id :: "u64 option"
  re_result :: Value
  re_error :: "RpcFailure option"

text \<open>What \<open>send\<close> and \<open>text\<close> bring: an error, or the status with its text and the body.\<close>

datatype HttpOutcome = NotSent string | BodyLost string | Answered int string string

record CachedValue =
  cv_inserted_at :: int
  cv_value :: Value

record NodeEnv =
  ev_http :: "RpcRequest list \<Rightarrow> RpcRequest \<Rightarrow> HttpOutcome"
  ev_envelope :: "string \<Rightarrow> string + RpcEnvelope"
  ev_type_error :: "Value \<Rightarrow> string"
  ev_instant :: "nat \<Rightarrow> int"
  ev_utc :: "Duration \<Rightarrow> nat \<Rightarrow> int"
  ev_rfc3339 :: "int \<Rightarrow> string"
  ev_evict :: "(string \<times> CachedValue) list \<Rightarrow> nat"
  ev_drop :: "nat \<Rightarrow> nat option"

record TimedValueCache =
  tc_ttl :: Duration
  tc_capacity :: u64
  tc_entries :: "(string \<times> CachedValue) list"

record NodeWorld =
  nw_sent :: "RpcRequest list"
  nw_instants :: nat
  nw_utcs :: nat
  nw_timeouts :: nat
  nw_slept :: Duration
  nw_cut :: "nat option"

record NodeRpcClient = NodeWorld +
  rp_endpoint :: Url
  rp_next_id :: u64
  rp_vm_profile :: VmProfile
  rp_chain_info_cache :: TimedValueCache
  rp_abi_cache :: TimedValueCache

text \<open>
  How an operation can end without a result: by an error, by a panic, because its future was dropped, or
  because the watching it started goes on.
\<close>

datatype NodeStop = Raised NodeError | Panicked | Dropped | StillWatching

type_synonym ('z, 'x) rpc_run = "('z NodeRpcClient_scheme, NodeStop, 'x) fallible"

definition raise :: "NodeError \<Rightarrow> ('s, NodeStop, 'x) fallible" where
  "raise e = err (Raised e)"

definition tried :: "'x noded \<Rightarrow> ('s, NodeStop, 'x) fallible" where
  "tried r = (case r of Inl e \<Rightarrow> raise e | Inr x \<Rightarrow> ok x)"

text \<open>\<open>match m.await { Ok(x) => f(x), Err(e) => g(e) }\<close>.\<close>

definition match_result :: "('s, NodeStop, 'x) fallible \<Rightarrow> ('x \<Rightarrow> ('s, NodeStop, 'y) fallible) \<Rightarrow>
    (NodeError \<Rightarrow> ('s, NodeStop, 'y) fallible) \<Rightarrow> ('s, NodeStop, 'y) fallible" where
  "match_result m f g s =
     (case m s of
        (Inr x, s') \<Rightarrow> f x s'
      | (Inl stop, s') \<Rightarrow> (case stop of Raised e \<Rightarrow> g e s' | _ \<Rightarrow> (Inl stop, s')))"

definition read_instant :: "NodeEnv \<Rightarrow> ('z NodeWorld_scheme, NodeStop, int) fallible" where
  "read_instant E w = (Inr (ev_instant E (nw_instants w)), w\<lparr>nw_instants := Suc (nw_instants w)\<rparr>)"

definition read_utc :: "NodeEnv \<Rightarrow> ('z NodeWorld_scheme, NodeStop, int) fallible" where
  "read_utc E w = (Inr (ev_utc E (nw_slept w) (nw_utcs w)), w\<lparr>nw_utcs := Suc (nw_utcs w)\<rparr>)"

definition sleep :: "Duration \<Rightarrow> ('z NodeWorld_scheme, NodeStop, unit) fallible" where
  "sleep d w = (Inr (), w\<lparr>nw_slept := nw_slept w + d\<rparr>)"

text \<open>\<open>Instant::elapsed\<close> never goes below zero.\<close>

definition elapsed :: "int \<Rightarrow> int \<Rightarrow> Duration" where
  "elapsed earlier now = max 0 (now - earlier)"

definition rfc3339_now :: "NodeEnv \<Rightarrow> ('z NodeWorld_scheme, NodeStop, string) fallible" where
  "rfc3339_now E = bind (read_utc E) (\<lambda>t. ok (ev_rfc3339 E t))"

text \<open>
  \<open>timeout(limit, m).await\<close>: the future runs to its end, or is dropped at one of its requests; then the
  error is \<open>late\<close>.
\<close>

definition with_timeout :: "NodeEnv \<Rightarrow> NodeStop \<Rightarrow> ('z NodeWorld_scheme, NodeStop, 'x) fallible \<Rightarrow> ('z NodeWorld_scheme, NodeStop, 'x) fallible" where
  "with_timeout E late m w =
     (case m (w\<lparr>nw_timeouts := Suc (nw_timeouts w), nw_cut := ev_drop E (nw_timeouts w)\<rparr>) of
        (r, w') \<Rightarrow> (case r of Inl Dropped \<Rightarrow> Inl late | _ \<Rightarrow> r, w'\<lparr>nw_cut := None\<rparr>))"

section \<open>The cache\<close>

definition TimedValueCache_new :: "Duration \<Rightarrow> u64 \<Rightarrow> TimedValueCache" where
  "TimedValueCache_new ttl capacity = \<lparr>tc_ttl = ttl, tc_capacity = capacity, tc_entries = []\<rparr>"

definition cache_get :: "NodeEnv \<Rightarrow> TimedValueCache \<Rightarrow> string \<Rightarrow> ('z NodeWorld_scheme, NodeStop, Value option) fallible" where
  "cache_get E c key =
     (case map_of (tc_entries c) key of
        None \<Rightarrow> ok None
      | Some entry \<Rightarrow>
          bind (read_instant E) (\<lambda>now.
          ok (if elapsed (cv_inserted_at entry) now \<le> tc_ttl c then Some (cv_value entry) else None)))"

text \<open>
  The map iterates in an order of its own; \<open>ev_evict\<close> says which entry \<open>keys().next()\<close> is.
\<close>

definition evict_one :: "NodeEnv \<Rightarrow> (string \<times> CachedValue) list \<Rightarrow> (string \<times> CachedValue) list" where
  "evict_one E es =
     (if es = [] then es
      else let victim = fst (es ! (ev_evict E es mod length es)) in filter (\<lambda>e. fst e \<noteq> victim) es)"

definition cache_put :: "NodeEnv \<Rightarrow> string \<Rightarrow> CachedValue \<Rightarrow> TimedValueCache \<Rightarrow> TimedValueCache" where
  "cache_put E key v c =
     (let es = (if uint (tc_capacity c) \<le> int (length (tc_entries c)) then evict_one E (tc_entries c) else tc_entries c) in
      c\<lparr>tc_entries := (key, v) # filter (\<lambda>e. fst e \<noteq> key) es\<rparr>)"

definition cache_insert :: "NodeEnv \<Rightarrow> TimedValueCache \<Rightarrow> string \<Rightarrow> Value \<Rightarrow> ('z NodeWorld_scheme, NodeStop, TimedValueCache) fallible" where
  "cache_insert E c key v =
     (if tc_capacity c = 0 then ok c
      else bind (read_instant E) (\<lambda>now. ok (cache_put E key \<lparr>cv_inserted_at = now, cv_value = v\<rparr> c)))"

section \<open>One call\<close>

definition map_rpc_error_code :: "string \<Rightarrow> NodeErrorCode" where
  "map_rpc_error_code text =
     (let lower = to_ascii_lowercase text in
      if contains lower ''expired'' then E_TransactionExpired
      else if contains lower ''sequence'' \<and> (contains lower ''too old'' \<or> contains lower ''stale'') then E_SequenceNumberStale
      else if contains lower ''may have reached the endpoint'' \<or> contains lower ''timed out after submission''
      then E_SubmissionUnknown
      else if contains lower ''connection'' \<or> contains lower ''unavailable'' then E_NodeUnavailable
      else E_SubmissionFailed)"

definition rpc_failure_error :: "string \<Rightarrow> RpcFailure \<Rightarrow> NodeError" where
  "rpc_failure_error method f =
     (if rf_code f = - 32601
      then NodeError_new E_UnsupportedOperation (''rpc method '' @ method @ '' is not available'')
      else
        let c = map_rpc_error_code (rf_message f) in
        NodeError_with_details
          (if c \<in> {E_NodeUnavailable, E_RpcUnavailable, E_SubmissionUnknown}
           then NodeError_retryable c (rf_message f) else NodeError_new c (rf_message f))
          (VObject [(''rpc_code'', json_i64 (rf_code f)), (''rpc_data'', json_opt id (rf_data f)), (''method'', VString method)]))"

definition interpret_answer :: "NodeEnv \<Rightarrow> (Value \<Rightarrow> string + 'x) \<Rightarrow> string \<Rightarrow> HttpOutcome \<Rightarrow> 'x noded" where
  "interpret_answer E decode method out =
     (case out of
        NotSent t \<Rightarrow> Inl (NodeError_retryable E_NodeUnavailable (''failed to reach rpc endpoint: '' @ t))
      | BodyLost t \<Rightarrow> Inl (NodeError_retryable E_RpcUnavailable (''failed to read rpc response body: '' @ t))
      | Answered code_number code_text body \<Rightarrow>
          if code_number < 200 \<or> 300 \<le> code_number
          then Inl (NodeError_with_details
                 (NodeError_retryable E_RpcUnavailable (''rpc endpoint returned HTTP status '' @ code_text))
                 (VObject [(''body'', VString body)]))
          else
            (case ev_envelope E body of
               Inl t \<Rightarrow> Inl (NodeError_with_details (NodeError_new E_RpcUnavailable (''invalid rpc response envelope: '' @ t))
                        (VObject [(''body'', VString body)]))
             | Inr envelope \<Rightarrow>
                 (case re_error envelope of
                    Some f \<Rightarrow> Inl (rpc_failure_error method f)
                  | None \<Rightarrow>
                      (case decode (re_result envelope) of
                         Inl t \<Rightarrow> Inl (NodeError_with_details (NodeError_new E_RpcUnavailable (''invalid rpc result payload: '' @ t))
                                  (VObject [(''body'', VString body), (''method'', VString method)]))
                       | Inr x \<Rightarrow> Inr x))))"

definition rpc_call :: "NodeEnv \<Rightarrow> (Value \<Rightarrow> string + 'x) \<Rightarrow> string \<Rightarrow> Value \<Rightarrow> ('z, 'x) rpc_run" where
  "rpc_call E decode method params s =
     (let req = \<lparr>rq_id = rp_next_id s, rq_method = method, rq_params = params\<rparr>;
          s' = s\<lparr>rp_next_id := rp_next_id s + 1, nw_sent := req # nw_sent s\<rparr> in
      case nw_cut s of
        Some 0 \<Rightarrow> (Inl Dropped, s')
      | left \<Rightarrow>
          (case interpret_answer E decode method (ev_http E (nw_sent s) req) of Inl e \<Rightarrow> Inl (Raised e) | Inr x \<Rightarrow> Inr x,
           s'\<lparr>nw_cut := map_option (\<lambda>n. n - 1) left\<rparr>))"

text \<open>The types a result is decoded to.\<close>

definition decode_value :: "Value \<Rightarrow> string + Value" where
  "decode_value v = Inr v"

definition decode_option :: "Value \<Rightarrow> string + Value option" where
  "decode_option v = Inr (if v = VNull then None else Some v)"

definition decode_vec :: "NodeEnv \<Rightarrow> Value \<Rightarrow> string + Value list" where
  "decode_vec E v = (case v of VArray vs \<Rightarrow> Inr vs | _ \<Rightarrow> Inl (ev_type_error E v))"

definition decode_bool :: "NodeEnv \<Rightarrow> Value \<Rightarrow> string + bool" where
  "decode_bool E v = (case v of VBool b \<Rightarrow> Inr b | _ \<Rightarrow> Inl (ev_type_error E v))"

definition call_value :: "NodeEnv \<Rightarrow> string \<Rightarrow> Value \<Rightarrow> ('z, Value) rpc_run" where
  "call_value E = rpc_call E decode_value"

definition optional_call_value :: "NodeEnv \<Rightarrow> string \<Rightarrow> Value \<Rightarrow> ('z, Value option) rpc_run" where
  "optional_call_value E method params =
     match_result (rpc_call E decode_option method params) ok
       (\<lambda>e. if ne_code e = E_UnsupportedOperation then ok None else raise e)"

text \<open>
  \<open>call_first_available_value\<close>, \<open>call_first_available\<close> and \<open>call_first_available_vec\<close> differ in the type
  they decode to.
\<close>

fun first_available :: "NodeEnv \<Rightarrow> (Value \<Rightarrow> string + 'x) \<Rightarrow> string list \<Rightarrow> string list \<Rightarrow> Value \<Rightarrow> ('z, 'x) rpc_run" where
  "first_available E decode candidates [] params =
     raise (NodeError_new E_UnsupportedOperation
       (''none of the candidate rpc methods are available: '' @ join '', '' candidates))"
| "first_available E decode candidates (method # methods) params =
     match_result (rpc_call E decode method params) ok
       (\<lambda>e. if ne_code e = E_UnsupportedOperation then first_available E decode candidates methods params else raise e)"

definition call_first_available_value :: "NodeEnv \<Rightarrow> string list \<Rightarrow> Value \<Rightarrow> ('z, Value) rpc_run" where
  "call_first_available_value E methods = first_available E decode_value methods methods"

definition call_first_available :: "NodeEnv \<Rightarrow> string list \<Rightarrow> Value \<Rightarrow> ('z, Value option) rpc_run" where
  "call_first_available E methods = first_available E decode_option methods methods"

definition call_first_available_vec :: "NodeEnv \<Rightarrow> string list \<Rightarrow> Value \<Rightarrow> ('z, Value list) rpc_run" where
  "call_first_available_vec E methods = first_available E (decode_vec E) methods methods"

definition transaction_methods :: "VmProfile \<Rightarrow> string \<Rightarrow> string \<Rightarrow> string list" where
  "transaction_methods p preferred fallback =
     (case p of Vm2Only \<Rightarrow> [preferred] | Vm1Only \<Rightarrow> [fallback] | VmAuto \<Rightarrow> [preferred, fallback])"

text \<open>A computation that looks at the profile of the client.\<close>

definition with_profile :: "(VmProfile \<Rightarrow> ('z, 'x) rpc_run) \<Rightarrow> ('z, 'x) rpc_run" where
  "with_profile f s = f (rp_vm_profile s) s"

definition cached_value :: "NodeEnv \<Rightarrow> ('z NodeRpcClient_scheme \<Rightarrow> TimedValueCache) \<Rightarrow>
    ((TimedValueCache \<Rightarrow> TimedValueCache) \<Rightarrow> 'z NodeRpcClient_scheme \<Rightarrow> 'z NodeRpcClient_scheme) \<Rightarrow>
    string \<Rightarrow> ('z, Value) rpc_run \<Rightarrow> ('z, Value) rpc_run" where
  "cached_value E sel upd key loader =
     bind (\<lambda>s. cache_get E (sel s) key s) (\<lambda>hit.
     case hit of
       Some v \<Rightarrow> ok v
     | None \<Rightarrow>
         bind loader (\<lambda>v.
         bind (\<lambda>s. cache_insert E (sel s) key v s) (\<lambda>c s. (Inr v, upd (\<lambda>_. c) s))))"

section \<open>Methods\<close>

definition node_info :: "NodeEnv \<Rightarrow> ('z, Value) rpc_run" where
  "node_info E = call_value E ''node.info'' (VArray [])"

definition node_peers :: "NodeEnv \<Rightarrow> ('z, Value option) rpc_run" where
  "node_peers E = optional_call_value E ''node.peers'' (VArray [])"

definition sync_status :: "NodeEnv \<Rightarrow> ('z, Value option) rpc_run" where
  "sync_status E = optional_call_value E ''sync.status'' (VArray [])"

definition txpool_state :: "NodeEnv \<Rightarrow> ('z, Value option) rpc_run" where
  "txpool_state E = optional_call_value E ''txpool.state'' (VArray [])"

definition chain_info_uncached :: "NodeEnv \<Rightarrow> ('z, Value) rpc_run" where
  "chain_info_uncached E = call_value E ''chain.info'' (VArray [])"

definition chain_info :: "NodeEnv \<Rightarrow> ('z, Value) rpc_run" where
  "chain_info E = cached_value E rp_chain_info_cache rp_chain_info_cache_update ''chain.info'' (chain_info_uncached E)"

definition rpc_get_block :: "NodeEnv \<Rightarrow> string option \<Rightarrow> u64 option \<Rightarrow> bool \<Rightarrow> bool \<Rightarrow> ('z, Value option) rpc_run" where
  "rpc_get_block E block_hash block_number decode include_raw =
     (let option = VObject [(''decode'', VBool decode), (''raw'', VBool include_raw)] in
      case (block_hash, block_number) of
        (Some h, None) \<Rightarrow> rpc_call E decode_option ''chain.get_block_by_hash'' (VArray [VString h, option])
      | (None, Some n) \<Rightarrow> rpc_call E decode_option ''chain.get_block_by_number'' (VArray [json_u64 n, option])
      | _ \<Rightarrow> raise (NodeError_new E_UnsupportedOperation ''get_block requires exactly one of block_hash or block_number''))"

definition rpc_list_blocks :: "NodeEnv \<Rightarrow> u64 option \<Rightarrow> u64 \<Rightarrow> bool \<Rightarrow> ('z, Value list) rpc_run" where
  "rpc_list_blocks E from_block n reversed =
     rpc_call E (decode_vec E) ''chain.get_blocks_by_number''
       (VArray [json_opt json_u64 from_block, json_u64 n,
                VObject [(''reverse'', VBool reversed), (''decode'', VBool True), (''raw'', VBool False)]])"

definition rpc_get_transaction :: "NodeEnv \<Rightarrow> string \<Rightarrow> bool \<Rightarrow> ('z, Value option) rpc_run" where
  "rpc_get_transaction E txn_hash decode =
     with_profile (\<lambda>p. call_first_available E (transaction_methods p ''chain.get_transaction2'' ''chain.get_transaction'')
       (VArray [VString txn_hash, VObject [(''decode'', VBool decode)]]))"

definition rpc_get_transaction_info :: "NodeEnv \<Rightarrow> string \<Rightarrow> ('z, Value option) rpc_run" where
  "rpc_get_transaction_info E txn_hash =
     with_profile (\<lambda>p. call_first_available E (transaction_methods p ''chain.get_transaction_info2'' ''chain.get_transaction_info'')
       (VArray [VString txn_hash]))"

definition rpc_get_events_by_txn_hash :: "NodeEnv \<Rightarrow> string \<Rightarrow> bool \<Rightarrow> ('z, Value list) rpc_run" where
  "rpc_get_events_by_txn_hash E txn_hash decode =
     with_profile (\<lambda>p. call_first_available_vec E
       (transaction_methods p ''chain.get_events_by_txn_hash2'' ''chain.get_events_by_txn_hash'')
       (VArray [VString txn_hash, VObject [(''decode'', VBool decode)]]))"

definition rpc_get_events :: "NodeEnv \<Rightarrow> GetEventsInput \<Rightarrow> u64 \<Rightarrow> ('z, Value list) rpc_run" where
  "rpc_get_events E input limit =
     rpc_call E (decode_vec E) ''chain.get_events''
       (VArray [VObject [(''from_block'', json_opt json_u64 (gv_from_block input)), (''to_block'', json_opt json_u64 (gv_to_block input)),
                         (''event_keys'', json_strings (gv_event_keys input)), (''addrs'', json_strings (gv_addresses input)),
                         (''type_tags'', json_strings (gv_type_tags input))],
                VObject [(''limit'', json_u64 limit), (''decode'', VBool (gv_decode input))]])"

subsection \<open>Resources\<close>

definition PRIMARY_FUNGIBLE_STORE_STRUCT_TAG :: string where
  "PRIMARY_FUNGIBLE_STORE_STRUCT_TAG = ''0x00000000000000000000000000000001::fungible_asset::FungibleStore''"

definition ACCOUNT_RESOURCE_TYPE :: string where
  "ACCOUNT_RESOURCE_TYPE = ''0x1::account::Account''"

definition resource_types_json :: "string list \<Rightarrow> Value" where
  "resource_types_json types = (if types = [] then VNull else json_strings types)"

definition legacy_list_resources_params :: "string \<Rightarrow> bool \<Rightarrow> u64 \<Rightarrow> u64 \<Rightarrow> string option \<Rightarrow> string list \<Rightarrow> Value" where
  "legacy_list_resources_params address decode start_index max_size state_root types =
     VArray [VString address,
       VObject [(''decode'', VBool decode), (''state_root'', json_opt VString state_root), (''start_index'', json_u64 start_index),
                (''max_size'', json_u64 max_size), (''resource_types'', resource_types_json types)]]"

definition vm2_list_resources_params :: "string \<Rightarrow> bool \<Rightarrow> u64 \<Rightarrow> u64 \<Rightarrow> string option \<Rightarrow> string list \<Rightarrow> Value" where
  "vm2_list_resources_params address decode start_index max_size state_root types =
     VArray [VString address,
       VObject [(''decode'', VBool decode), (''state_root'', json_opt VString state_root), (''start_index'', json_u64 start_index),
                (''max_size'', json_u64 max_size), (''resource_types'', resource_types_json types),
                (''primary_fungible_store'', VObject [])]]"

definition list_code_params :: "string \<Rightarrow> bool \<Rightarrow> string option \<Rightarrow> Value" where
  "list_code_params address resolve state_root =
     VArray [VString address, VObject [(''resolve'', VBool resolve), (''state_root'', json_opt VString state_root)]]"

definition vm2_get_resource_params :: "string \<Rightarrow> string \<Rightarrow> bool \<Rightarrow> string option \<Rightarrow> bool \<Rightarrow> Value" where
  "vm2_get_resource_params address resource_type decode state_root include_primary =
     VArray [VString address, VString resource_type,
       VObject [(''decode'', VBool decode), (''state_root'', json_opt VString state_root),
                (''primary_fungible_store'', if include_primary then VObject [] else VNull)]]"

definition validate_list_resources_response :: "Value \<Rightarrow> unit noded" where
  "validate_list_resources_response resources =
     (case json_get ''resources'' resources of
        Some (VObject _) \<Rightarrow> Inr ()
      | Some (VArray _) \<Rightarrow> Inr ()
      | _ \<Rightarrow> Inl (NodeError_new E_RpcUnavailable ''state2.list_resource returned a malformed resources envelope''))"

definition account_sequence :: "Value \<Rightarrow> u64 option" where
  "account_sequence resource =
     Option.bind (Option.bind (json_get ''json'' resource) (json_get ''sequence_number'')) json_parse_u64"

definition extract_sequence_number_from_object_entries :: "(string \<times> Value) list \<Rightarrow> u64 option" where
  "extract_sequence_number_from_object_entries entries =
     (case find (\<lambda>(name, _). contains name ''::account::Account'') entries of
        None \<Rightarrow> None
      | Some (_, resource) \<Rightarrow> account_sequence resource)"

definition extract_sequence_number_from_array_entries :: "Value list \<Rightarrow> u64 option" where
  "extract_sequence_number_from_array_entries entries =
     (case find (\<lambda>r. case Option.bind (json_get ''name'' r) as_str of
                        None \<Rightarrow> False | Some name \<Rightarrow> contains name ''::account::Account'') entries of
        None \<Rightarrow> None
      | Some resource \<Rightarrow> account_sequence (unwrap_or (json_get ''value'' resource) resource))"

definition sequence_summary :: "u64 option \<Rightarrow> Value option" where
  "sequence_summary n = map_option (\<lambda>v. VObject [(''sequence_number'', json_u64 v)]) n"

definition synthesize_account_state_from_resources :: "Value \<Rightarrow> Value option" where
  "synthesize_account_state_from_resources resources =
     (case json_get ''resources'' resources of
        Some (VObject entries) \<Rightarrow>
          if entries = [] then None else sequence_summary (extract_sequence_number_from_object_entries entries)
      | Some (VArray entries) \<Rightarrow>
          if entries = [] then None else sequence_summary (extract_sequence_number_from_array_entries entries)
      | _ \<Rightarrow> None)"

definition resource_entries_are_non_empty :: "Value \<Rightarrow> bool" where
  "resource_entries_are_non_empty v =
     (case json_get ''resources'' v of
        Some (VObject entries) \<Rightarrow> entries \<noteq> []
      | Some (VArray entries) \<Rightarrow> entries \<noteq> []
      | _ \<Rightarrow> False)"

definition list_resources_via_vm2 :: "NodeEnv \<Rightarrow> string \<Rightarrow> bool \<Rightarrow> u64 \<Rightarrow> u64 \<Rightarrow> string option \<Rightarrow> string list \<Rightarrow> ('z, Value) rpc_run" where
  "list_resources_via_vm2 E address decode start_index max_size state_root types =
     bind (call_value E ''state2.list_resource'' (vm2_list_resources_params address decode start_index max_size state_root types)) (\<lambda>v.
     bind (tried (validate_list_resources_response v)) (\<lambda>_. ok v))"

definition rpc_list_resources :: "NodeEnv \<Rightarrow> string \<Rightarrow> bool \<Rightarrow> u64 \<Rightarrow> u64 \<Rightarrow> string option \<Rightarrow> string list \<Rightarrow> ('z, Value) rpc_run" where
  "rpc_list_resources E address decode start_index max_size state_root types =
     with_profile (\<lambda>p.
       let vm2 = list_resources_via_vm2 E address decode start_index max_size state_root types;
           legacy = call_value E ''state.list_resource''
             (legacy_list_resources_params address decode start_index max_size state_root types) in
       if p = Vm2Only then vm2
       else if p = Vm1Only then legacy
       else match_result legacy
              (\<lambda>v. if resource_entries_are_non_empty v then ok v
                   else match_result vm2 ok (\<lambda>e. if ne_code e = E_UnsupportedOperation then ok v else raise e))
              (\<lambda>e. if ne_code e = E_UnsupportedOperation then vm2 else raise e))"

definition rpc_list_code :: "NodeEnv \<Rightarrow> string \<Rightarrow> bool \<Rightarrow> string option \<Rightarrow> ('z, Value) rpc_run" where
  "rpc_list_code E address resolve state_root =
     with_profile (\<lambda>p. call_value E (if p = Vm2Only then ''state2.list_code'' else ''state.list_code'')
       (list_code_params address resolve state_root))"

definition account_state_from_vm2_resources :: "NodeEnv \<Rightarrow> string \<Rightarrow> ('z, Value option) rpc_run" where
  "account_state_from_vm2_resources E address =
     bind (list_resources_via_vm2 E address True 0 32 None []) (\<lambda>resources.
     ok (synthesize_account_state_from_resources resources))"

definition account_state_from_resource_listing :: "NodeEnv \<Rightarrow> string \<Rightarrow> ('z, Value option) rpc_run" where
  "account_state_from_resource_listing E address =
     bind (rpc_list_resources E address True 0 20 None [ACCOUNT_RESOURCE_TYPE]) (\<lambda>resources.
     ok (synthesize_account_state_from_resources resources))"

definition legacy_account_state_has_sequence_number :: "Value \<Rightarrow> bool" where
  "legacy_account_state_has_sequence_number state \<longleftrightarrow>
     Option.bind (json_get ''sequence_number'' state) json_parse_u64 \<noteq> None"

definition merge_account_state_summary :: "Value \<Rightarrow> Value \<Rightarrow> Value" where
  "merge_account_state_summary state repair =
     (case (as_object state, as_object repair) of
        (Some ms, Some rs) \<Rightarrow>
          VObject (foldl (\<lambda>acc (k, v). if v = VNull then acc else object_insert k v acc) ms rs)
      | _ \<Rightarrow> if repair \<noteq> VNull then repair else state)"

definition rpc_get_account_state :: "NodeEnv \<Rightarrow> string \<Rightarrow> ('z, Value option) rpc_run" where
  "rpc_get_account_state E address =
     with_profile (\<lambda>p.
       if p = Vm2Only then account_state_from_vm2_resources E address
       else match_result (rpc_call E decode_option ''state.get_account_state'' (VArray [VString address]))
              (\<lambda>answer.
                case answer of
                  Some state \<Rightarrow>
                    if legacy_account_state_has_sequence_number state then ok (Some state)
                    else match_result (account_state_from_resource_listing E address)
                           (\<lambda>vm2. ok (Some (case vm2 of None \<Rightarrow> state | Some v \<Rightarrow> merge_account_state_summary state v)))
                           (\<lambda>e. if ne_code e = E_UnsupportedOperation then ok (Some state) else raise e)
                | None \<Rightarrow>
                    match_result (account_state_from_resource_listing E address) ok
                      (\<lambda>e. if ne_code e = E_UnsupportedOperation then ok None else raise e))
              (\<lambda>e. if ne_code e = E_UnsupportedOperation then account_state_from_resource_listing E address else raise e))"

definition rpc_get_state_root :: "NodeEnv \<Rightarrow> ('z, Value) rpc_run" where
  "rpc_get_state_root E =
     with_profile (\<lambda>p. call_value E (if p = Vm2Only then ''state2.get_state_root'' else ''state.get_state_root'') (VArray []))"

definition get_primary_stc_balance_resource :: "NodeEnv \<Rightarrow> string \<Rightarrow> ('z, Value option) rpc_run" where
  "get_primary_stc_balance_resource E address =
     with_profile (\<lambda>p.
       if p = Vm1Only then ok None
       else match_result (rpc_call E decode_option ''state2.get_resource''
              (vm2_get_resource_params address PRIMARY_FUNGIBLE_STORE_STRUCT_TAG True None True)) ok
              (\<lambda>e. if ne_code e = E_UnsupportedOperation then ok None else raise e))"

subsection \<open>Interfaces of contracts\<close>

definition resolve_abi :: "NodeEnv \<Rightarrow> string \<Rightarrow> string \<Rightarrow> string \<Rightarrow> string \<Rightarrow> ('z, Value) rpc_run" where
  "resolve_abi E what preferred fallback name =
     cached_value E rp_abi_cache rp_abi_cache_update (what @ '':'' @ name)
       (with_profile (\<lambda>p. call_first_available_value E (transaction_methods p preferred fallback) (VArray [VString name])))"

definition rpc_resolve_function_abi :: "NodeEnv \<Rightarrow> string \<Rightarrow> ('z, Value) rpc_run" where
  "rpc_resolve_function_abi E = resolve_abi E ''function'' ''contract2.resolve_function'' ''contract.resolve_function''"

definition rpc_resolve_struct_abi :: "NodeEnv \<Rightarrow> string \<Rightarrow> ('z, Value) rpc_run" where
  "rpc_resolve_struct_abi E = resolve_abi E ''struct'' ''contract2.resolve_struct'' ''contract.resolve_struct''"

definition rpc_resolve_module_abi :: "NodeEnv \<Rightarrow> string \<Rightarrow> ('z, Value) rpc_run" where
  "rpc_resolve_module_abi E = resolve_abi E ''module'' ''contract2.resolve_module'' ''contract.resolve_module''"

definition rpc_call_view_function :: "NodeEnv \<Rightarrow> string \<Rightarrow> string list \<Rightarrow> string list \<Rightarrow> ('z, Value list) rpc_run" where
  "rpc_call_view_function E function_id type_args args =
     with_profile (\<lambda>p. call_first_available_vec E (transaction_methods p ''contract2.call_v2'' ''contract.call_v2'')
       (VArray [VObject [(''function_id'', VString function_id), (''type_args'', json_strings type_args), (''args'', json_strings args)]]))"

subsection \<open>The transaction pool\<close>

definition rpc_gas_price :: "NodeEnv \<Rightarrow> ('z, u64) rpc_run" where
  "rpc_gas_price E =
     bind (call_value E ''txpool.gas_price'' (VArray [])) (\<lambda>v.
     tried (opt_ok_or (json_parse_u64 v) (NodeError_new E_RpcUnavailable ''txpool.gas_price returned an invalid value'')))"

definition next_sequence_number :: "NodeEnv \<Rightarrow> string \<Rightarrow> ('z, u64 option) rpc_run" where
  "next_sequence_number E address =
     bind (with_profile (\<lambda>p. call_first_available E
            (transaction_methods p ''txpool.next_sequence_number2'' ''txpool.next_sequence_number'') (VArray [VString address]))) (\<lambda>v.
     ok (Option.bind v json_parse_u64))"

definition dry_run_raw :: "NodeEnv \<Rightarrow> string \<Rightarrow> string \<Rightarrow> ('z, Value) rpc_run" where
  "dry_run_raw E raw_hex sender_public_key =
     with_profile (\<lambda>p. call_first_available_value E (transaction_methods p ''contract2.dry_run_raw'' ''contract.dry_run_raw'')
       (VArray [VString raw_hex, VString sender_public_key]))"

definition extract_submission_hash :: "Value \<Rightarrow> string noded" where
  "extract_submission_hash v =
     opt_ok_or (as_str v) (NodeError_new E_RpcUnavailable ''submission RPC returned an invalid transaction hash'')"

definition submit_methods :: "VmProfile \<Rightarrow> string list" where
  "submit_methods p = transaction_methods p ''txpool.submit_hex_transaction2'' ''txpool.submit_hex_transaction''"

definition rpc_submit_signed_transaction :: "NodeEnv \<Rightarrow> string \<Rightarrow> ('z, string) rpc_run" where
  "rpc_submit_signed_transaction E signed_hex =
     bind (with_profile (\<lambda>p. call_first_available_value E (submit_methods p) (VArray [VString signed_hex]))) (\<lambda>v.
     tried (extract_submission_hash v))"

definition method_exists :: "NodeEnv \<Rightarrow> string \<Rightarrow> Value \<Rightarrow> ('z, bool) rpc_run" where
  "method_exists E method params =
     match_result (call_value E method params) (\<lambda>_. ok True)
       (\<lambda>e. if ne_code e = E_UnsupportedOperation then ok False else raise e)"

end
