(* ===== verification/Node_Core.thy ===== *)
theory Node_Core
  imports Node_Rpc
begin

text \<open>
  The runtime of the node client: probing the endpoint (\<open>starcoin-node-rpc/src/probe.rs\<close>), the state
  \<open>AppContext\<close> (\<open>starcoin-node-core/src/lib.rs\<close>), starting it and checking the endpoint
  (\<open>bootstrap.rs\<close>), and the records it keeps of prepared and of unresolved transactions
  (\<open>submission.rs\<close>). One operation runs at a time, as in the command-line program.
\<close>

section \<open>Probing\<close>

text \<open>\<open>Value::as_i64\<close> of a number.\<close>

fun as_i64 :: "Value \<Rightarrow> int option" where
  "as_i64 (VNumber (CHR ''-'' # ds)) =
     (case parse_u64 ds of
        Some n \<Rightarrow> if 0 < uint n \<and> uint n \<le> 2 ^ 63 then Some (- uint n) else None
      | None \<Rightarrow> None)"
| "as_i64 (VNumber ds) =
     (case parse_u64 ds of Some n \<Rightarrow> if uint n < 2 ^ 63 then Some (uint n) else None | None \<Rightarrow> None)"
| "as_i64 _ = None"

definition is_invalid_params_error :: "NodeError \<Rightarrow> bool" where
  "is_invalid_params_error e \<longleftrightarrow>
     Option.bind (Option.bind (ne_details e) (json_get ''rpc_code'')) as_i64 = Some (- 32602)"

definition probe_method_supported :: "NodeEnv \<Rightarrow> string \<Rightarrow> Value \<Rightarrow> ('z, bool) rpc_run" where
  "probe_method_supported E method params =
     match_result (call_value E method params) (\<lambda>_. ok True)
       (\<lambda>e. if ne_code e = E_UnsupportedOperation then ok False
            else if ne_retryable e then raise e
            else ok (is_invalid_params_error e))"

fun supports_any_method :: "NodeEnv \<Rightarrow> string list \<Rightarrow> Value \<Rightarrow> ('z, bool) rpc_run" where
  "supports_any_method E [] params = ok False"
| "supports_any_method E (method # methods) params =
     bind (probe_method_supported E method params) (\<lambda>supported.
     if supported then ok True else supports_any_method E methods params)"

definition supports_either :: "NodeEnv \<Rightarrow> string \<Rightarrow> string \<Rightarrow> Value \<Rightarrow> ('z, bool) rpc_run" where
  "supports_either E preferred fallback params =
     with_profile (\<lambda>p. supports_any_method E (transaction_methods p preferred fallback) params)"

definition ZERO_HASH :: string where
  "ZERO_HASH = ''0x0000000000000000000000000000000000000000000000000000000000000000''"

definition ZERO_ADDRESS :: string where
  "ZERO_ADDRESS = ''0x00000000000000000000000000000000''"

definition decode_true :: Value where
  "decode_true = VObject [(''decode'', VBool True)]"

definition probe_block_listing :: "NodeEnv \<Rightarrow> ('z, bool) rpc_run" where
  "probe_block_listing E = probe_method_supported E ''chain.get_blocks_by_number''
     (VArray [VNull, json_u64 1, VObject [(''reverse'', VBool False), (''decode'', VBool True), (''raw'', VBool False)]])"

definition probe_transaction_lookup :: "NodeEnv \<Rightarrow> ('z, bool) rpc_run" where
  "probe_transaction_lookup E =
     supports_either E ''chain.get_transaction2'' ''chain.get_transaction'' (VArray [VString ZERO_HASH, decode_true])"

definition probe_transaction_info_lookup :: "NodeEnv \<Rightarrow> ('z, bool) rpc_run" where
  "probe_transaction_info_lookup E =
     supports_either E ''chain.get_transaction_info2'' ''chain.get_transaction_info'' (VArray [VString ZERO_HASH])"

definition probe_transaction_events_by_hash :: "NodeEnv \<Rightarrow> ('z, bool) rpc_run" where
  "probe_transaction_events_by_hash E =
     supports_either E ''chain.get_events_by_txn_hash2'' ''chain.get_events_by_txn_hash'' (VArray [VString ZERO_HASH, decode_true])"

definition probe_account_state_lookup :: "NodeEnv \<Rightarrow> ('z, bool) rpc_run" where
  "probe_account_state_lookup E = with_profile (\<lambda>p.
     if p = Vm2Only
     then probe_method_supported E ''state2.list_resource'' (vm2_list_resources_params ZERO_ADDRESS True 0 1 None [])
     else probe_method_supported E ''state.get_account_state'' (VArray [VString ZERO_ADDRESS]))"

definition probe_events_query :: "NodeEnv \<Rightarrow> ('z, bool) rpc_run" where
  "probe_events_query E = probe_method_supported E ''chain.get_events''
     (VArray [VObject [], VObject [(''limit'', json_u64 1), (''decode'', VBool True)]])"

definition probe_resource_listing :: "NodeEnv \<Rightarrow> ('z, bool) rpc_run" where
  "probe_resource_listing E = with_profile (\<lambda>p.
     if p = Vm2Only
     then probe_method_supported E ''state2.list_resource'' (vm2_list_resources_params ZERO_ADDRESS True 0 1 None [])
     else probe_method_supported E ''state.list_resource''
       (VArray [VString ZERO_ADDRESS,
                VObject [(''decode'', VBool True), (''start_index'', json_u64 0), (''max_size'', json_u64 1)]]))"

definition probe_module_listing :: "NodeEnv \<Rightarrow> ('z, bool) rpc_run" where
  "probe_module_listing E = with_profile (\<lambda>p.
     if p = Vm2Only then probe_method_supported E ''state2.list_code'' (list_code_params ZERO_ADDRESS True None)
     else probe_method_supported E ''state.list_code'' (VArray [VString ZERO_ADDRESS, VObject [(''resolve'', VBool True)]]))"

definition probe_abi_resolution :: "NodeEnv \<Rightarrow> ('z, bool) rpc_run" where
  "probe_abi_resolution E =
     bind (supports_either E ''contract2.resolve_function'' ''contract.resolve_function'' (VArray [VString ''0x1::Account::balance''])) (\<lambda>f.
     bind (supports_either E ''contract2.resolve_module'' ''contract.resolve_module'' (VArray [VString ''0x1::Account''])) (\<lambda>m.
     bind (supports_either E ''contract2.resolve_struct'' ''contract.resolve_struct'' (VArray [VString ''0x1::Account::Account''])) (\<lambda>s.
     ok (f \<and> m \<and> s))))"

definition probe_view_call :: "NodeEnv \<Rightarrow> ('z, bool) rpc_run" where
  "probe_view_call E =
     supports_either E ''contract2.call_v2'' ''contract.call_v2''
       (VArray [VObject [(''function_id'', VString ''0x1::Account::balance''), (''type_args'', VArray []), (''args'', VArray [])]])"

definition probe_submission :: "NodeEnv \<Rightarrow> ('z, bool) rpc_run" where
  "probe_submission E =
     bind (probe_method_supported E ''txpool.gas_price'' (VArray [])) (\<lambda>g.
     bind (supports_either E ''txpool.next_sequence_number2'' ''txpool.next_sequence_number'' (VArray [VString ZERO_ADDRESS])) (\<lambda>n.
     bind (supports_either E ''txpool.submit_hex_transaction2'' ''txpool.submit_hex_transaction'' (VArray [])) (\<lambda>t.
     ok (g \<and> n \<and> t))))"

definition probe_raw_dry_run :: "NodeEnv \<Rightarrow> ('z, bool) rpc_run" where
  "probe_raw_dry_run E =
     supports_either E ''contract2.dry_run_raw'' ''contract.dry_run_raw'' (VArray [VString ''0x00'', VString ''0x00''])"

definition probe :: "NodeEnv \<Rightarrow> bool \<Rightarrow> ('z, EffectiveProbe) rpc_run" where
  "probe E mode_transaction =
     bind (rpc_call E (decode_bool E) ''node.status'' (VArray [])) (\<lambda>_.
     bind (chain_info_uncached E) (\<lambda>_.
     bind (node_info E) (\<lambda>_.
     bind (probe_method_supported E ''chain.get_block_by_number'' (VArray [json_u64 0, VNull])) (\<lambda>block.
     bind (probe_block_listing E) (\<lambda>blocks.
     bind (probe_transaction_lookup E) (\<lambda>txn.
     bind (probe_transaction_info_lookup E) (\<lambda>info.
     bind (probe_transaction_events_by_hash E) (\<lambda>txn_events.
     bind (probe_account_state_lookup E) (\<lambda>account.
     bind (probe_events_query E) (\<lambda>events.
     bind (probe_resource_listing E) (\<lambda>resources.
     bind (probe_module_listing E) (\<lambda>modules.
     bind (probe_abi_resolution E) (\<lambda>abi.
     bind (probe_view_call E) (\<lambda>view.
     bind (if mode_transaction then probe_submission E else ok False) (\<lambda>submission.
     bind (if mode_transaction then probe_raw_dry_run E else ok False) (\<lambda>dry_run.
     ok \<lparr>supports_node_info = True, supports_chain_info = True, supports_block_lookup = block, supports_block_listing = blocks,
         supports_transaction_lookup = txn, supports_transaction_info_lookup = info,
         supports_transaction_events_by_hash = txn_events, supports_account_state_lookup = account,
         supports_events_query = events, supports_resource_listing = resources, supports_module_listing = modules,
         supports_abi_resolution = abi, supports_view_call = view, supports_transaction_submission = submission,
         supports_raw_dry_run = dry_run\<rparr>))))))))))))))))"

section \<open>The state of the runtime\<close>

record CachedProbe =
  cp_probe :: EffectiveProbe
  cp_observed_at :: int

record PreparedTransactionRecord =
  pt_simulation_status :: SimulationStatus
  pt_chain_context :: ChainContext
  pt_recorded_at :: int

text \<open>An unresolved submission is the instant it was recorded at.\<close>

record AppContext = NodeRpcClient +
  ap_config :: NodeConfig
  ap_watch_permits :: nat
  ap_expensive_permits :: nat
  ap_startup_probe :: EffectiveProbe
  ap_transaction_probe :: "CachedProbe option"
  ap_prepared_transactions :: "string \<rightharpoonup> PreparedTransactionRecord"
  ap_unresolved_submissions :: "string \<rightharpoonup> int"

type_synonym 'x app = "(AppContext, NodeStop, 'x) fallible"

definition asks :: "(AppContext \<Rightarrow> 'x) \<Rightarrow> 'x app" where
  "asks f s = (Inr (f s), s)"

definition updates :: "(AppContext \<Rightarrow> AppContext) \<Rightarrow> unit app" where
  "updates f s = (Inr (), f s)"

definition configured :: "(NodeConfig \<Rightarrow> 'x) \<Rightarrow> 'x app" where
  "configured f = asks (\<lambda>s. f (ap_config s))"

text \<open>\<open>Duration + Duration\<close> panics when the seconds of the sum do not fit in 64 bits.\<close>

definition duration_add :: "Duration \<Rightarrow> Duration \<Rightarrow> ('s, NodeStop, Duration) fallible" where
  "duration_add a b = (if (a + b) div 1000000000 < 2 ^ 64 then ok (a + b) else err Panicked)"

text \<open>A permit is held while \<open>m\<close> runs, however \<open>m\<close> ends.\<close>

definition rate_limited :: "string \<Rightarrow> NodeError" where
  "rate_limited what = NodeError_retryable E_RateLimited (what @ '' is exhausted'')"

definition try_watch_permit :: "'x app \<Rightarrow> 'x app" where
  "try_watch_permit m s =
     (if ap_watch_permits s = 0 then (Inl (Raised (rate_limited ''max_concurrent_watch_requests'')), s)
      else case m (s\<lparr>ap_watch_permits := ap_watch_permits s - 1\<rparr>) of
             (r, s') \<Rightarrow> (r, s'\<lparr>ap_watch_permits := Suc (ap_watch_permits s')\<rparr>))"

definition try_expensive_permit :: "'x app \<Rightarrow> 'x app" where
  "try_expensive_permit m s =
     (if ap_expensive_permits s = 0 then (Inl (Raised (rate_limited ''max_inflight_expensive_requests'')), s)
      else case m (s\<lparr>ap_expensive_permits := ap_expensive_permits s - 1\<rparr>) of
             (r, s') \<Rightarrow> (r, s'\<lparr>ap_expensive_permits := Suc (ap_expensive_permits s')\<rparr>))"

section \<open>Starting\<close>

text \<open>
  \<open>NodeRpcClient::new\<close>; the record says which header names and values the HTTP library accepts. A
  \<open>HeaderName\<close> is shown in lower case.
\<close>

record HeaderLib =
  header_value_ok :: "string \<Rightarrow> bool"
  header_name_ok :: "string \<Rightarrow> bool"

fun check_headers :: "HeaderLib \<Rightarrow> (string \<times> string) list \<Rightarrow> unit anyhow" where
  "check_headers HL [] = Inr ()"
| "check_headers HL ((name, v) # rest) =
     (if \<not> header_name_ok HL name then Inl (''invalid rpc header name '' @ name)
      else if \<not> header_value_ok HL v then Inl (''invalid rpc header value for '' @ to_ascii_lowercase name)
      else check_headers HL rest)"

definition NodeRpcClient_new :: "HeaderLib \<Rightarrow> 'c TlsLib \<Rightarrow> NodeConfig \<Rightarrow> NodeWorld \<Rightarrow> NodeRpcClient anyhow" where
  "NodeRpcClient_new HL L c w =
     and_then_any (NodeConfig_validate c) (\<lambda>_.
     and_then_any (case nc_rpc_auth_token c of
                     None \<Rightarrow> Inr ()
                   | Some token \<Rightarrow> ensure (header_value_ok HL (''Bearer '' @ token)) ''invalid rpc auth token header value'') (\<lambda>_.
     and_then_any (check_headers HL (nc_rpc_headers c)) (\<lambda>_.
     and_then_any (build_http_client L c) (\<lambda>h.
     Inr (NodeWorld.extend w
       (NodeRpcClient.fields (hc_endpoint h) 1 (nc_vm_profile c) (TimedValueCache_new (nc_chain_status_cache_ttl c) 8)
          (TimedValueCache_new (nc_abi_cache_ttl c) (nc_module_cache_max_entries c))))))))"

text \<open>
  \<open>AppContext::bootstrap\<close>: an error is its text, and the state is that of the client. A semaphore panics when
  it is created with more than \<open>usize::MAX >> 3\<close> permits.
\<close>

datatype BootStop = BootFailed string | BootPanicked

definition boot_stop :: "NodeStop \<Rightarrow> BootStop" where
  "boot_stop stop = (case stop of Raised e \<Rightarrow> BootFailed (ne_message e) | Dropped \<Rightarrow> BootFailed ''startup probe timed out''
     | _ \<Rightarrow> BootPanicked)"

definition startup_checks :: "NodeEnv \<Rightarrow> NodeConfig \<Rightarrow> (NodeRpcClient, BootStop, EffectiveProbe \<times> int) fallible" where
  "startup_checks E c =
     bind (map_error boot_stop (with_timeout E Dropped (probe E (nc_mode c = TransactionMode)))) (\<lambda>p.
     if \<not> supports_block_lookup p \<or> \<not> supports_transaction_lookup p
     then err (BootFailed ''startup probe failed: read_only profile is missing required query capabilities'')
     else if nc_mode c = TransactionMode \<and> (\<not> supports_transaction_submission p \<or> \<not> supports_raw_dry_run p)
     then err (BootFailed ''startup probe failed: transaction profile is missing submission or dry-run capabilities'')
     else
       map_error boot_stop
         (bind (node_info E) (\<lambda>ni.
          bind (chain_info E) (\<lambda>ci.
          bind (tried (validate_chain_identity c ni ci)) (\<lambda>_.
          bind (if nc_mode c = ReadOnly \<and> nc_allow_read_only_chain_autodetect c \<and>
                   (nc_expected_chain_id c = None \<or> nc_expected_network c = None)
                then bind (rfc3339_now E) (\<lambda>t. bind (tried (extract_chain_context ni ci t)) (\<lambda>_. ok ()))
                else ok ()) (\<lambda>_.
          if 2 ^ 61 \<le> uint (nc_max_concurrent_watch_requests c) \<or> 2 ^ 61 \<le> uint (nc_max_inflight_expensive_requests c)
          then err Panicked
          else bind (read_instant E) (\<lambda>t. ok (p, t))))))))"

definition bootstrap :: "NodeEnv \<Rightarrow> HeaderLib \<Rightarrow> 'c TlsLib \<Rightarrow> NodeConfig \<Rightarrow> NodeWorld \<Rightarrow> BootStop + AppContext" where
  "bootstrap E HL L c w =
     (case and_then_any (NodeConfig_validate c) (\<lambda>_. NodeRpcClient_new HL L c w) of
        Inl m \<Rightarrow> Inl (BootFailed m)
      | Inr client \<Rightarrow>
          (case startup_checks E c client of
             (Inl stop, _) \<Rightarrow> Inl stop
           | (Inr (p, t), client') \<Rightarrow>
               Inr (NodeRpcClient.extend client'
                 (AppContext.fields c (unat (nc_max_concurrent_watch_requests c)) (unat (nc_max_inflight_expensive_requests c)) p
                    (if nc_mode c = TransactionMode then Some \<lparr>cp_probe = p, cp_observed_at = t\<rparr> else None)
                    Map.empty Map.empty))))"

section \<open>Checking the endpoint\<close>

definition validate_transaction_probe :: "EffectiveProbe \<Rightarrow> unit noded" where
  "validate_transaction_probe p =
     (if \<not> supports_block_lookup p \<or> \<not> supports_transaction_lookup p \<or> \<not> supports_transaction_submission p \<or> \<not> supports_raw_dry_run p
      then Inl (NodeError_new E_UnsupportedOperation
             ''transaction capability probe failed: required read-side, submission, or dry-run methods are unavailable'')
      else Inr ())"

text \<open>\<open>u64::saturating_sub\<close> and \<open>u64::saturating_add\<close>.\<close>

definition u64_saturating_sub :: "u64 \<Rightarrow> u64 \<Rightarrow> u64" where
  "u64_saturating_sub a b = (if b \<le> a then a - b else 0)"

definition u64_saturating_add :: "u64 \<Rightarrow> u64 \<Rightarrow> u64" where
  "u64_saturating_add a b = (if uint a + uint b < 2 ^ 64 then a + b else - 1)"

definition enforce_transaction_head_lag :: "u64 \<Rightarrow> u64 \<Rightarrow> Duration \<Rightarrow> unit noded" where
  "enforce_transaction_head_lag now_seconds head_timestamp max_head_lag =
     (let lag = u64_saturating_sub now_seconds head_timestamp in
      if lag > as_secs max_head_lag
      then Inl (NodeError_retryable E_RpcUnavailable
             (''endpoint head lag is '' @ u64_to_string lag @ ''s, above max_head_lag '' @ u64_to_string (as_secs max_head_lag) @ ''s''))
      else Inr ())"

definition refresh_transaction_probe :: "NodeEnv \<Rightarrow> unit app" where
  "refresh_transaction_probe E =
     bind (with_timeout E (Raised (NodeError_retryable E_NodeUnavailable ''transaction capability probe timed out''))
            (probe E True)) (\<lambda>p.
     bind (read_instant E) (\<lambda>t.
     bind (updates (\<lambda>s. s\<lparr>ap_transaction_probe := Some \<lparr>cp_probe = p, cp_observed_at = t\<rparr>\<rparr>)) (\<lambda>_.
     tried (validate_transaction_probe p))))"

definition ensure_transaction_capabilities_current :: "NodeEnv \<Rightarrow> unit app" where
  "ensure_transaction_capabilities_current E =
     bind (configured nc_mode) (\<lambda>m.
     if m \<noteq> TransactionMode then ok ()
     else
       bind (asks ap_transaction_probe) (\<lambda>cached.
       case cached of
         None \<Rightarrow> refresh_transaction_probe E
       | Some c \<Rightarrow>
           bind (read_instant E) (\<lambda>now.
           bind (configured nc_chain_status_cache_ttl) (\<lambda>ttl.
           if elapsed (cp_observed_at c) now \<le> ttl then tried (validate_transaction_probe (cp_probe c))
           else refresh_transaction_probe E))))"

record TransactionEndpointSnapshot =
  sn_chain_context :: ChainContext
  sn_now_seconds :: u64

definition load_transaction_endpoint_snapshot :: "NodeEnv \<Rightarrow> TransactionEndpointSnapshot app" where
  "load_transaction_endpoint_snapshot E =
     bind (node_info E) (\<lambda>ni.
     bind (chain_info_uncached E) (\<lambda>ci.
     bind (configured id) (\<lambda>c.
     bind (tried (validate_chain_identity c ni ci)) (\<lambda>_.
     bind (tried (extract_u64 ni [''now_seconds''])) (\<lambda>now_seconds.
     bind (tried (extract_u64 ci [''head'', ''timestamp''])) (\<lambda>head_timestamp.
     bind (tried (enforce_transaction_head_lag now_seconds head_timestamp (nc_max_head_lag c))) (\<lambda>_.
     bind (rfc3339_now E) (\<lambda>t.
     bind (tried (extract_chain_context ni ci t)) (\<lambda>ctx.
     ok \<lparr>sn_chain_context = ctx, sn_now_seconds = now_seconds\<rparr>)))))))))"

section \<open>Prepared and unresolved transactions\<close>

definition retention :: "Duration app" where
  "retention =
     bind (configured nc_max_expiration_ttl) (\<lambda>a. bind (configured nc_max_watch_timeout) (\<lambda>b. duration_add a b))"

text \<open>
  \<open>retain\<close> reads the clock once for each entry, in the order of the hash map; the model reads it once for the
  whole pass, as if the pass took no time.
\<close>

definition prune_prepared_transactions :: "NodeEnv \<Rightarrow> unit app" where
  "prune_prepared_transactions E =
     bind retention (\<lambda>limit.
     bind (read_instant E) (\<lambda>now.
     updates (\<lambda>s. s\<lparr>ap_prepared_transactions := (\<lambda>k.
       case ap_prepared_transactions s k of
         None \<Rightarrow> None
       | Some r \<Rightarrow> if elapsed (pt_recorded_at r) now \<le> limit then Some r else None)\<rparr>)))"

definition load_prepared_transaction_record :: "NodeEnv \<Rightarrow> string \<Rightarrow> PreparedTransactionRecord option app" where
  "load_prepared_transaction_record E raw_hex =
     bind (prune_prepared_transactions E) (\<lambda>_. asks (\<lambda>s. ap_prepared_transactions s raw_hex))"

definition record_prepared_transaction :: "NodeEnv \<Rightarrow> string \<Rightarrow> ChainContext \<Rightarrow> SimulationStatus \<Rightarrow> unit app" where
  "record_prepared_transaction E raw_hex ctx simulation =
     bind (prune_prepared_transactions E) (\<lambda>_.
     bind (read_instant E) (\<lambda>now.
     updates (\<lambda>s. s\<lparr>ap_prepared_transactions := (ap_prepared_transactions s)
       (raw_hex \<mapsto> \<lparr>pt_simulation_status = simulation, pt_chain_context = ctx, pt_recorded_at = now\<rparr>)\<rparr>)))"

definition prune_unresolved_submissions :: "NodeEnv \<Rightarrow> unit app" where
  "prune_unresolved_submissions E =
     bind retention (\<lambda>limit.
     bind (read_instant E) (\<lambda>now.
     updates (\<lambda>s. s\<lparr>ap_unresolved_submissions := (\<lambda>k.
       case ap_unresolved_submissions s k of
         None \<Rightarrow> None
       | Some t \<Rightarrow> if elapsed t now \<le> limit then Some t else None)\<rparr>)))"

definition has_unresolved_submission :: "NodeEnv \<Rightarrow> string \<Rightarrow> bool app" where
  "has_unresolved_submission E txn_hash =
     bind (prune_unresolved_submissions E) (\<lambda>_. asks (\<lambda>s. ap_unresolved_submissions s txn_hash \<noteq> None))"

definition record_unresolved_submission :: "NodeEnv \<Rightarrow> string \<Rightarrow> unit app" where
  "record_unresolved_submission E txn_hash =
     bind (prune_unresolved_submissions E) (\<lambda>_.
     bind (read_instant E) (\<lambda>now.
     updates (\<lambda>s. s\<lparr>ap_unresolved_submissions := (ap_unresolved_submissions s)(txn_hash \<mapsto> now)\<rparr>)))"

definition clear_unresolved_submission :: "string \<Rightarrow> unit app" where
  "clear_unresolved_submission txn_hash =
     updates (\<lambda>s. s\<lparr>ap_unresolved_submissions := (ap_unresolved_submissions s)(txn_hash := None)\<rparr>)"

definition ensure_transaction_mode :: "Mode \<Rightarrow> unit noded" where
  "ensure_transaction_mode m =
     (if m \<noteq> TransactionMode
      then Inl (NodeError_new E_PermissionDenied ''transaction tools are disabled in read_only mode'')
      else Inr ())"

end
