(* ===== verification/Node_Prepare.thy ===== *)
theory Node_Prepare
  imports Node_Core
begin

text \<open>
  Preparing and simulating transactions (\<open>starcoin-node-core/src/transaction.rs\<close>). The types and codecs of
  the Starcoin virtual machine are the record \<open>Vm2\<close>, over addresses \<open>'a\<close>, type tags \<open>'y\<close>, packages \<open>'k\<close>,
  tokens \<open>'t\<close>, arguments \<open>'g\<close> and signed transactions \<open>'s\<close>.
\<close>

section \<open>The virtual machine\<close>

record ('a, 'y) EntryFunction =
  en_module_address :: 'a
  en_module_name :: string
  en_function :: string
  en_ty_args :: "'y list"
  en_args :: "8 word list list"

datatype ('a, 'y, 'k) Payload = EntryFunctionPayload "('a, 'y) EntryFunction" | PackageOf 'k

record ('a, 'y, 'k) UserTransaction =
  ut_sender :: 'a
  ut_sequence_number :: u64
  ut_payload :: "('a, 'y, 'k) Payload"
  ut_max_gas_amount :: u64
  ut_gas_unit_price :: u64
  ut_expiration_timestamp_secs :: u64
  ut_chain_id :: "8 word"
  ut_gas_token_code :: string

record ('a, 'y, 'k, 't, 'g, 's) Vm2 =
  vm_address_from_str :: "string \<Rightarrow> string + 'a"
  vm_address_to_string :: "'a \<Rightarrow> string"
  vm_address_to_bcs :: "'a \<Rightarrow> string + 8 word list"
  vm_u128_to_bcs :: "nat \<Rightarrow> string + 8 word list"
  vm_core_code_address :: 'a
  vm_token_from_str :: "string \<Rightarrow> string + 't"
  vm_token_to_string :: "'t \<Rightarrow> string"
  vm_stc_token :: 't
  vm_token_type :: "'t \<Rightarrow> string + 'y"
  vm_identifier :: "string \<Rightarrow> string + string"
  vm_function_id_from_str :: "string \<Rightarrow> string + 'a \<times> string \<times> string"
  vm_type_tag_from_str :: "string \<Rightarrow> string + 'y"
  vm_argument_from_str :: "string \<Rightarrow> string + 'g"
  vm_convert_args :: "'g list \<Rightarrow> 8 word list list"
  vm_package_from_bcs :: "8 word list \<Rightarrow> string + 'k"
  vm_package_modules :: "'k \<Rightarrow> nat"
  vm_raw_to_bcs :: "('a, 'y, 'k) UserTransaction \<Rightarrow> string + 8 word list"
  vm_raw_view :: "('a, 'y, 'k) UserTransaction \<Rightarrow> string + Value"
  vm_signed_from_bcs :: "8 word list \<Rightarrow> string + 's"
  vm_signed_id :: "'s \<Rightarrow> string"
  vm_signed_raw :: "'s \<Rightarrow> ('a, 'y, 'k) UserTransaction"
  vm_hex_decode :: "string \<Rightarrow> string + 8 word list"
  vm_hex_encode :: "8 word list \<Rightarrow> string"

text \<open>An error of the libraries becomes one of the runtime that quotes it.\<close>

definition quoting :: "NodeErrorCode \<Rightarrow> string \<Rightarrow> string + 'x \<Rightarrow> 'x noded" where
  "quoting c what r = (case r of Inl t \<Rightarrow> Inl (NodeError_new c (what @ t)) | Inr x \<Rightarrow> Inr x)"

lemma quoting_Inr [simp]: "quoting c what r = Inr x \<longleftrightarrow> r = Inr x"
  by (cases r) (simp_all add: quoting_def)

definition node_decode_hex_bytes :: "('a, 'y, 'k, 't, 'g, 's) Vm2 \<Rightarrow> string \<Rightarrow> 8 word list noded" where
  "node_decode_hex_bytes V s =
     quoting E_InvalidPackagePayload ''invalid hex payload: '' (vm_hex_decode V (trim_start_matches ''0x'' s))"

definition canonical_hex_payload :: "('a, 'y, 'k, 't, 'g, 's) Vm2 \<Rightarrow> string \<Rightarrow> string noded" where
  "canonical_hex_payload V s = try_bind (node_decode_hex_bytes V s) (\<lambda>bs. Inr (vm_hex_encode V bs))"

definition encode_hex_bcs :: "('a, 'y, 'k, 't, 'g, 's) Vm2 \<Rightarrow> ('a, 'y, 'k) UserTransaction \<Rightarrow> string noded" where
  "encode_hex_bcs V t =
     try_bind (quoting E_InvalidPackagePayload ''failed to bcs-encode transaction: '' (vm_raw_to_bcs V t)) (\<lambda>bs.
     Inr (vm_hex_encode V bs))"

section \<open>Parsing the arguments\<close>

text \<open>\<open>str::parse::<u128>\<close> with the texts of its errors.\<close>

fun parse_digits :: "int \<Rightarrow> int \<Rightarrow> string \<Rightarrow> string + int" where
  "parse_digits bound n [] = Inr n"
| "parse_digits bound n (c # cs) =
     (if \<not> is_digit c then Inl ''invalid digit found in string''
      else let n' = 10 * n + (of_char c - 48) in
           if bound \<le> n' then Inl ''number too large to fit in target type'' else parse_digits bound n' cs)"

definition parse_u128 :: "string \<Rightarrow> string + int" where
  "parse_u128 s =
     (if s = [] then Inl ''cannot parse integer from empty string''
      else if s = ''+'' then Inl ''invalid digit found in string''
      else parse_digits (2 ^ 128) 0 (if hd s = CHR ''+'' then tl s else s))"

definition parse_address :: "('a, 'y, 'k, 't, 'g, 's) Vm2 \<Rightarrow> string \<Rightarrow> string \<Rightarrow> 'a noded" where
  "parse_address V field_name s =
     quoting E_InvalidAddress (''invalid '' @ field_name @ '' address '' @ s @ '': '') (vm_address_from_str V s)"

definition parse_token_code :: "('a, 'y, 'k, 't, 'g, 's) Vm2 \<Rightarrow> string option \<Rightarrow> 't noded" where
  "parse_token_code V v =
     (case v of
        Some s \<Rightarrow> quoting E_InvalidAsset (''invalid token code '' @ s @ '': '') (vm_token_from_str V s)
      | None \<Rightarrow> Inr (vm_stc_token V))"

definition normalize_gas_token_code :: "('a, 'y, 'k, 't, 'g, 's) Vm2 \<Rightarrow> string option \<Rightarrow> string noded" where
  "normalize_gas_token_code V v =
     (case v of
        Some s \<Rightarrow> try_bind (parse_token_code V (Some s)) (\<lambda>t. Inr (vm_token_to_string V t))
      | None \<Rightarrow> Inr (vm_token_to_string V (vm_stc_token V)))"

definition multiply_u64_to_string :: "u64 \<Rightarrow> u64 \<Rightarrow> string" where
  "multiply_u64_to_string a b = decimal (unat a * unat b)"

text \<open>\<open>collect\<close> into a \<open>Result\<close>: the first error, else all values.\<close>

fun collect_results :: "('x \<Rightarrow> string + 'y) \<Rightarrow> 'x list \<Rightarrow> string + 'y list" where
  "collect_results f [] = Inr []"
| "collect_results f (x # xs) =
     (case f x of
        Inl e \<Rightarrow> Inl e
      | Inr y \<Rightarrow> (case collect_results f xs of Inl e \<Rightarrow> Inl e | Inr ys \<Rightarrow> Inr (y # ys)))"

definition build_contract_call_payload :: "('a, 'y, 'k, 't, 'g, 's) Vm2 \<Rightarrow> string \<Rightarrow> string list \<Rightarrow> string list \<Rightarrow> ('a, 'y, 'k) Payload noded" where
  "build_contract_call_payload V function_id type_args args =
     try_bind (quoting E_InvalidPackagePayload (''invalid function id '' @ function_id @ '': '') (vm_function_id_from_str V function_id))
       (\<lambda>(address, module, function).
     try_bind (quoting E_InvalidPackagePayload ''invalid type args: '' (collect_results (vm_type_tag_from_str V) type_args)) (\<lambda>tys.
     try_bind (quoting E_InvalidPackagePayload ''invalid transaction args: '' (collect_results (vm_argument_from_str V) args)) (\<lambda>vals.
     Inr (EntryFunctionPayload \<lparr>en_module_address = address, en_module_name = module, en_function = function,
            en_ty_args = tys, en_args = vm_convert_args V vals\<rparr>))))"

definition build_transfer_payload :: "('a, 'y, 'k, 't, 'g, 's) Vm2 \<Rightarrow> 'a \<Rightarrow> nat \<Rightarrow> 't \<Rightarrow> ('a, 'y, 'k) Payload noded" where
  "build_transfer_payload V receiver amount token =
     try_bind (quoting E_InvalidPackagePayload ''invalid token code type conversion: '' (vm_token_type V token)) (\<lambda>token_type.
     try_bind (quoting E_InvalidPackagePayload ''failed to construct transfer module identifier: '' (vm_identifier V ''transfer_scripts'')) (\<lambda>module.
     try_bind (quoting E_InvalidPackagePayload ''failed to construct transfer function identifier: '' (vm_identifier V ''peer_to_peer_v2'')) (\<lambda>function.
     try_bind (quoting E_InvalidPackagePayload ''failed to encode transfer receiver: '' (vm_address_to_bcs V receiver)) (\<lambda>receiver_bytes.
     try_bind (quoting E_InvalidPackagePayload ''failed to encode transfer amount: '' (vm_u128_to_bcs V amount)) (\<lambda>amount_bytes.
     Inr (EntryFunctionPayload \<lparr>en_module_address = vm_core_code_address V, en_module_name = module, en_function = function,
            en_ty_args = [token_type], en_args = [receiver_bytes, amount_bytes]\<rparr>))))))"

definition build_raw_transaction :: "'a \<Rightarrow> u64 \<Rightarrow> ('a, 'y, 'k) Payload \<Rightarrow> u64 \<Rightarrow> u64 \<Rightarrow> u64 \<Rightarrow> string \<Rightarrow> 8 word \<Rightarrow> ('a, 'y, 'k) UserTransaction" where
  "build_raw_transaction sender sequence_number p max_gas gas_price expiration gas_token chain =
     \<lparr>ut_sender = sender, ut_sequence_number = sequence_number, ut_payload = p, ut_max_gas_amount = max_gas,
      ut_gas_unit_price = gas_price, ut_expiration_timestamp_secs = expiration, ut_chain_id = chain,
      ut_gas_token_code = gas_token\<rparr>"

section \<open>The outcome of a dry run\<close>

definition simulation_array :: "Value \<Rightarrow> string \<Rightarrow> Value list" where
  "simulation_array v key =
     unwrap_or (Option.bind (opt_or (json_get key v) (Option.bind (json_get ''txn_output'' v) (json_get key))) as_array) []"

definition normalize_simulation :: "Value \<Rightarrow> SimulationResult noded" where
  "normalize_simulation v =
     (let st = unwrap_or (opt_or (extract_optional_string v [''status'']) (extract_optional_string v [''txn_output'', ''status''])) ''Unknown'' in
      Inr \<lparr>sim_executed = (eq_ignore_ascii_case st ''executed'' \<or> eq_ignore_ascii_case st (CHR 0x22 # ''executed'' @ [CHR 0x22])),
           sim_vm_status = st,
           sim_gas_used = unwrap_or (opt_or (extract_optional_u64 v [''gas_used'']) (extract_optional_u64 v [''txn_output'', ''gas_used''])) 0,
           sim_events = simulation_array v ''events'', sim_write_set_summary = simulation_array v ''write_set'',
           sim_raw = v\<rparr>)"

definition executed_or_fail :: "Value \<Rightarrow> SimulationResult \<Rightarrow> unit noded" where
  "executed_or_fail v r =
     (if sim_executed r then Inr ()
      else Inl (NodeError_with_details (NodeError_new E_SimulationFailed ''dry run returned a failed execution status'')
             (VObject [(''simulation'', v)])))"

section \<open>What a transaction is filled with\<close>

definition resolve_sequence_number :: "NodeEnv \<Rightarrow> string \<Rightarrow> u64 option \<Rightarrow> (u64 \<times> SequenceNumberSource) app" where
  "resolve_sequence_number E address given =
     (case given of
        Some n \<Rightarrow> ok (n, SeqCaller)
      | None \<Rightarrow>
          bind (match_result (next_sequence_number E address) ok
                 (\<lambda>e. if is_degradable_sequence_lookup_error e then ok None else raise e)) (\<lambda>txpool.
          bind (rpc_get_account_state E address) (\<lambda>onchain_state.
          case (Option.bind onchain_state (\<lambda>v. extract_optional_u64 v [''sequence_number'']), txpool) of
            (Some onchain, Some pool) \<Rightarrow> ok (max onchain pool, SeqMaxOfOnchainAndTxpool)
          | (Some onchain, None) \<Rightarrow> ok (onchain, SeqOnchain)
          | (None, Some pool) \<Rightarrow> ok (pool, SeqTxpool)
          | (None, None) \<Rightarrow>
              raise (NodeError_new E_MissingSender (''unable to derive sequence number for account '' @ address)))))"

definition resolve_gas_price :: "NodeEnv \<Rightarrow> u64 option \<Rightarrow> (u64 \<times> GasUnitPriceSource) app" where
  "resolve_gas_price E given =
     (case given of
        Some p \<Rightarrow> ok (p, GasCaller)
      | None \<Rightarrow> match_result (rpc_gas_price E) (\<lambda>p. ok (p, GasTxpool)) (\<lambda>_. ok (1, GasDefaultConfig)))"

definition resolve_expiration :: "NodeConfig \<Rightarrow> u64 \<Rightarrow> u64 option \<Rightarrow> u64 noded" where
  "resolve_expiration c now_seconds requested =
     (case requested of
        Some v \<Rightarrow>
          if v < now_seconds
          then Inl (NodeError_new E_TransactionExpired
                 (''requested expiration '' @ u64_to_string v @ '' is earlier than current node time '' @ u64_to_string now_seconds))
          else Inr (min v (u64_saturating_add now_seconds (as_secs (nc_max_expiration_ttl c))))
      | None \<Rightarrow> Inr (u64_saturating_add now_seconds (as_secs (nc_default_expiration_ttl c))))"

section \<open>Preparing\<close>

record PreparedTransferDetails =
  td_receiver_text :: string
  td_amount_text :: string
  td_token_text :: string

definition dry_run_prepared :: "NodeEnv \<Rightarrow> string \<Rightarrow> string option \<Rightarrow> (SimulationStatus \<times> SimulationResult option \<times> NextAction) app" where
  "dry_run_prepared E raw_hex public_key =
     (case public_key of
        None \<Rightarrow> ok (SimSkippedMissingPublicKey, None, GetPublicKeyThenSimulateOrSign)
      | Some key \<Rightarrow>
          bind (dry_run_raw E raw_hex key) (\<lambda>v.
          bind (tried (normalize_simulation v)) (\<lambda>r.
          bind (tried (executed_or_fail v r)) (\<lambda>_.
          ok (SimPerformed, Some r, NextSignTransaction)))))"

definition prepare_transaction :: "NodeEnv \<Rightarrow> ('a, 'y, 'k, 't, 'g, 's) Vm2 \<Rightarrow> 'a \<Rightarrow> 'z PrepareInput_scheme \<Rightarrow> ('a, 'y, 'k) Payload \<Rightarrow>
    TransactionKind \<Rightarrow> Value \<Rightarrow> PreparedTransferDetails option \<Rightarrow> PreparationResult app" where
  "prepare_transaction E V sender input p what summary transfer =
     bind (configured nc_mode) (\<lambda>m.
     bind (tried (ensure_transaction_mode m)) (\<lambda>_.
     bind (ensure_transaction_capabilities_current E) (\<lambda>_.
     bind (load_transaction_endpoint_snapshot E) (\<lambda>snapshot.
     bind (resolve_sequence_number E (vm_address_to_string V sender) (pi_sequence_number input)) (\<lambda>(sequence_number, sequence_source).
     bind (resolve_gas_price E (pi_gas_unit_price input)) (\<lambda>(gas_price, gas_source).
     bind (configured (\<lambda>c. resolve_expiration c (sn_now_seconds snapshot) (pi_expiration_time_secs input))) (\<lambda>resolved.
     bind (tried resolved) (\<lambda>expiration.
     let max_gas = unwrap_or (pi_max_gas_amount input) 10000000; chain = cc_chain_id (sn_chain_context snapshot) in
     bind (tried (normalize_gas_token_code V (pi_gas_token input))) (\<lambda>gas_token.
     let t = build_raw_transaction sender sequence_number p max_gas gas_price expiration gas_token chain in
     bind (tried (encode_hex_bcs V t)) (\<lambda>raw_hex.
     bind (tried (quoting E_InvalidPackagePayload ''failed to serialize raw transaction view: '' (vm_raw_view V t))) (\<lambda>view.
     bind (rfc3339_now E) (\<lambda>prepared_at.
     bind (dry_run_prepared E raw_hex (pi_sender_public_key input)) (\<lambda>(simulation_status, simulation, next_action).
     bind (record_prepared_transaction E raw_hex (sn_chain_context snapshot) simulation_status) (\<lambda>_.
     ok \<lparr>po_transaction_kind = what, po_raw_txn_bcs_hex = raw_hex, po_raw_txn = view, po_transaction_summary = summary,
         po_chain_context = sn_chain_context snapshot, po_prepared_at = prepared_at,
         po_sequence_number_source = sequence_source, po_gas_unit_price_source = gas_source,
         po_simulation_status = simulation_status, po_simulation = simulation,
         po_execution_facts =
           \<lparr>ef_sender = vm_address_to_string V sender, ef_sequence_number = sequence_number, ef_max_gas_amount = max_gas,
            ef_gas_unit_price = gas_price, ef_gas_token_code = gas_token, ef_expiration_timestamp_secs = expiration,
            ef_chain_id = chain, ef_estimated_max_network_fee = multiply_u64_to_string max_gas gas_price,
            ef_estimated_network_fee = map_option (\<lambda>r. multiply_u64_to_string (sim_gas_used r) gas_price) simulation,
            ef_transfer_receiver = map_option td_receiver_text transfer,
            ef_transfer_amount = map_option td_amount_text transfer,
            ef_transfer_token_code = map_option td_token_text transfer\<rparr>,
         po_next_action = next_action\<rparr>))))))))))))))"

definition prepare_transfer :: "NodeEnv \<Rightarrow> ('a, 'y, 'k, 't, 'g, 's) Vm2 \<Rightarrow> PrepareTransferInput \<Rightarrow> PreparationResult app" where
  "prepare_transfer E V input =
     bind (tried (parse_address V ''sender'' (pi_sender input))) (\<lambda>sender.
     bind (tried (parse_address V ''receiver'' (pi_receiver input))) (\<lambda>receiver.
     bind (tried (quoting E_InvalidAmount ''invalid transfer amount: '' (parse_u128 (pi_amount input)))) (\<lambda>amount.
     bind (tried (parse_token_code V (pi_token_code input))) (\<lambda>token.
     bind (tried (build_transfer_payload V receiver (nat amount) token)) (\<lambda>p.
     prepare_transaction E V sender input p TransferKind
       (VObject [(''kind'', VString ''transfer''), (''sender'', VString (pi_sender input)), (''receiver'', VString (pi_receiver input)),
                 (''amount'', VString (pi_amount input)), (''token_code'', VString (vm_token_to_string V token))])
       (Some \<lparr>td_receiver_text = pi_receiver input, td_amount_text = pi_amount input,
              td_token_text = vm_token_to_string V token\<rparr>))))))"

definition prepare_contract_call :: "NodeEnv \<Rightarrow> ('a, 'y, 'k, 't, 'g, 's) Vm2 \<Rightarrow> PrepareContractCallInput \<Rightarrow> PreparationResult app" where
  "prepare_contract_call E V input =
     bind (tried (parse_address V ''sender'' (pi_sender input))) (\<lambda>sender.
     bind (tried (build_contract_call_payload V (pi_function_id input) (pi_type_args input) (pi_args input))) (\<lambda>p.
     prepare_transaction E V sender input p ContractCallKind
       (VObject [(''kind'', VString ''contract_call''), (''sender'', VString (pi_sender input)),
                 (''function_id'', VString (pi_function_id input)), (''type_args'', json_strings (pi_type_args input)),
                 (''args'', json_strings (pi_args input))])
       None))"

definition prepare_publish_package :: "NodeEnv \<Rightarrow> ('a, 'y, 'k, 't, 'g, 's) Vm2 \<Rightarrow> PreparePublishPackageInput \<Rightarrow> PreparationResult app" where
  "prepare_publish_package E V input = try_expensive_permit
     (let payload_len = length (trim_start_matches ''0x'' (pi_package_bcs_hex input)) div 2 in
      bind (configured nc_max_publish_package_bytes) (\<lambda>limit.
      if int payload_len > uint limit
      then raise (NodeError_new E_PayloadTooLarge
             (''package payload is '' @ decimal payload_len @ '' bytes, above max_publish_package_bytes '' @ u64_to_string limit))
      else
        bind (tried (parse_address V ''sender'' (pi_sender input))) (\<lambda>sender.
        bind (tried (node_decode_hex_bytes V (pi_package_bcs_hex input))) (\<lambda>bytes.
        bind (tried (quoting E_InvalidPackagePayload ''invalid package bcs payload: '' (vm_package_from_bcs V bytes))) (\<lambda>package.
        prepare_transaction E V sender input (PackageOf package) PublishPackageKind
          (VObject [(''kind'', VString ''publish_package''), (''sender'', VString (pi_sender input)),
                    (''module_count'', VNumber (decimal (vm_package_modules V package))),
                    (''package_bytes'', VNumber (decimal payload_len))])
          None)))))"

definition simulate_raw_transaction :: "NodeEnv \<Rightarrow> ('a, 'y, 'k, 't, 'g, 's) Vm2 \<Rightarrow> SimulateRawTransactionInput \<Rightarrow> SimulateRawTransactionOutput app" where
  "simulate_raw_transaction E V input =
     bind (ensure_transaction_capabilities_current E) (\<lambda>_.
     bind (load_transaction_endpoint_snapshot E) (\<lambda>snapshot.
     bind (tried (canonical_hex_payload V (sr_raw_txn_bcs_hex input))) (\<lambda>raw_hex.
     bind (dry_run_raw E raw_hex (sr_sender_public_key input)) (\<lambda>v.
     bind (tried (normalize_simulation v)) (\<lambda>r.
     bind (tried (executed_or_fail v r)) (\<lambda>_.
     bind (record_prepared_transaction E raw_hex (sn_chain_context snapshot) SimPerformed) (\<lambda>_.
     ok \<lparr>sro_simulation = v, sro_executed = sim_executed r, sro_vm_status = sim_vm_status r, sro_gas_used = sim_gas_used r,
         sro_events = sim_events r, sro_write_set_summary = sim_write_set_summary r\<rparr>)))))))"

end
