(* ===== verification/Node_Submit.thy ===== *)
theory Node_Submit
  imports Node_Prepare
begin

text \<open>
  Watching and submitting transactions (\<open>starcoin-node-core/src/submission.rs\<close>, and \<open>get_transaction\<close> of
  \<open>queries.rs\<close>). The loop of \<open>watch_transaction\<close> polls until a deadline of the wall clock; its fuel is the
  number of rounds, and \<open>StillWatching\<close> says that it ran out.
\<close>

section \<open>Looking a transaction up\<close>

definition get_transaction :: "NodeEnv \<Rightarrow> GetTransactionInput \<Rightarrow> GetTransactionOutput app" where
  "get_transaction E input =
     bind (asks ap_startup_probe) (\<lambda>p.
     bind (tried (ensure_capability (supports_transaction_lookup p)
            ''transaction lookup is unavailable for this endpoint profile'')) (\<lambda>_.
     bind (rpc_get_transaction E (gt_txn_hash input) (gt_decode input)) (\<lambda>transaction.
     bind (if supports_transaction_info_lookup p then rpc_get_transaction_info E (gt_txn_hash input) else ok None) (\<lambda>info.
     bind (if gt_include_events input \<and> supports_transaction_events_by_hash p \<and> info \<noteq> None
           then rpc_get_events_by_txn_hash E (gt_txn_hash input) (gt_decode input) else ok []) (\<lambda>events.
     ok \<lparr>gto_transaction = transaction, gto_transaction_info = info, gto_events = events,
         gto_status_summary = status_summary_from_parts transaction info\<rparr>)))))"

section \<open>Watching\<close>

definition DEFAULT_MIN_CONFIRMED_BLOCKS :: u64 where
  "DEFAULT_MIN_CONFIRMED_BLOCKS = 2"

definition effective_min_confirmed_blocks :: "u64 option \<Rightarrow> u64" where
  "effective_min_confirmed_blocks requested = max (unwrap_or requested DEFAULT_MIN_CONFIRMED_BLOCKS) 1"

definition confirmation_depth_from_transaction_info :: "Value option \<Rightarrow> u64 \<Rightarrow> (u64 option \<times> u64 option) noded" where
  "confirmation_depth_from_transaction_info info head_block_number =
     (case info of
        None \<Rightarrow> Inr (None, None)
      | Some v \<Rightarrow>
          try_bind (opt_ok_or (extract_optional_u64 v [''block_number''])
                     (NodeError_new E_RpcUnavailable ''transaction_info is missing block_number'')) (\<lambda>inclusion.
          Inr (Some (u64_saturating_add (u64_saturating_sub head_block_number inclusion) 1), Some inclusion)))"

definition watch_confirmation_satisfied :: "TransactionStatusSummary \<Rightarrow> u64 option \<Rightarrow> u64 \<Rightarrow> bool" where
  "watch_confirmation_satisfied summary confirmed_blocks min_blocks \<longleftrightarrow>
     ts_confirmed summary \<and> min_blocks \<le> unwrap_or confirmed_blocks 0"

text \<open>The effective bounds of a watch, and what its rounds have seen last.\<close>

record WatchPlan =
  wp_txn_hash :: string
  wp_timeout :: u64
  wp_poll :: u64
  wp_min_blocks :: u64
  wp_deadline :: u64

record WatchSeen =
  ws_status_summary :: TransactionStatusSummary
  ws_transaction_info :: "Value option"
  ws_events :: "Value list"
  ws_confirmed_blocks :: "u64 option"
  ws_inclusion_block_number :: "u64 option"

definition nothing_seen :: WatchSeen where
  "nothing_seen =
     \<lparr>ws_status_summary = \<lparr>ts_found = False, ts_confirmed = False, ts_vm_status = None, ts_gas_used = None\<rparr>,
      ws_transaction_info = None, ws_events = [], ws_confirmed_blocks = None, ws_inclusion_block_number = None\<rparr>"

definition watch_output :: "WatchPlan \<Rightarrow> bool \<Rightarrow> WatchSeen \<Rightarrow> WatchTransactionOutput" where
  "watch_output plan confirmed seen =
     \<lparr>wo_txn_hash = wp_txn_hash plan, wo_found = ts_found (ws_status_summary seen), wo_confirmed = confirmed,
      wo_effective_timeout_seconds = wp_timeout plan, wo_effective_poll_interval_seconds = wp_poll plan,
      wo_effective_min_confirmed_blocks = wp_min_blocks plan, wo_confirmed_blocks = ws_confirmed_blocks seen,
      wo_inclusion_block_number = ws_inclusion_block_number seen, wo_transaction_info = ws_transaction_info seen,
      wo_events = ws_events seen, wo_status_summary = ws_status_summary seen\<rparr>"

text \<open>\<open>OffsetDateTime::now_utc().unix_timestamp() as u64\<close>.\<close>

definition unix_seconds :: "NodeEnv \<Rightarrow> ('z NodeWorld_scheme, NodeStop, u64) fallible" where
  "unix_seconds E = bind (read_utc E) (\<lambda>t. ok (word_of_int (t div 1000000000)))"

definition watch_look :: "NodeEnv \<Rightarrow> string \<Rightarrow> WatchSeen app" where
  "watch_look E txn_hash =
     bind (get_transaction E \<lparr>gt_txn_hash = txn_hash, gt_include_events = True, gt_decode = True\<rparr>) (\<lambda>current.
     bind (if ts_confirmed (gto_status_summary current)
           then bind (load_transaction_endpoint_snapshot E) (\<lambda>snapshot.
                tried (confirmation_depth_from_transaction_info (gto_transaction_info current)
                  (cc_head_block_number (sn_chain_context snapshot))))
           else ok (None, None)) (\<lambda>(confirmed_blocks, inclusion).
     ok \<lparr>ws_status_summary = gto_status_summary current, ws_transaction_info = gto_transaction_info current,
         ws_events = gto_events current, ws_confirmed_blocks = confirmed_blocks, ws_inclusion_block_number = inclusion\<rparr>))"

fun watch_loop :: "NodeEnv \<Rightarrow> WatchPlan \<Rightarrow> nat \<Rightarrow> WatchSeen \<Rightarrow> WatchTransactionOutput app" where
  "watch_loop E plan 0 seen = err StillWatching"
| "watch_loop E plan (Suc rounds) seen =
     bind (watch_look E (wp_txn_hash plan)) (\<lambda>current.
     let found = ts_found (ws_status_summary current); seen' = (if found then current else seen) in
     bind (if found then clear_unresolved_submission (wp_txn_hash plan) else ok ()) (\<lambda>_.
     if watch_confirmation_satisfied (ws_status_summary current) (ws_confirmed_blocks current) (wp_min_blocks plan)
     then ok (watch_output plan True current)
     else
       bind (unix_seconds E) (\<lambda>now.
       if wp_deadline plan \<le> now
       then ok (watch_output plan
              (watch_confirmation_satisfied (ws_status_summary seen') (ws_confirmed_blocks seen') (wp_min_blocks plan)) seen')
       else bind (sleep (duration_secs (wp_poll plan))) (\<lambda>_. watch_loop E plan rounds seen'))))"

definition watch_timeout_of :: "NodeConfig \<Rightarrow> WatchTransactionInput \<Rightarrow> u64" where
  "watch_timeout_of c input =
     min (unwrap_or (wt_timeout_seconds input) (as_secs (nc_watch_timeout c))) (as_secs (nc_max_watch_timeout c))"

definition watch_poll_of :: "NodeConfig \<Rightarrow> WatchTransactionInput \<Rightarrow> u64" where
  "watch_poll_of c input =
     max (unwrap_or (wt_poll_interval_seconds input) (as_secs (nc_watch_poll_interval c))) (as_secs (nc_min_watch_poll_interval c))"

definition watch_transaction :: "NodeEnv \<Rightarrow> nat \<Rightarrow> WatchTransactionInput \<Rightarrow> WatchTransactionOutput app" where
  "watch_transaction E rounds input =
     bind (asks ap_startup_probe) (\<lambda>p.
     bind (tried (ensure_capability (supports_transaction_lookup p \<and> supports_transaction_info_lookup p)
            ''watch_transaction is unavailable for this endpoint profile'')) (\<lambda>_.
     try_watch_permit
       (bind (configured id) (\<lambda>c.
        bind (unix_seconds E) (\<lambda>now.
        watch_loop E
          \<lparr>wp_txn_hash = wt_txn_hash input, wp_timeout = watch_timeout_of c input, wp_poll = watch_poll_of c input,
           wp_min_blocks = effective_min_confirmed_blocks (wt_min_confirmed_blocks input),
           wp_deadline = now + watch_timeout_of c input\<rparr> rounds nothing_seen)))))"

section \<open>Guards of a submission\<close>

definition effective_submit_timeout_seconds :: "bool \<Rightarrow> u64 option \<Rightarrow> Duration \<Rightarrow> Duration \<Rightarrow> u64 option" where
  "effective_submit_timeout_seconds blocking requested watch_timeout max_blocking =
     (if blocking then Some (min (unwrap_or requested (as_secs watch_timeout)) (as_secs max_blocking)) else None)"

definition same_chain :: "ChainContext \<Rightarrow> ChainContext \<Rightarrow> bool" where
  "same_chain a b \<longleftrightarrow>
     cc_chain_id a = cc_chain_id b \<and>
     canonicalize_network_name (cc_network a) = canonicalize_network_name (cc_network b) \<and>
     cc_genesis_hash a = cc_genesis_hash b"

definition validate_signed_transaction_submission :: "('a, 'y, 'k) UserTransaction \<Rightarrow> ChainContext \<Rightarrow> ChainContext \<Rightarrow> unit noded" where
  "validate_signed_transaction_submission t prepared current =
     (if ut_chain_id t \<noteq> cc_chain_id current
      then Inl (NodeError_new E_InvalidChainContext
             (''signed transaction chain_id '' @ decimal (unat (ut_chain_id t)) @ '' does not match current endpoint chain_id '' @
              decimal (unat (cc_chain_id current))))
      else if \<not> same_chain prepared current
      then Inl (NodeError_new E_InvalidChainContext
             ''prepared chain_context does not match the current endpoint chain identity'')
      else if cc_chain_id prepared \<noteq> ut_chain_id t
      then Inl (NodeError_new E_InvalidChainContext
             (''prepared chain_context chain_id '' @ decimal (unat (cc_chain_id prepared)) @
              '' does not match signed transaction chain_id '' @ decimal (unat (ut_chain_id t))))
      else Inr ())"

definition validate_prepared_transaction_record :: "PreparedTransactionRecord option \<Rightarrow> ChainContext \<Rightarrow> ChainContext \<Rightarrow> unit noded" where
  "validate_prepared_transaction_record r prepared current =
     (case r of
        None \<Rightarrow> Inr ()
      | Some p \<Rightarrow>
          if \<not> same_chain (pt_chain_context p) prepared
          then Inl (NodeError_new E_InvalidChainContext
                 ''prepared transaction attestation does not match the supplied chain_context'')
          else if \<not> same_chain (pt_chain_context p) current
          then Inl (NodeError_new E_InvalidChainContext
                 ''prepared transaction attestation does not match the current endpoint chain identity'')
          else Inr ())"

fun simulation_status_name :: "SimulationStatus \<Rightarrow> string" where
  "simulation_status_name SimPerformed = ''performed''"
| "simulation_status_name SimSkippedMissingPublicKey = ''skipped_missing_public_key''"
| "simulation_status_name SimSkippedByPolicy = ''skipped_by_policy''"
| "simulation_status_name SimFailed = ''failed''"

definition enforce_submit_simulation_policy :: "bool \<Rightarrow> PreparedTransactionRecord option \<Rightarrow> unit noded" where
  "enforce_submit_simulation_policy allow r =
     (if allow then Inr ()
      else (case r of
              Some p \<Rightarrow>
                if pt_simulation_status p = SimPerformed then Inr ()
                else Inl (NodeError_new E_PermissionDenied
                       (''submit blocked by policy: local preparation record has simulation_status = '' @
                        simulation_status_name (pt_simulation_status p)))
            | None \<Rightarrow> Inl (NodeError_new E_PermissionDenied
                ''submit blocked by policy: no local preparation or simulation record exists for this raw transaction'')))"

fun shared_error_code_name :: "NodeErrorCode \<Rightarrow> string" where
  "shared_error_code_name E_NodeUnavailable = ''node_unavailable''"
| "shared_error_code_name E_RpcUnavailable = ''rpc_unavailable''"
| "shared_error_code_name E_InvalidChainContext = ''invalid_chain_context''"
| "shared_error_code_name E_SubmissionUnknown = ''submission_unknown''"
| "shared_error_code_name E_SimulationFailed = ''simulation_failed''"
| "shared_error_code_name E_SubmissionFailed = ''submission_failed''"
| "shared_error_code_name E_TransactionExpired = ''transaction_expired''"
| "shared_error_code_name E_SequenceNumberStale = ''sequence_number_stale''"
| "shared_error_code_name E_PermissionDenied = ''permission_denied''"
| "shared_error_code_name E_ApprovalRequired = ''approval_required''"
| "shared_error_code_name E_RateLimited = ''rate_limited''"
| "shared_error_code_name E_PayloadTooLarge = ''payload_too_large''"
| "shared_error_code_name E_UnsupportedOperation = ''unsupported_operation''"
| "shared_error_code_name E_MissingSender = ''missing_sender''"
| "shared_error_code_name E_MissingPublicKey = ''missing_public_key''"
| "shared_error_code_name E_InvalidAddress = ''invalid_address''"
| "shared_error_code_name E_InvalidAsset = ''invalid_asset''"
| "shared_error_code_name E_InvalidAmount = ''invalid_amount''"
| "shared_error_code_name E_InvalidPackagePayload = ''invalid_package_payload''"
| "shared_error_code_name E_BlockNotFound = ''block_not_found''"
| "shared_error_code_name E_TransactionNotFound = ''transaction_not_found''"

section \<open>Submitting\<close>

definition accepted_submission_output :: "string \<Rightarrow> bool \<Rightarrow> SimulationStatus option \<Rightarrow> u64 option \<Rightarrow> WatchTransactionOutput option \<Rightarrow>
    SubmitSignedTransactionOutput" where
  "accepted_submission_output txn_hash submitted simulation timeout watch =
     \<lparr>so_txn_hash = txn_hash, so_submission_state = SubAccepted, so_submitted = submitted, so_prepared_simulation_status = simulation,
      so_error_code = None, so_effective_timeout_seconds = timeout, so_next_action = WatchTransaction, so_watch_result = watch\<rparr>"

definition submission_unknown_output :: "string \<Rightarrow> SimulationStatus option \<Rightarrow> u64 option \<Rightarrow> SubmitSignedTransactionOutput" where
  "submission_unknown_output txn_hash simulation timeout =
     \<lparr>so_txn_hash = txn_hash, so_submission_state = SubUnknown, so_submitted = False, so_prepared_simulation_status = simulation,
      so_error_code = Some ''submission_unknown'', so_effective_timeout_seconds = timeout, so_next_action = ReconcileByTxnHash,
      so_watch_result = None\<rparr>"

definition rejected_submission_output :: "string \<Rightarrow> SimulationStatus option \<Rightarrow> string \<Rightarrow> u64 option \<Rightarrow> SubmitSignedTransactionOutput" where
  "rejected_submission_output txn_hash simulation error_code timeout =
     \<lparr>so_txn_hash = txn_hash, so_submission_state = SubRejected, so_submitted = False, so_prepared_simulation_status = simulation,
      so_error_code = Some error_code, so_effective_timeout_seconds = timeout, so_next_action = ReprepareThenResign,
      so_watch_result = None\<rparr>"

definition signed_transaction_sequence_is_stale :: "NodeEnv \<Rightarrow> ('a, 'y, 'k, 't, 'g, 's) Vm2 \<Rightarrow> 's \<Rightarrow> bool app" where
  "signed_transaction_sequence_is_stale E V stx =
     match_result (resolve_sequence_number E (vm_address_to_string V (ut_sender (vm_signed_raw V stx))) None)
       (\<lambda>(current, _). ok (ut_sequence_number (vm_signed_raw V stx) < current))
       (\<lambda>e. if ne_code e = E_MissingSender \<or> is_degradable_sequence_lookup_error e then ok False else raise e)"

text \<open>The call that may change the chain, and what is made of its outcome.\<close>

definition send_submission :: "NodeEnv \<Rightarrow> nat \<Rightarrow> SubmitSignedTransactionInput \<Rightarrow> string \<Rightarrow> SimulationStatus option \<Rightarrow> u64 option \<Rightarrow>
    SubmitSignedTransactionOutput app" where
  "send_submission E rounds input txn_hash simulation timeout =
     match_result (rpc_submit_signed_transaction E (si_signed_txn_bcs_hex input))
       (\<lambda>_. bind (if si_blocking input
                   then bind (configured nc_watch_poll_interval) (\<lambda>poll.
                        match_result (watch_transaction E rounds
                            \<lparr>wt_txn_hash = txn_hash, wt_timeout_seconds = timeout, wt_poll_interval_seconds = Some (as_secs poll),
                             wt_min_confirmed_blocks = si_min_confirmed_blocks input\<rparr>)
                          (\<lambda>r. ok (Some r)) (\<lambda>_. ok None))
                   else ok None) (\<lambda>watch.
            ok (accepted_submission_output txn_hash True simulation timeout watch)))
       (\<lambda>e. if ne_code e \<in> {E_NodeUnavailable, E_RpcUnavailable, E_SubmissionUnknown}
            then bind (record_unresolved_submission E txn_hash) (\<lambda>_. ok (submission_unknown_output txn_hash simulation timeout))
            else if ne_code e \<in> {E_TransactionExpired, E_SequenceNumberStale}
            then ok (rejected_submission_output txn_hash simulation (shared_error_code_name (ne_code e)) timeout)
            else raise e)"

definition check_and_send :: "NodeEnv \<Rightarrow> ('a, 'y, 'k, 't, 'g, 's) Vm2 \<Rightarrow> nat \<Rightarrow> SubmitSignedTransactionInput \<Rightarrow> 's \<Rightarrow>
    PreparedTransactionRecord option \<Rightarrow> u64 option \<Rightarrow> SubmitSignedTransactionOutput app" where
  "check_and_send E V rounds input stx prepared timeout =
     (let txn_hash = vm_signed_id V stx; t = vm_signed_raw V stx; simulation = map_option pt_simulation_status prepared in
      bind (ensure_transaction_capabilities_current E) (\<lambda>_.
      bind (load_transaction_endpoint_snapshot E) (\<lambda>snapshot.
      bind (tried (validate_prepared_transaction_record prepared (si_prepared_chain_context input) (sn_chain_context snapshot))) (\<lambda>_.
      bind (configured nc_allow_submit_without_prior_simulation) (\<lambda>allow.
      bind (tried (enforce_submit_simulation_policy allow prepared)) (\<lambda>_.
      bind (tried (validate_signed_transaction_submission t (si_prepared_chain_context input) (sn_chain_context snapshot))) (\<lambda>_.
      if ut_expiration_timestamp_secs t \<le> sn_now_seconds snapshot
      then ok (rejected_submission_output txn_hash simulation ''transaction_expired'' timeout)
      else
        bind (signed_transaction_sequence_is_stale E V stx) (\<lambda>stale.
        if stale then ok (rejected_submission_output txn_hash simulation ''sequence_number_stale'' timeout)
        else send_submission E rounds input txn_hash simulation timeout))))))))"

definition submit_signed_transaction :: "NodeEnv \<Rightarrow> ('a, 'y, 'k, 't, 'g, 's) Vm2 \<Rightarrow> nat \<Rightarrow> SubmitSignedTransactionInput \<Rightarrow>
    SubmitSignedTransactionOutput app" where
  "submit_signed_transaction E V rounds input =
     bind (configured id) (\<lambda>c.
     bind (tried (ensure_transaction_mode (nc_mode c))) (\<lambda>_.
     bind (tried (node_decode_hex_bytes V (si_signed_txn_bcs_hex input))) (\<lambda>bytes.
     bind (tried (quoting E_InvalidPackagePayload ''invalid signed transaction bcs hex: '' (vm_signed_from_bcs V bytes))) (\<lambda>stx.
     let timeout = effective_submit_timeout_seconds (si_blocking input) (si_timeout_seconds input) (nc_watch_timeout c)
           (nc_max_submit_blocking_timeout c) in
     bind (tried (encode_hex_bcs V (vm_signed_raw V stx))) (\<lambda>raw_hex.
     bind (load_prepared_transaction_record E raw_hex) (\<lambda>prepared.
     bind (has_unresolved_submission E (vm_signed_id V stx)) (\<lambda>unresolved.
     if unresolved
     then ok (submission_unknown_output (vm_signed_id V stx) (map_option pt_simulation_status prepared) timeout)
     else check_and_send E V rounds input stx prepared timeout)))))))"

end
