(* ===== verification/Node_Queries.thy ===== *)
theory Node_Queries
  imports Node_Submit
begin

text \<open>
  The queries of the node client (\<open>starcoin-node-core/src/queries.rs\<close>) and its command-line program
  (\<open>starcoin-node-cli/src/main.rs\<close>). Each query clamps what it asks the endpoint for.
\<close>

section \<open>The chain and the node\<close>

definition chain_status :: "NodeEnv \<Rightarrow> ChainStatusOutput app" where
  "chain_status E =
     bind (node_info E) (\<lambda>ni.
     bind (chain_info E) (\<lambda>ci.
     bind (node_peers E) (\<lambda>peers.
     bind (sync_status E) (\<lambda>sync.
     bind (tried (extract_network ni)) (\<lambda>network.
     bind (tried (extract_u8 ci [''chain_id''])) (\<lambda>chain_id.
     bind (tried (extract_string ci [''genesis_hash''])) (\<lambda>genesis.
     bind (tried (extract_u64 ci [''head'', ''number''])) (\<lambda>number.
     bind (tried (extract_string ci [''head'', ''block_hash''])) (\<lambda>block_hash.
     bind (tried (extract_u64 ni [''now_seconds''])) (\<lambda>now_seconds.
     ok \<lparr>cs_network = network, cs_chain_id = chain_id, cs_genesis_hash = genesis, cs_head_block_number = number,
         cs_head_block_hash = block_hash, cs_head_state_root = extract_optional_string ci [''head'', ''state_root''],
         cs_now_seconds = now_seconds,
         cs_peer_count = (case as_array (unwrap_or peers (VArray [])) of None \<Rightarrow> 0 | Some items \<Rightarrow> of_nat (length items)),
         cs_sync_status = sync\<rparr>))))))))))"

text \<open>A part of the report that a transport error replaces by a warning.\<close>

definition reported :: "string \<Rightarrow> 'x option app \<Rightarrow> ('x option \<times> string list) app" where
  "reported what m =
     match_result m (\<lambda>v. ok (v, []))
       (\<lambda>e. if is_transport_error e then ok (None, [what @ '' unavailable: '' @ ne_message e]) else raise e)"

definition lag_warning :: "NodeConfig \<Rightarrow> Value \<Rightarrow> Value option \<Rightarrow> string list noded" where
  "lag_warning c ni ci =
     (case ci of
        None \<Rightarrow> Inr []
      | Some v \<Rightarrow>
          try_bind (extract_u64 ni [''now_seconds'']) (\<lambda>now_seconds.
          try_bind (extract_u64 v [''head'', ''timestamp'']) (\<lambda>head_timestamp.
          let lag = u64_saturating_sub now_seconds head_timestamp in
          Inr (if lag > as_secs (nc_warn_head_lag c)
               then [''head lag is '' @ u64_to_string lag @ ''s, above warning threshold '' @
                     u64_to_string (as_secs (nc_warn_head_lag c)) @ ''s'']
               else []))))"

definition node_unavailable_report :: "NodeError \<Rightarrow> NodeHealthOutput" where
  "node_unavailable_report e =
     \<lparr>nh_node_available = False, nh_node_info = VNull, nh_sync = None,
      nh_peers_summary = VObject [(''count'', VNumber ''0''), (''peers'', VArray [])], nh_txpool_summary = None,
      nh_warnings = [''node.info unavailable: '' @ ne_message e]\<rparr>"

definition node_health :: "NodeEnv \<Rightarrow> NodeHealthOutput app" where
  "node_health E =
     match_result (node_info E)
       (\<lambda>ni.
        bind (reported ''chain.info'' (bind (chain_info E) (\<lambda>v. ok (Some v)))) (\<lambda>(ci, chain_warnings).
        bind (reported ''node.peers'' (node_peers E)) (\<lambda>(peers, peer_warnings).
        bind (reported ''sync.status'' (sync_status E)) (\<lambda>(sync, sync_warnings).
        bind (reported ''txpool.state'' (txpool_state E)) (\<lambda>(txpool, txpool_warnings).
        bind (configured id) (\<lambda>c.
        bind (tried (lag_warning c ni ci)) (\<lambda>lag_warnings.
        ok \<lparr>nh_node_available = (chain_warnings = [] \<and> peer_warnings = []), nh_node_info = ni, nh_sync = sync,
            nh_peers_summary =
              VObject [(''count'', VNumber (decimal (case Option.bind peers as_array of None \<Rightarrow> 0 | Some items \<Rightarrow> length items))),
                       (''peers'', unwrap_or peers (VArray []))],
            nh_txpool_summary = txpool,
            nh_warnings = chain_warnings @ peer_warnings @ sync_warnings @ txpool_warnings @ lag_warnings @
              (if Option.bind peers as_array = Some [] then [''node reports zero connected peers''] else [])\<rparr>))))))) 
       (\<lambda>e. if is_transport_error e then ok (node_unavailable_report e) else raise e)"

section \<open>Blocks and events\<close>

definition get_block :: "NodeEnv \<Rightarrow> GetBlockInput \<Rightarrow> GetBlockOutput app" where
  "get_block E input =
     bind (rpc_get_block E (gb_block_hash input) (gb_block_number input) (gb_decode input) (gb_include_raw input)) (\<lambda>block.
     ok \<lparr>gbo_block = block,
         gbo_source = VObject [(''hash'', json_opt VString (gb_block_hash input)), (''number'', json_opt json_u64 (gb_block_number input))]\<rparr>)"

definition list_blocks :: "NodeEnv \<Rightarrow> ListBlocksInput \<Rightarrow> ListBlocksOutput app" where
  "list_blocks E input =
     bind (configured (\<lambda>c. min (lb_count input) (nc_max_list_blocks_count c))) (\<lambda>effective.
     bind (rpc_list_blocks E (lb_from_block_number input) effective (lb_reverse input)) (\<lambda>blocks.
     ok \<lparr>lbo_blocks = blocks, lbo_effective_count = effective\<rparr>))"

definition get_events :: "NodeEnv \<Rightarrow> GetEventsInput \<Rightarrow> GetEventsOutput app" where
  "get_events E input =
     bind (asks ap_startup_probe) (\<lambda>p.
     bind (tried (ensure_capability (supports_events_query p) ''event query tools are unavailable for this endpoint profile'')) (\<lambda>_.
     try_expensive_permit
       (bind (configured (\<lambda>c. min (gv_limit input) (nc_max_events_limit c))) (\<lambda>effective.
        bind (rpc_get_events E input effective) (\<lambda>events.
        ok \<lparr>gvo_events = events, gvo_matched_count = of_nat (length events), gvo_effective_limit = effective\<rparr>)))))"

section \<open>Accounts\<close>

definition resolve_state_root :: "NodeEnv \<Rightarrow> u64 option \<Rightarrow> string option app" where
  "resolve_state_root E block_number =
     (case block_number of
        None \<Rightarrow> ok None
      | Some n \<Rightarrow>
          bind (rpc_get_block E None (Some n) True False) (\<lambda>answer.
          bind (tried (opt_ok_or answer
                 (NodeError_new E_BlockNotFound (''block '' @ u64_to_string n @ '' was not found'')))) (\<lambda>block.
          bind (tried (opt_ok_or (extract_optional_string block [''header'', ''state_root''])
                 (NodeError_new E_RpcUnavailable (''block '' @ u64_to_string n @ '' is missing header.state_root'')))) (\<lambda>root.
          ok (Some root)))))"

definition load_optional_next_sequence_number_hint :: "NodeEnv \<Rightarrow> string \<Rightarrow> u64 option app" where
  "load_optional_next_sequence_number_hint E address =
     match_result (next_sequence_number E address) ok
       (\<lambda>e. if is_degradable_sequence_lookup_error e then ok None else raise e)"

definition list_resources :: "NodeEnv \<Rightarrow> ListResourcesInput \<Rightarrow> ListResourcesOutput app" where
  "list_resources E input =
     bind (asks ap_startup_probe) (\<lambda>p.
     bind (tried (ensure_capability (supports_resource_listing p) ''resource listing is unavailable for this endpoint profile'')) (\<lambda>_.
     try_expensive_permit
       (bind (configured (\<lambda>c. min (unwrap_or (lr_max_size input) (nc_max_list_resources_size c)) (nc_max_list_resources_size c))) (\<lambda>effective.
        bind (resolve_state_root E (lr_block_number input)) (\<lambda>root.
        bind (rpc_list_resources E (lr_address input) (lr_decode input) (unwrap_or (lr_start_index input) 0) effective root
               (case lr_resource_type input of None \<Rightarrow> [] | Some t \<Rightarrow> [t])) (\<lambda>listed.
        ok \<lparr>lro_address = lr_address input, lro_state_root = root, lro_resources = map_named_entries listed ''resources'',
            lro_effective_max_size = effective\<rparr>))))))"

definition list_modules :: "NodeEnv \<Rightarrow> ListModulesInput \<Rightarrow> ListModulesOutput app" where
  "list_modules E input =
     bind (asks ap_startup_probe) (\<lambda>p.
     bind (tried (ensure_capability (supports_module_listing p) ''module listing is unavailable for this endpoint profile'')) (\<lambda>_.
     try_expensive_permit
       (bind (configured (\<lambda>c. min (unwrap_or (lm_max_size input) (nc_max_list_modules_size c)) (nc_max_list_modules_size c))) (\<lambda>effective.
        bind (resolve_state_root E (lm_block_number input)) (\<lambda>root.
        bind (rpc_list_code E (lm_address input) (lm_resolve_abi input) root) (\<lambda>listed.
        ok \<lparr>lmo_address = lm_address input, lmo_state_root = root,
            lmo_modules = take (unat effective) (map_named_entries listed ''codes''), lmo_effective_max_size = effective\<rparr>))))))"

record OverviewResources =
  or_balances :: "Value list"
  or_accepted_tokens :: "string list"
  or_resources :: "Value list option"
  or_limit :: "u64 option"

definition overview_resources :: "NodeEnv \<Rightarrow> ('a, 'y, 'k, 't, 'g, 's) Vm2 \<Rightarrow> GetAccountOverviewInput \<Rightarrow> OverviewResources app" where
  "overview_resources E V input =
     (if \<not> ao_include_resources input
      then ok \<lparr>or_balances = [], or_accepted_tokens = [], or_resources = None, or_limit = None\<rparr>
      else
        bind (asks ap_startup_probe) (\<lambda>p.
        bind (tried (ensure_capability (supports_resource_listing p) ''resource listing is unavailable for this endpoint profile'')) (\<lambda>_.
        try_expensive_permit
          (bind (configured (\<lambda>c. min (unwrap_or (ao_resource_limit input) (nc_max_account_resource_limit c)) (nc_max_account_resource_limit c))) (\<lambda>limit.
           bind (rpc_list_resources E (ao_address input) True 0 limit None []) (\<lambda>listed.
           let mapped = map_named_entries listed ''resources''; balances = extract_balance_resources mapped;
               accepted = extract_accepted_tokens mapped; stc = vm_token_to_string V (vm_stc_token V) in
           bind (get_primary_stc_balance_resource E (ao_address input)) (\<lambda>primary.
           ok (case primary of
                 None \<Rightarrow> \<lparr>or_balances = balances, or_accepted_tokens = accepted, or_resources = Some mapped, or_limit = Some limit\<rparr>
               | Some v \<Rightarrow>
                   \<lparr>or_balances = replace_stc_balance_with_primary_store stc balances
                      (named_resource_entry PRIMARY_FUNGIBLE_STORE_STRUCT_TAG v),
                    or_accepted_tokens = push_new accepted stc, or_resources = Some mapped, or_limit = Some limit\<rparr>)))))))) "

definition overview_modules :: "NodeEnv \<Rightarrow> GetAccountOverviewInput \<Rightarrow> (Value list option \<times> u64 option) app" where
  "overview_modules E input =
     (if \<not> ao_include_modules input then ok (None, None)
      else
        bind (asks ap_startup_probe) (\<lambda>p.
        bind (tried (ensure_capability (supports_module_listing p) ''module listing is unavailable for this endpoint profile'')) (\<lambda>_.
        try_expensive_permit
          (bind (configured (\<lambda>c. min (unwrap_or (ao_module_limit input) (nc_max_account_module_limit c)) (nc_max_account_module_limit c))) (\<lambda>limit.
           bind (rpc_list_code E (ao_address input) True None) (\<lambda>listed.
           ok (Some (take (unat limit) (map_named_entries listed ''codes'')), Some limit)))))))"

definition get_account_overview :: "NodeEnv \<Rightarrow> ('a, 'y, 'k, 't, 'g, 's) Vm2 \<Rightarrow> GetAccountOverviewInput \<Rightarrow> GetAccountOverviewOutput app" where
  "get_account_overview E V input =
     bind (asks ap_startup_probe) (\<lambda>p.
     bind (tried (ensure_capability (supports_account_state_lookup p) ''account overview is unavailable for this endpoint profile'')) (\<lambda>_.
     bind (rpc_get_account_state E (ao_address input)) (\<lambda>state.
     bind (load_optional_next_sequence_number_hint E (ao_address input)) (\<lambda>hint.
     bind (overview_resources E V input) (\<lambda>r.
     bind (overview_modules E input) (\<lambda>(modules, module_limit).
     ok \<lparr>aoo_address = ao_address input, aoo_onchain_exists = (state \<noteq> None),
         aoo_sequence_number = Option.bind state (\<lambda>v. extract_optional_u64 v [''sequence_number'']),
         aoo_balances = or_balances r, aoo_accepted_tokens = or_accepted_tokens r, aoo_resources = or_resources r,
         aoo_modules = modules, aoo_applied_resource_limit = or_limit r, aoo_applied_module_limit = module_limit,
         aoo_next_sequence_number_hint = hint\<rparr>))))))"

section \<open>Contracts\<close>

definition resolve_abi_tool :: "string \<Rightarrow> Value app \<Rightarrow> Value app" where
  "resolve_abi_tool key m =
     bind (asks ap_startup_probe) (\<lambda>p.
     bind (tried (ensure_capability (supports_abi_resolution p) ''ABI resolution is unavailable for this endpoint profile'')) (\<lambda>_.
     bind m (\<lambda>v. ok (VObject [(key, v)]))))"

definition resolve_function_abi :: "NodeEnv \<Rightarrow> string \<Rightarrow> Value app" where
  "resolve_function_abi E function_id = resolve_abi_tool ''function_abi'' (rpc_resolve_function_abi E function_id)"

definition resolve_struct_abi :: "NodeEnv \<Rightarrow> string \<Rightarrow> Value app" where
  "resolve_struct_abi E struct_tag = resolve_abi_tool ''struct_abi'' (rpc_resolve_struct_abi E struct_tag)"

definition resolve_module_abi :: "NodeEnv \<Rightarrow> string \<Rightarrow> Value app" where
  "resolve_module_abi E module_id = resolve_abi_tool ''module_abi'' (rpc_resolve_module_abi E module_id)"

definition call_view_function :: "NodeEnv \<Rightarrow> CallViewFunctionInput \<Rightarrow> CallViewFunctionOutput app" where
  "call_view_function E input =
     bind (asks ap_startup_probe) (\<lambda>p.
     bind (tried (ensure_capability (supports_view_call p) ''view-function execution is unavailable for this endpoint profile'')) (\<lambda>_.
     bind (rpc_call_view_function E (vf_function_id input) (vf_type_args input) (vf_args input)) (\<lambda>decoded.
     ok \<lparr>vfo_return_values = None, vfo_decoded_return_values = decoded\<rparr>)))"

section \<open>The command-line program\<close>

datatype ToolOutput =
  OutChainStatus ChainStatusOutput | OutNodeHealth NodeHealthOutput | OutBlock GetBlockOutput | OutBlocks ListBlocksOutput
  | OutTransaction GetTransactionOutput | OutWatch WatchTransactionOutput | OutEvents GetEventsOutput
  | OutOverview GetAccountOverviewOutput | OutResources ListResourcesOutput | OutModules ListModulesOutput | OutAbi Value
  | OutView CallViewFunctionOutput | OutPrepared PreparationResult | OutSimulated SimulateRawTransactionOutput
  | OutSubmitted SubmitSignedTransactionOutput

text \<open>The decoders \<open>serde\<close> derives for the inputs; one with a single field is that field.\<close>

record ToolSerde =
  ts_json_from_str :: "string \<Rightarrow> Value anyhow"
  ts_empty :: "Value \<Rightarrow> unit anyhow"
  ts_get_block :: "Value \<Rightarrow> GetBlockInput anyhow"
  ts_list_blocks :: "Value \<Rightarrow> ListBlocksInput anyhow"
  ts_get_transaction :: "Value \<Rightarrow> GetTransactionInput anyhow"
  ts_watch_transaction :: "Value \<Rightarrow> WatchTransactionInput anyhow"
  ts_get_events :: "Value \<Rightarrow> GetEventsInput anyhow"
  ts_get_account_overview :: "Value \<Rightarrow> GetAccountOverviewInput anyhow"
  ts_list_resources :: "Value \<Rightarrow> ListResourcesInput anyhow"
  ts_list_modules :: "Value \<Rightarrow> ListModulesInput anyhow"
  ts_function_id :: "Value \<Rightarrow> string anyhow"
  ts_struct_tag :: "Value \<Rightarrow> string anyhow"
  ts_module_id :: "Value \<Rightarrow> string anyhow"
  ts_call_view_function :: "Value \<Rightarrow> CallViewFunctionInput anyhow"
  ts_prepare_transfer :: "Value \<Rightarrow> PrepareTransferInput anyhow"
  ts_prepare_contract_call :: "Value \<Rightarrow> PrepareContractCallInput anyhow"
  ts_prepare_publish_package :: "Value \<Rightarrow> PreparePublishPackageInput anyhow"
  ts_simulate_raw_transaction :: "Value \<Rightarrow> SimulateRawTransactionInput anyhow"
  ts_submit_signed_transaction :: "Value \<Rightarrow> SubmitSignedTransactionInput anyhow"

text \<open>Why the program ends without an output: a message, or an operation that stopped.\<close>

datatype CliStop = CliError string | CliStopped NodeStop

definition read_json_arguments :: "ToolSerde \<Rightarrow> string anyhow \<Rightarrow> Value anyhow" where
  "read_json_arguments D stdin_text =
     and_then_any (with_context stdin_text ''failed to read stdin arguments'') (\<lambda>buffer.
     if trim buffer = [] then Inr (VObject [])
     else with_context (ts_json_from_str D buffer) ''failed to parse stdin JSON arguments'')"

definition run_tool :: "'i anyhow \<Rightarrow> ('o \<Rightarrow> ToolOutput) \<Rightarrow> ('i \<Rightarrow> 'o app) \<Rightarrow> (AppContext, CliStop, ToolOutput) fallible" where
  "run_tool parsed out m =
     (case with_context parsed ''failed to decode command arguments'' of
        Inl t \<Rightarrow> err (CliError t)
      | Inr input \<Rightarrow> bind (map_error CliStopped (m input)) (\<lambda>x. ok (out x)))"

definition call_tool :: "NodeEnv \<Rightarrow> ('a, 'y, 'k, 't, 'g, 's) Vm2 \<Rightarrow> ToolSerde \<Rightarrow> nat \<Rightarrow> string anyhow \<Rightarrow> string \<Rightarrow>
    (AppContext, CliStop, ToolOutput) fallible" where
  "call_tool E V D rounds stdin_text tool =
     (case read_json_arguments D stdin_text of
        Inl t \<Rightarrow> err (CliError t)
      | Inr v \<Rightarrow>
          if tool = ''chain_status'' then run_tool (ts_empty D v) OutChainStatus (\<lambda>_. chain_status E)
          else if tool = ''node_health'' then run_tool (ts_empty D v) OutNodeHealth (\<lambda>_. node_health E)
          else if tool = ''get_block'' then run_tool (ts_get_block D v) OutBlock (get_block E)
          else if tool = ''list_blocks'' then run_tool (ts_list_blocks D v) OutBlocks (list_blocks E)
          else if tool = ''get_transaction'' then run_tool (ts_get_transaction D v) OutTransaction (get_transaction E)
          else if tool = ''watch_transaction'' then run_tool (ts_watch_transaction D v) OutWatch (watch_transaction E rounds)
          else if tool = ''get_events'' then run_tool (ts_get_events D v) OutEvents (get_events E)
          else if tool = ''get_account_overview'' then run_tool (ts_get_account_overview D v) OutOverview (get_account_overview E V)
          else if tool = ''list_resources'' then run_tool (ts_list_resources D v) OutResources (list_resources E)
          else if tool = ''list_modules'' then run_tool (ts_list_modules D v) OutModules (list_modules E)
          else if tool = ''resolve_function_abi'' then run_tool (ts_function_id D v) OutAbi (resolve_function_abi E)
          else if tool = ''resolve_struct_abi'' then run_tool (ts_struct_tag D v) OutAbi (resolve_struct_abi E)
          else if tool = ''resolve_module_abi'' then run_tool (ts_module_id D v) OutAbi (resolve_module_abi E)
          else if tool = ''call_view_function'' then run_tool (ts_call_view_function D v) OutView (call_view_function E)
          else if tool = ''prepare_transfer'' then run_tool (ts_prepare_transfer D v) OutPrepared (prepare_transfer E V)
          else if tool = ''prepare_contract_call'' then run_tool (ts_prepare_contract_call D v) OutPrepared (prepare_contract_call E V)
          else if tool = ''prepare_publish_package'' then run_tool (ts_prepare_publish_package D v) OutPrepared (prepare_publish_package E V)
          else if tool = ''simulate_raw_transaction'' then run_tool (ts_simulate_raw_transaction D v) OutSimulated (simulate_raw_transaction E V)
          else if tool = ''submit_signed_transaction''
          then run_tool (ts_submit_signed_transaction D v) OutSubmitted (submit_signed_transaction E V rounds)
          else err (CliError (''unknown tool: '' @ tool)))"

text \<open>
  \<open>main\<close>: the configuration is loaded with no setting of the command line but the path of its file, and one
  tool is called. What is answered is the outcome and the state the program ends in.
\<close>

definition node_cli_main :: "NodeEnv \<Rightarrow> HeaderLib \<Rightarrow> 'c TlsLib \<Rightarrow> ('a, 'y, 'k, 't, 'g, 's) Vm2 \<Rightarrow> ToolSerde \<Rightarrow> NodeHost \<Rightarrow> nat \<Rightarrow>
    PathBuf option \<Rightarrow> string anyhow \<Rightarrow> string \<Rightarrow> NodeWorld \<Rightarrow> (BootStop + (CliStop + ToolOutput) \<times> AppContext)" where
  "node_cli_main E HL L V D H rounds config_path stdin_text tool w =
     (case NodeConfig_load H (NodeCliArgs_default\<lparr>na_config := config_path\<rparr>) of
        Inl t \<Rightarrow> Inl (BootFailed t)
      | Inr c \<Rightarrow>
          (case bootstrap E HL L c w of
             Inl stop \<Rightarrow> Inl stop
           | Inr s \<Rightarrow> Inr (call_tool E V D rounds stdin_text tool s)))"

end
