(* ===== verification/Node_Rules.thy ===== *)
theory Node_Rules
  imports Node_Queries
begin

text \<open>
  Reasoning about the node client. A relation between the states before and after that holds for every single
  step holds for every operation: the locale \<open>client_relation\<close> states what the steps of the client do to the
  state, \<open>app_relation\<close> adds those of the runtime, and the operations are shown to obey the relation once,
  by one rule per combinator (\<open>issue_rules\<close>). The interpretations are: no request carries a transaction,
  and time does not pass but by sleeping.
\<close>

named_theorems issue_rules "the operations obey the relation of the steps"

section \<open>Obeying a relation\<close>

definition obeys :: "('s \<Rightarrow> 's \<Rightarrow> bool) \<Rightarrow> (NodeStop \<Rightarrow> bool) \<Rightarrow> ('s, NodeStop, 'x) fallible \<Rightarrow> bool" where
  "obeys R stops m \<longleftrightarrow> (\<forall>s r s'. m s = (r, s') \<longrightarrow> R s s' \<and> (\<forall>stop. r = Inl stop \<longrightarrow> stops stop))"

lemma obeysD: "obeys R stops m \<Longrightarrow> m s = (r, s') \<Longrightarrow> R s s'"
  by (auto simp: obeys_def)

lemma obeys_stops: "obeys R stops m \<Longrightarrow> m s = (Inl stop, s') \<Longrightarrow> stops stop"
  by (auto simp: obeys_def)

lemma obeys_if [issue_rules]: "(b \<Longrightarrow> obeys R stops m) \<Longrightarrow> (\<not> b \<Longrightarrow> obeys R stops n) \<Longrightarrow> obeys R stops (if b then m else n)"
  by simp

lemma obeys_option [issue_rules]:
  "(v = None \<Longrightarrow> obeys R stops m) \<Longrightarrow> (\<And>x. v = Some x \<Longrightarrow> obeys R stops (f x)) \<Longrightarrow>
   obeys R stops (case v of None \<Rightarrow> m | Some x \<Rightarrow> f x)"
  by (cases v) simp_all

lemma obeys_prod [issue_rules]: "(\<And>a b. v = (a, b) \<Longrightarrow> obeys R stops (f a b)) \<Longrightarrow> obeys R stops (case v of (a, b) \<Rightarrow> f a b)"
  by (cases v) simp

lemma obeys_let [issue_rules]: "(\<And>x. x = v \<Longrightarrow> obeys R stops (f x)) \<Longrightarrow> obeys R stops (let x = v in f x)"
  by simp

lemma obeys_profile [issue_rules]: "(\<And>p. obeys R stops (f p)) \<Longrightarrow> obeys R stops (with_profile f)"
  by (auto simp: obeys_def with_profile_def)

text \<open>A request that may carry a transaction.\<close>

abbreviation submit_names :: "string set" where
  "submit_names \<equiv> {''txpool.submit_hex_transaction2'', ''txpool.submit_hex_transaction''}"

definition carries_transaction :: "RpcRequest \<Rightarrow> bool" where
  "carries_transaction r \<longleftrightarrow> rq_method r \<in> submit_names \<and> rq_params r \<noteq> VArray []"

section \<open>The steps of the client\<close>

locale client_relation =
  fixes R :: "'z NodeRpcClient_scheme \<Rightarrow> 'z NodeRpcClient_scheme \<Rightarrow> bool" and stops :: "NodeStop \<Rightarrow> bool"
  assumes R_refl: "R s s" and R_trans: "R s t \<Longrightarrow> R t u \<Longrightarrow> R s u"
    and R_clocks: "R s (s\<lparr>nw_instants := Suc (nw_instants s)\<rparr>)" "R s (s\<lparr>nw_utcs := Suc (nw_utcs s)\<rparr>)"
    and R_timeout: "R s (s\<lparr>nw_timeouts := n, nw_cut := k\<rparr>)" "R s (s\<lparr>nw_cut := k\<rparr>)"
    and R_caches: "R s (s\<lparr>rp_chain_info_cache := c\<rparr>)" "R s (s\<lparr>rp_abi_cache := c\<rparr>)"
    and R_request: "\<not> carries_transaction q \<Longrightarrow> R s (s\<lparr>rp_next_id := i, nw_sent := q # nw_sent s\<rparr>)"
    and stops_basic: "stops (Raised e)" "stops Panicked" "stops Dropped"
begin

lemma obeys_bind [issue_rules]:
  assumes "obeys R stops m" "\<And>x. obeys R stops (f x)"
  shows "obeys R stops (bind m f)"
  unfolding obeys_def
proof (intro allI impI)
  fix s r s' assume h: "bind m f s = (r, s')"
  obtain y s1 where m: "m s = (y, s1)" by fastforce
  show "R s s' \<and> (\<forall>stop. r = Inl stop \<longrightarrow> stops stop)"
    using h m assms R_trans unfolding obeys_def bind_def by (cases y) fastforce+
qed

lemma obeys_match [issue_rules]:
  assumes "obeys R stops m" "\<And>x. obeys R stops (f x)" "\<And>e. obeys R stops (g e)"
  shows "obeys R stops (match_result m f g)"
  unfolding obeys_def
proof (intro allI impI)
  fix s r s' assume h: "match_result m f g s = (r, s')"
  obtain y s1 where m: "m s = (y, s1)" by fastforce
  show "R s s' \<and> (\<forall>stop. r = Inl stop \<longrightarrow> stops stop)"
    using h m assms R_trans unfolding obeys_def match_result_def by (cases y) (fastforce split: NodeStop.splits)+
qed

lemma obeys_basic [issue_rules]:
  "obeys R stops (ok x)" "obeys R stops (raise ex)" "obeys R stops (tried r)" "obeys R stops (duration_add a b)"
  by (auto simp: obeys_def ok_def err_def raise_def tried_def duration_add_def R_refl stops_basic split: sum.splits if_splits)

lemma obeys_clocks [issue_rules]: "obeys R stops (read_instant E)" "obeys R stops (read_utc E)" "obeys R stops (rfc3339_now E)"
  by (auto simp: obeys_def read_instant_def read_utc_def rfc3339_now_def bind_def ok_def R_clocks)

lemma obeys_timeout [issue_rules]:
  assumes "obeys R stops m" "stops late"
  shows "obeys R stops (with_timeout E late m)"
  unfolding obeys_def
proof (intro allI impI)
  fix s r s' assume h: "with_timeout E late m s = (r, s')"
  obtain y s1 where m: "m (s\<lparr>nw_timeouts := Suc (nw_timeouts s), nw_cut := ev_drop E (nw_timeouts s)\<rparr>) = (y, s1)" by fastforce
  from obeysD [OF assms(1) m] have "R s s1" using R_timeout(1) R_trans by blast
  then have "R s (s1\<lparr>nw_cut := None\<rparr>)" using R_timeout(2) R_trans by blast
  with h m assms obeys_stops [OF assms(1)] show "R s s' \<and> (\<forall>stop. r = Inl stop \<longrightarrow> stops stop)"
    by (auto simp: with_timeout_def split: sum.splits NodeStop.splits)
qed

lemma obeys_call [issue_rules]:
  assumes "method \<notin> submit_names \<or> params = VArray []"
  shows "obeys R stops (rpc_call E decode method params)"
  unfolding obeys_def
proof (intro allI impI)
  fix s :: "'z NodeRpcClient_scheme" and r s' assume h: "rpc_call E decode method params s = (r, s')"
  let ?q = "\<lparr>rq_id = rp_next_id s, rq_method = method, rq_params = params\<rparr>"
  let ?s = "s\<lparr>rp_next_id := rp_next_id s + 1, nw_sent := ?q # nw_sent s\<rparr>"
  have "R s ?s" by (rule R_request) (use assms in \<open>auto simp: carries_transaction_def\<close>)
  moreover from this have "R s (?s\<lparr>nw_cut := k\<rparr>)" for k using R_timeout(2) R_trans by blast
  ultimately show "R s s' \<and> (\<forall>stop. r = Inl stop \<longrightarrow> stops stop)"
    using h by (auto simp: rpc_call_def Let_def stops_basic split: option.splits nat.splits sum.splits)
qed

lemma obeys_first_available:
  assumes "set names \<inter> submit_names = {}"
  shows "obeys R stops (first_available E decode candidates names params)"
  using assms
proof (induction E decode candidates names params rule: first_available.induct)
  case (1 E decode candidates params)
  then show ?case by (simp add: issue_rules)
next
  case (2 E decode candidates name names params)
  then show ?case by (simp only: first_available.simps) (intro issue_rules; auto)
qed

lemma obeys_available [issue_rules]:
  assumes "set methods \<inter> submit_names = {}"
  shows "obeys R stops (call_first_available_value E methods params)" "obeys R stops (call_first_available E methods params)"
    "obeys R stops (call_first_available_vec E methods params)"
  unfolding call_first_available_value_def call_first_available_def call_first_available_vec_def
  by (rule obeys_first_available [OF assms])+

lemma obeys_calls [issue_rules]:
  assumes "method \<notin> submit_names \<or> params = VArray []"
  shows "obeys R stops (call_value E method params)" "obeys R stops (optional_call_value E method params)"
    "obeys R stops (probe_method_supported E method params)"
  unfolding call_value_def optional_call_value_def probe_method_supported_def by (intro issue_rules assms)+

lemma obeys_any:
  assumes "set names \<inter> submit_names = {} \<or> params = VArray []"
  shows "obeys R stops (supports_any_method E names params)"
  using assms
proof (induction E names params rule: supports_any_method.induct)
  case (1 E params)
  then show ?case by (simp add: issue_rules)
next
  case (2 E name names params)
  then show ?case by (simp only: supports_any_method.simps) (intro issue_rules; auto)
qed

lemma obeys_either [issue_rules]:
  assumes "preferred \<notin> submit_names \<and> fallback \<notin> submit_names \<or> params = VArray []"
  shows "obeys R stops (supports_either E preferred fallback params)"
  unfolding supports_either_def
  by (intro issue_rules obeys_any; use assms in \<open>auto simp: transaction_methods_def split: VmProfile.splits\<close>)

lemma transaction_methods_plain:
  "preferred \<notin> submit_names \<Longrightarrow> fallback \<notin> submit_names \<Longrightarrow> set (transaction_methods p preferred fallback) \<inter> submit_names = {}"
  by (cases p) (auto simp: transaction_methods_def)

subsection \<open>The operations of the client\<close>

lemma obeys_cached:
  assumes "obeys R stops loader" "\<And>c s. R s (upd (\<lambda>_. c) s)"
  shows "obeys R stops (cached_value E sel upd key loader)"
proof -
  have get: "obeys R stops (\<lambda>s. cache_get E (sel s) key s)"
    by (auto simp: obeys_def cache_get_def read_instant_def bind_def ok_def R_refl R_clocks split: option.splits)
  have put: "obeys R stops (\<lambda>s. cache_insert E (sel s) key v s)" for v
    by (auto simp: obeys_def cache_insert_def read_instant_def bind_def ok_def R_refl R_clocks split: if_splits)
  have "obeys R stops (\<lambda>s. (Inr v, upd (\<lambda>_. c) s))" for v c
    using assms(2) by (auto simp: obeys_def)
  then show ?thesis
    unfolding cached_value_def by (intro issue_rules get put assms(1))
qed

lemma obeys_caches:
  assumes "obeys R stops loader"
  shows "obeys R stops (cached_value E sel rp_chain_info_cache_update key loader)"
    "obeys R stops (cached_value E sel rp_abi_cache_update key loader)"
  by (rule obeys_cached [OF assms]; simp only: R_caches)+

lemma obeys_infos [issue_rules]:
  "obeys R stops (node_info E)" "obeys R stops (chain_info_uncached E)" "obeys R stops (chain_info E)" "obeys R stops (node_peers E)" "obeys R stops (sync_status E)"
  "obeys R stops (txpool_state E)"
  unfolding node_info_def chain_info_uncached_def chain_info_def node_peers_def sync_status_def txpool_state_def
  by (intro obeys_caches issue_rules transaction_methods_plain; simp)+

lemma obeys_lookups [issue_rules]:
  "obeys R stops (rpc_get_block E h n d raw)" "obeys R stops (rpc_list_blocks E from_block k rv)" "obeys R stops (rpc_get_transaction E hash d)"
  "obeys R stops (rpc_get_transaction_info E hash)" "obeys R stops (rpc_get_events_by_txn_hash E hash d)" "obeys R stops (rpc_get_events E q limit)"
  "obeys R stops (rpc_call_view_function E fid tys args)" "obeys R stops (rpc_gas_price E)" "obeys R stops (next_sequence_number E a)"
  "obeys R stops (dry_run_raw E raw_hex key)" "obeys R stops (rpc_list_code E a res root)" "obeys R stops (get_primary_stc_balance_resource E a)"
  unfolding rpc_get_block_def rpc_list_blocks_def rpc_get_transaction_def rpc_get_transaction_info_def rpc_get_events_by_txn_hash_def
    rpc_get_events_def rpc_call_view_function_def rpc_gas_price_def next_sequence_number_def dry_run_raw_def rpc_list_code_def
    get_primary_stc_balance_resource_def
  by (intro issue_rules transaction_methods_plain; simp)+

lemma obeys_listings [issue_rules]:
  "obeys R stops (list_resources_via_vm2 E a d i k root tys)" "obeys R stops (rpc_list_resources E a d i k root tys)"
  "obeys R stops (account_state_from_vm2_resources E a)" "obeys R stops (account_state_from_resource_listing E a)" "obeys R stops (rpc_get_account_state E a)"
  unfolding list_resources_via_vm2_def rpc_list_resources_def account_state_from_vm2_resources_def
    account_state_from_resource_listing_def rpc_get_account_state_def Let_def list_resources_via_vm2_def
  by (intro issue_rules transaction_methods_plain; simp)+

lemma obeys_abi [issue_rules]:
  "obeys R stops (rpc_resolve_function_abi E f)" "obeys R stops (rpc_resolve_struct_abi E f)" "obeys R stops (rpc_resolve_module_abi E f)"
  unfolding rpc_resolve_function_abi_def rpc_resolve_struct_abi_def rpc_resolve_module_abi_def resolve_abi_def
  by (intro obeys_caches issue_rules transaction_methods_plain; simp)+

lemma obeys_probe [issue_rules]: "obeys R stops (probe E b)"
  unfolding probe_def probe_block_listing_def probe_transaction_lookup_def probe_transaction_info_lookup_def
    probe_transaction_events_by_hash_def probe_account_state_lookup_def probe_events_query_def probe_resource_listing_def
    probe_module_listing_def probe_abi_resolution_def probe_view_call_def probe_submission_def probe_raw_dry_run_def
  by (intro issue_rules transaction_methods_plain; simp)

end

section \<open>The steps of the runtime\<close>

locale app_relation = client_relation R stops
  for R :: "AppContext \<Rightarrow> AppContext \<Rightarrow> bool" and stops :: "NodeStop \<Rightarrow> bool" +
  assumes R_app: "R s (s\<lparr>ap_transaction_probe := p\<rparr>)" "R s (s\<lparr>ap_prepared_transactions := f\<rparr>)" "R s (s\<lparr>ap_unresolved_submissions := g\<rparr>)"
    and R_permits: "R s (s\<lparr>ap_watch_permits := k\<rparr>)" "R s (s\<lparr>ap_expensive_permits := k\<rparr>)"
begin

lemma obeys_app [issue_rules]: "obeys R stops (asks f)" "obeys R stops (configured g)"
  by (auto simp: obeys_def asks_def configured_def R_refl)

lemma obeys_updates [issue_rules]: "(\<And>s. R s (f s)) \<Longrightarrow> obeys R stops (updates f)"
  by (simp add: obeys_def updates_def)

lemma obeys_permits [issue_rules]:
  assumes "obeys R stops m"
  shows "obeys R stops (try_watch_permit m)" "obeys R stops (try_expensive_permit m)"
proof -
  show "obeys R stops (try_watch_permit m)"
    unfolding obeys_def
  proof (intro allI impI)
    fix s r s' assume h: "try_watch_permit m s = (r, s')"
    obtain y s1 where m: "m (s\<lparr>ap_watch_permits := ap_watch_permits s - 1\<rparr>) = (y, s1)" by fastforce
    from obeysD [OF assms m] have "R s (s1\<lparr>ap_watch_permits := n\<rparr>)" for n using R_permits(1) R_trans by blast
    with h m obeys_stops [OF assms] show "R s s' \<and> (\<forall>stop. r = Inl stop \<longrightarrow> stops stop)"
      by (auto simp: try_watch_permit_def R_refl stops_basic split: if_splits)
  qed
  show "obeys R stops (try_expensive_permit m)"
    unfolding obeys_def
  proof (intro allI impI)
    fix s r s' assume h: "try_expensive_permit m s = (r, s')"
    obtain y s1 where m: "m (s\<lparr>ap_expensive_permits := ap_expensive_permits s - 1\<rparr>) = (y, s1)" by fastforce
    from obeysD [OF assms m] have "R s (s1\<lparr>ap_expensive_permits := n\<rparr>)" for n using R_permits(2) R_trans by blast
    with h m obeys_stops [OF assms] show "R s s' \<and> (\<forall>stop. r = Inl stop \<longrightarrow> stops stop)"
      by (auto simp: try_expensive_permit_def R_refl stops_basic split: if_splits)
  qed
qed

lemma obeys_checks [issue_rules]:
  "obeys R stops (refresh_transaction_probe E)" "obeys R stops (ensure_transaction_capabilities_current E)" "obeys R stops (load_transaction_endpoint_snapshot E)"
  unfolding refresh_transaction_probe_def ensure_transaction_capabilities_current_def load_transaction_endpoint_snapshot_def
  by (intro issue_rules R_app stops_basic; simp)+

lemma obeys_records [issue_rules]:
  "obeys R stops (prune_prepared_transactions E)" "obeys R stops (load_prepared_transaction_record E h)"
  "obeys R stops (record_prepared_transaction E h ctx st)" "obeys R stops (prune_unresolved_submissions E)"
  "obeys R stops (has_unresolved_submission E h)" "obeys R stops (record_unresolved_submission E h)" "obeys R stops (clear_unresolved_submission h)"
  unfolding prune_prepared_transactions_def load_prepared_transaction_record_def record_prepared_transaction_def
    prune_unresolved_submissions_def has_unresolved_submission_def record_unresolved_submission_def clear_unresolved_submission_def
    retention_def
  by (intro issue_rules R_app stops_basic; simp)+

lemma obeys_sequence [issue_rules]:
  "obeys R stops (resolve_sequence_number E a n)" "obeys R stops (resolve_gas_price E g)" "obeys R stops (signed_transaction_sequence_is_stale E V stx)"
  "obeys R stops (dry_run_prepared E h k)"
  unfolding resolve_sequence_number_def resolve_gas_price_def signed_transaction_sequence_is_stale_def dry_run_prepared_def
  by (intro issue_rules R_app stops_basic; simp)+

lemma obeys_prepare [issue_rules]: "obeys R stops (prepare_transaction E V a inp p what summary d)"
  unfolding prepare_transaction_def by (intro issue_rules)

lemma obeys_preparations [issue_rules]:
  "obeys R stops (prepare_transfer E V t)" "obeys R stops (prepare_contract_call E V u)" "obeys R stops (prepare_publish_package E V k)"
  "obeys R stops (simulate_raw_transaction E V r)"
  unfolding prepare_transfer_def prepare_contract_call_def prepare_publish_package_def simulate_raw_transaction_def
  by (intro issue_rules)+

lemma obeys_get_transaction [issue_rules]: "obeys R stops (get_transaction E inp)" "obeys R stops (watch_look E h)" "obeys R stops (unix_seconds E)"
  unfolding get_transaction_def watch_look_def unix_seconds_def by (intro issue_rules)+

lemma obeys_queries [issue_rules]:
  "obeys R stops (chain_status E)" "obeys R stops (node_health E)" "obeys R stops (get_block E b)" "obeys R stops (list_blocks E lb)" "obeys R stops (get_events E gv)"
  "obeys R stops (list_resources E lr)" "obeys R stops (list_modules E lm)" "obeys R stops (get_account_overview E V ao)"
  "obeys R stops (resolve_function_abi E f)" "obeys R stops (resolve_struct_abi E f)" "obeys R stops (resolve_module_abi E f)" "obeys R stops (call_view_function E cv)"
  unfolding chain_status_def node_health_def reported_def get_block_def list_blocks_def get_events_def list_resources_def
    list_modules_def get_account_overview_def overview_resources_def overview_modules_def resolve_state_root_def
    load_optional_next_sequence_number_hint_def resolve_function_abi_def resolve_struct_abi_def resolve_module_abi_def
    resolve_abi_tool_def call_view_function_def
  by (intro issue_rules)+

end

section \<open>No transaction is sent\<close>

definition submissions :: "'z NodeWorld_scheme \<Rightarrow> RpcRequest list" where
  "submissions s = filter carries_transaction (nw_sent s)"

definition idle_step :: "AppContext \<Rightarrow> AppContext \<Rightarrow> bool" where
  "idle_step s s' \<longleftrightarrow> submissions s' = submissions s \<and> ap_config s' = ap_config s \<and> rp_vm_profile s' = rp_vm_profile s"

abbreviation quiet :: "'x app \<Rightarrow> bool" where
  "quiet m \<equiv> obeys idle_step (\<lambda>_. True) m"

interpretation quiet: app_relation idle_step "\<lambda>_. True"
  by unfold_locales (auto simp: idle_step_def submissions_def)

definition quiet_start :: "NodeRpcClient \<Rightarrow> NodeRpcClient \<Rightarrow> bool" where
  "quiet_start s s' \<longleftrightarrow> submissions s' = submissions s \<and> rp_vm_profile s' = rp_vm_profile s"

interpretation starting: client_relation quiet_start "\<lambda>_. True"
  by unfold_locales (auto simp: quiet_start_def submissions_def)

lemma quiet_watch_loop: "quiet (watch_loop E plan n seen)"
proof (induction n arbitrary: seen)
  case 0
  then show ?case by (simp add: obeys_def err_def idle_step_def)
next
  case (Suc n)
  have "quiet (sleep d)" for d by (simp add: obeys_def sleep_def idle_step_def submissions_def)
  then show ?case by (simp only: watch_loop.simps) (intro issue_rules Suc.IH)
qed

lemma quiet_watch [issue_rules]: "quiet (watch_transaction E n inp)"
  unfolding watch_transaction_def by (intro issue_rules quiet_watch_loop)

section \<open>Time passes by sleeping\<close>

definition awake_step :: "AppContext \<Rightarrow> AppContext \<Rightarrow> bool" where
  "awake_step s s' \<longleftrightarrow> nw_slept s' = nw_slept s \<and> nw_utcs s \<le> nw_utcs s' \<and> ap_config s' = ap_config s"

interpretation awake: app_relation awake_step "\<lambda>stop. stop \<noteq> StillWatching"
  by unfold_locales (auto simp: awake_step_def)

end
