(* ===== verification/Node_Safety.thy ===== *)
theory Node_Safety
  imports Node_Rules
begin

text \<open>
  When the node client submits a transaction, how often, and what it does after an outcome it could not learn.
\<close>

section \<open>Outcomes of single steps\<close>

lemma tried_outcome [simp]:
  "tried r s = (Inr x, s') \<longleftrightarrow> r = Inr x \<and> s' = s"
  "tried r s = (Inl stop, s') \<longleftrightarrow> (\<exists>e. r = Inl e \<and> stop = Raised e) \<and> s' = s"
  by (cases r; auto simp: tried_def raise_def ok_def err_def)+

lemma asks_outcome [simp]:
  "asks f s = (Inr x, s') \<longleftrightarrow> x = f s \<and> s' = s" "asks f s \<noteq> (Inl stop, s')"
  "configured g s = (Inr y, s') \<longleftrightarrow> y = g (ap_config s) \<and> s' = s" "configured g s \<noteq> (Inl stop, s')"
  by (auto simp: asks_def configured_def)

lemma raise_outcome [simp]: "raise e s = (r, s') \<longleftrightarrow> r = Inl (Raised e) \<and> s' = s"
  by (auto simp: raise_def err_def)

lemma match_result_cases:
  assumes "match_result m f g s = (r, s')"
  obtains x s1 where "m s = (Inr x, s1)" "f x s1 = (r, s')"
  | e s1 where "m s = (Inl (Raised e), s1)" "g e s1 = (r, s')"
  | stop where "m s = (Inl stop, s')" "r = Inl stop" "\<And>e. stop \<noteq> Raised e"
  using assms by (auto simp: match_result_def split: prod.splits sum.splits NodeStop.splits)

lemma quietD: "quiet m \<Longrightarrow> m s = (r, s') \<Longrightarrow> idle_step s s'"
  by (rule obeysD)

text \<open>A step that carries no transaction and is followed by one that does has succeeded.\<close>

lemma sent_bindE:
  assumes "bind m f s = (r, s')" "submissions s' \<noteq> submissions s" "quiet m"
  obtains x s1 where "m s = (Inr x, s1)" "f x s1 = (r, s')" "submissions s1 = submissions s" "ap_config s1 = ap_config s"
    "rp_vm_profile s1 = rp_vm_profile s"
proof -
  obtain y s1 where m: "m s = (y, s1)" by fastforce
  note quiet = obeysD [OF assms(3) m, unfolded idle_step_def]
  show thesis
  proof (cases y)
    case (Inl e)
    with m assms(1,2) quiet show thesis by (simp add: bind_def)
  next
    case (Inr x)
    with m assms(1) quiet that show thesis by (simp add: bind_def)
  qed
qed

section \<open>What is sent\<close>

definition method_missing :: "NodeEnv \<Rightarrow> RpcRequest list \<Rightarrow> RpcRequest \<Rightarrow> bool" where
  "method_missing E before q \<longleftrightarrow>
     (\<exists>st text body envelope f. ev_http E before q = Answered st text body \<and> ev_envelope E body = Inr envelope \<and>
        re_error envelope = Some f \<and> rf_code f = - 32601)"

lemma map_rpc_error_code_supported [simp]: "map_rpc_error_code t \<noteq> E_UnsupportedOperation"
  by (auto simp: map_rpc_error_code_def Let_def)

lemma interpret_unsupported:
  assumes "interpret_answer E decode m (ev_http E before q) = Inl e" "ne_code e = E_UnsupportedOperation"
  shows "method_missing E before q"
  using assms
  by (auto simp: interpret_answer_def rpc_failure_error_def method_missing_def Let_def split: HttpOutcome.splits if_splits sum.splits
      option.splits)

lemma rpc_call_outcome:
  assumes "rpc_call E decode method params s = (r, s')"
  shows "\<exists>i. nw_sent s' = \<lparr>rq_id = i, rq_method = method, rq_params = params\<rparr> # nw_sent s \<and>
    (\<forall>e. r = Inl (Raised e) \<and> ne_code e = E_UnsupportedOperation \<longrightarrow>
       method_missing E (nw_sent s) \<lparr>rq_id = i, rq_method = method, rq_params = params\<rparr>)"
  using assms interpret_unsupported
  by (auto simp: rpc_call_def Let_def split: option.splits nat.splits sum.splits)

text \<open>
  The candidates are tried in turn: a further request is sent only after the endpoint answered that it does
  not know the method before.
\<close>

lemma first_available_sent:
  assumes "first_available E decode candidates names params s = (r, s')"
  shows "\<exists>new. nw_sent s' = new @ nw_sent s \<and> (\<forall>q \<in> set new. rq_method q \<in> set names \<and> rq_params q = params) \<and>
    (\<forall>xs q ys. new = xs @ q # ys \<and> xs \<noteq> [] \<longrightarrow> method_missing E (ys @ nw_sent s) q)"
  using assms
proof (induction E decode candidates names params arbitrary: s r s' rule: first_available.induct)
  case (1 E decode candidates params)
  then show ?case by auto
next
  case (2 E decode candidates name names params)
  from 2(2) show ?case
    unfolding first_available.simps
  proof (cases rule: match_result_cases)
    case (1 x s1)
    from rpc_call_outcome [OF 1(1)] obtain i where
      "nw_sent s1 = \<lparr>rq_id = i, rq_method = name, rq_params = params\<rparr> # nw_sent s" by blast
    with 1(2) show ?thesis
      by (intro exI [of _ "[\<lparr>rq_id = i, rq_method = name, rq_params = params\<rparr>]"]) (auto simp: ok_def Cons_eq_append_conv)
  next
    case (2 e s1)
    from rpc_call_outcome [OF 2(1)] obtain q where
      q: "nw_sent s1 = q # nw_sent s" "rq_method q = name" "rq_params q = params"
      "ne_code e = E_UnsupportedOperation \<Longrightarrow> method_missing E (nw_sent s) q" by fastforce
    show ?thesis
    proof (cases "ne_code e = E_UnsupportedOperation")
      case True
      with 2(2) have rest: "first_available E decode candidates names params s1 = (r, s')" by simp
      from "2.IH" [OF True rest] obtain new where new: "nw_sent s' = new @ nw_sent s1"
        "\<forall>q \<in> set new. rq_method q \<in> set names \<and> rq_params q = params"
        "\<forall>xs q ys. new = xs @ q # ys \<and> xs \<noteq> [] \<longrightarrow> method_missing E (ys @ nw_sent s1) q"
        by blast
      have "method_missing E (ys @ nw_sent s) p" if "new @ [q] = xs @ p # ys" "xs \<noteq> []" for xs p ys
        using that new(3) q(1,4) True by (cases ys rule: rev_cases) auto
      with new q show ?thesis by (intro exI [of _ "new @ [q]"]) auto
    next
      case False
      with 2 q show ?thesis by (intro exI [of _ "[q]"]) (auto simp: Cons_eq_append_conv)
    qed
  next
    case (3 stop)
    from rpc_call_outcome [OF 3(1)] obtain i where
      "nw_sent s' = \<lparr>rq_id = i, rq_method = name, rq_params = params\<rparr> # nw_sent s" by blast
    then show ?thesis
      by (intro exI [of _ "[\<lparr>rq_id = i, rq_method = name, rq_params = params\<rparr>]"]) (auto simp: Cons_eq_append_conv)
  qed
qed

section \<open>How long a record is kept\<close>

definition keep_for :: "NodeConfig \<Rightarrow> Duration" where
  "keep_for c = nc_max_expiration_ttl c + nc_max_watch_timeout c"

definition kept_at :: "NodeConfig \<Rightarrow> int \<Rightarrow> int \<Rightarrow> bool" where
  "kept_at c now t \<longleftrightarrow> elapsed t now \<le> keep_for c"

lemma retention_run:
  "retention s = (if keep_for (ap_config s) div 1000000000 < 2 ^ 64 then Inr (keep_for (ap_config s)) else Inl Panicked, s)"
  by (simp add: retention_def duration_add_def keep_for_def bind_def configured_def asks_def ok_def err_def)

lemma load_prepared_Inr:
  assumes "load_prepared_transaction_record E h s = (Inr x, s')"
  shows "x = (case ap_prepared_transactions s h of
      None \<Rightarrow> None | Some p \<Rightarrow> if kept_at (ap_config s) (ev_instant E (nw_instants s)) (pt_recorded_at p) then Some p else None)"
    "nw_instants s' = Suc (nw_instants s)" "ap_unresolved_submissions s' = ap_unresolved_submissions s" "nw_sent s' = nw_sent s"
    "ap_config s' = ap_config s"
  using assms
  by (auto simp: load_prepared_transaction_record_def prune_prepared_transactions_def bind_def retention_run read_instant_def updates_def
      kept_at_def split: if_splits option.splits)

lemma has_unresolved_Inr:
  assumes "has_unresolved_submission E h s = (Inr b, s')"
  shows "b \<longleftrightarrow> (\<exists>t. ap_unresolved_submissions s h = Some t \<and> kept_at (ap_config s) (ev_instant E (nw_instants s)) t)"
    "b \<longrightarrow> ap_unresolved_submissions s' h = ap_unresolved_submissions s h" "nw_sent s' = nw_sent s" "ap_config s' = ap_config s"
  using assms
  by (auto simp: has_unresolved_submission_def prune_unresolved_submissions_def bind_def retention_run read_instant_def updates_def
      kept_at_def split: if_splits option.splits)

lemma record_unresolved_Inr:
  assumes "record_unresolved_submission E h s = (Inr x, s')"
  shows "ap_unresolved_submissions s' h \<noteq> None"
  using assms
  by (auto simp: record_unresolved_submission_def prune_unresolved_submissions_def bind_def retention_run read_instant_def updates_def
      split: if_splits)

section \<open>The pins of the configuration\<close>

definition pinned :: "NodeConfig \<Rightarrow> 8 word \<Rightarrow> ChainContext \<Rightarrow> bool" where
  "pinned c chain ctx \<longleftrightarrow>
     (nc_expected_chain_id c \<noteq> None \<longrightarrow> nc_expected_chain_id c = Some chain) \<and> cc_chain_id ctx = chain \<and>
     (\<forall>net. nc_expected_network c = Some net \<longrightarrow>
        eq_ignore_ascii_case (canonicalize_network_name net) (canonicalize_network_name (cc_network ctx))) \<and>
     (nc_require_genesis_hash_match c \<and> nc_expected_genesis_hash c \<noteq> None \<longrightarrow>
        nc_expected_genesis_hash c = Some (cc_genesis_hash ctx))"

lemma snapshot_pinned:
  assumes "load_transaction_endpoint_snapshot E s = (Inr snap, s')"
  shows "pinned (ap_config s) (cc_chain_id (sn_chain_context snap)) (sn_chain_context snap)"
proof -
  from assms[unfolded load_transaction_endpoint_snapshot_def]
  obtain ni s1 ci s2 t s3 where steps: "node_info E s = (Inr ni, s1)" "chain_info_uncached E s1 = (Inr ci, s2)"
      "validate_chain_identity (ap_config s2) ni ci = Inr ()" "extract_chain_context ni ci t = Inr (sn_chain_context snap)"
    by (elim bind_InrE) (auto simp: ok_def)
  have "ap_config s2 = ap_config s"
    using obeysD [OF quiet.obeys_infos(1) steps(1)] obeysD [OF quiet.obeys_infos(2) steps(2)] by (simp add: idle_step_def)
  with validate_chain_identity_Inr [OF steps(3,4)] show ?thesis by (auto simp: pinned_def)
qed

lemma pinned_same_chain: "pinned c chain ctx \<Longrightarrow> same_chain prepared ctx \<Longrightarrow> pinned c chain prepared"
  by (auto simp: pinned_def same_chain_def)

section \<open>The guards of a submission\<close>

lemma check_and_send_guards:
  assumes "check_and_send E V rounds input stx prepared timeout s = (r, s')" "submissions s' \<noteq> submissions s"
  obtains s1 snap s2 s3 s4 where
    "load_transaction_endpoint_snapshot E s1 = (Inr snap, s2)" "ap_config s1 = ap_config s"
    "validate_prepared_transaction_record prepared (si_prepared_chain_context input) (sn_chain_context snap) = Inr ()"
    "enforce_submit_simulation_policy (nc_allow_submit_without_prior_simulation (ap_config s)) prepared = Inr ()"
    "validate_signed_transaction_submission (vm_signed_raw V stx) (si_prepared_chain_context input) (sn_chain_context snap) = Inr ()"
    "sn_now_seconds snap < ut_expiration_timestamp_secs (vm_signed_raw V stx)"
    "signed_transaction_sequence_is_stale E V stx s3 = (Inr False, s4)"
    "send_submission E rounds input (vm_signed_id V stx) (map_option pt_simulation_status prepared) timeout s4 = (r, s')"
    "submissions s4 = submissions s" "rp_vm_profile s4 = rp_vm_profile s"
proof -
  from assms[unfolded check_and_send_def Let_def]
  show thesis
    by (elim sent_bindE; (intro issue_rules)?) (auto split: if_splits simp: ok_def not_le elim!: sent_bindE intro!: that issue_rules)
qed

text \<open>
  What one submission sends: the signed transaction, under another method name again only when the endpoint
  does not know the one before.
\<close>

definition sent_once :: "NodeEnv \<Rightarrow> VmProfile \<Rightarrow> string \<Rightarrow> RpcRequest list \<Rightarrow> bool" where
  "sent_once E p signed_hex new \<longleftrightarrow>
     (\<forall>q \<in> set new. rq_params q = VArray [VString signed_hex] \<and> rq_method q \<in> set (submit_methods p)) \<and>
     (\<forall>later q earlier. new = later @ q # earlier \<and> later \<noteq> [] \<longrightarrow> (\<exists>before. method_missing E before q))"

lemma rpc_submit_sent:
  assumes "rpc_submit_signed_transaction E signed_hex s = (r, s')"
  shows "\<exists>new. submissions s' = new @ submissions s \<and> sent_once E (rp_vm_profile s) signed_hex new"
proof -
  obtain y s1 where call: "first_available E decode_value (submit_methods (rp_vm_profile s)) (submit_methods (rp_vm_profile s))
      (VArray [VString signed_hex]) s = (y, s1)" by fastforce
  with assms have s': "s' = s1"
    by (cases y) (auto simp: rpc_submit_signed_transaction_def with_profile_def call_first_available_value_def bind_def
        tried_def ok_def raise_def err_def split: sum.splits)
  from first_available_sent [OF call] obtain new where
    new: "nw_sent s1 = new @ nw_sent s" "sent_once E (rp_vm_profile s) signed_hex new"
    unfolding sent_once_def by metis
  moreover from new(2) have "filter carries_transaction new = new"
    by (intro filter_True) (auto simp: sent_once_def carries_transaction_def submit_methods_def transaction_methods_def
        split: VmProfile.splits)
  ultimately show ?thesis unfolding s' by (auto simp: submissions_def)
qed

lemma send_submission_sent:
  assumes "send_submission E rounds input h sim timeout s = (r, s')"
  shows "\<exists>new. submissions s' = new @ submissions s \<and> sent_once E (rp_vm_profile s) (si_signed_txn_bcs_hex input) new"
  using assms[unfolded send_submission_def]
proof (cases rule: match_result_cases)
  case (1 x s1)
  have "idle_step s1 s'"
    using 1(2) by (rule quietD [rotated]) (intro issue_rules)
  with rpc_submit_sent [OF 1(1)] show ?thesis by (simp add: idle_step_def)
next
  case (2 e s1)
  have "idle_step s1 s'"
    using 2(2) by (rule quietD [rotated]) (intro issue_rules)
  with rpc_submit_sent [OF 2(1)] show ?thesis by (simp add: idle_step_def)
next
  case (3 stop)
  with rpc_submit_sent [OF 3(1)] show ?thesis by simp
qed

lemma submit_guards:
  assumes "submit_signed_transaction E V rounds input s = (r, s')" "submissions s' \<noteq> submissions s"
  obtains bytes stx raw_hex prepared s1 s2 where
    "nc_mode (ap_config s) = TransactionMode" "node_decode_hex_bytes V (si_signed_txn_bcs_hex input) = Inr bytes"
    "vm_signed_from_bcs V bytes = Inr stx" "encode_hex_bcs V (vm_signed_raw V stx) = Inr raw_hex"
    "load_prepared_transaction_record E raw_hex s = (Inr prepared, s1)"
    "has_unresolved_submission E (vm_signed_id V stx) s1 = (Inr False, s2)"
    "check_and_send E V rounds input stx prepared
       (effective_submit_timeout_seconds (si_blocking input) (si_timeout_seconds input) (nc_watch_timeout (ap_config s))
          (nc_max_submit_blocking_timeout (ap_config s))) s2 = (r, s')"
    "submissions s2 = submissions s" "ap_config s2 = ap_config s" "rp_vm_profile s2 = rp_vm_profile s"
proof -
  from assms[unfolded submit_signed_transaction_def Let_def]
  show thesis
    by (elim sent_bindE; (intro issue_rules)?)
      (auto split: if_splits simp: ok_def ensure_transaction_mode_def elim!: sent_bindE intro!: that issue_rules)
qed

end
