(* ===== verification/Node_Watch.thy ===== *)
theory Node_Watch
  imports Node_Safety
begin

text \<open>
  Watching a transaction ends: what one round of the loop does, how many rounds there can be, and what a
  confirmation means.
\<close>

section \<open>The clock\<close>

text \<open>
  As long as the program has slept no longer than \<open>limit\<close>, the wall clock moves forward, by at least what
  was slept, and its seconds fit in a signed 64-bit integer.
\<close>

definition clock_advances :: "NodeEnv \<Rightarrow> Duration \<Rightarrow> bool" where
  "clock_advances E limit \<longleftrightarrow>
     (\<forall>d d' n n'. 0 \<le> d \<and> d \<le> d' \<and> d' \<le> limit \<and> n \<le> n' \<longrightarrow> ev_utc E d n + (d' - d) \<le> ev_utc E d' n') \<and>
     (\<forall>d n. 0 \<le> d \<and> d \<le> limit \<longrightarrow> 0 \<le> ev_utc E d n \<and> ev_utc E d n < 2 ^ 63 * 1000000000)"

definition utc_seconds :: "NodeEnv \<Rightarrow> Duration \<Rightarrow> nat \<Rightarrow> int" where
  "utc_seconds E d n = ev_utc E d n div 1000000000"

lemma unix_seconds_run:
  "unix_seconds E s = (Inr (word_of_int (utc_seconds E (nw_slept s) (nw_utcs s))), s\<lparr>nw_utcs := Suc (nw_utcs s)\<rparr>)"
  by (simp add: unix_seconds_def bind_def read_utc_def ok_def utc_seconds_def)

lemma utc_seconds_range:
  assumes "clock_advances E limit" "0 \<le> d" "d \<le> limit"
  shows "0 \<le> utc_seconds E d n" "utc_seconds E d n < 2 ^ 63"
proof -
  have "0 \<le> ev_utc E d n" "ev_utc E d n < 2 ^ 63 * 1000000000" using assms by (simp_all add: clock_advances_def)
  then show "0 \<le> utc_seconds E d n" "utc_seconds E d n < 2 ^ 63" by (simp_all add: utc_seconds_def)
qed

lemma utc_seconds_slept:
  assumes "clock_advances E limit" "0 \<le> d" "d + k * 1000000000 \<le> limit" "0 \<le> k" "n \<le> n'"
  shows "utc_seconds E d n + k \<le> utc_seconds E (d + k * 1000000000) n'"
proof -
  have "ev_utc E d n + k * 1000000000 \<le> ev_utc E (d + k * 1000000000) n'"
    using assms unfolding clock_advances_def by (metis (no_types, opaque_lifting) add_diff_cancel_left' le_add_same_cancel1
        mult_nonneg_nonneg zero_le_numeral)
  then have "(ev_utc E d n + k * 1000000000) div 1000000000 \<le> ev_utc E (d + k * 1000000000) n' div 1000000000"
    by (rule zdiv_mono1) simp
  then show ?thesis by (simp add: utc_seconds_def)
qed

section \<open>One round\<close>

lemma watch_round:
  assumes "watch_loop E plan (Suc n) seen s = (r, s')"
  obtains "r \<noteq> Inl StillWatching" "nw_slept s' = nw_slept s"
  | k s1 seen' where "nw_utcs s \<le> k" "\<not> wp_deadline plan \<le> word_of_int (utc_seconds E (nw_slept s) k)"
      "nw_slept s1 = nw_slept s + duration_secs (wp_poll plan)" "nw_utcs s \<le> nw_utcs s1"
      "watch_loop E plan n seen' s1 = (r, s')"
proof -
  obtain y s1 where look: "watch_look E (wp_txn_hash plan) s = (y, s1)" by fastforce
  have "obeys awake_step (\<lambda>stop. stop \<noteq> StillWatching) (watch_look E h)" for h by (rule issue_rules)
  note awake = obeysD [OF this look, unfolded awake_step_def] and alive = obeys_stops [OF this]
  show thesis
  proof (cases y)
    case (Inl stop)
    with assms look awake alive [of "wp_txn_hash plan" s stop s1] show thesis
      by (intro that(1)) (auto simp: bind_def)
  next
    case (Inr current)
    define s2 where "s2 = (if ts_found (ws_status_summary current)
        then s1\<lparr>ap_unresolved_submissions := (ap_unresolved_submissions s1)(wp_txn_hash plan := None)\<rparr> else s1)"
    have s2: "nw_slept s2 = nw_slept s" "nw_utcs s \<le> nw_utcs s2" using awake by (auto simp: s2_def)
    let ?stop = "wp_deadline plan \<le> word_of_int (utc_seconds E (nw_slept s) (nw_utcs s2))"
    show thesis
    proof (cases "watch_confirmation_satisfied (ws_status_summary current) (ws_confirmed_blocks current) (wp_min_blocks plan) \<or> ?stop")
      case True
      with assms look Inr s2 show thesis
        by (intro that(1))
          (auto simp: bind_def Let_def unix_seconds_run ok_def clear_unresolved_submission_def updates_def s2_def split: if_splits)
    next
      case False
      with assms look Inr s2 show thesis
        by (intro that(2) [of "nw_utcs s2" "s2\<lparr>nw_utcs := Suc (nw_utcs s2), nw_slept := nw_slept s + duration_secs (wp_poll plan)\<rparr>"
              "if ts_found (ws_status_summary current) then current else seen"])
          (auto simp: bind_def Let_def unix_seconds_run ok_def clear_unresolved_submission_def updates_def s2_def sleep_def split: if_splits)
    qed
  qed
qed

section \<open>The loop ends\<close>

lemma watch_loop_ends:
  fixes plan :: WatchPlan
  defines "timeout \<equiv> uint (wp_timeout plan)" and "poll \<equiv> uint (wp_poll plan)"
  assumes clock: "clock_advances E (d0 + (timeout + poll) * 1000000000)" "0 \<le> d0"
    and deadline: "uint (wp_deadline plan) = utc_seconds E d0 n0 + timeout" and poll: "0 < poll"
  shows "watch_loop E plan n seen s = (r, s') \<Longrightarrow> n0 \<le> nw_utcs s \<Longrightarrow> nw_slept s = d0 + int k * poll * 1000000000 \<Longrightarrow>
    int k * poll \<le> timeout + poll \<Longrightarrow> timeout \<le> (int k + int n - 1) * poll \<Longrightarrow> 0 < n \<Longrightarrow>
    r \<noteq> Inl StillWatching \<and> nw_slept s' \<le> d0 + (timeout + poll) * 1000000000"
proof (induction n arbitrary: k s seen)
  case 0
  then show ?case by simp
next
  case (Suc n)
  from Suc.prems(1) show ?case
  proof (cases rule: watch_round)
    case 1
    with Suc.prems(3,4) show ?thesis by simp
  next
    case (2 i s1 seen')
    have slept: "nw_slept s \<le> d0 + (timeout + poll) * 1000000000" "0 \<le> nw_slept s"
      using Suc.prems(3,4) clock(2) poll by simp_all
    have "utc_seconds E d0 n0 + int k * poll \<le> utc_seconds E (nw_slept s) i"
      using utc_seconds_slept [OF clock, of "int k * poll" n0 i] Suc.prems(2-4) 2(1) poll slept by simp
    moreover have "uint (word_of_int (utc_seconds E (nw_slept s) i) :: u64) = utc_seconds E (nw_slept s) i"
      using utc_seconds_range [OF clock(1) slept(2,1), of i] by (simp add: uint_word_of_int)
    ultimately have still: "int k * poll < timeout"
      using 2(2) deadline by (simp add: word_le_def not_le)
    then have "0 < n" using Suc.prems(5) poll by (cases n) (auto simp: algebra_simps)
    moreover have "nw_slept s1 = d0 + int (Suc k) * poll * 1000000000"
      using 2(3) Suc.prems(3) by (simp add: duration_secs_def poll_def algebra_simps)
    moreover have "int (Suc k) * poll \<le> timeout + poll" "timeout \<le> (int (Suc k) + int n - 1) * poll"
      using still Suc.prems(5) by (simp_all add: algebra_simps)
    ultimately show ?thesis using Suc.IH [OF 2(5), of "Suc k"] 2(4) Suc.prems(2) by simp
  qed
qed

section \<open>What a confirmation means\<close>

text \<open>
  A transaction counts as confirmed when its block is part of the pinned chain and, counting its own block,
  enough blocks deep.
\<close>

definition confirmed_deep :: "NodeConfig \<Rightarrow> u64 \<Rightarrow> Value option \<Rightarrow> u64 option \<Rightarrow> bool" where
  "confirmed_deep c min_blocks info inclusion \<longleftrightarrow>
     (\<exists>v b ctx. info = Some v \<and> extract_optional_u64 v [''block_number''] = Some b \<and> inclusion = Some b \<and>
        pinned c (cc_chain_id ctx) ctx \<and>
        (uint min_blocks \<le> 1 \<or> uint b + uint min_blocks \<le> uint (cc_head_block_number ctx) + 1))"

definition seen_sound :: "NodeConfig \<Rightarrow> u64 \<Rightarrow> WatchSeen \<Rightarrow> bool" where
  "seen_sound c min_blocks seen \<longleftrightarrow>
     (watch_confirmation_satisfied (ws_status_summary seen) (ws_confirmed_blocks seen) min_blocks \<longrightarrow>
        confirmed_deep c min_blocks (ws_transaction_info seen) (ws_inclusion_block_number seen))"

lemma depth_reached:
  assumes "min_blocks \<le> u64_saturating_add (u64_saturating_sub head b) 1"
  shows "uint min_blocks \<le> 1 \<or> uint b + uint min_blocks \<le> uint head + 1"
proof (cases "b \<le> head")
  case True
  then have "uint (head - b) = uint head - uint b" by (simp add: uint_minus_simple_alt word_le_def)
  with True assms show ?thesis
    using uint_lt2p [of "head - b"] uint_lt2p [of min_blocks]
    by (auto simp: u64_saturating_add_def u64_saturating_sub_def word_le_def uint_word_ariths split: if_splits)
next
  case False
  with assms show ?thesis by (simp add: u64_saturating_add_def u64_saturating_sub_def word_le_def)
qed

lemma watch_look_sound:
  assumes "watch_look E h s = (Inr current, s')" "1 \<le> min_blocks"
  shows "seen_sound (ap_config s) min_blocks current"
proof -
  from assms(1)[unfolded watch_look_def] obtain g s1 where g: "get_transaction E \<lparr>gt_txn_hash = h, gt_include_events = True, gt_decode = True\<rparr> s = (Inr g, s1)"
    and rest: "bind (if ts_confirmed (gto_status_summary g)
           then bind (load_transaction_endpoint_snapshot E) (\<lambda>snapshot.
                tried (confirmation_depth_from_transaction_info (gto_transaction_info g)
                  (cc_head_block_number (sn_chain_context snapshot))))
           else ok (None, None)) (\<lambda>(confirmed_blocks, inclusion).
     ok \<lparr>ws_status_summary = gto_status_summary g, ws_transaction_info = gto_transaction_info g,
         ws_events = gto_events g, ws_confirmed_blocks = confirmed_blocks, ws_inclusion_block_number = inclusion\<rparr>) s1 = (Inr current, s')"
    by (rule bind_InrE) blast
  have "quiet (get_transaction E i)" for i by (rule issue_rules)
  from quietD [OF this g] have config: "ap_config s1 = ap_config s" by (simp add: idle_step_def)
  show ?thesis
  proof (cases "ts_confirmed (gto_status_summary g)")
    case False
    with rest show ?thesis
      by (auto simp: bind_def ok_def seen_sound_def watch_confirmation_satisfied_def)
  next
    case True
    from rest True obtain snap s2 cb inc where
      snap: "load_transaction_endpoint_snapshot E s1 = (Inr snap, s2)" and
      depth: "confirmation_depth_from_transaction_info (gto_transaction_info g) (cc_head_block_number (sn_chain_context snap)) = Inr (cb, inc)" and
      cur: "current = \<lparr>ws_status_summary = gto_status_summary g, ws_transaction_info = gto_transaction_info g,
         ws_events = gto_events g, ws_confirmed_blocks = cb, ws_inclusion_block_number = inc\<rparr>"
      by (auto simp: ok_apply elim!: bind_InrE)
    show ?thesis
    proof (cases "gto_transaction_info g")
      case None
      with depth cur assms(2) show ?thesis
        by (auto simp: confirmation_depth_from_transaction_info_def seen_sound_def watch_confirmation_satisfied_def unwrap_or_def word_le_def)
    next
      case (Some v)
      with depth obtain b where b: "extract_optional_u64 v [''block_number''] = Some b" "inc = Some b"
          "cb = Some (u64_saturating_add (u64_saturating_sub (cc_head_block_number (sn_chain_context snap)) b) 1)"
        by (auto simp: confirmation_depth_from_transaction_info_def try_bind_Inr)
      with Some cur snapshot_pinned [OF snap] config depth_reached [of min_blocks "cc_head_block_number (sn_chain_context snap)" b]
      show ?thesis
        by (fastforce simp: seen_sound_def confirmed_deep_def watch_confirmation_satisfied_def unwrap_or_def)
    qed
  qed
qed

lemma watch_loop_sound:
  assumes "1 \<le> wp_min_blocks plan"
  shows "watch_loop E plan n seen s = (Inr out, s') \<Longrightarrow> seen_sound (ap_config s) (wp_min_blocks plan) seen \<Longrightarrow>
    (\<exists>seen'. seen_sound (ap_config s) (wp_min_blocks plan) seen' \<and>
       out = watch_output plan (watch_confirmation_satisfied (ws_status_summary seen') (ws_confirmed_blocks seen') (wp_min_blocks plan)) seen')"
proof (induction n arbitrary: seen s)
  case 0
  then show ?case by (simp add: err_def)
next
  case (Suc n)
  from Suc.prems(1) obtain current s1 where look: "watch_look E (wp_txn_hash plan) s = (Inr current, s1)"
    by (auto elim!: bind_InrE)
  have "quiet (watch_look E h)" for h by (rule issue_rules)
  from quietD [OF this look] have config: "ap_config s1 = ap_config s" by (simp add: idle_step_def)
  note sound = watch_look_sound [OF look assms]
  define s2 where "s2 = (if ts_found (ws_status_summary current)
      then s1\<lparr>ap_unresolved_submissions := (ap_unresolved_submissions s1)(wp_txn_hash plan := None)\<rparr> else s1)"
  define seen' where "seen' = (if ts_found (ws_status_summary current) then current else seen)"
  let ?s3 = "s2\<lparr>nw_utcs := Suc (nw_utcs s2), nw_slept := nw_slept s2 + duration_secs (wp_poll plan)\<rparr>"
  have seen': "seen_sound (ap_config s) (wp_min_blocks plan) seen'" using sound Suc.prems(2) by (simp add: seen'_def)
  have "ap_config ?s3 = ap_config s" using config by (simp add: s2_def)
  with seen' Suc.IH [of seen' ?s3]
  have again: "watch_loop E plan n seen' ?s3 = (Inr out, s') \<Longrightarrow> ?case" by simp
  from Suc.prems(1) look
  consider "watch_confirmation_satisfied (ws_status_summary current) (ws_confirmed_blocks current) (wp_min_blocks plan)"
      "out = watch_output plan True current"
    | "out = watch_output plan (watch_confirmation_satisfied (ws_status_summary seen') (ws_confirmed_blocks seen') (wp_min_blocks plan)) seen'"
    | "watch_loop E plan n seen' ?s3 = (Inr out, s')"
    by (auto simp: bind_def Let_def unix_seconds_run ok_def clear_unresolved_submission_def updates_def s2_def seen'_def sleep_def split: if_splits)
  then show ?case
    by cases (use sound seen' again in \<open>auto intro: exI [of _ current]\<close>)
qed

end
