(* ===== verification/Node_Facts.thy ===== *)
theory Node_Facts
  imports Node_Watch
begin

text \<open>
  What a preparation puts into a transaction, and what the caches of the client hold.
\<close>

section \<open>Preparing\<close>

text \<open>A step of a computation that succeeds and sends no transaction.\<close>

lemma quiet_bindE:
  assumes "bind m f s = (Inr y, s')" "quiet m"
  obtains x s1 where "m s = (Inr x, s1)" "ap_config s1 = ap_config s" "f x s1 = (Inr y, s')"
  using assms(1)
proof (rule bind_InrE)
  fix x s1 assume "m s = (Inr x, s1)" "f x s1 = (Inr y, s')"
  with that quietD [OF assms(2)] show thesis by (auto simp: idle_step_def)
qed

lemma record_prepared_Inr:
  assumes "record_prepared_transaction E raw_hex ctx st s = (Inr x, s')"
  shows "\<exists>t. ap_prepared_transactions s' raw_hex = Some \<lparr>pt_simulation_status = st, pt_chain_context = ctx, pt_recorded_at = t\<rparr>"
  using assms
  by (auto simp: record_prepared_transaction_def prune_prepared_transactions_def bind_def retention_run read_instant_def updates_def
      split: if_splits)

definition simulation_agrees :: "string option \<Rightarrow> SimulationStatus \<Rightarrow> SimulationResult option \<Rightarrow> bool" where
  "simulation_agrees key st sim \<longleftrightarrow>
     (case key of
        None \<Rightarrow> st = SimSkippedMissingPublicKey \<and> sim = None
      | Some _ \<Rightarrow> st = SimPerformed \<and> (\<exists>r. sim = Some r \<and> sim_executed r))"

lemma dry_run_prepared_Inr:
  assumes "dry_run_prepared E raw_hex key s = (Inr (st, sim, next_step), s')"
  shows "simulation_agrees key st sim"
  using assms
  by (cases key) (auto simp: dry_run_prepared_def ok_apply executed_or_fail_def simulation_agrees_def elim!: bind_InrE split: if_splits)

text \<open>The transaction whose fields are those of the facts that are reported.\<close>

definition transaction_of_facts :: "'a \<Rightarrow> ('a, 'y, 'k) Payload \<Rightarrow> PreparedExecutionFacts \<Rightarrow> ('a, 'y, 'k) UserTransaction" where
  "transaction_of_facts sender p f =
     \<lparr>ut_sender = sender, ut_sequence_number = ef_sequence_number f, ut_payload = p, ut_max_gas_amount = ef_max_gas_amount f,
      ut_gas_unit_price = ef_gas_unit_price f, ut_expiration_timestamp_secs = ef_expiration_timestamp_secs f,
      ut_chain_id = ef_chain_id f, ut_gas_token_code = ef_gas_token_code f\<rparr>"

lemma prepare_transaction_Inr:
  assumes "prepare_transaction E V sender input p what summary transfer s = (Inr out, s')"
  obtains s1 snap s2 where "nc_mode (ap_config s) = TransactionMode"
    "load_transaction_endpoint_snapshot E s1 = (Inr snap, s2)" "ap_config s1 = ap_config s" "po_chain_context out = sn_chain_context snap"
    "ef_chain_id (po_execution_facts out) = cc_chain_id (sn_chain_context snap)"
    "resolve_expiration (ap_config s) (sn_now_seconds snap) (pi_expiration_time_secs input) =
       Inr (ef_expiration_timestamp_secs (po_execution_facts out))"
    "encode_hex_bcs V (transaction_of_facts sender p (po_execution_facts out)) = Inr (po_raw_txn_bcs_hex out)"
    "ef_estimated_max_network_fee (po_execution_facts out) =
       multiply_u64_to_string (ef_max_gas_amount (po_execution_facts out)) (ef_gas_unit_price (po_execution_facts out))"
    "\<exists>t. ap_prepared_transactions s' (po_raw_txn_bcs_hex out) =
       Some \<lparr>pt_simulation_status = po_simulation_status out, pt_chain_context = po_chain_context out, pt_recorded_at = t\<rparr>"
    "simulation_agrees (pi_sender_public_key input) (po_simulation_status out) (po_simulation out)"
proof -
  from assms[unfolded prepare_transaction_def Let_def]
  show thesis
    by (elim quiet_bindE; (intro issue_rules)?)
      (auto simp: ensure_transaction_mode_def ok_apply build_raw_transaction_def transaction_of_facts_def
        split: if_splits prod.splits elim!: quiet_bindE dest!: dry_run_prepared_Inr record_prepared_Inr
        intro!: that issue_rules)
qed

text \<open>An expiration time lies between the time of the node and the configured maximum after it.\<close>

lemma saturating_add_bounds:
  "a \<le> u64_saturating_add a b" "b \<le> b' \<Longrightarrow> u64_saturating_add a b \<le> u64_saturating_add a b'"
  using uint_lt2p [of a] uint_lt2p [of b] uint_lt2p [of b'] by (auto simp: u64_saturating_add_def word_le_def uint_word_ariths)

lemma resolve_expiration_bounds:
  assumes "resolve_expiration c now_seconds requested = Inr x"
    "as_secs (nc_default_expiration_ttl c) \<le> as_secs (nc_max_expiration_ttl c)"
  shows "now_seconds \<le> x \<and> x \<le> u64_saturating_add now_seconds (as_secs (nc_max_expiration_ttl c))"
  using assms saturating_add_bounds
  by (auto simp: resolve_expiration_def not_less split: option.splits if_splits)

section \<open>The caches\<close>

text \<open>
  A cache holds at most as many entries as it may, each key once; what is inserted is what is found, until it is
  older than allowed.
\<close>

definition cache_ok :: "TimedValueCache \<Rightarrow> bool" where
  "cache_ok c \<longleftrightarrow> int (length (tc_entries c)) \<le> uint (tc_capacity c) \<and> distinct (map fst (tc_entries c))"

lemma filter_key_length:
  assumes "distinct (map fst es)" "k \<in> fst ` set es"
  shows "length (filter (\<lambda>e. fst e \<noteq> k) es) < length es"
  using assms(2) by (induction es) (auto intro: le_imp_less_Suc)

lemma evict_one_length: "es \<noteq> [] \<Longrightarrow> distinct (map fst es) \<Longrightarrow> length (evict_one E es) < length es"
  by (simp add: evict_one_def Let_def filter_key_length)

lemma evict_one_set: "set (evict_one E es) \<subseteq> set es" "distinct (map fst es) \<Longrightarrow> distinct (map fst (evict_one E es))"
  by (auto simp: evict_one_def Let_def distinct_map_filter)

lemma cache_put_ok:
  assumes "cache_ok c" "tc_capacity c \<noteq> 0"
  shows "cache_ok (cache_put E key v c)"
proof -
  let ?es = "if uint (tc_capacity c) \<le> int (length (tc_entries c)) then evict_one E (tc_entries c) else tc_entries c"
  have "0 < uint (tc_capacity c)" using assms(2) by (simp add: word_neq_0_conv word_less_def)
  then have "int (length ?es) < uint (tc_capacity c)"
    using assms(1) evict_one_length [of "tc_entries c" E] by (cases "tc_entries c = []") (auto simp: cache_ok_def)
  moreover have "length (filter (\<lambda>e. fst e \<noteq> key) ?es) \<le> length ?es" by (rule length_filter_le)
  ultimately show ?thesis
    using assms(1) evict_one_set(2) [of "tc_entries c" E]
    by (auto simp: cache_ok_def cache_put_def Let_def distinct_map_filter simp del: length_filter_le)
qed

lemma cache_put_finds: "map_of (tc_entries (cache_put E key v c)) key = Some v"
  by (simp add: cache_put_def Let_def)

lemma rpc_call_keeps_caches:
  assumes "rpc_call E decode method params s = (r, s')"
  shows "rp_abi_cache s' = rp_abi_cache s"
  using assms by (auto simp: rpc_call_def Let_def split: option.splits nat.splits)

lemma first_available_keeps_caches:
  assumes "first_available E decode candidates names params s = (r, s')"
  shows "rp_abi_cache s' = rp_abi_cache s"
  using assms
proof (induction E decode candidates names params arbitrary: s rule: first_available.induct)
  case (1 E decode candidates params)
  then show ?case by simp
next
  case (2 E decode candidates name names params)
  from 2(2)[unfolded first_available.simps] show ?case
    by (cases rule: match_result_cases) (auto simp: ok_apply dest!: rpc_call_keeps_caches "2.IH" split: if_splits)
qed

text \<open>The value a cache has for a key at a time.\<close>

definition cache_hit :: "TimedValueCache \<Rightarrow> string \<Rightarrow> int \<Rightarrow> Value option" where
  "cache_hit c key now =
     (case map_of (tc_entries c) key of
        None \<Rightarrow> None
      | Some e \<Rightarrow> if elapsed (cv_inserted_at e) now \<le> tc_ttl c then Some (cv_value e) else None)"

lemma cache_get_run: "\<exists>n. cache_get E c key s = (Inr (cache_hit c key (ev_instant E (nw_instants s))), s\<lparr>nw_instants := n\<rparr>)"
  by (cases "map_of (tc_entries c) key")
    (auto simp: cache_get_def cache_hit_def ok_apply bind_def read_instant_def intro: exI [of _ "nw_instants s"])

lemma cached_abi_cases:
  assumes "cached_value E rp_abi_cache rp_abi_cache_update key loader s = (r, s')"
    and loader: "\<And>s r s'. loader s = (r, s') \<Longrightarrow> rp_abi_cache s' = rp_abi_cache s"
  obtains v where "cache_hit (rp_abi_cache s) key (ev_instant E (nw_instants s)) = Some v"
      "r = Inr v" "nw_sent s' = nw_sent s" "rp_abi_cache s' = rp_abi_cache s"
  | "cache_hit (rp_abi_cache s) key (ev_instant E (nw_instants s)) = None"
      "rp_abi_cache s' = rp_abi_cache s" "tc_capacity (rp_abi_cache s) = 0 \<or> isl r"
  | v t where "cache_hit (rp_abi_cache s) key (ev_instant E (nw_instants s)) = None" "r = Inr v"
      "tc_capacity (rp_abi_cache s) \<noteq> 0"
      "rp_abi_cache s' = cache_put E key \<lparr>cv_inserted_at = t, cv_value = v\<rparr> (rp_abi_cache s)"
proof -
  from cache_get_run [of E "rp_abi_cache s" key s] obtain n where
    get: "cache_get E (rp_abi_cache s) key s = (Inr (cache_hit (rp_abi_cache s) key (ev_instant E (nw_instants s))), s\<lparr>nw_instants := n\<rparr>)" ..
  obtain y s2 where load: "loader (s\<lparr>nw_instants := n\<rparr>) = (y, s2)" by fastforce
  with loader have s2: "rp_abi_cache s2 = rp_abi_cache s" by fastforce
  note run = assms(1)[unfolded cached_value_def bind_def get prod.case sum.case]
  show thesis
  proof (cases "cache_hit (rp_abi_cache s) key (ev_instant E (nw_instants s))")
    case (Some v)
    with run show thesis by (intro that(1) [of v]) (auto simp: ok_apply)
  next
    case None
    show thesis
    proof (cases "tc_capacity (rp_abi_cache s) = 0 \<or> isl y")
      case True
      with run load None s2 show thesis
        by (intro that(2)) (auto simp: bind_def ok_apply cache_insert_def isl_def split: sum.splits)
    next
      case False
      then obtain v where "y = Inr v" by (cases y) auto
      with run load None s2 False show thesis
        by (intro that(3) [of v "ev_instant E (nw_instants s2)"]) (auto simp: bind_def ok_apply cache_insert_def read_instant_def)
    qed
  qed
qed

lemma abi_loader_keeps_caches:
  assumes "with_profile (\<lambda>p. call_first_available_value E (ms p) params) s = (r, s')"
  shows "rp_abi_cache s' = rp_abi_cache s"
  using assms by (auto simp: with_profile_def call_first_available_value_def dest: first_available_keeps_caches)

end
