(* ===== verification/Node_Runs.thy ===== *)
theory Node_Runs
  imports Node_Facts
begin

text \<open>
  What whole operations of the node client do: the guards a submission passed, what follows an outcome that
  could not be learned, the loop behind a watch, the configuration the program starts with, and the tool a
  transaction is sent by.
\<close>

section \<open>Submitting\<close>

lemma submit_sends:
  assumes "submit_signed_transaction E V rounds input s = (r, s')" "submissions s' \<noteq> submissions s"
  shows "\<exists>new. submissions s' = new @ submissions s \<and> sent_once E (rp_vm_profile s) (si_signed_txn_bcs_hex input) new"
proof -
  from submit_guards [OF assms] obtain stx prepared s2 timeout where
    run: "check_and_send E V rounds input stx prepared timeout s2 = (r, s')" and
    s2: "submissions s2 = submissions s" "rp_vm_profile s2 = rp_vm_profile s" by metis
  from run assms(2) s2 obtain s4 where
    "send_submission E rounds input (vm_signed_id V stx) (map_option pt_simulation_status prepared) timeout s4 = (r, s')"
    "submissions s4 = submissions s2" "rp_vm_profile s4 = rp_vm_profile s2"
    by (elim check_and_send_guards) auto
  with send_submission_sent s2 show ?thesis by metis
qed

text \<open>The guards of a submission, for the signed transaction \<open>stx\<close> and its encoding \<open>raw_hex\<close>.\<close>

definition submission_allowed :: "NodeEnv \<Rightarrow> ('a, 'y, 'k, 't, 'g, 's) Vm2 \<Rightarrow> AppContext \<Rightarrow> ChainContext \<Rightarrow> 's \<Rightarrow> string \<Rightarrow>
    TransactionEndpointSnapshot \<Rightarrow> bool" where
  "submission_allowed E V s context_given stx raw_hex snap \<longleftrightarrow>
     (let c = ap_config s; t = vm_signed_raw V stx in
      nc_mode c = TransactionMode \<and> pinned c (ut_chain_id t) context_given \<and> same_chain context_given (sn_chain_context snap) \<and>
      sn_now_seconds snap < ut_expiration_timestamp_secs t \<and>
      (\<not> nc_allow_submit_without_prior_simulation c \<longrightarrow>
         (\<exists>p. ap_prepared_transactions s raw_hex = Some p \<and> pt_simulation_status p = SimPerformed \<and>
              kept_at c (ev_instant E (nw_instants s)) (pt_recorded_at p) \<and> same_chain (pt_chain_context p) context_given)) \<and>
      (\<forall>recorded. ap_unresolved_submissions s (vm_signed_id V stx) = Some recorded \<longrightarrow>
         \<not> kept_at c (ev_instant E (Suc (nw_instants s))) recorded))"

lemma submit_allowed:
  assumes "submit_signed_transaction E V rounds input s = (r, s')" "submissions s' \<noteq> submissions s"
  obtains bytes stx raw_hex snap s1 s2 s3 s4 where
    "node_decode_hex_bytes V (si_signed_txn_bcs_hex input) = Inr bytes" "vm_signed_from_bcs V bytes = Inr stx"
    "encode_hex_bcs V (vm_signed_raw V stx) = Inr raw_hex" "load_transaction_endpoint_snapshot E s1 = (Inr snap, s2)"
    "signed_transaction_sequence_is_stale E V stx s3 = (Inr False, s4)"
    "submission_allowed E V s (si_prepared_chain_context input) stx raw_hex snap"
proof -
  from submit_guards [OF assms] obtain bytes stx raw_hex prepared sa sb timeout where
    mode: "nc_mode (ap_config s) = TransactionMode" and
    decoded: "node_decode_hex_bytes V (si_signed_txn_bcs_hex input) = Inr bytes" "vm_signed_from_bcs V bytes = Inr stx"
      "encode_hex_bcs V (vm_signed_raw V stx) = Inr raw_hex" and
    loaded: "load_prepared_transaction_record E raw_hex s = (Inr prepared, sa)"
      "has_unresolved_submission E (vm_signed_id V stx) sa = (Inr False, sb)" and
    run: "check_and_send E V rounds input stx prepared timeout sb = (r, s')" and
    sb: "submissions sb = submissions s" "ap_config sb = ap_config s" by metis
  from run assms(2) sb obtain s1 snap s2 s3 s4 where
    snap: "load_transaction_endpoint_snapshot E s1 = (Inr snap, s2)" "ap_config s1 = ap_config s" and
    checks: "validate_prepared_transaction_record prepared (si_prepared_chain_context input) (sn_chain_context snap) = Inr ()"
      "enforce_submit_simulation_policy (nc_allow_submit_without_prior_simulation (ap_config s)) prepared = Inr ()"
      "validate_signed_transaction_submission (vm_signed_raw V stx) (si_prepared_chain_context input) (sn_chain_context snap) = Inr ()"
      "sn_now_seconds snap < ut_expiration_timestamp_secs (vm_signed_raw V stx)" and
    stale: "signed_transaction_sequence_is_stale E V stx s3 = (Inr False, s4)"
    by (elim check_and_send_guards) auto
  note prepared = load_prepared_Inr [OF loaded(1)] and unresolved = has_unresolved_Inr [OF loaded(2)]
  have chain: "ut_chain_id (vm_signed_raw V stx) = cc_chain_id (sn_chain_context snap)"
    "same_chain (si_prepared_chain_context input) (sn_chain_context snap)"
    using checks(3) by (auto simp: validate_signed_transaction_submission_def split: if_splits)
  have "pinned (ap_config s) (ut_chain_id (vm_signed_raw V stx)) (si_prepared_chain_context input)"
    using snapshot_pinned [OF snap(1)] pinned_same_chain chain snap(2) by metis
  moreover have "\<exists>p. ap_prepared_transactions s raw_hex = Some p \<and> pt_simulation_status p = SimPerformed \<and>
      kept_at (ap_config s) (ev_instant E (nw_instants s)) (pt_recorded_at p) \<and>
      same_chain (pt_chain_context p) (si_prepared_chain_context input)"
    if "\<not> nc_allow_submit_without_prior_simulation (ap_config s)"
    using that checks(1,2) prepared(1)
    by (auto simp: enforce_submit_simulation_policy_def validate_prepared_transaction_record_def split: option.splits if_splits)
  moreover have "\<not> kept_at (ap_config s) (ev_instant E (Suc (nw_instants s))) recorded"
    if "ap_unresolved_submissions s (vm_signed_id V stx) = Some recorded" for recorded
    using that unresolved(1) prepared(2,3,5) by auto
  ultimately have "submission_allowed E V s (si_prepared_chain_context input) stx raw_hex snap"
    using mode chain(2) checks(4) by (simp add: submission_allowed_def)
  with that decoded snap(1) stale show thesis by blast
qed

text \<open>The text of an outcome that could not be learned, and what is recorded with it.\<close>

lemma send_submission_unknown:
  assumes "send_submission E rounds input h st timeout s = (Inr out, s')" "so_submission_state out = SubUnknown"
  shows "so_txn_hash out = h \<and> ap_unresolved_submissions s' h \<noteq> None"
  using assms(1)[unfolded send_submission_def]
proof (cases rule: match_result_cases)
  case (1 x s1)
  from 1(2) assms(2) show ?thesis by (auto simp: ok_apply accepted_submission_output_def elim!: bind_InrE)
next
  case (2 e s1)
  from 2(2) assms(2) show ?thesis
    by (auto simp: ok_apply rejected_submission_output_def submission_unknown_output_def elim!: bind_InrE
        dest!: record_unresolved_Inr split: if_splits)
next
  case (3 stop)
  then show ?thesis by simp
qed

lemma check_and_send_unknown:
  assumes "check_and_send E V rounds input stx prepared timeout s = (Inr out, s')" "so_submission_state out = SubUnknown"
  shows "so_txn_hash out = vm_signed_id V stx \<and> ap_unresolved_submissions s' (vm_signed_id V stx) \<noteq> None"
  using assms[unfolded check_and_send_def Let_def]
  by (auto simp: ok_apply rejected_submission_output_def elim!: bind_InrE
      dest!: send_submission_unknown [OF _ assms(2)] split: if_splits)

lemma submit_Inr:
  assumes "submit_signed_transaction E V rounds input s = (Inr out, s')"
  obtains bytes stx raw_hex prepared unresolved s1 s2 where
    "nc_mode (ap_config s) = TransactionMode" "node_decode_hex_bytes V (si_signed_txn_bcs_hex input) = Inr bytes"
    "vm_signed_from_bcs V bytes = Inr stx" "encode_hex_bcs V (vm_signed_raw V stx) = Inr raw_hex"
    "load_prepared_transaction_record E raw_hex s = (Inr prepared, s1)"
    "has_unresolved_submission E (vm_signed_id V stx) s1 = (Inr unresolved, s2)"
    "unresolved \<Longrightarrow> s' = s2 \<and> so_txn_hash out = vm_signed_id V stx"
    "\<not> unresolved \<Longrightarrow> \<exists>timeout. check_and_send E V rounds input stx prepared timeout s2 = (Inr out, s')"
  using assms[unfolded submit_signed_transaction_def Let_def]
  by (elim bind_InrE) (auto simp: ensure_transaction_mode_def ok_apply submission_unknown_output_def split: if_splits elim!: bind_InrE intro!: that)

lemma submit_unknown:
  assumes "submit_signed_transaction E V rounds input s = (Inr out, s')" "so_submission_state out = SubUnknown"
  shows "ap_unresolved_submissions s' (so_txn_hash out) \<noteq> None"
  using assms(1)
proof (cases rule: submit_Inr)
  case (1 bytes stx raw_hex prepared unresolved s1 s2)
  show ?thesis
  proof (cases unresolved)
    case True
    with 1(7) has_unresolved_Inr(1,2) [OF 1(6)] show ?thesis by force
  next
    case False
    with 1(8) check_and_send_unknown [OF _ assms(2)] show ?thesis by force
  qed
qed

text \<open>As long as a submission of unknown outcome is recorded, its transaction is not sent again.\<close>

lemma submit_while_unresolved:
  assumes "submit_signed_transaction E V rounds input s = (r, s')"
    "node_decode_hex_bytes V (si_signed_txn_bcs_hex input) = Inr bytes" "vm_signed_from_bcs V bytes = Inr stx"
    "ap_unresolved_submissions s (vm_signed_id V stx) = Some t" "kept_at (ap_config s) (ev_instant E (Suc (nw_instants s))) t"
  shows "nw_sent s' = nw_sent s \<and>
    (\<forall>out. r = Inr out \<longrightarrow> so_submission_state out = SubUnknown \<and> so_txn_hash out = vm_signed_id V stx) \<and>
    (nc_mode (ap_config s) = TransactionMode \<and> (\<exists>raw_hex. encode_hex_bcs V (vm_signed_raw V stx) = Inr raw_hex) \<and>
     keep_for (ap_config s) div 1000000000 < 2 ^ 64 \<longrightarrow> (\<exists>out. r = Inr out))"
proof (cases "nc_mode (ap_config s) = TransactionMode")
  case False
  with assms(1) show ?thesis
    by (auto simp: submit_signed_transaction_def bind_def configured_def asks_def ensure_transaction_mode_def tried_def raise_def err_def
        ok_def split: if_splits)
next
  case mode: True
  show ?thesis
  proof (cases "encode_hex_bcs V (vm_signed_raw V stx)")
    case (Inl e)
    with assms mode show ?thesis
      by (auto simp: submit_signed_transaction_def bind_def configured_def asks_def ensure_transaction_mode_def tried_def raise_def err_def
          ok_def quoting_def Let_def)
  next
    case (Inr raw_hex)
    with assms mode show ?thesis
      by (auto simp: submit_signed_transaction_def bind_def configured_def asks_def ensure_transaction_mode_def tried_def raise_def err_def
          ok_def quoting_def Let_def load_prepared_transaction_record_def prune_prepared_transactions_def retention_run read_instant_def
          updates_def has_unresolved_submission_def prune_unresolved_submissions_def kept_at_def submission_unknown_output_def
          split: if_splits)
  qed
qed

lemma retention_fits:
  assumes "load_prepared_transaction_record E h s = (Inr x, s')"
  shows "keep_for (ap_config s) div 1000000000 < 2 ^ 64"
  using assms
  by (auto simp: load_prepared_transaction_record_def prune_prepared_transactions_def bind_def retention_run split: if_splits)

section \<open>Watching\<close>

text \<open>A watch is its loop, run with one permit less; the clock is read once before.\<close>

definition plan_of :: "NodeEnv \<Rightarrow> WatchTransactionInput \<Rightarrow> AppContext \<Rightarrow> WatchPlan" where
  "plan_of E input s =
     \<lparr>wp_txn_hash = wt_txn_hash input, wp_timeout = watch_timeout_of (ap_config s) input,
      wp_poll = watch_poll_of (ap_config s) input, wp_min_blocks = effective_min_confirmed_blocks (wt_min_confirmed_blocks input),
      wp_deadline = word_of_int (utc_seconds E (nw_slept s) (nw_utcs s)) + watch_timeout_of (ap_config s) input\<rparr>"

lemma watch_transaction_cases:
  assumes "watch_transaction E rounds input s = (r, s')"
  obtains e where "r = Inl (Raised e)" "s' = s"
  | s1 s2 where "watch_loop E (plan_of E input s) rounds nothing_seen s1 = (r, s2)" "ap_config s1 = ap_config s"
      "nw_slept s1 = nw_slept s" "nw_utcs s1 = Suc (nw_utcs s)" "nw_slept s' = nw_slept s2"
proof -
  let ?s1 = "s\<lparr>ap_watch_permits := ap_watch_permits s - 1, nw_utcs := Suc (nw_utcs s)\<rparr>"
  obtain y s2 where "watch_loop E (plan_of E input s) rounds nothing_seen ?s1 = (y, s2)" by fastforce
  with assms that show thesis
    by (cases "ensure_capability (supports_transaction_lookup (ap_startup_probe s) \<and> supports_transaction_info_lookup (ap_startup_probe s))
        ''watch_transaction is unavailable for this endpoint profile''")
      (auto simp: watch_transaction_def bind_def asks_def tried_def raise_def err_def ok_def try_watch_permit_def configured_def
        unix_seconds_run plan_of_def split: if_splits)
qed

text \<open>The interval between two rounds is not zero when the configured minimum is not.\<close>

lemma watch_poll_positive:
  assumes "nc_min_watch_poll_interval c = duration_secs m" "m \<noteq> 0"
  shows "0 < uint (watch_poll_of c input)"
proof -
  have "m \<le> watch_poll_of c input" using assms(1) by (simp add: watch_poll_of_def)
  moreover have "0 < uint m" using assms(2) by (simp add: word_neq_0_conv word_less_def)
  ultimately show ?thesis by (simp add: word_le_def)
qed

lemma watch_timeout_bound: "watch_timeout_of c input \<le> as_secs (nc_max_watch_timeout c)"
  by (simp add: watch_timeout_of_def)

section \<open>Loaded configurations\<close>

lemma loaded_valid:
  assumes "NodeConfig_load H cli = Inr c"
  shows "endpoint_secure c" "chain_pinned c" "clamps_ok c"
  using assms by (auto elim: NodeConfig_load_Inr simp: validate_exact)

text \<open>Durations of a loaded configuration are whole seconds.\<close>

lemma loaded_seconds:
  assumes "NodeConfig_load H cli = Inr c"
  obtains d m w p where "nc_default_expiration_ttl c = duration_secs d" "nc_max_expiration_ttl c = duration_secs m"
    "nc_max_watch_timeout c = duration_secs w" "nc_min_watch_poll_interval c = duration_secs p"
  using assms by (auto elim!: NodeConfig_load_Inr simp: NodeConfig_build_def merged_secs_def)

lemma loaded_poll:
  assumes "NodeConfig_load H cli = Inr c"
  shows "0 < uint (watch_poll_of c input)"
  using assms
proof (rule loaded_seconds)
  fix p assume p: "nc_min_watch_poll_interval c = duration_secs p"
  with loaded_valid(3) [OF assms] have "p \<noteq> 0" by (auto simp: clamps_ok_def duration_secs_def)
  with p show ?thesis by (rule watch_poll_positive)
qed

lemma loaded_expirations:
  assumes "NodeConfig_load H cli = Inr c"
  shows "as_secs (nc_default_expiration_ttl c) \<le> as_secs (nc_max_expiration_ttl c)"
  using assms
proof (rule loaded_seconds)
  fix d m assume "nc_default_expiration_ttl c = duration_secs d" "nc_max_expiration_ttl c = duration_secs m"
  with loaded_valid(3) [OF assms] show ?thesis by (simp add: clamps_ok_def duration_secs_def as_secs_def word_le_def)
qed

section \<open>The program\<close>

lemma startup_checks_quiet:
  assumes "startup_checks E c s = (Inr x, s')"
  shows "quiet_start s s'"
proof -
  let ?identify = "\<lambda>p :: EffectiveProbe.
     bind (node_info E) (\<lambda>ni. bind (chain_info E) (\<lambda>ci. bind (tried (validate_chain_identity c ni ci)) (\<lambda>_.
       bind (if nc_mode c = ReadOnly \<and> nc_allow_read_only_chain_autodetect c \<and> (nc_expected_chain_id c = None \<or> nc_expected_network c = None)
             then bind (rfc3339_now E) (\<lambda>t. bind (tried (extract_chain_context ni ci t)) (\<lambda>_. ok ())) else ok ()) (\<lambda>_.
       if 2 ^ 61 \<le> uint (nc_max_concurrent_watch_requests c) \<or> 2 ^ 61 \<le> uint (nc_max_inflight_expensive_requests c)
       then err Panicked else bind (read_instant E) (\<lambda>t. ok (p, t))))))"
  have probing: "obeys quiet_start (\<lambda>_. True) (with_timeout E Dropped (probe E b))" for b by (intro issue_rules) simp
  have "obeys quiet_start (\<lambda>_. True) (err Panicked)" by (simp add: obeys_def err_def starting.R_refl)
  then have identifying: "obeys quiet_start (\<lambda>_. True) (?identify p)" for p by (intro issue_rules)
  from assms[unfolded startup_checks_def] obtain p s1 where
    "with_timeout E Dropped (probe E (nc_mode c = TransactionMode)) s = (Inr p, s1)" "?identify p s1 = (Inr x, s')"
    by (rule bind_InrE) (auto simp: map_error_Inr err_def split: if_splits)
  then show ?thesis using obeysD [OF probing] obeysD [OF identifying] starting.R_trans by blast
qed

text \<open>The program starts with no record of a prepared or of an unresolved transaction.\<close>

lemma bootstrap_starts:
  assumes "bootstrap E HL L c w = Inr s"
  shows "submissions s = submissions w" "rp_vm_profile s = nc_vm_profile c" "ap_config s = c"
    "ap_prepared_transactions s = Map.empty" "ap_unresolved_submissions s = Map.empty"
proof -
  from assms obtain client p t client' where
    new: "NodeRpcClient_new HL L c w = Inr client" and checks: "startup_checks E c client = (Inr (p, t), client')" and
    s: "s = NodeRpcClient.extend client'
          (AppContext.fields c (unat (nc_max_concurrent_watch_requests c)) (unat (nc_max_inflight_expensive_requests c)) p
             (if nc_mode c = TransactionMode then Some \<lparr>cp_probe = p, cp_observed_at = t\<rparr> else None) Map.empty Map.empty)"
    by (auto simp: bootstrap_def anyhow_simps split: sum.splits prod.splits)
  from new have "submissions client = submissions w" "rp_vm_profile client = nc_vm_profile c"
    by (auto simp: NodeRpcClient_new_def anyhow_simps submissions_def NodeWorld.defs NodeRpcClient.defs)
  with startup_checks_quiet [OF checks] s
  show "submissions s = submissions w" "rp_vm_profile s = nc_vm_profile c" "ap_config s = c"
    "ap_prepared_transactions s = Map.empty" "ap_unresolved_submissions s = Map.empty"
    by (auto simp: quiet_start_def submissions_def NodeRpcClient.defs AppContext.defs)
qed

text \<open>A computation of the program that sends no transaction.\<close>

definition silent :: "(AppContext, CliStop, 'x) fallible \<Rightarrow> bool" where
  "silent m \<longleftrightarrow> (\<forall>s r s'. m s = (r, s') \<longrightarrow> submissions s' = submissions s)"

lemma run_tool_cases:
  assumes "run_tool parsed out m s = (r, s')"
  obtains "s' = s" | i r' where "parsed = Inr i" "m i s = (r', s')"
proof (cases parsed)
  case (Inl e)
  with assms that show thesis by (auto simp: run_tool_def with_context_def err_def)
next
  case (Inr i)
  obtain y s1 where "m i s = (y, s1)" by fastforce
  with assms Inr that show thesis
    by (cases y) (auto simp: run_tool_def with_context_def map_error_def bind_def ok_def)
qed

lemma silent_rules:
  "silent (err e)" "(\<And>i. quiet (m i)) \<Longrightarrow> silent (run_tool parsed out m)"
  "(b \<Longrightarrow> silent f) \<Longrightarrow> (\<not> b \<Longrightarrow> silent g) \<Longrightarrow> silent (if b then f else g)"
proof -
  show "silent (run_tool parsed out m)" if "\<And>i. quiet (m i)"
    using quietD [OF that] by (force simp: silent_def idle_step_def elim!: run_tool_cases)
qed (auto simp: silent_def err_def)

lemma call_tool_sends:
  assumes "call_tool E V D rounds stdin_text tool s = (r, s')" "submissions s' \<noteq> submissions s"
  obtains v input r' where "tool = ''submit_signed_transaction''" "read_json_arguments D stdin_text = Inr v"
    "ts_submit_signed_transaction D v = Inr input" "submit_signed_transaction E V rounds input s = (r', s')"
proof (cases "read_json_arguments D stdin_text")
  case (Inl t)
  with assms show thesis by (auto simp: call_tool_def err_def)
next
  case (Inr v)
  show thesis
  proof (cases "tool = ''submit_signed_transaction''")
    case True
    with assms(1) Inr have "run_tool (ts_submit_signed_transaction D v) OutSubmitted (submit_signed_transaction E V rounds) s = (r, s')"
      by (simp add: call_tool_def)
    then show thesis by (cases rule: run_tool_cases) (use assms(2) True Inr that in auto)
  next
    case False
    with Inr have "silent (call_tool E V D rounds stdin_text tool)"
      unfolding call_tool_def Inr sum.case by (intro silent_rules issue_rules) simp
    with assms show thesis unfolding silent_def by blast
  qed
qed

end
