(* ===== verification/Node_Reference.thy ===== *)
theory Node_Reference
  imports Node_Runs
begin

text \<open>
  A reference endpoint of a development chain, a configuration for it and a runtime that has prepared and
  simulated one transaction. The witnesses of the properties on the node client run on it.
\<close>

section \<open>Evaluating numbers\<close>

text \<open>Numbers are read with integers, which are evaluated in binary.\<close>

definition digits_int :: "string \<Rightarrow> int" where
  "digits_int ds = foldl (\<lambda>n d. 10 * n + (of_char d - 48)) 0 ds"

lemma digits_int_value: "list_all is_digit ds \<Longrightarrow> int (digits_value ds) = digits_int ds"
proof (induction ds rule: rev_induct)
  case Nil
  then show ?case by (simp add: digits_value_def digits_int_def)
next
  case (snoc d ds)
  then have "(48 :: nat) \<le> of_char d" by (simp add: is_digit_def)
  with snoc show ?case by (simp add: digits_value_def digits_int_def of_nat_diff of_nat_of_char)
qed

lemma parse_u64_code [code]:
  "parse_u64 s =
     (let ds = (if s \<noteq> [] \<and> hd s = CHR ''+'' then tl s else s) in
      if ds \<noteq> [] \<and> list_all is_digit ds \<and> digits_int ds < 2 ^ 64 then Some (word_of_int (digits_int ds)) else None)"
proof -
  have "list_all is_digit ds \<Longrightarrow> digits_value ds < 2 ^ 64 \<longleftrightarrow> digits_int ds < 2 ^ 64"
    "list_all is_digit ds \<Longrightarrow> (of_nat (digits_value ds) :: u64) = word_of_int (digits_int ds)" for ds
    using digits_int_value [of ds] by (metis of_nat_less_iff of_nat_numeral of_nat_power, metis of_int_of_nat_eq)
  then show ?thesis by (auto simp: parse_u64_def Let_def)
qed

section \<open>The configuration\<close>

definition node_file :: NodeFileConfig where
  "node_file = NodeFileConfig_default
     \<lparr>nf_rpc_endpoint_url := Some ''http://localhost:9850'', nf_mode := Some TransactionMode, nf_vm_profile := Some Vm2Only,
      nf_expected_chain_id := Some 254, nf_expected_network := Some ''dev''\<rparr>"

text \<open>The same, with the simulation before a submission demanded.\<close>

definition node_strict :: NodeFileConfig where
  "node_strict = node_file\<lparr>nf_allow_submit_without_prior_simulation := Some False\<rparr>"

definition node_url :: Url where
  "node_url = \<lparr>url_scheme = ''http'', url_host_str = Some ''localhost'', url_text = ''http://localhost:9850/''\<rparr>"

definition node_host :: "NodeFileConfig \<Rightarrow> NodeHost" where
  "node_host fc =
     \<lparr>node_env_var = (\<lambda>_. None), node_config_dir = Some ''/etc'', node_target_macos = False, node_path_exists = (\<lambda>_. True),
      node_read_to_string = (\<lambda>_. Inr []), node_toml_from_str = (\<lambda>_. Inr fc), url_parse = (\<lambda>_. Inr node_url)\<rparr>"

definition node_config :: "NodeFileConfig \<Rightarrow> NodeConfig" where
  "node_config fc =
     (case NodeConfig_load (node_host fc) NodeCliArgs_default of
        Inr c \<Rightarrow> c
      | Inl _ \<Rightarrow> NodeConfig_build (node_host fc) fc fc None node_url [] None)"

section \<open>The endpoint\<close>

text \<open>The body of an answer is the name of the method; its envelope has the result.\<close>

definition node_results :: "(string \<times> Value) list" where
  "node_results =
     [(''node.info'', VObject [(''net'', VString ''dev''), (''now_seconds'', VNumber ''1000'')]),
      (''chain.info'', VObject [(''chain_id'', VNumber ''254''), (''genesis_hash'', VString ''0xg''),
         (''head'', VObject [(''block_hash'', VString ''0xb''), (''number'', VString ''9''), (''timestamp'', VString ''999'')])]),
      (''chain.get_transaction2'', VObject []),
      (''chain.get_transaction_info2'', VObject [(''block_number'', VString ''7''), (''status'', VString ''Executed'')]),
      (''chain.get_events_by_txn_hash2'', VArray []),
      (''txpool.next_sequence_number2'', VNumber ''3''),
      (''state2.list_resource'', VObject [(''resources'', VObject [])]),
      (''contract2.dry_run_raw'', VObject [(''status'', VString ''Executed''), (''gas_used'', VString ''5'')]),
      (''contract2.resolve_function'', VString ''abi''),
      (''txpool.submit_hex_transaction2'', VString ''0xh'')]"

definition node_envelope :: "string \<Rightarrow> string + RpcEnvelope" where
  "node_envelope body =
     Inr \<lparr>re_jsonrpc = None, re_id = None,
          re_result = (case map_of node_results body of None \<Rightarrow> VBool True | Some v \<Rightarrow> v), re_error = None\<rparr>"

text \<open>The endpoint \<open>node_endpoint lost\<close> answers every request but those of the methods \<open>lost\<close>.\<close>

definition node_endpoint :: "string list \<Rightarrow> NodeEnv" where
  "node_endpoint lost =
     \<lparr>ev_http = (\<lambda>_ q. if rq_method q \<in> set lost then BodyLost ''reset'' else Answered 200 ''200 OK'' (rq_method q)),
      ev_envelope = node_envelope, ev_type_error = (\<lambda>_. ''invalid type''), ev_instant = (\<lambda>n. int n),
      ev_utc = (\<lambda>d n. 1000000000000 + d), ev_rfc3339 = (\<lambda>_. ''now''), ev_evict = (\<lambda>_. 0), ev_drop = (\<lambda>_. None)\<rparr>"

section \<open>The virtual machine\<close>

text \<open>A signed transaction is its transaction; its encoding is the name of the token gas is paid in.\<close>

type_synonym ref_vm = "(string, unit, unit, string, string, (string, unit, unit) UserTransaction) Vm2"

definition node_txn :: "(string, unit, unit) UserTransaction" where
  "node_txn =
     \<lparr>ut_sender = ''0x1'', ut_sequence_number = 3, ut_payload = PackageOf (), ut_max_gas_amount = 10, ut_gas_unit_price = 1,
      ut_expiration_timestamp_secs = 1600, ut_chain_id = 254, ut_gas_token_code = ''STC''\<rparr>"

definition node_vm :: ref_vm where
  "node_vm =
     \<lparr>vm_address_from_str = Inr, vm_address_to_string = id, vm_address_to_bcs = (\<lambda>a. Inr (map of_char a)),
      vm_u128_to_bcs = (\<lambda>n. Inr [of_nat n]), vm_core_code_address = ''0x1'', vm_token_from_str = Inr, vm_token_to_string = id,
      vm_stc_token = ''STC'', vm_token_type = (\<lambda>_. Inr ()), vm_identifier = Inr,
      vm_function_id_from_str = (\<lambda>_. Inl ''no function''), vm_type_tag_from_str = (\<lambda>_. Inl ''no type''),
      vm_argument_from_str = Inr, vm_convert_args = map (map of_char), vm_package_from_bcs = (\<lambda>_. Inl ''no package''),
      vm_package_modules = (\<lambda>_. 0), vm_raw_to_bcs = (\<lambda>t. Inr (map of_char (ut_gas_token_code t))),
      vm_raw_view = (\<lambda>t. Inr (VString (ut_sender t))), vm_signed_from_bcs = (\<lambda>_. Inr node_txn), vm_signed_id = (\<lambda>_. ''0xh''),
      vm_signed_raw = id, vm_hex_decode = (\<lambda>s. Inr (map of_char s)), vm_hex_encode = map (\<lambda>b. char_of (uint b))\<rparr>"

section \<open>The runtime\<close>

definition node_context :: ChainContext where
  "node_context =
     \<lparr>cc_chain_id = 254, cc_network = ''dev'', cc_genesis_hash = ''0xg'', cc_head_block_hash = ''0xb'', cc_head_block_number = 9,
      cc_head_state_root = None, cc_observed_at = ''now''\<rparr>"

definition node_probe :: EffectiveProbe where
  "node_probe =
     \<lparr>supports_node_info = True, supports_chain_info = True, supports_block_lookup = True, supports_block_listing = True,
      supports_transaction_lookup = True, supports_transaction_info_lookup = True, supports_transaction_events_by_hash = True,
      supports_account_state_lookup = True, supports_events_query = True, supports_resource_listing = True,
      supports_module_listing = True, supports_abi_resolution = True, supports_view_call = True,
      supports_transaction_submission = True, supports_raw_dry_run = True\<rparr>"

definition node_world :: NodeWorld where
  "node_world = \<lparr>nw_sent = [], nw_instants = 0, nw_utcs = 0, nw_timeouts = 0, nw_slept = 0, nw_cut = None\<rparr>"

definition node_app :: AppContext where
  "node_app =
     \<lparr>nw_sent = [], nw_instants = 0, nw_utcs = 0, nw_timeouts = 0, nw_slept = 0, nw_cut = None, rp_endpoint = node_url,
      rp_next_id = 1, rp_vm_profile = Vm2Only, rp_chain_info_cache = TimedValueCache_new 3000000000 8,
      rp_abi_cache = TimedValueCache_new 300000000000 2, ap_config = node_config node_strict, ap_watch_permits = 8,
      ap_expensive_permits = 16, ap_startup_probe = node_probe,
      ap_transaction_probe = Some \<lparr>cp_probe = node_probe, cp_observed_at = 0\<rparr>,
      ap_prepared_transactions =
        Map.empty(''STC'' \<mapsto> \<lparr>pt_simulation_status = SimPerformed, pt_chain_context = node_context, pt_recorded_at = 0\<rparr>),
      ap_unresolved_submissions = Map.empty\<rparr>"

definition node_submit :: SubmitSignedTransactionInput where
  "node_submit =
     \<lparr>si_signed_txn_bcs_hex = ''0x00'', si_prepared_chain_context = node_context, si_blocking = False,
      si_timeout_seconds = None, si_min_confirmed_blocks = None\<rparr>"

definition node_watch :: WatchTransactionInput where
  "node_watch =
     \<lparr>wt_txn_hash = ''0xh'', wt_timeout_seconds = None, wt_poll_interval_seconds = None, wt_min_confirmed_blocks = None\<rparr>"

definition node_transfer :: PrepareTransferInput where
  "node_transfer =
     \<lparr>pi_sender = ''0x1'', pi_sender_public_key = Some ''0xk'', pi_sequence_number = None, pi_max_gas_amount = Some 10,
      pi_gas_unit_price = Some 1, pi_expiration_time_secs = None, pi_gas_token = None, pi_receiver = ''0x2'', pi_amount = ''7'',
      pi_token_code = None\<rparr>"

section \<open>The program\<close>

definition node_headers :: HeaderLib where
  "node_headers = \<lparr>header_value_ok = (\<lambda>_. True), header_name_ok = (\<lambda>_. True)\<rparr>"

definition node_tls :: "unit TlsLib" where
  "node_tls =
     \<lparr>url_port_or_known_default = (\<lambda>_. None), to_socket_addrs = (\<lambda>_ _. Inr []), url_set_host = (\<lambda>_ _. None),
      tls_hex_decode = (\<lambda>_. None), tls_base64_decode = (\<lambda>_. None), webpki_verifier = Inr (\<lambda>_ _. True), protocol_versions = Inr (),
      x509_public_key = (\<lambda>_. None), sha256_digest = id, client_build = Inr ()\<rparr>"

definition node_tools :: ToolSerde where
  "node_tools =
     \<lparr>ts_json_from_str = (\<lambda>_. Inl ''no arguments''), ts_empty = (\<lambda>_. Inr ()), ts_get_block = (\<lambda>_. Inl ''no arguments''),
      ts_list_blocks = (\<lambda>_. Inl ''no arguments''), ts_get_transaction = (\<lambda>_. Inl ''no arguments''),
      ts_watch_transaction = (\<lambda>_. Inl ''no arguments''), ts_get_events = (\<lambda>_. Inl ''no arguments''),
      ts_get_account_overview = (\<lambda>_. Inl ''no arguments''), ts_list_resources = (\<lambda>_. Inl ''no arguments''),
      ts_list_modules = (\<lambda>_. Inl ''no arguments''), ts_function_id = (\<lambda>_. Inl ''no arguments''),
      ts_struct_tag = (\<lambda>_. Inl ''no arguments''), ts_module_id = (\<lambda>_. Inl ''no arguments''),
      ts_call_view_function = (\<lambda>_. Inl ''no arguments''), ts_prepare_transfer = (\<lambda>_. Inl ''no arguments''),
      ts_prepare_contract_call = (\<lambda>_. Inl ''no arguments''), ts_prepare_publish_package = (\<lambda>_. Inl ''no arguments''),
      ts_simulate_raw_transaction = (\<lambda>_. Inl ''no arguments''), ts_submit_signed_transaction = (\<lambda>_. Inr node_submit)\<rparr>"

lemma node_config_eq: "\<not> isl (NodeConfig_load (node_host fc) NodeCliArgs_default) \<Longrightarrow>
    NodeConfig_load (node_host fc) NodeCliArgs_default = Inr (node_config fc)"
  by (cases "NodeConfig_load (node_host fc) NodeCliArgs_default") (simp_all add: node_config_def)

lemma node_config_loaded:
  "NodeConfig_load (node_host node_file) NodeCliArgs_default = Inr (node_config node_file)"
  "NodeConfig_load (node_host node_strict) NodeCliArgs_default = Inr (node_config node_strict)"
  by (rule node_config_eq; code_simp)+

lemma node_app_submits:
  "submissions (snd (submit_signed_transaction (node_endpoint []) node_vm 0 node_submit node_app)) \<noteq> submissions node_app"
  by code_simp

end
