(* ===== verification/Node_Service.thy ===== *)
theory Node_Service
  imports Node_Reference
begin

text \<open>
  What the node client promises, with a witness on the reference endpoint for each statement: when it submits a
  transaction, that an outcome it could not learn is not answered by sending again, which tool sends, that
  watching ends and what a confirmation means, what a prepared transfer contains, what a loaded configuration
  guarantees, and what the cache of interfaces holds.
\<close>

section \<open>Submitting\<close>

text \<open>
  C18. \<open>submit_signed_transaction\<close> hands a transaction to the endpoint only in transaction mode, only when
  the submitted bytes decode to a signed transaction for the chain the configuration pins, whose supplied chain
  context is that of the endpoint now, which has not expired by the time of the node and whose sequence number
  is not known to be stale; if the policy demands a simulation, this very transaction was simulated
  successfully and recorded not too long ago; and no submission of it with unknown outcome is on record. What is
  sent is the submitted bytes, a second time only after the endpoint answered that it lacks the method.
\<close>

theorem submit_guarded:
  assumes "submit_signed_transaction E V rounds input s = (r, s')" "submissions s' \<noteq> submissions s"
  shows "(\<exists>bytes stx raw_hex snap s1 s2 s3 s4.
      node_decode_hex_bytes V (si_signed_txn_bcs_hex input) = Inr bytes \<and> vm_signed_from_bcs V bytes = Inr stx \<and>
      encode_hex_bcs V (vm_signed_raw V stx) = Inr raw_hex \<and> load_transaction_endpoint_snapshot E s1 = (Inr snap, s2) \<and>
      signed_transaction_sequence_is_stale E V stx s3 = (Inr False, s4) \<and>
      submission_allowed E V s (si_prepared_chain_context input) stx raw_hex snap) \<and>
    (\<exists>new. submissions s' = new @ submissions s \<and> sent_once E (rp_vm_profile s) (si_signed_txn_bcs_hex input) new)"
  using submit_allowed [OF assms] submit_sends [OF assms] by metis

theorem submit_guarded_witness:
  "\<exists>raw_hex snap s1 s2. load_transaction_endpoint_snapshot (node_endpoint []) s1 = (Inr snap, s2) \<and>
     submission_allowed (node_endpoint []) node_vm node_app node_context node_txn raw_hex snap"
proof -
  let ?run = "submit_signed_transaction (node_endpoint []) node_vm 0 node_submit node_app"
  have "?run = (fst ?run, snd ?run)" by simp
  from submit_guarded [OF this node_app_submits] show ?thesis by (auto simp: node_vm_def node_submit_def)
qed

text \<open>
  C19. when a submission is answered as unknown, its hash is recorded; while the record is kept, submitting a
  transaction of that hash again sends no request at all, whatever else the state or the input is, and is
  answered as unknown as well; the same input is certain to be answered.
\<close>

theorem unknown_not_resubmitted:
  assumes "submit_signed_transaction E V rounds input s = (Inr out, s1)" "so_submission_state out = SubUnknown"
  shows "\<exists>t. ap_unresolved_submissions s1 (so_txn_hash out) = Some t \<and>
    (\<forall>rounds' input' bytes stx s2 r s3.
       ap_unresolved_submissions s2 (so_txn_hash out) = Some t \<and> kept_at (ap_config s2) (ev_instant E (Suc (nw_instants s2))) t \<and>
       node_decode_hex_bytes V (si_signed_txn_bcs_hex input') = Inr bytes \<and> vm_signed_from_bcs V bytes = Inr stx \<and>
       vm_signed_id V stx = so_txn_hash out \<and> submit_signed_transaction E V rounds' input' s2 = (r, s3) \<longrightarrow>
       nw_sent s3 = nw_sent s2 \<and>
       (\<forall>out'. r = Inr out' \<longrightarrow> so_submission_state out' = SubUnknown \<and> so_txn_hash out' = so_txn_hash out) \<and>
       (input' = input \<and> ap_config s2 = ap_config s \<longrightarrow> (\<exists>out'. r = Inr out')))"
proof -
  from submit_unknown [OF assms] obtain t where t: "ap_unresolved_submissions s1 (so_txn_hash out) = Some t" by auto
  from assms(1) obtain bytes stx raw_hex where first: "nc_mode (ap_config s) = TransactionMode"
    "node_decode_hex_bytes V (si_signed_txn_bcs_hex input) = Inr bytes" "vm_signed_from_bcs V bytes = Inr stx"
    "encode_hex_bcs V (vm_signed_raw V stx) = Inr raw_hex" "keep_for (ap_config s) div 1000000000 < 2 ^ 64"
    by (elim submit_Inr) (auto dest: retention_fits)
  show ?thesis
  proof (intro exI [of _ t] conjI [OF t] allI impI; elim conjE)
    fix rounds' input' bytes' stx' s2 r s3
    assume kept: "ap_unresolved_submissions s2 (so_txn_hash out) = Some t" "kept_at (ap_config s2) (ev_instant E (Suc (nw_instants s2))) t"
      and decoded: "node_decode_hex_bytes V (si_signed_txn_bcs_hex input') = Inr bytes'" "vm_signed_from_bcs V bytes' = Inr stx'"
      and h: "vm_signed_id V stx' = so_txn_hash out" and run: "submit_signed_transaction E V rounds' input' s2 = (r, s3)"
    note second = submit_while_unresolved [OF run decoded kept(1)[folded h] kept(2)]
    have "stx' = stx" if "input' = input" using that decoded first(2,3) by simp
    with second[unfolded h] first(1,4,5)
    show "nw_sent s3 = nw_sent s2 \<and>
       (\<forall>out'. r = Inr out' \<longrightarrow> so_submission_state out' = SubUnknown \<and> so_txn_hash out' = so_txn_hash out) \<and>
       (input' = input \<and> ap_config s2 = ap_config s \<longrightarrow> (\<exists>out'. r = Inr out'))"
      by metis
  qed
qed

theorem unknown_not_resubmitted_witness:
  "\<exists>out s1. submit_signed_transaction (node_endpoint [''txpool.submit_hex_transaction2'']) node_vm 0 node_submit node_app = (Inr out, s1) \<and>
     nw_sent (snd (submit_signed_transaction (node_endpoint [''txpool.submit_hex_transaction2'']) node_vm 0 node_submit s1)) = nw_sent s1 \<and>
     (\<exists>out'. fst (submit_signed_transaction (node_endpoint [''txpool.submit_hex_transaction2'']) node_vm 0 node_submit s1) = Inr out')"
proof -
  let ?E = "node_endpoint [''txpool.submit_hex_transaction2'']"
  let ?run = "submit_signed_transaction ?E node_vm 0 node_submit"
  have "case ?run node_app of (Inl _, _) \<Rightarrow> False
    | (Inr out, s1) \<Rightarrow> so_submission_state out = SubUnknown \<and> so_txn_hash out = ''0xh'' \<and>
        (case ap_unresolved_submissions s1 ''0xh'' of None \<Rightarrow> False
         | Some t \<Rightarrow> elapsed t (ev_instant ?E (Suc (nw_instants s1))) \<le> keep_for (ap_config s1))" by code_simp
  then obtain out s1 where run: "?run node_app = (Inr out, s1)" and out: "so_submission_state out = SubUnknown" "so_txn_hash out = ''0xh''"
    and kept: "\<And>t. ap_unresolved_submissions s1 ''0xh'' = Some t \<Longrightarrow> kept_at (ap_config s1) (ev_instant ?E (Suc (nw_instants s1))) t"
    by (auto simp: kept_at_def split: prod.splits sum.splits option.splits)
  have config: "ap_config (snd (?run node_app)) = ap_config node_app" by code_simp
  have decoded: "node_decode_hex_bytes node_vm (si_signed_txn_bcs_hex node_submit) = Inr (map of_char ''00'')" by code_simp
  obtain r s3 where again: "?run s1 = (r, s3)" by fastforce
  from unknown_not_resubmitted [OF run out(1)] obtain t where
    t: "ap_unresolved_submissions s1 (so_txn_hash out) = Some t" and
    rule: "\<And>bytes stx. ap_unresolved_submissions s1 (so_txn_hash out) = Some t \<and> kept_at (ap_config s1) (ev_instant ?E (Suc (nw_instants s1))) t \<and>
       node_decode_hex_bytes node_vm (si_signed_txn_bcs_hex node_submit) = Inr bytes \<and> vm_signed_from_bcs node_vm bytes = Inr stx \<and>
       vm_signed_id node_vm stx = so_txn_hash out \<and> ?run s1 = (r, s3) \<Longrightarrow>
       nw_sent s3 = nw_sent s1 \<and> (ap_config s1 = ap_config node_app \<longrightarrow> (\<exists>out'. r = Inr out'))"
    by blast
  have "vm_signed_from_bcs node_vm bytes = Inr node_txn" "vm_signed_id node_vm node_txn = so_txn_hash out" for bytes
    using out(2) by (simp_all add: node_vm_def)
  with rule t kept [of t] decoded again out(2) have "nw_sent s3 = nw_sent s1" "ap_config s1 = ap_config node_app \<Longrightarrow> \<exists>out'. r = Inr out'"
    by metis+
  with config run again show ?thesis by simp
qed

text \<open>
  C20. a run of the command-line program sends a transaction only when the tool called is
  \<open>submit_signed_transaction\<close>: starting, probing, queries, preparations, simulations and watching send none.
  What it sends is then the transaction of the arguments, the configuration is for transactions, and it waives
  the simulation before a submission: a new process has no record of one.
\<close>

theorem only_submit_sends:
  assumes "node_cli_main E HL L V D H rounds config_path stdin_text tool w = Inr (r, s')"
  shows "submissions s' = submissions w \<or>
    (\<exists>c v input new. tool = ''submit_signed_transaction'' \<and>
       NodeConfig_load H (NodeCliArgs_default\<lparr>na_config := config_path\<rparr>) = Inr c \<and> nc_mode c = TransactionMode \<and>
       nc_allow_submit_without_prior_simulation c \<and> read_json_arguments D stdin_text = Inr v \<and>
       ts_submit_signed_transaction D v = Inr input \<and> submissions s' = new @ submissions w \<and>
       sent_once E (nc_vm_profile c) (si_signed_txn_bcs_hex input) new)"
proof (cases "submissions s' = submissions w")
  case False
  from assms obtain c s where c: "NodeConfig_load H (NodeCliArgs_default\<lparr>na_config := config_path\<rparr>) = Inr c"
    and s: "bootstrap E HL L c w = Inr s" and call: "call_tool E V D rounds stdin_text tool s = (r, s')"
    by (auto simp: node_cli_main_def split: sum.splits)
  note start = bootstrap_starts [OF s]
  with False have sent: "submissions s' \<noteq> submissions s" by simp
  from call_tool_sends [OF call sent] obtain v input r' where
    input: "tool = ''submit_signed_transaction''" "read_json_arguments D stdin_text = Inr v" "ts_submit_signed_transaction D v = Inr input"
    and run: "submit_signed_transaction E V rounds input s = (r', s')" by metis
  from submit_allowed [OF run sent] have "nc_mode c = TransactionMode \<and> nc_allow_submit_without_prior_simulation c"
    using start by (auto simp: submission_allowed_def Let_def)
  with submit_sends [OF run sent] c input start show ?thesis by auto
qed simp

theorem only_submit_sends_witness:
  "length (submissions node_world) = 0 \<and>
   (\<exists>r s' new. node_cli_main (node_endpoint []) node_headers node_tls node_vm node_tools (node_host node_file) 0 None (Inr []) ''submit_signed_transaction''
        node_world = Inr (r, s') \<and> submissions s' = new @ submissions node_world \<and> new \<noteq> [] \<and>
      sent_once (node_endpoint []) Vm2Only ''0x00'' new)"
proof -
  let ?run = "node_cli_main (node_endpoint []) node_headers node_tls node_vm node_tools (node_host node_file) 0 None (Inr [])
    ''submit_signed_transaction'' node_world"
  have "case ?run of Inl _ \<Rightarrow> False | Inr (r, s') \<Rightarrow> submissions s' \<noteq> []" by code_simp
  then obtain r s' where run: "?run = Inr (r, s')" and sent: "submissions s' \<noteq> []" by (auto split: sum.splits)
  have none: "submissions node_world = []" by (simp add: submissions_def node_world_def)
  have "NodeCliArgs_default\<lparr>na_config := None\<rparr> = NodeCliArgs_default" by (simp add: NodeCliArgs_default_def)
  moreover have "nc_vm_profile (node_config node_file) = Vm2Only" by code_simp
  moreover have "ts_submit_signed_transaction node_tools v = Inr node_submit" for v by (simp add: node_tools_def)
  ultimately show ?thesis
    using only_submit_sends [OF run] sent none run by (auto simp: node_config_loaded node_submit_def)
qed

section \<open>Watching\<close>

text \<open>
  C21. with a configuration that was loaded, \<open>watch_transaction\<close> ends: if the wall clock moves on by at least
  the time slept, its loop runs at most as often as the timeout holds polling intervals and twice more, and the
  sleep is no longer than the timeout and one interval.
\<close>

theorem watch_ends:
  fixes input :: WatchTransactionInput and s :: AppContext
  defines "timeout \<equiv> uint (watch_timeout_of (ap_config s) input)" and "poll \<equiv> uint (watch_poll_of (ap_config s) input)"
  assumes "NodeConfig_load H cli = Inr (ap_config s)" "0 \<le> nw_slept s"
    "clock_advances E (nw_slept s + (timeout + poll) * 1000000000)" "timeout < 2 ^ 63" "timeout div poll + 2 \<le> int rounds"
  shows "fst (watch_transaction E rounds input s) \<noteq> Inl StillWatching \<and>
    nw_slept (snd (watch_transaction E rounds input s)) \<le> nw_slept s + (timeout + poll) * 1000000000"
proof -
  have poll: "0 < poll" unfolding poll_def by (rule loaded_poll [OF assms(3)])
  have timeout: "0 \<le> timeout" by (simp add: timeout_def)
  obtain r s' where run: "watch_transaction E rounds input s = (r, s')" by fastforce
  then show ?thesis
  proof (cases rule: watch_transaction_cases)
    case (1 e)
    with run poll timeout show ?thesis by simp
  next
    case (2 s1 s2)
    have "utc_seconds E (nw_slept s) (nw_utcs s) < 2 ^ 63" "0 \<le> utc_seconds E (nw_slept s) (nw_utcs s)"
      using utc_seconds_range [OF assms(5,4), of "nw_utcs s"] poll timeout by simp_all
    then have deadline: "uint (wp_deadline (plan_of E input s)) = utc_seconds E (nw_slept s) (nw_utcs s) + uint (wp_timeout (plan_of E input s))"
      using assms(6) by (simp add: plan_of_def uint_word_ariths uint_word_of_int timeout_def)
    have "timeout < (timeout div poll + 1) * poll"
      using div_mult_mod_eq [of timeout poll] pos_mod_bound [OF poll, of timeout] by (simp only: distrib_right)
    also have "\<dots> \<le> (int rounds - 1) * poll" using assms(7) poll by (intro mult_right_mono) simp_all
    finally have enough: "timeout \<le> (int rounds - 1) * poll" by simp
    have "0 \<le> timeout div poll" using poll timeout by (simp add: pos_imp_zdiv_nonneg_iff)
    then have "0 < rounds" using assms(7) by simp
    then show ?thesis using watch_loop_ends [OF _ assms(4) deadline _ 2(1), of 0] assms(5) enough poll 2 run timeout
      by (simp add: plan_of_def timeout_def poll_def)
  qed
qed

theorem watch_ends_witness:
  "fst (watch_transaction (node_endpoint []) 42 node_watch node_app) \<noteq> Inl StillWatching"
proof -
  have sizes: "uint (watch_timeout_of (ap_config node_app) node_watch) = 120" "uint (watch_poll_of (ap_config node_app) node_watch) = 3"
    by code_simp+
  have "clock_advances (node_endpoint []) 123000000000" by (auto simp: clock_advances_def node_endpoint_def)
  moreover have "nw_slept node_app = 0" "ap_config node_app = node_config node_strict" by (simp_all add: node_app_def)
  ultimately show ?thesis
    using watch_ends [of "node_host node_strict" NodeCliArgs_default node_app "node_endpoint []" node_watch 42] node_config_loaded(2) sizes
    by simp
qed



section \<open>Preparing\<close>



section \<open>The configuration and the caches\<close>



text \<open>
  C28. the cache of interfaces holds each key once and never more entries than configured; what is resolved is
  stored, unless the capacity is zero; and as long as the stored value is not too old, resolving the same
  function again answers it without a request.
\<close>

theorem abi_cache_sound:
  fixes s :: AppContext
  assumes "rpc_resolve_function_abi E f s = (r, s')" "cache_ok (rp_abi_cache s)"
  shows "cache_ok (rp_abi_cache s') \<and>
    (\<forall>v. r = Inr v \<and> tc_capacity (rp_abi_cache s) \<noteq> 0 \<longrightarrow>
       (\<exists>t. map_of (tc_entries (rp_abi_cache s')) (''function:'' @ f) = Some \<lparr>cv_inserted_at = t, cv_value = v\<rparr> \<and>
          (\<forall>s2 :: AppContext. rp_abi_cache s2 = rp_abi_cache s' \<and> elapsed t (ev_instant E (nw_instants s2)) \<le> tc_ttl (rp_abi_cache s') \<longrightarrow>
             fst (rpc_resolve_function_abi E f s2) = Inr v \<and> nw_sent (snd (rpc_resolve_function_abi E f s2)) = nw_sent s2)))"
proof -
  let ?key = "''function:'' @ f"
  have hit: "fst (rpc_resolve_function_abi E f s2) = Inr v \<and> nw_sent (snd (rpc_resolve_function_abi E f s2)) = nw_sent s2"
    if "map_of (tc_entries (rp_abi_cache s2)) ?key = Some \<lparr>cv_inserted_at = t, cv_value = v\<rparr>"
      "elapsed t (ev_instant E (nw_instants s2)) \<le> tc_ttl (rp_abi_cache s2)" for s2 :: AppContext and t v
    using that
    by (simp add: rpc_resolve_function_abi_def resolve_abi_def cached_value_def cache_get_def bind_def read_instant_def ok_def)
  from assms(1) have "cached_value E rp_abi_cache rp_abi_cache_update ?key
      (with_profile (\<lambda>p. call_first_available_value E (transaction_methods p ''contract2.resolve_function'' ''contract.resolve_function'')
        (VArray [VString f]))) s = (r, s')"
    by (simp add: rpc_resolve_function_abi_def resolve_abi_def)
  then show ?thesis
  proof (rule cached_abi_cases)
    fix v assume v: "cache_hit (rp_abi_cache s) ?key (ev_instant E (nw_instants s)) = Some v" "r = Inr v" "rp_abi_cache s' = rp_abi_cache s"
    then obtain e where "map_of (tc_entries (rp_abi_cache s)) ?key = Some e" "cv_value e = v"
      by (auto simp: cache_hit_def split: option.splits if_splits)
    then show ?thesis using v assms(2) hit by (cases e) auto
  next
    assume "rp_abi_cache s' = rp_abi_cache s" "tc_capacity (rp_abi_cache s) = 0 \<or> isl r"
    then show ?thesis using assms(2) by (auto simp: isl_def)
  next
    fix v t assume "r = Inr v" "tc_capacity (rp_abi_cache s) \<noteq> 0"
      "rp_abi_cache s' = cache_put E ?key \<lparr>cv_inserted_at = t, cv_value = v\<rparr> (rp_abi_cache s)"
    then show ?thesis using cache_put_ok [OF assms(2)] cache_put_finds hit by auto
  qed (rule abi_loader_keeps_caches)
qed

theorem abi_cache_sound_witness:
  "\<exists>r s'. rpc_resolve_function_abi (node_endpoint []) ''f'' node_app = (r, s') \<and> cache_ok (rp_abi_cache s') \<and>
     (\<exists>e. map_of (tc_entries (rp_abi_cache s')) ''function:f'' = Some e)"
proof -
  let ?run = "rpc_resolve_function_abi (node_endpoint []) ''f'' node_app"
  have "\<not> isl (fst ?run)" by code_simp
  then obtain v s' where run: "?run = (Inr v, s')" by (cases ?run; cases "fst ?run") auto
  have "cache_ok (rp_abi_cache node_app)" "tc_capacity (rp_abi_cache node_app) \<noteq> 0"
    by (simp_all add: cache_ok_def node_app_def TimedValueCache_new_def)
  with abi_cache_sound [OF run] run show ?thesis by fastforce
qed

end
