(* ===== verification/Spec2Isabelle.thy ===== *)
theory Spec2Isabelle
  imports Coordinator_Service Agent_Service Node_Service
begin

text \<open>
  A verification library of starcoin-mcp: the wallet runtime and the node client.

  \<^bold>\<open>The program.\<close> A user's wallet (a browser extension, or an agent that holds a local
  account directory) and the clients that want something signed never talk to each other. Both talk to the daemon
  \<open>starmaskd\<close>, which keeps every request in a SQLite database and leads it from its creation over its
  delivery and presentation to a decision. \<open>src/starmask-runtime/crates\<close> holds its parts:
  \<open>starmask-types\<close> (identifiers, lifecycle, records, errors, protocol structures),
  \<open>starmask-core\<close> (the \<open>Coordinator\<close>, written against repository traits, a clock and an
  identifier generator), \<open>starmaskd\<close> (\<open>SqliteStore\<close>, the coordinator thread, configuration and
  socket server), \<open>starmask-native-host\<close> and \<open>starmask-local-account-agent\<close> (the two sides a
  wallet connects through) and \<open>starmaskctl\<close>. What is to be signed is prepared, and what was signed is
  submitted, by the node client of \<open>src/starcoin-node/crates\<close>: \<open>starcoin-node-types\<close>
  (configuration, tool inputs and outputs), \<open>starcoin-node-rpc\<close> (JSON-RPC over HTTP, caches, probing),
  \<open>starcoin-node-core\<close> (\<open>AppContext\<close>: queries, preparation, simulation, submission, watching) and
  \<open>starcoin-node-cli\<close>. A client joins the two: the transaction the node client prepares is the payload of
  a request of the daemon, and the result of that request is what the node client submits.

  \<^bold>\<open>Theories of the daemon.\<close>
  \<^item> \<open>Prelude\<close>: fallible stateful computations with a weakest-precondition calculus (\<open>wp_rules\<close>),
    machine arithmetic, tables with a key.
  \<^item> \<open>Wallet_Types\<close>, \<open>Coordinator_Types\<close>: \<open>starmask-types\<close> and the commands, errors,
    results and configuration of \<open>starmask-core\<close>; \<open>Daemon_Protocol\<close>: the structures of
    \<open>daemon.rs\<close>.
  \<^item> \<open>Lifecycle\<close>: the abstract specification, well-formed request records and the steps a table of
    requests may take; \<open>quiet_step\<close> are those that approve nothing.
  \<^item> \<open>Store_Interface\<close>: the traits of \<open>repo.rs\<close> as a record of methods, and as locales that state
    what an implementation promises of an abstract view of its state.
  \<^item> \<open>Coordinator\<close>: every method of \<open>service.rs\<close> and \<open>dispatch\<close>; \<open>run_coordinator\<close> is the
    loop of \<open>spawn_coordinator\<close>.
  \<^item> \<open>Coordinator_Rules\<close>, \<open>_Delivery\<close>, \<open>_Creation\<close>, \<open>_Maintenance\<close>, \<open>_Wallets\<close>,
    \<open>_Runs\<close>: the coordinator proved once against the store contract, in the locale
    \<open>coordinator_store\<close>.
  \<^item> \<open>Wire_Names\<close>, \<open>Sqlite_Db\<close>, \<open>Account_Labels\<close>, \<open>Sqlite_Store\<close>: the tables,
    statements and transactions of \<open>sqlite_store.rs\<close> and \<open>account_labels.rs\<close>; \<open>Sqlite_Schema\<close>:
    \<open>schema.rs\<close> and \<open>SqliteStore::open\<close>.
  \<^item> \<open>Sqlite_Requests\<close>, \<open>Sqlite_Wallets\<close>, \<open>Sqlite_Daemon\<close>: the SQLite store keeps the
    contract, so the coordinator's lemmas hold of the program as it is deployed.
  \<^item> \<open>Daemon_Config\<close>: loading and validating the configuration (\<open>config.rs\<close>); \<open>Server\<close>: one
    connection of \<open>server.rs\<close> from its bytes to its reply, all methods and the policy;
    \<open>Server_Rules\<close>: the server as a client of the coordinator; \<open>Daemon_Service\<close>: its properties.
  \<^item> \<open>Native_Framing\<close>, \<open>Native_Bridge\<close>, \<open>Native_Client\<close>, \<open>Native_Host\<close> and their
    \<open>Native_Service\<close>: the native messaging host, its frames, messages, socket client, notifications and
    loop.
  \<^item> \<open>Agent_Files\<close>, \<open>Agent_Keys\<close>, \<open>Agent_Terminal\<close>, \<open>Agent_Display\<close>,
    \<open>Agent_Prompt\<close>, \<open>Agent_Support\<close>, \<open>Agent\<close>, \<open>Agent_Rules\<close>, \<open>Agent_Service\<close>: the
    local account agent, its key files, what it draws and asks, its request flows and its loop.
  \<^item> \<open>Coordinator_Service\<close>: the properties of the coordinator on the SQLite store.
  \<^item> \<open>Reference\<close>, \<open>Wire_Reference\<close>, \<open>Agent_Reference\<close>: concrete environments, commands and
    messages the witnesses are evaluated on.

  \<^bold>\<open>Theories of the node client.\<close>
  \<^item> \<open>Node_Types\<close>, \<open>Node_Config\<close>: \<open>domain.rs\<close>, \<open>error.rs\<close>, \<open>dto.rs\<close>, \<open>config.rs\<close>.
  \<^item> \<open>Node_Json\<close>: \<open>helpers.rs\<close>; \<open>Node_Tls\<close>: \<open>tls.rs\<close>; \<open>Node_Rpc\<close>: the client with its
    caches; \<open>Node_Core\<close>: probing, the state, starting, and the records of prepared and unresolved
    transactions.
  \<^item> \<open>Node_Prepare\<close>: \<open>transaction.rs\<close>; \<open>Node_Submit\<close>: \<open>submission.rs\<close>;
    \<open>Node_Queries\<close>: \<open>queries.rs\<close> and the program.
  \<^item> \<open>Node_Rules\<close>: the locales \<open>client_relation\<close> and \<open>app_relation\<close> show once that every
    operation obeys a relation its single steps obey; interpreted, they say that nothing but a submission
    sends a transaction, that starting sends none, and that time passes by sleeping only.
  \<^item> \<open>Node_Safety\<close>, \<open>Node_Watch\<close>, \<open>Node_Facts\<close>, \<open>Node_Runs\<close>: guards of a submission, the
    loop of a watch, preparations and caches, whole operations; \<open>Node_Reference\<close>, \<open>Node_Service\<close>: a
    concrete endpoint, and the properties.

  \<^bold>\<open>State.\<close> A Rust method on \<open>&mut self\<close> is a function from the state to a result and the state
  it leaves; the state survives an error. A \<open>Coordinator\<close> holds its store, its configuration and the
  positions in three sources (the clock readings and the request and lease identifiers), which stand for
  \<open>SystemClock\<close> and \<open>UuidIdGenerator\<close>. A SQLite database is the list of rows of each table, and a
  statement may fail at any point (\<open>env\<close> decides), upon which its transaction is rolled back. The agent
  carries its account manager, file system and terminal, each of whose operations may fail. The node client
  carries the requests it has sent and the number of clock readings, so that the endpoint may answer every
  request as it likes; a panic and a dropped future are outcomes of their own.

  \<^bold>\<open>Parameters.\<close> Code outside the repository is an argument: SQLite's failures (\<open>Env\<close>), the SHA-256
  hash, the encoders and decoders \<open>serde\<close> derives (\<open>Serde\<close>, \<open>ClientSerde\<close>, \<open>BridgeSerde\<close>,
  \<open>AgentSerde\<close>, \<open>ToolSerde\<close>), the operating system (\<open>Host\<close>, \<open>NodeHost\<close>, the faults of
  \<open>FileSystem\<close> and \<open>Tty\<close>), the Starcoin libraries (\<open>Chain\<close>, \<open>AccountManager\<close>,
  \<open>Vm2\<close>), the HTTP and TLS libraries and the endpoint (\<open>NodeEnv\<close>, \<open>HeaderLib\<close>,
  \<open>TlsLib\<close>). What is relied on are named hypotheses: \<open>env_ok\<close> (a JSON text reads back as the value
  written), \<open>serde_ok\<close>, \<open>resolve_wire_ok\<close> and \<open>agent_wire_ok\<close> (a message reads back as the one
  written), and \<open>clock_advances\<close> (the wall clock moves by at least what is slept).

  \<^bold>\<open>Loops.\<close> They run over finite lists or have a measure. Only \<open>watch_loop\<close> has fuel, its number of
  rounds: \<open>watch_ends\<close> shows that the timeout divided by the interval and two rounds more are enough. The
  endless loops of the daemon, the host and the agent are taken over a finite list of inputs.

  \<^bold>\<open>Properties.\<close> Those on the coordinator and the store are in \<open>Coordinator_Service\<close> and follow from the library by
  \<open>sqlite_coordinator\<close>; those on the other parts are in their \<open>_Service\<close> theories, and that on a
  daemon started on an empty database is stated here. They range from
  single operations to compositions: a decision typed at the agent's terminal over client, socket, server and
  coordinator to the stored request, and a run of the node's program from its configuration to what it sends.

  \<^bold>\<open>Not modelled.\<close> \<open>starmaskctl\<close> (it prints diagnostics), \<open>main.rs\<close> and \<open>lib.rs\<close> of
  \<open>starmaskd\<close> (they start threads and the log), binding the socket and accepting connections, creating
  directories, writing the output of the node's program, its test support, the Python plugin and the
  documents. Requests of the daemon are served one after another, as its coordinator thread does; operations of
  the node client run one at a time, as in its program, so the permits are taken and given back but not
  contended for.
\<close>

section \<open>The daemon as a whole\<close>

text \<open>
  C3. Opening an empty database and running the coordinator on it: whatever the clock reads and
  whatever valid identifiers are drawn, the table of requests after any run is reachable from the
  empty table by lifecycle steps, the invariant holds, and every command was answered.
\<close>

theorem opened_daemon_runs:
  assumes "env_ok env" "open_store env dir_created connection_open d0 = (Inr (), d)" "user_version d0 = 0"
    "sources_ok (Coordinator_new (db_connection d) clk rids lids cfg)" "list_all cmd_ok cmds"
    "run_coordinator (sqlite_traits env P J H) cmds (Coordinator_new (db_connection d) clk rids lids cfg) = (replies, c')"
  shows "coord_inv (sqlite_view env) c' \<and> table_steps Map.empty (db_reqs env (store c')) \<and> length replies = length cmds"
proof -
  have "no_rows (db_connection d)"
    using wp_okD [OF open_store_wp [OF same_database_refl] assms(2)] assms(3) by simp
  from no_rows_inv [OF this, of env] have "coord_inv (sqlite_view env) (Coordinator_new (db_connection d) clk rids lids cfg)"
    and "db_reqs env (store (Coordinator_new (db_connection d) clk rids lids cfg)) = Map.empty"
    using assms(4) by (simp_all add: coord_inv_def Coordinator_new_def)
  with coordinator_store.run_inv [OF sqlite_coordinator [OF assms(1)] assms(6) _ assms(5)] show ?thesis by simp
qed

theorem opened_daemon_runs_witness:
  "\<exists>d. open_store ref_env (Inr ()) (Inr ()) ref_database = (Inr (), d) \<and>
     length (fst (run_coordinator ref_traits ref_script
       (Coordinator_new (db_connection d) (\<lambda>n. int n) (\<lambda>_. Inr ''r'') (\<lambda>_. Inr ''l'') (CoordinatorConfig_default ''0.1.0'')))) = 5"
proof -
  have "\<not> isl (fst (open_store ref_env (Inr ()) (Inr ()) ref_database))" by (rule ref_opens)
  then obtain d where d: "open_store ref_env (Inr ()) (Inr ()) ref_database = (Inr (), d)"
    by (rule runs_okE) simp
  let ?c = "Coordinator_new (db_connection d) (\<lambda>n. int n) (\<lambda>_. Inr ''r'') (\<lambda>_. Inr ''l'') (CoordinatorConfig_default ''0.1.0'')"
  obtain replies c' where run: "run_coordinator ref_traits ref_script ?c = (replies, c')" by fastforce
  have "sources_ok ?c" using nonblank_ids [of _ 0] by (auto simp: sources_ok_def Coordinator_new_def)
  moreover have "user_version ref_database = 0" by (simp add: ref_database_def)
  ultimately have "length replies = length ref_script"
    using opened_daemon_runs [OF ref_env_ok d _ _ _ run] ref_script_ok [of 5] by (simp add: ref_script_def)
  with d run show ?thesis by (auto simp: ref_script_def)
qed

end
